(* ===== verification/Prelude.thy ===== *)
theory Prelude
  imports Complex_Main
begin

text \<open>
  Shared vocabulary of the development: Python exceptions and results, computations that
  thread a state and may raise, insertion-ordered dictionaries, and the string operations
  and number formats of Python that the modelled modules use.

  Conventions: a Python \<open>float\<close> is a \<open>real\<close> (rounding is not modelled), an \<open>int\<close> is an
  \<open>int\<close> or, where the code only builds non-negative ones, a \<open>nat\<close>; a \<open>str\<close> is a
  \<open>string\<close>, and a character outside ASCII is spelled by its UTF-8 bytes.
\<close>

named_theorems res_simps \<open>equations of results and of state computations\<close>

section \<open>Exceptions and results\<close>

text \<open>The exception classes the modelled modules raise or catch.\<close>

datatype exc_kind =
    ValueError | TypeError | ImportError | RuntimeError | AttributeError | KeyError
  | IndexError | NotImplementedError | FileNotFoundError | ZeroDivisionError
  | JSONDecodeError | StatisticsError | NativeError | SystemExit | OtherError string

datatype pyexc = PyExc (exc_class: exc_kind) (exc_msg: string)

type_synonym 'a res = "pyexc + 'a"

definition raise :: "exc_kind \<Rightarrow> string \<Rightarrow> 'a res" where
  "raise k m = Inl (PyExc k m)"

definition bindR :: "'a res \<Rightarrow> ('a \<Rightarrow> 'b res) \<Rightarrow> 'b res" where
  "bindR r f = (case r of Inl e \<Rightarrow> Inl e | Inr x \<Rightarrow> f x)"

definition catchR :: "(pyexc \<Rightarrow> bool) \<Rightarrow> 'a res \<Rightarrow> (pyexc \<Rightarrow> 'a res) \<Rightarrow> 'a res" where
  "catchR p r h = (case r of Inl e \<Rightarrow> if p e then h e else Inl e | Inr x \<Rightarrow> Inr x)"

text \<open>The \<open>except\<close> clauses of the code: \<open>except Exception\<close> lets only \<open>SystemExit\<close> pass.\<close>

definition any_exception :: "pyexc \<Rightarrow> bool" where
  "any_exception e \<longleftrightarrow> exc_class e \<noteq> SystemExit"

definition import_or_attribute :: "pyexc \<Rightarrow> bool" where
  "import_or_attribute e \<longleftrightarrow> exc_class e = ImportError \<or> exc_class e = AttributeError"

definition raises :: "exc_kind \<Rightarrow> 'a res \<Rightarrow> bool" where
  "raises k r \<longleftrightarrow> (case r of Inl e \<Rightarrow> exc_class e = k | Inr _ \<Rightarrow> False)"

definition returns :: "'a res \<Rightarrow> bool" where
  "returns r \<longleftrightarrow> (case r of Inl _ \<Rightarrow> False | Inr _ \<Rightarrow> True)"

lemma bindR_simps [simp, res_simps]:
  "bindR (Inl e) f = Inl e"
  "bindR (Inr x) f = f x"
  "bindR (raise k m) f = raise k m"
  by (simp_all add: bindR_def raise_def)

lemma bindR_Inr_iff: "bindR r f = Inr y \<longleftrightarrow> (\<exists>x. r = Inr x \<and> f x = Inr y)"
  by (cases r) auto

lemma bindR_Inr_D [dest]: "bindR r f = Inr y \<Longrightarrow> \<exists>x. r = Inr x \<and> f x = Inr y"
  by (simp add: bindR_Inr_iff)

lemma bindR_assoc: "bindR (bindR r f) g = bindR r (\<lambda>x. bindR (f x) g)"
  by (cases r) auto

lemma catchR_simps [simp, res_simps]:
  "catchR p (Inr x) h = Inr x"
  "p e \<Longrightarrow> catchR p (Inl e) h = h e"
  "\<not> p e \<Longrightarrow> catchR p (Inl e) h = Inl e"
  by (simp_all add: catchR_def)

lemma raise_neq [simp]: "raise k m \<noteq> Inr x" "Inr x \<noteq> raise k m"
  by (simp_all add: raise_def)

lemma raises_simps [simp, res_simps]:
  "raises k (raise k' m) \<longleftrightarrow> k' = k"
  "raises k (Inl e) \<longleftrightarrow> exc_class e = k"
  "raises k (Inr x) \<longleftrightarrow> False"
  by (auto simp: raises_def raise_def)

lemma returns_simps [simp, res_simps]:
  "returns (raise k m) \<longleftrightarrow> False"
  "returns (Inl e) \<longleftrightarrow> False"
  "returns (Inr x) \<longleftrightarrow> True"
  by (auto simp: returns_def raise_def)

lemma returns_iff: "returns r \<longleftrightarrow> (\<exists>x. r = Inr x)"
  by (cases r) auto

text \<open>Reading and writing a list by a Python index: a negative one counts from the end.\<close>

definition py_position :: "nat \<Rightarrow> int \<Rightarrow> nat res" where
  "py_position n i = (let j = if i < 0 then int n + i else i in
     if 0 \<le> j \<and> j < int n then Inr (nat j) else raise IndexError ''list index out of range'')"

definition py_getitem :: "'a list \<Rightarrow> int \<Rightarrow> 'a res" where
  "py_getitem xs i = bindR (py_position (length xs) i) (\<lambda>j. Inr (xs ! j))"

definition py_setitem :: "'a list \<Rightarrow> int \<Rightarrow> 'a \<Rightarrow> 'a list res" where
  "py_setitem xs i v = bindR (py_position (length xs) i) (\<lambda>j. Inr (xs[j := v]))"

lemma py_position_Inr:
  "py_position n i = Inr j \<longleftrightarrow> j < n \<and> (i = int j \<or> i = int j - int n)"
  by (auto simp: py_position_def Let_def split: if_splits)

text \<open>A \<open>for\<close> loop that builds a list and stops at the first exception.\<close>

fun mapR :: "('a \<Rightarrow> 'b res) \<Rightarrow> 'a list \<Rightarrow> 'b list res" where
  "mapR f [] = Inr []"
| "mapR f (x # xs) = bindR (f x) (\<lambda>y. bindR (mapR f xs) (\<lambda>ys. Inr (y # ys)))"

text \<open>A \<open>for\<close> loop that updates one variable and stops at the first exception.\<close>

fun foldR :: "('a \<Rightarrow> 'b \<Rightarrow> 'b res) \<Rightarrow> 'a list \<Rightarrow> 'b \<Rightarrow> 'b res" where
  "foldR f [] s = Inr s"
| "foldR f (x # xs) s = bindR (f x s) (foldR f xs)"

lemma mapR_Inr_length: "mapR f xs = Inr ys \<Longrightarrow> length ys = length xs"
  by (induction xs arbitrary: ys) (auto simp: bindR_Inr_iff)

lemma mapR_total: "(\<And>x. x \<in> set xs \<Longrightarrow> f x = Inr (g x)) \<Longrightarrow> mapR f xs = Inr (map g xs)"
  by (induction xs) auto

lemma foldR_append: "foldR f (xs @ ys) s = bindR (foldR f xs s) (foldR f ys)"
proof (induction xs arbitrary: s)
  case Nil
  then show ?case by simp
next
  case (Cons x xs)
  then show ?case by (cases "f x s") auto
qed

text \<open>The value of a Python \<open>float\<close> where the code uses infinities.\<close>

datatype pyfloat = Fin real | PosInf | NegInf | NaN

section \<open>Computations with a state\<close>

text \<open>
  An exception does not undo the effects before it: the state is returned in both cases.
\<close>

type_synonym ('s, 'a) st = "'s \<Rightarrow> 'a res \<times> 's"

definition returnS :: "'a \<Rightarrow> ('s, 'a) st" where
  "returnS x = (\<lambda>s. (Inr x, s))"

definition raiseS :: "exc_kind \<Rightarrow> string \<Rightarrow> ('s, 'a) st" where
  "raiseS k m = (\<lambda>s. (raise k m, s))"

definition liftS :: "'a res \<Rightarrow> ('s, 'a) st" where
  "liftS r = (\<lambda>s. (r, s))"

definition bindS :: "('s, 'a) st \<Rightarrow> ('a \<Rightarrow> ('s, 'b) st) \<Rightarrow> ('s, 'b) st" where
  "bindS c f = (\<lambda>s. case c s of (Inl e, s') \<Rightarrow> (Inl e, s') | (Inr x, s') \<Rightarrow> f x s')"

definition catchS :: "(pyexc \<Rightarrow> bool) \<Rightarrow> ('s, 'a) st \<Rightarrow> (pyexc \<Rightarrow> ('s, 'a) st) \<Rightarrow> ('s, 'a) st" where
  "catchS p c h = (\<lambda>s. case c s of
     (Inl e, s') \<Rightarrow> if p e then h e s' else (Inl e, s') | (Inr x, s') \<Rightarrow> (Inr x, s'))"

lemma returnS_apply [simp, res_simps]: "returnS x s = (Inr x, s)"
  by (simp add: returnS_def)

lemma raiseS_apply [simp, res_simps]: "raiseS k m s = (raise k m, s)"
  by (simp add: raiseS_def)

lemma liftS_apply [simp, res_simps]: "liftS r s = (r, s)"
  by (simp add: liftS_def)

lemma bindS_apply [res_simps]:
  "bindS c f s = (case c s of (Inl e, s') \<Rightarrow> (Inl e, s') | (Inr x, s') \<Rightarrow> f x s')"
  by (simp add: bindS_def)

lemma catchS_apply [res_simps]:
  "catchS p c h s = (case c s of
     (Inl e, s') \<Rightarrow> if p e then h e s' else (Inl e, s') | (Inr x, s') \<Rightarrow> (Inr x, s'))"
  by (simp add: catchS_def)

text \<open>A \<open>for\<close> loop over a list, stopped by the first exception.\<close>

fun forS :: "('x \<Rightarrow> ('s, unit) st) \<Rightarrow> 'x list \<Rightarrow> ('s, unit) st" where
  "forS f [] = returnS ()"
| "forS f (x # xs) = bindS (f x) (\<lambda>_. forS f xs)"

lemma bindS_Inr: "c s = (Inr x, s') \<Longrightarrow> bindS c f s = f x s'"
  by (simp add: bindS_def)

lemma bindS_Inl: "c s = (Inl e, s') \<Longrightarrow> bindS c f s = (Inl e, s')"
  by (simp add: bindS_def)

text \<open>\<open>for _ in range(n)\<close>.\<close>

fun repeatS :: "nat \<Rightarrow> ('s, 'a) st \<Rightarrow> ('s, 'a list) st" where
  "repeatS 0 c = returnS []"
| "repeatS (Suc n) c = bindS c (\<lambda>x. bindS (repeatS n c) (\<lambda>xs. returnS (x # xs)))"

lemma repeatS_length: "repeatS n c s = (Inr xs, s') \<Longrightarrow> length xs = n"
  by (induction n arbitrary: s xs) (auto simp: bindS_def split: prod.splits sum.splits)

lemma forS_append: "forS f (xs @ ys) = bindS (forS f xs) (\<lambda>_. forS f ys)"
  by (induction xs) (auto simp: bindS_def fun_eq_iff split: prod.splits sum.splits)

text \<open>The computation raises an exception of this class and changes nothing.\<close>

definition fails_with :: "exc_kind \<Rightarrow> ('s, 'a) st \<Rightarrow> 's \<Rightarrow> bool" where
  "fails_with k c s \<longleftrightarrow> raises k (fst (c s)) \<and> snd (c s) = s"

lemma fails_with_raise [simp]: "fails_with k (raiseS k' m) s \<longleftrightarrow> k' = k"
  by (simp add: fails_with_def)

section \<open>The extension module\<close>

text \<open>
  What \<open>from metal_native import _C\<close> finds: no such name (the statement raises ImportError),
  the \<open>None\<close> that the package binds when the extension failed to load, or the module.
  Reading an attribute of \<open>None\<close> raises AttributeError.
\<close>

datatype 'm cmod = CMissing | CNone | CMod 'm

definition import_C :: "'m cmod \<Rightarrow> 'm option res" where
  "import_C c = (case c of
     CMissing \<Rightarrow> raise ImportError ''cannot import name _C from metal_native''
   | CNone \<Rightarrow> Inr None
   | CMod m \<Rightarrow> Inr (Some m))"

definition C_attr :: "'m option \<Rightarrow> ('m \<Rightarrow> 'b res) \<Rightarrow> 'b res" where
  "C_attr m f = (case m of
     None \<Rightarrow> raise AttributeError ''NoneType object has no attribute''
   | Some a \<Rightarrow> f a)"

lemma import_C_simps [simp, res_simps]:
  "import_C CNone = Inr None" "import_C (CMod m) = Inr (Some m)"
  "raises ImportError (import_C CMissing)"
  by (simp_all add: import_C_def)

lemma C_attr_simps [simp, res_simps]:
  "C_attr (Some m) f = f m" "raises AttributeError (C_attr None f)"
  by (simp_all add: C_attr_def)

text \<open>
  The pattern of the modules \<open>device\<close>, \<open>utils\<close> and \<open>profiling\<close>: import the module, look up a function
  in it (which may be absent) and call it.
\<close>

definition attr_call :: "'m option \<Rightarrow> ('m \<Rightarrow> ('g, 'a) st option) \<Rightarrow> ('g, 'a) st" where
  "attr_call C sel = (case C of
     None \<Rightarrow> raiseS AttributeError ''NoneType object has no attribute''
   | Some m \<Rightarrow> (case sel m of
       None \<Rightarrow> raiseS AttributeError ''module metal_native._C has no attribute''
     | Some f \<Rightarrow> f))"

definition native_call :: "'m cmod \<Rightarrow> ('m \<Rightarrow> ('g, 'a) st option) \<Rightarrow> ('g, 'a) st" where
  "native_call cm sel = bindS (liftS (import_C cm)) (\<lambda>C. attr_call C sel)"

text \<open>Whether the module has the function at all.\<close>

definition provides :: "'m cmod \<Rightarrow> ('m \<Rightarrow> 'f option) \<Rightarrow> bool" where
  "provides cm sel \<longleftrightarrow> (case cm of CMod m \<Rightarrow> sel m \<noteq> None | _ \<Rightarrow> False)"

lemma native_call_absent: "\<not> provides cm sel \<Longrightarrow> \<exists>e. native_call cm sel s = (Inl e, s) \<and> import_or_attribute e"
  by (auto simp: native_call_def attr_call_def provides_def bindS_def import_C_def raise_def import_or_attribute_def
      split: cmod.splits)

lemma native_call_present [simp]: "sel m = Some f \<Longrightarrow> native_call (CMod m) sel = f"
  by (simp add: native_call_def attr_call_def bindS_def fun_eq_iff)

lemma catch_absent: "\<not> provides cm sel \<Longrightarrow> \<exists>e. catchS import_or_attribute (native_call cm sel) h s = h e s"
  using native_call_absent [of cm sel s] by (auto simp: catchS_def)

section \<open>Dictionaries\<close>

text \<open>
  A Python dictionary keeps insertion order: an association list in which storing an
  existing key keeps its place and a new key goes to the end.
\<close>

type_synonym ('k, 'v) dict = "('k \<times> 'v) list"

fun dict_set :: "'k \<Rightarrow> 'v \<Rightarrow> ('k, 'v) dict \<Rightarrow> ('k, 'v) dict" where
  "dict_set k v [] = [(k, v)]"
| "dict_set k v ((k', v') # d) = (if k = k' then (k, v) # d else (k', v') # dict_set k v d)"

definition dict_get :: "('k, 'v) dict \<Rightarrow> 'k \<Rightarrow> 'v option" where
  "dict_get d k = map_of d k"

definition dict_has :: "('k, 'v) dict \<Rightarrow> 'k \<Rightarrow> bool" where
  "dict_has d k \<longleftrightarrow> k \<in> set (map fst d)"

definition dict_keys :: "('k, 'v) dict \<Rightarrow> 'k list" where
  "dict_keys d = map fst d"

definition dict_wf :: "('k, 'v) dict \<Rightarrow> bool" where
  "dict_wf d \<longleftrightarrow> distinct (map fst d)"

text \<open>\<open>d.get(k, default)\<close>.\<close>

definition dict_get_default :: "('k, 'v) dict \<Rightarrow> 'k \<Rightarrow> 'v \<Rightarrow> 'v" where
  "dict_get_default d k v = (case dict_get d k of None \<Rightarrow> v | Some x \<Rightarrow> x)"

lemma dict_get_set: "dict_get (dict_set k v d) k' = (if k' = k then Some v else dict_get d k')"
  by (induction d) (auto simp: dict_get_def)

text \<open>\<open>del d[k]\<close>.\<close>

definition dict_del :: "'k \<Rightarrow> ('k, 'v) dict \<Rightarrow> ('k, 'v) dict" where
  "dict_del k d = filter (\<lambda>(k', _). k' \<noteq> k) d"

lemma dict_get_del: "dict_get (dict_del k d) k' = (if k' = k then None else dict_get d k')"
  by (induction d) (auto simp: dict_del_def dict_get_def)

lemma dict_wf_del: "dict_wf d \<Longrightarrow> dict_wf (dict_del k d)"
  by (induction d) (auto simp: dict_del_def dict_wf_def)

lemma dict_has_get: "dict_has d k \<longleftrightarrow> dict_get d k \<noteq> None"
  by (auto simp: dict_has_def dict_get_def map_of_eq_None_iff)

lemma dict_keys_set:
  "dict_keys (dict_set k v d) = (if dict_has d k then dict_keys d else dict_keys d @ [k])"
  unfolding dict_keys_def dict_has_def by (induction d) (auto simp del: set_map)

lemma dict_wf_set [intro]: "dict_wf d \<Longrightarrow> dict_wf (dict_set k v d)"
  using dict_keys_set [of k v d]
  by (cases "k \<in> set (map fst d)") (simp_all add: dict_wf_def dict_keys_def dict_has_def)

lemma dict_has_set: "dict_has (dict_set k v d) k' \<longleftrightarrow> k' = k \<or> dict_has d k'"
  by (simp add: dict_has_get dict_get_set)

lemma dict_set_same: "dict_get d k = Some v \<Longrightarrow> dict_set k v d = d"
  by (induction d) (auto simp: dict_get_def split: if_splits)

lemma dict_set_set [simp]: "dict_set k v (dict_set k w d) = dict_set k v d"
  by (induction d) auto

text \<open>
  The interface a client of a key-value store relies on, whatever represents it: what a
  lookup returns after a write.
\<close>

locale key_store =
  fixes lookup :: "'m \<Rightarrow> 'k \<Rightarrow> 'v option"
    and store :: "'k \<Rightarrow> 'v \<Rightarrow> 'm \<Rightarrow> 'm"
  assumes lookup_store: "lookup (store k v m) k' = (if k' = k then Some v else lookup m k')"
begin

lemma last_write_wins: "lookup (store k v (store k w m)) = lookup (store k v m)"
  by (auto simp: lookup_store)

lemma writes_commute:
  "k \<noteq> k' \<Longrightarrow> lookup (store k v (store k' w m)) = lookup (store k' w (store k v m))"
  by (auto simp: lookup_store)

lemma lookup_writes:
  "lookup (foldl (\<lambda>m (k, v). store k v m) m kvs) k =
     (case map_of (rev kvs) k of None \<Rightarrow> lookup m k | Some v \<Rightarrow> Some v)"
proof (induction kvs arbitrary: m)
  case Nil
  then show ?case by simp
next
  case (Cons kv kvs)
  then show ?case
    by (cases kv) (auto simp: lookup_store map_add_def split: option.splits)
qed

lemma untouched_key:
  "k \<notin> fst ` set kvs \<Longrightarrow> lookup (foldl (\<lambda>m (k, v). store k v m) m kvs) k = lookup m k"
proof (induction kvs arbitrary: m)
  case Nil
  then show ?case by simp
next
  case (Cons kv kvs)
  then show ?case by (cases kv) (auto simp: lookup_store)
qed

end

interpretation pydict: key_store dict_get dict_set
  by unfold_locales (simp add: dict_get_set)

section \<open>Strings\<close>

definition py_startswith :: "string \<Rightarrow> string \<Rightarrow> bool" where
  "py_startswith s p \<longleftrightarrow> take (length p) s = p"

definition lower_char :: "char \<Rightarrow> char" where
  "lower_char c = (let n = (of_char c :: nat) in if 65 \<le> n \<and> n \<le> 90 then char_of (n + 32) else c)"

definition py_lower :: "string \<Rightarrow> string" where
  "py_lower s = map lower_char s"

definition upper_char :: "char \<Rightarrow> char" where
  "upper_char c = (let n = (of_char c :: nat) in if 97 \<le> n \<and> n \<le> 122 then char_of (n - 32) else c)"

text \<open>\<open>str.capitalize\<close>: first character upper case, the others lower case.\<close>

fun py_capitalize :: "string \<Rightarrow> string" where
  "py_capitalize [] = []"
| "py_capitalize (c # cs) = upper_char c # py_lower cs"

text \<open>\<open>s.split(c, 1)\<close> and \<open>s.split(c)\<close> for a one-character separator.\<close>

definition py_split1 :: "char \<Rightarrow> string \<Rightarrow> string list" where
  "py_split1 c s = (if c \<in> set s then [takeWhile (\<lambda>x. x \<noteq> c) s, tl (dropWhile (\<lambda>x. x \<noteq> c) s)] else [s])"

fun py_split :: "char \<Rightarrow> string \<Rightarrow> string list" where
  "py_split c [] = [[]]"
| "py_split c (x # xs) = (if x = c then [] # py_split c xs
     else (case py_split c xs of [] \<Rightarrow> [[x]] | y # ys \<Rightarrow> (x # y) # ys))"

fun py_join :: "string \<Rightarrow> string list \<Rightarrow> string" where
  "py_join sep [] = []"
| "py_join sep [x] = x"
| "py_join sep (x # y # ys) = x @ sep @ py_join sep (y # ys)"

definition newline :: string where
  "newline = [CHR 0x0A]"

definition ljust :: "nat \<Rightarrow> string \<Rightarrow> string" where
  "ljust n s = s @ replicate (n - length s) CHR '' ''"

definition rjust :: "nat \<Rightarrow> string \<Rightarrow> string" where
  "rjust n s = replicate (n - length s) CHR '' '' @ s"

lemma py_split_nonempty [simp]: "py_split c s \<noteq> []"
  by (induction s) (auto split: list.splits)

lemma py_join_Cons: "ys \<noteq> [] \<Longrightarrow> py_join sep (x # ys) = x @ sep @ py_join sep ys"
  by (cases ys) auto

lemma py_join_split: "py_join [c] (py_split c s) = s"
proof (induction s)
  case Nil
  then show ?case by simp
next
  case (Cons x xs)
  show ?case
  proof (cases "py_split c xs")
    case Nil
    then show ?thesis by simp
  next
    case (Cons y ys)
    with Cons.IH show ?thesis by (cases ys) (auto simp: py_join_Cons)
  qed
qed

lemma py_split_no_sep: "p \<in> set (py_split c s) \<Longrightarrow> c \<notin> set p"
proof (induction s arbitrary: p)
  case Nil
  then show ?case by simp
next
  case (Cons x xs)
  then show ?case by (cases "py_split c xs") (auto split: if_splits)
qed

lemma length_ljust: "length (ljust n s) = max n (length s)"
  by (simp add: ljust_def)

lemma length_rjust: "length (rjust n s) = max n (length s)"
  by (simp add: rjust_def)

section \<open>Decimal text of numbers\<close>

definition digit_char :: "nat \<Rightarrow> char" where
  "digit_char d = char_of (48 + d)"

fun show_nat :: "nat \<Rightarrow> string" where
  "show_nat n = (if n < 10 then [digit_char n] else show_nat (n div 10) @ [digit_char (n mod 10)])"

declare show_nat.simps [simp del]

definition show_int :: "int \<Rightarrow> string" where
  "show_int i = (if i < 0 then CHR ''-'' # show_nat (nat (- i)) else show_nat (nat i))"

text \<open>Rounding to an integer, ties to even, as Python formats a number with fixed decimals.\<close>

definition round_half_even :: "real \<Rightarrow> int" where
  "round_half_even x =
     (let f = \<lfloor>x\<rfloor>; r = x - of_int f
      in if r < 1 / 2 then f else if r > 1 / 2 then f + 1 else if even f then f else f + 1)"

definition zero_pad :: "nat \<Rightarrow> string \<Rightarrow> string" where
  "zero_pad n s = replicate (n - length s) CHR ''0'' @ s"

text \<open>The text of \<open>f"{x:.df}"\<close> for \<open>d > 0\<close> and of \<open>f"{x:+.df}"\<close>.\<close>

definition fmt_abs :: "nat \<Rightarrow> real \<Rightarrow> string" where
  "fmt_abs d x = (let n = nat (round_half_even (\<bar>x\<bar> * 10 ^ d))
     in show_nat (n div 10 ^ d) @ ''.'' @ zero_pad d (show_nat (n mod 10 ^ d)))"

definition fmt_fixed :: "nat \<Rightarrow> real \<Rightarrow> string" where
  "fmt_fixed d x = (if x < 0 then ''-'' else []) @ fmt_abs d x"

definition fmt_signed :: "nat \<Rightarrow> real \<Rightarrow> string" where
  "fmt_signed d x = (if x < 0 then ''-'' else ''+'') @ fmt_abs d x"

lemma show_nat_nonempty [simp]: "show_nat n \<noteq> []"
  by (subst show_nat.simps) simp

lemma round_half_even_error: "\<bar>of_int (round_half_even x) - x\<bar> \<le> 1 / 2"
proof -
  have "of_int \<lfloor>x\<rfloor> \<le> x" "x < of_int \<lfloor>x\<rfloor> + 1" by linarith+
  then show ?thesis by (auto simp: round_half_even_def Let_def abs_le_iff)
qed

lemma round_half_even_of_int [simp]: "round_half_even (of_int i) = i"
  by (simp add: round_half_even_def Let_def)

end
