(* ===== verification/Dtypes.thy ===== *)
theory Dtypes
  imports Prelude
begin

text \<open>
  \<^verbatim>\<open>python/metal_native/dtypes.py\<close>: the \<open>DType\<close> descriptors, the tables between dtype names,
  descriptors and NumPy dtypes, and the three conversion functions.

  A NumPy dtype is known by its canonical name (\<open>np.dtype('float32').name\<close>), under which
  NumPy compares dtypes; the call \<open>np.dtype(x)\<close> on any other object is a parameter
  \<open>np_dtype\<close>, which returns that name or raises.
\<close>

section \<open>Descriptors\<close>

record dtype =
  dname :: string
  itemsize :: nat
  is_floating_point :: bool
  is_signed :: bool

definition DType :: "string \<Rightarrow> nat \<Rightarrow> bool \<Rightarrow> bool \<Rightarrow> dtype" where
  "DType n i f s = \<lparr>dname = n, itemsize = i, is_floating_point = f, is_signed = s\<rparr>"

definition dtype_repr :: "dtype \<Rightarrow> string" where
  "dtype_repr d = ''metal_native.'' @ dname d"

definition dtype_str :: "dtype \<Rightarrow> string" where
  "dtype_str d = dname d"

text \<open>
  \<open>__eq__\<close> compares names only; the other operand may be any object, \<open>None\<close> here when it is
  not a \<open>DType\<close>. \<open>__hash__\<close> is the hash of the name, for the interpreter's string hash.
\<close>

definition dtype_eq :: "dtype \<Rightarrow> dtype option \<Rightarrow> bool" where
  "dtype_eq d other = (case other of Some d' \<Rightarrow> dname d = dname d' | None \<Rightarrow> False)"

definition dtype_hash :: "(string \<Rightarrow> int) \<Rightarrow> dtype \<Rightarrow> int" where
  "dtype_hash str_hash d = str_hash (dname d)"

definition float32 :: dtype where "float32 = DType ''float32'' 4 True True"
definition float16 :: dtype where "float16 = DType ''float16'' 2 True True"
definition bfloat16 :: dtype where "bfloat16 = DType ''bfloat16'' 2 True True"
definition int64 :: dtype where "int64 = DType ''int64'' 8 False True"
definition int32 :: dtype where "int32 = DType ''int32'' 4 False True"
definition int16 :: dtype where "int16 = DType ''int16'' 2 False True"
definition int8 :: dtype where "int8 = DType ''int8'' 1 False True"
definition uint8 :: dtype where "uint8 = DType ''uint8'' 1 False False"
definition bool_dtype :: dtype where "bool_dtype = DType ''bool'' 1 False False"

lemmas dtype_consts = float32_def float16_def bfloat16_def int64_def int32_def int16_def
  int8_def uint8_def bool_dtype_def DType_def

section \<open>Tables\<close>

definition DTYPE_MAP :: "(string, dtype) dict" where
  "DTYPE_MAP =
    [(''float32'', float32), (''float16'', float16), (''bfloat16'', bfloat16),
     (''int64'', int64), (''int32'', int32), (''int16'', int16), (''int8'', int8),
     (''uint8'', uint8), (''bool'', bool_dtype)]"

definition NUMPY_DTYPE_MAP :: "(dtype, string) dict" where
  "NUMPY_DTYPE_MAP =
    [(float32, ''float32''), (float16, ''float16''), (int64, ''int64''), (int32, ''int32''),
     (int16, ''int16''), (int8, ''int8''), (uint8, ''uint8''), (bool_dtype, ''bool'')]"

definition NUMPY_TO_DTYPE_MAP :: "(string, dtype) dict" where
  "NUMPY_TO_DTYPE_MAP =
    [(''float32'', float32), (''float16'', float16), (''int64'', int64), (''int32'', int32),
     (''int16'', int16), (''int8'', int8), (''uint8'', uint8), (''bool'', bool_dtype)]"

text \<open>A dictionary keyed by descriptors finds a key by \<open>__eq__\<close>, that is by name.\<close>

fun dtype_lookup :: "(dtype, 'v) dict \<Rightarrow> dtype \<Rightarrow> 'v option" where
  "dtype_lookup [] d = None"
| "dtype_lookup ((k, v) # m) d = (if dtype_eq k (Some d) then Some v else dtype_lookup m d)"

section \<open>Conversions\<close>

definition dtype_to_numpy :: "dtype \<Rightarrow> string res" where
  "dtype_to_numpy d =
     (case dtype_lookup NUMPY_DTYPE_MAP d of
        None \<Rightarrow> raise ValueError (''DType '' @ dtype_str d @ '' has no NumPy equivalent'')
      | Some n \<Rightarrow> Inr n)"

text \<open>What \<open>np.dtype\<close> is applied to: a dtype, which it returns as it is, or another object.\<close>

datatype 'o np_arg = NpDtype string | NpObj 'o

definition np_normalize :: "('o \<Rightarrow> string res) \<Rightarrow> 'o np_arg \<Rightarrow> string res" where
  "np_normalize np_dtype a = (case a of NpDtype n \<Rightarrow> Inr n | NpObj x \<Rightarrow> np_dtype x)"

definition numpy_to_dtype :: "('o \<Rightarrow> string res) \<Rightarrow> 'o np_arg \<Rightarrow> dtype res" where
  "numpy_to_dtype np_dtype a = bindR (np_normalize np_dtype a) (\<lambda>n.
     case dict_get NUMPY_TO_DTYPE_MAP n of
       None \<Rightarrow> raise ValueError (''NumPy dtype '' @ n @ '' is not supported by metal_native'')
     | Some d \<Rightarrow> Inr d)"

datatype 'o dtype_arg = AsDType dtype | AsStr string | AsObj 'o

definition get_dtype :: "('o \<Rightarrow> bool) \<Rightarrow> ('o \<Rightarrow> string res) \<Rightarrow> 'o dtype_arg \<Rightarrow> dtype res" where
  "get_dtype has_dtype np_dtype a =
     (case a of
        AsDType d \<Rightarrow> Inr d
      | AsStr s \<Rightarrow>
          (case dict_get DTYPE_MAP s of
             Some d \<Rightarrow> Inr d
           | None \<Rightarrow> raise ValueError (''Unknown dtype name: '' @ s))
      | AsObj x \<Rightarrow>
          if has_dtype x then bindR (np_dtype x) (\<lambda>n. numpy_to_dtype np_dtype (NpDtype n))
          else catchR (\<lambda>e. exc_class e \<in> {TypeError, ValueError})
                 (bindR (np_dtype x) (\<lambda>n. numpy_to_dtype np_dtype (NpDtype n)))
                 (\<lambda>_. raise ValueError ''Cannot convert {dtype} to metal_native dtype''))"

section \<open>Lemmas\<close>

lemma dtype_names [simp]:
  "dname float32 = ''float32''" "dname float16 = ''float16''" "dname bfloat16 = ''bfloat16''"
  "dname int64 = ''int64''" "dname int32 = ''int32''" "dname int16 = ''int16''"
  "dname int8 = ''int8''" "dname uint8 = ''uint8''" "dname bool_dtype = ''bool''"
  by (simp_all add: dtype_consts)

lemma dtype_sizes [simp]:
  "itemsize float32 = 4" "itemsize float16 = 2" "itemsize bfloat16 = 2"
  "itemsize int64 = 8" "itemsize int32 = 4" "itemsize int16 = 2"
  "itemsize int8 = 1" "itemsize uint8 = 1" "itemsize bool_dtype = 1"
  by (simp_all add: dtype_consts)

lemma dtype_flags [simp]:
  "is_floating_point float32" "is_floating_point float16" "is_floating_point bfloat16"
  "\<not> is_floating_point int64" "\<not> is_floating_point int32" "\<not> is_floating_point int16"
  "\<not> is_floating_point int8" "\<not> is_floating_point uint8" "\<not> is_floating_point bool_dtype"
  "is_signed float32" "is_signed float16" "is_signed bfloat16" "is_signed int64"
  "is_signed int32" "is_signed int16" "is_signed int8" "\<not> is_signed uint8" "\<not> is_signed bool_dtype"
  by (simp_all add: dtype_consts)

lemma dtype_eq_refl [simp]: "dtype_eq d (Some d)"
  by (simp add: dtype_eq_def)

lemma dtype_eq_hash: "dtype_eq d (Some d') \<Longrightarrow> dtype_hash h d = dtype_hash h d'"
  by (simp add: dtype_eq_def dtype_hash_def)

lemma dtype_lookup_name: "dname d = dname d' \<Longrightarrow> dtype_lookup m d = dtype_lookup m d'"
  by (induction m) (auto simp: dtype_eq_def)

lemma dtype_to_numpy_Inr:
  "dtype_to_numpy d = Inr n \<longleftrightarrow>
     n = dname d \<and> n \<in> {''float32'', ''float16'', ''int64'', ''int32'', ''int16'', ''int8'', ''uint8'', ''bool''}"
  by (auto simp: dtype_to_numpy_def NUMPY_DTYPE_MAP_def dtype_eq_def split: if_splits option.splits)

lemma dtype_to_numpy_consts [simp]:
  "dtype_to_numpy float32 = Inr ''float32''" "dtype_to_numpy float16 = Inr ''float16''"
  "dtype_to_numpy int64 = Inr ''int64''" "dtype_to_numpy int32 = Inr ''int32''"
  "dtype_to_numpy int16 = Inr ''int16''" "dtype_to_numpy int8 = Inr ''int8''"
  "dtype_to_numpy uint8 = Inr ''uint8''" "dtype_to_numpy bool_dtype = Inr ''bool''"
  by (simp_all add: dtype_to_numpy_Inr)

lemma numpy_to_dtype_Inr:
  "numpy_to_dtype np_dtype a = Inr d \<longleftrightarrow>
     (\<exists>n. np_normalize np_dtype a = Inr n \<and> dict_get NUMPY_TO_DTYPE_MAP n = Some d)"
  by (auto simp: numpy_to_dtype_def bindR_Inr_iff split: option.splits)

lemma NUMPY_TO_DTYPE_MAP_name:
  "dict_get NUMPY_TO_DTYPE_MAP n = Some d \<Longrightarrow> dname d = n \<and> dtype_to_numpy d = Inr n"
  by (auto simp: NUMPY_TO_DTYPE_MAP_def dict_get_def split: if_splits)

lemma NUMPY_TO_DTYPE_MAP_total:
  "dtype_to_numpy d = Inr n \<Longrightarrow> \<exists>d'. dict_get NUMPY_TO_DTYPE_MAP n = Some d' \<and> dname d' = dname d"
  by (auto simp: dtype_to_numpy_Inr NUMPY_TO_DTYPE_MAP_def dict_get_def)

lemma DTYPE_MAP_name: "dict_get DTYPE_MAP n = Some d \<Longrightarrow> dname d = n"
  by (auto simp: DTYPE_MAP_def dict_get_def split: if_splits)

section \<open>Properties\<close>

text \<open>
  Converting a descriptor to NumPy and back gives an equal descriptor, and the only
  descriptor of the table that has no NumPy equivalent is \<open>bfloat16\<close>, for which the
  conversion raises ValueError.
\<close>

theorem dtype_numpy_roundtrip:
  "bindR (dtype_to_numpy d) (\<lambda>n. numpy_to_dtype np_dtype (NpDtype n)) =
     (case dict_get NUMPY_TO_DTYPE_MAP (dname d) of
        Some d' \<Rightarrow> Inr d'
      | None \<Rightarrow> raise ValueError (''DType '' @ dname d @ '' has no NumPy equivalent''))
   \<and> (dict_get NUMPY_TO_DTYPE_MAP (dname d) = Some d' \<longrightarrow> dtype_eq d (Some d'))
   \<and> (dict_has DTYPE_MAP (dname d) \<longrightarrow>
        (raises ValueError (dtype_to_numpy d) \<longleftrightarrow> dtype_eq d (Some bfloat16)))"
proof -
  have tab: "dtype_lookup NUMPY_DTYPE_MAP d =
      (if dict_get NUMPY_TO_DTYPE_MAP (dname d) = None then None else Some (dname d))"
    by (auto simp: NUMPY_DTYPE_MAP_def NUMPY_TO_DTYPE_MAP_def dict_get_def dtype_eq_def)
  have "raises ValueError (dtype_to_numpy d) \<longleftrightarrow> dtype_eq d (Some bfloat16)"
    if "dict_has DTYPE_MAP (dname d)"
    using that by (auto simp: tab dtype_to_numpy_def DTYPE_MAP_def dict_has_def dict_get_def
        NUMPY_TO_DTYPE_MAP_def dtype_eq_def split: option.splits if_splits)
  then show ?thesis
    by (auto simp: dtype_to_numpy_def tab numpy_to_dtype_def np_normalize_def dtype_str_def
        dtype_eq_def dest: NUMPY_TO_DTYPE_MAP_name split: option.splits)
qed

theorem dtype_numpy_roundtrip_witness:
  "dict_get NUMPY_TO_DTYPE_MAP (dname float16) = Some float16
   \<and> dtype_eq float16 (Some float16) \<and> dict_has DTYPE_MAP (dname bfloat16)
   \<and> raises ValueError (dtype_to_numpy bfloat16)"
  using dtype_numpy_roundtrip [of float16 "\<lambda>_ :: unit. Inr []" float16]
    dtype_numpy_roundtrip [of bfloat16 "\<lambda>_ :: unit. Inr []" bfloat16]
  by (simp add: NUMPY_TO_DTYPE_MAP_def DTYPE_MAP_def dict_get_def dict_has_def)

end
