(* ===== verification/Native.thy ===== *)
theory Native
  imports Dtypes "HOL-Library.Word"
begin

text \<open>
  The part of the C++ extension \<open>_C\<close> that the Python tensor relies on: dtypes
  (\<^verbatim>\<open>src/core/dtype.cpp\<close>), shapes with their 64-bit arithmetic (\<^verbatim>\<open>src/core/shape.cpp\<close>),
  tensor creation and reshape (\<^verbatim>\<open>src/core/tensor.cpp\<close>), the shape rules and kernels of
  reductions and element-wise operations, and the binding functions of
  \<^verbatim>\<open>bindings/bind_core.cpp\<close>.

  A tensor's buffer is the list of its elements, read as reals. The GPU is a parameter, the
  record \<open>device\<close>: whether an allocation of so many bytes succeeds, what an uninitialised
  buffer holds, what a kernel reads past the end of a buffer, and how bytes of one element
  type read as another.
\<close>

section \<open>Element types\<close>

datatype mndtype = Float32 | Float16 | BFloat16 | Int64 | Int32 | Int16 | Int8 | UInt8 | BoolT

fun dtype_size :: "mndtype \<Rightarrow> nat" where
  "dtype_size Float32 = 4"
| "dtype_size Float16 = 2"
| "dtype_size BFloat16 = 2"
| "dtype_size Int64 = 8"
| "dtype_size Int32 = 4"
| "dtype_size Int16 = 2"
| "dtype_size Int8 = 1"
| "dtype_size UInt8 = 1"
| "dtype_size BoolT = 1"

fun dtype_name :: "mndtype \<Rightarrow> string" where
  "dtype_name Float32 = ''float32''"
| "dtype_name Float16 = ''float16''"
| "dtype_name BFloat16 = ''bfloat16''"
| "dtype_name Int64 = ''int64''"
| "dtype_name Int32 = ''int32''"
| "dtype_name Int16 = ''int16''"
| "dtype_name Int8 = ''int8''"
| "dtype_name UInt8 = ''uint8''"
| "dtype_name BoolT = ''bool''"

definition dtype_is_floating_point :: "mndtype \<Rightarrow> bool" where
  "dtype_is_floating_point m \<longleftrightarrow> m \<in> {Float32, Float16, BFloat16}"

definition dtype_is_signed :: "mndtype \<Rightarrow> bool" where
  "dtype_is_signed m \<longleftrightarrow> m \<in> {Float32, Float16, BFloat16, Int64, Int32, Int16, Int8}"

definition parse_dtype_str :: "string \<Rightarrow> mndtype res" where
  "parse_dtype_str s =
     (if s = ''float32'' then Inr Float32
      else if s = ''float16'' then Inr Float16
      else if s = ''bfloat16'' then Inr BFloat16
      else if s = ''int64'' then Inr Int64
      else if s = ''int32'' then Inr Int32
      else if s = ''int16'' then Inr Int16
      else if s = ''int8'' then Inr Int8
      else if s = ''uint8'' then Inr UInt8
      else if s = ''bool'' then Inr BoolT
      else raise NativeError (''Unsupported dtype string: '' @ s))"

text \<open>The NumPy format string that \<open>tensor_to_numpy\<close> gives an array, by canonical name.\<close>

fun dtype_to_numpy_format :: "mndtype \<Rightarrow> string" where
  "dtype_to_numpy_format BFloat16 = ''float16''"
| "dtype_to_numpy_format m = dtype_name m"

lemma parse_dtype_name [simp]: "parse_dtype_str (dtype_name m) = Inr m"
  by (cases m) (simp_all add: parse_dtype_str_def)

lemma parse_dtype_str_Inr: "parse_dtype_str s = Inr m \<longleftrightarrow> s = dtype_name m"
proof
  assume "parse_dtype_str s = Inr m"
  then show "s = dtype_name m"
    by (cases m) (simp_all add: parse_dtype_str_def split: if_split_asm)
qed simp

section \<open>Shapes\<close>

text \<open>\<open>int64_t\<close> products wrap around in practice.\<close>

definition s64 :: "int \<Rightarrow> int" where
  "s64 i = sint (word_of_int i :: 64 word)"

fun numel_from :: "int \<Rightarrow> int list \<Rightarrow> int" where
  "numel_from acc [] = acc"
| "numel_from acc (d # ds) = numel_from (s64 (acc * d)) ds"

definition mn_numel :: "int list \<Rightarrow> int" where
  "mn_numel dims = numel_from 1 dims"

fun contiguous_strides :: "int list \<Rightarrow> int list" where
  "contiguous_strides [] = []"
| "contiguous_strides [d] = [1]"
| "contiguous_strides (d # e # ds) =
     (let st = contiguous_strides (e # ds) in s64 (hd st * e) # st)"

text \<open>
  \<open>broadcast_with\<close> walks both shapes from the last dimension; a shape that is exhausted counts
  as 1. The lists here are reversed.
\<close>

fun broadcast_rev :: "int list \<Rightarrow> int list \<Rightarrow> int list option" where
  "broadcast_rev [] [] = Some []"
| "broadcast_rev (d # ds) [] = map_option ((#) d) (broadcast_rev ds [])"
| "broadcast_rev [] (e # es) = map_option ((#) e) (broadcast_rev [] es)"
| "broadcast_rev (d # ds) (e # es) =
     (if d = e then map_option ((#) d) (broadcast_rev ds es)
      else if d = 1 then map_option ((#) e) (broadcast_rev ds es)
      else if e = 1 then map_option ((#) d) (broadcast_rev ds es)
      else None)"

definition broadcast_with :: "int list \<Rightarrow> int list \<Rightarrow> int list res" where
  "broadcast_with a b =
     (case broadcast_rev (rev a) (rev b) of
        None \<Rightarrow> raise NativeError ''shapes are not broadcastable''
      | Some r \<Rightarrow> Inr (rev r))"

text \<open>\<open>is_contiguous\<close> on the reversed dimensions and strides, with the expected stride so far.\<close>

fun contiguous_rev :: "int \<Rightarrow> int list \<Rightarrow> int list \<Rightarrow> bool" where
  "contiguous_rev expected (d # ds) (s # ss) =
     (if d \<noteq> 1 then s = expected \<and> contiguous_rev (s64 (expected * d)) ds ss
      else contiguous_rev expected ds ss)"
| "contiguous_rev expected ds ss = (ds = [] \<and> ss = [])"

definition is_contiguous_shape :: "int list \<Rightarrow> int list \<Rightarrow> bool" where
  "is_contiguous_shape dims strides \<longleftrightarrow>
     length strides = length dims \<and> contiguous_rev 1 (rev dims) (rev strides)"

section \<open>Tensors\<close>

record mntensor =
  mt_shape :: "int list"
  mt_strides :: "int list"
  mt_dtype :: mndtype
  mt_data :: "real list"

record device =
  alloc_ok :: "int \<Rightarrow> bool"
  uninit :: "nat \<Rightarrow> real list"
  as_half :: "real list \<Rightarrow> real list"
  past_end :: "real list \<Rightarrow> nat \<Rightarrow> real"
  reread :: "string \<Rightarrow> mndtype \<Rightarrow> real list \<Rightarrow> nat \<Rightarrow> real list"
  neg_infinity :: real
  max_buffer_length :: int

text \<open>
  A device decides which allocations it grants and up to which size it makes a buffer. What the
  model assumes of it: a fresh buffer has the requested length, and 16-bit
  elements read as another 16-bit type and back are the same bits.
\<close>

definition device_ok :: "device \<Rightarrow> bool" where
  "device_ok dev \<longleftrightarrow> (\<forall>n. length (uninit dev n) = n)
     \<and> (\<forall>xs. length (as_half dev xs) = length xs)
     \<and> (\<forall>xs. reread dev ''float16'' BFloat16 (as_half dev xs) (length xs) = xs)"

definition mt_is_contiguous :: "mntensor \<Rightarrow> bool" where
  "mt_is_contiguous t \<longleftrightarrow> is_contiguous_shape (mt_shape t) (mt_strides t)"

definition mt_numel :: "mntensor \<Rightarrow> int" where
  "mt_numel t = mn_numel (mt_shape t)"

text \<open>\<open>size_t\<close> arithmetic of the allocation: an overflow check, then the byte count.\<close>

definition size_max :: int where
  "size_max = 2 ^ 64 - 1"

definition mn_empty :: "device \<Rightarrow> int list \<Rightarrow> mndtype \<Rightarrow> mntensor res" where
  "mn_empty dev shape dt =
     (let numel = mn_numel shape; bytes = int (dtype_size dt) in
      if numel > 0 \<and> bytes > 0 \<and> numel > size_max div bytes
      then raise NativeError ''Tensor allocation would overflow''
      else let nbytes = (numel mod 2 ^ 64 * bytes) mod 2 ^ 64; alloc = max nbytes 1 in
        if alloc_ok dev alloc
        then Inr \<lparr>mt_shape = shape, mt_strides = contiguous_strides shape, mt_dtype = dt,
                  mt_data = uninit dev (nat numel)\<rparr>
        else raise NativeError ''allocation failed'')"

definition mn_filled :: "device \<Rightarrow> real \<Rightarrow> int list \<Rightarrow> mndtype \<Rightarrow> mntensor res" where
  "mn_filled dev v shape dt = bindR (mn_empty dev shape dt) (\<lambda>t.
     Inr (t\<lparr>mt_data := replicate (nat (mn_numel shape)) v\<rparr>))"

text \<open>
  \<open>reshape\<close>: one loop finds the inferred dimension (a -1) and the product of the others, then
  the sizes are checked.
\<close>

fun reshape_scan :: "int list \<Rightarrow> nat \<Rightarrow> nat option \<Rightarrow> int \<Rightarrow> (nat option \<times> int) res" where
  "reshape_scan [] i inferred known = Inr (inferred, known)"
| "reshape_scan (d # ds) i inferred known =
     (if d = -1 then
        (if inferred = None then reshape_scan ds (Suc i) (Some i) known
         else raise NativeError ''reshape: at most one dimension may be -1'')
      else if d \<ge> 0 then reshape_scan ds (Suc i) inferred (s64 (known * d))
      else raise NativeError ''reshape: dimensions must be non-negative (or -1)'')"

definition reshape_finish :: "mntensor \<Rightarrow> int list \<Rightarrow> nat option \<Rightarrow> int \<Rightarrow> mntensor res" where
  "reshape_finish t new_dims inferred known =
     (let total = mt_numel t;
          view = (\<lambda>dims. t\<lparr>mt_shape := dims, mt_strides := contiguous_strides dims\<rparr>)
      in case inferred of
           Some i \<Rightarrow>
             if known \<noteq> 0 \<and> total mod known = 0
             then Inr (view (new_dims[i := total div known]))
             else raise NativeError ''reshape: cannot infer dimension''
         | None \<Rightarrow>
             if known = total then Inr (view new_dims)
             else raise NativeError ''reshape: new shape numel != current numel'')"

definition mn_reshape :: "mntensor \<Rightarrow> int list \<Rightarrow> mntensor res" where
  "mn_reshape t new_dims =
     (if \<not> mt_is_contiguous t then raise NativeError ''reshape requires a contiguous tensor''
      else bindR (reshape_scan new_dims 0 None 1) (\<lambda>(inferred, known).
        reshape_finish t new_dims inferred known))"

section \<open>Reductions\<close>

definition normalize_dim :: "int \<Rightarrow> nat \<Rightarrow> nat res" where
  "normalize_dim dm ndim =
     (let d = if dm < 0 then dm + int ndim else dm in
      if 0 \<le> d \<and> d < int ndim then Inr (nat d)
      else raise NativeError ''reduction: dimension out of range'')"

definition reduction_shape :: "int list \<Rightarrow> nat \<Rightarrow> bool \<Rightarrow> int list" where
  "reduction_shape shape dm keepdim =
     take dm shape @ (if keepdim then [1] else []) @ drop (Suc dm) shape"

text \<open>
  The kernels give one output element per pair of an outer and an inner index; its input
  elements are strided by the inner size.
\<close>

definition reduce_kernel :: "(real list \<Rightarrow> real) \<Rightarrow> nat \<Rightarrow> nat \<Rightarrow> nat \<Rightarrow> real list \<Rightarrow> real list" where
  "reduce_kernel f outer_size reduce_size inner_size xs =
     map (\<lambda>g. f (map (\<lambda>r. xs ! ((g div inner_size * reduce_size + r) * inner_size + g mod inner_size))
                     [0..<reduce_size]))
         [0..<outer_size * inner_size]"

definition u32_max :: int where
  "u32_max = 2 ^ 32 - 1"

definition dispatch_reduction ::
  "device \<Rightarrow> (real list \<Rightarrow> real) \<Rightarrow> mndtype \<Rightarrow> mntensor \<Rightarrow> int \<Rightarrow> bool \<Rightarrow> mntensor res" where
  "dispatch_reduction dev f out_dtype input dm keepdim =
     bindR (normalize_dim dm (length (mt_shape input))) (\<lambda>d.
     if \<not> mt_is_contiguous input then raise NativeError ''reduction: input must be contiguous''
     else bindR (mn_empty dev (reduction_shape (mt_shape input) d keepdim) out_dtype) (\<lambda>out.
       let outer_size = mn_numel (take d (mt_shape input));
           reduce_size = mt_shape input ! d;
           inner_size = mn_numel (drop (Suc d) (mt_shape input))
       in if mt_dtype input \<notin> {Float32, Float16}
          then raise NativeError ''reduction: unsupported dtype''
          else if outer_size > u32_max \<or> reduce_size > u32_max \<or> inner_size > u32_max
          then raise NativeError ''reduction: dimension exceeds uint32_t range''
          else Inr (out\<lparr>mt_data := reduce_kernel f (nat outer_size) (nat reduce_size)
                                     (nat inner_size) (mt_data input)\<rparr>)))"

definition sum_out_dtype :: "mndtype \<Rightarrow> mndtype" where
  "sum_out_dtype m = (if m = Float16 then Float32 else m)"

definition mn_reduce_sum :: "device \<Rightarrow> mntensor \<Rightarrow> int \<Rightarrow> bool \<Rightarrow> mntensor res" where
  "mn_reduce_sum dev t dm keepdim =
     dispatch_reduction dev sum_list (sum_out_dtype (mt_dtype t)) t dm keepdim"

definition mean_list :: "real list \<Rightarrow> real" where
  "mean_list xs = sum_list xs / real (length xs)"

definition mn_reduce_mean :: "device \<Rightarrow> mntensor \<Rightarrow> int \<Rightarrow> bool \<Rightarrow> mntensor res" where
  "mn_reduce_mean dev t dm keepdim =
     dispatch_reduction dev mean_list (sum_out_dtype (mt_dtype t)) t dm keepdim"

definition max_list :: "real \<Rightarrow> real list \<Rightarrow> real" where
  "max_list m xs = fold max xs m"

definition mn_reduce_max :: "device \<Rightarrow> mntensor \<Rightarrow> int \<Rightarrow> bool \<Rightarrow> mntensor res" where
  "mn_reduce_max dev t dm keepdim =
     dispatch_reduction dev (max_list (neg_infinity dev)) (mt_dtype t) t dm keepdim"

section \<open>Element-wise operations\<close>

text \<open>
  The binary kernels are given the number of output elements only and read both operands at
  the output's flat index; a read past a buffer's end sees whatever memory holds there.
\<close>

definition read_buffer :: "device \<Rightarrow> real list \<Rightarrow> nat \<Rightarrow> real" where
  "read_buffer dev xs i = (if i < length xs then xs ! i else past_end dev xs i)"

definition binary_kernel :: "device \<Rightarrow> (real \<Rightarrow> real \<Rightarrow> real) \<Rightarrow> nat \<Rightarrow> real list \<Rightarrow> real list \<Rightarrow> real list" where
  "binary_kernel dev f n a b = map (\<lambda>i. f (read_buffer dev a i) (read_buffer dev b i)) [0..<n]"

definition dispatch_binary_op ::
  "device \<Rightarrow> (real \<Rightarrow> real \<Rightarrow> real) \<Rightarrow> mntensor \<Rightarrow> mntensor \<Rightarrow> mntensor res" where
  "dispatch_binary_op dev f a b =
     (if mt_dtype a \<noteq> mt_dtype b
      then raise NativeError ''elementwise: operands must have same dtype''
      else if \<not> (mt_is_contiguous a \<and> mt_is_contiguous b)
      then raise NativeError ''elementwise: operands must be contiguous''
      else bindR (broadcast_with (mt_shape a) (mt_shape b)) (\<lambda>shape.
        bindR (mn_empty dev shape (mt_dtype a)) (\<lambda>out.
          if mt_dtype a \<notin> {Float32, Float16, BFloat16}
          then raise NativeError ''elementwise: unsupported dtype''
          else if mn_numel shape > u32_max
          then raise NativeError ''elementwise: dimension exceeds uint32_t range''
          else Inr (out\<lparr>mt_data := binary_kernel dev f (nat (mn_numel shape)) (mt_data a) (mt_data b)\<rparr>))))"

definition make_scalar_tensor :: "device \<Rightarrow> real \<Rightarrow> mndtype \<Rightarrow> mntensor res" where
  "make_scalar_tensor dev v dt = mn_filled dev v [1] dt"

definition scalar_op :: "device \<Rightarrow> (real \<Rightarrow> real \<Rightarrow> real) \<Rightarrow> mntensor \<Rightarrow> real \<Rightarrow> mntensor res" where
  "scalar_op dev f t v = bindR (make_scalar_tensor dev v (mt_dtype t)) (\<lambda>s.
     dispatch_binary_op dev f t s)"

text \<open>\<open>tensor_rsub_scalar\<close>: the scalar is the left operand.\<close>

definition rsub_scalar :: "device \<Rightarrow> mntensor \<Rightarrow> real \<Rightarrow> mntensor res" where
  "rsub_scalar dev t v = bindR (make_scalar_tensor dev v (mt_dtype t)) (\<lambda>s.
     dispatch_binary_op dev (-) s t)"

definition dispatch_unary_op :: "device \<Rightarrow> (real \<Rightarrow> real) \<Rightarrow> mntensor \<Rightarrow> mntensor res" where
  "dispatch_unary_op dev f x =
     (if \<not> mt_is_contiguous x then raise NativeError ''elementwise: input must be contiguous''
      else bindR (mn_empty dev (mt_shape x) (mt_dtype x)) (\<lambda>out.
        if mt_dtype x \<notin> {Float32, Float16, BFloat16}
        then raise NativeError ''elementwise: unsupported dtype''
        else if mt_numel x > u32_max
        then raise NativeError ''elementwise: dimension exceeds uint32_t range''
        else Inr (out\<lparr>mt_data := map (\<lambda>i. f (read_buffer dev (mt_data x) i)) [0..<nat (mt_numel x)]\<rparr>)))"

section \<open>NumPy arrays and conversion\<close>

text \<open>
  A NumPy array is a shape and strides (counted in elements) over memory: \<open>nd_mem\<close> is the memory
  from the array's data pointer on, and \<open>nd_elems\<close> the elements in row-major order of their
  indices, which lie in memory at the \<open>positions\<close> that the strides give (\<open>nd_wf\<close>). The flag
  \<open>C_CONTIGUOUS\<close> is a condition on the strides: along every dimension of a size other than 1 the
  stride is the product of the later sizes. An array with a size 0 always has it.
\<close>

record ndarray =
  nd_shape :: "int list"
  nd_dtype :: string
  nd_strides :: "int list"
  nd_elems :: "real list"
  nd_mem :: "real list"

fun positions :: "int \<Rightarrow> int list \<Rightarrow> int list \<Rightarrow> int list" where
  "positions off (d # ds) (s # ss) =
     concat (map (\<lambda>i. positions (off + int i * s) ds ss) [0..<nat d])"
| "positions off ds ss = [off]"

fun row_major_strides :: "int list \<Rightarrow> int list \<Rightarrow> bool" where
  "row_major_strides (d # ds) (s # ss) = ((d = 1 \<or> s = prod_list ds) \<and> row_major_strides ds ss)"
| "row_major_strides ds ss = (ds = [] \<and> ss = [])"

definition nd_c_contiguous :: "ndarray \<Rightarrow> bool" where
  "nd_c_contiguous a \<longleftrightarrow> 0 \<in> set (nd_shape a) \<or> row_major_strides (nd_shape a) (nd_strides a)"

definition strided_elems :: "int list \<Rightarrow> int list \<Rightarrow> real list \<Rightarrow> real list" where
  "strided_elems shape strides mem = map (\<lambda>p. mem ! nat p) (positions 0 shape strides)"

definition nd_wf :: "ndarray \<Rightarrow> bool" where
  "nd_wf a \<longleftrightarrow> (\<forall>d \<in> set (nd_shape a). 0 \<le> d) \<and> length (nd_strides a) = length (nd_shape a)
     \<and> (\<forall>p \<in> set (positions 0 (nd_shape a) (nd_strides a)). 0 \<le> p \<and> p < int (length (nd_mem a)))
     \<and> nd_elems a = strided_elems (nd_shape a) (nd_strides a) (nd_mem a)
     \<and> length (positions 0 (nd_shape a) (nd_strides a)) \<le> length (nd_mem a)"

text \<open>A freshly made array in row-major order.\<close>

fun c_strides :: "int list \<Rightarrow> int list" where
  "c_strides [] = []"
| "c_strides (d # ds) = prod_list ds # c_strides ds"

definition row_major :: "int list \<Rightarrow> string \<Rightarrow> real list \<Rightarrow> ndarray" where
  "row_major shape dt xs =
     \<lparr>nd_shape = shape, nd_dtype = dt, nd_strides = c_strides shape, nd_elems = xs, nd_mem = xs\<rparr>"

definition nd_compact :: "ndarray \<Rightarrow> bool" where
  "nd_compact a \<longleftrightarrow> a = row_major (nd_shape a) (nd_dtype a) (nd_elems a)"

text \<open>
  \<open>tensor_from_numpy\<close> makes a buffer of as many bytes as the tensor needs (the constructor of
  \<open>MNBuffer\<close> refuses 0 bytes and more than the device's maximum) and copies raw bytes into it
  from the array's data pointer on, whatever the array's element type and strides. The byte
  count is a \<open>size_t\<close>.
\<close>

definition mn_from_numpy :: "device \<Rightarrow> ndarray \<Rightarrow> string \<Rightarrow> bool \<Rightarrow> mntensor res" where
  "mn_from_numpy dev a dt requires_grad =
     bindR (parse_dtype_str dt) (\<lambda>m.
       let nbytes = (int (length (nd_elems a)) * int (dtype_size m)) mod 2 ^ 64;
           count = nat (nbytes div int (dtype_size m))
       in if nbytes = 0 then raise NativeError ''MNBuffer: size must be > 0''
       else if max_buffer_length dev < nbytes
       then raise NativeError ''MNBuffer: requested size exceeds device maximum''
       else if alloc_ok dev nbytes
       then Inr \<lparr>mt_shape = nd_shape a, mt_strides = contiguous_strides (nd_shape a), mt_dtype = m,
                 mt_data = (if nd_dtype a = dtype_name m then take count (nd_mem a)
                            else reread dev (nd_dtype a) m (nd_mem a) count)\<rparr>
       else raise NativeError ''MNBuffer: newBufferWithLength returned nil'')"

text \<open>
  \<open>tensor_to_numpy\<close> gives a view of the buffer with the tensor's shape and strides; bfloat16
  data is presented as float16.
\<close>

definition mn_to_numpy :: "device \<Rightarrow> mntensor \<Rightarrow> ndarray res" where
  "mn_to_numpy dev t =
     (let xs = (if mt_dtype t = BFloat16 then as_half dev (mt_data t) else mt_data t)
      in Inr \<lparr>nd_shape = mt_shape t, nd_dtype = dtype_to_numpy_format (mt_dtype t),
              nd_strides = mt_strides t, nd_elems = strided_elems (mt_shape t) (mt_strides t) xs,
              nd_mem = xs\<rparr>)"

definition mn_item :: "mntensor \<Rightarrow> real res" where
  "mn_item t = (if mt_numel t = 1 then Inr (mt_data t ! 0)
     else raise NativeError ''tensor_item: tensor must have exactly 1 element'')"

section \<open>Lemmas: 64-bit products\<close>

lemma s64_mult [simp]: "s64 (s64 a * b) = s64 (a * b)" "s64 (a * s64 b) = s64 (a * b)"
  by (simp_all add: s64_def flip: wi_hom_mult)

lemma s64_id: "- (2 ^ 63) \<le> i \<Longrightarrow> i < 2 ^ 63 \<Longrightarrow> s64 i = i"
  by (simp add: s64_def sint_sbintrunc' signed_take_bit_int_eq_self)

lemma s64_idem [simp]: "s64 (s64 a) = s64 a"
  using s64_mult(1) [of a 1] by simp

lemma s64_1 [simp]: "s64 1 = 1"
  by (rule s64_id) simp_all

lemma numel_from_s64: "s64 acc = acc \<Longrightarrow> numel_from acc dims = s64 (acc * prod_list dims)"
proof (induction dims arbitrary: acc)
  case Nil
  then show ?case by simp
next
  case (Cons d dims)
  then show ?case by (simp add: mult.assoc)
qed

lemma mn_numel_s64: "mn_numel dims = s64 (prod_list dims)"
  by (simp add: mn_numel_def numel_from_s64)

text \<open>Shapes whose products stay within 64 bits, also with the empty dimensions left out.\<close>

definition fits :: "int list \<Rightarrow> bool" where
  "fits dims \<longleftrightarrow> (\<forall>d \<in> set dims. 0 \<le> d) \<and> prod_list (map (max 1) dims) < 2 ^ 63"

lemma prod_max1_ge1: "1 \<le> prod_list (map (max 1) (dims :: int list))"
proof (induction dims)
  case Nil
  then show ?case by simp
next
  case (Cons d dims)
  have "1 * 1 \<le> max 1 d * prod_list (map (max 1) dims)"
    using Cons.IH by (intro mult_mono) simp_all
  then show ?case by simp
qed

lemma prod_nonneg: "\<forall>d \<in> set dims. 0 \<le> d \<Longrightarrow> 0 \<le> prod_list (dims :: int list)"
  by (induction dims) simp_all

lemma prod_le_prod_max1:
  "\<forall>d \<in> set dims. 0 \<le> d \<Longrightarrow> prod_list dims \<le> prod_list (map (max 1) (dims :: int list))"
proof (induction dims)
  case Nil
  then show ?case by simp
next
  case (Cons d dims)
  then show ?case using prod_nonneg [of dims] by (auto intro!: mult_mono)
qed

lemma prod_list_ge1: "\<forall>d \<in> set ds. 1 \<le> d \<Longrightarrow> 1 \<le> prod_list (ds :: int list)"
proof (induction ds)
  case (Cons d ds)
  then have "1 * 1 \<le> d * prod_list ds" by (intro mult_mono) simp_all
  then show ?case by simp
qed simp

lemma fits_bounds: "fits dims \<Longrightarrow> 0 \<le> prod_list dims \<and> prod_list dims < 2 ^ 63"
  using prod_nonneg prod_le_prod_max1 by (fastforce simp: fits_def)

lemma fits_numel: "fits dims \<Longrightarrow> mn_numel dims = prod_list dims"
  using fits_bounds [of dims] by (simp add: mn_numel_s64 s64_id)

lemma fits_Nil [simp]: "fits []"
  by (simp add: fits_def)

lemma prod_max1_sublist_le:
  "prod_list (map (max 1) xs) \<le> prod_list (map (max 1) (xs @ (ys :: int list)))"
  "prod_list (map (max 1) ys) \<le> prod_list (map (max 1) (xs @ (ys :: int list)))"
proof -
  have "prod_list (map (max 1) xs) * 1 \<le> prod_list (map (max 1) xs) * prod_list (map (max 1) ys)"
    using prod_max1_ge1 [of ys] prod_max1_ge1 [of xs] by (intro mult_left_mono) simp_all
  then show "prod_list (map (max 1) xs) \<le> prod_list (map (max 1) (xs @ ys))" by simp
  have "1 * prod_list (map (max 1) ys) \<le> prod_list (map (max 1) xs) * prod_list (map (max 1) ys)"
    using prod_max1_ge1 [of xs] prod_max1_ge1 [of ys] by (intro mult_right_mono) simp_all
  then show "prod_list (map (max 1) ys) \<le> prod_list (map (max 1) (xs @ ys))" by simp
qed

lemma fits_append: "fits (xs @ ys) \<Longrightarrow> fits xs" "fits (xs @ ys) \<Longrightarrow> fits ys"
  using prod_max1_sublist_le(1) [of xs ys] prod_max1_sublist_le(2) [of ys xs]
  by (auto simp: fits_def simp del: map_append prod_list.append)

lemma fits_Cons: "fits (d # ds) \<Longrightarrow> fits ds"
  using fits_append(2) [of "[d]" ds] by simp

lemma fits_one: "fits [d] \<longleftrightarrow> 0 \<le> d \<and> d < 2 ^ 63"
  by (auto simp: fits_def)

lemma contiguous_strides_Cons:
  "contiguous_strides (d # ds) = s64 (prod_list ds) # contiguous_strides ds"
proof (induction ds arbitrary: d)
  case Nil
  then show ?case by simp
next
  case (Cons e ds)
  show ?case by (simp add: Cons.IH Let_def mult.commute)
qed

lemma length_contiguous_strides [simp]: "length (contiguous_strides dims) = length dims"
  by (induction dims rule: contiguous_strides.induct) (simp_all add: Let_def)

text \<open>The expected stride after a run of (reversed) dimensions.\<close>

fun expected_after :: "int \<Rightarrow> int list \<Rightarrow> int" where
  "expected_after e [] = e"
| "expected_after e (d # ds) = expected_after (if d \<noteq> 1 then s64 (e * d) else e) ds"

lemma expected_after_s64: "s64 e = e \<Longrightarrow> expected_after e ds = s64 (e * prod_list ds)"
proof (induction ds arbitrary: e)
  case Nil
  then show ?case by simp
next
  case (Cons d ds)
  then show ?case by (simp add: mult.assoc)
qed

lemma contiguous_rev_snoc:
  "length ss = length xs \<Longrightarrow>
   contiguous_rev e (xs @ [d]) (ss @ [s]) \<longleftrightarrow>
     contiguous_rev e xs ss \<and> (d \<noteq> 1 \<longrightarrow> s = expected_after e xs)"
proof (induction e xs ss rule: contiguous_rev.induct)
  case (1 expected d ds s ss)
  then show ?case by auto
qed auto

lemma prod_list_rev: "prod_list (rev (xs :: int list)) = prod_list xs"
  by (induction xs) (simp_all add: mult.commute)

lemma contiguous_strides_contiguous: "is_contiguous_shape dims (contiguous_strides dims)"
proof (induction dims)
  case Nil
  then show ?case by (simp add: is_contiguous_shape_def)
next
  case (Cons d ds)
  then have "contiguous_rev 1 (rev ds) (rev (contiguous_strides ds))"
    by (simp add: is_contiguous_shape_def)
  then show ?case
    by (simp add: is_contiguous_shape_def contiguous_strides_Cons contiguous_rev_snoc
        expected_after_s64 prod_list_rev)
qed

section \<open>Lemmas: layouts of arrays\<close>

lemma length_positions: "length ss = length ds \<Longrightarrow> length (positions off ds ss) = prod_list (map nat ds)"
proof (induction off ds ss rule: positions.induct)
  case (1 off d ds s ss)
  then have eq: "map (\<lambda>i. length (positions (off + int i * s) ds ss)) [0..<nat d]
      = map (\<lambda>_. prod_list (map nat ds)) [0..<nat d]"
    by (intro map_cong refl) auto
  have "length (positions off (d # ds) (s # ss))
      = sum_list (map (\<lambda>i. length (positions (off + int i * s) ds ss)) [0..<nat d])"
    by (simp add: length_concat comp_def)
  also have "\<dots> = nat d * prod_list (map nat ds)" unfolding eq by (simp add: sum_list_triv)
  finally show ?case by simp
qed simp_all

lemma prod_list_map_nat: "\<forall>d \<in> set ds. 0 \<le> d \<Longrightarrow> prod_list (map nat ds) = nat (prod_list (ds :: int list))"
  by (induction ds) (simp_all add: nat_mult_distrib)

lemma length_strided_elems [simp]: "length (strided_elems ds ss mem) = length (positions 0 ds ss)"
  by (simp add: strided_elems_def)

lemma nd_wf_elems:
  "nd_wf a \<Longrightarrow> nd_elems a = strided_elems (nd_shape a) (nd_strides a) (nd_mem a)"
  "nd_wf a \<Longrightarrow> length (nd_elems a) \<le> length (nd_mem a)"
  by (simp_all add: nd_wf_def)

lemma nd_wf_length: "nd_wf a \<Longrightarrow> int (length (nd_elems a)) = prod_list (nd_shape a)"
  by (simp add: nd_wf_def strided_elems_def length_positions prod_list_map_nat prod_nonneg)

lemma length_c_strides [simp]: "length (c_strides ds) = length ds"
  by (induction ds) simp_all

lemma row_major_c_strides [simp]: "row_major_strides ds (c_strides ds)"
  by (induction ds) simp_all

lemma row_major_length: "row_major_strides ds ss \<Longrightarrow> length ss = length ds"
  by (induction ds ss rule: row_major_strides.induct) auto

lemma concat_blocks: "concat (map (\<lambda>i. map (\<lambda>j. f (i * n + j)) [0..<n]) [0..<m]) = map f [0..<m * n]"
proof (induction m)
  case (Suc m)
  have "map f [0..<Suc m * n] = map f [0..<m * n] @ map f [m * n..<m * n + n]"
    using upt_add_eq_append [of 0 "m * n" n] by (simp add: add.commute)
  moreover have "map f [m * n..<m * n + n] = map (\<lambda>j. f (m * n + j)) [0..<n]"
    by (rule nth_equalityI) simp_all
  ultimately show ?case using Suc by simp
qed simp

lemma row_major_positions:
  "row_major_strides ds ss \<Longrightarrow> \<forall>d \<in> set ds. 1 \<le> d \<Longrightarrow>
   positions off ds ss = map (\<lambda>i. off + int i) [0..<nat (prod_list ds)]"
proof (induction ds ss arbitrary: off rule: row_major_strides.induct)
  case (1 d ds s ss)
  then have d: "1 \<le> d" and p: "0 \<le> prod_list ds" by (auto intro!: prod_nonneg)
  let ?n = "nat (prod_list ds)"
  have "positions (off + int i * s) ds ss = map (\<lambda>j. off + int (i * ?n + j)) [0..<?n]"
    if i: "i < nat d" for i
  proof -
    from 1(2) i have "int i * s = int (i * ?n)" using p by auto
    with 1 show ?thesis by (simp add: add.assoc)
  qed
  then have "map (\<lambda>i. positions (off + int i * s) ds ss) [0..<nat d]
      = map (\<lambda>i. map (\<lambda>j. off + int (i * ?n + j)) [0..<?n]) [0..<nat d]"
    by (intro map_cong refl) simp
  then have "positions off (d # ds) (s # ss)
      = concat (map (\<lambda>i. map (\<lambda>j. off + int (i * ?n + j)) [0..<?n]) [0..<nat d])"
    by (simp only: positions.simps)
  also have "\<dots> = map (\<lambda>i. off + int i) [0..<nat d * ?n]" by (rule concat_blocks)
  finally show ?case using d p by (simp add: nat_mult_distrib)
qed auto

lemma prod_list_0: "0 \<in> set ds \<Longrightarrow> prod_list (ds :: int list) = 0"
  by (induction ds) auto

lemma empty_positions:
  "length ss = length ds \<Longrightarrow> \<forall>d \<in> set ds. 0 \<le> d \<Longrightarrow> 0 \<in> set ds \<Longrightarrow> positions off ds ss = []"
  using length_positions [of ss ds off] by (simp add: prod_list_map_nat prod_list_0)

text \<open>C-contiguous arrays have their elements at the beginning of their memory, and only they do.\<close>

lemma contiguous_positions:
  assumes len: "length ss = length ds" and nn: "\<forall>d \<in> set ds. 0 \<le> d"
    and c: "0 \<in> set ds \<or> row_major_strides ds ss"
  shows "positions 0 ds ss = map int [0..<nat (prod_list ds)]"
proof (cases "0 \<in> set ds")
  case True
  then have "prod_list ds = 0" by (rule prod_list_0)
  with empty_positions [OF len nn True] show ?thesis by simp
next
  case False
  then have "\<forall>d \<in> set ds. 1 \<le> d" using nn by (metis int_one_le_iff_zero_less order_le_less)
  with row_major_positions [of ds ss 0] c False show ?thesis by simp
qed

lemma positions_row_major:
  "length ss = length ds \<Longrightarrow> \<forall>d \<in> set ds. 1 \<le> d \<Longrightarrow>
   positions off ds ss = map (\<lambda>i. off + int i) [0..<nat (prod_list ds)] \<Longrightarrow> row_major_strides ds ss"
proof (induction off ds ss rule: positions.induct)
  case (1 off d ds s ss)
  let ?n = "nat (prod_list ds)"
  have d: "1 \<le> d" and ds: "\<forall>d \<in> set ds. 1 \<le> d" and len: "length ss = length ds" using 1 by simp_all
  have p: "1 \<le> prod_list ds" using ds by (rule prod_list_ge1)
  have split: "positions off (d # ds) (s # ss) = positions off ds ss
      @ concat (map (\<lambda>i. positions (off + int i * s) ds ss) [1..<nat d])"
    using d by (simp add: upt_conv_Cons)
  have ln: "length (positions q ds ss) = ?n" for q
    using length_positions [OF len, of q] ds by (subst prod_list_map_nat [symmetric]) auto
  have tot: "positions off (d # ds) (s # ss) = map (\<lambda>i. off + int i) [0..<nat d * ?n]"
    using 1(4) d p by (simp add: nat_mult_distrib)
  have "1 \<le> nat d" using d by linarith
  from mult_le_mono1 [OF this, of ?n] have le: "?n \<le> nat d * ?n" by (simp only: mult_1)
  have "positions off ds ss = take ?n (positions off (d # ds) (s # ss))"
    unfolding split by (simp add: ln)
  also have "\<dots> = map (\<lambda>i. off + int i) [0..<?n]"
    unfolding tot using le by (simp add: take_map)
  finally have first: "positions off ds ss = map (\<lambda>i. off + int i) [0..<?n]" .
  have tail: "row_major_strides ds ss"
    using 1(1) [of 0] first d ds len by simp
  have "s = prod_list ds" if "d \<noteq> 1"
  proof -
    from that d have d2: "1 < nat d" by simp
    then have "[1..<nat d] = 1 # [2..<nat d]" by (simp add: upt_conv_Cons numeral_2_eq_2)
    then have "positions off (d # ds) (s # ss) ! ?n = positions (off + s) ds ss ! 0"
      unfolding split using p by (simp add: ln nth_append)
    also have "\<dots> = off + s" using row_major_positions [OF tail ds] p by simp
    finally have "off + s = off + int ?n" unfolding tot using d2 p by simp
    with p show ?thesis by simp
  qed
  with tail show ?case by auto
qed auto

lemma nd_wf_mem: "nd_wf a \<Longrightarrow> nd_c_contiguous a \<Longrightarrow> take (length (nd_elems a)) (nd_mem a) = nd_elems a"
proof -
  assume a: "nd_wf a" "nd_c_contiguous a"
  have n: "nat (prod_list (nd_shape a)) = length (nd_elems a)" using nd_wf_length [OF a(1)] by simp
  have p: "positions 0 (nd_shape a) (nd_strides a) = map int [0..<length (nd_elems a)]"
    using contiguous_positions [of "nd_strides a" "nd_shape a"] a
    unfolding n nd_wf_def nd_c_contiguous_def by blast
  have "nd_elems a = strided_elems (nd_shape a) (nd_strides a) (nd_mem a)" using a(1) by (rule nd_wf_elems)
  also have "\<dots> = map (\<lambda>i. nd_mem a ! i) [0..<length (nd_elems a)]"
    by (simp add: strided_elems_def p comp_def)
  finally have e: "nd_elems a = map (\<lambda>i. nd_mem a ! i) [0..<length (nd_elems a)]" .
  have "length (nd_elems a) \<le> length (nd_mem a)" using a(1) by (rule nd_wf_elems)
  then have "take (length (nd_elems a)) (nd_mem a) = map (\<lambda>i. nd_mem a ! i) [0..<length (nd_elems a)]"
    by (intro nth_equalityI) simp_all
  with e show ?thesis by simp
qed

lemma row_major_simps [simp]:
  "nd_shape (row_major s d xs) = s" "nd_dtype (row_major s d xs) = d" "nd_elems (row_major s d xs) = xs"
  "nd_mem (row_major s d xs) = xs" "nd_strides (row_major s d xs) = c_strides s"
  by (simp_all add: row_major_def)

lemma row_major_compact [simp]: "nd_compact (row_major s d xs)"
  by (simp add: nd_compact_def)

lemma row_major_contiguous [simp]: "nd_c_contiguous (row_major s d xs)"
  by (simp add: nd_c_contiguous_def)

lemma nd_compact_contiguous: "nd_compact a \<Longrightarrow> nd_c_contiguous a"
  using row_major_contiguous [of "nd_shape a" "nd_dtype a" "nd_elems a"]
  unfolding nd_compact_def by argo

lemma row_major_elems:
  assumes "\<forall>d \<in> set s. 0 \<le> d" "int (length xs) = prod_list s"
  shows "strided_elems s (c_strides s) xs = xs"
proof -
  have "positions 0 s (c_strides s) = map int [0..<length xs]"
    using contiguous_positions [of "c_strides s" s] assms(1) unfolding assms(2) [symmetric] by simp
  then show ?thesis by (simp add: strided_elems_def comp_def map_nth)
qed

lemma row_major_wf [simp]:
  "nd_wf (row_major s d xs) \<longleftrightarrow> (\<forall>d \<in> set s. 0 \<le> d) \<and> int (length xs) = prod_list s"
proof
  assume "nd_wf (row_major s d xs)"
  with nd_wf_length [OF this] show "(\<forall>d \<in> set s. 0 \<le> d) \<and> int (length xs) = prod_list s"
    by (simp add: nd_wf_def)
next
  assume a: "(\<forall>d \<in> set s. 0 \<le> d) \<and> int (length xs) = prod_list s"
  then have "positions 0 s (c_strides s) = map int [0..<nat (prod_list s)]"
    by (intro contiguous_positions) simp_all
  with a row_major_elems [of s xs] show "nd_wf (row_major s d xs)" by (auto simp: nd_wf_def)
qed

lemma nd_compact_length:
  "nd_compact a \<Longrightarrow> nd_wf a \<longleftrightarrow> (\<forall>d \<in> set (nd_shape a). 0 \<le> d) \<and> int (length (nd_elems a)) = prod_list (nd_shape a)"
  using row_major_wf [of "nd_shape a" "nd_dtype a" "nd_elems a"]
  unfolding nd_compact_def by argo

text \<open>Another memory under the same layout.\<close>

lemma nd_wf_relayout:
  assumes "nd_wf a" "length mem = length (nd_mem a)"
  shows "nd_wf (a\<lparr>nd_elems := strided_elems (nd_shape a) (nd_strides a) mem, nd_mem := mem\<rparr>)"
  using assms by (simp add: nd_wf_def)

lemma strided_elems_map:
  assumes "nd_wf a"
  shows "strided_elems (nd_shape a) (nd_strides a) (map f (nd_mem a)) = map f (nd_elems a)"
  using assms by (auto simp: nd_wf_elems nd_wf_def strided_elems_def nat_less_iff)

lemma nd_wf_map: "nd_wf a \<Longrightarrow> nd_wf (a\<lparr>nd_dtype := d, nd_elems := map f (nd_elems a), nd_mem := map f (nd_mem a)\<rparr>)"
  using strided_elems_map [of a f] by (simp add: nd_wf_def)

text \<open>
  The layouts whose arrays always have their elements in memory order are the C-contiguous ones.
\<close>

lemma layout_contiguous:
  assumes a: "nd_wf a"
    and all: "\<And>mem. length mem = length (nd_mem a) \<Longrightarrow>
      take (length (nd_elems a)) mem = strided_elems (nd_shape a) (nd_strides a) mem"
  shows "nd_c_contiguous a"
proof (cases "0 \<in> set (nd_shape a)")
  case False
  let ?n = "nat (prod_list (nd_shape a))" and ?ps = "positions 0 (nd_shape a) (nd_strides a)"
  from a have nn: "\<forall>d \<in> set (nd_shape a). 0 \<le> d" and len: "length (nd_strides a) = length (nd_shape a)"
    and ps: "\<forall>p \<in> set ?ps. 0 \<le> p \<and> p < int (length (nd_mem a))" by (simp_all add: nd_wf_def)
  with False have d1: "\<forall>d \<in> set (nd_shape a). 1 \<le> d" by (metis int_one_le_iff_zero_less order_le_less)
  have n: "?n = length (nd_elems a)" using nd_wf_length [OF a] by simp
  then have le: "?n \<le> length (nd_mem a)" using nd_wf_elems(2) [OF a] by simp
  let ?mem = "map real [0..<length (nd_mem a)]"
  have "map real [0..<?n] = take ?n ?mem" using le by (simp add: take_map)
  also have "\<dots> = map (\<lambda>p. real (nat p)) ?ps"
    using all [of ?mem] ps n by (simp add: strided_elems_def nat_less_iff cong: map_cong)
  finally have eq: "map real [0..<?n] = map real (map nat ?ps)" by (simp add: comp_def)
  then have "[0..<?n] = map nat ?ps" by (rule map_injective) (simp add: inj_def)
  then have "map int [0..<?n] = map (\<lambda>p. int (nat p)) ?ps" by (simp add: comp_def)
  also have "\<dots> = ?ps" using ps by (simp add: map_idI)
  finally have "?ps = map (\<lambda>i. 0 + int i) [0..<?n]" by simp
  from positions_row_major [OF len d1 this] show ?thesis by (simp add: nd_c_contiguous_def)
qed (simp add: nd_c_contiguous_def)

section \<open>Lemmas: the tensor invariant\<close>

text \<open>
  The tensors the Python package builds: sizes within 64 bits, row-major strides, one buffer
  element per tensor element.
\<close>

definition mt_wf :: "mntensor \<Rightarrow> bool" where
  "mt_wf t \<longleftrightarrow> fits (mt_shape t) \<and> mt_strides t = contiguous_strides (mt_shape t)
     \<and> length (mt_data t) = nat (prod_list (mt_shape t))"

lemma mt_wf_contiguous: "mt_wf t \<Longrightarrow> mt_is_contiguous t"
  by (simp add: mt_wf_def mt_is_contiguous_def contiguous_strides_contiguous)

lemma mt_wf_numel: "mt_wf t \<Longrightarrow> mt_numel t = prod_list (mt_shape t)"
  by (simp add: mt_wf_def mt_numel_def fits_numel)

lemma contiguous_strides_c: "fits ds \<Longrightarrow> contiguous_strides ds = c_strides ds"
proof (induction ds)
  case (Cons d ds)
  then have "fits ds" by (rule_tac fits_Cons)
  with Cons fits_bounds [of ds] show ?case by (simp add: contiguous_strides_Cons s64_id)
qed simp

text \<open>What \<open>numpy()\<close> gives for a well-formed tensor of a type that NumPy has.\<close>

lemma mn_to_numpy_plain:
  assumes "mt_wf t" "mt_dtype t \<noteq> BFloat16"
  shows "mn_to_numpy dev t = Inr (row_major (mt_shape t) (dtype_name (mt_dtype t)) (mt_data t))"
proof -
  have d: "dtype_to_numpy_format (mt_dtype t) = dtype_name (mt_dtype t)"
    using assms(2) by (cases "mt_dtype t") simp_all
  have "\<forall>d \<in> set (mt_shape t). 0 \<le> d" "int (length (mt_data t)) = prod_list (mt_shape t)"
    using assms(1) fits_bounds [of "mt_shape t"] by (auto simp: mt_wf_def fits_def)
  with assms d show ?thesis
    by (simp add: mn_to_numpy_def Let_def row_major_def mt_wf_def contiguous_strides_c row_major_elems)
qed

lemma mn_empty_Inr:
  assumes "mn_empty dev shape dt = Inr t"
  shows "mt_shape t = shape" "mt_strides t = contiguous_strides shape" "mt_dtype t = dt"
    "mt_data t = uninit dev (nat (mn_numel shape))"
  using assms by (auto simp: mn_empty_def Let_def split: if_splits)

lemma mn_empty_wf: "mn_empty dev shape dt = Inr t \<Longrightarrow> device_ok dev \<Longrightarrow> fits shape \<Longrightarrow> mt_wf t"
  by (simp add: mt_wf_def mn_empty_Inr fits_numel device_ok_def)

lemma mn_empty_data_wf:
  "mn_empty dev shape dt = Inr t \<Longrightarrow> fits shape \<Longrightarrow> length xs = nat (prod_list shape)
   \<Longrightarrow> mt_wf (t\<lparr>mt_data := xs\<rparr>)"
  by (simp add: mt_wf_def mn_empty_Inr)

lemma mn_filled_wf: "mn_filled dev v shape dt = Inr t \<Longrightarrow> fits shape \<Longrightarrow> mt_wf t"
  by (auto simp: mn_filled_def fits_numel intro!: mn_empty_data_wf)

text \<open>
  The device has room for a buffer of this element type and shape; the bound on the number of
  elements keeps the byte count within \<open>size_t\<close> for every type.
\<close>

definition holdable :: "device \<Rightarrow> mndtype \<Rightarrow> int list \<Rightarrow> bool" where
  "holdable dev m shape \<longleftrightarrow>
     (let nbytes = prod_list shape * int (dtype_size m)
      in 0 < nbytes \<and> prod_list shape < 2 ^ 61 \<and> nbytes \<le> max_buffer_length dev \<and> alloc_ok dev nbytes)"

lemma holdable_fits:
  assumes "nd_wf a" "holdable dev m (nd_shape a)"
  shows "fits (nd_shape a)"
proof -
  have nn: "\<forall>d \<in> set (nd_shape a). 0 \<le> d" using assms(1) by (simp add: nd_wf_def)
  have p: "prod_list (nd_shape a) \<noteq> 0" "prod_list (nd_shape a) < 2 ^ 61" using assms(2) by (auto simp: holdable_def Let_def)
  then have "0 \<notin> set (nd_shape a)" using prod_list_0 by blast
  with nn have "\<forall>d \<in> set (nd_shape a). max 1 d = d" by (metis int_one_le_iff_zero_less max.absorb2 order_le_less)
  then have "map (max 1) (nd_shape a) = nd_shape a" by (simp add: map_idI)
  with nn p show ?thesis by (simp add: fits_def)
qed

lemma dtype_size_pos [simp]: "0 < dtype_size m"
  by (cases m) simp_all

lemma mn_from_numpy_shape: "mn_from_numpy dev a dt g = Inr t \<Longrightarrow>
    mt_shape t = nd_shape a \<and> mt_strides t = contiguous_strides (nd_shape a) \<and> dtype_name (mt_dtype t) = dt"
  by (auto simp: mn_from_numpy_def bindR_Inr_iff Let_def parse_dtype_str_Inr split: if_splits)

lemma nbytes_fit: "0 \<le> n \<Longrightarrow> n < 2 ^ 61 \<Longrightarrow> (n * int (dtype_size m)) mod 2 ^ 64 = n * int (dtype_size m)"
  by (cases m) simp_all

lemma mn_from_numpy_holdable:
  assumes "nd_wf a" "holdable dev m (nd_shape a)" "nd_dtype a = dtype_name m"
  shows "mn_from_numpy dev a (dtype_name m) g = Inr \<lparr>mt_shape = nd_shape a,
    mt_strides = contiguous_strides (nd_shape a), mt_dtype = m, mt_data = take (length (nd_elems a)) (nd_mem a)\<rparr>"
proof -
  have n: "prod_list (nd_shape a) = int (length (nd_elems a))" using nd_wf_length [OF assms(1)] by simp
  from assms(2) have "int (length (nd_elems a)) < 2 ^ 61" "length (nd_elems a) \<noteq> 0"
    by (auto simp: holdable_def n Let_def)
  with assms(2,3) nbytes_fit [of "int (length (nd_elems a))" m] show ?thesis
    by (simp add: mn_from_numpy_def Let_def holdable_def n)
qed

lemma mn_from_numpy_empty:
  assumes "nd_wf a" "prod_list (nd_shape a) = 0"
  shows "raises NativeError (mn_from_numpy dev a (dtype_name m) g)"
  using assms nd_wf_length [OF assms(1)] by (simp add: mn_from_numpy_def Let_def)

lemma mn_from_numpy_wf:
  "nd_wf a \<Longrightarrow> fits (nd_shape a) \<Longrightarrow>
   mt_wf \<lparr>mt_shape = nd_shape a, mt_strides = contiguous_strides (nd_shape a), mt_dtype = m,
     mt_data = take (length (nd_elems a)) (nd_mem a)\<rparr>"
  using nd_wf_length [of a] by (simp add: mt_wf_def nd_wf_def)

text \<open>
  What comes out for an array of the requested type, when its sizes and the byte count stay
  within 64 bits.
\<close>

lemma mn_from_numpy_Inr:
  assumes r: "mn_from_numpy dev a dt g = Inr t" and a: "nd_wf a" "nd_dtype a = dt"
    and fit: "prod_list (nd_shape a) < 2 ^ 61"
  shows "\<exists>m. dt = dtype_name m \<and> t = \<lparr>mt_shape = nd_shape a, mt_strides = contiguous_strides (nd_shape a),
    mt_dtype = m, mt_data = take (length (nd_elems a)) (nd_mem a)\<rparr>"
proof -
  obtain m where m: "parse_dtype_str dt = Inr m"
    using r by (cases "parse_dtype_str dt") (simp_all add: mn_from_numpy_def)
  then have dt: "dt = dtype_name m" by (simp add: parse_dtype_str_Inr)
  have "int (length (nd_elems a)) < 2 ^ 61" using nd_wf_length [OF a(1)] fit by simp
  then have "(int (length (nd_elems a)) * int (dtype_size m)) mod 2 ^ 64 = int (length (nd_elems a)) * int (dtype_size m)"
    by (intro nbytes_fit) simp_all
  with r m dt a(2) show ?thesis
    by (intro exI [of _ m]) (auto simp: mn_from_numpy_def Let_def split: if_splits)
qed

section \<open>Lemmas: reshape\<close>

lemma reshape_scan_nonneg:
  "\<forall>d \<in> set ds. 0 \<le> d \<Longrightarrow> reshape_scan ds i ix known = Inr (ix, numel_from known ds)"
  by (induction ds arbitrary: i known) auto

lemma reshape_scan_append:
  "\<forall>d \<in> set xs. 0 \<le> d \<Longrightarrow> reshape_scan (xs @ ys) i ix known = reshape_scan ys (i + length xs) ix (numel_from known xs)"
  by (induction xs arbitrary: i known) auto

lemma numel_from_append: "numel_from a (xs @ ys) = numel_from (numel_from a xs) ys"
  by (induction xs arbitrary: a) simp_all

lemma reshape_scan_Inr_Some:
  "reshape_scan ds i (Some j) known = Inr r \<Longrightarrow>
   fst r = Some j \<and> (\<forall>d \<in> set ds. 0 \<le> d) \<and> snd r = numel_from known ds"
  by (induction ds arbitrary: i known) (auto split: if_splits)

text \<open>
  A successful scan finds no -1, or exactly one and its place; the product is that of the
  other dimensions.
\<close>

lemma reshape_scan_Inr_None:
  "reshape_scan ds i None known = Inr (ix, p) \<Longrightarrow> s64 known = known \<Longrightarrow>
     (case ix of
        None \<Rightarrow> (\<forall>d \<in> set ds. 0 \<le> d) \<and> p = s64 (known * prod_list ds)
      | Some j \<Rightarrow> i \<le> j \<and> j < i + length ds \<and> ds ! (j - i) = -1
          \<and> (\<forall>x. s64 (p * x) = s64 (known * prod_list (ds[j - i := x]))))"
proof (induction ds arbitrary: i known)
  case Nil
  then show ?case by auto
next
  case (Cons d ds)
  show ?case
  proof (cases "d = -1")
    case True
    with Cons.prems have r: "reshape_scan ds (Suc i) (Some i) known = Inr (ix, p)" by simp
    from reshape_scan_Inr_Some [OF r] have "ix = Some i" "p = numel_from known ds" by auto
    with True Cons.prems show ?thesis by (simp add: numel_from_s64 ac_simps)
  next
    case False
    with Cons.prems have d: "0 \<le> d" and r: "reshape_scan ds (Suc i) None (s64 (known * d)) = Inr (ix, p)"
      by (auto split: if_splits)
    show ?thesis
    proof (cases ix)
      case None
      with Cons.IH [OF r] d show ?thesis by (simp add: mult.assoc)
    next
      case (Some a)
      with Cons.IH [OF r] have a: "Suc i \<le> a" "a < Suc i + length ds" "ds ! (a - Suc i) = -1"
        and eq: "\<And>x. s64 (p * x) = s64 (known * d * prod_list (ds[a - Suc i := x]))" by simp_all
      from a(1) have "a - i = Suc (a - Suc i)" by simp
      with Some a eq show ?thesis by (simp add: mult.assoc)
    qed
  qed
qed

lemma mn_reshape_Inr:
  assumes "mn_reshape t s = Inr u"
  shows "mt_data u = mt_data t" "mt_dtype u = mt_dtype t"
    "mt_strides u = contiguous_strides (mt_shape u)" "mt_is_contiguous u"
    "mn_numel (mt_shape u) = mt_numel t" "-1 \<notin> set s \<Longrightarrow> mt_shape u = s"
proof -
  from assms obtain ix p where scan: "reshape_scan s 0 None 1 = Inr (ix, p)"
    and u: "(case ix of
             Some i \<Rightarrow> p \<noteq> 0 \<and> mt_numel t mod p = 0 \<and>
               u = t\<lparr>mt_shape := s[i := mt_numel t div p], mt_strides := contiguous_strides (s[i := mt_numel t div p])\<rparr>
           | None \<Rightarrow> p = mt_numel t \<and> u = t\<lparr>mt_shape := s, mt_strides := contiguous_strides s\<rparr>)"
  proof -
    from assms have "bindR (reshape_scan s 0 None 1) (\<lambda>(ix, p). reshape_finish t s ix p) = Inr u"
      by (simp add: mn_reshape_def split: if_splits)
    then obtain ix p where scan: "reshape_scan s 0 None 1 = Inr (ix, p)" and "reshape_finish t s ix p = Inr u"
      by (auto simp: bindR_Inr_iff)
    then have "(case ix of
             Some i \<Rightarrow> p \<noteq> 0 \<and> mt_numel t mod p = 0 \<and>
               u = t\<lparr>mt_shape := s[i := mt_numel t div p], mt_strides := contiguous_strides (s[i := mt_numel t div p])\<rparr>
           | None \<Rightarrow> p = mt_numel t \<and> u = t\<lparr>mt_shape := s, mt_strides := contiguous_strides s\<rparr>)"
      unfolding reshape_finish_def Let_def by (cases ix) (simp_all only: option.case raise_neq Inr_inject split: if_splits, simp_all)
    with scan show ?thesis by (rule that)
  qed
  note sc = reshape_scan_Inr_None [OF scan s64_1]
  show "mt_data u = mt_data t" "mt_dtype u = mt_dtype t" and st: "mt_strides u = contiguous_strides (mt_shape u)"
    using u by (cases ix; simp)+
  from st show "mt_is_contiguous u"
    by (simp add: mt_is_contiguous_def contiguous_strides_contiguous)
  show "mn_numel (mt_shape u) = mt_numel t"
  proof (cases ix)
    case None
    with u sc show ?thesis by (simp add: mn_numel_s64)
  next
    case (Some i)
    with u have m: "p * (mt_numel t div p) = mt_numel t" by auto
    from Some sc have "s64 (p * x) = s64 (prod_list (s[i := x]))" for x by simp
    from this [of "mt_numel t div p"] m have
      "s64 (mt_numel t) = s64 (prod_list (s[i := mt_numel t div p]))" by simp
    with Some u show ?thesis by (simp add: mn_numel_s64 mt_numel_def)
  qed
  assume "-1 \<notin> set s"
  with sc have "ix = None" by (cases ix) (auto dest!: nth_mem)
  with u show "mt_shape u = s" by simp
qed

text \<open>Going back to the old shape gives back the old tensor.\<close>

lemma mn_reshape_back:
  assumes wf: "mt_wf t" and r: "mn_reshape t s = Inr u"
  shows "mn_reshape u (mt_shape t) = Inr t"
proof -
  from wf have "\<forall>d \<in> set (mt_shape t). 0 \<le> d" by (simp add: mt_wf_def fits_def)
  then have "reshape_scan (mt_shape t) 0 None 1 = Inr (None, mt_numel t)"
    by (simp add: reshape_scan_nonneg mt_numel_def mn_numel_def)
  moreover have "mt_numel u = mt_numel t" using mn_reshape_Inr(5) [OF r] by (simp add: mt_numel_def)
  moreover have "u\<lparr>mt_shape := mt_shape t, mt_strides := contiguous_strides (mt_shape t)\<rparr> = t"
    using mn_reshape_Inr(1,2) [OF r] wf by (intro mntensor.equality) (simp_all add: mt_wf_def)
  ultimately show ?thesis
    using mn_reshape_Inr(4) [OF r] by (simp add: mn_reshape_def reshape_finish_def Let_def)
qed

end
