(* ===== verification/Reductions.thy ===== *)
theory Reductions
  imports Native
begin

text \<open>
  Reducing a tensor over all of its dimensions. The Python methods \<open>sum\<close>, \<open>mean\<close> and \<open>max\<close>
  without a dimension call the native reduction once per dimension, from the last to the
  first. The locale states what that loop needs of one native reduction (the last dimension
  disappears and a total of the elements is kept) and proves what the loop then computes; it
  is interpreted on the three native reductions of theory Native.
\<close>

section \<open>The loop\<close>

text \<open>\<open>for d in range(ndim - 1, -1, -1): result = reduce(result, d, False)\<close>, from \<open>d = n - 1\<close>.\<close>

fun reduce_all :: "('h \<Rightarrow> int \<Rightarrow> bool \<Rightarrow> 'h res) \<Rightarrow> nat \<Rightarrow> 'h \<Rightarrow> 'h res" where
  "reduce_all red 0 h = Inr h"
| "reduce_all red (Suc d) h = bindR (red h (int d) False) (reduce_all red d)"

locale last_axis_reduction =
  fixes red :: "'h \<Rightarrow> int \<Rightarrow> bool \<Rightarrow> 'h res"
    and shape :: "'h \<Rightarrow> int list"
    and ready :: "'h \<Rightarrow> bool"
    and total :: "'h \<Rightarrow> real"
  assumes reduce_last: "ready h \<Longrightarrow> shape h = ds @ [d] \<Longrightarrow>
    \<exists>h'. red h (int (length ds)) False = Inr h' \<and> ready h' \<and> shape h' = ds \<and> total h' = total h"
begin

lemma reduce_all_total:
  "ready h \<Longrightarrow> \<exists>h'. reduce_all red (length (shape h)) h = Inr h' \<and> ready h' \<and> shape h' = [] \<and> total h' = total h"
proof (induction "length (shape h)" arbitrary: h)
  case 0
  then show ?case by auto
next
  case (Suc n)
  then obtain ds d where sh: "shape h = ds @ [d]" by (metis length_Suc_conv_rev)
  from reduce_last [OF Suc.prems sh] obtain h' where h':
    "red h (int (length ds)) False = Inr h'" "ready h'" "shape h' = ds" "total h' = total h" by blast
  from Suc.hyps(2) sh have n: "n = length ds" by simp
  with h' Suc.hyps(1) [of h'] obtain h'' where
    "reduce_all red (length ds) h' = Inr h''" "ready h''" "shape h'' = []" "total h'' = total h'" by auto
  with h' sh show ?case by auto
qed

end

section \<open>The kernels on the last dimension\<close>

lemma reduce_kernel_last:
  "length xs = n * R \<Longrightarrow> reduce_kernel f n R 1 xs = map (\<lambda>g. f (take R (drop (g * R) xs))) [0..<n]"
proof -
  assume len: "length xs = n * R"
  have "map (\<lambda>r. xs ! (g * R + r)) [0..<R] = take R (drop (g * R) xs)" if "g < n" for g
  proof (rule nth_equalityI)
    from that have "Suc g * R \<le> n * R" by (intro mult_right_mono) simp_all
    then have "g * R + R \<le> length xs" by (simp add: len)
    then show "length (map (\<lambda>r. xs ! (g * R + r)) [0..<R]) = length (take R (drop (g * R) xs))"
      by simp
    fix i assume "i < length (map (\<lambda>r. xs ! (g * R + r)) [0..<R])"
    with \<open>g * R + R \<le> length xs\<close> show
      "map (\<lambda>r. xs ! (g * R + r)) [0..<R] ! i = take R (drop (g * R) xs) ! i" by simp
  qed
  then show ?thesis by (simp add: reduce_kernel_def)
qed

lemma concat_chunks: "concat (map (\<lambda>g. take R (drop (g * R) xs)) [0..<n]) = take (n * R) xs"
proof (induction n)
  case 0
  then show ?case by simp
next
  case (Suc n)
  have "take (Suc n * R) xs = take (n * R + R) xs" by (simp add: add.commute)
  also have "\<dots> = take (n * R) xs @ take R (drop (n * R) xs)" by (rule take_add)
  finally show ?case by (simp add: Suc.IH del: mult_Suc)
qed

lemma sum_chunks:
  "length xs = n * R \<Longrightarrow> sum_list (map (\<lambda>g. sum_list (take R (drop (g * R) xs))) [0..<n]) = sum_list xs"
  for xs :: "real list"
proof -
  assume len: "length xs = n * R"
  have "sum_list (map (\<lambda>g. sum_list (take R (drop (g * R) xs))) [0..<n]) =
      sum_list (concat (map (\<lambda>g. take R (drop (g * R) xs)) [0..<n]))"
    by (induction n) simp_all
  with len show ?thesis by (simp add: concat_chunks)
qed

lemma max_list_eq: "max_list m xs = Max (insert m (set xs))"
proof -
  have "fold max xs m = Max (set (m # xs))" by (simp only: Max.set_eq_fold)
  then show ?thesis by (simp add: max_list_def)
qed

lemma fold_max_max: "fold max xs (max a b) = max a (fold max xs (b :: real))"
proof (induction xs arbitrary: b)
  case (Cons x xs)
  have "max x (max a b) = max a (max x b)" by (rule max.left_commute)
  with Cons.IH [of "max x b"] show ?case by simp
qed simp

lemma max_chunks_gen:
  "fold max (map (\<lambda>c. fold max c m) cs) m = fold max (concat cs) (m :: real)"
proof (induction cs)
  case Nil
  then show ?case by simp
next
  case (Cons c cs)
  have ge: "m \<le> fold max c m" using max_list_eq [of m c] by (simp add: max_list_def)
  have "fold max (map (\<lambda>c. fold max c m) cs) (max (fold max c m) m)
      = max (fold max c m) (fold max (concat cs) m)"
    by (simp only: fold_max_max Cons.IH)
  moreover have "fold max (concat cs) (fold max c m) = max (fold max c m) (fold max (concat cs) m)"
    using fold_max_max [of "concat cs" "fold max c m" m] ge by (simp add: max_absorb1)
  ultimately show ?case by (simp add: max.commute)
qed

lemma max_chunks:
  "length xs = n * R \<Longrightarrow> max_list m (map (\<lambda>g. max_list m (take R (drop (g * R) xs))) [0..<n]) = max_list m xs"
  using max_chunks_gen [of m "map (\<lambda>g. take R (drop (g * R) xs)) [0..<n]"]
  by (simp add: max_list_def comp_def concat_chunks)

section \<open>Tensors a reduction accepts\<close>

text \<open>
  A floating-point tensor whose dimensions stay within the kernels' 32-bit sizes, on a device
  that has memory left.
\<close>

definition reducible :: "device \<Rightarrow> mntensor \<Rightarrow> bool" where
  "reducible dev t \<longleftrightarrow> mt_wf t \<and> mt_dtype t \<in> {Float32, Float16}
     \<and> prod_list (map (max 1) (mt_shape t)) \<le> u32_max
     \<and> device_ok dev \<and> (\<forall>n. alloc_ok dev n)"

lemma prod_le_max1: "\<forall>d \<in> set ds. 0 \<le> d \<Longrightarrow> prod_list (map (max 1) ds) \<le> u \<Longrightarrow> prod_list ds \<le> (u :: int)"
  using prod_le_prod_max1 order_trans by blast

lemma mn_empty_total:
  assumes "fits shape" "prod_list shape \<le> u32_max" "\<forall>n. alloc_ok dev n"
  shows "mn_empty dev shape dt = Inr \<lparr>mt_shape = shape, mt_strides = contiguous_strides shape,
           mt_dtype = dt, mt_data = uninit dev (nat (prod_list shape))\<rparr>"
proof -
  have "u32_max \<le> size_max div int (dtype_size dt)"
    by (cases dt) (simp_all add: size_max_def u32_max_def)
  with assms(2) have "\<not> prod_list shape > size_max div int (dtype_size dt)" by linarith
  with assms show ?thesis by (simp add: mn_empty_def Let_def fits_numel)
qed

lemma dispatch_reduction_last:
  assumes r: "reducible dev t" and sh: "mt_shape t = ds @ [d]"
  shows "dispatch_reduction dev f dt t (int (length ds)) False =
    Inr \<lparr>mt_shape = ds, mt_strides = contiguous_strides ds, mt_dtype = dt,
         mt_data = map (\<lambda>g. f (take (nat d) (drop (g * nat d) (mt_data t)))) [0..<nat (prod_list ds)]\<rparr>"
    and "length (mt_data t) = nat (prod_list ds) * nat d"
    and "fits ds" and "prod_list (map (max 1) ds) \<le> u32_max"
proof -
  from r have wf: "mt_wf t" and dt: "mt_dtype t \<in> {Float32, Float16}"
    and u: "prod_list (map (max 1) (mt_shape t)) \<le> u32_max" and al: "\<forall>n. alloc_ok dev n"
    by (simp_all add: reducible_def)
  from wf sh have fs: "fits (ds @ [d])" by (simp add: mt_wf_def)
  then show fd: "fits ds" by (rule fits_append)
  from fs have nn: "\<forall>x \<in> set (ds @ [d]). 0 \<le> x" by (simp add: fits_def)
  show ud: "prod_list (map (max 1) ds) \<le> u32_max"
    using prod_max1_sublist_le(1) [of ds "[d]"] u sh by simp
  have d1: "max 1 d \<le> u32_max"
    using prod_max1_sublist_le(2) [of "[d]" ds] u sh by simp
  show len: "length (mt_data t) = nat (prod_list ds) * nat d"
  proof -
    have "length (mt_data t) = nat (prod_list ds * d)"
      using wf by (simp add: mt_wf_def sh)
    moreover have "0 \<le> prod_list ds" by (rule prod_nonneg) (use nn in simp)
    then have "nat (prod_list ds * d) = nat (prod_list ds) * nat d" by (rule nat_mult_distrib)
    ultimately show ?thesis by (rule trans)
  qed
  have "prod_list ds \<le> u32_max" by (rule prod_le_max1 [OF _ ud]) (use nn in simp)
  note em = mn_empty_total [OF fd this al, of dt]
  have nd: "normalize_dim (int (length ds)) (length (mt_shape t)) = Inr (length ds)"
    by (simp add: normalize_dim_def sh)
  have rs: "reduction_shape (mt_shape t) (length ds) False = ds"
    by (simp add: reduction_shape_def sh)
  have outer: "mn_numel (take (length ds) (mt_shape t)) = prod_list ds"
    by (simp add: sh fits_numel fd)
  have inner: "mn_numel (drop (Suc (length ds)) (mt_shape t)) = 1"
    by (simp add: sh mn_numel_def)
  have red: "mt_shape t ! length ds = d" by (simp add: sh)
  have "\<not> (prod_list ds > u32_max \<or> d > u32_max \<or> (1::int) > u32_max)"
    using \<open>prod_list ds \<le> u32_max\<close> d1 by (simp add: u32_max_def)
  with dt show "dispatch_reduction dev f dt t (int (length ds)) False =
    Inr \<lparr>mt_shape = ds, mt_strides = contiguous_strides ds, mt_dtype = dt,
         mt_data = map (\<lambda>g. f (take (nat d) (drop (g * nat d) (mt_data t)))) [0..<nat (prod_list ds)]\<rparr>"
    unfolding dispatch_reduction_def nd bindR_simps rs em outer inner red
    using reduce_kernel_last [OF len, of f] by (simp add: mt_wf_contiguous [OF wf])
qed

lemma reducible_last:
  assumes "reducible dev t" "mt_shape t = ds @ [d]" "dt \<in> {Float32, Float16}" "length xs = nat (prod_list ds)"
  shows "reducible dev \<lparr>mt_shape = ds, mt_strides = contiguous_strides ds, mt_dtype = dt, mt_data = xs\<rparr>"
  using assms dispatch_reduction_last(3,4) [OF assms(1,2)] by (auto simp: reducible_def mt_wf_def)

section \<open>The native reductions\<close>

text \<open>The total kept by the mean is an average, so empty dimensions are left out there.\<close>

definition averageable :: "device \<Rightarrow> mntensor \<Rightarrow> bool" where
  "averageable dev t \<longleftrightarrow> reducible dev t \<and> (\<forall>d \<in> set (mt_shape t). 1 \<le> d)"

definition total_sum :: "mntensor \<Rightarrow> real" where
  "total_sum t = sum_list (mt_data t)"

definition total_mean :: "mntensor \<Rightarrow> real" where
  "total_mean t = mean_list (mt_data t)"

definition total_max :: "device \<Rightarrow> mntensor \<Rightarrow> real" where
  "total_max dev t = max_list (neg_infinity dev) (mt_data t)"

interpretation native_sum: last_axis_reduction "mn_reduce_sum dev" mt_shape "reducible dev" total_sum
  for dev
proof unfold_locales
  fix h ds d assume r: "reducible dev h" and sh: "mt_shape h = ds @ [d]"
  from r have "sum_out_dtype (mt_dtype h) \<in> {Float32, Float16}"
    by (auto simp: reducible_def sum_out_dtype_def)
  with dispatch_reduction_last(1,2) [OF r sh] reducible_last [OF r sh] sum_chunks
  show "\<exists>h'. mn_reduce_sum dev h (int (length ds)) False = Inr h' \<and> reducible dev h'
      \<and> mt_shape h' = ds \<and> total_sum h' = total_sum h"
    by (simp add: mn_reduce_sum_def total_sum_def)
qed

text \<open>The maximum needs its start value below the elements, which its results keep.\<close>

definition bounded_below :: "device \<Rightarrow> mntensor \<Rightarrow> bool" where
  "bounded_below dev t \<longleftrightarrow> reducible dev t \<and> (\<forall>x \<in> set (mt_data t). neg_infinity dev \<le> x)"

lemma max_list_ge: "m \<le> max_list m xs"
  by (simp add: max_list_eq)

interpretation native_max: last_axis_reduction "mn_reduce_max dev" mt_shape "bounded_below dev" "total_max dev"
  for dev
proof unfold_locales
  fix h ds d assume "bounded_below dev h" and sh: "mt_shape h = ds @ [d]"
  then have r: "reducible dev h" by (simp add: bounded_below_def)
  then have "mt_dtype h \<in> {Float32, Float16}" by (simp add: reducible_def)
  with dispatch_reduction_last(1,2) [OF r sh] reducible_last [OF r sh] max_chunks
  show "\<exists>h'. mn_reduce_max dev h (int (length ds)) False = Inr h' \<and> bounded_below dev h'
      \<and> mt_shape h' = ds \<and> total_max dev h' = total_max dev h"
    by (simp add: mn_reduce_max_def total_max_def bounded_below_def max_list_ge)
qed

lemma mean_chunks:
  assumes "length xs = n * R" "0 < R" "0 < n"
  shows "mean_list (map (\<lambda>g. mean_list (take R (drop (g * R) xs))) [0..<n]) = mean_list xs"
proof -
  have len: "length (take R (drop (g * R) xs)) = R" if "g < n" for g
  proof -
    from that have "Suc g * R \<le> n * R" by (intro mult_right_mono) simp_all
    with assms(1) show ?thesis by simp
  qed
  have "mean_list (take R (drop (g * R) xs)) = sum_list (take R (drop (g * R) xs)) * (1 / real R)"
    if "g < n" for g
    using len [OF that] by (simp add: mean_list_def)
  then have "sum_list (map (\<lambda>g. mean_list (take R (drop (g * R) xs))) [0..<n])
      = sum_list (map (\<lambda>g. sum_list (take R (drop (g * R) xs)) * (1 / real R)) [0..<n])"
    by (intro arg_cong [where f = sum_list] map_cong) simp_all
  also have "\<dots> = sum_list xs * (1 / real R)"
    unfolding sum_list_mult_const by (simp add: sum_chunks [OF assms(1)])
  finally show ?thesis using assms by (simp add: mean_list_def)
qed

interpretation native_mean: last_axis_reduction "mn_reduce_mean dev" mt_shape "averageable dev" total_mean
  for dev
proof unfold_locales
  fix h ds d assume a: "averageable dev h" and sh: "mt_shape h = ds @ [d]"
  from a have r: "reducible dev h" and pos: "\<forall>x \<in> set ds. 1 \<le> x" "1 \<le> d"
    by (auto simp: averageable_def sh)
  have "1 \<le> prod_list ds"
    using prod_max1_ge1 [of ds] pos(1) by (simp add: max_absorb2 cong: map_cong)
  with pos have "0 < nat d" "0 < nat (prod_list ds)" by simp_all
  note mean = mean_chunks [OF dispatch_reduction_last(2) [OF r sh] this]
  let ?h = "\<lparr>mt_shape = ds, mt_strides = contiguous_strides ds, mt_dtype = sum_out_dtype (mt_dtype h),
    mt_data = map (\<lambda>g. mean_list (take (nat d) (drop (g * nat d) (mt_data h)))) [0..<nat (prod_list ds)]\<rparr>"
  have "mn_reduce_mean dev h (int (length ds)) False = Inr ?h"
    by (simp only: mn_reduce_mean_def dispatch_reduction_last(1) [OF r sh])
  moreover have "sum_out_dtype (mt_dtype h) \<in> {Float32, Float16}"
    using r by (auto simp: reducible_def sum_out_dtype_def)
  then have "averageable dev ?h"
    unfolding averageable_def using pos(1) by (intro conjI reducible_last [OF r sh]) simp_all
  moreover have "total_mean ?h = total_mean h"
    by (simp add: total_mean_def mean)
  ultimately show "\<exists>h'. mn_reduce_mean dev h (int (length ds)) False = Inr h' \<and> averageable dev h'
      \<and> mt_shape h' = ds \<and> total_mean h' = total_mean h"
    by (intro exI [of _ ?h]) simp
qed

end
