(* ===== verification/Tensors.thy ===== *)
theory Tensors
  imports Reductions
begin

text \<open>
  \<^verbatim>\<open>python/metal_native/tensor.py\<close>: the \<open>Tensor\<close> class and its factories, over two interfaces.
  \<open>native_api\<close> holds the functions of the extension module \<open>_C\<close> that the class calls (its C++
  model is \<open>cpp_api\<close> at the end), \<open>numpy_api\<close> the NumPy functions.

  A tensor object holds a handle and two caches, for the shape and the dtype, that are filled
  from the handle on first use. Reading a property only changes the caches, so a method is a
  function of the object that returns its result; \<open>shape_get\<close> and \<open>dtype_get\<close> give the object
  after the read as well.
\<close>

section \<open>The interfaces\<close>

record ('h, 'c) native_api =
  C_tensor_from_numpy :: "ndarray \<Rightarrow> string \<Rightarrow> bool \<Rightarrow> 'h res"
  C_tensor_empty :: "int list \<Rightarrow> string \<Rightarrow> bool \<Rightarrow> 'h res"
  C_tensor_zeros :: "int list \<Rightarrow> string \<Rightarrow> bool \<Rightarrow> 'h res"
  C_tensor_ones :: "int list \<Rightarrow> string \<Rightarrow> bool \<Rightarrow> 'h res"
  C_tensor_shape :: "'h \<Rightarrow> int list"
  C_tensor_dtype :: "'h \<Rightarrow> string"
  C_tensor_item :: "'h \<Rightarrow> real res"
  C_tensor_to_numpy :: "'h \<Rightarrow> ndarray res"
  C_tensor_to_dlpack :: "'h \<Rightarrow> 'c res"
  C_tensor_from_dlpack :: "'c \<Rightarrow> bool \<Rightarrow> 'h res"
  C_tensor_add :: "'h \<Rightarrow> 'h \<Rightarrow> 'h res"
  C_tensor_sub :: "'h \<Rightarrow> 'h \<Rightarrow> 'h res"
  C_tensor_mul :: "'h \<Rightarrow> 'h \<Rightarrow> 'h res"
  C_tensor_div :: "'h \<Rightarrow> 'h \<Rightarrow> 'h res"
  C_tensor_add_scalar :: "'h \<Rightarrow> real \<Rightarrow> 'h res"
  C_tensor_sub_scalar :: "'h \<Rightarrow> real \<Rightarrow> 'h res"
  C_tensor_rsub_scalar :: "'h \<Rightarrow> real \<Rightarrow> 'h res"
  C_tensor_mul_scalar :: "'h \<Rightarrow> real \<Rightarrow> 'h res"
  C_tensor_div_scalar :: "'h \<Rightarrow> real \<Rightarrow> 'h res"
  C_tensor_matmul :: "'h \<Rightarrow> 'h \<Rightarrow> 'h res"
  C_matmul :: "'h \<Rightarrow> 'h \<Rightarrow> bool \<Rightarrow> bool \<Rightarrow> 'h res"
  C_neg :: "'h \<Rightarrow> 'h res"
  C_exp :: "'h \<Rightarrow> 'h res"
  C_log :: "'h \<Rightarrow> 'h res"
  C_sqrt :: "'h \<Rightarrow> 'h res"
  C_abs :: "'h \<Rightarrow> 'h res"
  C_clamp :: "'h \<Rightarrow> real \<Rightarrow> pyfloat \<Rightarrow> 'h res"
  C_softmax :: "'h \<Rightarrow> int \<Rightarrow> 'h res"
  C_reduce_sum :: "'h \<Rightarrow> int \<Rightarrow> bool \<Rightarrow> 'h res"
  C_reduce_mean :: "'h \<Rightarrow> int \<Rightarrow> bool \<Rightarrow> 'h res"
  C_reduce_max :: "'h \<Rightarrow> int \<Rightarrow> bool \<Rightarrow> 'h res"
  C_reshape :: "'h \<Rightarrow> int list \<Rightarrow> 'h res"
  C_is_contiguous :: "'h \<Rightarrow> bool"
  C_clone :: "'h \<Rightarrow> 'h res"
  C_rms_norm :: "'h \<Rightarrow> 'h \<Rightarrow> real \<Rightarrow> 'h res"
  C_layer_norm :: "'h \<Rightarrow> 'h \<Rightarrow> 'h \<Rightarrow> real \<Rightarrow> 'h res"

record 'd numpy_api =
  np_array :: "'d \<Rightarrow> ndarray res"
  np_astype :: "ndarray \<Rightarrow> string \<Rightarrow> ndarray"
  np_reshape :: "ndarray \<Rightarrow> int list \<Rightarrow> ndarray res"
  np_transpose :: "ndarray \<Rightarrow> int list \<Rightarrow> ndarray res"
  np_copy :: "ndarray \<Rightarrow> ndarray"
  np_str :: "ndarray \<Rightarrow> string res"

section \<open>The class\<close>

record 'h tensor =
  handle :: 'h
  shape_cache :: "int list option"
  dtype_cache :: "dtype option"
  requires_grad :: bool
  grad :: "'h option"

definition from_handle :: "'h \<Rightarrow> bool \<Rightarrow> 'h tensor" where
  "from_handle h rg = \<lparr>handle = h, shape_cache = None, dtype_cache = None, requires_grad = rg, grad = None\<rparr>"

text \<open>The data a tensor is built from: another tensor, an array, or something \<open>np.array\<close> reads.\<close>

datatype ('h, 'd) tensor_data = FromTensor "'h tensor" | FromArray ndarray | FromOther 'd

definition as_array :: "'d numpy_api \<Rightarrow> ('h, 'c) native_api option \<Rightarrow> ('h, 'd) tensor_data \<Rightarrow> ndarray res" where
  "as_array np C data = (case data of
     FromTensor t \<Rightarrow> C_attr C (\<lambda>N. C_tensor_to_numpy N (handle t))
   | FromArray a \<Rightarrow> Inr a
   | FromOther d \<Rightarrow> np_array np d)"

text \<open>The dtype of the new tensor and the array converted to it.\<close>

definition convert_dtype :: "'d numpy_api \<Rightarrow> ndarray \<Rightarrow> dtype option \<Rightarrow> (dtype \<times> ndarray) res" where
  "convert_dtype np a dt = (case dt of
     None \<Rightarrow>
       catchR (\<lambda>e. exc_class e = ValueError)
         (bindR (numpy_to_dtype (\<lambda>_ :: unit. raise TypeError []) (NpDtype (nd_dtype a))) (\<lambda>d. Inr (d, a)))
         (\<lambda>_. Inr (float32, np_astype np a ''float32''))
   | Some d \<Rightarrow>
       if \<not> dtype_eq d (Some bfloat16)
       then bindR (dtype_to_numpy d) (\<lambda>n. Inr (d, np_astype np a n))
       else Inr (d, a))"

definition Tensor_init ::
  "'d numpy_api \<Rightarrow> ('h, 'c) native_api cmod \<Rightarrow> ('h, 'd) tensor_data option \<Rightarrow> int list option
   \<Rightarrow> dtype option \<Rightarrow> bool \<Rightarrow> 'h option \<Rightarrow> 'h tensor res" where
  "Tensor_init np cm data shape dt rg native_handle =
     (case native_handle of
        Some h \<Rightarrow> Inr (from_handle h rg)
      | None \<Rightarrow>
          bindR (catchR (\<lambda>e. exc_class e = ImportError) (import_C cm)
                   (\<lambda>_. raise ImportError ''metal_native._C extension not loaded'')) (\<lambda>C.
          bindR (case data of
              Some src \<Rightarrow>
                bindR (as_array np C src) (\<lambda>a0.
                bindR (convert_dtype np a0 dt) (\<lambda>(d, a1).
                bindR (case shape of
                    Some s \<Rightarrow> if nd_shape a1 \<noteq> s then np_reshape np a1 s else Inr a1
                  | None \<Rightarrow> Inr a1) (\<lambda>a2.
                bindR (C_attr C (\<lambda>N. C_tensor_from_numpy N a2 (dname d) rg)) (\<lambda>h. Inr (h, d)))))
            | None \<Rightarrow>
                (case shape of
                   None \<Rightarrow> raise ValueError ''Either data or shape must be provided''
                 | Some s \<Rightarrow>
                     let d = (case dt of None \<Rightarrow> float32 | Some d \<Rightarrow> d) in
                     bindR (C_attr C (\<lambda>N. C_tensor_empty N s (dname d) rg)) (\<lambda>h. Inr (h, d))))
            (\<lambda>(h, d). Inr \<lparr>handle = h, shape_cache = shape, dtype_cache = Some d,
                            requires_grad = rg, grad = None\<rparr>)))"

section \<open>Properties of a tensor\<close>

definition shape_of :: "('h, 'c) native_api \<Rightarrow> 'h tensor \<Rightarrow> int list" where
  "shape_of N t = (case shape_cache t of Some s \<Rightarrow> s | None \<Rightarrow> C_tensor_shape N (handle t))"

definition shape_get :: "('h, 'c) native_api \<Rightarrow> 'h tensor \<Rightarrow> int list \<times> 'h tensor" where
  "shape_get N t = (shape_of N t, t\<lparr>shape_cache := Some (shape_of N t)\<rparr>)"

definition dtype_of :: "('h, 'c) native_api \<Rightarrow> 'h tensor \<Rightarrow> dtype res" where
  "dtype_of N t = (case dtype_cache t of
     Some d \<Rightarrow> Inr d
   | None \<Rightarrow> (case dict_get DTYPE_MAP (C_tensor_dtype N (handle t)) of
       Some d \<Rightarrow> Inr d
     | None \<Rightarrow> raise KeyError (C_tensor_dtype N (handle t))))"

definition dtype_get :: "('h, 'c) native_api \<Rightarrow> 'h tensor \<Rightarrow> dtype res \<times> 'h tensor" where
  "dtype_get N t = (case dtype_of N t of
     Inl e \<Rightarrow> (Inl e, t)
   | Inr d \<Rightarrow> (Inr d, t\<lparr>dtype_cache := Some d\<rparr>))"

definition Tensor_device :: "'h tensor \<Rightarrow> string" where
  "Tensor_device t = ''metal''"

definition Tensor_ndim :: "('h, 'c) native_api \<Rightarrow> 'h tensor \<Rightarrow> nat" where
  "Tensor_ndim N t = length (shape_of N t)"

definition Tensor_size :: "('h, 'c) native_api \<Rightarrow> 'h tensor \<Rightarrow> int" where
  "Tensor_size N t = prod_list (shape_of N t)"

definition Tensor_nbytes :: "('h, 'c) native_api \<Rightarrow> 'h tensor \<Rightarrow> int res" where
  "Tensor_nbytes N t = bindR (dtype_of N t) (\<lambda>d. Inr (Tensor_size N t * int (itemsize d)))"

text \<open>\<open>str\<close> of a tuple of integers.\<close>

definition show_tuple :: "int list \<Rightarrow> string" where
  "show_tuple xs = (case xs of
     [x] \<Rightarrow> ''('' @ show_int x @ '',)''
   | _ \<Rightarrow> ''('' @ py_join '', '' (map show_int xs) @ '')'')"

definition Tensor_item :: "('h, 'c) native_api \<Rightarrow> 'h tensor \<Rightarrow> real res" where
  "Tensor_item N t =
     (if Tensor_size N t \<noteq> 1
      then raise ValueError (''item() only works for single-element tensors, got shape '' @ show_tuple (shape_of N t))
      else C_tensor_item N (handle t))"

definition Tensor_numpy :: "('h, 'c) native_api \<Rightarrow> 'h tensor \<Rightarrow> ndarray res" where
  "Tensor_numpy N t = C_tensor_to_numpy N (handle t)"

definition Tensor_dlpack :: "('h, 'c) native_api \<Rightarrow> 'h tensor \<Rightarrow> 'c res" where
  "Tensor_dlpack N t = C_tensor_to_dlpack N (handle t)"

definition Tensor_dlpack_device :: "'h tensor \<Rightarrow> int \<times> int" where
  "Tensor_dlpack_device t = (8, 0)"

definition Tensor_repr :: "('h, 'c) native_api \<Rightarrow> 'h tensor \<Rightarrow> string res" where
  "Tensor_repr N t = bindR (dtype_of N t) (\<lambda>d.
     Inr (''Tensor(shape='' @ show_tuple (shape_of N t) @ '', dtype='' @ dtype_str d
          @ '', device='' @ Tensor_device t
          @ (if requires_grad t then '', requires_grad=True'' else []) @ '')''))"

definition Tensor_str :: "'d numpy_api \<Rightarrow> ('h, 'c) native_api \<Rightarrow> 'h tensor \<Rightarrow> string res" where
  "Tensor_str np N t =
     bindR (if Tensor_size N t \<le> 10
            then catchR any_exception (bindR (Tensor_numpy N t) (np_str np))
                   (\<lambda>_. Inr ''<data unavailable>'')
            else Inr (''<'' @ show_int (Tensor_size N t) @ '' elements>'')) (\<lambda>data_str.
     bindR (dtype_of N t) (\<lambda>d.
     Inr (''Tensor('' @ data_str @ '', dtype='' @ dtype_str d @ '', device='' @ Tensor_device t @ '')'')))"

section \<open>Arithmetic\<close>

text \<open>The right operand: a tensor, something \<open>float()\<close> accepts, or something it refuses.\<close>

datatype 'h operand = OpTensor "'h tensor" | OpNumber real | OpOther

definition py_float_of :: "'h operand \<Rightarrow> real res" where
  "py_float_of x = (case x of
     OpNumber v \<Rightarrow> Inr v
   | _ \<Rightarrow> raise TypeError ''float() argument must be a string or a real number'')"

definition wrap :: "'h res \<Rightarrow> 'h tensor res" where
  "wrap r = bindR r (\<lambda>h. Inr (from_handle h False))"

definition Tensor_add :: "('h, 'c) native_api \<Rightarrow> 'h tensor \<Rightarrow> 'h operand \<Rightarrow> 'h tensor res" where
  "Tensor_add N t x = (case x of
     OpTensor u \<Rightarrow> wrap (C_tensor_add N (handle t) (handle u))
   | _ \<Rightarrow> bindR (py_float_of x) (\<lambda>v. wrap (C_tensor_add_scalar N (handle t) v)))"

definition Tensor_radd :: "('h, 'c) native_api \<Rightarrow> 'h tensor \<Rightarrow> 'h operand \<Rightarrow> 'h tensor res" where
  "Tensor_radd N t x = Tensor_add N t x"

definition Tensor_sub :: "('h, 'c) native_api \<Rightarrow> 'h tensor \<Rightarrow> 'h operand \<Rightarrow> 'h tensor res" where
  "Tensor_sub N t x = (case x of
     OpTensor u \<Rightarrow> wrap (C_tensor_sub N (handle t) (handle u))
   | _ \<Rightarrow> bindR (py_float_of x) (\<lambda>v. wrap (C_tensor_sub_scalar N (handle t) v)))"

definition Tensor_rsub :: "('h, 'c) native_api \<Rightarrow> 'h tensor \<Rightarrow> 'h operand \<Rightarrow> 'h tensor res" where
  "Tensor_rsub N t x = bindR (py_float_of x) (\<lambda>v. wrap (C_tensor_rsub_scalar N (handle t) v))"

definition Tensor_mul :: "('h, 'c) native_api \<Rightarrow> 'h tensor \<Rightarrow> 'h operand \<Rightarrow> 'h tensor res" where
  "Tensor_mul N t x = (case x of
     OpTensor u \<Rightarrow> wrap (C_tensor_mul N (handle t) (handle u))
   | _ \<Rightarrow> bindR (py_float_of x) (\<lambda>v. wrap (C_tensor_mul_scalar N (handle t) v)))"

definition Tensor_rmul :: "('h, 'c) native_api \<Rightarrow> 'h tensor \<Rightarrow> 'h operand \<Rightarrow> 'h tensor res" where
  "Tensor_rmul N t x = Tensor_mul N t x"

definition Tensor_truediv :: "('h, 'c) native_api \<Rightarrow> 'h tensor \<Rightarrow> 'h operand \<Rightarrow> 'h tensor res" where
  "Tensor_truediv N t x = (case x of
     OpTensor u \<Rightarrow> wrap (C_tensor_div N (handle t) (handle u))
   | _ \<Rightarrow> bindR (py_float_of x) (\<lambda>v. wrap (C_tensor_div_scalar N (handle t) v)))"

definition Tensor_matmul :: "('h, 'c) native_api \<Rightarrow> 'h tensor \<Rightarrow> 'h operand \<Rightarrow> 'h tensor res" where
  "Tensor_matmul N t x = (case x of
     OpTensor u \<Rightarrow> wrap (C_tensor_matmul N (handle t) (handle u))
   | _ \<Rightarrow> raise TypeError ''matmul requires Tensor, got {type(other)}'')"

definition Tensor_neg :: "('h, 'c) native_api \<Rightarrow> 'h tensor \<Rightarrow> 'h tensor res" where
  "Tensor_neg N t = wrap (C_neg N (handle t))"

section \<open>Shape operations\<close>

text \<open>The arguments of \<open>reshape(*shape)\<close>: integers, or one tuple or list of integers.\<close>

datatype shape_arg = DimInt int | DimSeq "int list"

fun dims_of :: "shape_arg list \<Rightarrow> int list res" where
  "dims_of [] = Inr []"
| "dims_of (DimInt d # xs) = bindR (dims_of xs) (\<lambda>ds. Inr (d # ds))"
| "dims_of (DimSeq _ # xs) = raise RuntimeError ''Unable to cast Python instance to C++ type''"

definition Tensor_reshape :: "('h, 'c) native_api \<Rightarrow> 'h tensor \<Rightarrow> shape_arg list \<Rightarrow> 'h tensor res" where
  "Tensor_reshape N t shape =
     bindR (case shape of [DimSeq ds] \<Rightarrow> Inr ds | _ \<Rightarrow> dims_of shape) (\<lambda>ds.
     wrap (C_reshape N (handle t) ds))"

definition Tensor_view :: "('h, 'c) native_api \<Rightarrow> 'h tensor \<Rightarrow> shape_arg list \<Rightarrow> 'h tensor res" where
  "Tensor_view N t shape = Tensor_reshape N t shape"

text \<open>\<open>axes[dim0], axes[dim1] = axes[dim1], axes[dim0]\<close>: both reads come before the writes.\<close>

definition swap_axes :: "int list \<Rightarrow> int \<Rightarrow> int \<Rightarrow> int list res" where
  "swap_axes axes dim0 dim1 =
     bindR (py_getitem axes dim1) (\<lambda>a. bindR (py_getitem axes dim0) (\<lambda>b.
     bindR (py_setitem axes dim0 a) (\<lambda>axes'. py_setitem axes' dim1 b)))"

definition Tensor_transpose ::
  "'d numpy_api \<Rightarrow> ('h, 'c) native_api \<Rightarrow> 'h tensor \<Rightarrow> int \<Rightarrow> int \<Rightarrow> 'h tensor res" where
  "Tensor_transpose np N t dim0 dim1 =
     bindR (Tensor_numpy N t) (\<lambda>np_data.
     bindR (swap_axes (map int [0..<Tensor_ndim N t]) dim0 dim1) (\<lambda>axes.
     bindR (np_transpose np np_data axes) (\<lambda>tr.
     bindR (dtype_of N t) (\<lambda>d.
     Tensor_init np (CMod N) (Some (FromArray (np_copy np tr))) None (Some d) False None))))"

definition Tensor_contiguous :: "('h, 'c) native_api \<Rightarrow> 'h tensor \<Rightarrow> 'h tensor res" where
  "Tensor_contiguous N t = (if C_is_contiguous N (handle t) then Inr t else wrap (C_clone N (handle t)))"

section \<open>Reductions\<close>

text \<open>
  Without a dimension the tensor is reduced along each one, the last first; every step wraps
  the handle in a new object, and \<open>keepdim\<close> is not looked at.
\<close>

definition reduce_method ::
  "('h, 'c) native_api \<Rightarrow> ('h \<Rightarrow> int \<Rightarrow> bool \<Rightarrow> 'h res) \<Rightarrow> 'h tensor \<Rightarrow> int option \<Rightarrow> bool \<Rightarrow> 'h tensor res" where
  "reduce_method N red t dm keepdim = (case dm of
     None \<Rightarrow> (if Tensor_ndim N t = 0 then Inr t else wrap (reduce_all red (Tensor_ndim N t) (handle t)))
   | Some d \<Rightarrow> wrap (red (handle t) d keepdim))"

definition Tensor_sum :: "('h, 'c) native_api \<Rightarrow> 'h tensor \<Rightarrow> int option \<Rightarrow> bool \<Rightarrow> 'h tensor res" where
  "Tensor_sum N t dm keepdim = reduce_method N (C_reduce_sum N) t dm keepdim"

definition Tensor_mean :: "('h, 'c) native_api \<Rightarrow> 'h tensor \<Rightarrow> int option \<Rightarrow> bool \<Rightarrow> 'h tensor res" where
  "Tensor_mean N t dm keepdim = reduce_method N (C_reduce_mean N) t dm keepdim"

definition Tensor_max :: "('h, 'c) native_api \<Rightarrow> 'h tensor \<Rightarrow> int option \<Rightarrow> bool \<Rightarrow> 'h tensor res" where
  "Tensor_max N t dm keepdim = reduce_method N (C_reduce_max N) t dm keepdim"

section \<open>Unary operations\<close>

definition Tensor_exp :: "('h, 'c) native_api \<Rightarrow> 'h tensor \<Rightarrow> 'h tensor res" where
  "Tensor_exp N t = wrap (C_exp N (handle t))"

definition Tensor_log :: "('h, 'c) native_api \<Rightarrow> 'h tensor \<Rightarrow> 'h tensor res" where
  "Tensor_log N t = wrap (C_log N (handle t))"

definition Tensor_sqrt :: "('h, 'c) native_api \<Rightarrow> 'h tensor \<Rightarrow> 'h tensor res" where
  "Tensor_sqrt N t = wrap (C_sqrt N (handle t))"

definition Tensor_abs :: "('h, 'c) native_api \<Rightarrow> 'h tensor \<Rightarrow> 'h tensor res" where
  "Tensor_abs N t = wrap (C_abs N (handle t))"

definition Tensor_relu :: "('h, 'c) native_api \<Rightarrow> 'h tensor \<Rightarrow> 'h tensor res" where
  "Tensor_relu N t = wrap (C_clamp N (handle t) 0 PosInf)"

definition Tensor_softmax :: "('h, 'c) native_api \<Rightarrow> 'h tensor \<Rightarrow> int \<Rightarrow> 'h tensor res" where
  "Tensor_softmax N t dm = wrap (C_softmax N (handle t) dm)"

section \<open>Factories\<close>

definition default_dtype :: "dtype option \<Rightarrow> dtype" where
  "default_dtype dt = (case dt of None \<Rightarrow> float32 | Some d \<Rightarrow> d)"

definition zeros :: "('h, 'c) native_api cmod \<Rightarrow> int list \<Rightarrow> dtype option \<Rightarrow> bool \<Rightarrow> 'h tensor res" where
  "zeros cm shape dt rg = bindR (import_C cm) (\<lambda>C.
     bindR (C_attr C (\<lambda>N. C_tensor_zeros N shape (dname (default_dtype dt)) rg)) (\<lambda>h.
     Inr (from_handle h rg)))"

definition ones :: "('h, 'c) native_api cmod \<Rightarrow> int list \<Rightarrow> dtype option \<Rightarrow> bool \<Rightarrow> 'h tensor res" where
  "ones cm shape dt rg = bindR (import_C cm) (\<lambda>C.
     bindR (C_attr C (\<lambda>N. C_tensor_ones N shape (dname (default_dtype dt)) rg)) (\<lambda>h.
     Inr (from_handle h rg)))"

definition empty_tensor ::
  "'d numpy_api \<Rightarrow> ('h, 'c) native_api cmod \<Rightarrow> int list \<Rightarrow> dtype option \<Rightarrow> bool \<Rightarrow> 'h tensor res" where
  "empty_tensor np cm shape dt rg = Tensor_init np cm None (Some shape) dt rg None"

definition tensor_of ::
  "'d numpy_api \<Rightarrow> ('h, 'c) native_api cmod \<Rightarrow> ('h, 'd) tensor_data \<Rightarrow> dtype option \<Rightarrow> bool \<Rightarrow> 'h tensor res" where
  "tensor_of np cm data dt rg = Tensor_init np cm (Some data) None dt rg None"

text \<open>\<open>randn\<close> takes the array that \<open>np.random.randn\<close> produced for the shape.\<close>

definition randn ::
  "'d numpy_api \<Rightarrow> ('h, 'c) native_api cmod \<Rightarrow> (int list \<Rightarrow> ndarray res) \<Rightarrow> int list \<Rightarrow> dtype option \<Rightarrow> bool
   \<Rightarrow> 'h tensor res" where
  "randn np cm np_randn shape dt rg =
     bindR (np_randn shape) (\<lambda>a.
     bindR (dtype_to_numpy (default_dtype dt)) (\<lambda>n.
     Tensor_init np cm (Some (FromArray (np_astype np a n))) None (Some (default_dtype dt)) rg None))"

definition from_numpy :: "'d numpy_api \<Rightarrow> ('h, 'c) native_api cmod \<Rightarrow> ndarray \<Rightarrow> bool \<Rightarrow> 'h tensor res" where
  "from_numpy np cm a rg = Tensor_init np cm (Some (FromArray a)) None None rg None"

definition from_dlpack :: "('h, 'c) native_api cmod \<Rightarrow> 'c \<Rightarrow> 'h tensor res" where
  "from_dlpack cm capsule = bindR (import_C cm) (\<lambda>C.
     bindR (C_attr C (\<lambda>N. C_tensor_from_dlpack N capsule False)) (\<lambda>h. Inr (from_handle h False)))"

section \<open>PyTorch\<close>

text \<open>PyTorch is a parameter: whether it can be imported and the calls made on its tensors.\<close>

record ('p, 'c) torch_api =
  torch_installed :: bool
  pt_requires_grad :: "'p \<Rightarrow> bool"
  pt_device_type :: "'p \<Rightarrow> string"
  pt_cpu :: "'p \<Rightarrow> 'p"
  pt_to_dlpack :: "'p \<Rightarrow> 'c res"
  pt_from_dlpack :: "'c \<Rightarrow> 'p res"

definition Tensor_torch :: "('p, 'c) torch_api \<Rightarrow> ('h, 'c) native_api \<Rightarrow> 'h tensor \<Rightarrow> 'p res" where
  "Tensor_torch T N t =
     (if torch_installed T then bindR (Tensor_dlpack N t) (pt_from_dlpack T)
      else raise ImportError ''PyTorch is required for torch() conversion'')"

definition from_torch ::
  "('p, 'c) torch_api \<Rightarrow> ('h, 'c) native_api cmod \<Rightarrow> 'p \<Rightarrow> bool option \<Rightarrow> 'h tensor res" where
  "from_torch T cm p rg =
     (if \<not> torch_installed T then raise ImportError ''PyTorch is required for from_torch()''
      else
        let rg' = (case rg of None \<Rightarrow> pt_requires_grad T p | Some b \<Rightarrow> b);
            p' = (if pt_device_type T p \<noteq> ''cpu'' then pt_cpu T p else p)
        in bindR (import_C cm) (\<lambda>C.
           bindR (C_attr C (\<lambda>N. bindR (pt_to_dlpack T p') (\<lambda>capsule.
             C_tensor_from_dlpack N capsule rg'))) (\<lambda>h.
           Inr (from_handle h rg'))))"

text \<open>
  \<open>__torch_function__\<close>: a registered override takes the call; otherwise the arguments are
  converted, the function applied and a tensor result converted back, and any exception
  becomes NotImplementedError.
\<close>

datatype ('h, 'o) call_arg = ArgTensor "'h tensor" | ArgOther 'o

datatype ('p, 'o) torch_value = TorchTensor 'p | TorchOther 'o

datatype ('h, 'o) call_result = ResTensor "'h tensor" | ResOther 'o

fun to_torch_args ::
  "('h tensor \<Rightarrow> 'p res) \<Rightarrow> ('h, 'o) call_arg list \<Rightarrow> ('p, 'o) torch_value list res" where
  "to_torch_args conv [] = Inr []"
| "to_torch_args conv (ArgTensor t # xs) =
     bindR (conv t) (\<lambda>p. bindR (to_torch_args conv xs) (\<lambda>ys. Inr (TorchTensor p # ys)))"
| "to_torch_args conv (ArgOther x # xs) =
     bindR (to_torch_args conv xs) (\<lambda>ys. Inr (TorchOther x # ys))"

type_synonym ('f, 'h, 'o, 'k) overrides =
  "('f, ('h, 'o) call_arg list \<Rightarrow> 'k \<Rightarrow> ('h, 'o) call_result res) dict"

definition torch_function ::
  "('f, 'h, 'o, 'k) overrides \<Rightarrow> ('p, 'c) torch_api \<Rightarrow> ('h, 'c) native_api
   \<Rightarrow> ('f \<Rightarrow> ('p, 'o) torch_value list \<Rightarrow> 'k \<Rightarrow> ('p, 'o) torch_value res) \<Rightarrow> ('f \<Rightarrow> string)
   \<Rightarrow> 'f \<Rightarrow> ('h, 'o) call_arg list \<Rightarrow> 'k option \<Rightarrow> 'k \<Rightarrow> ('h, 'o) call_result res" where
  "torch_function reg T N apply_fn fname func args kwargs no_kwargs =
     (let kw = (case kwargs of None \<Rightarrow> no_kwargs | Some k \<Rightarrow> k) in
      case dict_get reg func of
        Some impl \<Rightarrow> impl args kw
      | None \<Rightarrow>
          catchR any_exception
            (if \<not> torch_installed T then raise ImportError ''No module named torch''
             else bindR (to_torch_args (Tensor_torch T N) args) (\<lambda>targs.
               bindR (apply_fn func targs kw) (\<lambda>result.
               case result of
                 TorchTensor p \<Rightarrow> bindR (from_torch T (CMod N) p None) (\<lambda>t. Inr (ResTensor t))
               | TorchOther x \<Rightarrow> Inr (ResOther x))))
            (\<lambda>e. raise NotImplementedError
                   (''PyTorch function '' @ fname func @ '' not supported for metal_native tensors: '' @ exc_msg e)))"

definition register_torch_override ::
  "'f \<Rightarrow> (('h, 'o) call_arg list \<Rightarrow> 'k \<Rightarrow> ('h, 'o) call_result res)
   \<Rightarrow> ('f, 'h, 'o, 'k) overrides \<Rightarrow> ('f, 'h, 'o, 'k) overrides" where
  "register_torch_override torch_func impl reg = dict_set torch_func impl reg"

section \<open>The extension module\<close>

text \<open>The kernels that are not modelled are a record of functions.\<close>

record kernels =
  k_exp :: "real \<Rightarrow> real"
  k_log :: "real \<Rightarrow> real"
  k_sqrt :: "real \<Rightarrow> real"
  k_matmul :: "mntensor \<Rightarrow> mntensor \<Rightarrow> bool \<Rightarrow> bool \<Rightarrow> mntensor res"
  k_softmax :: "mntensor \<Rightarrow> int \<Rightarrow> mntensor res"
  k_rms_norm :: "mntensor \<Rightarrow> mntensor \<Rightarrow> real \<Rightarrow> mntensor res"
  k_layer_norm :: "mntensor \<Rightarrow> mntensor \<Rightarrow> mntensor \<Rightarrow> real \<Rightarrow> mntensor res"
  k_clone :: "mntensor \<Rightarrow> mntensor res"

fun clamp_to :: "real \<Rightarrow> pyfloat \<Rightarrow> real \<Rightarrow> real" where
  "clamp_to lo (Fin hi) x = min (max x lo) hi"
| "clamp_to lo _ x = max x lo"

text \<open>A capsule object around a pointer; the core never makes one.\<close>

datatype capsule = Capsule nat

definition cpp_api :: "device \<Rightarrow> kernels \<Rightarrow> (mntensor, capsule) native_api" where
  "cpp_api dev k = \<lparr>
     C_tensor_from_numpy = mn_from_numpy dev,
     C_tensor_empty = (\<lambda>s d _. bindR (parse_dtype_str d) (mn_empty dev s)),
     C_tensor_zeros = (\<lambda>s d _. bindR (parse_dtype_str d) (mn_filled dev 0 s)),
     C_tensor_ones = (\<lambda>s d _. bindR (parse_dtype_str d) (mn_filled dev 1 s)),
     C_tensor_shape = mt_shape,
     C_tensor_dtype = (\<lambda>t. dtype_name (mt_dtype t)),
     C_tensor_item = mn_item,
     C_tensor_to_numpy = mn_to_numpy dev,
     C_tensor_to_dlpack = (\<lambda>_. raise RuntimeError ''DLPack interop not yet implemented (Phase 3)''),
     C_tensor_from_dlpack = (\<lambda>_ _. raise RuntimeError ''DLPack interop not yet implemented (Phase 3)''),
     C_tensor_add = dispatch_binary_op dev (+),
     C_tensor_sub = dispatch_binary_op dev (-),
     C_tensor_mul = dispatch_binary_op dev (*),
     C_tensor_div = dispatch_binary_op dev (/),
     C_tensor_add_scalar = scalar_op dev (+),
     C_tensor_sub_scalar = scalar_op dev (-),
     C_tensor_rsub_scalar = rsub_scalar dev,
     C_tensor_mul_scalar = scalar_op dev (*),
     C_tensor_div_scalar = scalar_op dev (/),
     C_tensor_matmul = (\<lambda>a b. k_matmul k a b False False),
     C_matmul = k_matmul k,
     C_neg = dispatch_unary_op dev uminus,
     C_exp = dispatch_unary_op dev (k_exp k),
     C_log = dispatch_unary_op dev (k_log k),
     C_sqrt = dispatch_unary_op dev (k_sqrt k),
     C_abs = dispatch_unary_op dev abs,
     C_clamp = (\<lambda>t lo hi. dispatch_unary_op dev (clamp_to lo hi) t),
     C_softmax = k_softmax k,
     C_reduce_sum = mn_reduce_sum dev,
     C_reduce_mean = mn_reduce_mean dev,
     C_reduce_max = mn_reduce_max dev,
     C_reshape = mn_reshape,
     C_is_contiguous = mt_is_contiguous,
     C_clone = k_clone k,
     C_rms_norm = k_rms_norm k,
     C_layer_norm = k_layer_norm k\<rparr>"

end
