(* ===== verification/NumpyRef.thy ===== *)
theory NumpyRef
  imports Tensors
begin

text \<open>
  What the package relies on of NumPy, as a locale, and a reference NumPy on row-major lists
  that satisfies it: conversion of the element type, reshape, transposition and copy, on
  arrays as theory Native represents them.
\<close>

section \<open>Row-major positions\<close>

fun ravel :: "nat list \<Rightarrow> nat list \<Rightarrow> nat" where
  "ravel (d # ds) (i # js) = i * prod_list ds + ravel ds js"
| "ravel _ _ = 0"

fun unravel :: "nat list \<Rightarrow> nat \<Rightarrow> nat list" where
  "unravel [] g = []"
| "unravel (d # ds) g = (g div prod_list ds) # unravel ds (g mod prod_list ds)"

definition in_shape :: "nat list \<Rightarrow> nat list \<Rightarrow> bool" where
  "in_shape ds js \<longleftrightarrow> list_all2 (<) js ds"

lemma ravel_less: "in_shape ds js \<Longrightarrow> ravel ds js < prod_list ds"
proof (induction ds js rule: ravel.induct)
  case (1 d ds i js)
  then have i: "i < d" and r: "ravel ds js < prod_list ds" by (simp_all add: in_shape_def)
  from i have "Suc i * prod_list ds \<le> d * prod_list ds" by (intro mult_right_mono) simp_all
  with r show ?case by simp
qed (auto simp: in_shape_def)

lemma unravel_ravel: "in_shape ds js \<Longrightarrow> unravel ds (ravel ds js) = js"
proof (induction ds js rule: ravel.induct)
  case (1 d ds i js)
  then have v: "in_shape ds js" by (simp add: in_shape_def)
  with 1 ravel_less [OF v] show ?case by simp
qed (auto simp: in_shape_def)

lemma ravel_unravel: "g < prod_list ds \<Longrightarrow> ravel ds (unravel ds g) = g"
proof (induction ds arbitrary: g)
  case Nil
  then show ?case by simp
next
  case (Cons d ds)
  then have "0 < prod_list ds" by (metis mult_0_right neq0_conv not_less0 prod_list.Cons)
  with Cons.IH [of "g mod prod_list ds"] show ?case by simp
qed

lemma unravel_in_shape: "g < prod_list ds \<Longrightarrow> in_shape ds (unravel ds g)"
proof (induction ds arbitrary: g)
  case Nil
  then show ?case by (simp add: in_shape_def)
next
  case (Cons d ds)
  then have "0 < prod_list ds" by (metis mult_0_right neq0_conv not_less0 prod_list.Cons)
  with Cons.IH [of "g mod prod_list ds"] Cons.prems show ?case
    by (simp add: in_shape_def less_mult_imp_div_less)
qed

lemma length_unravel [simp]: "length (unravel ds g) = length ds"
  by (induction ds arbitrary: g) simp_all

section \<open>Transposition\<close>

text \<open>
  \<open>permute axes xs\<close> takes the entries of \<open>xs\<close> in the order \<open>axes\<close>; entry \<open>j\<close> of a transposed
  position belongs to axis \<open>axes ! j\<close> of the array, so the position in the array is
  \<open>unpermute\<close>.
\<close>

definition permute :: "nat list \<Rightarrow> 'a list \<Rightarrow> 'a list" where
  "permute axes xs = map (\<lambda>a. xs ! a) axes"

definition axis_place :: "nat list \<Rightarrow> nat \<Rightarrow> nat" where
  "axis_place axes a = length (takeWhile (\<lambda>b. b \<noteq> a) axes)"

definition unpermute :: "nat list \<Rightarrow> 'a list \<Rightarrow> 'a list" where
  "unpermute axes js = map (\<lambda>a. js ! axis_place axes a) [0..<length axes]"

definition transpose_elems :: "nat list \<Rightarrow> nat list \<Rightarrow> 'a list \<Rightarrow> 'a list" where
  "transpose_elems axes ds xs =
     map (\<lambda>g. xs ! ravel ds (unpermute axes (unravel (permute axes ds) g))) [0..<prod_list ds]"

definition is_axes :: "nat \<Rightarrow> nat list \<Rightarrow> bool" where
  "is_axes n axes \<longleftrightarrow> length axes = n \<and> distinct axes \<and> set axes \<subseteq> {..<n}"

lemma is_axes_set: "is_axes n axes \<Longrightarrow> set axes = {..<n}"
  by (metis card_subset_eq card_lessThan distinct_card finite_lessThan is_axes_def)

lemma axis_place_nth: "distinct axes \<Longrightarrow> i < length axes \<Longrightarrow> axis_place axes (axes ! i) = i"
proof -
  assume d: "distinct axes" and i: "i < length axes"
  have "takeWhile (\<lambda>b. b \<noteq> axes ! i) axes = take i axes"
    by (rule takeWhile_eq_take_P_nth) (use d i in \<open>auto simp: nth_eq_iff_index_eq\<close>)
  with i show ?thesis by (simp add: axis_place_def)
qed

lemma nth_axis_place: "a \<in> set axes \<Longrightarrow> axis_place axes a < length axes \<and> axes ! axis_place axes a = a"
proof (induction axes)
  case (Cons b axes)
  then show ?case by (auto simp: axis_place_def)
qed simp

lemma unpermute_permute: "is_axes n axes \<Longrightarrow> length xs = n \<Longrightarrow> unpermute axes (permute axes xs) = xs"
proof -
  assume a: "is_axes n axes" and l: "length xs = n"
  have "permute axes xs ! axis_place axes i = xs ! i" if "i < n" for i
  proof -
    from a that have "i \<in> set axes" by (simp add: is_axes_set)
    then show ?thesis using nth_axis_place [of i axes] by (simp add: permute_def)
  qed
  with a l show ?thesis by (intro nth_equalityI) (simp_all add: unpermute_def is_axes_def)
qed

lemma permute_unpermute: "is_axes n axes \<Longrightarrow> length js = n \<Longrightarrow> permute axes (unpermute axes js) = js"
proof -
  assume a: "is_axes n axes" and l: "length js = n"
  have "unpermute axes js ! (axes ! i) = js ! i" if "i < n" for i
  proof -
    from a that have "axes ! i < n" unfolding is_axes_def by (metis lessThan_iff nth_mem subsetD)
    with a that show ?thesis by (simp add: unpermute_def axis_place_nth is_axes_def)
  qed
  with a l show ?thesis by (intro nth_equalityI) (simp_all add: permute_def is_axes_def)
qed

lemma unpermute_in_shape:
  assumes a: "is_axes n axes" and l: "length ds = n" and v: "in_shape (permute axes ds) js"
  shows "in_shape ds (unpermute axes js)"
proof -
  from v a have lj: "length js = n" by (simp add: in_shape_def permute_def is_axes_def list_all2_lengthD)
  have "js ! axis_place axes i < ds ! i" if "i < n" for i
  proof -
    from a that have m: "axis_place axes i < length axes \<and> axes ! axis_place axes i = i"
      by (intro nth_axis_place) (simp add: is_axes_set)
    from v lj a m have "js ! axis_place axes i < permute axes ds ! axis_place axes i"
      unfolding in_shape_def list_all2_conv_all_nth by (simp add: is_axes_def)
    with m show ?thesis by (simp add: permute_def)
  qed
  with a l lj show ?thesis
    by (simp add: in_shape_def list_all2_conv_all_nth unpermute_def is_axes_def)
qed

lemma permute_in_shape:
  "is_axes n axes \<Longrightarrow> length ds = n \<Longrightarrow> in_shape ds js \<Longrightarrow> in_shape (permute axes ds) (permute axes js)"
  by (auto simp: in_shape_def permute_def list_all2_conv_all_nth is_axes_def subset_iff
      all_set_conv_all_nth)

lemma prod_permute: "is_axes n axes \<Longrightarrow> length ds = n \<Longrightarrow> prod_list (permute axes ds) = prod_list (ds :: 'a :: comm_monoid_mult list)"
proof -
  assume a: "is_axes n axes" and l: "length ds = n"
  have "prod_list (permute axes ds) = prod (\<lambda>a. ds ! a) (set axes)"
    unfolding permute_def using a prod.distinct_set_conv_list [of axes "\<lambda>a. ds ! a"]
    by (simp add: is_axes_def)
  also have "\<dots> = prod_list (map (\<lambda>a. ds ! a) [0..<n])"
    using a prod.distinct_set_conv_list [of "[0..<n]" "\<lambda>a. ds ! a"]
    by (simp add: is_axes_set lessThan_atLeast0)
  finally show ?thesis using l map_nth [of ds] by simp
qed

text \<open>The element at a position of the transposed array.\<close>

lemma transpose_elems_at:
  assumes a: "is_axes n axes" and l: "length ds = n" and v: "in_shape ds js"
  shows "transpose_elems axes ds xs ! ravel (permute axes ds) (permute axes js) = xs ! ravel ds js"
proof -
  from v l have lj: "length js = n" by (auto simp: in_shape_def list_all2_lengthD)
  have vp: "in_shape (permute axes ds) (permute axes js)" by (rule permute_in_shape [OF a l v])
  then have "ravel (permute axes ds) (permute axes js) < prod_list ds"
    using ravel_less prod_permute [OF a l] by metis
  then show ?thesis
    by (simp add: transpose_elems_def unravel_ravel [OF vp] unpermute_permute [OF a lj])
qed

lemma permute_self:
  assumes a: "is_axes n axes" and self: "permute axes axes = [0..<n]" and l: "length ys = n"
  shows "permute axes (permute axes ys) = ys"
proof -
  have "permute axes (permute axes ys) = permute (permute axes axes) ys"
    using a by (simp add: permute_def is_axes_def subset_iff)
  with self l show ?thesis using map_nth [of ys] by (simp add: permute_def)
qed

text \<open>Swapping the same axes twice gives back the elements.\<close>

lemma transpose_elems_twice:
  assumes a: "is_axes n axes" and l: "length ds = n" and xs: "length xs = prod_list ds"
    and self: "permute axes axes = [0..<n]"
  shows "transpose_elems axes (permute axes ds) (transpose_elems axes ds xs) = xs"
proof (rule nth_equalityI)
  have lp: "length (permute axes ds) = n" using a by (simp add: permute_def is_axes_def)
  note pp = permute_self [OF a self]
  show "length (transpose_elems axes (permute axes ds) (transpose_elems axes ds xs)) = length xs"
    by (simp add: transpose_elems_def xs prod_permute [OF a l])
  fix g assume "g < length (transpose_elems axes (permute axes ds) (transpose_elems axes ds xs))"
  then have g: "g < prod_list ds" by (simp add: transpose_elems_def prod_permute [OF a l])
  let ?js = "unravel ds g"
  have v: "in_shape ds ?js" by (rule unravel_in_shape [OF g])
  have lj: "length ?js = n" by (simp add: l)
  from transpose_elems_at [OF a lp permute_in_shape [OF a l v]]
  have "transpose_elems axes (permute axes ds) (transpose_elems axes ds xs) ! ravel ds ?js
      = transpose_elems axes ds xs ! ravel (permute axes ds) (permute axes ?js)"
    by (simp add: pp l lj)
  also have "\<dots> = xs ! ravel ds ?js" by (rule transpose_elems_at [OF a l v])
  finally show "transpose_elems axes (permute axes ds) (transpose_elems axes ds xs) ! g = xs ! g"
    by (simp add: ravel_unravel [OF g])
qed

section \<open>The interface\<close>

text \<open>
  The documented behaviour that the package relies on. \<open>astype\<close> keeps the shape, and for an
  array that already has the type and is C-contiguous it is a copy in row-major order;
  \<open>reshape\<close> to given
  non-negative dimensions has that shape and keeps the elements in row-major order, and to a
  shape of another size it raises ValueError; \<open>transpose\<close> permutes the axes; \<open>copy\<close> gives
  C-contiguous memory.
\<close>

locale numpy_laws =
  fixes np :: "'d numpy_api"
  assumes astype_shape: "nd_shape (np_astype np a n) = nd_shape a"
    and astype_dtype: "nd_dtype (np_astype np a n) = n"
    and astype_wf: "nd_wf a \<Longrightarrow> nd_wf (np_astype np a n)"
    and astype_contiguous: "nd_c_contiguous a \<Longrightarrow> nd_c_contiguous (np_astype np a n)"
    and astype_same: "nd_wf a \<Longrightarrow> nd_c_contiguous a \<Longrightarrow> nd_dtype a = n \<Longrightarrow>
      np_astype np a n = row_major (nd_shape a) n (nd_elems a)"
    and reshape_ok: "nd_wf a \<Longrightarrow> \<forall>d \<in> set s. 0 \<le> d \<Longrightarrow> prod_list s = prod_list (nd_shape a) \<Longrightarrow>
      \<exists>b. np_reshape np a s = Inr b \<and> nd_dtype b = nd_dtype a \<and> nd_elems b = nd_elems a
        \<and> (nd_c_contiguous a \<longrightarrow> nd_c_contiguous b)"
    and reshape_shape: "np_reshape np a s = Inr b \<Longrightarrow> \<forall>d \<in> set s. 0 \<le> d \<Longrightarrow> nd_shape b = s"
    and reshape_size: "nd_wf a \<Longrightarrow> \<forall>d \<in> set s. 0 \<le> d \<Longrightarrow> prod_list s \<noteq> prod_list (nd_shape a) \<Longrightarrow>
      raises ValueError (np_reshape np a s)"
    and transpose_ok: "nd_wf a \<Longrightarrow> is_axes (length (nd_shape a)) axes \<Longrightarrow>
      \<exists>b. np_transpose np a (map int axes) = Inr b \<and> nd_shape b = permute axes (nd_shape a)
        \<and> nd_dtype b = nd_dtype a
        \<and> nd_elems b = transpose_elems axes (map nat (nd_shape a)) (nd_elems a)"
    and copy_array: "np_copy np a = row_major (nd_shape a) (nd_dtype a) (nd_elems a)"
begin

lemma copy_contiguous: "nd_c_contiguous (np_copy np a)"
  by (simp add: copy_array)

lemma astype_compact: "nd_wf a \<Longrightarrow> nd_compact a \<Longrightarrow> nd_dtype a = n \<Longrightarrow> np_astype np a n = a"
  using astype_same [of a n] nd_compact_contiguous [of a] unfolding nd_compact_def by auto

text \<open>The copy of a transposed array, with a dtype conversion that changes nothing.\<close>

lemma transpose_copy:
  assumes "nd_wf a" "is_axes (length (nd_shape a)) axes"
  shows "\<exists>b. np_transpose np a (map int axes) = Inr b
    \<and> np_copy np b = row_major (permute axes (nd_shape a)) (nd_dtype a)
         (transpose_elems axes (map nat (nd_shape a)) (nd_elems a))"
proof -
  from transpose_ok [OF assms] obtain b where b: "np_transpose np a (map int axes) = Inr b"
    "nd_shape b = permute axes (nd_shape a)" "nd_dtype b = nd_dtype a"
    "nd_elems b = transpose_elems axes (map nat (nd_shape a)) (nd_elems a)" by blast
  then show ?thesis by (intro exI [of _ b]) (simp add: copy_array)
qed

end

section \<open>A reference NumPy\<close>

text \<open>Element conversion between types is a parameter of the reference.\<close>

definition np_ref_reshape :: "ndarray \<Rightarrow> int list \<Rightarrow> ndarray res" where
  "np_ref_reshape a s =
     (let known = prod_list (filter (\<lambda>d. d \<noteq> -1) s); total = int (length (nd_elems a));
          dims = (if -1 \<in> set s then map (\<lambda>d. if d = -1 then total div known else d) s else s)
      in if (\<forall>d \<in> set s. -1 \<le> d) \<and> length (filter (\<lambda>d. d = -1) s) \<le> 1 \<and> prod_list dims = total
         then Inr (row_major dims (nd_dtype a) (nd_elems a))
         else raise ValueError ''cannot reshape array'')"

definition np_ref_transpose :: "ndarray \<Rightarrow> int list \<Rightarrow> ndarray res" where
  "np_ref_transpose a axes =
     (if (\<forall>x \<in> set axes. 0 \<le> x) \<and> is_axes (length (nd_shape a)) (map nat axes)
      then Inr (a\<lparr>nd_shape := permute (map nat axes) (nd_shape a),
                  nd_strides := permute (map nat axes) (nd_strides a),
                  nd_elems := transpose_elems (map nat axes) (map nat (nd_shape a)) (nd_elems a)\<rparr>)
      else raise ValueError ''axes do not match array'')"

definition np_ref_astype :: "(string \<Rightarrow> real \<Rightarrow> real) \<Rightarrow> ndarray \<Rightarrow> string \<Rightarrow> ndarray" where
  "np_ref_astype conv a n =
     (let f = (if nd_dtype a = n then (\<lambda>x. x) else conv n)
      in if nd_c_contiguous a then row_major (nd_shape a) n (map f (nd_elems a))
         else a\<lparr>nd_dtype := n, nd_elems := map f (nd_elems a), nd_mem := map f (nd_mem a)\<rparr>)"

definition np_ref :: "(string \<Rightarrow> real \<Rightarrow> real) \<Rightarrow> ndarray numpy_api" where
  "np_ref conv = \<lparr>
     np_array = Inr,
     np_astype = np_ref_astype conv,
     np_reshape = np_ref_reshape,
     np_transpose = np_ref_transpose,
     np_copy = (\<lambda>a. row_major (nd_shape a) (nd_dtype a) (nd_elems a)),
     np_str = (\<lambda>a. Inr (show_tuple (map round_half_even (nd_elems a))))\<rparr>"

interpretation numpy_ref: numpy_laws "np_ref conv" for conv
proof unfold_locales
  fix a s assume a: "nd_wf a" "\<forall>d \<in> set s. 0 \<le> d" "prod_list s = prod_list (nd_shape a)"
  then have "-1 \<notin> set s" "filter (\<lambda>d. d = -1) s = []" "\<forall>d \<in> set s. -1 \<le> d"
    by (auto simp: filter_empty_conv)
  with a show "\<exists>b. np_reshape (np_ref conv) a s = Inr b \<and> nd_dtype b = nd_dtype a \<and> nd_elems b = nd_elems a
        \<and> (nd_c_contiguous a \<longrightarrow> nd_c_contiguous b)"
    using nd_wf_length [OF a(1)] by (simp add: np_ref_def np_ref_reshape_def Let_def)
next
  fix a s b assume a: "np_reshape (np_ref conv) a s = Inr b" "\<forall>d \<in> set s. 0 \<le> d"
  then have "-1 \<notin> set s" by auto
  with a show "nd_shape b = s" by (auto simp: np_ref_def np_ref_reshape_def Let_def split: if_splits)
next
  fix a s assume a: "nd_wf a" "\<forall>d \<in> set s. 0 \<le> d" "prod_list s \<noteq> prod_list (nd_shape a)"
  then have "-1 \<notin> set s" by auto
  with a show "raises ValueError (np_reshape (np_ref conv) a s)"
    using nd_wf_length [OF a(1)] by (simp add: np_ref_def np_ref_reshape_def Let_def)
next
  fix a axes assume "nd_wf a" "is_axes (length (nd_shape a)) axes"
  then show "\<exists>b. np_transpose (np_ref conv) a (map int axes) = Inr b
        \<and> nd_shape b = permute axes (nd_shape a) \<and> nd_dtype b = nd_dtype a
        \<and> nd_elems b = transpose_elems axes (map nat (nd_shape a)) (nd_elems a)"
    by (simp add: np_ref_def np_ref_transpose_def comp_def)
next
  fix a n assume a: "nd_wf a"
  show "nd_wf (np_astype (np_ref conv) a n)"
  proof (cases "nd_c_contiguous a")
    case True
    with a nd_wf_length [OF a] show ?thesis
      by (simp add: np_ref_def np_ref_astype_def Let_def) (simp add: nd_wf_def)
  next
    case False
    with nd_wf_map [OF a] show ?thesis by (simp add: np_ref_def np_ref_astype_def Let_def)
  qed
qed (simp_all add: np_ref_def np_ref_astype_def Let_def)

section \<open>Swapping two axes\<close>

definition swap_perm :: "nat \<Rightarrow> nat \<Rightarrow> nat \<Rightarrow> nat list" where
  "swap_perm n i j = [0..<n][i := j, j := i]"

lemma py_position_less: "py_position n i = Inr j \<Longrightarrow> j < n"
  by (simp add: py_position_Inr)

lemma swap_axes_positions:
  assumes a: "py_position n a = Inr i" and b: "py_position n b = Inr j"
  shows "swap_axes (map int [0..<n]) a b = Inr (map int (swap_perm n i j))"
  using py_position_less [OF a] py_position_less [OF b]
  by (simp add: swap_axes_def py_getitem_def py_setitem_def a b map_update swap_perm_def)

lemma swap_axes_Inr:
  assumes "swap_axes (map int [0..<n]) a b = Inr axes"
  shows "\<exists>i j. py_position n a = Inr i \<and> py_position n b = Inr j \<and> axes = map int (swap_perm n i j)"
proof -
  from assms obtain j where b: "py_position n b = Inr j"
    by (cases "py_position n b") (simp_all add: swap_axes_def py_getitem_def)
  with assms obtain i where a: "py_position n a = Inr i"
    by (cases "py_position n a") (simp_all add: swap_axes_def py_getitem_def)
  from swap_axes_positions [OF a b] assms a b show ?thesis by simp
qed

lemma swap_perm_nth:
  "i < n \<Longrightarrow> j < n \<Longrightarrow> p < n \<Longrightarrow> swap_perm n i j ! p = (if p = j then i else if p = i then j else p)"
  by (auto simp: swap_perm_def nth_list_update)

lemma swap_perm_axes: "i < n \<Longrightarrow> j < n \<Longrightarrow> is_axes n (swap_perm n i j)"
proof -
  assume ij: "i < n" "j < n"
  have len: "length (swap_perm n i j) = n" by (simp add: swap_perm_def)
  moreover have "distinct (swap_perm n i j)"
    by (auto simp: distinct_conv_nth len swap_perm_nth ij)
  moreover have "set (swap_perm n i j) \<subseteq> {..<n}"
    using ij by (auto simp: in_set_conv_nth len swap_perm_nth)
  ultimately show ?thesis by (simp add: is_axes_def)
qed

lemma swap_perm_self: "i < n \<Longrightarrow> j < n \<Longrightarrow> permute (swap_perm n i j) (swap_perm n i j) = [0..<n]"
proof -
  assume ij: "i < n" "j < n"
  have len: "length (swap_perm n i j) = n" by (simp add: swap_perm_def)
  show ?thesis by (intro nth_equalityI) (auto simp: permute_def len swap_perm_nth ij)
qed

end
