(* ===== verification/TensorLaws.thy ===== *)
theory TensorLaws
  imports NumpyRef
begin

text \<open>
  What the methods of \<open>Tensor\<close> promise, on the C++ core of theory Native and a NumPy that
  satisfies \<open>numpy_laws\<close>: caches, conversion from and to NumPy, shape operations, reductions,
  element-wise arithmetic, and the PyTorch bridge.

  The locale \<open>native_laws\<close> is the contract the shape methods rest on; it is interpreted on
  \<open>cpp_api\<close>.
\<close>

lemma cpp_api_simps [simp]:
  "C_tensor_from_numpy (cpp_api dev k) = mn_from_numpy dev"
  "C_tensor_empty (cpp_api dev k) s d rg = bindR (parse_dtype_str d) (mn_empty dev s)"
  "C_tensor_zeros (cpp_api dev k) s d rg = bindR (parse_dtype_str d) (mn_filled dev 0 s)"
  "C_tensor_ones (cpp_api dev k) s d rg = bindR (parse_dtype_str d) (mn_filled dev 1 s)"
  "C_tensor_shape (cpp_api dev k) = mt_shape"
  "C_tensor_dtype (cpp_api dev k) h = dtype_name (mt_dtype h)"
  "C_tensor_item (cpp_api dev k) = mn_item"
  "C_tensor_to_numpy (cpp_api dev k) = mn_to_numpy dev"
  "C_tensor_to_dlpack (cpp_api dev k) h = raise RuntimeError ''DLPack interop not yet implemented (Phase 3)''"
  "C_tensor_from_dlpack (cpp_api dev k) c rg = raise RuntimeError ''DLPack interop not yet implemented (Phase 3)''"
  "C_reshape (cpp_api dev k) = mn_reshape"
  "C_is_contiguous (cpp_api dev k) = mt_is_contiguous"
  "C_reduce_sum (cpp_api dev k) = mn_reduce_sum dev"
  "C_reduce_mean (cpp_api dev k) = mn_reduce_mean dev"
  "C_reduce_max (cpp_api dev k) = mn_reduce_max dev"
  by (simp_all add: cpp_api_def)

lemma cpp_arith_simps [simp]:
  "C_tensor_add (cpp_api dev k) = dispatch_binary_op dev (+)"
  "C_tensor_sub (cpp_api dev k) = dispatch_binary_op dev (-)"
  "C_tensor_mul (cpp_api dev k) = dispatch_binary_op dev (*)"
  "C_tensor_div (cpp_api dev k) = dispatch_binary_op dev (/)"
  "C_tensor_add_scalar (cpp_api dev k) = scalar_op dev (+)"
  "C_tensor_sub_scalar (cpp_api dev k) = scalar_op dev (-)"
  "C_tensor_mul_scalar (cpp_api dev k) = scalar_op dev (*)"
  "C_tensor_div_scalar (cpp_api dev k) = scalar_op dev (/)"
  "C_tensor_rsub_scalar (cpp_api dev k) = rsub_scalar dev"
  "C_neg (cpp_api dev k) = dispatch_unary_op dev uminus"
  "C_abs (cpp_api dev k) = dispatch_unary_op dev abs"
  "C_clamp (cpp_api dev k) h lo hi = dispatch_unary_op dev (clamp_to lo hi) h"
  by (simp_all add: cpp_api_def)

section \<open>The contract of the extension\<close>

text \<open>The caches of a tensor hold what the handle would give.\<close>

definition caches_agree :: "('h, 'c) native_api \<Rightarrow> 'h tensor \<Rightarrow> bool" where
  "caches_agree N t \<longleftrightarrow> (\<forall>s. shape_cache t = Some s \<longrightarrow> s = C_tensor_shape N (handle t))
     \<and> (\<forall>d. dtype_cache t = Some d \<longrightarrow> dname d = C_tensor_dtype N (handle t))"

lemma from_handle_agree [simp]: "caches_agree N (from_handle h rg)"
  by (simp add: caches_agree_def from_handle_def)

lemma from_handle_handle [simp]: "handle (from_handle h rg) = h"
  by (simp add: from_handle_def)

lemma shape_of_agree: "caches_agree N t \<Longrightarrow> shape_of N t = C_tensor_shape N (handle t)"
  by (cases "shape_cache t") (simp_all add: caches_agree_def shape_of_def)

lemma dtype_of_agree: "caches_agree N t \<Longrightarrow> dtype_of N t = Inr d \<Longrightarrow> dname d = C_tensor_dtype N (handle t)"
proof (cases "dtype_cache t")
  case None
  assume "dtype_of N t = Inr d"
  with None have "dict_get DTYPE_MAP (C_tensor_dtype N (handle t)) = Some d"
    by (cases "dict_get DTYPE_MAP (C_tensor_dtype N (handle t))") (simp_all add: dtype_of_def)
  then show ?thesis by (rule DTYPE_MAP_name)
qed (simp add: caches_agree_def dtype_of_def)

lemma shape_get_agree: "caches_agree N t \<Longrightarrow> caches_agree N (snd (shape_get N t))"
  using shape_of_agree [of N t] by (simp add: shape_get_def caches_agree_def)

lemma dtype_get_agree: "caches_agree N t \<Longrightarrow> caches_agree N (snd (dtype_get N t))"
proof (cases "dtype_of N t")
  case (Inr d)
  assume a: "caches_agree N t"
  from dtype_of_agree [OF a Inr] a show ?thesis by (simp add: dtype_get_def Inr caches_agree_def)
qed (simp add: dtype_get_def)

lemma wrap_Inr: "wrap r = Inr t \<longleftrightarrow> (\<exists>h. r = Inr h \<and> t = from_handle h False)"
  by (auto simp: wrap_def bindR_Inr_iff)

text \<open>
  \<open>live\<close> marks the handles whose buffer and shape belong together. A handle made from an array
  has the array's shape and the requested dtype and, if the array is C-contiguous with that
  element type, gives an array of the same elements in row-major order; a live handle of a NumPy
  type reads as a well-formed array in row-major order; a reshape can be undone.
\<close>

locale native_laws =
  fixes N :: "('h, 'c) native_api"
    and live :: "'h \<Rightarrow> bool"
  assumes from_numpy_shape: "C_tensor_from_numpy N a dt rg = Inr h \<Longrightarrow>
      C_tensor_shape N h = nd_shape a \<and> C_tensor_dtype N h = dt"
    and from_numpy_live: "C_tensor_from_numpy N a dt rg = Inr h \<Longrightarrow> nd_wf a \<Longrightarrow> fits (nd_shape a)
      \<Longrightarrow> prod_list (nd_shape a) < 2 ^ 61 \<Longrightarrow> nd_c_contiguous a \<Longrightarrow> nd_dtype a = dt
      \<Longrightarrow> dt \<noteq> ''bfloat16'' \<Longrightarrow>
      live h \<and> C_tensor_to_numpy N h = Inr (row_major (nd_shape a) dt (nd_elems a))"
    and empty_shape: "C_tensor_empty N s dt rg = Inr h \<Longrightarrow> C_tensor_shape N h = s \<and> C_tensor_dtype N h = dt"
    and reads: "live h \<Longrightarrow> C_tensor_dtype N h \<noteq> ''bfloat16'' \<Longrightarrow>
      \<exists>a. C_tensor_to_numpy N h = Inr a \<and> nd_wf a \<and> nd_compact a \<and> fits (nd_shape a)
        \<and> nd_shape a = C_tensor_shape N h \<and> nd_dtype a = C_tensor_dtype N h"
    and same_reads: "live h \<Longrightarrow> live h' \<Longrightarrow> C_tensor_dtype N h \<noteq> ''bfloat16'' \<Longrightarrow>
      C_tensor_to_numpy N h = C_tensor_to_numpy N h' \<Longrightarrow> C_tensor_dtype N h = C_tensor_dtype N h' \<Longrightarrow> h = h'"
    and reshape_undo: "live h \<Longrightarrow> C_reshape N h s = Inr h' \<Longrightarrow> C_reshape N h' (C_tensor_shape N h) = Inr h"
begin

lemma reshape_undone:
  assumes "live (handle t)" "caches_agree N t" "Tensor_reshape N t [DimSeq s] = Inr u"
  shows "Tensor_reshape N u [DimSeq (shape_of N t)] = Inr (from_handle (handle t) False)"
proof -
  from assms(3) obtain h where "C_reshape N (handle t) s = Inr h" "u = from_handle h False"
    by (auto simp: Tensor_reshape_def wrap_Inr)
  with assms(1) reshape_undo [of "handle t" s h] show ?thesis
    by (simp add: Tensor_reshape_def wrap_Inr shape_of_agree [OF assms(2)])
qed

end

text \<open>The transposed array, copied to row-major order.\<close>

definition transposed :: "nat list \<Rightarrow> ndarray \<Rightarrow> ndarray" where
  "transposed axes a = row_major (permute axes (nd_shape a)) (nd_dtype a)
     (transpose_elems axes (map nat (nd_shape a)) (nd_elems a))"

lemma permute_map: "is_axes (length xs) axes \<Longrightarrow> permute axes (map f xs) = map f (permute axes xs)"
  by (auto simp: permute_def is_axes_def subset_iff)

lemma set_permute: "is_axes (length xs) axes \<Longrightarrow> set (permute axes xs) = set xs"
proof -
  assume "is_axes (length xs) axes"
  then have "set axes = {..<length xs}" by (rule is_axes_set)
  then have "set (permute axes xs) = (!) xs ` {..<length xs}" by (simp add: permute_def)
  also have "\<dots> = set xs" by (metis atLeast_upt map_nth set_map)
  finally show ?thesis .
qed

lemma fits_permute: "is_axes n axes \<Longrightarrow> length ds = n \<Longrightarrow> fits ds \<Longrightarrow> fits (permute axes ds)"
  using prod_permute [of n axes "map (max 1) ds"]
  by (simp add: fits_def permute_map set_permute)

lemma transposed_wf: "nd_wf a \<Longrightarrow> is_axes (length (nd_shape a)) axes \<Longrightarrow> nd_wf (transposed axes a)"
proof -
  assume a: "nd_wf a" and ax: "is_axes (length (nd_shape a)) axes"
  from a have nn: "\<forall>d \<in> set (nd_shape a). 0 \<le> d" by (simp add: nd_wf_def)
  from prod_nonneg [OF nn] nn show ?thesis
    by (simp add: transposed_def set_permute [OF ax] transpose_elems_def
        prod_list_map_nat prod_permute [OF ax])
qed

lemma transposed_twice:
  assumes a: "nd_wf a" "nd_compact a" and n: "n = length (nd_shape a)"
    and ax: "is_axes n axes" "permute axes axes = [0..<n]"
  shows "transposed axes (transposed axes a) = a"
proof -
  have "permute axes (permute axes (nd_shape a)) = nd_shape a"
    by (rule permute_self [OF ax]) (simp add: n)
  moreover from a nd_wf_length [OF a(1)] have "length (nd_elems a) = prod_list (map nat (nd_shape a))"
    by (simp add: nd_wf_def length_positions)
  then have "transpose_elems axes (permute axes (map nat (nd_shape a))) (transpose_elems axes (map nat (nd_shape a)) (nd_elems a))
      = nd_elems a"
    by (intro transpose_elems_twice [OF ax(1)] ax(2)) (simp_all add: n)
  moreover have "permute axes (map nat (nd_shape a)) = map nat (permute axes (nd_shape a))"
    by (rule permute_map) (use ax n in simp)
  ultimately show ?thesis using a(2)
    by (simp add: transposed_def nd_compact_def)
qed

text \<open>A tensor as the constructor leaves it when no shape was requested.\<close>

definition made_tensor :: "dtype \<Rightarrow> bool \<Rightarrow> 'h \<Rightarrow> 'h tensor" where
  "made_tensor d rg h = \<lparr>handle = h, shape_cache = None, dtype_cache = Some d, requires_grad = rg, grad = None\<rparr>"

lemma made_tensor_handle [simp]: "handle (made_tensor d rg h) = h"
  by (simp add: made_tensor_def)

text \<open>The methods that go through NumPy rest on both contracts.\<close>

locale tensor_laws = native_laws N live + numpy_laws np
  for N :: "('h, 'c) native_api" and live :: "'h \<Rightarrow> bool" and np :: "'d numpy_api"
begin

lemma init_agree:
  assumes init: "Tensor_init np (CMod N) data shape dt rg nh = Inr t"
    and dims: "\<forall>s. shape = Some s \<longrightarrow> (\<forall>d \<in> set s. 0 \<le> d)"
  shows "caches_agree N t \<and> requires_grad t = rg"
proof (cases nh)
  case (Some h)
  with init show ?thesis by (auto simp: Tensor_init_def from_handle_def caches_agree_def)
next
  case None
  show ?thesis
  proof (cases data)
    case None
    with init \<open>nh = None\<close> show ?thesis
      by (cases shape) (auto simp: Tensor_init_def bindR_Inr_iff caches_agree_def Let_def dest!: empty_shape)
  next
    case (Some src)
    with init None obtain a0 d a1 a2 h where
      a2: "(case shape of Some s \<Rightarrow> if nd_shape a1 \<noteq> s then np_reshape np a1 s else Inr a1 | None \<Rightarrow> Inr a1) = Inr a2"
      and h: "C_tensor_from_numpy N a2 (dname d) rg = Inr h"
      and t: "t = \<lparr>handle = h, shape_cache = shape, dtype_cache = Some d, requires_grad = rg, grad = None\<rparr>"
      by (auto simp: Tensor_init_def bindR_Inr_iff)
    have "nd_shape a2 = s" if s: "shape = Some s" for s
      using a2 s dims reshape_shape [of a1 s a2] by (cases "nd_shape a1 = s") simp_all
    with from_numpy_shape [OF h] show ?thesis by (auto simp: t caches_agree_def)
  qed
qed

text \<open>A tensor made from an array of a supported type in row-major order gives the array back.\<close>

lemma init_array:
  assumes a: "nd_wf a" "fits (nd_shape a)" "prod_list (nd_shape a) < 2 ^ 61" "nd_compact a" "nd_dtype a = dname d" "dname d \<noteq> ''bfloat16''"
    and dt: "dt = Some d \<and> dtype_to_numpy d = Inr (dname d)
      \<or> dt = None \<and> dict_get NUMPY_TO_DTYPE_MAP (nd_dtype a) = Some d"
    and h: "C_tensor_from_numpy N a (dname d) rg = Inr h"
  shows "Tensor_init np (CMod N) (Some (FromArray a)) None dt rg None =
      Inr \<lparr>handle = h, shape_cache = None, dtype_cache = Some d, requires_grad = rg, grad = None\<rparr>
    \<and> live h \<and> C_tensor_to_numpy N h = Inr a \<and> C_tensor_shape N h = nd_shape a"
proof -
  have "convert_dtype np a dt = Inr (d, a)"
    using a dt by (auto simp: convert_dtype_def numpy_to_dtype_def np_normalize_def dtype_eq_def astype_compact)
  moreover have "row_major (nd_shape a) (dname d) (nd_elems a) = a"
    using a(4,5) by (simp add: nd_compact_def)
  ultimately show ?thesis
    using from_numpy_live [OF h] from_numpy_shape [OF h] nd_compact_contiguous [OF a(4)] a h
    by (simp add: Tensor_init_def as_array_def)
qed

text \<open>Transposing: the array of the result is the transposed array.\<close>

lemma transpose_array:
  assumes t: "live (handle t)" "caches_agree N t" "dtype_of N t = Inr d" "dtype_to_numpy d = Inr (dname d)"
    and arr: "C_tensor_to_numpy N (handle t) = Inr a"
    and mem: "\<And>b. nd_wf b \<Longrightarrow> nd_dtype b = dname d \<Longrightarrow> prod_list (nd_shape b) = prod_list (nd_shape a) \<Longrightarrow>
      \<exists>h. C_tensor_from_numpy N b (dname d) False = Inr h"
    and size: "prod_list (nd_shape a) < 2 ^ 61"
    and i: "py_position (length (nd_shape a)) dim0 = Inr i"
    and j: "py_position (length (nd_shape a)) dim1 = Inr j"
  shows "\<exists>h. Tensor_transpose np N t dim0 dim1 =
      Inr (made_tensor d False h)
    \<and> live h \<and> C_tensor_to_numpy N h = Inr (transposed (swap_perm (length (nd_shape a)) i j) a)
    \<and> C_tensor_shape N h = permute (swap_perm (length (nd_shape a)) i j) (nd_shape a)
    \<and> C_tensor_dtype N h = dname d"
proof -
  let ?n = "length (nd_shape a)"
  let ?ax = "swap_perm ?n i j"
  have name: "C_tensor_dtype N (handle t) = dname d" using dtype_of_agree [OF t(2,3)] by simp
  have nb: "dname d \<noteq> ''bfloat16''" using t(4) by (auto simp: dtype_to_numpy_Inr)
  obtain a' where "C_tensor_to_numpy N (handle t) = Inr a'" "nd_wf a'" "fits (nd_shape a')"
    "nd_shape a' = C_tensor_shape N (handle t)" "nd_dtype a' = dname d"
    using reads [OF t(1)] name nb by auto
  with arr have a: "nd_wf a" "fits (nd_shape a)" "nd_shape a = C_tensor_shape N (handle t)" "nd_dtype a = dname d"
    by simp_all
  have nd: "Tensor_ndim N t = ?n" using shape_of_agree [OF t(2)] a by (simp add: Tensor_ndim_def)
  have ax: "is_axes ?n ?ax" by (rule swap_perm_axes [OF py_position_less [OF i] py_position_less [OF j]])
  obtain b where b: "np_transpose np a (map int ?ax) = Inr b"
    and cp: "np_copy np b = transposed ?ax a"
    using transpose_copy [OF a(1) ax] by (auto simp: transposed_def)
  have wf: "nd_wf (transposed ?ax a)" by (rule transposed_wf [OF a(1) ax])
  have ft: "fits (nd_shape (transposed ?ax a))"
    using fits_permute [OF ax refl a(2)] by (simp add: transposed_def)
  obtain h where h: "C_tensor_from_numpy N (transposed ?ax a) (dname d) False = Inr h"
    using mem [OF wf] a(4) prod_permute [OF ax refl] by (auto simp: transposed_def)
  have "Tensor_transpose np N t dim0 dim1 =
      Tensor_init np (CMod N) (Some (FromArray (transposed ?ax a))) None (Some d) False None"
    unfolding Tensor_transpose_def Tensor_numpy_def arr nd swap_axes_positions [OF i j] bindR_simps b t(3) cp
    by (rule refl)
  moreover note init_array [OF wf ft _ _ _ nb _ h, of "Some d"]
  ultimately show ?thesis using t(4) a(4) from_numpy_shape [OF h] size prod_permute [OF ax refl]
    by (simp add: transposed_def made_tensor_def)
qed

lemma transpose_round:
  assumes t: "live (handle t)" "caches_agree N t" "dtype_of N t = Inr d" "dtype_to_numpy d = Inr (dname d)"
    and arr: "C_tensor_to_numpy N (handle t) = Inr a"
    and mem: "\<And>b. nd_wf b \<Longrightarrow> nd_dtype b = dname d \<Longrightarrow> prod_list (nd_shape b) = prod_list (nd_shape a) \<Longrightarrow>
      \<exists>h. C_tensor_from_numpy N b (dname d) False = Inr h"
    and size: "prod_list (nd_shape a) < 2 ^ 61"
    and n: "n = length (nd_shape a)"
    and i: "py_position n dim0 = Inr i" and j: "py_position n dim1 = Inr j"
  shows "\<exists>h. Tensor_transpose np N t dim0 dim1 = Inr (made_tensor d False h)
    \<and> live h \<and> C_tensor_to_numpy N h = Inr (transposed (swap_perm n i j) a)
    \<and> C_tensor_shape N h = permute (swap_perm n i j) (nd_shape a)
    \<and> C_tensor_dtype N h = dname d
    \<and> Tensor_transpose np N (made_tensor d False h) dim0 dim1 = Inr (made_tensor d False (handle t))"
proof -
  let ?ax = "swap_perm n i j"
  have name: "C_tensor_dtype N (handle t) = dname d" using dtype_of_agree [OF t(2,3)] by simp
  have nb: "dname d \<noteq> ''bfloat16''" using t(4) by (auto simp: dtype_to_numpy_Inr)
  have ax: "is_axes n ?ax" "permute ?ax ?ax = [0..<n]"
    using swap_perm_axes swap_perm_self py_position_less [OF i] py_position_less [OF j] by simp_all
  have wf: "nd_wf a" "nd_compact a" using reads [OF t(1)] name nb arr by auto
  obtain h where h: "Tensor_transpose np N t dim0 dim1 = Inr (made_tensor d False h)" "live h"
    "C_tensor_to_numpy N h = Inr (transposed ?ax a)" "C_tensor_shape N h = permute ?ax (nd_shape a)"
    "C_tensor_dtype N h = dname d"
    using transpose_array [OF t arr mem size i [unfolded n] j [unfolded n]] unfolding n by blast
  let ?u = "made_tensor d False h"
  have u: "live (handle ?u)" "caches_agree N ?u" "dtype_of N ?u = Inr d"
    "C_tensor_to_numpy N (handle ?u) = Inr (transposed ?ax a)"
    using h by (simp_all add: made_tensor_def caches_agree_def dtype_of_def)
  have len: "length (nd_shape (transposed ?ax a)) = n"
    using ax by (simp add: transposed_def permute_def is_axes_def)
  have prod_same: "prod_list (nd_shape (transposed ?ax a)) = prod_list (nd_shape a)"
    using prod_permute [OF ax(1), of "nd_shape a"] n by (simp add: transposed_def)
  obtain w where w: "Tensor_transpose np N ?u dim0 dim1 = Inr (made_tensor d False w)" "live w"
    "C_tensor_to_numpy N w = Inr (transposed ?ax (transposed ?ax a))" "C_tensor_dtype N w = dname d"
    using transpose_array [OF u(1-3) t(4) u(4), of dim0 i dim1 j] mem size i j len prod_same by auto
  have "w = handle t"
    using same_reads [OF w(2) t(1)] w(3,4) name nb arr transposed_twice [OF wf n ax] by simp
  with h w(1) show ?thesis by blast
qed

end

section \<open>The C++ core satisfies the contract\<close>

lemma dtype_name_bfloat16 [simp]: "dtype_name m = ''bfloat16'' \<longleftrightarrow> m = BFloat16"
  by (cases m) simp_all

lemma dtype_name_inj: "dtype_name m = dtype_name m' \<longleftrightarrow> m = m'"
  by (metis parse_dtype_name sum.inject(2))

lemma mn_from_numpy_reads:
  assumes "mn_from_numpy dev a dt rg = Inr h" "nd_wf a" "fits (nd_shape a)" "prod_list (nd_shape a) < 2 ^ 61"
    "nd_c_contiguous a" "nd_dtype a = dt" "dt \<noteq> ''bfloat16''"
  shows "mt_wf h \<and> mn_to_numpy dev h = Inr (row_major (nd_shape a) dt (nd_elems a))"
proof -
  obtain m where m: "dt = dtype_name m" and h: "h = \<lparr>mt_shape = nd_shape a,
      mt_strides = contiguous_strides (nd_shape a), mt_dtype = m, mt_data = nd_elems a\<rparr>"
    using mn_from_numpy_Inr [OF assms(1,2,6,4)] nd_wf_mem [OF assms(2,5)] by auto
  have "mt_wf h" using mn_from_numpy_wf [OF assms(2,3), of m] nd_wf_mem [OF assms(2,5)] by (simp add: h)
  then show ?thesis using mn_to_numpy_plain [of h dev] assms(7) by (simp add: m h)
qed

interpretation cpp: native_laws "cpp_api dev k" mt_wf for dev k
proof unfold_locales
  fix h assume h: "mt_wf h" "C_tensor_dtype (cpp_api dev k) h \<noteq> ''bfloat16''"
  then have "0 \<le> prod_list (mt_shape h)" by (simp add: mt_wf_def fits_bounds)
  with h show "\<exists>a. C_tensor_to_numpy (cpp_api dev k) h = Inr a \<and> nd_wf a \<and> nd_compact a \<and> fits (nd_shape a)
        \<and> nd_shape a = C_tensor_shape (cpp_api dev k) h \<and> nd_dtype a = C_tensor_dtype (cpp_api dev k) h"
    by (simp add: mn_to_numpy_plain) (simp add: mt_wf_def fits_def)
next
  fix h h' assume a: "mt_wf h" "mt_wf h'" "C_tensor_dtype (cpp_api dev k) h \<noteq> ''bfloat16''"
    "C_tensor_to_numpy (cpp_api dev k) h = C_tensor_to_numpy (cpp_api dev k) h'"
    "C_tensor_dtype (cpp_api dev k) h = C_tensor_dtype (cpp_api dev k) h'"
  then have m: "mt_dtype h' = mt_dtype h" by (simp add: dtype_name_inj)
  with a(1-4) have "row_major (mt_shape h) (dtype_name (mt_dtype h)) (mt_data h)
      = row_major (mt_shape h') (dtype_name (mt_dtype h)) (mt_data h')"
    by (simp add: mn_to_numpy_plain)
  then have "mt_shape h = mt_shape h'" "mt_data h = mt_data h'" by (simp_all add: row_major_def)
  with a(1,2) m show "h = h'" by (intro mntensor.equality) (simp_all add: mt_wf_def)
qed (auto simp: mn_from_numpy_shape mn_from_numpy_reads mn_empty_Inr mn_reshape_back parse_dtype_str_Inr)

interpretation cpp_np: tensor_laws "cpp_api dev k" mt_wf "np_ref conv" for dev k conv
  by unfold_locales

lemma cpp_tensor_laws: "numpy_laws np \<Longrightarrow> tensor_laws (cpp_api dev k) mt_wf np"
  by (intro tensor_laws.intro cpp.native_laws_axioms)

section \<open>Tensors made of arrays\<close>

text \<open>
  The tensor that the core makes of an array of a supported type: it takes the memory from the
  array's data pointer on, as many elements as the array has.
\<close>

definition array_handle :: "mndtype \<Rightarrow> ndarray \<Rightarrow> mntensor" where
  "array_handle m a = \<lparr>mt_shape = nd_shape a, mt_strides = contiguous_strides (nd_shape a), mt_dtype = m,
     mt_data = take (length (nd_elems a)) (nd_mem a)\<rparr>"

lemma array_handle_wf: "nd_wf a \<Longrightarrow> fits (nd_shape a) \<Longrightarrow> mt_wf (array_handle m a)"
  unfolding array_handle_def by (rule mn_from_numpy_wf)

text \<open>What comes back of an array: the memory read in row-major order.\<close>

definition memory_order :: "ndarray \<Rightarrow> ndarray" where
  "memory_order a = row_major (nd_shape a) (nd_dtype a) (take (length (nd_elems a)) (nd_mem a))"

lemma memory_order_contiguous:
  "nd_wf a \<Longrightarrow> nd_c_contiguous a \<Longrightarrow> memory_order a = row_major (nd_shape a) (nd_dtype a) (nd_elems a)"
  by (simp add: memory_order_def nd_wf_mem)

lemma memory_order_wf: "nd_wf a \<Longrightarrow> nd_wf (memory_order a)"
  using nd_wf_length [of a] nd_wf_elems(2) [of a] by (simp add: memory_order_def) (simp add: nd_wf_def)

lemma memory_order_simps [simp]:
  "nd_shape (memory_order a) = nd_shape a" "nd_dtype (memory_order a) = nd_dtype a"
  "nd_elems (memory_order a) = take (length (nd_elems a)) (nd_mem a)" "nd_compact (memory_order a)"
  by (simp_all add: memory_order_def)

lemma array_handle_reads:
  "nd_wf a \<Longrightarrow> fits (nd_shape a) \<Longrightarrow> nd_dtype a = dtype_name m \<Longrightarrow> m \<noteq> BFloat16 \<Longrightarrow>
   mn_to_numpy dev (array_handle m a) = Inr (memory_order a)"
  using mn_to_numpy_plain [OF array_handle_wf, of a m dev] by (simp add: array_handle_def memory_order_def)

text \<open>
  Whether an array's elements come back whatever they are is a matter of its layout.
\<close>

definition same_layout :: "ndarray \<Rightarrow> ndarray \<Rightarrow> bool" where
  "same_layout a b \<longleftrightarrow> nd_shape b = nd_shape a \<and> nd_strides b = nd_strides a \<and> nd_dtype b = nd_dtype a"

lemma same_layout_refl [simp]: "same_layout a a"
  by (simp add: same_layout_def)

lemma contiguous_iff_memory_order:
  assumes a: "nd_wf a"
  shows "nd_c_contiguous a \<longleftrightarrow>
    (\<forall>b. nd_wf b \<and> same_layout a b \<longrightarrow> nd_elems (memory_order b) = nd_elems b)"
proof
  assume "nd_c_contiguous a"
  then show "\<forall>b. nd_wf b \<and> same_layout a b \<longrightarrow> nd_elems (memory_order b) = nd_elems b"
    using nd_wf_mem by (auto simp: same_layout_def nd_c_contiguous_def)
next
  assume all: "\<forall>b. nd_wf b \<and> same_layout a b \<longrightarrow> nd_elems (memory_order b) = nd_elems b"
  show "nd_c_contiguous a"
  proof (rule layout_contiguous [OF a])
    fix mem :: "real list" assume len: "length mem = length (nd_mem a)"
    let ?b = "a\<lparr>nd_elems := strided_elems (nd_shape a) (nd_strides a) mem, nd_mem := mem\<rparr>"
    have "nd_wf ?b" by (rule nd_wf_relayout [OF a len])
    moreover have "length (nd_elems ?b) = length (nd_elems a)" using a by (simp add: nd_wf_elems)
    ultimately show "take (length (nd_elems a)) mem = strided_elems (nd_shape a) (nd_strides a) mem"
      using all by (auto simp: same_layout_def)
  qed
qed

lemma from_numpy_core:
  assumes a: "nd_wf a" "holdable dev m (nd_shape a)" and m: "nd_dtype a = dtype_name m" "m \<noteq> BFloat16"
  shows "\<exists>d. dict_get NUMPY_TO_DTYPE_MAP (dtype_name m) = Some d
    \<and> from_numpy np (CMod (cpp_api dev k)) a rg = Inr (made_tensor d rg (array_handle m a))"
proof -
  obtain d where d: "dict_get NUMPY_TO_DTYPE_MAP (dtype_name m) = Some d"
    using m(2) by (cases m) (simp_all add: NUMPY_TO_DTYPE_MAP_def dict_get_def)
  then have n: "dname d = dtype_name m" by (auto dest: NUMPY_TO_DTYPE_MAP_name)
  have c: "convert_dtype np a None = Inr (d, a)"
    by (simp add: convert_dtype_def numpy_to_dtype_def np_normalize_def m(1) d)
  have h: "mn_from_numpy dev a (dtype_name m) rg = Inr (array_handle m a)"
    unfolding array_handle_def by (rule mn_from_numpy_holdable [OF a m(1)])
  with d show ?thesis
    by (simp add: from_numpy_def Tensor_init_def as_array_def c n made_tensor_def)
qed

text \<open>An array without elements is refused.\<close>

lemma from_numpy_empty:
  assumes a: "nd_wf a" "prod_list (nd_shape a) = 0" and m: "nd_dtype a = dtype_name m" "m \<noteq> BFloat16"
  shows "raises NativeError (from_numpy np (CMod (cpp_api dev k)) a rg)"
proof -
  obtain d where d: "dict_get NUMPY_TO_DTYPE_MAP (dtype_name m) = Some d"
    using m(2) by (cases m) (simp_all add: NUMPY_TO_DTYPE_MAP_def dict_get_def)
  then have n: "dname d = dtype_name m" by (auto dest: NUMPY_TO_DTYPE_MAP_name)
  have c: "convert_dtype np a None = Inr (d, a)"
    by (simp add: convert_dtype_def numpy_to_dtype_def np_normalize_def m(1) d)
  obtain e where "mn_from_numpy dev a (dtype_name m) rg = Inl e" "exc_class e = NativeError"
    using mn_from_numpy_empty [OF a, of dev m rg] by (auto simp: raises_def split: sum.splits)
  then show ?thesis
    by (simp add: from_numpy_def Tensor_init_def as_array_def c n raises_def)
qed

lemma made_tensor_simps [simp]: "requires_grad (made_tensor d rg h) = rg"
  by (simp add: made_tensor_def)


lemma made_tensor_agree: "dname d = dtype_name (mt_dtype h) \<Longrightarrow> caches_agree (cpp_api dev k) (made_tensor d rg h)"
  by (simp add: caches_agree_def made_tensor_def)

end
