(* ===== verification/TensorProps.thy ===== *)
theory TensorProps
  imports TensorLaws
begin

text \<open>
  Properties of the \<open>Tensor\<close> class on the C++ core. The witnesses use a device that grants every
  allocation, with buffers of up to a terabyte, and kernels that do nothing (\<open>plain_device\<close>, \<open>plain_kernels\<close>).
\<close>

definition plain_device :: device where
  "plain_device = \<lparr>alloc_ok = (\<lambda>_. True), uninit = (\<lambda>n. replicate n 0), as_half = (\<lambda>xs. xs),
     past_end = (\<lambda>_ _. 0), reread = (\<lambda>_ _ xs _. xs), neg_infinity = - 100000,
     max_buffer_length = 2 ^ 40\<rparr>"

definition plain_kernels :: kernels where
  "plain_kernels = \<lparr>k_exp = (\<lambda>x. x), k_log = (\<lambda>x. x), k_sqrt = (\<lambda>x. x),
     k_matmul = (\<lambda>a b _ _. Inr a), k_softmax = (\<lambda>a _. Inr a), k_rms_norm = (\<lambda>a _ _. Inr a),
     k_layer_norm = (\<lambda>a _ _ _. Inr a), k_clone = Inr\<rparr>"

lemma plain_device_simps [simp]:
  "alloc_ok plain_device n" "past_end plain_device xs i = 0" "neg_infinity plain_device = - 100000"
  "max_buffer_length plain_device = 2 ^ 40" "device_ok plain_device"
  by (simp_all add: plain_device_def device_ok_def)

text \<open>A two by three float array and its tensor.\<close>

definition sample_array :: ndarray where
  "sample_array = row_major [2, 3] ''float32'' [1, 2, 3, 4, 5, 6]"

text \<open>The same memory in Fortran order: the columns follow one another.\<close>

definition fortran_array :: ndarray where
  "fortran_array = \<lparr>nd_shape = [2, 3], nd_dtype = ''float32'', nd_strides = [1, 2],
     nd_elems = [1, 3, 5, 2, 4, 6], nd_mem = [1, 2, 3, 4, 5, 6]\<rparr>"

definition sample_handle :: mntensor where
  "sample_handle = \<lparr>mt_shape = [2, 3], mt_strides = [3, 1], mt_dtype = Float32, mt_data = [1, 2, 3, 4, 5, 6]\<rparr>"

lemma sample_array_ok: "nd_wf sample_array" "fits (nd_shape sample_array)" "nd_c_contiguous sample_array"
  by (simp_all add: sample_array_def fits_def)

lemma sample_holdable: "holdable plain_device Float32 [2, 3]"
  by (simp add: holdable_def)

lemma fortran_array_ok: "nd_wf fortran_array" "fits (nd_shape fortran_array)" "\<not> nd_c_contiguous fortran_array"
  by (simp_all add: fortran_array_def nd_wf_def fits_def nd_c_contiguous_def strided_elems_def numeral_3_eq_3 numeral_2_eq_2)

lemma sample_handle_ok: "mt_wf sample_handle" "reducible plain_device sample_handle"
  "averageable plain_device sample_handle"
proof -
  show wf: "mt_wf sample_handle"
    by (simp add: sample_handle_def mt_wf_def fits_def contiguous_strides_Cons s64_id Let_def)
  then show r: "reducible plain_device sample_handle"
    by (simp add: reducible_def) (simp add: sample_handle_def u32_max_def)
  then show "averageable plain_device sample_handle" by (simp add: averageable_def sample_handle_def)
qed

lemma dtype_to_numpy_name: "dtype_to_numpy d = Inr n \<Longrightarrow> \<exists>m. n = dtype_name m"
proof -
  assume "dtype_to_numpy d = Inr n"
  then have "n \<in> dtype_name ` {Float32, Float16, Int64, Int32, Int16, Int8, UInt8, BoolT}"
    by (auto simp: dtype_to_numpy_Inr)
  then show ?thesis by blast
qed

section \<open>Construction\<close>

text \<open>
  Every tensor that the constructor returns, for a requested shape without negative
  dimensions, has caches that agree with its native handle, and reading a property keeps them
  so; \<open>requires_grad\<close> is what was asked for.
\<close>

theorem tensor_init_caches:
  assumes "numpy_laws np"
    and "Tensor_init np (CMod (cpp_api dev k)) data shape dt rg nh = Inr t"
    and "\<forall>s. shape = Some s \<longrightarrow> (\<forall>d \<in> set s. 0 \<le> d)"
  shows "caches_agree (cpp_api dev k) t \<and> shape_of (cpp_api dev k) t = mt_shape (handle t)
    \<and> requires_grad t = rg \<and> caches_agree (cpp_api dev k) (snd (shape_get (cpp_api dev k) t))
    \<and> caches_agree (cpp_api dev k) (snd (dtype_get (cpp_api dev k) t))"
  using tensor_laws.init_agree [OF cpp_tensor_laws [OF assms(1)] assms(2,3)]
  by (simp add: shape_of_agree shape_get_agree dtype_get_agree)

theorem tensor_init_caches_witness:
  "\<exists>t. Tensor_init (np_ref (\<lambda>_ x. x)) (CMod (cpp_api plain_device plain_kernels))
        (Some (FromArray sample_array)) (Some [3, 2]) None True None = Inr t
     \<and> caches_agree (cpp_api plain_device plain_kernels) t"
proof -
  let ?r = "Tensor_init (np_ref (\<lambda>_ x. x)) (CMod (cpp_api plain_device plain_kernels))
        (Some (FromArray sample_array)) (Some [3, 2]) None True None"
  have "returns ?r"
    by (simp add: Tensor_init_def as_array_def convert_dtype_def sample_array_def numpy_to_dtype_def
        np_normalize_def NUMPY_TO_DTYPE_MAP_def dict_get_def np_ref_def np_ref_reshape_def Let_def
        mn_from_numpy_def parse_dtype_str_def)
  then obtain t where "?r = Inr t" by (auto simp: returns_iff)
  with tensor_init_caches [OF numpy_ref.numpy_laws_axioms this] show ?thesis by auto
qed

text \<open>
  A requested shape with an inferred dimension is resolved by NumPy for the handle but kept
  as it is in the object: \<open>Tensor(data, shape=(-1,))\<close> on six elements reports the shape
  (-1,) and the size -1, while the handle has shape (6,); \<open>item()\<close> and \<open>str()\<close> go by it.
\<close>

theorem tensor_shape_unresolved:
  "\<exists>t. Tensor_init (np_ref conv) (CMod (cpp_api plain_device k)) (Some (FromArray sample_array)) (Some [-1]) None rg None = Inr t
     \<and> shape_of (cpp_api plain_device k) t = [-1] \<and> Tensor_size (cpp_api plain_device k) t = -1
     \<and> mt_shape (handle t) = [6] \<and> \<not> caches_agree (cpp_api plain_device k) t"
  by (simp add: Tensor_init_def as_array_def convert_dtype_def sample_array_def numpy_to_dtype_def
      np_normalize_def NUMPY_TO_DTYPE_MAP_def dict_get_def np_ref_def np_ref_reshape_def Let_def
      mn_from_numpy_def parse_dtype_str_def shape_of_def Tensor_size_def caches_agree_def)

text \<open>\<open>from_numpy\<close> and \<open>numpy()\<close> of its result.\<close>

definition numpy_roundtrip :: "'d numpy_api \<Rightarrow> device \<Rightarrow> kernels \<Rightarrow> bool \<Rightarrow> ndarray \<Rightarrow> ndarray res" where
  "numpy_roundtrip np dev k rg a =
     bindR (from_numpy np (CMod (cpp_api dev k)) a rg) (Tensor_numpy (cpp_api dev k))"

lemma numpy_roundtrip_core:
  assumes "nd_wf a" "holdable dev m (nd_shape a)" "nd_dtype a = dtype_name m" "m \<noteq> BFloat16"
  shows "numpy_roundtrip np dev k rg a = Inr (memory_order a)"
  using from_numpy_core [OF assms, of np k rg] array_handle_reads [OF assms(1) holdable_fits [OF assms(1,2)] assms(3,4), of dev]
  by (auto simp: numpy_roundtrip_def Tensor_numpy_def)



text \<open>
  An array whose element type the package does not know (float64, complex64, ...) is taken
  as its conversion to float32.
\<close>

theorem from_numpy_unsupported:
  assumes "dict_get NUMPY_TO_DTYPE_MAP (nd_dtype a) = None" and "numpy_laws np"
  shows "from_numpy np cm a rg = from_numpy np cm (np_astype np a ''float32'') rg"
proof -
  have "convert_dtype np a None = Inr (float32, np_astype np a ''float32'')"
    using assms(1) by (simp add: convert_dtype_def numpy_to_dtype_def np_normalize_def catchR_def raise_def)
  moreover have "convert_dtype np (np_astype np a ''float32'') None = Inr (float32, np_astype np a ''float32'')"
    by (simp add: convert_dtype_def numpy_to_dtype_def np_normalize_def NUMPY_TO_DTYPE_MAP_def
        dict_get_def numpy_laws.astype_dtype [OF assms(2)])
  ultimately show ?thesis by (simp add: from_numpy_def Tensor_init_def as_array_def)
qed

theorem from_numpy_unsupported_witness:
  "from_numpy (np_ref (\<lambda>_ x. x)) (CMod (cpp_api plain_device plain_kernels)) (sample_array\<lparr>nd_dtype := ''float64''\<rparr>) False =
   from_numpy (np_ref (\<lambda>_ x. x)) (CMod (cpp_api plain_device plain_kernels)) sample_array False"
proof -
  have n: "dict_get NUMPY_TO_DTYPE_MAP (nd_dtype (sample_array\<lparr>nd_dtype := ''float64''\<rparr>)) = None"
    by (simp add: NUMPY_TO_DTYPE_MAP_def dict_get_def)
  have "np_astype (np_ref (\<lambda>_ x. x)) (sample_array\<lparr>nd_dtype := ''float64''\<rparr>) ''float32'' = sample_array"
    by (simp add: np_ref_def np_ref_astype_def nd_c_contiguous_def sample_array_def row_major_def)
  then show ?thesis
    using from_numpy_unsupported [OF n numpy_ref.numpy_laws_axioms,
        where cm = "CMod (cpp_api plain_device plain_kernels)" and rg = False] by simp
qed

section \<open>Transposition\<close>

text \<open>
  C15. \<open>transpose(dim0, dim1)\<close> of a well-formed tensor that has elements, of a type that NumPy has
  (not bfloat16), for dimensions within range (negative ones count from the end) and with room
  on the device for a tensor of its size, swaps the two sizes, the element at a position of the tensor is found at the swapped position
  of the result, and transposing the result once more gives back the same handle contents.
\<close>

theorem transpose_correct:
  assumes np: "numpy_laws np" and mem: "holdable dev (mt_dtype (handle t)) (mt_shape (handle t))"
    and t: "mt_wf (handle t)" "caches_agree (cpp_api dev k) t"
      "dtype_of (cpp_api dev k) t = Inr d" "dtype_to_numpy d = Inr (dname d)"
    and n: "n = length (mt_shape (handle t))"
    and i: "py_position n dim0 = Inr i" and j: "py_position n dim1 = Inr j"
  shows "\<exists>u w. Tensor_transpose np (cpp_api dev k) t dim0 dim1 = Inr u
    \<and> mt_shape (handle u) = permute (swap_perm n i j) (mt_shape (handle t))
    \<and> (\<forall>js. in_shape (map nat (mt_shape (handle t))) js \<longrightarrow>
         mt_data (handle u) ! ravel (map nat (mt_shape (handle u))) (permute (swap_perm n i j) js)
           = mt_data (handle t) ! ravel (map nat (mt_shape (handle t))) js)
    \<and> Tensor_transpose np (cpp_api dev k) u dim0 dim1 = Inr w \<and> handle w = handle t"
proof -
  let ?N = "cpp_api dev k" and ?ax = "swap_perm n i j" and ?ds = "map nat (mt_shape (handle t))"
  define a where "a = row_major (mt_shape (handle t)) (dname d) (mt_data (handle t))"
  have nm: "dtype_name (mt_dtype (handle t)) = dname d" using dtype_of_agree [OF t(2,3)] by simp
  have nb: "dname d \<noteq> ''bfloat16''" using t(4) by (auto simp: dtype_to_numpy_Inr)
  have "mt_dtype (handle t) \<noteq> BFloat16" using nm nb dtype_name_bfloat16 [of "mt_dtype (handle t)"] by simp
  then have arr: "C_tensor_to_numpy ?N (handle t) = Inr a" using mn_to_numpy_plain [OF t(1)] by (simp add: nm a_def)
  have mem': "\<exists>h. C_tensor_from_numpy ?N b (dname d) False = Inr h"
    if "nd_wf b" "nd_dtype b = dname d" "prod_list (nd_shape b) = prod_list (nd_shape a)" for b
    using mn_from_numpy_holdable [of b dev "mt_dtype (handle t)" False] that mem
    by (simp add: nm a_def holdable_def)
  have size: "prod_list (nd_shape a) < 2 ^ 61" using mem by (simp add: a_def holdable_def Let_def)
  have na: "n = length (nd_shape a)" by (simp add: a_def n)
  have ax: "is_axes n ?ax" by (rule swap_perm_axes [OF py_position_less [OF i] py_position_less [OF j]])
  from tensor_laws.transpose_round [OF cpp_tensor_laws [OF np] t arr mem' size na i j] obtain h where h:
    "Tensor_transpose np ?N t dim0 dim1 = Inr (made_tensor d False h)"
    "C_tensor_to_numpy ?N h = Inr (transposed ?ax a)" "C_tensor_shape ?N h = permute ?ax (nd_shape a)"
    "C_tensor_dtype ?N h = dname d"
    "Tensor_transpose np ?N (made_tensor d False h) dim0 dim1 = Inr (made_tensor d False (handle t))" "mt_wf h" by blast
  have "mt_dtype h \<noteq> BFloat16" using h(4) nb dtype_name_bfloat16 [of "mt_dtype h"] by simp
  from mn_to_numpy_plain [OF h(6) this, of dev] h(2)
  have data: "mt_data h = transpose_elems ?ax ?ds (mt_data (handle t))"
    by (simp add: transposed_def a_def row_major_def)
  have sh: "mt_shape h = permute ?ax (mt_shape (handle t))" using h(3) by (simp add: a_def)
  have dims: "map nat (mt_shape h) = permute ?ax ?ds"
    unfolding sh by (rule permute_map [symmetric]) (use ax n in simp)
  have "mt_data h ! ravel (map nat (mt_shape h)) (permute ?ax js) = mt_data (handle t) ! ravel ?ds js"
    if "in_shape ?ds js" for js
    unfolding data dims by (rule transpose_elems_at [OF ax _ that]) (simp add: n)
  with h(1,5) sh show ?thesis by (intro exI [of _ "made_tensor d False h"] exI) auto
qed

theorem transpose_correct_witness:
  "\<exists>u w. Tensor_transpose (np_ref (\<lambda>_ x. x)) (cpp_api plain_device plain_kernels) (from_handle sample_handle False) 0 (-1) = Inr u
     \<and> mt_shape (handle u) = [3, 2] \<and> Tensor_transpose (np_ref (\<lambda>_ x. x)) (cpp_api plain_device plain_kernels) u 0 (-1) = Inr w
     \<and> handle w = sample_handle"
proof -
  have d: "dtype_of (cpp_api plain_device plain_kernels) (from_handle sample_handle False) = Inr float32"
    by (simp add: dtype_of_def from_handle_def sample_handle_def DTYPE_MAP_def dict_get_def)
  have p: "py_position 2 0 = Inr 0" "py_position 2 (-1) = Inr 1" by (simp_all add: py_position_def Let_def)
  show ?thesis
    using transpose_correct [OF numpy_ref.numpy_laws_axioms [of "\<lambda>_ x. x"], of plain_device "from_handle sample_handle False"
        plain_kernels float32 2, OF _ _ _ d _ _ p] sample_handle_ok(1) sample_holdable
    by (auto simp: sample_handle_def swap_perm_def permute_def numeral_2_eq_2)
qed

end
