(* ===== verification/ArithProps.thy ===== *)
theory ArithProps
  imports TensorProps
begin

text \<open>
  Properties of the computing methods of \<open>Tensor\<close> on the C++ core: reductions over all
  dimensions, reshape, element-wise operations with tensors and with numbers, \<open>item\<close>, the
  factories, the PyTorch bridge, and what happens without the extension.
\<close>

section \<open>Reductions over all dimensions\<close>

text \<open>A tensor without dimensions holds one element, which \<open>item()\<close> returns.\<close>

lemma item_scalar:
  assumes "mt_wf h" "mt_shape h = []" "caches_agree (cpp_api dev k) t" "handle t = h"
  shows "\<exists>x. mt_data h = [x] \<and> Tensor_item (cpp_api dev k) t = Inr x"
proof -
  from assms have "length (mt_data h) = 1" by (simp add: mt_wf_def)
  then obtain x where "mt_data h = [x]" by (auto simp: length_Suc_conv)
  moreover have "shape_of (cpp_api dev k) t = []" using assms by (simp add: shape_of_agree)
  moreover have "mt_numel h = 1" using assms by (simp add: mt_numel_def mn_numel_def)
  ultimately show ?thesis using assms(4) by (simp add: Tensor_item_def Tensor_size_def mn_item_def)
qed

lemma reduce_method_None:
  assumes "caches_agree N t" "Tensor_ndim N t = n"
    and "reduce_all red n (handle t) = Inr h"
  shows "\<exists>u. reduce_method N red t None keepdim = Inr u \<and> handle u = h \<and> caches_agree N u"
  using assms by (cases "n = 0") (auto simp: reduce_method_def wrap_Inr)

lemma Tensor_ndim_agree: "caches_agree (cpp_api dev k) t \<Longrightarrow> Tensor_ndim (cpp_api dev k) t = length (mt_shape (handle t))"
  by (simp add: Tensor_ndim_def shape_of_agree)

text \<open>
  C31. \<open>sum()\<close> over all dimensions, for a well-formed float32 or float16 tensor within the kernels'
  sizes (the reduction kernels refuse every other element type, bfloat16 included), on a device
  that grants the results' memory, returns a tensor without dimensions whose \<open>item()\<close> is the sum
  of the elements, whatever \<open>keepdim\<close> says.
\<close>

theorem tensor_sum_all:
  assumes "reducible dev (handle t)" and "caches_agree (cpp_api dev k) t"
  shows "\<exists>u. Tensor_sum (cpp_api dev k) t None keepdim = Inr u \<and> mt_shape (handle u) = []
    \<and> Tensor_item (cpp_api dev k) u = Inr (sum_list (mt_data (handle t)))"
proof -
  obtain h where h: "reduce_all (mn_reduce_sum dev) (length (mt_shape (handle t))) (handle t) = Inr h"
    "reducible dev h" "mt_shape h = []" "total_sum h = total_sum (handle t)"
    using native_sum.reduce_all_total [OF assms(1)] by auto
  obtain u where u: "Tensor_sum (cpp_api dev k) t None keepdim = Inr u" "handle u = h" "caches_agree (cpp_api dev k) u"
    using reduce_method_None [OF assms(2) Tensor_ndim_agree [OF assms(2)] h(1)] by (auto simp: Tensor_sum_def)
  have wf: "mt_wf h" using h(2) by (simp add: reducible_def)
  from item_scalar [OF wf h(3) u(3,2)] h(4) u h(3) show ?thesis by (auto simp: total_sum_def)
qed

theorem tensor_sum_all_witness:
  "\<exists>u. Tensor_sum (cpp_api plain_device plain_kernels) (from_handle sample_handle False) None True = Inr u
     \<and> Tensor_item (cpp_api plain_device plain_kernels) u = Inr 21"
  using tensor_sum_all [of plain_device "from_handle sample_handle False" plain_kernels True] sample_handle_ok(2)
  by (auto simp: sample_handle_def)

text \<open>
  \<open>mean()\<close> over all dimensions, with no empty dimension, is the arithmetic mean of all
  elements, although it is computed as a mean of means.
\<close>

theorem tensor_mean_all:
  assumes "averageable dev (handle t)" and "caches_agree (cpp_api dev k) t"
  shows "\<exists>u. Tensor_mean (cpp_api dev k) t None keepdim = Inr u \<and> mt_shape (handle u) = []
    \<and> Tensor_item (cpp_api dev k) u =
        Inr (sum_list (mt_data (handle t)) / real (length (mt_data (handle t))))"
proof -
  obtain h where h: "reduce_all (mn_reduce_mean dev) (length (mt_shape (handle t))) (handle t) = Inr h"
    "averageable dev h" "mt_shape h = []" "total_mean h = total_mean (handle t)"
    using native_mean.reduce_all_total [OF assms(1)] by auto
  obtain u where u: "Tensor_mean (cpp_api dev k) t None keepdim = Inr u" "handle u = h" "caches_agree (cpp_api dev k) u"
    using reduce_method_None [OF assms(2) Tensor_ndim_agree [OF assms(2)] h(1)] by (auto simp: Tensor_mean_def)
  have wf: "mt_wf h" using h(2) by (simp add: reducible_def averageable_def)
  from item_scalar [OF wf h(3) u(3,2)] h(4) u h(3) show ?thesis by (auto simp: total_mean_def mean_list_def)
qed

theorem tensor_mean_all_witness:
  "\<exists>u. Tensor_mean (cpp_api plain_device plain_kernels) (from_handle sample_handle False) None False = Inr u
     \<and> Tensor_item (cpp_api plain_device plain_kernels) u = Inr (7 / 2)"
  using tensor_mean_all [of plain_device "from_handle sample_handle False" plain_kernels False] sample_handle_ok(3)
  by (auto simp: sample_handle_def)

text \<open>
  \<open>max()\<close> over all dimensions of a non-empty tensor is the largest element, given that the
  start value of the kernel is below all of them.
\<close>

theorem tensor_max_all:
  assumes "bounded_below dev (handle t)" and "caches_agree (cpp_api dev k) t"
    and "mt_data (handle t) \<noteq> []"
  shows "\<exists>u. Tensor_max (cpp_api dev k) t None keepdim = Inr u \<and> mt_shape (handle u) = []
    \<and> Tensor_item (cpp_api dev k) u = Inr (Max (set (mt_data (handle t))))"
proof -
  obtain h where h: "reduce_all (mn_reduce_max dev) (length (mt_shape (handle t))) (handle t) = Inr h"
    "bounded_below dev h" "mt_shape h = []" "total_max dev h = total_max dev (handle t)"
    using native_max.reduce_all_total [OF assms(1)] by auto
  obtain u where u: "Tensor_max (cpp_api dev k) t None keepdim = Inr u" "handle u = h" "caches_agree (cpp_api dev k) u"
    using reduce_method_None [OF assms(2) Tensor_ndim_agree [OF assms(2)] h(1)] by (auto simp: Tensor_max_def)
  have wf: "mt_wf h" using h(2) by (simp add: bounded_below_def reducible_def)
  have tot: "total_max dev (handle t) = Max (set (mt_data (handle t)))"
    using assms(1,3) by (simp add: total_max_def max_list_eq bounded_below_def max_absorb2)
  obtain x where x: "mt_data h = [x]" "Tensor_item (cpp_api dev k) u = Inr x"
    using item_scalar [OF wf h(3) u(3,2)] by blast
  have "total_max dev h = x"
    using h(2) x(1) by (simp add: total_max_def max_list_eq bounded_below_def max_absorb2)
  with x(2) u h(3,4) tot show ?thesis by auto
qed

theorem tensor_max_all_witness:
  "\<exists>u. Tensor_max (cpp_api plain_device plain_kernels) (from_handle sample_handle False) None False = Inr u
     \<and> Tensor_item (cpp_api plain_device plain_kernels) u = Inr 6"
  using tensor_max_all [of plain_device "from_handle sample_handle False" plain_kernels False] sample_handle_ok(2)
  by (auto simp: sample_handle_def bounded_below_def)

section \<open>Reshape\<close>

lemma sample_size: "Tensor_size (cpp_api dev k) (from_handle sample_handle rg) = 6"
  by (simp add: Tensor_size_def shape_of_def from_handle_def sample_handle_def)

lemma sample_handle_data: "mt_data sample_handle = [1, 2, 3, 4, 5, 6]"
  by (simp add: sample_handle_def)

text \<open>
  \<open>reshape\<close> to given dimensions keeps the elements in row-major order and succeeds exactly
  when the sizes agree; reshaping the result to the old shape gives the old handle back.
\<close>

theorem tensor_reshape_dims:
  assumes "mt_wf (handle t)" and "caches_agree (cpp_api dev k) t" and "fits s"
  shows "Tensor_reshape (cpp_api dev k) t (map DimInt s) =
      (if prod_list s = Tensor_size (cpp_api dev k) t
       then Inr (from_handle ((handle t)\<lparr>mt_shape := s, mt_strides := contiguous_strides s\<rparr>) False)
       else raise NativeError ''reshape: new shape numel != current numel'')
    \<and> (prod_list s = Tensor_size (cpp_api dev k) t \<longrightarrow>
       Tensor_reshape (cpp_api dev k) (from_handle ((handle t)\<lparr>mt_shape := s, mt_strides := contiguous_strides s\<rparr>) False)
         [DimSeq (shape_of (cpp_api dev k) t)] = Inr (from_handle (handle t) False))"
proof -
  have dims: "(case map DimInt s of [DimSeq ds] \<Rightarrow> Inr ds | _ \<Rightarrow> dims_of (map DimInt s)) = Inr s"
  proof -
    have "dims_of (map DimInt s) = Inr s" by (induction s) simp_all
    then show ?thesis by (cases s) (simp_all split: list.splits)
  qed
  have nn: "\<forall>d \<in> set s. 0 \<le> d" using assms(3) by (simp add: fits_def)
  have size: "Tensor_size (cpp_api dev k) t = mt_numel (handle t)"
    using assms(1,2) by (simp add: Tensor_size_def shape_of_agree mt_wf_numel)
  have scan: "reshape_scan s 0 None 1 = Inr (None, prod_list s)"
    using reshape_scan_nonneg [OF nn, of 0 None 1] fits_numel [OF assms(3)] by (simp add: mn_numel_def)
  have r: "Tensor_reshape (cpp_api dev k) t (map DimInt s) =
      (if prod_list s = Tensor_size (cpp_api dev k) t
       then Inr (from_handle ((handle t)\<lparr>mt_shape := s, mt_strides := contiguous_strides s\<rparr>) False)
       else raise NativeError ''reshape: new shape numel != current numel'')"
    unfolding Tensor_reshape_def dims bindR_simps using mt_wf_contiguous [OF assms(1)]
    by (simp add: mn_reshape_def scan reshape_finish_def Let_def size wrap_def)
  have "Tensor_reshape (cpp_api dev k) t [DimSeq s] = Tensor_reshape (cpp_api dev k) t (map DimInt s)"
    unfolding Tensor_reshape_def dims by simp
  with r cpp.reshape_undone [OF assms(1,2), of s] show ?thesis by simp
qed

theorem tensor_reshape_dims_witness:
  "\<exists>u. Tensor_reshape (cpp_api plain_device plain_kernels) (from_handle sample_handle False) [DimInt 3, DimInt 2] = Inr u
     \<and> mt_data (handle u) = [1, 2, 3, 4, 5, 6] \<and> mt_shape (handle u) = [3, 2]"
  using tensor_reshape_dims [of "from_handle sample_handle False" plain_device plain_kernels "[3, 2]"] sample_handle_ok(1)
  by (simp add: sample_size fits_def sample_handle_data)

text \<open>
  One dimension given as -1 is inferred: with the product of the other dimensions not zero,
  \<open>reshape\<close> succeeds exactly when that product divides the size, and then the result has the
  quotient in its place.
\<close>

theorem tensor_reshape_infer:
  assumes "mt_wf (handle t)" and "caches_agree (cpp_api dev k) t"
    and "fits (xs @ ys)" and "prod_list (xs @ ys) \<noteq> 0"
  shows "Tensor_reshape (cpp_api dev k) t [DimSeq (xs @ [-1] @ ys)] =
      (if Tensor_size (cpp_api dev k) t mod prod_list (xs @ ys) = 0
       then let s = xs @ [Tensor_size (cpp_api dev k) t div prod_list (xs @ ys)] @ ys
            in Inr (from_handle ((handle t)\<lparr>mt_shape := s, mt_strides := contiguous_strides s\<rparr>) False)
       else raise NativeError ''reshape: cannot infer dimension'')"
proof -
  have nn: "\<forall>d \<in> set xs. 0 \<le> d" "\<forall>d \<in> set ys. 0 \<le> d" using assms(3) by (auto simp: fits_def)
  have size: "Tensor_size (cpp_api dev k) t = mt_numel (handle t)"
    using assms(1,2) by (simp add: Tensor_size_def shape_of_agree mt_wf_numel)
  have "numel_from (numel_from 1 xs) ys = mn_numel (xs @ ys)"
    by (simp add: mn_numel_def numel_from_append)
  then have scan: "reshape_scan (xs @ [-1] @ ys) 0 None 1 = Inr (Some (length xs), prod_list (xs @ ys))"
    using fits_numel [OF assms(3)] nn
    by (simp only: reshape_scan_append [OF nn(1)]) (simp add: reshape_scan_nonneg)
  show ?thesis
    unfolding Tensor_reshape_def list.case shape_arg.case bindR_simps
    using mt_wf_contiguous [OF assms(1)] assms(4)
    by (simp add: mn_reshape_def scan [simplified] reshape_finish_def Let_def size wrap_def)
qed

theorem tensor_reshape_infer_witness:
  "Tensor_reshape (cpp_api plain_device plain_kernels) (from_handle sample_handle False) [DimSeq [3, -1]]
     = Inr (from_handle (sample_handle\<lparr>mt_shape := [3, 2], mt_strides := contiguous_strides [3, 2]\<rparr>) False)"
  using tensor_reshape_infer [of "from_handle sample_handle False" plain_device plain_kernels "[3]" "[]"] sample_handle_ok(1)
  by (simp add: sample_size fits_def)

section \<open>Element-wise operations\<close>

text \<open>Operands the element-wise kernels take, on a device with memory.\<close>

definition computable :: "device \<Rightarrow> mntensor \<Rightarrow> bool" where
  "computable dev t \<longleftrightarrow> mt_wf t \<and> mt_dtype t \<in> {Float32, Float16, BFloat16}
     \<and> prod_list (mt_shape t) \<le> u32_max \<and> (\<forall>n. alloc_ok dev n)"

lemma broadcast_rev_same: "broadcast_rev ds ds = Some ds"
  by (induction ds) simp_all

lemma broadcast_rev_one: "ds \<noteq> [] \<Longrightarrow> broadcast_rev ds [1] = Some ds \<and> broadcast_rev [1] ds = Some ds"
proof -
  have "broadcast_rev es [] = Some es \<and> broadcast_rev [] es = Some es" for es
    by (induction es) simp_all
  then show "ds \<noteq> [] \<Longrightarrow> broadcast_rev ds [1] = Some ds \<and> broadcast_rev [1] ds = Some ds"
    by (cases ds) simp_all
qed

lemma dispatch_binary_shape:
  assumes a: "computable dev a" and b: "mt_dtype b = mt_dtype a" "mt_is_contiguous b"
    and sh: "broadcast_with (mt_shape a) (mt_shape b) = Inr (mt_shape a)"
  shows "dispatch_binary_op dev f a b =
    Inr (a\<lparr>mt_data := binary_kernel dev f (length (mt_data a)) (mt_data a) (mt_data b)\<rparr>)"
proof -
  from a have wf: "mt_wf a" and u: "prod_list (mt_shape a) \<le> u32_max" and mem: "\<forall>n. alloc_ok dev n"
    and dt: "mt_dtype a \<in> {Float32, Float16, BFloat16}" by (simp_all add: computable_def)
  from wf have fit: "fits (mt_shape a)" by (simp add: mt_wf_def)
  have "\<not> mn_numel (mt_shape a) > u32_max" using u by (simp add: fits_numel [OF fit])
  with dt wf show ?thesis
    unfolding dispatch_binary_op_def sh bindR_simps mn_empty_total [OF fit u mem]
    using b mt_wf_contiguous [OF wf]
    by (auto simp: fits_numel [OF fit] mt_wf_def intro!: mntensor.equality)
qed

lemma dispatch_binary_same:
  assumes "computable dev a" "mt_wf b" "mt_dtype b = mt_dtype a" "mt_shape b = mt_shape a"
  shows "dispatch_binary_op dev f a b = Inr (a\<lparr>mt_data := map2 f (mt_data a) (mt_data b)\<rparr>)"
proof -
  have sh: "broadcast_with (mt_shape a) (mt_shape b) = Inr (mt_shape a)"
    by (simp add: broadcast_with_def broadcast_rev_same assms(4))
  have "length (mt_data b) = length (mt_data a)"
    using assms by (simp add: computable_def mt_wf_def)
  then have "binary_kernel dev f (length (mt_data a)) (mt_data a) (mt_data b) = map2 f (mt_data a) (mt_data b)"
    by (intro nth_equalityI) (simp_all add: binary_kernel_def read_buffer_def)
  with dispatch_binary_shape [OF assms(1,3) mt_wf_contiguous [OF assms(2)] sh] show ?thesis by simp
qed

text \<open>
  For two tensors of the same shape and floating-point type, \<open>+\<close>, \<open>-\<close>, \<open>*\<close> and \<open>/\<close> return a
  tensor of that shape and type whose elements are the results on the elements.
\<close>

theorem tensor_arith_same_shape:
  assumes "computable dev (handle t)" and "mt_wf (handle u)"
    and "mt_dtype (handle u) = mt_dtype (handle t)" and "mt_shape (handle u) = mt_shape (handle t)"
  shows "Tensor_add (cpp_api dev k) t (OpTensor u) =
      Inr (from_handle ((handle t)\<lparr>mt_data := map2 (+) (mt_data (handle t)) (mt_data (handle u))\<rparr>) False)
    \<and> Tensor_sub (cpp_api dev k) t (OpTensor u) =
      Inr (from_handle ((handle t)\<lparr>mt_data := map2 (-) (mt_data (handle t)) (mt_data (handle u))\<rparr>) False)
    \<and> Tensor_mul (cpp_api dev k) t (OpTensor u) =
      Inr (from_handle ((handle t)\<lparr>mt_data := map2 (*) (mt_data (handle t)) (mt_data (handle u))\<rparr>) False)
    \<and> Tensor_truediv (cpp_api dev k) t (OpTensor u) =
      Inr (from_handle ((handle t)\<lparr>mt_data := map2 (/) (mt_data (handle t)) (mt_data (handle u))\<rparr>) False)"
  by (simp_all add: Tensor_add_def Tensor_sub_def Tensor_mul_def Tensor_truediv_def wrap_def
      dispatch_binary_same [OF assms])

lemma sample_computable: "computable plain_device sample_handle"
  using sample_handle_ok(1) by (simp add: computable_def) (simp add: sample_handle_def u32_max_def)

theorem tensor_arith_same_shape_witness:
  "Tensor_mul (cpp_api plain_device plain_kernels) (from_handle sample_handle False) (OpTensor (from_handle sample_handle True))
     = Inr (from_handle (sample_handle\<lparr>mt_data := [1, 4, 9, 16, 25, 36]\<rparr>) False)"
  using tensor_arith_same_shape [of plain_device "from_handle sample_handle False" "from_handle sample_handle True" plain_kernels]
    sample_computable sample_handle_ok(1)
  by (simp add: sample_handle_data)

lemma scalar_tensor:
  assumes "\<forall>n. alloc_ok dev n"
  shows "make_scalar_tensor dev v m = Inr \<lparr>mt_shape = [1], mt_strides = [1], mt_dtype = m, mt_data = [v]\<rparr>"
proof -
  have one: "(1::int) \<le> u32_max" by (simp add: u32_max_def)
  show ?thesis
    using assms mn_empty_total [of "[1]" dev m] one
    by (simp add: make_scalar_tensor_def mn_filled_def fits_one mn_numel_def)
qed

lemma broadcast_number: "ds \<noteq> [] \<Longrightarrow> broadcast_with ds [1] = Inr ds \<and> broadcast_with [1] ds = Inr ds"
  using broadcast_rev_one [of "rev ds"] by (simp add: broadcast_with_def)

text \<open>
  The operation with a number as the kernel carries it out: the number is the only element of its
  buffer, and later positions are read past the end of it.
\<close>

definition with_number :: "device \<Rightarrow> (real \<Rightarrow> real \<Rightarrow> real) \<Rightarrow> mntensor \<Rightarrow> real \<Rightarrow> mntensor" where
  "with_number dev f t v = t\<lparr>mt_data :=
     map (\<lambda>i. f (mt_data t ! i) (if i = 0 then v else past_end dev [v] i)) [0..<length (mt_data t)]\<rparr>"

lemma scalar_op_data:
  assumes "computable dev t" "mt_shape t \<noteq> []"
  shows "scalar_op dev f t v = Inr (with_number dev f t v)"
proof -
  have sc: "make_scalar_tensor dev v (mt_dtype t) =
      Inr \<lparr>mt_shape = [1], mt_strides = [1], mt_dtype = mt_dtype t, mt_data = [v]\<rparr>"
    using assms(1) by (intro scalar_tensor) (simp add: computable_def)
  show ?thesis
    unfolding scalar_op_def sc bindR_simps with_number_def
    by (subst dispatch_binary_shape [OF assms(1)])
      (auto simp: broadcast_number [OF assms(2)] mt_is_contiguous_def is_contiguous_shape_def binary_kernel_def
        read_buffer_def intro!: arg_cong [where f = "\<lambda>xs. t\<lparr>mt_data := xs\<rparr>"])
qed

lemma rsub_scalar_data:
  assumes "computable dev t" "mt_shape t \<noteq> []"
  shows "rsub_scalar dev t v = Inr (with_number dev (\<lambda>x y. y - x) t v)"
proof -
  from assms(1) have wf: "mt_wf t" and u: "prod_list (mt_shape t) \<le> u32_max" and mem: "\<forall>n. alloc_ok dev n"
    and dt: "mt_dtype t \<in> {Float32, Float16, BFloat16}" by (simp_all add: computable_def)
  from wf have fit: "fits (mt_shape t)" by (simp add: mt_wf_def)
  have "\<not> mn_numel (mt_shape t) > u32_max" using u by (simp add: fits_numel [OF fit])
  moreover have "mt_is_contiguous \<lparr>mt_shape = [1], mt_strides = [1], mt_dtype = mt_dtype t, mt_data = [v]\<rparr>"
    by (simp add: mt_is_contiguous_def is_contiguous_shape_def)
  ultimately show ?thesis
    unfolding rsub_scalar_def scalar_tensor [OF mem] bindR_simps dispatch_binary_op_def with_number_def
    using broadcast_number [OF assms(2)] mn_empty_total [OF fit u mem] mt_wf_contiguous [OF wf] dt wf
    by (auto simp: fits_numel [OF fit] mt_wf_def binary_kernel_def read_buffer_def intro!: mntensor.equality)
qed

text \<open>Other element types: the kernels have no such function.\<close>

lemma scalar_op_refused:
  assumes t: "mt_wf t" "mt_shape t \<noteq> []" "\<not> dtype_is_floating_point (mt_dtype t)"
    and u: "prod_list (mt_shape t) \<le> u32_max" and mem: "\<forall>n. alloc_ok dev n"
  shows "raises NativeError (scalar_op dev f t v)" "raises NativeError (rsub_scalar dev t v)"
proof -
  have fit: "fits (mt_shape t)" using t(1) by (simp add: mt_wf_def)
  have c: "mt_is_contiguous t" "mt_is_contiguous \<lparr>mt_shape = [1], mt_strides = [1], mt_dtype = mt_dtype t, mt_data = [v]\<rparr>"
    using mt_wf_contiguous [OF t(1)] by (simp_all add: mt_is_contiguous_def is_contiguous_shape_def)
  have dt: "mt_dtype t \<notin> {Float32, Float16, BFloat16}" using t(3) by (simp add: dtype_is_floating_point_def)
  note rules = scalar_tensor [OF mem] dispatch_binary_op_def broadcast_number [OF t(2)] mn_empty_total [OF fit u mem]
  show "raises NativeError (scalar_op dev f t v)" "raises NativeError (rsub_scalar dev t v)"
    using c dt by (simp_all add: scalar_op_def rsub_scalar_def rules)
qed

text \<open>
  C37. For a well-formed tensor with at least one dimension and within the kernels' sizes, on a
  device that grants the results' memory, an operation with a number (\<open>t + v\<close>, \<open>v + t\<close>, \<open>t - v\<close>,
  \<open>v - t\<close>, \<open>t * v\<close>, \<open>v * t\<close>, and \<open>t / v\<close> where nothing is divided by 0) puts the number into a
  one-element tensor, and the kernel reads that tensor's buffer at the output's index: the first
  element is the result on the first element, every later one uses what lies past the end of the
  one-element buffer. A tensor of a type that is not floating-point raises an exception.
\<close>

theorem tensor_arith_number:
  assumes "mt_wf (handle t)" and "mt_shape (handle t) \<noteq> []" and "prod_list (mt_shape (handle t)) \<le> u32_max"
    and "\<forall>n. alloc_ok dev n"
  shows "if dtype_is_floating_point (mt_dtype (handle t)) then
      Tensor_add (cpp_api dev k) t (OpNumber v) = Inr (from_handle (with_number dev (+) (handle t) v) False)
      \<and> Tensor_radd (cpp_api dev k) t (OpNumber v) = Inr (from_handle (with_number dev (+) (handle t) v) False)
      \<and> Tensor_sub (cpp_api dev k) t (OpNumber v) = Inr (from_handle (with_number dev (-) (handle t) v) False)
      \<and> Tensor_rsub (cpp_api dev k) t (OpNumber v) = Inr (from_handle (with_number dev (\<lambda>x y. y - x) (handle t) v) False)
      \<and> Tensor_mul (cpp_api dev k) t (OpNumber v) = Inr (from_handle (with_number dev (*) (handle t) v) False)
      \<and> Tensor_rmul (cpp_api dev k) t (OpNumber v) = Inr (from_handle (with_number dev (*) (handle t) v) False)
      \<and> (v \<noteq> 0 \<and> (\<forall>i. past_end dev [v] i \<noteq> 0) \<longrightarrow>
          Tensor_truediv (cpp_api dev k) t (OpNumber v) = Inr (from_handle (with_number dev (/) (handle t) v) False))
    else (\<forall>r \<in> {Tensor_add (cpp_api dev k) t (OpNumber v), Tensor_radd (cpp_api dev k) t (OpNumber v),
        Tensor_sub (cpp_api dev k) t (OpNumber v), Tensor_rsub (cpp_api dev k) t (OpNumber v),
        Tensor_mul (cpp_api dev k) t (OpNumber v), Tensor_rmul (cpp_api dev k) t (OpNumber v),
        Tensor_truediv (cpp_api dev k) t (OpNumber v)}. raises NativeError r)"
proof (cases "dtype_is_floating_point (mt_dtype (handle t))")
  case True
  with assms have c: "computable dev (handle t)" by (auto simp: computable_def dtype_is_floating_point_def)
  show ?thesis
    by (simp add: True Tensor_add_def Tensor_radd_def Tensor_sub_def Tensor_rsub_def Tensor_mul_def Tensor_rmul_def
        Tensor_truediv_def py_float_of_def wrap_def scalar_op_data [OF c assms(2)] rsub_scalar_data [OF c assms(2)])
next
  case False
  have w: "raises NativeError (wrap r)" if "raises NativeError r" for r :: "mntensor res"
    using that by (cases r) (simp_all add: wrap_def)
  from scalar_op_refused [OF assms(1,2) False assms(3,4)] show ?thesis
    by (simp add: False Tensor_add_def Tensor_radd_def Tensor_sub_def Tensor_rsub_def Tensor_mul_def Tensor_rmul_def
        Tensor_truediv_def py_float_of_def w)
qed

theorem tensor_arith_number_witness:
  "Tensor_add (cpp_api plain_device plain_kernels) (from_handle sample_handle False) (OpNumber 10)
     = Inr (from_handle (sample_handle\<lparr>mt_data := [11, 2, 3, 4, 5, 6]\<rparr>) False)
   \<and> Tensor_rsub (cpp_api plain_device plain_kernels) (from_handle sample_handle False) (OpNumber 10)
     = Inr (from_handle (sample_handle\<lparr>mt_data := [9, -2, -3, -4, -5, -6]\<rparr>) False)
   \<and> raises NativeError (Tensor_mul (cpp_api plain_device plain_kernels)
        (from_handle (sample_handle\<lparr>mt_dtype := Int32\<rparr>) False) (OpNumber 10))"
  using tensor_arith_number [of "from_handle sample_handle False" plain_device plain_kernels 10] sample_computable
    tensor_arith_number [of "from_handle (sample_handle\<lparr>mt_dtype := Int32\<rparr>) False" plain_device plain_kernels 10]
  by (simp add: computable_def mt_wf_def dtype_is_floating_point_def with_number_def) (simp add: sample_handle_def upt_rec)

lemma dispatch_unary_data:
  assumes "computable dev t"
  shows "dispatch_unary_op dev f t = Inr (t\<lparr>mt_data := map f (mt_data t)\<rparr>)"
proof -
  from assms have wf: "mt_wf t" and u: "prod_list (mt_shape t) \<le> u32_max" and mem: "\<forall>n. alloc_ok dev n"
    and dt: "mt_dtype t \<in> {Float32, Float16, BFloat16}" by (simp_all add: computable_def)
  from wf have fit: "fits (mt_shape t)" by (simp add: mt_wf_def)
  have len: "length (mt_data t) = nat (prod_list (mt_shape t))" using wf by (simp add: mt_wf_def)
  have "map (\<lambda>i. f (read_buffer dev (mt_data t) i)) [0..<nat (prod_list (mt_shape t))] = map f (mt_data t)"
    by (intro nth_equalityI) (simp_all add: read_buffer_def len)
  then show ?thesis
    unfolding dispatch_unary_op_def mn_empty_total [OF fit u mem] bindR_simps mt_wf_numel [OF wf]
    using mt_wf_contiguous [OF wf] dt u wf
    by (auto simp: mt_wf_def intro!: mntensor.equality)
qed

text \<open>
  Unary operations act on every element: \<open>relu()\<close> is the positive part, \<open>abs()\<close> the absolute
  value, and negating twice gives the tensor's elements back; shape and dtype are kept.
\<close>

theorem tensor_unary:
  assumes "computable dev (handle t)"
  shows "Tensor_relu (cpp_api dev k) t = Inr (from_handle ((handle t)\<lparr>mt_data := map (max 0) (mt_data (handle t))\<rparr>) False)
    \<and> Tensor_abs (cpp_api dev k) t = Inr (from_handle ((handle t)\<lparr>mt_data := map abs (mt_data (handle t))\<rparr>) False)
    \<and> bindR (Tensor_neg (cpp_api dev k) t) (Tensor_neg (cpp_api dev k)) = Inr (from_handle (handle t) False)"
proof -
  have "clamp_to 0 PosInf = max 0" by (intro ext) (simp add: max.commute)
  then have "Tensor_relu (cpp_api dev k) t = Inr (from_handle ((handle t)\<lparr>mt_data := map (max 0) (mt_data (handle t))\<rparr>) False)"
    by (simp add: Tensor_relu_def wrap_def dispatch_unary_data [OF assms])
  moreover have "Tensor_abs (cpp_api dev k) t = Inr (from_handle ((handle t)\<lparr>mt_data := map abs (mt_data (handle t))\<rparr>) False)"
    by (simp add: Tensor_abs_def wrap_def dispatch_unary_data [OF assms])
  moreover have "computable dev ((handle t)\<lparr>mt_data := map uminus (mt_data (handle t))\<rparr>)"
    using assms by (simp add: computable_def mt_wf_def)
  from dispatch_unary_data [OF this]
  have "bindR (Tensor_neg (cpp_api dev k) t) (Tensor_neg (cpp_api dev k)) = Inr (from_handle (handle t) False)"
    by (simp add: Tensor_neg_def wrap_def dispatch_unary_data [OF assms] comp_def)
  ultimately show ?thesis by simp
qed

theorem tensor_unary_witness:
  "Tensor_relu (cpp_api plain_device plain_kernels) (from_handle sample_handle False) = Inr (from_handle sample_handle False)"
  using tensor_unary [of plain_device "from_handle sample_handle False" plain_kernels] sample_computable
  by (simp add: sample_handle_def)

end
