(* ===== verification/BridgeProps.thy ===== *)
theory BridgeProps
  imports ArithProps
begin

text \<open>
  Properties of \<open>item\<close>, the factories and shape arithmetic of the C++ core, of the dtype tables
  on both sides of the binding, of the PyTorch bridge, and of the package without its
  extension.
\<close>

section \<open>Elements and sizes\<close>

text \<open>
  \<open>item()\<close> returns the element of a one-element tensor of any shape and raises ValueError
  for every other size; for a tensor within 64-bit sizes the check of the Python code and the
  one of the C++ code agree.
\<close>

theorem tensor_item_spec:
  assumes "mt_wf (handle t)" and "caches_agree (cpp_api dev k) t"
  shows "(if length (mt_data (handle t)) = 1
      then Tensor_item (cpp_api dev k) t = Inr (hd (mt_data (handle t)))
      else raises ValueError (Tensor_item (cpp_api dev k) t))
    \<and> Tensor_size (cpp_api dev k) t = int (length (mt_data (handle t)))"
proof -
  have size: "Tensor_size (cpp_api dev k) t = prod_list (mt_shape (handle t))"
    using assms(2) by (simp add: Tensor_size_def shape_of_agree)
  have "0 \<le> prod_list (mt_shape (handle t))" using assms(1) fits_bounds by (simp add: mt_wf_def)
  then have len: "int (length (mt_data (handle t))) = prod_list (mt_shape (handle t))"
    using assms(1) by (simp add: mt_wf_def)
  show ?thesis
  proof (cases "length (mt_data (handle t)) = 1")
    case True
    then have "mt_data (handle t) ! 0 = hd (mt_data (handle t))" by (intro hd_conv_nth [symmetric]) auto
    with True len size mt_wf_numel [OF assms(1)] show ?thesis
      by (simp add: Tensor_item_def mn_item_def)
  qed (use len size in \<open>simp add: Tensor_item_def\<close>)
qed

theorem tensor_item_spec_witness:
  "raises ValueError (Tensor_item (cpp_api plain_device plain_kernels) (from_handle sample_handle False))"
  using tensor_item_spec [of "from_handle sample_handle False" plain_device plain_kernels] sample_handle_ok(1)
  by (simp add: sample_handle_data)

lemma mn_empty_ok:
  assumes "fits s" "prod_list s \<le> size_max div 8" "\<forall>n. alloc_ok dev n"
  shows "mn_empty dev s m = Inr \<lparr>mt_shape = s, mt_strides = contiguous_strides s, mt_dtype = m,
    mt_data = uninit dev (nat (prod_list s))\<rparr>"
proof -
  have "size_max div 8 \<le> size_max div int (dtype_size m)" by (cases m) (simp_all add: size_max_def)
  with assms(2) have "\<not> prod_list s > size_max div int (dtype_size m)" by linarith
  with assms(1,3) show ?thesis by (simp add: mn_empty_def Let_def fits_numel)
qed

text \<open>
  \<open>zeros\<close> and \<open>ones\<close> return a tensor of the requested shape and dtype, filled with as many
  zeros and ones as the shape has elements, for sizes whose bytes fit 64 bits.
\<close>

theorem factories_fill:
  assumes "fits s" and "prod_list s \<le> size_max div 8" and "\<forall>n. alloc_ok dev n"
    and "dname (default_dtype dt) = dtype_name m"
  shows "\<exists>z u. zeros (CMod (cpp_api dev k)) s dt rg = Inr z \<and> ones (CMod (cpp_api dev k)) s dt rg = Inr u
    \<and> mt_data (handle z) = replicate (nat (prod_list s)) 0 \<and> mt_data (handle u) = replicate (nat (prod_list s)) 1
    \<and> (\<forall>t \<in> {z, u}. mt_wf (handle t) \<and> mt_dtype (handle t) = m \<and> requires_grad t = rg
        \<and> shape_of (cpp_api dev k) t = s \<and> caches_agree (cpp_api dev k) t)"
  using assms(1)
  by (simp add: zeros_def ones_def mn_filled_def mn_empty_ok [OF assms(1-3)] assms(4) fits_numel mt_wf_def
      shape_of_def from_handle_def caches_agree_def)

theorem factories_fill_witness:
  "\<exists>z u. zeros (CMod (cpp_api plain_device plain_kernels)) [2, 2] None True = Inr z
     \<and> ones (CMod (cpp_api plain_device plain_kernels)) [2, 2] None True = Inr u
     \<and> mt_data (handle u) = [1, 1, 1, 1]"
  using factories_fill [of "[2, 2]" plain_device None Float32 plain_kernels True]
  by (auto simp: fits_def size_max_def default_dtype_def numeral_eq_Suc)

text \<open>
  The size of a new tensor is computed in 64 bits before the overflow check, so a product
  that wraps to zero passes it: \<open>zeros((2**32, 2**32))\<close> succeeds with an empty buffer, and the
  tensor reports 2**64 elements.
\<close>

theorem zeros_size_wraps:
  "\<exists>t. zeros (CMod (cpp_api plain_device k)) [2 ^ 32, 2 ^ 32] None rg = Inr t
     \<and> mt_data (handle t) = [] \<and> Tensor_size (cpp_api plain_device k) t = 2 ^ 64"
proof -
  have "mn_numel [2 ^ 32, 2 ^ 32] = 0"
    by (simp add: mn_numel_s64 s64_def)
  then show ?thesis
    by (simp add: zeros_def default_dtype_def parse_dtype_str_def mn_filled_def mn_empty_def Let_def
        from_handle_def Tensor_size_def shape_of_def)
qed

section \<open>Broadcasting of shapes\<close>

text \<open>A dimension counted from the end, 1 beyond the shape.\<close>

definition dim_from_end :: "int list \<Rightarrow> nat \<Rightarrow> int" where
  "dim_from_end ds i = (if i < length ds then rev ds ! i else 1)"

definition rdim :: "int list \<Rightarrow> nat \<Rightarrow> int" where
  "rdim ds i = (if i < length ds then ds ! i else 1)"

lemma rdim_simps [simp]: "rdim [] i = 1" "rdim (d # ds) 0 = d" "rdim (d # ds) (Suc i) = rdim ds i"
  by (simp_all add: rdim_def)

lemma broadcast_rev_length: "broadcast_rev a b = Some r \<Longrightarrow> length r = max (length a) (length b)"
  by (induction a b arbitrary: r rule: broadcast_rev.induct) (fastforce split: if_splits)+

lemma broadcast_rev_nth:
  "broadcast_rev a b = Some r \<Longrightarrow> (rdim a i = rdim b i \<or> rdim a i = 1 \<or> rdim b i = 1)
     \<and> rdim r i = (if rdim a i = 1 then rdim b i else rdim a i)"
proof (induction a b arbitrary: r i rule: broadcast_rev.induct)
  case 1
  then show ?case by simp
next
  case (2 d ds)
  then obtain r' where "broadcast_rev ds [] = Some r'" "r = d # r'" by auto
  with 2(1) [of r' "i - 1"] show ?case by (cases i) auto
next
  case (3 e es)
  then obtain r' where "broadcast_rev [] es = Some r'" "r = e # r'" by auto
  with 3(1) [of r' "i - 1"] show ?case by (cases i) auto
next
  case (4 d ds e es)
  then obtain r' where r': "broadcast_rev ds es = Some r'" "d = e \<or> d = 1 \<or> e = 1"
    "r = (if d = 1 then e else d) # r'" by (auto split: if_splits)
  have "(rdim ds j = rdim es j \<or> rdim ds j = 1 \<or> rdim es j = 1)
      \<and> rdim r' j = (if rdim ds j = 1 then rdim es j else rdim ds j)" for j
    using 4(1) [OF _ r'(1)] 4(2) [OF _ _ r'(1)] 4(3) [OF _ _ _ r'(1)] r'(2) by blast
  with r'(2,3) show ?case by (cases i) auto
qed

lemma broadcast_rev_exists:
  "(\<forall>i. rdim a i = rdim b i \<or> rdim a i = 1 \<or> rdim b i = 1) \<Longrightarrow> \<exists>r. broadcast_rev a b = Some r"
proof (induction a b rule: broadcast_rev.induct)
  case (2 d ds)
  have "\<exists>r. broadcast_rev ds [] = Some r" by (rule 2(1)) simp
  then show ?case by auto
next
  case (3 e es)
  have "\<exists>r. broadcast_rev [] es = Some r" by (rule 3(1)) simp
  then show ?case by auto
next
  case (4 d ds e es)
  from 4(4) have tl: "\<forall>i. rdim ds i = rdim es i \<or> rdim ds i = 1 \<or> rdim es i = 1"
    by (metis rdim_simps(3))
  from 4(4) have "d = e \<or> d = 1 \<or> e = 1" by (metis rdim_simps(2))
  then show ?case using 4(1,2,3) tl by (cases "d = e"; cases "d = 1"; cases "e = 1") auto
qed simp

text \<open>
  Broadcasting two shapes follows the NumPy rule: it succeeds exactly when, counted from the
  last dimension, the sizes agree or one of them is 1 (a missing dimension counts as 1), and the
  result has at each place the size that is not 1; otherwise the operation raises.
\<close>

theorem broadcast_rule:
  "(if \<forall>i. dim_from_end a i = dim_from_end b i \<or> dim_from_end a i = 1 \<or> dim_from_end b i = 1
    then \<exists>r. broadcast_with a b = Inr r \<and> length r = max (length a) (length b)
      \<and> (\<forall>i. dim_from_end r i = (if dim_from_end a i = 1 then dim_from_end b i else dim_from_end a i))
    else raises NativeError (broadcast_with a b))
   \<and> broadcast_with a b = broadcast_with b a"
proof -
  have rd: "dim_from_end ds i = rdim (rev ds) i" for ds i by (simp add: dim_from_end_def rdim_def)
  have comm: "broadcast_rev xs ys = broadcast_rev ys xs" for xs ys
    by (induction xs ys rule: broadcast_rev.induct) auto
  show ?thesis
  proof (cases "broadcast_rev (rev a) (rev b)")
    case None
    with broadcast_rev_exists [of "rev a" "rev b"] comm show ?thesis
      by (auto simp: broadcast_with_def rd)
  next
    case (Some r)
    with broadcast_rev_length [OF Some] broadcast_rev_nth [OF Some] comm [of "rev b" "rev a"] show ?thesis
      by (simp add: broadcast_with_def rd)
  qed
qed

section \<open>The dtype tables\<close>

text \<open>
  The dtypes of the Python module and of the C++ core agree: under every name of one there
  is a dtype of the other, with the same item size, the same floating-point flag and the same
  sign flag.
\<close>

theorem dtype_tables_agree:
  "(\<exists>d. dict_get DTYPE_MAP (dtype_name m) = Some d \<and> dname d = dtype_name m
      \<and> itemsize d = dtype_size m \<and> is_floating_point d = dtype_is_floating_point m
      \<and> is_signed d = dtype_is_signed m)
   \<and> (dict_has DTYPE_MAP s \<longleftrightarrow> returns (parse_dtype_str s))"
proof -
  have "dict_has DTYPE_MAP s \<longleftrightarrow> returns (parse_dtype_str s)"
    by (auto simp: dict_has_def DTYPE_MAP_def parse_dtype_str_def)
  moreover have "\<exists>d. dict_get DTYPE_MAP (dtype_name m) = Some d \<and> dname d = dtype_name m
      \<and> itemsize d = dtype_size m \<and> is_floating_point d = dtype_is_floating_point m
      \<and> is_signed d = dtype_is_signed m"
    by (cases m) (simp_all add: DTYPE_MAP_def dict_get_def dtype_is_floating_point_def dtype_is_signed_def)
  ultimately show ?thesis by blast
qed

section \<open>PyTorch\<close>

lemma to_torch_args_fails:
  assumes "\<And>t. \<not> returns (conv t)" "ArgTensor t \<in> set args"
    "\<And>t e. conv t = Inl e \<Longrightarrow> any_exception e"
  shows "\<exists>e. to_torch_args conv args = Inl e \<and> any_exception e"
  using assms(2)
proof (induction args)
  case (Cons x xs)
  show ?case
  proof (cases x)
    case (ArgTensor u)
    with assms(1) [of u] assms(3) [of u] show ?thesis by (cases "conv u") simp_all
  next
    case (ArgOther y)
    with Cons show ?thesis by auto
  qed
qed simp

text \<open>
  With the shipped core, whose DLPack functions are stubs, no tensor crosses to PyTorch:
  \<open>torch()\<close> raises ImportError without PyTorch and RuntimeError with it, \<open>from_torch\<close> never
  returns, and a PyTorch function called on a tensor without a registered override raises
  NotImplementedError, whatever PyTorch would do.
\<close>

theorem torch_bridge_closed:
  "raises (if torch_installed T then RuntimeError else ImportError) (Tensor_torch T (cpp_api dev k) t)
   \<and> \<not> returns (from_torch T (CMod (cpp_api dev k)) p rg)
   \<and> (dict_get reg func = None \<and> ArgTensor t \<in> set args \<longrightarrow>
        raises NotImplementedError (torch_function reg T (cpp_api dev k) apply_fn fname func args kwargs nk))"
proof -
  have tt: "Tensor_torch T (cpp_api dev k) u = raise (if torch_installed T then RuntimeError else ImportError)
      (if torch_installed T then ''DLPack interop not yet implemented (Phase 3)''
       else ''PyTorch is required for torch() conversion'')" for u
    by (simp add: Tensor_torch_def Tensor_dlpack_def)
  have "\<not> returns (from_torch T (CMod (cpp_api dev k)) p rg)"
    by (cases "pt_to_dlpack T (if pt_device_type T p \<noteq> ''cpu'' then pt_cpu T p else p)")
      (simp_all add: from_torch_def Let_def)
  moreover have "raises NotImplementedError (torch_function reg T (cpp_api dev k) apply_fn fname func args kwargs nk)"
    if reg: "dict_get reg func = None" and arg: "ArgTensor t \<in> set args"
  proof -
    obtain e where "to_torch_args (Tensor_torch T (cpp_api dev k)) args = Inl e" "any_exception e"
      using to_torch_args_fails [of "Tensor_torch T (cpp_api dev k)" t args] arg
      by (cases "torch_installed T") (auto simp: tt any_exception_def raise_def)
    with reg show ?thesis
      by (simp add: torch_function_def Let_def) (simp add: raise_def any_exception_def)
  qed
  ultimately show ?thesis by (simp add: tt)
qed

theorem torch_bridge_closed_witness:
  "raises NotImplementedError (torch_function [] \<lparr>torch_installed = True, pt_requires_grad = (\<lambda>_. False),
       pt_device_type = (\<lambda>_. ''cpu''), pt_cpu = (\<lambda>p. p), pt_to_dlpack = (\<lambda>_. Inr (Capsule 0)),
       pt_from_dlpack = (\<lambda>_. Inr ())\<rparr>
     (cpp_api plain_device plain_kernels) (\<lambda>_ _ _. Inr (TorchOther ())) (\<lambda>_. ''relu'') ()
     [ArgTensor (from_handle sample_handle False)] None ())"
  by (rule torch_bridge_closed [THEN conjunct2, THEN conjunct2, rule_format, of _ _ "from_handle sample_handle False"])
    (simp add: dict_get_def)

text \<open>
  Registering an override makes it take every later call of that PyTorch function, replacing
  an earlier one, and leaves the calls of every other function as they were.
\<close>

theorem torch_override_dispatch:
  "torch_function (register_torch_override f impl reg) T N apply_fn fname g args kwargs nk =
     (if g = f then impl args (case kwargs of None \<Rightarrow> nk | Some k \<Rightarrow> k)
      else torch_function reg T N apply_fn fname g args kwargs nk)"
proof (cases "g = f")
  case True
  then show ?thesis by (simp add: torch_function_def register_torch_override_def pydict.lookup_store)
next
  case False
  then show ?thesis by (simp add: torch_function_def register_torch_override_def pydict.lookup_store)
qed

section \<open>Without the extension\<close>

lemma init_missing: "raises ImportError (Tensor_init np CMissing data shape dt rg None)"
  by (simp add: Tensor_init_def import_C_def catchR_def raise_def raises_def)

lemma init_none:
  "raises AttributeError (from_numpy np CNone a rg)" "raises AttributeError (empty_tensor np CNone s dt rg)"
proof -
  obtain d b where c: "convert_dtype np a None = Inr (d, b)"
    by (cases "dict_get NUMPY_TO_DTYPE_MAP (nd_dtype a)")
      (simp_all add: convert_dtype_def numpy_to_dtype_def np_normalize_def catchR_def raise_def)
  then show "raises AttributeError (from_numpy np CNone a rg)"
    by (simp add: from_numpy_def Tensor_init_def as_array_def C_attr_def c)
  show "raises AttributeError (empty_tensor np CNone s dt rg)"
    by (simp add: empty_tensor_def Tensor_init_def C_attr_def Let_def)
qed

text \<open>
  Without the extension no tensor can be made: if the package has no \<open>_C\<close> at all the
  constructor and the factories raise ImportError, but if \<open>_C\<close> is the \<open>None\<close> that the package
  binds after a failed load, building from an array of a supported type raises AttributeError.
\<close>

theorem tensor_without_extension:
  "raises ImportError (Tensor_init np CMissing data shape dt rg None)
   \<and> raises ImportError (zeros CMissing s dt rg) \<and> raises ImportError (ones CMissing s dt rg)
   \<and> raises AttributeError (zeros CNone s dt rg) \<and> raises AttributeError (ones CNone s dt rg)
   \<and> raises AttributeError (empty_tensor np CNone s dt rg)
   \<and> raises ImportError (from_numpy np CMissing a rg) \<and> raises AttributeError (from_numpy np CNone a rg)"
  using init_missing [of np "Some (FromArray a)"]
  by (simp add: init_missing init_none zeros_def ones_def import_C_def C_attr_def) (simp add: from_numpy_def init_missing)

end
