(* ===== verification/OptimBase.thy ===== *)
theory OptimBase
  imports TensorLaws
begin

text \<open>
  What the optimizers of \<^verbatim>\<open>python/metal_native/optim\<close> share: the objects they update, the NumPy
  arithmetic they use, and \<open>zero_grad\<close>.

  The optimizers take any object with a \<open>grad\<close> attribute. Such an object lives in a heap, under
  its identity, which is also its key in the optimizer's state dictionary. What the code can
  observe of it is its content (an array, or the tensor whose \<open>numpy()\<close> it gives), how it can be
  written (\<open>param.data = ...\<close>, \<open>param[:] = ...\<close> or not at all), whether it can be hashed, and its
  attributes \<open>grad\<close> and \<open>_grad\<close>.
\<close>

section \<open>NumPy arithmetic\<close>

text \<open>The operators on arrays that the optimizers apply; a scalar operand is a Python float.\<close>

record np_arith =
  a_zeros_like :: "ndarray \<Rightarrow> ndarray"
  a_add :: "ndarray \<Rightarrow> ndarray \<Rightarrow> ndarray res"
  a_sub :: "ndarray \<Rightarrow> ndarray \<Rightarrow> ndarray res"
  a_div :: "ndarray \<Rightarrow> ndarray \<Rightarrow> ndarray res"
  a_maximum :: "ndarray \<Rightarrow> ndarray \<Rightarrow> ndarray res"
  a_scale :: "real \<Rightarrow> ndarray \<Rightarrow> ndarray"
  a_shift :: "ndarray \<Rightarrow> real \<Rightarrow> ndarray"
  a_div_by :: "ndarray \<Rightarrow> real \<Rightarrow> ndarray"
  a_square :: "ndarray \<Rightarrow> ndarray"
  a_sqrt :: "ndarray \<Rightarrow> ndarray"
  a_assign :: "ndarray \<Rightarrow> ndarray \<Rightarrow> ndarray res"

text \<open>Well-formed row-major arrays, and two of them with the same shape and element type.\<close>

definition plain_array :: "ndarray \<Rightarrow> bool" where
  "plain_array a \<longleftrightarrow> nd_wf a \<and> nd_compact a"

definition alike :: "ndarray \<Rightarrow> ndarray \<Rightarrow> bool" where
  "alike a b \<longleftrightarrow> plain_array a \<and> plain_array b \<and> nd_shape a = nd_shape b \<and> nd_dtype a = nd_dtype b"

lemma alike_refl [simp]: "alike a a \<longleftrightarrow> plain_array a"
  by (simp add: alike_def)

lemma alike_sym: "alike a b \<Longrightarrow> alike b a"
  by (simp add: alike_def)

lemma alike_trans [trans]: "alike a b \<Longrightarrow> alike b c \<Longrightarrow> alike a c"
  by (simp add: alike_def)

lemma alike_plain: "alike a b \<Longrightarrow> plain_array a" "alike a b \<Longrightarrow> plain_array b"
  by (simp_all add: alike_def)

lemma alike_length: "alike a b \<Longrightarrow> length (nd_elems a) = length (nd_elems b)"
  unfolding alike_def plain_array_def by (metis nd_wf_length of_nat_eq_iff)

lemma alike_eq: "alike a b \<Longrightarrow> nd_elems a = nd_elems b \<Longrightarrow> a = b"
  unfolding alike_def plain_array_def nd_compact_def by metis

lemma plain_row_major:
  "plain_array a \<Longrightarrow> length xs = length (nd_elems a) \<Longrightarrow> alike a (row_major (nd_shape a) (nd_dtype a) xs)"
  using nd_wf_length [of a] by (simp add: alike_def plain_array_def) (simp add: nd_wf_def)

text \<open>
  The laws on arrays of one shape and type. Division and the square root are only described
  where the real numbers agree with NumPy: no zero denominator, no negative radicand.
\<close>

locale array_laws =
  fixes A :: np_arith
  assumes zeros: "plain_array a \<Longrightarrow> alike a (a_zeros_like A a) \<and> nd_elems (a_zeros_like A a) = map (\<lambda>_. 0) (nd_elems a)"
    and add: "alike a b \<Longrightarrow> \<exists>c. a_add A a b = Inr c \<and> alike a c \<and> nd_elems c = map2 (+) (nd_elems a) (nd_elems b)"
    and sub: "alike a b \<Longrightarrow> \<exists>c. a_sub A a b = Inr c \<and> alike a c \<and> nd_elems c = map2 (-) (nd_elems a) (nd_elems b)"
    and div: "alike a b \<Longrightarrow> 0 \<notin> set (nd_elems b) \<Longrightarrow>
      \<exists>c. a_div A a b = Inr c \<and> alike a c \<and> nd_elems c = map2 (/) (nd_elems a) (nd_elems b)"
    and maximum: "alike a b \<Longrightarrow> \<exists>c. a_maximum A a b = Inr c \<and> alike a c \<and> nd_elems c = map2 max (nd_elems a) (nd_elems b)"
    and scale: "plain_array a \<Longrightarrow> alike a (a_scale A r a) \<and> nd_elems (a_scale A r a) = map ((*) r) (nd_elems a)"
    and shift: "plain_array a \<Longrightarrow> alike a (a_shift A a r) \<and> nd_elems (a_shift A a r) = map (\<lambda>x. x + r) (nd_elems a)"
    and div_by: "plain_array a \<Longrightarrow> r \<noteq> 0 \<Longrightarrow> alike a (a_div_by A a r) \<and> nd_elems (a_div_by A a r) = map (\<lambda>x. x / r) (nd_elems a)"
    and square: "plain_array a \<Longrightarrow> alike a (a_square A a) \<and> nd_elems (a_square A a) = map (\<lambda>x. x\<^sup>2) (nd_elems a)"
    and sqrt: "plain_array a \<Longrightarrow> \<forall>x \<in> set (nd_elems a). 0 \<le> x \<Longrightarrow>
      alike a (a_sqrt A a) \<and> nd_elems (a_sqrt A a) = map sqrt (nd_elems a)"
    and assign: "alike a b \<Longrightarrow> a_assign A a b = Inr b"
begin

text \<open>The linear combination \<open>r * a + s * b\<close> of the moment updates.\<close>

lemma combine:
  assumes "alike a b"
  shows "\<exists>c. a_add A (a_scale A r a) (a_scale A s b) = Inr c \<and> alike a c
    \<and> nd_elems c = map2 (\<lambda>x y. r * x + s * y) (nd_elems a) (nd_elems b)"
proof -
  have p: "plain_array a" "plain_array b" using assms alike_plain by auto
  have "alike (a_scale A r a) (a_scale A s b)"
    using assms scale [OF p(1), of r] scale [OF p(2), of s] alike_sym alike_trans by blast
  from add [OF this] scale [OF p(1), of r] scale [OF p(2), of s] alike_trans
  show ?thesis by (force simp: map2_map_map zip_map_map comp_def case_prod_unfold)
qed

end

text \<open>
  A reference on arrays of the same shape, with other shapes refused; used where a concrete
  arithmetic is needed.
\<close>

definition lift1 :: "(real \<Rightarrow> real) \<Rightarrow> ndarray \<Rightarrow> ndarray" where
  "lift1 f a = row_major (nd_shape a) (nd_dtype a) (map f (nd_elems a))"

definition lift2 :: "(real \<Rightarrow> real \<Rightarrow> real) \<Rightarrow> ndarray \<Rightarrow> ndarray \<Rightarrow> ndarray res" where
  "lift2 f a b = (if nd_shape a = nd_shape b
     then Inr (row_major (nd_shape a) (nd_dtype a) (map2 f (nd_elems a) (nd_elems b)))
     else raise ValueError ''operands could not be broadcast together'')"

definition ref_arith :: np_arith where
  "ref_arith = \<lparr>a_zeros_like = lift1 (\<lambda>_. 0), a_add = lift2 (+), a_sub = lift2 (-), a_div = lift2 (/),
     a_maximum = lift2 max, a_scale = (\<lambda>r. lift1 ((*) r)), a_shift = (\<lambda>a r. lift1 (\<lambda>x. x + r) a),
     a_div_by = (\<lambda>a r. lift1 (\<lambda>x. x / r) a), a_square = lift1 (\<lambda>x. x\<^sup>2), a_sqrt = lift1 sqrt,
     a_assign = lift2 (\<lambda>_ y. y)\<rparr>"

lemma lift1_alike: "plain_array a \<Longrightarrow> alike a (lift1 f a) \<and> nd_elems (lift1 f a) = map f (nd_elems a)"
  by (simp add: lift1_def plain_row_major)

lemma lift2_alike:
  assumes "alike a b"
  shows "\<exists>c. lift2 f a b = Inr c \<and> alike a c \<and> nd_elems c = map2 f (nd_elems a) (nd_elems b)"
proof -
  have "length (nd_elems a) = length (nd_elems b)" by (rule alike_length [OF assms])
  then have "alike a (row_major (nd_shape a) (nd_dtype a) (map2 f (nd_elems a) (nd_elems b)))"
    by (intro plain_row_major [OF alike_plain(1) [OF assms]]) simp
  with assms show ?thesis by (auto simp: lift2_def alike_def)
qed

interpretation ref_arith: array_laws ref_arith
proof unfold_locales
  fix a b :: ndarray assume ab: "alike a b"
  from lift2_alike [OF ab, of "\<lambda>_ y. y"] obtain c where c: "lift2 (\<lambda>_ y. y) a b = Inr c" "alike a c"
    "nd_elems c = map2 (\<lambda>_ y. y) (nd_elems a) (nd_elems b)" by blast
  have "map2 (\<lambda>_ y. y) (nd_elems a) (nd_elems b) = nd_elems b"
    using alike_length [OF ab] by (intro nth_equalityI) simp_all
  with c ab have "c = b" by (intro alike_eq) (auto simp: alike_def)
  with c(1) show "a_assign ref_arith a b = Inr b" by (simp add: ref_arith_def)
qed (simp_all add: ref_arith_def lift1_alike lift2_alike)

section \<open>Parameters\<close>

datatype 'h content = InTensor "'h tensor" | InArray ndarray

text \<open>How the object can be written: it has an attribute \<open>data\<close>, it has item assignment, or neither.\<close>

datatype param_kind = DataParam dtype | ArrayParam | FixedParam

text \<open>
  The attribute \<open>grad\<close>: absent, a field of its own, or a property that reads \<open>_grad\<close> (as in
  \<open>Tensor\<close>); \<open>p_ugrad\<close> is the attribute \<open>_grad\<close>, \<open>None\<close> if there is none.
\<close>

datatype 'h grad_attr = GradMissing | GradField "'h content option" | GradProperty

record 'h param =
  p_kind :: param_kind
  p_content :: "'h content"
  p_hashable :: bool
  p_grad :: "'h grad_attr"
  p_ugrad :: "'h content option option"

definition grad_of :: "'h param \<Rightarrow> 'h content option" where
  "grad_of p = (case p_grad p of
     GradMissing \<Rightarrow> None
   | GradField g \<Rightarrow> g
   | GradProperty \<Rightarrow> (case p_ugrad p of None \<Rightarrow> None | Some g \<Rightarrow> g))"

lemma grad_of_content [simp]:
  "grad_of (p\<lparr>p_content := c\<rparr>) = grad_of p" "grad_of (p\<lparr>p_kind := q\<rparr>) = grad_of p"
  by (cases "p_grad p"; simp add: grad_of_def)+

text \<open>The Python environment of an optimizer: NumPy and the extension module.\<close>

record ('d, 'h, 'c) env =
  e_np :: "'d numpy_api"
  e_C :: "('h, 'c) native_api cmod"
  e_arith :: np_arith

text \<open>\<open>x.numpy() if hasattr(x, 'numpy') else x\<close>.\<close>

definition to_np :: "('d, 'h, 'c) env \<Rightarrow> 'h content \<Rightarrow> ndarray res" where
  "to_np E x = (case x of
     InTensor t \<Rightarrow> bindR (import_C (e_C E)) (\<lambda>C. C_attr C (\<lambda>N. Tensor_numpy N t))
   | InArray a \<Rightarrow> Inr a)"

text \<open>
  The write at the end of a step. \<open>Tensor(data=param_np, dtype=param.dtype)\<close> becomes the new
  \<open>data\<close>; without that attribute the items are assigned.
\<close>

definition new_content :: "('d, 'h, 'c) env \<Rightarrow> 'h param \<Rightarrow> ndarray \<Rightarrow> 'h content res" where
  "new_content E p a = (case p_kind p of
     DataParam dt \<Rightarrow> bindR (Tensor_init (e_np E) (e_C E) (Some (FromArray a)) None (Some dt) False None)
                       (\<lambda>t. Inr (InTensor t))
   | ArrayParam \<Rightarrow> (case p_content p of
       InArray old \<Rightarrow> bindR (a_assign (e_arith E) old a) (\<lambda>b. Inr (InArray b))
     | InTensor t \<Rightarrow> raise TypeError ''object does not support item assignment'')
   | FixedParam \<Rightarrow> raise TypeError ''object does not support item assignment'')"

text \<open>The optimizer and the heap it works on.\<close>

record ('o, 'h) world =
  w_opt :: 'o
  w_heap :: "nat \<Rightarrow> 'h param"

definition read_param :: "nat \<Rightarrow> (('o, 'h) world, 'h param) st" where
  "read_param i = (\<lambda>w. (Inr (w_heap w i), w))"

definition write_param :: "('d, 'h, 'c) env \<Rightarrow> nat \<Rightarrow> ndarray \<Rightarrow> (('o, 'h) world, unit) st" where
  "write_param E i a = (\<lambda>w. case new_content E (w_heap w i) a of
     Inl e \<Rightarrow> (Inl e, w)
   | Inr x \<Rightarrow> (Inr (), w\<lparr>w_heap := (w_heap w)(i := (w_heap w i)\<lparr>p_content := x\<rparr>)\<rparr>))"

text \<open>The optional closure of a step, which recomputes the loss and the gradients.\<close>

definition run_closure :: "(('o, 'h) world, real) st option \<Rightarrow> (('o, 'h) world, real option) st" where
  "run_closure cl = (case cl of None \<Rightarrow> returnS None | Some f \<Rightarrow> bindS f (\<lambda>l. returnS (Some l)))"

section \<open>zero_grad\<close>

definition clear_grad :: "'h param \<Rightarrow> 'h param" where
  "clear_grad p = (case p_ugrad p of Some (Some g) \<Rightarrow> p\<lparr>p_ugrad := Some None\<rparr> | _ \<Rightarrow> p)"

fun zero_grad :: "nat list list \<Rightarrow> (nat \<Rightarrow> 'h param) \<Rightarrow> nat \<Rightarrow> 'h param" where
  "zero_grad [] hp = hp"
| "zero_grad (g # gs) hp = zero_grad gs (fold (\<lambda>i h. h(i := clear_grad (h i))) g hp)"

lemma clear_grad_twice [simp]: "clear_grad (clear_grad p) = clear_grad p"
  by (auto simp: clear_grad_def split: option.splits)

lemma clear_group: "fold (\<lambda>i h. h(i := clear_grad (h i))) g hp = (\<lambda>i. if i \<in> set g then clear_grad (hp i) else hp i)"
  by (induction g arbitrary: hp) (auto simp: fun_eq_iff)

lemma zero_grad_eq: "zero_grad gs hp i = (if i \<in> set (concat gs) then clear_grad (hp i) else hp i)"
  by (induction gs arbitrary: hp) (auto simp: clear_group)

section \<open>Writing a parameter\<close>

text \<open>
  A parameter that a step can update: an array written in place, or an object with a \<open>data\<close>
  attribute whose dtype is the array's, on an extension that satisfies \<open>native_laws\<close>.
\<close>

definition holds_array :: "('d, 'h, 'c) env \<Rightarrow> 'h param \<Rightarrow> ndarray \<Rightarrow> bool" where
  "holds_array E p a \<longleftrightarrow> to_np E (p_content p) = Inr a \<and> plain_array a \<and>
     (case p_kind p of
        ArrayParam \<Rightarrow> p_content p = InArray a
      | DataParam d \<Rightarrow> nd_dtype a = dname d \<and> dtype_to_numpy d = Inr (dname d) \<and> fits (nd_shape a)
          \<and> (\<exists>N. e_C E = CMod N \<and> (\<forall>b. alike a b \<longrightarrow>
               (\<exists>h. C_tensor_from_numpy N b (dname d) False = Inr h \<and> C_tensor_to_numpy N h = Inr b)))
          \<and> (\<forall>b. alike a b \<longrightarrow> np_astype (e_np E) b (dname d) = b)
      | FixedParam \<Rightarrow> False)"

lemma new_content_holds:
  assumes "holds_array E p a" "alike a b" "array_laws (e_arith E)"
  shows "\<exists>x. new_content E p b = Inr x \<and> holds_array E (p\<lparr>p_content := x\<rparr>) b"
proof (cases "p_kind p")
  case (DataParam d)
  from assms(1) DataParam obtain N where N: "e_C E = CMod N"
    and d: "nd_dtype a = dname d" "dtype_to_numpy d = Inr (dname d)"
    and from_np: "\<And>b. alike a b \<Longrightarrow>
      \<exists>h. C_tensor_from_numpy N b (dname d) False = Inr h \<and> C_tensor_to_numpy N h = Inr b"
    and ast: "\<And>b. alike a b \<Longrightarrow> np_astype (e_np E) b (dname d) = b"
    by (auto simp: holds_array_def)
  have b: "nd_dtype b = dname d" "nd_shape b = nd_shape a" "plain_array b"
    using assms(2) d by (simp_all add: alike_def plain_array_def)
  from from_np [OF assms(2)] obtain h where h: "C_tensor_from_numpy N b (dname d) False = Inr h"
    "C_tensor_to_numpy N h = Inr b" by blast
  have "\<not> dtype_eq d (Some bfloat16)" using d(2) by (auto simp: dtype_eq_def dtype_to_numpy_Inr)
  then have "convert_dtype (e_np E) b (Some d) = Inr (d, b)"
    using d(2) ast [OF assms(2)] by (simp add: convert_dtype_def)
  then have "new_content E p b = Inr (InTensor (made_tensor d False h))"
    using h(1) by (simp add: new_content_def DataParam N Tensor_init_def as_array_def made_tensor_def)
  moreover have "alike b c \<longleftrightarrow> alike a c" for c using assms(2) by (auto simp: alike_def)
  then have "holds_array E (p\<lparr>p_content := InTensor (made_tensor d False h)\<rparr>) b"
    using assms(1) DataParam b h(2) N by (simp add: holds_array_def to_np_def Tensor_numpy_def)
  ultimately show ?thesis by blast
next
  case ArrayParam
  with assms show ?thesis
    by (auto simp: holds_array_def new_content_def to_np_def array_laws.assign alike_def)
qed (use assms(1) in \<open>simp add: holds_array_def\<close>)

section \<open>The loop over the parameters\<close>

text \<open>
  What the loop \<open>for param in group['params']\<close> needs of its body: on a parameter that is ready
  it returns, it leaves everything but that parameter alone, and neither its readiness nor its
  effect depends on what happens to other parameters.
\<close>

locale param_loop =
  fixes body :: "nat \<Rightarrow> ('w, unit) st"
    and ready :: "'w \<Rightarrow> nat \<Rightarrow> bool"
    and effect :: "'w \<Rightarrow> 'w \<Rightarrow> nat \<Rightarrow> bool"
    and frame :: "nat set \<Rightarrow> 'w \<Rightarrow> 'w \<Rightarrow> bool"
  assumes body_effect: "ready w i \<Longrightarrow> \<exists>w'. body i w = (Inr (), w') \<and> frame {i} w w' \<and> effect w w' i"
    and frame_refl: "frame {} w w"
    and frame_trans: "frame I w w1 \<Longrightarrow> frame J w1 w2 \<Longrightarrow> frame (I \<union> J) w w2"
    and ready_frame: "frame I w w1 \<Longrightarrow> i \<notin> I \<Longrightarrow> ready w i \<Longrightarrow> ready w1 i"
    and effect_before: "frame I w w1 \<Longrightarrow> i \<notin> I \<Longrightarrow> effect w1 w2 i \<Longrightarrow> effect w w2 i"
    and effect_after: "effect w w1 i \<Longrightarrow> frame I w1 w2 \<Longrightarrow> i \<notin> I \<Longrightarrow> effect w w2 i"
begin

lemma loop_effect:
  "distinct is \<Longrightarrow> \<forall>i \<in> set is. ready w i \<Longrightarrow>
   \<exists>w'. forS body is w = (Inr (), w') \<and> frame (set is) w w' \<and> (\<forall>i \<in> set is. effect w w' i)"
proof (induction "is" arbitrary: w)
  case Nil
  then show ?case by (simp add: frame_refl)
next
  case (Cons i "is")
  from body_effect [of w i] Cons.prems(2) obtain w1 where
    w1: "body i w = (Inr (), w1)" "frame {i} w w1" "effect w w1 i" by auto
  have ni: "j \<notin> {i}" if "j \<in> set is" for j using that Cons.prems(1) by auto
  have "\<forall>j \<in> set is. ready w1 j" using ready_frame [OF w1(2)] ni Cons.prems(2) by auto
  with Cons.IH [of w1] Cons.prems(1) obtain w2 where
    w2: "forS body is w1 = (Inr (), w2)" "frame (set is) w1 w2" "\<forall>j \<in> set is. effect w1 w2 j" by auto
  have "effect w w2 j" if "j \<in> set (i # is)" for j
    using that effect_after [OF w1(3) w2(2)] effect_before [OF w1(2) _ w2(3) [rule_format]] Cons.prems(1)
    by (cases "j = i") auto
  moreover have "frame (set (i # is)) w w2" using frame_trans [OF w1(2) w2(2)] by simp
  ultimately show ?case using w1(1) w2(1) by (auto simp: bindS_def)
qed

end

end
