(* ===== verification/Adam.thy ===== *)
theory Adam
  imports OptimBase
begin

text \<open>
  \<^verbatim>\<open>python/metal_native/optim/adam.py\<close>: \<open>MetalAdam\<close> and \<open>MetalAdamW\<close>. A step is a computation
  on the optimizer and the heap of parameters; an exception leaves what was written before it.
\<close>

section \<open>State and construction\<close>

record moments =
  mom_m :: ndarray
  mom_v :: ndarray
  mom_v_max :: "ndarray option"

record adam =
  lr :: real
  beta1 :: real
  beta2 :: real
  eps :: real
  weight_decay :: real
  amsgrad :: bool
  param_groups :: "nat list list"
  opt_state :: "(nat, moments) dict"
  step_count :: nat

definition Adam_init :: "nat list \<Rightarrow> real \<Rightarrow> real \<times> real \<Rightarrow> real \<Rightarrow> real \<Rightarrow> bool \<Rightarrow> adam res" where
  "Adam_init params r betas ep wd ams =
     (if r < 0 then raise ValueError ''Invalid learning rate: {lr}''
      else if ep < 0 then raise ValueError ''Invalid epsilon value: {eps}''
      else if \<not> (0 \<le> fst betas \<and> fst betas < 1) then raise ValueError ''Invalid beta parameter at index 0: {betas[0]}''
      else if \<not> (0 \<le> snd betas \<and> snd betas < 1) then raise ValueError ''Invalid beta parameter at index 1: {betas[1]}''
      else if wd < 0 then raise ValueError ''Invalid weight_decay value: {weight_decay}''
      else Inr \<lparr>lr = r, beta1 = fst betas, beta2 = snd betas, eps = ep, weight_decay = wd, amsgrad = ams,
                param_groups = [params], opt_state = [], step_count = 0\<rparr>)"

section \<open>One parameter\<close>

type_synonym 'h adam_world = "(adam, 'h) world"

definition read_moments :: "nat \<Rightarrow> ('h adam_world, moments) st" where
  "read_moments i = (\<lambda>w. (case dict_get (opt_state (w_opt w)) i of
     None \<Rightarrow> raise KeyError ''param'' | Some s \<Rightarrow> Inr s, w))"

definition write_moments :: "nat \<Rightarrow> moments \<Rightarrow> ('h adam_world, unit) st" where
  "write_moments i s = (\<lambda>w. (Inr (), w\<lparr>w_opt := (w_opt w)\<lparr>opt_state := dict_set i s (opt_state (w_opt w))\<rparr>\<rparr>))"

text \<open>\<open>if param not in self.state\<close>: the lookup hashes the parameter.\<close>

definition ensure_moments :: "('d, 'h, 'c) env \<Rightarrow> nat \<Rightarrow> 'h content \<Rightarrow> ('h adam_world, unit) st" where
  "ensure_moments E i g = (\<lambda>w.
     if \<not> p_hashable (w_heap w i) then (raise TypeError ''unhashable type'', w)
     else if dict_has (opt_state (w_opt w)) i then (Inr (), w)
     else case to_np E g of
       Inl e \<Rightarrow> (Inl e, w)
     | Inr a \<Rightarrow> write_moments i
         \<lparr>mom_m = a_zeros_like (e_arith E) a, mom_v = a_zeros_like (e_arith E) a,
          mom_v_max = (if amsgrad (w_opt w) then Some (a_zeros_like (e_arith E) a) else None)\<rparr> w)"

text \<open>The L2 penalty of \<open>MetalAdam\<close>.\<close>

definition l2_grad :: "('d, 'h, 'c) env \<Rightarrow> adam \<Rightarrow> 'h param \<Rightarrow> ndarray \<Rightarrow> ndarray res" where
  "l2_grad E cfg p g =
     (if weight_decay cfg \<noteq> 0
      then bindR (to_np E (p_content p)) (\<lambda>x. a_add (e_arith E) g (a_scale (e_arith E) (weight_decay cfg) x))
      else Inr g)"

definition update_m :: "np_arith \<Rightarrow> adam \<Rightarrow> nat \<Rightarrow> ndarray \<Rightarrow> ('h adam_world, unit) st" where
  "update_m A cfg i g = bindS (read_moments i) (\<lambda>s.
     bindS (liftS (a_add A (a_scale A (beta1 cfg) (mom_m s)) (a_scale A (1 - beta1 cfg) g))) (\<lambda>m.
     write_moments i (s\<lparr>mom_m := m\<rparr>)))"

definition update_v :: "np_arith \<Rightarrow> adam \<Rightarrow> nat \<Rightarrow> ndarray \<Rightarrow> ('h adam_world, unit) st" where
  "update_v A cfg i g = bindS (read_moments i) (\<lambda>s.
     bindS (liftS (a_add A (a_scale A (beta2 cfg) (mom_v s)) (a_scale A (1 - beta2 cfg) (a_square A g)))) (\<lambda>v.
     write_moments i (s\<lparr>mom_v := v\<rparr>)))"

text \<open>The second moment that enters the update: with AMSGrad the running maximum.\<close>

definition second_moment :: "np_arith \<Rightarrow> adam \<Rightarrow> nat \<Rightarrow> ('h adam_world, ndarray) st" where
  "second_moment A cfg i = bindS (read_moments i) (\<lambda>s.
     if amsgrad cfg
     then case mom_v_max s of
         None \<Rightarrow> raiseS KeyError ''v_max''
       | Some vm \<Rightarrow> bindS (liftS (a_maximum A vm (mom_v s))) (\<lambda>vm'.
           bindS (write_moments i (s\<lparr>mom_v_max := Some vm'\<rparr>)) (\<lambda>_. returnS vm'))
     else returnS (mom_v s))"

definition bias_correction :: "real \<Rightarrow> nat \<Rightarrow> real" where
  "bias_correction b t = 1 - b ^ t"

definition adam_update :: "np_arith \<Rightarrow> adam \<Rightarrow> ndarray \<Rightarrow> ndarray \<Rightarrow> ndarray res" where
  "adam_update A cfg m v2 =
     a_div A (a_scale A (- lr cfg) (a_div_by A m (bias_correction (beta1 cfg) (step_count cfg))))
       (a_shift A (a_sqrt A (a_div_by A v2 (bias_correction (beta2 cfg) (step_count cfg)))) (eps cfg))"

text \<open>The body of the loop: \<open>coupled\<close> is \<open>MetalAdam\<close>, otherwise \<open>MetalAdamW\<close>.\<close>

definition adam_grad :: "bool \<Rightarrow> ('d, 'h, 'c) env \<Rightarrow> adam \<Rightarrow> 'h param \<Rightarrow> ndarray \<Rightarrow> ndarray res" where
  "adam_grad coupled E cfg p g = (if coupled then l2_grad E cfg p g else Inr g)"

definition decayed :: "np_arith \<Rightarrow> adam \<Rightarrow> ndarray \<Rightarrow> ndarray" where
  "decayed A cfg x =
     (if weight_decay cfg \<noteq> 0 then a_scale A (1 - lr cfg * weight_decay cfg) x else x)"

definition adam_new ::
  "bool \<Rightarrow> ('d, 'h, 'c) env \<Rightarrow> adam \<Rightarrow> 'h param \<Rightarrow> ndarray \<Rightarrow> ndarray \<Rightarrow> ndarray res" where
  "adam_new coupled E cfg p m v2 =
     (if coupled
      then bindR (adam_update (e_arith E) cfg m v2) (\<lambda>u.
           bindR (to_np E (p_content p)) (\<lambda>x. a_add (e_arith E) x u))
      else bindR (to_np E (p_content p)) (\<lambda>x.
           bindR (adam_update (e_arith E) cfg m v2) (\<lambda>u.
           a_add (e_arith E) (decayed (e_arith E) cfg x) u)))"

definition adam_param :: "bool \<Rightarrow> ('d, 'h, 'c) env \<Rightarrow> adam \<Rightarrow> nat \<Rightarrow> ('h adam_world, unit) st" where
  "adam_param coupled E cfg i = bindS (read_param i) (\<lambda>p.
     case grad_of p of
       None \<Rightarrow> returnS ()
     | Some g \<Rightarrow>
         bindS (ensure_moments E i g) (\<lambda>_.
         bindS (liftS (to_np E g)) (\<lambda>g0.
         bindS (liftS (adam_grad coupled E cfg p g0)) (\<lambda>g1.
         bindS (update_m (e_arith E) cfg i g1) (\<lambda>_.
         bindS (update_v (e_arith E) cfg i g1) (\<lambda>_.
         bindS (second_moment (e_arith E) cfg i) (\<lambda>v2.
         bindS (read_moments i) (\<lambda>s.
         bindS (liftS (adam_new coupled E cfg p (mom_m s) v2)) (\<lambda>x.
         write_param E i x)))))))))"

section \<open>The step\<close>

text \<open>
  The closure may compute gradients, that is change the heap. The options of the optimizer are
  not changed by a step, so the loop reads them once.
\<close>

definition count_step :: "('h adam_world, unit) st" where
  "count_step = (\<lambda>w. (Inr (), w\<lparr>w_opt := (w_opt w)\<lparr>step_count := Suc (step_count (w_opt w))\<rparr>\<rparr>))"

definition adam_loop :: "bool \<Rightarrow> ('d, 'h, 'c) env \<Rightarrow> ('h adam_world, unit) st" where
  "adam_loop coupled E = (\<lambda>w. forS (adam_param coupled E (w_opt w)) (concat (param_groups (w_opt w))) w)"

definition Adam_step ::
  "('d, 'h, 'c) env \<Rightarrow> ('h adam_world, real) st option \<Rightarrow> ('h adam_world, real option) st" where
  "Adam_step E cl = bindS (run_closure cl) (\<lambda>loss.
     bindS count_step (\<lambda>_. bindS (adam_loop True E) (\<lambda>_. returnS loss)))"

definition AdamW_step ::
  "('d, 'h, 'c) env \<Rightarrow> ('h adam_world, real) st option \<Rightarrow> ('h adam_world, real option) st" where
  "AdamW_step E cl = bindS (run_closure cl) (\<lambda>loss.
     bindS count_step (\<lambda>_. bindS (adam_loop False E) (\<lambda>_. returnS loss)))"

definition Adam_zero_grad :: "'h adam_world \<Rightarrow> 'h adam_world" where
  "Adam_zero_grad w = w\<lparr>w_heap := zero_grad (param_groups (w_opt w)) (w_heap w)\<rparr>"

section \<open>Saving and loading\<close>

record adam_dict =
  d_state :: "(nat, moments) dict"
  d_param_groups :: "nat list list"
  d_step_count :: nat

definition Adam_state_dict :: "adam \<Rightarrow> adam_dict" where
  "Adam_state_dict cfg = \<lparr>d_state = opt_state cfg, d_param_groups = param_groups cfg, d_step_count = step_count cfg\<rparr>"

definition Adam_load_state_dict :: "adam_dict \<Rightarrow> adam \<Rightarrow> adam" where
  "Adam_load_state_dict d cfg =
     cfg\<lparr>opt_state := d_state d, param_groups := d_param_groups d, step_count := d_step_count d\<rparr>"

end
