(* ===== verification/AdamProps.thy ===== *)
theory AdamProps
  imports Adam
begin

text \<open>
  Correctness of the Adam optimizers. One step on a parameter is, element by element, the step
  \<open>adam_cell\<close> on real numbers; the properties of the algorithm (bias correction, sign of the
  second moment, bound of the first step) are proved on \<open>adam_cell\<close>.
\<close>

section \<open>The step on one element\<close>

record cell =
  c_m :: real
  c_v :: real
  c_vmax :: real
  c_x :: real

definition adam_cell :: "bool \<Rightarrow> adam \<Rightarrow> real \<Rightarrow> cell \<Rightarrow> cell" where
  "adam_cell coupled cfg g c =
     (let g' = (if coupled then g + weight_decay cfg * c_x c else g);
          m = beta1 cfg * c_m c + (1 - beta1 cfg) * g';
          v = beta2 cfg * c_v c + (1 - beta2 cfg) * g'\<^sup>2;
          vm = (if amsgrad cfg then max (c_vmax c) v else c_vmax c);
          m_hat = m / (1 - beta1 cfg ^ step_count cfg);
          v_hat = (if amsgrad cfg then vm else v) / (1 - beta2 cfg ^ step_count cfg);
          x = (if coupled then c_x c else (1 - lr cfg * weight_decay cfg) * c_x c)
      in \<lparr>c_m = m, c_v = v, c_vmax = vm, c_x = x + - lr cfg * m_hat / (sqrt v_hat + eps cfg)\<rparr>)"

text \<open>The options as the constructor accepts them, with a positive \<open>eps\<close> and at least one step.\<close>

definition options_ok :: "adam \<Rightarrow> bool" where
  "options_ok cfg \<longleftrightarrow> 0 \<le> lr cfg \<and> 0 \<le> beta1 cfg \<and> beta1 cfg < 1 \<and> 0 \<le> beta2 cfg \<and> beta2 cfg < 1
     \<and> 0 < eps cfg \<and> 0 \<le> weight_decay cfg \<and> 0 < step_count cfg"

lemma bias_correction_pos: "0 \<le> b \<Longrightarrow> b < 1 \<Longrightarrow> 0 < t \<Longrightarrow> 0 < bias_correction b t"
  by (simp add: bias_correction_def power_less_one_iff power_Suc_less_one)

section \<open>Array by array\<close>

context array_laws
begin

lemma add_at: "alike a b \<Longrightarrow> \<exists>c. a_add A a b = Inr c \<and> alike a c
    \<and> (\<forall>j<length (nd_elems a). nd_elems c ! j = nd_elems a ! j + nd_elems b ! j)"
  using add [of a b] alike_length [of a b] by auto

lemma combine_at: "alike a b \<Longrightarrow> \<exists>c. a_add A (a_scale A r a) (a_scale A s b) = Inr c \<and> alike a c
    \<and> (\<forall>j<length (nd_elems a). nd_elems c ! j = r * nd_elems a ! j + s * nd_elems b ! j)"
  using combine [of a b r s] alike_length [of a b] by auto

lemma l2_grad_at:
  assumes "e_arith E = A" "to_np E (p_content p) = Inr x" "alike g x"
  shows "\<exists>g'. l2_grad E cfg p g = Inr g' \<and> alike g g'
    \<and> (\<forall>j<length (nd_elems g). nd_elems g' ! j = nd_elems g ! j + weight_decay cfg * nd_elems x ! j)"
proof (cases "weight_decay cfg = 0")
  case True
  then show ?thesis using assms(3) alike_plain by (auto simp: l2_grad_def)
next
  case False
  have sc: "alike x (a_scale A (weight_decay cfg) x)"
    "nd_elems (a_scale A (weight_decay cfg) x) = map ((*) (weight_decay cfg)) (nd_elems x)"
    using scale [OF alike_plain(2) [OF assms(3)]] by auto
  from add_at [OF alike_trans [OF assms(3) sc(1)]] False sc(2) assms alike_length [OF assms(3)]
  show ?thesis by (auto simp: l2_grad_def)
qed

lemma adam_update_at:
  assumes cfg: "options_ok cfg" and a: "alike m v2" and nn: "\<forall>x \<in> set (nd_elems v2). 0 \<le> x"
  shows "\<exists>u. adam_update A cfg m v2 = Inr u \<and> alike m u \<and> (\<forall>j<length (nd_elems m). nd_elems u ! j =
    - lr cfg * (nd_elems m ! j / bias_correction (beta1 cfg) (step_count cfg)) /
      (sqrt (nd_elems v2 ! j / bias_correction (beta2 cfg) (step_count cfg)) + eps cfg))"
proof -
  let ?b1 = "bias_correction (beta1 cfg) (step_count cfg)" and ?b2 = "bias_correction (beta2 cfg) (step_count cfg)"
  have b: "0 < ?b1" "0 < ?b2" using cfg by (simp_all add: options_ok_def bias_correction_pos)
  have p: "plain_array m" "plain_array v2" using a alike_plain by auto
  have n1: "alike m (a_div_by A m ?b1)" "nd_elems (a_div_by A m ?b1) = map (\<lambda>x. x / ?b1) (nd_elems m)"
    using div_by [OF p(1), of ?b1] b by auto
  have num: "alike m (a_scale A (- lr cfg) (a_div_by A m ?b1))"
    "nd_elems (a_scale A (- lr cfg) (a_div_by A m ?b1)) = map (\<lambda>x. - lr cfg * (x / ?b1)) (nd_elems m)"
    using scale [OF alike_plain(2) [OF n1(1)], of "- lr cfg"] n1 alike_trans by (auto simp: comp_def)
  have d1: "alike v2 (a_div_by A v2 ?b2)" "nd_elems (a_div_by A v2 ?b2) = map (\<lambda>x. x / ?b2) (nd_elems v2)"
    using div_by [OF p(2), of ?b2] b by auto
  have "\<forall>x \<in> set (nd_elems (a_div_by A v2 ?b2)). 0 \<le> x" using nn b by (simp add: d1)
  from sqrt [OF alike_plain(2) [OF d1(1)] this]
  have d2: "alike v2 (a_sqrt A (a_div_by A v2 ?b2))"
    "nd_elems (a_sqrt A (a_div_by A v2 ?b2)) = map (\<lambda>x. sqrt (x / ?b2)) (nd_elems v2)"
    using d1 alike_trans by (auto simp: comp_def)
  let ?den = "a_shift A (a_sqrt A (a_div_by A v2 ?b2)) (eps cfg)"
  have den: "alike v2 ?den" "nd_elems ?den = map (\<lambda>x. sqrt (x / ?b2) + eps cfg) (nd_elems v2)"
    using shift [OF alike_plain(2) [OF d2(1)], of "eps cfg"] d2 alike_trans by (auto simp: comp_def)
  have "0 \<notin> set (nd_elems ?den)"
    using nn b cfg by (auto simp: den options_ok_def) (smt (verit) divide_nonneg_pos real_sqrt_ge_zero)
  from div [OF alike_trans [OF alike_sym [OF num(1)] alike_trans [OF a den(1)]] this] num den
  show ?thesis using alike_length [OF a] alike_trans [OF num(1)] by (auto simp: adam_update_def)
qed

end

section \<open>One parameter\<close>

definition put_moments :: "nat \<Rightarrow> moments \<Rightarrow> 'h adam_world \<Rightarrow> 'h adam_world" where
  "put_moments i s w = w\<lparr>w_opt := (w_opt w)\<lparr>opt_state := dict_set i s (opt_state (w_opt w))\<rparr>\<rparr>"

lemma put_moments_simps [simp]:
  "w_heap (put_moments i s w) = w_heap w"
  "put_moments i s (put_moments i s' w) = put_moments i s w"
  "read_moments i (put_moments i s w) = (Inr s, put_moments i s w)"
  "write_moments i s w = (Inr (), put_moments i s w)"
  by (simp_all add: put_moments_def read_moments_def write_moments_def dict_get_set)

text \<open>Moments that fit an array: its shape, a non-negative second moment, and the maximum of AMSGrad.\<close>

definition moments_for :: "adam \<Rightarrow> ndarray \<Rightarrow> moments \<Rightarrow> bool" where
  "moments_for cfg a s \<longleftrightarrow> alike a (mom_m s) \<and> alike a (mom_v s) \<and> (\<forall>x \<in> set (nd_elems (mom_v s)). 0 \<le> x)
     \<and> (amsgrad cfg \<longrightarrow> (\<exists>vm. mom_v_max s = Some vm \<and> alike a vm \<and> (\<forall>x \<in> set (nd_elems vm). 0 \<le> x)))"

definition cell_of :: "moments \<Rightarrow> ndarray \<Rightarrow> nat \<Rightarrow> cell" where
  "cell_of s x j = \<lparr>c_m = nd_elems (mom_m s) ! j, c_v = nd_elems (mom_v s) ! j,
     c_vmax = (case mom_v_max s of None \<Rightarrow> 0 | Some vm \<Rightarrow> nd_elems vm ! j), c_x = nd_elems x ! j\<rparr>"

definition zero_moments :: "np_arith \<Rightarrow> adam \<Rightarrow> ndarray \<Rightarrow> moments" where
  "zero_moments A cfg a = \<lparr>mom_m = a_zeros_like A a, mom_v = a_zeros_like A a,
     mom_v_max = (if amsgrad cfg then Some (a_zeros_like A a) else None)\<rparr>"

text \<open>The moments a step starts from: those in the state, or zeros.\<close>

definition moments_before :: "('d, 'h, 'c) env \<Rightarrow> adam \<Rightarrow> nat \<Rightarrow> ndarray \<Rightarrow> moments" where
  "moments_before E cfg i g = (case dict_get (opt_state cfg) i of
     Some s \<Rightarrow> s | None \<Rightarrow> zero_moments (e_arith E) cfg g)"

text \<open>
  A parameter whose update a step computes: it reads as the array \<open>a\<close> and its gradient as the
  array \<open>g\<close>. It is ready if the update can be written as well.
\<close>

definition has_update :: "('d, 'h, 'c) env \<Rightarrow> adam \<Rightarrow> nat \<Rightarrow> 'h param \<Rightarrow> ndarray \<Rightarrow> ndarray \<Rightarrow> bool" where
  "has_update E cfg i p g a \<longleftrightarrow> p_hashable p \<and> (\<exists>gc. grad_of p = Some gc \<and> to_np E gc = Inr g)
     \<and> alike a g \<and> to_np E (p_content p) = Inr a \<and> moments_for cfg a (moments_before E cfg i g)"

definition ready_param :: "('d, 'h, 'c) env \<Rightarrow> adam \<Rightarrow> nat \<Rightarrow> 'h param \<Rightarrow> ndarray \<Rightarrow> ndarray \<Rightarrow> bool" where
  "ready_param E cfg i p g a \<longleftrightarrow> has_update E cfg i p g a \<and> holds_array E p a"

lemma zero_moments_for:
  assumes "array_laws A" "alike a g"
  shows "moments_for cfg a (zero_moments A cfg g)"
  using array_laws.zeros [OF assms(1) alike_plain(2) [OF assms(2)]] alike_trans [OF assms(2)]
  by (auto simp: moments_for_def zero_moments_def)

lemma ensure_moments_ready:
  assumes "has_update E cfg i (w_heap w i) g a" "grad_of (w_heap w i) = Some gc" "w_opt w = cfg"
  shows "ensure_moments E i gc w = (Inr (), put_moments i (moments_before E cfg i g) w)"
proof (cases "dict_get (opt_state cfg) i")
  case None
  with assms show ?thesis
    by (auto simp: ensure_moments_def has_update_def moments_before_def zero_moments_def dict_has_get)
next
  case (Some s)
  with assms have "put_moments i s w = w" by (simp add: put_moments_def dict_set_same)
  with Some assms show ?thesis
    by (auto simp: ensure_moments_def has_update_def moments_before_def dict_has_get)
qed

context array_laws
begin

lemma update_m_at:
  assumes "alike a (mom_m s)" "alike a g"
  shows "\<exists>m. update_m A cfg i g (put_moments i s w) = (Inr (), put_moments i (s\<lparr>mom_m := m\<rparr>) w) \<and> alike a m
    \<and> (\<forall>j<length (nd_elems a). nd_elems m ! j = beta1 cfg * nd_elems (mom_m s) ! j + (1 - beta1 cfg) * nd_elems g ! j)"
proof -
  have "alike (mom_m s) g" using assms alike_sym alike_trans by blast
  from combine_at [OF this, of "beta1 cfg" "1 - beta1 cfg"] obtain c where
    "a_add A (a_scale A (beta1 cfg) (mom_m s)) (a_scale A (1 - beta1 cfg) g) = Inr c" "alike (mom_m s) c"
    "\<forall>j<length (nd_elems (mom_m s)). nd_elems c ! j = beta1 cfg * nd_elems (mom_m s) ! j + (1 - beta1 cfg) * nd_elems g ! j"
    by blast
  then show ?thesis using alike_length [OF assms(1)] alike_trans [OF assms(1)]
    by (auto simp: update_m_def bindS_def)
qed

lemma update_v_at:
  assumes "alike a (mom_v s)" "alike a g" "\<forall>x \<in> set (nd_elems (mom_v s)). 0 \<le> x" "0 \<le> beta2 cfg" "beta2 cfg < 1"
  shows "\<exists>v. update_v A cfg i g (put_moments i s w) = (Inr (), put_moments i (s\<lparr>mom_v := v\<rparr>) w) \<and> alike a v
    \<and> (\<forall>j<length (nd_elems a). nd_elems v ! j = beta2 cfg * nd_elems (mom_v s) ! j + (1 - beta2 cfg) * (nd_elems g ! j)\<^sup>2)
    \<and> (\<forall>x \<in> set (nd_elems v). 0 \<le> x)"
proof -
  have sq: "alike g (a_square A g)" "nd_elems (a_square A g) = map (\<lambda>x. x\<^sup>2) (nd_elems g)"
    using square [OF alike_plain(2) [OF assms(2)]] by auto
  have "alike (mom_v s) (a_square A g)" using assms(1,2) sq(1) alike_sym alike_trans by blast
  from combine_at [OF this] obtain v where v:
    "a_add A (a_scale A (beta2 cfg) (mom_v s)) (a_scale A (1 - beta2 cfg) (a_square A g)) = Inr v" "alike (mom_v s) v"
    "\<forall>j<length (nd_elems (mom_v s)). nd_elems v ! j =
        beta2 cfg * nd_elems (mom_v s) ! j + (1 - beta2 cfg) * nd_elems (a_square A g) ! j" by blast
  have at: "\<forall>j<length (nd_elems a). nd_elems v ! j = beta2 cfg * nd_elems (mom_v s) ! j + (1 - beta2 cfg) * (nd_elems g ! j)\<^sup>2"
    using v(3) alike_length [OF assms(1)] alike_length [OF assms(2)] by (simp add: sq(2))
  have "0 \<le> x" if x: "x \<in> set (nd_elems v)" for x
  proof -
    from x obtain j where j: "j < length (nd_elems v)" "x = nd_elems v ! j" by (auto simp: in_set_conv_nth)
    then have ja: "j < length (nd_elems (mom_v s))" "j < length (nd_elems a)"
      using alike_length [OF v(2)] alike_length [OF assms(1)] by simp_all
    then have "0 \<le> nd_elems (mom_v s) ! j" using assms(3) by simp
    with at ja j assms(4,5) show ?thesis by simp
  qed
  with v(1) at alike_trans [OF assms(1) v(2)] show ?thesis by (auto simp: update_v_def bindS_def)
qed

text \<open>The second moment that enters the update, and the moments it leaves behind.\<close>

lemma second_moment_at:
  assumes "moments_for cfg a s"
  shows "\<exists>v2 s'. second_moment A cfg i (put_moments i s w) = (Inr v2, put_moments i s' w)
    \<and> moments_for cfg a s' \<and> mom_m s' = mom_m s \<and> mom_v s' = mom_v s \<and> alike a v2
    \<and> (\<forall>x \<in> set (nd_elems v2). 0 \<le> x)
    \<and> (\<forall>j<length (nd_elems a). nd_elems v2 ! j = (if amsgrad cfg then c_vmax (cell_of s' a j) else nd_elems (mom_v s) ! j)
        \<and> c_vmax (cell_of s' a j) = (if amsgrad cfg then max (c_vmax (cell_of s a j)) (nd_elems (mom_v s) ! j)
             else c_vmax (cell_of s a j)))"
proof (cases "amsgrad cfg")
  case False
  with assms show ?thesis
    by (intro exI [of _ "mom_v s"] exI [of _ s]) (auto simp: second_moment_def bindS_def moments_for_def)
next
  case True
  with assms obtain vm where vm: "mom_v_max s = Some vm" "alike a vm" "\<forall>x \<in> set (nd_elems vm). 0 \<le> x"
    and v: "alike a (mom_v s)" "\<forall>x \<in> set (nd_elems (mom_v s)). 0 \<le> x" by (auto simp: moments_for_def)
  have "alike vm (mom_v s)" using vm(2) v(1) alike_sym alike_trans by blast
  from maximum [OF this] obtain c where c: "a_maximum A vm (mom_v s) = Inr c" "alike vm c"
    "nd_elems c = map2 max (nd_elems vm) (nd_elems (mom_v s))" by blast
  have ac: "alike a c" using vm(2) c(2) alike_trans by blast
  have nn: "\<forall>x \<in> set (nd_elems c). 0 \<le> x"
    using vm(3) by (auto simp: c(3) le_max_iff_disj dest: set_zip_leftD)
  have "second_moment A cfg i (put_moments i s w) = (Inr c, put_moments i (s\<lparr>mom_v_max := Some c\<rparr>) w)"
    by (simp add: second_moment_def bindS_def True vm(1) c(1))
  moreover have "moments_for cfg a (s\<lparr>mom_v_max := Some c\<rparr>)"
    using assms ac nn by (simp add: moments_for_def)
  moreover have "\<forall>j<length (nd_elems a). nd_elems c ! j = max (nd_elems vm ! j) (nd_elems (mom_v s) ! j)"
    using alike_length [OF vm(2)] alike_length [OF v(1)] by (simp add: c(3))
  ultimately show ?thesis using ac nn True vm(1)
    by (intro exI [of _ c] exI [of _ "s\<lparr>mom_v_max := Some c\<rparr>"]) (simp add: cell_of_def)
qed

lemma decayed_at:
  "plain_array x \<Longrightarrow> alike x (decayed A cfg x)
    \<and> (\<forall>j<length (nd_elems x). nd_elems (decayed A cfg x) ! j = (1 - lr cfg * weight_decay cfg) * nd_elems x ! j)"
  using scale [of x "1 - lr cfg * weight_decay cfg"] by (auto simp: decayed_def)

text \<open>The new content of the parameter.\<close>

lemma adam_new_at:
  assumes "e_arith E = A" "to_np E (p_content p) = Inr x" "options_ok cfg"
    and "alike x m" "alike x v2" "\<forall>y \<in> set (nd_elems v2). 0 \<le> y"
  shows "\<exists>x'. adam_new coupled E cfg p m v2 = Inr x' \<and> alike x x' \<and> (\<forall>j<length (nd_elems x). nd_elems x' ! j =
    (if coupled then nd_elems x ! j else (1 - lr cfg * weight_decay cfg) * nd_elems x ! j)
    + - lr cfg * (nd_elems m ! j / bias_correction (beta1 cfg) (step_count cfg)) /
      (sqrt (nd_elems v2 ! j / bias_correction (beta2 cfg) (step_count cfg)) + eps cfg))"
proof -
  have mv: "alike m v2" using assms(4,5) alike_sym alike_trans by blast
  obtain u where u: "adam_update A cfg m v2 = Inr u" "alike m u" "\<forall>j<length (nd_elems m). nd_elems u ! j =
      - lr cfg * (nd_elems m ! j / bias_correction (beta1 cfg) (step_count cfg)) /
        (sqrt (nd_elems v2 ! j / bias_correction (beta2 cfg) (step_count cfg)) + eps cfg)"
    using adam_update_at [OF assms(3) mv assms(6)] by blast
  have xu: "alike x u" using assms(4) u(2) alike_trans by blast
  have len: "length (nd_elems m) = length (nd_elems x)" using alike_length [OF assms(4)] by simp
  show ?thesis
  proof (cases coupled)
    case True
    with add_at [OF xu] u(1,3) len show ?thesis by (auto simp: adam_new_def assms(1,2))
  next
    case False
    have d: "alike x (decayed A cfg x)" "\<forall>j<length (nd_elems x). nd_elems (decayed A cfg x) ! j
        = (1 - lr cfg * weight_decay cfg) * nd_elems x ! j"
      using decayed_at [OF alike_plain(1) [OF xu]] by auto
    have "alike (decayed A cfg x) u" using d(1) xu alike_sym alike_trans by blast
    from add_at [OF this] alike_trans [OF d(1)] alike_length [OF d(1)] False d(2) u(1,3) len
    show ?thesis by (auto simp: adam_new_def assms(1,2))
  qed
qed

text \<open>
  One iteration of the loop up to the write: the new moments are stored and the new array is
  \<open>adam_cell\<close> on every element.
\<close>

lemma adam_param_computes:
  assumes E: "e_arith E = A" and cfg: "options_ok cfg" "w_opt w = cfg"
    and up: "has_update E cfg i (w_heap w i) g a"
  shows "\<exists>s' x. adam_param coupled E cfg i w = write_param E i x (put_moments i s' w)
    \<and> moments_for cfg x s' \<and> alike a x
    \<and> (\<forall>j<length (nd_elems a). cell_of s' x j =
         adam_cell coupled cfg (nd_elems g ! j) (cell_of (moments_before E cfg i g) a j))"
proof -
  let ?p = "w_heap w i" and ?s = "moments_before E cfg i g"
  from up obtain gc where gc: "grad_of ?p = Some gc" "to_np E gc = Inr g" and ag: "alike a g"
    and xa: "to_np E (p_content ?p) = Inr a" and mo: "moments_for cfg a ?s" by (auto simp: has_update_def)
  obtain g1 where g1: "adam_grad coupled E cfg ?p g = Inr g1" "alike g g1"
    "\<forall>j<length (nd_elems g). nd_elems g1 ! j = (if coupled then nd_elems g ! j + weight_decay cfg * nd_elems a ! j else nd_elems g ! j)"
    using l2_grad_at [OF E xa alike_sym [OF ag], of cfg] alike_plain(2) [OF ag]
    by (cases coupled) (auto simp: adam_grad_def)
  have ag1: "alike a g1" using ag g1(2) alike_trans by blast
  from update_m_at [OF _ ag1, of ?s cfg i w] mo obtain m where m:
    "update_m A cfg i g1 (put_moments i ?s w) = (Inr (), put_moments i (?s\<lparr>mom_m := m\<rparr>) w)" "alike a m"
    "\<forall>j<length (nd_elems a). nd_elems m ! j = beta1 cfg * nd_elems (mom_m ?s) ! j + (1 - beta1 cfg) * nd_elems g1 ! j"
    by (auto simp: moments_for_def)
  from update_v_at [OF _ ag1, of "?s\<lparr>mom_m := m\<rparr>" cfg i w] mo cfg(1) obtain v where v:
    "update_v A cfg i g1 (put_moments i (?s\<lparr>mom_m := m\<rparr>) w) = (Inr (), put_moments i (?s\<lparr>mom_m := m, mom_v := v\<rparr>) w)"
    "alike a v" "\<forall>x \<in> set (nd_elems v). 0 \<le> x"
    "\<forall>j<length (nd_elems a). nd_elems v ! j = beta2 cfg * nd_elems (mom_v ?s) ! j + (1 - beta2 cfg) * (nd_elems g1 ! j)\<^sup>2"
    by (auto simp: moments_for_def options_ok_def)
  let ?s2 = "?s\<lparr>mom_m := m, mom_v := v\<rparr>"
  have mo2: "moments_for cfg a ?s2" using mo m(2) v(2,3) by (simp add: moments_for_def)
  from second_moment_at [OF mo2, of i w] obtain v2 s' where s':
    "second_moment A cfg i (put_moments i ?s2 w) = (Inr v2, put_moments i s' w)"
    "moments_for cfg a s'" "mom_m s' = m" "mom_v s' = v" "alike a v2" "\<forall>x \<in> set (nd_elems v2). 0 \<le> x"
    "\<forall>j<length (nd_elems a). nd_elems v2 ! j = (if amsgrad cfg then c_vmax (cell_of s' a j) else nd_elems v ! j)
       \<and> c_vmax (cell_of s' a j) = (if amsgrad cfg then max (c_vmax (cell_of ?s2 a j)) (nd_elems v ! j)
            else c_vmax (cell_of ?s2 a j))" by (auto simp del: put_moments_simps)
  from adam_new_at [OF E xa cfg(1) m(2) s'(5,6), of coupled] obtain x where x:
    "adam_new coupled E cfg ?p m v2 = Inr x" "alike a x" "\<forall>j<length (nd_elems a). nd_elems x ! j =
      (if coupled then nd_elems a ! j else (1 - lr cfg * weight_decay cfg) * nd_elems a ! j)
      + - lr cfg * (nd_elems m ! j / bias_correction (beta1 cfg) (step_count cfg)) /
        (sqrt (nd_elems v2 ! j / bias_correction (beta2 cfg) (step_count cfg)) + eps cfg)" by blast
  have "adam_param coupled E cfg i w = write_param E i x (put_moments i s' w)"
    using ensure_moments_ready [OF up gc(1) cfg(2)] gc g1(1) m(1) v(1) s'(1,3) x(1)
    by (simp add: adam_param_def bindS_def read_param_def E)
  moreover have "moments_for cfg x s'"
    using s'(2) x(2) alike_sym alike_trans unfolding moments_for_def by meson
  moreover have "cell_of s' x j = adam_cell coupled cfg (nd_elems g ! j) (cell_of ?s a j)"
    if j: "j < length (nd_elems a)" for j
    using j m(3) v(4) s'(3,4,7) x(3) g1(3) alike_length [OF ag]
    by (simp add: adam_cell_def cell_of_def Let_def bias_correction_def)
  ultimately show ?thesis using x(2) by blast
qed

lemma adam_param_cells:
  assumes E: "e_arith E = A" and cfg: "options_ok cfg" "w_opt w = cfg"
    and rd: "ready_param E cfg i (w_heap w i) g a"
  shows "\<exists>s' x c. adam_param coupled E cfg i w =
      (Inr (), (put_moments i s' w)\<lparr>w_heap := (w_heap w)(i := (w_heap w i)\<lparr>p_content := c\<rparr>)\<rparr>)
    \<and> moments_for cfg x s' \<and> alike a x \<and> holds_array E ((w_heap w i)\<lparr>p_content := c\<rparr>) x
    \<and> (\<forall>j<length (nd_elems a). cell_of s' x j =
         adam_cell coupled cfg (nd_elems g ! j) (cell_of (moments_before E cfg i g) a j))"
proof -
  from rd have up: "has_update E cfg i (w_heap w i) g a" and ho: "holds_array E (w_heap w i) a"
    by (simp_all add: ready_param_def)
  from adam_param_computes [OF E cfg up, of coupled] obtain s' x where x:
    "adam_param coupled E cfg i w = write_param E i x (put_moments i s' w)" "moments_for cfg x s'" "alike a x"
    "\<forall>j<length (nd_elems a). cell_of s' x j =
         adam_cell coupled cfg (nd_elems g ! j) (cell_of (moments_before E cfg i g) a j)" by blast
  obtain c where c: "new_content E (w_heap w i) x = Inr c" "holds_array E ((w_heap w i)\<lparr>p_content := c\<rparr>) x"
    using new_content_holds [OF ho x(3)] array_laws_axioms by (auto simp: E)
  with x show ?thesis
    by (intro exI [of _ s'] exI [of _ x] exI [of _ c]) (simp add: write_param_def)
qed

end

section \<open>The loop and the step\<close>

lemma adam_options:
  "adam_grad coupled E (cfg\<lparr>opt_state := d\<rparr>) = adam_grad coupled E cfg"
  "update_m A (cfg\<lparr>opt_state := d\<rparr>) = update_m A cfg"
  "update_v A (cfg\<lparr>opt_state := d\<rparr>) = update_v A cfg"
  "second_moment A (cfg\<lparr>opt_state := d\<rparr>) = second_moment A cfg"
  "adam_new coupled E (cfg\<lparr>opt_state := d\<rparr>) = adam_new coupled E cfg"
  by (simp_all add: fun_eq_iff adam_grad_def l2_grad_def update_m_def update_v_def second_moment_def
      adam_new_def adam_update_def decayed_def cong: if_cong)

lemma adam_param_options: "adam_param coupled E (cfg\<lparr>opt_state := d\<rparr>) i = adam_param coupled E cfg i"
  unfolding adam_param_def adam_options ..

text \<open>What a step does to one parameter: nothing without a gradient, otherwise \<open>adam_cell\<close>.\<close>

definition stepped :: "bool \<Rightarrow> ('d, 'h, 'c) env \<Rightarrow> 'h adam_world \<Rightarrow> 'h adam_world \<Rightarrow> nat \<Rightarrow> bool" where
  "stepped coupled E w w' i \<longleftrightarrow>
     (grad_of (w_heap w i) = None \<longrightarrow> w_heap w' i = w_heap w i
        \<and> dict_get (opt_state (w_opt w')) i = dict_get (opt_state (w_opt w)) i)
   \<and> (\<forall>g a. ready_param E (w_opt w) i (w_heap w i) g a \<longrightarrow>
        (\<exists>s x c. dict_get (opt_state (w_opt w')) i = Some s \<and> moments_for (w_opt w) x s
          \<and> w_heap w' i = (w_heap w i)\<lparr>p_content := c\<rparr> \<and> holds_array E (w_heap w' i) x \<and> alike a x
          \<and> (\<forall>j<length (nd_elems a). cell_of s x j =
               adam_cell coupled (w_opt w) (nd_elems g ! j) (cell_of (moments_before E (w_opt w) i g) a j))))"

lemma steppedD:
  assumes "stepped coupled E w w' i" "ready_param E (w_opt w) i (w_heap w i) g a"
  obtains s x c where "dict_get (opt_state (w_opt w')) i = Some s" "moments_for (w_opt w) x s"
    "w_heap w' i = (w_heap w i)\<lparr>p_content := c\<rparr>" "holds_array E (w_heap w' i) x" "alike a x"
    "\<forall>j<length (nd_elems a). cell_of s x j =
       adam_cell coupled (w_opt w) (nd_elems g ! j) (cell_of (moments_before E (w_opt w) i g) a j)"
  using assms unfolding stepped_def by blast

text \<open>The frame: other parameters, their moments and the options stay.\<close>

definition outside_same :: "nat set \<Rightarrow> 'h adam_world \<Rightarrow> 'h adam_world \<Rightarrow> bool" where
  "outside_same I w w' \<longleftrightarrow> (\<exists>d. w_opt w' = (w_opt w)\<lparr>opt_state := d\<rparr>)
     \<and> (\<forall>i. i \<notin> I \<longrightarrow> w_heap w' i = w_heap w i
          \<and> dict_get (opt_state (w_opt w')) i = dict_get (opt_state (w_opt w)) i)"

definition steppable :: "('d, 'h, 'c) env \<Rightarrow> 'h adam_world \<Rightarrow> nat \<Rightarrow> bool" where
  "steppable E w i \<longleftrightarrow> grad_of (w_heap w i) = None \<or> (\<exists>g a. ready_param E (w_opt w) i (w_heap w i) g a)"

lemma ready_param_frame:
  "outside_same I w w' \<Longrightarrow> i \<notin> I \<Longrightarrow> ready_param E (w_opt w') i p g a = ready_param E (w_opt w) i p g a"
  by (auto simp: outside_same_def ready_param_def has_update_def moments_before_def moments_for_def zero_moments_def
      split: option.splits)

lemma adam_cell_options: "adam_cell coupled (cfg\<lparr>opt_state := d\<rparr>) = adam_cell coupled cfg"
  by (simp add: adam_cell_def fun_eq_iff)

lemma stepped_frame:
  assumes o: "outside_same I w w1" "i \<notin> I" and st: "stepped coupled E w1 w2 i"
  shows "stepped coupled E w w2 i"
proof -
  from o obtain d where d: "w_opt w1 = (w_opt w)\<lparr>opt_state := d\<rparr>" and h: "w_heap w1 i = w_heap w i"
    and g: "dict_get (opt_state (w_opt w1)) i = dict_get (opt_state (w_opt w)) i" by (auto simp: outside_same_def)
  have mb: "moments_before E (w_opt w1) i a = moments_before E (w_opt w) i a" for a
  proof -
    have "amsgrad (w_opt w1) = amsgrad (w_opt w)" by (simp add: d)
    then show ?thesis unfolding moments_before_def zero_moments_def g by (simp cong: option.case_cong)
  qed
  have mf: "moments_for (w_opt w1) = moments_for (w_opt w)" by (simp add: moments_for_def d fun_eq_iff)
  have ac: "adam_cell coupled (w_opt w1) = adam_cell coupled (w_opt w)" by (simp only: d adam_cell_options)
  show ?thesis
    using st unfolding stepped_def h g mb mf ac ready_param_frame [OF o] .
qed

lemma adam_param_stepped:
  assumes A: "array_laws (e_arith E)" and cfg: "options_ok (w_opt w)" and s: "steppable E w i"
  shows "\<exists>w'. adam_param coupled E (w_opt w) i w = (Inr (), w') \<and> outside_same {i} w w' \<and> stepped coupled E w w' i"
proof (cases "grad_of (w_heap w i)")
  case None
  then have "adam_param coupled E (w_opt w) i w = (Inr (), w)"
    by (simp add: adam_param_def bindS_def read_param_def)
  moreover have "outside_same {i} w w" by (simp add: outside_same_def) (metis adam.surjective adam.update_convs(8))
  moreover have "stepped coupled E w w i" using None by (simp add: stepped_def ready_param_def has_update_def)
  ultimately show ?thesis by blast
next
  case (Some gc)
  with s obtain g a where rd: "ready_param E (w_opt w) i (w_heap w i) g a" by (auto simp: steppable_def)
  have uniq: "g' = g \<and> a' = a" if "ready_param E (w_opt w) i (w_heap w i) g' a'" for g' a'
    using rd that by (auto simp: ready_param_def has_update_def)
  from array_laws.adam_param_cells [OF A refl cfg refl rd, of coupled] obtain s' x c where r:
    "adam_param coupled E (w_opt w) i w =
      (Inr (), (put_moments i s' w)\<lparr>w_heap := (w_heap w)(i := (w_heap w i)\<lparr>p_content := c\<rparr>)\<rparr>)"
    "moments_for (w_opt w) x s'" "alike a x" "holds_array E ((w_heap w i)\<lparr>p_content := c\<rparr>) x"
    "\<forall>j<length (nd_elems a). cell_of s' x j =
         adam_cell coupled (w_opt w) (nd_elems g ! j) (cell_of (moments_before E (w_opt w) i g) a j)" by blast
  let ?w = "(put_moments i s' w)\<lparr>w_heap := (w_heap w)(i := (w_heap w i)\<lparr>p_content := c\<rparr>)\<rparr>"
  have "outside_same {i} w ?w" by (auto simp: outside_same_def put_moments_def dict_get_set)
  moreover have "stepped coupled E w ?w i"
    unfolding stepped_def using r(2-5) Some uniq by (auto simp: put_moments_def dict_get_set)
  ultimately show ?thesis using r(1) by blast
qed

lemma outside_same_trans:
  "outside_same I w w1 \<Longrightarrow> outside_same J w1 w2 \<Longrightarrow> outside_same (I \<union> J) w w2"
  by (auto simp: outside_same_def)

lemma outside_same_refl: "outside_same {} w w"
  by (simp add: outside_same_def) (metis adam.surjective adam.update_convs(8))

text \<open>The body of the Adam loop, for the options \<open>cfg\<close>, satisfies the contract of the loop.\<close>

definition adam_ready :: "('d, 'h, 'c) env \<Rightarrow> adam \<Rightarrow> 'h adam_world \<Rightarrow> nat \<Rightarrow> bool" where
  "adam_ready E cfg w i \<longleftrightarrow> array_laws (e_arith E) \<and> options_ok cfg \<and> (\<exists>d. w_opt w = cfg\<lparr>opt_state := d\<rparr>)
     \<and> steppable E w i"

interpretation adam_body: param_loop "adam_param coupled E cfg" "adam_ready E cfg" "stepped coupled E" outside_same
  for coupled E cfg
proof unfold_locales
  fix w i assume r: "adam_ready E cfg w i"
  then obtain d where d: "w_opt w = cfg\<lparr>opt_state := d\<rparr>" by (auto simp: adam_ready_def)
  have "adam_param coupled E (w_opt w) i = adam_param coupled E cfg i" unfolding d adam_param_options ..
  moreover have "options_ok (w_opt w)" using r by (simp add: adam_ready_def d options_ok_def)
  ultimately show "\<exists>w'. adam_param coupled E cfg i w = (Inr (), w') \<and> outside_same {i} w w' \<and> stepped coupled E w w' i"
    using adam_param_stepped [of E w i coupled] r by (simp add: adam_ready_def)
next
  fix I w w1 i assume o: "outside_same I w w1" "i \<notin> I" "adam_ready E cfg w i"
  then have "w_heap w1 i = w_heap w i" by (simp add: outside_same_def)
  moreover from o obtain d e where "w_opt w = cfg\<lparr>opt_state := d\<rparr>" "w_opt w1 = (w_opt w)\<lparr>opt_state := e\<rparr>"
    by (auto simp: adam_ready_def outside_same_def)
  then have "\<exists>d. w_opt w1 = cfg\<lparr>opt_state := d\<rparr>" by (intro exI [of _ e]) simp
  ultimately show "adam_ready E cfg w1 i"
    using o(3) unfolding adam_ready_def steppable_def ready_param_frame [OF o(1,2)] by auto
next
  fix w w1 w2 i I assume "stepped coupled E w w1 i" "outside_same I w1 w2" "i \<notin> I"
  moreover from this have "w_heap w2 i = w_heap w1 i" "dict_get (opt_state (w_opt w2)) i = dict_get (opt_state (w_opt w1)) i"
    by (auto simp: outside_same_def)
  ultimately show "stepped coupled E w w2 i" by (simp add: stepped_def)
qed (auto intro: outside_same_refl outside_same_trans stepped_frame)

definition counted :: "'h adam_world \<Rightarrow> 'h adam_world" where
  "counted w = w\<lparr>w_opt := (w_opt w)\<lparr>step_count := Suc (step_count (w_opt w))\<rparr>\<rparr>"

lemma counted_simps [simp]:
  "w_heap (counted w) = w_heap w" "step_count (w_opt (counted w)) = Suc (step_count (w_opt w))"
  "param_groups (w_opt (counted w)) = param_groups (w_opt w)" "opt_state (w_opt (counted w)) = opt_state (w_opt w)"
  by (simp_all add: counted_def)

lemma step_of_loop:
  assumes "array_laws (e_arith E)" "options_ok (w_opt (counted w))"
    "distinct (concat (param_groups (w_opt w)))" "\<forall>i \<in> set (concat (param_groups (w_opt w))). steppable E (counted w) i"
  shows "\<exists>w'. bindS (run_closure None) (\<lambda>loss. bindS count_step (\<lambda>_. bindS (adam_loop coupled E) (\<lambda>_. returnS loss))) w
      = (Inr None, w') \<and> outside_same (set (concat (param_groups (w_opt w)))) (counted w) w'
    \<and> (\<forall>i \<in> set (concat (param_groups (w_opt w))). stepped coupled E (counted w) w' i)"
proof -
  have c: "count_step w = (Inr (), counted w)" by (simp add: count_step_def counted_def)
  have "w_opt (counted w) = (w_opt (counted w))\<lparr>opt_state := opt_state (w_opt (counted w))\<rparr>" by simp
  then have "\<forall>i \<in> set (concat (param_groups (w_opt w))). adam_ready E (w_opt (counted w)) (counted w) i"
    using assms unfolding adam_ready_def by blast
  from adam_body.loop_effect [OF assms(3) this, of coupled] show ?thesis
    by (auto simp: bindS_def run_closure_def c adam_loop_def)
qed

lemma outside_same_count: "outside_same I w w' \<Longrightarrow> step_count (w_opt w') = step_count (w_opt w)"
  by (auto simp: outside_same_def)

text \<open>
  C1. One call of \<open>MetalAdam.step\<close>, on parameters that it can update, returns and counts one step;
  every parameter with a gradient has each of its elements, and of its two moments and the
  AMSGrad maximum, advanced by one step of the Adam recurrence with L2 penalty and bias
  correction; parameters without a gradient, objects outside the groups and the options stay.
\<close>

theorem adam_step_cells:
  assumes "array_laws (e_arith E)" and "options_ok (w_opt (counted w))"
    and "distinct (concat (param_groups (w_opt w)))"
    and "\<forall>i \<in> set (concat (param_groups (w_opt w))). steppable E (counted w) i"
  shows "\<exists>w'. Adam_step E None w = (Inr None, w') \<and> step_count (w_opt w') = Suc (step_count (w_opt w))
    \<and> outside_same (set (concat (param_groups (w_opt w)))) (counted w) w'
    \<and> (\<forall>i \<in> set (concat (param_groups (w_opt w))). stepped True E (counted w) w' i)"
  using step_of_loop [OF assms, of True] outside_same_count unfolding Adam_step_def by fastforce

text \<open>An environment, an array parameter with its gradient, and a fresh optimizer of it.\<close>

definition sample_env :: "(ndarray, mntensor, capsule) env" where
  "sample_env = \<lparr>e_np = np_ref (\<lambda>_ x. x), e_C = CMissing, e_arith = ref_arith\<rparr>"

definition vector2 :: "real \<Rightarrow> real \<Rightarrow> ndarray" where
  "vector2 x y = row_major [2] ''float32'' [x, y]"

definition sample_param :: "mntensor param" where
  "sample_param = \<lparr>p_kind = ArrayParam, p_content = InArray (vector2 1 2), p_hashable = True,
     p_grad = GradField (Some (InArray (vector2 3 (-1)))), p_ugrad = None\<rparr>"

definition sample_adam :: adam where
  "sample_adam = \<lparr>lr = 1/10, beta1 = 9/10, beta2 = 99/100, eps = 1/100, weight_decay = 0, amsgrad = True,
     param_groups = [[0]], opt_state = [], step_count = 0\<rparr>"

definition sample_world :: "mntensor adam_world" where
  "sample_world = \<lparr>w_opt = sample_adam, w_heap = (\<lambda>_. sample_param)\<rparr>"

lemma vector2_alike [simp]: "alike (vector2 a b) (vector2 c d)" "plain_array (vector2 a b)"
  by (simp_all add: vector2_def alike_def plain_array_def)

lemma sample_ready:
  "dict_get (opt_state cfg) 0 = None \<Longrightarrow>
   ready_param sample_env cfg 0 sample_param (vector2 3 (-1)) (vector2 1 2)"
  using zero_moments_for [OF ref_arith.array_laws_axioms, of "vector2 1 2" "vector2 3 (-1)" cfg]
  by (simp add: ready_param_def has_update_def moments_before_def sample_env_def)
    (simp add: sample_param_def grad_of_def to_np_def holds_array_def)

lemma sample_world_ok:
  "array_laws (e_arith sample_env)" "options_ok (w_opt (counted sample_world))"
  "steppable sample_env (counted sample_world) 0"
proof -
  show "array_laws (e_arith sample_env)" by (simp add: sample_env_def ref_arith.array_laws_axioms)
  show "options_ok (w_opt (counted sample_world))"
    by (simp add: options_ok_def sample_world_def sample_adam_def counted_def)
  have "ready_param sample_env (w_opt (counted sample_world)) 0 sample_param (vector2 3 (-1)) (vector2 1 2)"
    by (rule sample_ready) (simp add: sample_world_def sample_adam_def dict_get_def)
  then show "steppable sample_env (counted sample_world) 0"
    unfolding steppable_def by (auto simp: sample_world_def)
qed

theorem adam_step_cells_witness:
  "\<exists>w'. Adam_step sample_env None sample_world = (Inr None, w') \<and> step_count (w_opt w') = 1"
  using adam_step_cells [OF sample_world_ok(1,2)] sample_world_ok(3)
  by (fastforce simp: sample_world_def sample_adam_def)

text \<open>
  C10. One call of \<open>MetalAdamW.step\<close> does the same with decoupled weight decay: the gradient that
  enters the moments is the raw one, and each element is first scaled by
  \<open>1 - lr * weight_decay\<close>.
\<close>

theorem adamw_step_cells:
  assumes "array_laws (e_arith E)" and "options_ok (w_opt (counted w))"
    and "distinct (concat (param_groups (w_opt w)))"
    and "\<forall>i \<in> set (concat (param_groups (w_opt w))). steppable E (counted w) i"
  shows "\<exists>w'. AdamW_step E None w = (Inr None, w') \<and> step_count (w_opt w') = Suc (step_count (w_opt w))
    \<and> outside_same (set (concat (param_groups (w_opt w)))) (counted w) w'
    \<and> (\<forall>i \<in> set (concat (param_groups (w_opt w))). stepped False E (counted w) w' i)"
  using step_of_loop [OF assms, of False] outside_same_count unfolding AdamW_step_def by fastforce

theorem adamw_step_cells_witness:
  "\<exists>w'. AdamW_step sample_env None sample_world = (Inr None, w') \<and> step_count (w_opt w') = 1"
  using adamw_step_cells [OF sample_world_ok(1,2)] sample_world_ok(3)
  by (fastforce simp: sample_world_def sample_adam_def)

section \<open>A constant gradient\<close>

fun adam_steps :: "('d, 'h, 'c) env \<Rightarrow> nat \<Rightarrow> 'h adam_world \<Rightarrow> 'h adam_world" where
  "adam_steps E 0 w = w"
| "adam_steps E (Suc n) w = snd (Adam_step E None (adam_steps E n w))"

definition constant_cell :: "adam \<Rightarrow> real \<Rightarrow> real \<Rightarrow> nat \<Rightarrow> cell" where
  "constant_cell cfg g x t = \<lparr>c_m = (1 - beta1 cfg ^ t) * g, c_v = (1 - beta2 cfg ^ t) * g\<^sup>2,
     c_vmax = (if amsgrad cfg then (1 - beta2 cfg ^ t) * g\<^sup>2 else 0),
     c_x = x - real t * (lr cfg * g / (\<bar>g\<bar> + eps cfg))\<rparr>"

lemma adam_cell_constant:
  assumes ok: "options_ok cfg" "weight_decay cfg = 0" "step_count cfg = Suc t"
  shows "adam_cell True cfg g (constant_cell cfg g x t) = constant_cell cfg g x (Suc t)"
proof -
  let ?b1 = "beta1 cfg" and ?b2 = "beta2 cfg"
  have b: "0 < 1 - ?b1 ^ Suc t" "0 < 1 - ?b2 ^ Suc t"
    using bias_correction_pos [of ?b1 "Suc t"] bias_correction_pos [of ?b2 "Suc t"] ok
    by (simp_all add: options_ok_def bias_correction_def)
  have m: "?b1 * ((1 - ?b1 ^ t) * g) + (1 - ?b1) * g = (1 - ?b1 ^ Suc t) * g" by (simp add: algebra_simps)
  have v: "?b2 * ((1 - ?b2 ^ t) * g\<^sup>2) + (1 - ?b2) * g\<^sup>2 = (1 - ?b2 ^ Suc t) * g\<^sup>2" by (simp add: algebra_simps)
  have "?b2 ^ Suc t \<le> ?b2 ^ t" using ok by (intro power_decreasing) (simp_all add: options_ok_def)
  then have le: "(1 - ?b2 ^ t) * g\<^sup>2 \<le> (1 - ?b2 ^ Suc t) * g\<^sup>2" by (intro mult_right_mono) simp_all
  have "0 < \<bar>g\<bar> + eps cfg" using ok by (simp add: options_ok_def add_nonneg_pos)
  with b m v le ok(2,3) show ?thesis
    by (simp add: adam_cell_def constant_cell_def Let_def bias_correction_def max_absorb2 del: power_Suc)
      (simp add: distrib_right add_divide_distrib del: power_Suc)
qed

text \<open>The situation after \<open>t\<close> steps with the gradient \<open>g\<close>, from the array \<open>a\<close>.\<close>

definition constant_run :: "('d, 'h, 'c) env \<Rightarrow> adam \<Rightarrow> 'h param \<Rightarrow> ndarray \<Rightarrow> ndarray \<Rightarrow> nat \<Rightarrow> nat \<Rightarrow> 'h adam_world \<Rightarrow> bool" where
  "constant_run E cfg p g a i t w \<longleftrightarrow> (\<exists>d c x. w_opt w = cfg\<lparr>opt_state := d, step_count := t\<rparr>
     \<and> w_heap w i = p\<lparr>p_content := c\<rparr> \<and> holds_array E (w_heap w i) x \<and> alike a x
     \<and> moments_for cfg x (moments_before E (w_opt w) i g)
     \<and> (\<forall>j<length (nd_elems a). cell_of (moments_before E (w_opt w) i g) x j =
          constant_cell cfg (nd_elems g ! j) (nd_elems a ! j) t))"

lemma constant_run_step:
  assumes A: "array_laws (e_arith E)" and ok: "options_ok (cfg\<lparr>step_count := 1\<rparr>)" "weight_decay cfg = 0"
    and gr: "param_groups cfg = [[i]]" and p: "p_hashable p" "grad_of p = Some gc" "to_np E gc = Inr g" and ag: "alike a g"
    and run: "constant_run E cfg p g a i t w"
  shows "\<exists>w'. Adam_step E None w = (Inr None, w') \<and> constant_run E cfg p g a i (Suc t) w'"
proof -
  from run obtain d c x where w: "w_opt w = cfg\<lparr>opt_state := d, step_count := t\<rparr>" "w_heap w i = p\<lparr>p_content := c\<rparr>"
    "holds_array E (w_heap w i) x" "alike a x" "moments_for cfg x (moments_before E (w_opt w) i g)"
    "\<forall>j<length (nd_elems a). cell_of (moments_before E (w_opt w) i g) x j =
          constant_cell cfg (nd_elems g ! j) (nd_elems a ! j) t" by (auto simp: constant_run_def)
  let ?o = "w_opt (counted w)"
  have o: "?o = cfg\<lparr>opt_state := d, step_count := Suc t\<rparr>" by (simp add: counted_def w(1))
  have mb: "moments_before E ?o i g = moments_before E (w_opt w) i g"
    by (cases "dict_get d i") (simp_all add: o w(1) moments_before_def zero_moments_def)
  have mf: "moments_for ?o = moments_for cfg" by (simp add: o moments_for_def fun_eq_iff)
  have gx: "alike x g" using w(4) ag alike_sym alike_trans by blast
  have rd: "ready_param E ?o i (w_heap w i) g x"
    unfolding ready_param_def has_update_def mb mf using w(2,3,5) p gx by (simp add: holds_array_def)
  have ok': "options_ok ?o" using ok by (simp add: o options_ok_def)
  from adam_step_cells [OF A ok'] gr rd obtain w' where w': "Adam_step E None w = (Inr None, w')"
    "outside_same {i} (counted w) w'" "stepped True E (counted w) w' i"
    by (auto simp: w(1) steppable_def)
  have rd': "ready_param E ?o i (w_heap (counted w) i) g x" using rd by simp
  obtain s x' c' where s: "dict_get (opt_state (w_opt w')) i = Some s" "moments_for cfg x' s"
    "w_heap w' i = (w_heap w i)\<lparr>p_content := c'\<rparr>" "holds_array E (w_heap w' i) x'" "alike x x'"
    "\<forall>j<length (nd_elems x). cell_of s x' j = adam_cell True ?o (nd_elems g ! j) (cell_of (moments_before E ?o i g) x j)"
    using steppedD [OF w'(3) rd'] unfolding mf by auto
  from w'(2) obtain d' where d': "w_opt w' = ?o\<lparr>opt_state := d'\<rparr>" by (auto simp: outside_same_def)
  have ms: "moments_before E (w_opt w') i g = s" using s(1) by (simp add: moments_before_def)
  have "cell_of s x' j = constant_cell cfg (nd_elems g ! j) (nd_elems a ! j) (Suc t)" if j: "j < length (nd_elems a)" for j
  proof -
    have "constant_cell ?o = constant_cell cfg" by (simp add: o constant_cell_def fun_eq_iff)
    moreover have "weight_decay ?o = 0" by (simp add: o ok(2))
    ultimately show ?thesis
      using adam_cell_constant [OF ok', of t] s(6) w(6) j alike_length [OF w(4)] by (simp add: mb w(1))
  qed
  moreover have "alike a x'" using w(4) s(5) alike_trans by blast
  ultimately have "constant_run E cfg p g a i (Suc t) w'"
    unfolding constant_run_def ms using d' o s(2-4) w(2)
    by (intro exI [of _ d'] exI [of _ c'] exI [of _ x']) simp
  with w'(1) show ?thesis by blast
qed

text \<open>
  C27. With a constant gradient and no weight decay the bias corrections cancel the averaging: from
  a fresh optimizer, after \<open>t\<close> calls of \<open>step\<close> every element \<open>x\<close> of the parameter, with gradient
  \<open>g\<close>, is \<open>x - t * lr * g / (|g| + eps)\<close>, with AMSGrad or without.
\<close>

theorem adam_constant_gradient:
  assumes "array_laws (e_arith E)" and "options_ok (cfg\<lparr>step_count := 1\<rparr>)" and "weight_decay cfg = 0"
    and "param_groups cfg = [[i]]" and "opt_state cfg = []" and "step_count cfg = 0" and "w_opt w = cfg"
    and "p_hashable (w_heap w i)" and "grad_of (w_heap w i) = Some gc" and "to_np E gc = Inr g"
    and "holds_array E (w_heap w i) a" and "alike a g"
  shows "\<exists>x. holds_array E (w_heap (adam_steps E t w) i) x \<and> alike a x \<and>
    (\<forall>j<length (nd_elems a). nd_elems x ! j =
       nd_elems a ! j - real t * (lr cfg * nd_elems g ! j / (\<bar>nd_elems g ! j\<bar> + eps cfg)))"
proof -
  have mb: "moments_before E cfg i g = zero_moments (e_arith E) cfg g"
    using assms(5) by (simp add: moments_before_def dict_get_def)
  have z: "nd_elems (a_zeros_like (e_arith E) g) = map (\<lambda>_. 0) (nd_elems g)"
    using array_laws.zeros [OF assms(1) alike_plain(2) [OF assms(12)]] by blast
  have c0: "\<forall>j<length (nd_elems a). cell_of (moments_before E cfg i g) a j =
      constant_cell cfg (nd_elems g ! j) (nd_elems a ! j) 0"
    using alike_length [OF assms(12)] by (simp add: mb cell_of_def zero_moments_def constant_cell_def z)
  have "constant_run E cfg (w_heap w i) g a i 0 w"
    unfolding constant_run_def assms(7)
    by (rule exI [of _ "[]"], rule exI [of _ "p_content (w_heap w i)"], rule exI [of _ a])
      (use assms c0 zero_moments_for [OF assms(1,12), of cfg] alike_plain(1) [OF assms(12)] in \<open>simp add: mb\<close>)
  then have "constant_run E cfg (w_heap w i) g a i t (adam_steps E t w)"
  proof (induction t)
    case (Suc t)
    from constant_run_step [OF assms(1-4,8-10,12) Suc.IH [OF Suc.prems]] show ?case by auto
  qed simp
  then obtain x where "holds_array E (w_heap (adam_steps E t w) i) x" "alike a x"
    "\<forall>j<length (nd_elems a). cell_of (moments_before E (w_opt (adam_steps E t w)) i g) x j =
       constant_cell cfg (nd_elems g ! j) (nd_elems a ! j) t" by (auto simp: constant_run_def)
  then show ?thesis by (auto simp: cell_of_def constant_cell_def)
qed

theorem adam_constant_gradient_witness:
  "\<exists>x. holds_array sample_env (w_heap (adam_steps sample_env 5 sample_world) 0) x
     \<and> nd_elems x ! 1 = 2 + 5 * ((1/10) / (1 + 1/100))"
proof -
  note h = adam_constant_gradient [of sample_env sample_adam 0 sample_world "InArray (vector2 3 (-1))"
      "vector2 3 (-1)" "vector2 1 2" 5]
  have "\<exists>x. holds_array sample_env (w_heap (adam_steps sample_env 5 sample_world) 0) x \<and> alike (vector2 1 2) x \<and>
    (\<forall>j<length (nd_elems (vector2 1 2)). nd_elems x ! j =
       nd_elems (vector2 1 2) ! j - real 5 * (lr sample_adam * nd_elems (vector2 3 (-1)) ! j / (\<bar>nd_elems (vector2 3 (-1)) ! j\<bar> + eps sample_adam)))"
    by (rule h) (simp_all add: sample_world_ok(1) options_ok_def sample_world_def,
        simp_all add: sample_adam_def sample_param_def grad_of_def to_np_def holds_array_def)
  then show ?thesis by (force simp: vector2_def sample_adam_def)
qed

section \<open>Construction, zero_grad, and parameters that cannot be written\<close>

text \<open>
  The constructor raises ValueError exactly for a negative rate, \<open>eps\<close> or weight decay or a
  beta outside [0, 1); otherwise the optimizer has the given options, all parameters in one
  group, no moments and no step counted.
\<close>

theorem adam_init_validates:
  "(if 0 \<le> r \<and> 0 \<le> ep \<and> 0 \<le> wd \<and> 0 \<le> b1 \<and> b1 < 1 \<and> 0 \<le> b2 \<and> b2 < 1
    then \<exists>cfg. Adam_init params r (b1, b2) ep wd ams = Inr cfg \<and> lr cfg = r \<and> beta1 cfg = b1 \<and> beta2 cfg = b2
      \<and> eps cfg = ep \<and> weight_decay cfg = wd \<and> amsgrad cfg = ams \<and> concat (param_groups cfg) = params
      \<and> opt_state cfg = [] \<and> step_count cfg = 0
    else raises ValueError (Adam_init params r (b1, b2) ep wd ams))"
  by (simp add: Adam_init_def)

text \<open>
  \<open>zero_grad\<close> clears \<open>_grad\<close> of every parameter of the groups, so a parameter whose \<open>grad\<close> is a
  property over \<open>_grad\<close> has no gradient afterwards; a \<open>grad\<close> field of another class of object is
  not touched, a second call changes nothing, and the optimizer and other objects stay.
\<close>

theorem adam_zero_grad_spec:
  "w_opt (Adam_zero_grad w) = w_opt w \<and> Adam_zero_grad (Adam_zero_grad w) = Adam_zero_grad w
   \<and> (if i \<in> set (concat (param_groups (w_opt w)))
      then (case p_grad (w_heap w i) of
              GradProperty \<Rightarrow> grad_of (w_heap (Adam_zero_grad w) i) = None
            | _ \<Rightarrow> grad_of (w_heap (Adam_zero_grad w) i) = grad_of (w_heap w i))
        \<and> p_content (w_heap (Adam_zero_grad w) i) = p_content (w_heap w i)
      else w_heap (Adam_zero_grad w) i = w_heap w i)"
proof -
  have idem: "zero_grad gs (zero_grad gs hp) = zero_grad gs hp" for gs and hp :: "nat \<Rightarrow> 'a param"
    by (simp add: fun_eq_iff zero_grad_eq)
  have "p_grad (clear_grad p) = p_grad p \<and> p_content (clear_grad p) = p_content p" for p :: "'a param"
    by (simp add: clear_grad_def split: option.splits)
  moreover have "p_grad p = GradProperty \<Longrightarrow> grad_of (clear_grad p) = None" for p :: "'a param"
    by (simp add: grad_of_def clear_grad_def split: option.splits)
  moreover have "p_grad p \<noteq> GradProperty \<Longrightarrow> grad_of (clear_grad p) = grad_of p" for p :: "'a param"
    by (cases "p_grad p") (simp_all add: grad_of_def clear_grad_def split: option.splits)
  ultimately show ?thesis
    by (cases "p_grad (w_heap w i)") (simp_all add: Adam_zero_grad_def idem zero_grad_eq)
qed

text \<open>
  C40. A parameter without a \<open>data\<close> attribute and without item assignment, as the package's own
  \<open>Tensor\<close> is, cannot be updated: with it as the only parameter, \<open>step\<close> raises TypeError at the write, after the
  step has been counted and both moments (and the AMSGrad maximum) have been advanced as in a step
  that succeeds with some content \<open>x\<close>; the parameter keeps its content.
\<close>

theorem adam_unwritable_param:
  assumes "array_laws (e_arith E)" and "options_ok (w_opt (counted w))" and "param_groups (w_opt w) = [[i]]"
    and "p_kind (w_heap w i) = FixedParam" and "has_update E (w_opt (counted w)) i (w_heap w i) g a"
  shows "\<exists>e w' s x. Adam_step E None w = (Inl e, w') \<and> exc_class e = TypeError \<and> w_heap w' = w_heap w
    \<and> step_count (w_opt w') = Suc (step_count (w_opt w)) \<and> dict_get (opt_state (w_opt w')) i = Some s
    \<and> (\<forall>j<length (nd_elems a). cell_of s x j =
         adam_cell True (w_opt (counted w)) (nd_elems g ! j) (cell_of (moments_before E (w_opt (counted w)) i g) a j))"
proof -
  have c: "count_step w = (Inr (), counted w)" by (simp add: count_step_def counted_def)
  have up: "has_update E (w_opt (counted w)) i (w_heap (counted w) i) g a" using assms(5) by simp
  from array_laws.adam_param_computes [OF assms(1) refl assms(2) refl up, of True] obtain s x where s:
    "adam_param True E (w_opt (counted w)) i (counted w) = write_param E i x (put_moments i s (counted w))"
    "\<forall>j<length (nd_elems a). cell_of s x j =
       adam_cell True (w_opt (counted w)) (nd_elems g ! j) (cell_of (moments_before E (w_opt (counted w)) i g) a j)"
    by blast
  have "write_param E i x (put_moments i s (counted w)) =
      (raise TypeError ''object does not support item assignment'', put_moments i s (counted w))"
    using assms(4) by (simp add: write_param_def new_content_def raise_def)
  then have "Adam_step E None w =
      (Inl (PyExc TypeError ''object does not support item assignment''), put_moments i s (counted w))"
    using s(1) assms(3) by (simp add: Adam_step_def bindS_def run_closure_def c adam_loop_def raise_def)
  then show ?thesis using s(2)
    by (intro exI [of _ "PyExc TypeError ''object does not support item assignment''"] exI [of _ "put_moments i s (counted w)"]
        exI [of _ s] exI [of _ x]) (simp add: put_moments_def dict_get_set counted_def)
qed

theorem adam_unwritable_param_witness:
  "\<exists>e w'. Adam_step sample_env None (sample_world\<lparr>w_heap := (\<lambda>_. sample_param\<lparr>p_kind := FixedParam\<rparr>)\<rparr>) = (Inl e, w')
     \<and> exc_class e = TypeError \<and> step_count (w_opt w') = 1"
proof -
  let ?w = "sample_world\<lparr>w_heap := (\<lambda>_. sample_param\<lparr>p_kind := FixedParam\<rparr>)\<rparr>"
  have o: "w_opt (counted ?w) = w_opt (counted sample_world)" by (simp add: counted_def)
  have "has_update sample_env (w_opt (counted sample_world)) 0 sample_param (vector2 3 (-1)) (vector2 1 2)"
    using sample_ready [of "w_opt (counted sample_world)"]
    by (simp add: ready_param_def sample_world_def sample_adam_def dict_get_def)
  then have "has_update sample_env (w_opt (counted ?w)) 0 (w_heap ?w 0) (vector2 3 (-1)) (vector2 1 2)"
    unfolding o by (simp add: has_update_def)
  from adam_unwritable_param [OF sample_world_ok(1) _ _ _ this] sample_world_ok(2) show ?thesis
    unfolding o by (fastforce simp: sample_world_def sample_adam_def)
qed

section \<open>Invariants of the recurrence\<close>

text \<open>
  The second moment stays non-negative, with AMSGrad the maximum never decreases and bounds
  the second moment, and without weight decay a first step moves an element by less than the
  learning rate.
\<close>

theorem adam_cell_invariants:
  assumes "options_ok cfg" and "0 \<le> c_v c"
  shows "0 \<le> c_v (adam_cell coupled cfg g c)
    \<and> c_vmax c \<le> c_vmax (adam_cell coupled cfg g c)
    \<and> (amsgrad cfg \<longrightarrow> c_v (adam_cell coupled cfg g c) \<le> c_vmax (adam_cell coupled cfg g c))
    \<and> (step_count cfg = 1 \<and> weight_decay cfg = 0 \<and> c_m c = 0 \<and> c_v c = 0 \<and> c_vmax c = 0 \<and> 0 < lr cfg \<longrightarrow>
         \<bar>c_x (adam_cell coupled cfg g c) - c_x c\<bar> < lr cfg)"
proof -
  have v: "0 \<le> c_v (adam_cell coupled cfg g c)"
    using assms by (auto simp: adam_cell_def Let_def options_ok_def intro!: add_nonneg_nonneg mult_nonneg_nonneg)
  have first: "\<bar>c_x (adam_cell coupled cfg g c) - c_x c\<bar> < lr cfg"
    if z: "step_count cfg = 1" "weight_decay cfg = 0" "c_m c = 0" "c_v c = 0" "c_vmax c = 0" "0 < lr cfg"
  proof -
    have b: "1 - beta1 cfg \<noteq> 0" "1 - beta2 cfg \<noteq> 0" "0 \<le> 1 - beta2 cfg" and e: "0 < eps cfg"
      using assms(1) by (simp_all add: options_ok_def)
    have mx: "max 0 ((1 - beta2 cfg) * g\<^sup>2) = (1 - beta2 cfg) * g\<^sup>2" using b(3) by simp
    have "c_x (adam_cell coupled cfg g c) - c_x c = - (lr cfg * g / (\<bar>g\<bar> + eps cfg))"
      using b by (simp add: adam_cell_def Let_def bias_correction_def z mx)
    moreover have "\<bar>lr cfg * g / (\<bar>g\<bar> + eps cfg)\<bar> = lr cfg * (\<bar>g\<bar> / (\<bar>g\<bar> + eps cfg))"
      using z(6) e by (simp add: abs_mult)
    moreover have "\<bar>g\<bar> / (\<bar>g\<bar> + eps cfg) < 1" using e by (simp add: add_nonneg_pos)
    then have "lr cfg * (\<bar>g\<bar> / (\<bar>g\<bar> + eps cfg)) < lr cfg * 1" using z(6) by (intro mult_strict_left_mono)
    ultimately show ?thesis by simp
  qed
  have "c_vmax c \<le> c_vmax (adam_cell coupled cfg g c)"
    "amsgrad cfg \<longrightarrow> c_v (adam_cell coupled cfg g c) \<le> c_vmax (adam_cell coupled cfg g c)"
    by (simp_all add: adam_cell_def Let_def)
  with v first show ?thesis by blast
qed

theorem adam_cell_invariants_witness:
  "\<bar>c_x (adam_cell True (sample_adam\<lparr>step_count := 1\<rparr>) 3 \<lparr>c_m = 0, c_v = 0, c_vmax = 0, c_x = 5\<rparr>) - 5\<bar> < 1 / 10"
  using adam_cell_invariants [of "sample_adam\<lparr>step_count := 1\<rparr>" "\<lparr>c_m = 0, c_v = 0, c_vmax = 0, c_x = 5\<rparr>" True 3]
  by (simp add: sample_adam_def options_ok_def)

text \<open>
  A parameter whose first gradient comes at a later global step is corrected for steps it did not
  see: its first average is divided by \<open>1 - beta ^ t\<close> for the global count \<open>t\<close>, so the step is
  not the first step of the algorithm.
\<close>

lemma adam_late_parameter:
  assumes "step_count cfg = t" "weight_decay cfg = 0" "\<not> amsgrad cfg"
  shows "c_x (adam_cell True cfg g \<lparr>c_m = 0, c_v = 0, c_vmax = 0, c_x = x\<rparr>) =
    x - lr cfg * ((1 - beta1 cfg) * g / (1 - beta1 cfg ^ t)) /
      (sqrt ((1 - beta2 cfg) * g\<^sup>2 / (1 - beta2 cfg ^ t)) + eps cfg)"
  using assms by (simp add: adam_cell_def Let_def bias_correction_def)

end
