(* ===== verification/Sgd.thy ===== *)
theory Sgd
  imports OptimBase
begin

text \<open>
  \<^verbatim>\<open>python/metal_native/optim/sgd.py\<close>: \<open>MetalSGD\<close>, its step element by element, and the closed
  form of its momentum buffer.
\<close>

section \<open>State and construction\<close>

record sgd =
  s_lr :: real
  s_momentum :: real
  s_dampening :: real
  s_weight_decay :: real
  s_nesterov :: bool
  s_groups :: "nat list list"
  s_state :: "(nat, ndarray) dict"

definition SGD_init :: "nat list \<Rightarrow> real \<Rightarrow> real \<Rightarrow> real \<Rightarrow> real \<Rightarrow> bool \<Rightarrow> sgd res" where
  "SGD_init params r mo damp wd nest =
     (if r < 0 then raise ValueError ''Invalid learning rate: {lr}''
      else if mo < 0 then raise ValueError ''Invalid momentum value: {momentum}''
      else if wd < 0 then raise ValueError ''Invalid weight_decay value: {weight_decay}''
      else if nest \<and> (mo \<le> 0 \<or> damp \<noteq> 0)
      then raise ValueError ''Nesterov momentum requires a momentum and zero dampening''
      else Inr \<lparr>s_lr = r, s_momentum = mo, s_dampening = damp, s_weight_decay = wd, s_nesterov = nest,
                s_groups = [params], s_state = []\<rparr>)"

type_synonym 'h sgd_world = "(sgd, 'h) world"

section \<open>One parameter\<close>

definition put_buffer :: "nat \<Rightarrow> ndarray \<Rightarrow> 'h sgd_world \<Rightarrow> 'h sgd_world" where
  "put_buffer i b w = w\<lparr>w_opt := (w_opt w)\<lparr>s_state := dict_set i b (s_state (w_opt w))\<rparr>\<rparr>"

definition sgd_decay :: "('d, 'h, 'c) env \<Rightarrow> sgd \<Rightarrow> 'h param \<Rightarrow> ndarray \<Rightarrow> ndarray res" where
  "sgd_decay E cfg p g =
     (if s_weight_decay cfg \<noteq> 0
      then bindR (to_np E (p_content p)) (\<lambda>x. a_add (e_arith E) g (a_scale (e_arith E) (s_weight_decay cfg) x))
      else Inr g)"

text \<open>The buffer is created with zeros before it is first updated.\<close>

definition sgd_buffer :: "np_arith \<Rightarrow> nat \<Rightarrow> ndarray \<Rightarrow> ('h sgd_world, ndarray) st" where
  "sgd_buffer A i g = (\<lambda>w.
     if \<not> p_hashable (w_heap w i) then (raise TypeError ''unhashable type'', w)
     else case dict_get (s_state (w_opt w)) i of
       Some b \<Rightarrow> (Inr b, w)
     | None \<Rightarrow> (Inr (a_zeros_like A g), put_buffer i (a_zeros_like A g) w))"

definition sgd_momentum :: "np_arith \<Rightarrow> sgd \<Rightarrow> nat \<Rightarrow> ndarray \<Rightarrow> ('h sgd_world, ndarray) st" where
  "sgd_momentum A cfg i g =
     (if s_momentum cfg \<noteq> 0
      then bindS (sgd_buffer A i g) (\<lambda>b.
        bindS (liftS (a_add A (a_scale A (s_momentum cfg) b) (a_scale A (1 - s_dampening cfg) g))) (\<lambda>b'.
        bindS (\<lambda>w. (Inr (), put_buffer i b' w)) (\<lambda>_.
        if s_nesterov cfg then liftS (a_add A g (a_scale A (s_momentum cfg) b')) else returnS b')))
      else returnS g)"

definition sgd_param :: "('d, 'h, 'c) env \<Rightarrow> sgd \<Rightarrow> nat \<Rightarrow> ('h sgd_world, unit) st" where
  "sgd_param E cfg i = bindS (read_param i) (\<lambda>p.
     case grad_of p of
       None \<Rightarrow> returnS ()
     | Some g \<Rightarrow>
         bindS (liftS (to_np E g)) (\<lambda>g0.
         bindS (liftS (sgd_decay E cfg p g0)) (\<lambda>g1.
         bindS (sgd_momentum (e_arith E) cfg i g1) (\<lambda>d.
         bindS (liftS (to_np E (p_content p))) (\<lambda>x.
         bindS (liftS (a_sub (e_arith E) x (a_scale (e_arith E) (s_lr cfg) d))) (\<lambda>x'.
         write_param E i x'))))))"

section \<open>The step, zero_grad, saving and loading\<close>

definition SGD_step :: "('d, 'h, 'c) env \<Rightarrow> ('h sgd_world, real) st option \<Rightarrow> ('h sgd_world, real option) st" where
  "SGD_step E cl = bindS (run_closure cl) (\<lambda>loss.
     bindS (\<lambda>w. forS (sgd_param E (w_opt w)) (concat (s_groups (w_opt w))) w) (\<lambda>_. returnS loss))"

definition SGD_zero_grad :: "'h sgd_world \<Rightarrow> 'h sgd_world" where
  "SGD_zero_grad w = w\<lparr>w_heap := zero_grad (s_groups (w_opt w)) (w_heap w)\<rparr>"

record sgd_dict =
  sd_state :: "(nat, ndarray) dict"
  sd_groups :: "nat list list"

definition SGD_state_dict :: "sgd \<Rightarrow> sgd_dict" where
  "SGD_state_dict cfg = \<lparr>sd_state = s_state cfg, sd_groups = s_groups cfg\<rparr>"

definition SGD_load_state_dict :: "sgd_dict \<Rightarrow> sgd \<Rightarrow> sgd" where
  "SGD_load_state_dict d cfg = cfg\<lparr>s_state := sd_state d, s_groups := sd_groups d\<rparr>"

section \<open>The step on one element\<close>

text \<open>The element and its momentum buffer after a step with the gradient \<open>g\<close>.\<close>

definition sgd_cell :: "sgd \<Rightarrow> real \<Rightarrow> real \<times> real \<Rightarrow> real \<times> real" where
  "sgd_cell cfg g bx = (case bx of (b, x) \<Rightarrow>
     let g' = g + s_weight_decay cfg * x;
         b' = (if s_momentum cfg \<noteq> 0 then s_momentum cfg * b + (1 - s_dampening cfg) * g' else b);
         d = (if s_momentum cfg = 0 then g' else if s_nesterov cfg then g' + s_momentum cfg * b' else b')
     in (b', x - s_lr cfg * d))"

definition buffer_before :: "('d, 'h, 'c) env \<Rightarrow> sgd \<Rightarrow> nat \<Rightarrow> ndarray \<Rightarrow> ndarray" where
  "buffer_before E cfg i a = (case dict_get (s_state cfg) i of Some b \<Rightarrow> b | None \<Rightarrow> a_zeros_like (e_arith E) a)"

text \<open>A parameter that a step updates; a buffer in the state fits its array.\<close>

definition sgd_ready_param :: "('d, 'h, 'c) env \<Rightarrow> sgd \<Rightarrow> nat \<Rightarrow> 'h param \<Rightarrow> ndarray \<Rightarrow> ndarray \<Rightarrow> bool" where
  "sgd_ready_param E cfg i p g a \<longleftrightarrow> (s_momentum cfg \<noteq> 0 \<longrightarrow> p_hashable p)
     \<and> (\<exists>gc. grad_of p = Some gc \<and> to_np E gc = Inr g) \<and> alike a g \<and> holds_array E p a
     \<and> alike a (buffer_before E cfg i a)"

context array_laws
begin

lemma sgd_decay_at:
  assumes "e_arith E = A" "to_np E (p_content p) = Inr x" "alike g x"
  shows "\<exists>g'. sgd_decay E cfg p g = Inr g' \<and> alike g g'
    \<and> (\<forall>j<length (nd_elems g). nd_elems g' ! j = nd_elems g ! j + s_weight_decay cfg * nd_elems x ! j)"
proof (cases "s_weight_decay cfg = 0")
  case True
  then show ?thesis using assms(3) alike_plain by (auto simp: sgd_decay_def)
next
  case False
  have sc: "alike x (a_scale A (s_weight_decay cfg) x)"
    "nd_elems (a_scale A (s_weight_decay cfg) x) = map ((*) (s_weight_decay cfg)) (nd_elems x)"
    using scale [OF alike_plain(2) [OF assms(3)]] by auto
  from add [OF alike_trans [OF assms(3) sc(1)]] False sc(2) assms alike_length [OF assms(3)]
  show ?thesis by (auto simp: sgd_decay_def)
qed

lemma zeros_alike: "alike a b \<Longrightarrow> a_zeros_like A a = a_zeros_like A b"
proof -
  assume ab: "alike a b"
  then have z: "alike a (a_zeros_like A a)" "alike b (a_zeros_like A b)"
    "nd_elems (a_zeros_like A a) = map (\<lambda>_. 0) (nd_elems a)" "nd_elems (a_zeros_like A b) = map (\<lambda>_. 0) (nd_elems b)"
    using zeros alike_plain by blast+
  have "alike (a_zeros_like A a) (a_zeros_like A b)" using ab z(1,2) alike_sym alike_trans by blast
  moreover have "nd_elems (a_zeros_like A a) = nd_elems (a_zeros_like A b)"
    using alike_length [OF ab] by (simp add: z(3,4) map_replicate_const)
  ultimately show ?thesis by (rule alike_eq)
qed

lemma sgd_momentum_at:
  assumes h: "s_momentum cfg \<noteq> 0 \<longrightarrow> p_hashable (w_heap w i)" and ag: "alike a g"
    and b: "alike a (buffer_before E (w_opt w) i a)" and E: "e_arith E = A"
  shows "\<exists>d b'. sgd_momentum A cfg i g w = (Inr d, if s_momentum cfg \<noteq> 0 then put_buffer i b' w else w)
    \<and> alike a d \<and> alike a b' \<and> (\<forall>j<length (nd_elems a).
        nd_elems b' ! j = (if s_momentum cfg \<noteq> 0
          then s_momentum cfg * nd_elems (buffer_before E (w_opt w) i a) ! j + (1 - s_dampening cfg) * nd_elems g ! j
          else nd_elems (buffer_before E (w_opt w) i a) ! j)
      \<and> nd_elems d ! j = (if s_momentum cfg = 0 then nd_elems g ! j
          else if s_nesterov cfg then nd_elems g ! j + s_momentum cfg * nd_elems b' ! j else nd_elems b' ! j))"
proof (cases "s_momentum cfg = 0")
  case True
  with ag b show ?thesis by (auto simp: sgd_momentum_def)
next
  case False
  let ?b = "buffer_before E (w_opt w) i a"
  have bg: "alike ?b g" using b ag alike_sym alike_trans by blast
  from combine [OF bg, of "s_momentum cfg" "1 - s_dampening cfg"] obtain b' where b':
    "a_add A (a_scale A (s_momentum cfg) ?b) (a_scale A (1 - s_dampening cfg) g) = Inr b'" "alike ?b b'"
    "nd_elems b' = map2 (\<lambda>x y. s_momentum cfg * x + (1 - s_dampening cfg) * y) (nd_elems ?b) (nd_elems g)" by blast
  have ab': "alike a b'" using b b'(2) alike_trans by blast
  have "\<exists>w1. sgd_buffer A i g w = (Inr ?b, w1) \<and> put_buffer i b' w1 = put_buffer i b' w"
    using False h zeros_alike [OF ag]
    by (cases "dict_get (s_state (w_opt w)) i") (simp_all add: sgd_buffer_def buffer_before_def E put_buffer_def)
  then obtain w1 where w1: "sgd_buffer A i g w = (Inr ?b, w1)" "put_buffer i b' w1 = put_buffer i b' w" by blast
  have sc: "alike b' (a_scale A (s_momentum cfg) b')"
    "nd_elems (a_scale A (s_momentum cfg) b') = map ((*) (s_momentum cfg)) (nd_elems b')"
    using scale [OF alike_plain(2) [OF ab']] by auto
  have "alike g (a_scale A (s_momentum cfg) b')" using ag ab' sc(1) alike_sym alike_trans by blast
  from add [OF this] obtain d where d: "a_add A g (a_scale A (s_momentum cfg) b') = Inr d" "alike g d"
    "nd_elems d = map2 (+) (nd_elems g) (nd_elems (a_scale A (s_momentum cfg) b'))" by blast
  let ?d = "if s_nesterov cfg then d else b'"
  have "sgd_momentum A cfg i g w = (Inr ?d, put_buffer i b' w)"
    using False w1 b'(1) d(1) by (simp add: sgd_momentum_def bindS_def)
  moreover have "alike a ?d" using ab' ag d(2) alike_trans by auto
  moreover note len = alike_length [OF ag] alike_length [OF b] alike_length [OF ab']
  ultimately show ?thesis using False ab' b'(3) d(3) sc(2)
    by (intro exI [of _ ?d] exI [of _ b']) simp
qed

end

text \<open>What a step does to one parameter, and what it leaves alone.\<close>

definition sgd_stepped :: "('d, 'h, 'c) env \<Rightarrow> 'h sgd_world \<Rightarrow> 'h sgd_world \<Rightarrow> nat \<Rightarrow> bool" where
  "sgd_stepped E w w' i \<longleftrightarrow>
     (grad_of (w_heap w i) = None \<longrightarrow> w_heap w' i = w_heap w i
        \<and> dict_get (s_state (w_opt w')) i = dict_get (s_state (w_opt w)) i)
   \<and> (\<forall>g a. sgd_ready_param E (w_opt w) i (w_heap w i) g a \<longrightarrow>
        (\<exists>b x c. w_heap w' i = (w_heap w i)\<lparr>p_content := c\<rparr> \<and> holds_array E (w_heap w' i) x \<and> alike a x \<and> alike a b
          \<and> dict_get (s_state (w_opt w')) i = (if s_momentum (w_opt w) = 0 then dict_get (s_state (w_opt w)) i else Some b)
          \<and> (\<forall>j<length (nd_elems a). (nd_elems b ! j, nd_elems x ! j) =
               sgd_cell (w_opt w) (nd_elems g ! j) (nd_elems (buffer_before E (w_opt w) i a) ! j, nd_elems a ! j))))"

definition sgd_outside :: "nat set \<Rightarrow> 'h sgd_world \<Rightarrow> 'h sgd_world \<Rightarrow> bool" where
  "sgd_outside I w w' \<longleftrightarrow> (\<exists>d. w_opt w' = (w_opt w)\<lparr>s_state := d\<rparr>)
     \<and> (\<forall>i. i \<notin> I \<longrightarrow> w_heap w' i = w_heap w i
          \<and> dict_get (s_state (w_opt w')) i = dict_get (s_state (w_opt w)) i)"

definition sgd_steppable :: "('d, 'h, 'c) env \<Rightarrow> 'h sgd_world \<Rightarrow> nat \<Rightarrow> bool" where
  "sgd_steppable E w i \<longleftrightarrow> grad_of (w_heap w i) = None \<or> (\<exists>g a. sgd_ready_param E (w_opt w) i (w_heap w i) g a)"

definition sgd_ready :: "('d, 'h, 'c) env \<Rightarrow> sgd \<Rightarrow> 'h sgd_world \<Rightarrow> nat \<Rightarrow> bool" where
  "sgd_ready E cfg w i \<longleftrightarrow> array_laws (e_arith E) \<and> (\<exists>d. w_opt w = cfg\<lparr>s_state := d\<rparr>) \<and> sgd_steppable E w i"

lemma sgd_options:
  "sgd_decay E (cfg\<lparr>s_state := d\<rparr>) = sgd_decay E cfg"
  "sgd_momentum A (cfg\<lparr>s_state := d\<rparr>) = sgd_momentum A cfg"
  "s_lr (cfg\<lparr>s_state := d\<rparr>) = s_lr cfg"
  by (simp_all add: fun_eq_iff sgd_decay_def sgd_momentum_def cong: if_cong)

lemma sgd_param_options: "sgd_param E (cfg\<lparr>s_state := d\<rparr>) i = sgd_param E cfg i"
  unfolding sgd_param_def sgd_options ..

lemma sgd_outside_refl: "sgd_outside {} w w"
  by (simp add: sgd_outside_def) (metis sgd.surjective sgd.update_convs(7))

lemma sgd_ready_param_frame:
  "sgd_outside I w w' \<Longrightarrow> i \<notin> I \<Longrightarrow> sgd_ready_param E (w_opt w') i p g a = sgd_ready_param E (w_opt w) i p g a"
  by (auto simp: sgd_outside_def sgd_ready_param_def buffer_before_def split: option.splits)

lemma sgd_cell_options: "sgd_cell (cfg\<lparr>s_state := d\<rparr>) = sgd_cell cfg"
  by (simp add: sgd_cell_def fun_eq_iff Let_def cong: if_cong)

lemma sgd_stepped_frame:
  assumes o: "sgd_outside I w w1" "i \<notin> I" and st: "sgd_stepped E w1 w2 i"
  shows "sgd_stepped E w w2 i"
proof -
  from o obtain d where d: "w_opt w1 = (w_opt w)\<lparr>s_state := d\<rparr>" and h: "w_heap w1 i = w_heap w i"
    and g: "dict_get (s_state (w_opt w1)) i = dict_get (s_state (w_opt w)) i" by (auto simp: sgd_outside_def)
  have bb: "buffer_before E (w_opt w1) i = buffer_before E (w_opt w) i" by (simp add: buffer_before_def g fun_eq_iff)
  have mo: "s_momentum (w_opt w1) = s_momentum (w_opt w)" by (simp add: d)
  have sc: "sgd_cell (w_opt w1) = sgd_cell (w_opt w)" by (simp only: d sgd_cell_options)
  show ?thesis using st unfolding sgd_stepped_def h g bb mo sc sgd_ready_param_frame [OF o] .
qed

lemma sgd_param_stepped:
  assumes A: "array_laws (e_arith E)" and s: "sgd_steppable E w i"
  shows "\<exists>w'. sgd_param E (w_opt w) i w = (Inr (), w') \<and> sgd_outside {i} w w' \<and> sgd_stepped E w w' i"
proof (cases "grad_of (w_heap w i)")
  case None
  then have "sgd_param E (w_opt w) i w = (Inr (), w)" by (simp add: sgd_param_def bindS_def read_param_def)
  moreover have "sgd_outside {i} w w" using sgd_outside_refl [of w] by (simp add: sgd_outside_def)
  moreover have "sgd_stepped E w w i" using None by (simp add: sgd_stepped_def sgd_ready_param_def)
  ultimately show ?thesis by blast
next
  case (Some gc)
  let ?p = "w_heap w i" and ?cfg = "w_opt w" and ?A = "e_arith E"
  from s Some obtain g a where rd: "sgd_ready_param E ?cfg i ?p g a" by (auto simp: sgd_steppable_def)
  then have ha: "s_momentum ?cfg \<noteq> 0 \<longrightarrow> p_hashable ?p" and g: "to_np E gc = Inr g" and ag: "alike a g"
    and ho: "holds_array E ?p a" and bb: "alike a (buffer_before E ?cfg i a)"
    using Some by (auto simp: sgd_ready_param_def)
  have xa: "to_np E (p_content ?p) = Inr a" using ho by (simp add: holds_array_def)
  have uniq: "g' = g \<and> a' = a" if "sgd_ready_param E ?cfg i ?p g' a'" for g' a'
    using that Some g xa by (auto simp: sgd_ready_param_def holds_array_def)
  from array_laws.sgd_decay_at [OF A refl xa alike_sym [OF ag], of ?cfg] obtain g1 where g1:
    "sgd_decay E ?cfg ?p g = Inr g1" "alike g g1"
    "\<forall>j<length (nd_elems g). nd_elems g1 ! j = nd_elems g ! j + s_weight_decay ?cfg * nd_elems a ! j" by blast
  have ag1: "alike a g1" using ag g1(2) alike_trans by blast
  from array_laws.sgd_momentum_at [OF A ha ag1 bb refl] obtain d b' where d:
    "sgd_momentum ?A ?cfg i g1 w = (Inr d, if s_momentum ?cfg \<noteq> 0 then put_buffer i b' w else w)" "alike a d" "alike a b'"
    "\<forall>j<length (nd_elems a).
        nd_elems b' ! j = (if s_momentum ?cfg \<noteq> 0
          then s_momentum ?cfg * nd_elems (buffer_before E ?cfg i a) ! j + (1 - s_dampening ?cfg) * nd_elems g1 ! j
          else nd_elems (buffer_before E ?cfg i a) ! j)
      \<and> nd_elems d ! j = (if s_momentum ?cfg = 0 then nd_elems g1 ! j
          else if s_nesterov ?cfg then nd_elems g1 ! j + s_momentum ?cfg * nd_elems b' ! j else nd_elems b' ! j)" by blast
  have sc: "alike d (a_scale ?A (s_lr ?cfg) d)" "nd_elems (a_scale ?A (s_lr ?cfg) d) = map ((*) (s_lr ?cfg)) (nd_elems d)"
    using array_laws.scale [OF A alike_plain(2) [OF d(2)]] by auto
  from array_laws.sub [OF A alike_trans [OF d(2) sc(1)]] obtain x where x:
    "a_sub ?A a (a_scale ?A (s_lr ?cfg) d) = Inr x" "alike a x"
    "nd_elems x = map2 (-) (nd_elems a) (nd_elems (a_scale ?A (s_lr ?cfg) d))" by blast
  obtain c where c: "new_content E ?p x = Inr c" "holds_array E (?p\<lparr>p_content := c\<rparr>) x"
    using new_content_holds [OF ho x(2) A] by blast
  let ?w1 = "if s_momentum ?cfg \<noteq> 0 then put_buffer i b' w else w"
  let ?w2 = "?w1\<lparr>w_heap := (w_heap w)(i := ?p\<lparr>p_content := c\<rparr>)\<rparr>"
  have h1: "w_heap ?w1 = w_heap w" by (simp add: put_buffer_def)
  have r: "sgd_param E ?cfg i w = (Inr (), ?w2)"
    using Some g g1(1) d(1) x(1) c(1) xa h1 by (simp add: sgd_param_def bindS_def read_param_def write_param_def)
  have "sgd_outside {i} w ?w2"
    using sgd_outside_refl [of w] by (auto simp: sgd_outside_def put_buffer_def dict_get_set)
  moreover have cells: "(nd_elems b' ! j, nd_elems x ! j) =
      sgd_cell ?cfg (nd_elems g ! j) (nd_elems (buffer_before E ?cfg i a) ! j, nd_elems a ! j)"
    if "j < length (nd_elems a)" for j
    using that d(4) g1(3) x(3) sc(2) alike_length [OF ag] alike_length [OF d(2)]
    by (simp add: sgd_cell_def Let_def)
  moreover have "sgd_stepped E w ?w2 i"
    unfolding sgd_stepped_def
  proof (intro conjI allI impI)
    fix g' a' assume "sgd_ready_param E ?cfg i ?p g' a'"
    then have "g' = g" "a' = a" using uniq by auto
    with cells c(2) x(2) d(3) show "\<exists>b x c. w_heap ?w2 i = ?p\<lparr>p_content := c\<rparr> \<and> holds_array E (w_heap ?w2 i) x
        \<and> alike a' x \<and> alike a' b
        \<and> dict_get (s_state (w_opt ?w2)) i = (if s_momentum ?cfg = 0 then dict_get (s_state ?cfg) i else Some b)
        \<and> (\<forall>j<length (nd_elems a'). (nd_elems b ! j, nd_elems x ! j) =
             sgd_cell ?cfg (nd_elems g' ! j) (nd_elems (buffer_before E ?cfg i a') ! j, nd_elems a' ! j))"
      by (intro exI [of _ b'] exI [of _ x] exI [of _ c]) (simp add: put_buffer_def dict_get_set)
  qed (use Some in simp_all)
  ultimately show ?thesis using r by blast
qed

lemma sgd_outside_trans: "sgd_outside I w w1 \<Longrightarrow> sgd_outside J w1 w2 \<Longrightarrow> sgd_outside (I \<union> J) w w2"
  by (auto simp: sgd_outside_def)

interpretation sgd_body: param_loop "sgd_param E cfg" "sgd_ready E cfg" "sgd_stepped E" sgd_outside
  for E cfg
proof unfold_locales
  fix w i assume r: "sgd_ready E cfg w i"
  then obtain d where d: "w_opt w = cfg\<lparr>s_state := d\<rparr>" by (auto simp: sgd_ready_def)
  have "sgd_param E (w_opt w) i = sgd_param E cfg i" unfolding d sgd_param_options ..
  then show "\<exists>w'. sgd_param E cfg i w = (Inr (), w') \<and> sgd_outside {i} w w' \<and> sgd_stepped E w w' i"
    using sgd_param_stepped [of E w i] r by (simp add: sgd_ready_def)
next
  fix I w w1 i assume o: "sgd_outside I w w1" "i \<notin> I" "sgd_ready E cfg w i"
  then have "w_heap w1 i = w_heap w i" by (simp add: sgd_outside_def)
  moreover from o obtain d e where "w_opt w = cfg\<lparr>s_state := d\<rparr>" "w_opt w1 = (w_opt w)\<lparr>s_state := e\<rparr>"
    by (auto simp: sgd_ready_def sgd_outside_def)
  then have "\<exists>d. w_opt w1 = cfg\<lparr>s_state := d\<rparr>" by (intro exI [of _ e]) simp
  ultimately show "sgd_ready E cfg w1 i"
    using o(3) unfolding sgd_ready_def sgd_steppable_def sgd_ready_param_frame [OF o(1,2)] by auto
next
  fix w w1 w2 i I assume "sgd_stepped E w w1 i" "sgd_outside I w1 w2" "i \<notin> I"
  moreover from this have "w_heap w2 i = w_heap w1 i" "dict_get (s_state (w_opt w2)) i = dict_get (s_state (w_opt w1)) i"
    by (auto simp: sgd_outside_def)
  ultimately show "sgd_stepped E w w2 i" by (simp add: sgd_stepped_def)
qed (auto intro: sgd_outside_refl sgd_outside_trans sgd_stepped_frame)

section \<open>Properties\<close>

text \<open>
  C14. One call of \<open>MetalSGD.step\<close>, on parameters it can update, returns; every parameter with a
  gradient has each element and its momentum buffer advanced by one step of SGD (with weight
  decay, dampening and Nesterov momentum as configured); without momentum no buffer is made, and
  parameters without a gradient, objects outside the groups and the options stay.
\<close>

theorem sgd_step_cells:
  assumes "array_laws (e_arith E)" and "distinct (concat (s_groups (w_opt w)))"
    and "\<forall>i \<in> set (concat (s_groups (w_opt w))). sgd_steppable E w i"
  shows "\<exists>w'. SGD_step E None w = (Inr None, w') \<and> sgd_outside (set (concat (s_groups (w_opt w)))) w w'
    \<and> (\<forall>i \<in> set (concat (s_groups (w_opt w))). sgd_stepped E w w' i)"
proof -
  have "w_opt w = (w_opt w)\<lparr>s_state := s_state (w_opt w)\<rparr>" by simp
  then have "\<forall>i \<in> set (concat (s_groups (w_opt w))). sgd_ready E (w_opt w) w i"
    using assms unfolding sgd_ready_def by blast
  from sgd_body.loop_effect [OF assms(2) this] show ?thesis
    by (auto simp: SGD_step_def bindS_def run_closure_def)
qed

definition sample_sgd_world :: "nat sgd_world" where
  "sample_sgd_world = \<lparr>w_opt = \<lparr>s_lr = 1/2, s_momentum = 1/2, s_dampening = 0, s_weight_decay = 0, s_nesterov = True,
       s_groups = [[0]], s_state = []\<rparr>,
     w_heap = (\<lambda>_. \<lparr>p_kind = ArrayParam,
       p_content = InArray (row_major [1] ''float32'' [4]), p_hashable = True,
       p_grad = GradField (Some (InArray (row_major [1] ''float32'' [2]))),
       p_ugrad = None\<rparr>)\<rparr>"

theorem sgd_step_cells_witness:
  "\<exists>w'. SGD_step \<lparr>e_np = np_ref (\<lambda>_ x. x), e_C = CMissing, e_arith = ref_arith\<rparr> None sample_sgd_world = (Inr None, w')
     \<and> sgd_outside {0} sample_sgd_world w'"
proof -
  let ?E = "\<lparr>e_np = np_ref (\<lambda>_ x. x), e_C = CMissing, e_arith = ref_arith\<rparr>"
  have "sgd_steppable ?E sample_sgd_world 0"
    by (simp add: sgd_steppable_def sgd_ready_param_def sample_sgd_world_def grad_of_def to_np_def alike_def
        plain_array_def holds_array_def buffer_before_def dict_get_def ref_arith_def lift1_def)
  then show ?thesis
    using sgd_step_cells [of ?E sample_sgd_world] ref_arith.array_laws_axioms
    by (auto simp: sample_sgd_world_def)
qed

text \<open>
  The constructor of \<open>MetalSGD\<close> raises ValueError exactly for a negative rate, momentum or
  weight decay, or for Nesterov momentum without a momentum or with dampening; otherwise the
  optimizer has the given options, one group with all parameters and no buffers.
\<close>

theorem sgd_init_validates:
  "(if 0 \<le> r \<and> 0 \<le> mo \<and> 0 \<le> wd \<and> (if nest then 0 < mo \<and> damp = 0 else True)
    then \<exists>cfg. SGD_init params r mo damp wd nest = Inr cfg \<and> s_lr cfg = r \<and> s_momentum cfg = mo
      \<and> s_dampening cfg = damp \<and> s_weight_decay cfg = wd \<and> s_nesterov cfg = nest
      \<and> concat (s_groups cfg) = params \<and> s_state cfg = []
    else raises ValueError (SGD_init params r mo damp wd nest))"
  by (auto simp: SGD_init_def)

fun sgd_run :: "sgd \<Rightarrow> real list \<Rightarrow> real \<times> real \<Rightarrow> real \<times> real" where
  "sgd_run cfg [] c = c"
| "sgd_run cfg (g # gs) c = sgd_run cfg gs (sgd_cell cfg g c)"

lemma sgd_run_append: "sgd_run cfg (gs @ hs) c = sgd_run cfg hs (sgd_run cfg gs c)"
  by (induction gs arbitrary: c) simp_all

text \<open>
  Without weight decay the momentum buffer after the gradients \<open>g_0, ..., g_(n-1)\<close> is the
  weighted sum of \<open>(1 - dampening) * momentum ^ (n - 1 - k) * g_k\<close> (the dampening applies to the
  first gradient too), and without momentum the element has moved by minus the rate times the
  sum of the gradients.
\<close>

theorem sgd_momentum_sum:
  assumes "s_weight_decay cfg = 0"
  shows "(s_momentum cfg \<noteq> 0 \<longrightarrow> fst (sgd_run cfg gs (0, x)) =
      (\<Sum>k<length gs. (1 - s_dampening cfg) * s_momentum cfg ^ (length gs - 1 - k) * gs ! k))
    \<and> (s_momentum cfg = 0 \<longrightarrow> snd (sgd_run cfg gs (b, x)) = x - s_lr cfg * sum_list gs)"
proof (induction gs rule: rev_induct)
  case Nil
  then show ?case by simp
next
  case (snoc g gs)
  let ?n = "length gs" and ?m = "s_momentum cfg" and ?c = "1 - s_dampening cfg"
  have "fst (sgd_run cfg (gs @ [g]) (0, x)) = (\<Sum>k<length (gs @ [g]). ?c * ?m ^ (length (gs @ [g]) - 1 - k) * (gs @ [g]) ! k)"
    if m: "?m \<noteq> 0"
  proof -
    have "fst (sgd_run cfg (gs @ [g]) (0, x)) = ?m * fst (sgd_run cfg gs (0, x)) + ?c * g"
      using m assms by (simp add: sgd_run_append sgd_cell_def Let_def split: prod.splits)
    also have "\<dots> = (\<Sum>k<?n. ?m * (?c * ?m ^ (?n - 1 - k) * gs ! k)) + ?c * g"
      using snoc m by (simp add: sum_distrib_left)
    also have "(\<Sum>k<?n. ?m * (?c * ?m ^ (?n - 1 - k) * gs ! k)) = (\<Sum>k<?n. ?c * ?m ^ (?n - k) * (gs @ [g]) ! k)"
    proof (rule sum.cong [OF refl])
      fix k assume "k \<in> {..<?n}"
      then have "?n - k = Suc (?n - 1 - k)" "(gs @ [g]) ! k = gs ! k" by (auto simp: nth_append)
      then show "?m * (?c * ?m ^ (?n - 1 - k) * gs ! k) = ?c * ?m ^ (?n - k) * (gs @ [g]) ! k" by simp
    qed
    finally show ?thesis by simp
  qed
  moreover have "snd (sgd_run cfg (gs @ [g]) (b, x)) = x - s_lr cfg * sum_list (gs @ [g])" if "?m = 0"
    using that snoc assms
    by (cases "sgd_run cfg gs (b, x)") (simp add: sgd_run_append sgd_cell_def Let_def algebra_simps)
  ultimately show ?case by blast
qed

theorem sgd_momentum_sum_witness:
  "fst (sgd_run (w_opt sample_sgd_world) [1, 2] (0, 7)) = 5 / 2"
  using sgd_momentum_sum [of "w_opt sample_sgd_world" "[1, 2]" 7 0]
  by (simp add: sample_sgd_world_def numeral_2_eq_2)

end
