(* ===== verification/PyData.thy ===== *)
theory PyData
  imports Prelude
begin

text \<open>
  Python values as the configuration, the profiler and the benchmark tools handle them (the
  values of JSON), and the built-in conversions from strings that the code applies.
\<close>

datatype pyval =
    PyNone | PyBool bool | PyInt int | PyFloat pyfloat | PyStr string
  | PyList "pyval list" | PyDict "(string \<times> pyval) list"

text \<open>The type of a value, as \<open>isinstance\<close> sees it; a \<open>bool\<close> is an \<open>int\<close> as well.\<close>

datatype pytype = NoneT | BoolT | IntT | FloatT | StrT | ListT | DictT

fun pytype_of :: "pyval \<Rightarrow> pytype" where
  "pytype_of PyNone = NoneT"
| "pytype_of (PyBool _) = BoolT"
| "pytype_of (PyInt _) = IntT"
| "pytype_of (PyFloat _) = FloatT"
| "pytype_of (PyStr _) = StrT"
| "pytype_of (PyList _) = ListT"
| "pytype_of (PyDict _) = DictT"

text \<open>\<open>x or default\<close> uses the truth of a value.\<close>

fun truthy :: "pyval \<Rightarrow> bool" where
  "truthy PyNone = False"
| "truthy (PyBool b) = b"
| "truthy (PyInt i) = (i \<noteq> 0)"
| "truthy (PyFloat (Fin r)) = (r \<noteq> 0)"
| "truthy (PyFloat _) = True"
| "truthy (PyStr s) = (s \<noteq> [])"
| "truthy (PyList xs) = (xs \<noteq> [])"
| "truthy (PyDict d) = (d \<noteq> [])"

text \<open>\<open>len(x)\<close>; a string here has one character per byte.\<close>

fun py_len :: "pyval \<Rightarrow> nat res" where
  "py_len (PyStr s) = Inr (length s)"
| "py_len (PyList xs) = Inr (length xs)"
| "py_len (PyDict d) = Inr (length d)"
| "py_len _ = raise TypeError ''object has no len()''"

text \<open>\<open>x.get(k, default)\<close>: only a dictionary has the method.\<close>

fun py_get :: "pyval \<Rightarrow> string \<Rightarrow> pyval \<Rightarrow> pyval res" where
  "py_get (PyDict d) k v = Inr (dict_get_default d k v)"
| "py_get _ k v = raise AttributeError ''object has no attribute get''"

text \<open>\<open>x[k]\<close> with a string.\<close>

definition py_item :: "pyval \<Rightarrow> string \<Rightarrow> pyval res" where
  "py_item d k = (case d of
     PyDict kv \<Rightarrow> (case dict_get kv k of None \<Rightarrow> raise KeyError k | Some v \<Rightarrow> Inr v)
   | _ \<Rightarrow> raise TypeError ''object is not subscriptable by a string'')"

text \<open>A number of a JSON document; the infinities and NaN are not followed further.\<close>

definition py_number :: "pyval \<Rightarrow> real res" where
  "py_number v = (case v of
     PyInt i \<Rightarrow> Inr (of_int i) | PyFloat (Fin r) \<Rightarrow> Inr r | PyBool b \<Rightarrow> Inr (if b then 1 else 0)
   | PyFloat _ \<Rightarrow> raise (OtherError ''not finite'') [] | _ \<Rightarrow> raise TypeError ''unsupported operand type'')"

section \<open>Text of values\<close>

text \<open>
  \<open>str(x)\<close>: the text of floats (the shortest decimal that reads back) and of lists and
  dictionaries is the parameter \<open>show_rest\<close>.
\<close>

fun py_str :: "(pyval \<Rightarrow> string) \<Rightarrow> pyval \<Rightarrow> string" where
  "py_str show_rest PyNone = ''None''"
| "py_str show_rest (PyBool b) = (if b then ''True'' else ''False'')"
| "py_str show_rest (PyInt i) = show_int i"
| "py_str show_rest (PyStr s) = s"
| "py_str show_rest v = show_rest v"

text \<open>\<open>f"{x:.df}"\<close>, \<open>x / c\<close> and \<open>str(e)\<close>; a \<open>KeyError\<close> shows its key quoted.\<close>

definition py_format :: "nat \<Rightarrow> pyval \<Rightarrow> string res" where
  "py_format d v = (case v of
     PyStr _ \<Rightarrow> raise ValueError ''Unknown format code f for object of type str''
   | _ \<Rightarrow> bindR (py_number v) (\<lambda>x. Inr (fmt_fixed d x)))"

definition py_divide :: "pyval \<Rightarrow> real \<Rightarrow> real res" where
  "py_divide v c = bindR (py_number v) (\<lambda>x. Inr (x / c))"

definition str_exc :: "pyexc \<Rightarrow> string" where
  "str_exc e = (if exc_class e = KeyError then [CHR 0x27] @ exc_msg e @ [CHR 0x27] else exc_msg e)"

section \<open>Conversion of strings\<close>

definition is_space :: "char \<Rightarrow> bool" where
  "is_space c \<longleftrightarrow> c \<in> {CHR '' '', CHR 0x09, CHR 0x0A, CHR 0x0B, CHR 0x0C, CHR 0x0D}"

definition py_strip :: "string \<Rightarrow> string" where
  "py_strip s = rev (dropWhile is_space (rev (dropWhile is_space s)))"

definition is_digit :: "char \<Rightarrow> bool" where
  "is_digit c \<longleftrightarrow> 48 \<le> (of_char c :: nat) \<and> (of_char c :: nat) \<le> 57"

definition digit_value :: "char \<Rightarrow> nat" where
  "digit_value c = of_char c - 48"

text \<open>A run of digits, in which single underscores may stand between two digits.\<close>

fun digits_ok :: "string \<Rightarrow> bool" where
  "digits_ok [] = False"
| "digits_ok [c] = is_digit c"
| "digits_ok (c # d # cs) =
     (is_digit c \<and> (if d = CHR ''_'' then digits_ok cs else digits_ok (d # cs)))"

definition digits_value :: "string \<Rightarrow> nat" where
  "digits_value s = foldl (\<lambda>n c. n * 10 + digit_value c) 0 (filter is_digit s)"

text \<open>The sign and the rest of a number.\<close>

fun split_sign :: "string \<Rightarrow> bool \<times> string" where
  "split_sign [] = (False, [])"
| "split_sign (c # cs) =
     (if c = CHR ''-'' then (True, cs) else if c = CHR ''+'' then (False, cs) else (False, c # cs))"

definition py_int :: "string \<Rightarrow> int res" where
  "py_int s = (case split_sign (py_strip s) of (neg, ds) \<Rightarrow>
     if digits_ok ds
     then Inr (if neg then - int (digits_value ds) else int (digits_value ds))
     else raise ValueError ''invalid literal for int() with base 10'')"

text \<open>\<open>float(s)\<close>: digits with an optional point and exponent, or one of the special values.\<close>

definition exponent_of :: "string \<Rightarrow> int option" where
  "exponent_of e = (case split_sign e of (neg, ds) \<Rightarrow>
     if digits_ok ds then Some (if neg then - int (digits_value ds) else int (digits_value ds)) else None)"

definition decimal_of :: "string \<Rightarrow> real option" where
  "decimal_of s =
     (let ip = takeWhile (\<lambda>c. c \<noteq> CHR ''.'') s; fp = drop (Suc (length ip)) s in
      if (ip = [] \<or> digits_ok ip) \<and> (fp = [] \<or> digits_ok fp) \<and> (ip \<noteq> [] \<or> fp \<noteq> [])
      then Some (real (digits_value ip) + real (digits_value fp) / 10 ^ length (filter is_digit fp))
      else None)"

definition unsigned_float :: "string \<Rightarrow> pyfloat option" where
  "unsigned_float s =
     (if s \<in> {''inf'', ''infinity''} then Some PosInf
      else if s = ''nan'' then Some NaN
      else
        let m = takeWhile (\<lambda>c. c \<noteq> CHR ''e'') s; e = drop (Suc (length m)) s in
        if CHR ''e'' \<in> set s
        then (case decimal_of m of None \<Rightarrow> None | Some x \<Rightarrow>
               (case exponent_of e of None \<Rightarrow> None | Some k \<Rightarrow> Some (Fin (x * 10 powi k))))
        else map_option Fin (decimal_of s))"

fun negate :: "pyfloat \<Rightarrow> pyfloat" where
  "negate (Fin x) = Fin (- x)"
| "negate PosInf = NegInf"
| "negate NegInf = PosInf"
| "negate NaN = NaN"

definition py_float :: "string \<Rightarrow> pyfloat res" where
  "py_float s = (case split_sign (py_lower (py_strip s)) of (neg, u) \<Rightarrow>
     (case unsigned_float u of
        None \<Rightarrow> raise ValueError ''could not convert string to float''
      | Some x \<Rightarrow> Inr (if neg then negate x else x)))"

section \<open>Decimal digits back and forth\<close>

lemma digit_char_is_digit: "d < 10 \<Longrightarrow> is_digit (digit_char d) \<and> digit_value (digit_char d) = d"
  by (simp add: digit_char_def is_digit_def digit_value_def)

lemma digits_value_append: "digits_value (s @ [c]) = (if is_digit c then digits_value s * 10 + digit_value c else digits_value s)"
  by (simp add: digits_value_def)

lemma digits_ok_snoc: "digits_ok s \<Longrightarrow> is_digit c \<Longrightarrow> digits_ok (s @ [c])"
proof (induction s rule: digits_ok.induct)
  case (3 a b s)
  then show ?case by (cases s) (auto simp: is_digit_def split: if_splits)
qed (auto simp: is_digit_def)

lemma show_nat_digits: "digits_ok (show_nat n) \<and> digits_value (show_nat n) = n"
proof (induction n rule: show_nat.induct)
  case (1 n)
  show ?case
  proof (cases "n < 10")
    case True
    then show ?thesis
      using digit_char_is_digit [OF True] by (subst (1 2) show_nat.simps) (simp add: digits_value_def)
  next
    case False
    have d: "n mod 10 < 10" by simp
    from 1 False have "digits_ok (show_nat (n div 10))" "digits_value (show_nat (n div 10)) = n div 10" by auto
    then show ?thesis
      using False digit_char_is_digit [OF d]
      by (subst (1 2) show_nat.simps) (simp add: digits_ok_snoc digits_value_append)
  qed
qed

lemma show_nat_all_digits: "c \<in> set (show_nat n) \<Longrightarrow> is_digit c"
proof (induction n rule: show_nat.induct)
  case (1 n)
  have d: "n mod 10 < 10" by simp
  show ?case
  proof (cases "n < 10")
    case True
    with 1(2) digit_char_is_digit [OF True] show ?thesis by (subst (asm) show_nat.simps) simp
  next
    case False
    with 1 digit_char_is_digit [OF d] show ?thesis by (subst (asm) (2) show_nat.simps) auto
  qed
qed

lemma strip_no_space: "\<forall>c \<in> set s. \<not> is_space c \<Longrightarrow> py_strip s = s"
proof -
  assume a: "\<forall>c \<in> set s. \<not> is_space c"
  have "dropWhile is_space t = t" if "\<forall>c \<in> set t. \<not> is_space c" for t
    using that by (cases t) auto
  from this [of s] this [of "rev s"] a show ?thesis by (simp add: py_strip_def)
qed

lemma digit_not_space: "is_digit c \<Longrightarrow> \<not> is_space c \<and> c \<noteq> CHR ''-'' \<and> c \<noteq> CHR ''+''"
  by (auto simp: is_digit_def is_space_def)

text \<open>\<open>int(str(i))\<close> is \<open>i\<close>.\<close>

lemma py_int_show_int: "py_int (show_int i) = Inr i"
proof -
  have dn: "\<forall>c \<in> set (show_nat n). \<not> is_space c \<and> c \<noteq> CHR ''-'' \<and> c \<noteq> CHR ''+''" for n
    using show_nat_all_digits digit_not_space by blast
  have sp: "\<forall>c \<in> set (show_int i). \<not> is_space c"
  proof (cases "i < 0")
    case True
    have "\<not> is_space CHR ''-''" by (simp add: is_space_def)
    with True dn [of "nat (- i)"] show ?thesis by (simp add: show_int_def)
  qed (use dn [of "nat i"] in \<open>simp add: show_int_def\<close>)
  show ?thesis
  proof (cases "i < 0")
    case True
    then show ?thesis
      using show_nat_digits [of "nat (- i)"] by (simp add: py_int_def strip_no_space [OF sp]) (simp add: show_int_def)
  next
    case False
    then obtain c cs where c: "show_nat (nat i) = c # cs" by (cases "show_nat (nat i)") auto
    with dn [of "nat i"] have "split_sign (show_nat (nat i)) = (False, show_nat (nat i))" by simp
    with False show ?thesis
      using show_nat_digits [of "nat i"] by (simp add: py_int_def strip_no_space [OF sp]) (simp add: show_int_def)
  qed
qed

end
