(* ===== verification/Config.thy ===== *)
theory Config
  imports PyData
begin

text \<open>
  \<^verbatim>\<open>python/metal_native/config.py\<close>. An instance of one of the section classes is the dictionary
  of its attributes, in the order of the fields; a field may hold any value, because dataclasses
  check no types. The five sections make up the record \<open>config\<close>.

  Not modelled: the attributes every object has (\<open>__class__\<close>, \<open>__doc__\<close>, ...), which an
  environment variable with a double underscore could name.
\<close>

type_synonym attrs = "(string, pyval) dict"

section \<open>The section classes\<close>

definition AllocatorConfig :: attrs where
  "AllocatorConfig =
    [(''initial_heap_size'', PyInt (256 * 1024 * 1024)), (''max_heap_size'', PyInt (8 * 1024 * 1024 * 1024)),
     (''growth_policy'', PyStr ''exponential''), (''growth_factor'', PyFloat (Fin 2)),
     (''growth_increment'', PyInt (256 * 1024 * 1024)), (''enable_pooling'', PyBool True),
     (''small_buffer_threshold'', PyInt (1024 * 1024))]"

definition BackpressureConfig :: attrs where
  "BackpressureConfig =
    [(''soft_limit'', PyInt 64), (''hard_limit'', PyInt 128), (''throttle_poll_us'', PyInt 100),
     (''enable_adaptive'', PyBool True)]"

definition DispatchConfig :: attrs where
  "DispatchConfig =
    [(''use_commit_and_continue'', PyBool True), (''max_commands_per_buffer'', PyInt 32),
     (''release_gil'', PyBool True), (''enable_concurrent_dispatch'', PyBool True),
     (''command_buffer_pool_size'', PyInt 8)]"

definition KernelCacheConfig :: attrs where
  "KernelCacheConfig =
    [(''cache_dir'', PyNone), (''max_cache_size'', PyInt (1024 * 1024 * 1024)), (''enable_bucketing'', PyBool True),
     (''bucket_sizes'', PyList (map PyInt [64, 128, 256, 512, 1024, 2048, 4096, 8192])),
     (''enable_persistent_cache'', PyBool True), (''cache_version'', PyStr ''0.1.0'')]"

definition ProfilingConfig :: attrs where
  "ProfilingConfig =
    [(''enable_signposts'', PyBool False), (''enable_capture'', PyBool False), (''track_callstacks'', PyBool False),
     (''log_kernel_launches'', PyBool False), (''detailed_memory_stats'', PyBool False)]"

text \<open>The generated constructor: known keyword arguments replace the defaults, others raise.\<close>

definition dataclass_init :: "attrs \<Rightarrow> pyval \<Rightarrow> attrs res" where
  "dataclass_init cls kwargs = (case kwargs of
     PyDict kw \<Rightarrow>
       if \<forall>k \<in> set (dict_keys kw). dict_has cls k
       then Inr (map (\<lambda>(k, v). (k, dict_get_default kw k v)) cls)
       else raise TypeError ''__init__() got an unexpected keyword argument''
   | _ \<Rightarrow> raise TypeError ''argument after ** must be a mapping'')"

section \<open>The configuration\<close>

record config =
  allocator :: attrs
  backpressure :: attrs
  dispatch :: attrs
  kernel_cache :: attrs
  profiling :: attrs

definition MetalNativeConfig :: config where
  "MetalNativeConfig = \<lparr>allocator = AllocatorConfig, backpressure = BackpressureConfig, dispatch = DispatchConfig,
     kernel_cache = KernelCacheConfig, profiling = ProfilingConfig\<rparr>"

definition config_to_dict :: "config \<Rightarrow> pyval" where
  "config_to_dict c = PyDict
    [(''allocator'', PyDict (allocator c)), (''backpressure'', PyDict (backpressure c)),
     (''dispatch'', PyDict (dispatch c)), (''kernel_cache'', PyDict (kernel_cache c)),
     (''profiling'', PyDict (profiling c))]"

definition config_from_dict :: "pyval \<Rightarrow> config res" where
  "config_from_dict data =
     bindR (bindR (py_get data ''allocator'' (PyDict [])) (dataclass_init AllocatorConfig)) (\<lambda>a.
     bindR (bindR (py_get data ''backpressure'' (PyDict [])) (dataclass_init BackpressureConfig)) (\<lambda>b.
     bindR (bindR (py_get data ''dispatch'' (PyDict [])) (dataclass_init DispatchConfig)) (\<lambda>d.
     bindR (bindR (py_get data ''kernel_cache'' (PyDict [])) (dataclass_init KernelCacheConfig)) (\<lambda>k.
     bindR (bindR (py_get data ''profiling'' (PyDict [])) (dataclass_init ProfilingConfig)) (\<lambda>p.
     Inr \<lparr>allocator = a, backpressure = b, dispatch = d, kernel_cache = k, profiling = p\<rparr>)))))"

text \<open>
  The files: \<open>read_file\<close> opens and reads one, \<open>json_load\<close> and \<open>yaml_load\<close> are the parsers; PyYAML
  may not be installed.
\<close>

definition config_from_json :: "(string \<Rightarrow> string res) \<Rightarrow> (string \<Rightarrow> pyval res) \<Rightarrow> string \<Rightarrow> config res" where
  "config_from_json read_file json_load path =
     bindR (read_file path) (\<lambda>txt. bindR (json_load txt) config_from_dict)"

definition config_from_yaml ::
  "(string \<Rightarrow> string res) \<Rightarrow> (string \<Rightarrow> pyval res) option \<Rightarrow> string \<Rightarrow> config res" where
  "config_from_yaml read_file yaml_load path = (case yaml_load of
     None \<Rightarrow> raise ImportError ''PyYAML is required for YAML configuration loading. Install it with: pip install pyyaml''
   | Some safe_load \<Rightarrow> bindR (read_file path) (\<lambda>txt. bindR (safe_load txt) config_from_dict))"

section \<open>Environment variables\<close>

text \<open>\<open>getattr(config, section)\<close>, if the configuration has a section of that name, and its update.\<close>

definition get_section :: "config \<Rightarrow> string \<Rightarrow> attrs option" where
  "get_section c s =
     (if s = ''allocator'' then Some (allocator c)
      else if s = ''backpressure'' then Some (backpressure c)
      else if s = ''dispatch'' then Some (dispatch c)
      else if s = ''kernel_cache'' then Some (kernel_cache c)
      else if s = ''profiling'' then Some (profiling c)
      else None)"

definition set_section :: "string \<Rightarrow> attrs \<Rightarrow> config \<Rightarrow> config" where
  "set_section s a c =
     (if s = ''allocator'' then c\<lparr>allocator := a\<rparr>
      else if s = ''backpressure'' then c\<lparr>backpressure := a\<rparr>
      else if s = ''dispatch'' then c\<lparr>dispatch := a\<rparr>
      else if s = ''kernel_cache'' then c\<lparr>kernel_cache := a\<rparr>
      else if s = ''profiling'' then c\<lparr>profiling := a\<rparr>
      else c)"

definition env_prefix :: string where
  "env_prefix = ''METAL_NATIVE_''"

text \<open>The section and the attribute that a variable names.\<close>

definition env_target :: "string \<Rightarrow> (string \<times> string) option" where
  "env_target key =
     (if py_startswith key env_prefix
      then (case py_split1 CHR ''_'' (py_lower (drop (length env_prefix) key)) of
              [s, a] \<Rightarrow> Some (s, a)
            | _ \<Rightarrow> None)
      else None)"

text \<open>The text converted to the type of the current value.\<close>

definition env_value :: "pyval \<Rightarrow> string \<Rightarrow> pyval res" where
  "env_value current value = (case pytype_of current of
     BoolT \<Rightarrow> Inr (PyBool (py_lower value \<in> {''true'', ''1'', ''yes''}))
   | IntT \<Rightarrow> bindR (py_int value) (\<lambda>i. Inr (PyInt i))
   | FloatT \<Rightarrow> bindR (py_float value) (\<lambda>x. Inr (PyFloat x))
   | _ \<Rightarrow> Inr (PyStr value))"

definition env_step :: "string \<times> string \<Rightarrow> config \<Rightarrow> config res" where
  "env_step kv c = (case env_target (fst kv) of
     None \<Rightarrow> Inr c
   | Some (s, a) \<Rightarrow> (case get_section c s of
       None \<Rightarrow> Inr c
     | Some sec \<Rightarrow> (case dict_get sec a of
         None \<Rightarrow> Inr c
       | Some current \<Rightarrow> bindR (env_value current (snd kv)) (\<lambda>v.
           Inr (set_section s (dict_set a v sec) c)))))"

definition config_from_env :: "(string, string) dict \<Rightarrow> config res" where
  "config_from_env environ = foldR env_step environ MetalNativeConfig"

section \<open>The global configuration\<close>

definition get_config :: "(config option, config) st" where
  "get_config = (\<lambda>g. case g of
     None \<Rightarrow> (Inr MetalNativeConfig, Some MetalNativeConfig)
   | Some c \<Rightarrow> (Inr c, Some c))"

definition set_config :: "config \<Rightarrow> (config option, unit) st" where
  "set_config c = (\<lambda>g. (Inr (), Some c))"

section \<open>Lemmas\<close>

text \<open>The shape of a configuration: every section has exactly the fields of its class.\<close>

definition config_wf :: "config \<Rightarrow> bool" where
  "config_wf c \<longleftrightarrow> dict_keys (allocator c) = dict_keys AllocatorConfig
     \<and> dict_keys (backpressure c) = dict_keys BackpressureConfig
     \<and> dict_keys (dispatch c) = dict_keys DispatchConfig
     \<and> dict_keys (kernel_cache c) = dict_keys KernelCacheConfig
     \<and> dict_keys (profiling c) = dict_keys ProfilingConfig"

lemmas section_classes = AllocatorConfig_def BackpressureConfig_def DispatchConfig_def KernelCacheConfig_def
  ProfilingConfig_def

lemma classes_wf [simp]: "dict_wf AllocatorConfig" "dict_wf BackpressureConfig" "dict_wf DispatchConfig"
  "dict_wf KernelCacheConfig" "dict_wf ProfilingConfig"
  by (simp_all add: dict_wf_def section_classes)

lemma dataclass_init_keys: "dataclass_init cls kw = Inr a \<Longrightarrow> dict_keys a = dict_keys cls"
  by (auto simp: dataclass_init_def dict_keys_def split: pyval.splits if_splits)

lemma dataclass_init_same:
  assumes "dict_keys a = dict_keys cls" "dict_wf cls"
  shows "dataclass_init cls (PyDict a) = Inr a"
proof -
  have d: "distinct (map fst a)" using assms by (simp add: dict_wf_def dict_keys_def)
  have len: "length a = length cls" using assms(1) by (metis dict_keys_def length_map)
  have "map (\<lambda>(k, v). (k, dict_get_default a k v)) cls = a"
  proof (rule nth_equalityI)
    fix i assume "i < length (map (\<lambda>(k, v). (k, dict_get_default a k v)) cls)"
    then have i: "i < length cls" "i < length a" using len by simp_all
    have k: "fst (cls ! i) = fst (a ! i)" using assms(1) i by (metis dict_keys_def nth_map)
    have "map_of a (fst (a ! i)) = Some (snd (a ! i))" using d i(2) by (intro map_of_is_SomeI) simp_all
    then show "map (\<lambda>(k, v). (k, dict_get_default a k v)) cls ! i = a ! i"
      using i k by (cases "cls ! i"; cases "a ! i") (simp add: dict_get_default_def dict_get_def)
  qed (simp add: len)
  moreover have "\<forall>k \<in> set (dict_keys a). dict_has cls k"
    using assms(1) by (simp add: dict_has_def dict_keys_def)
  ultimately show ?thesis by (simp add: dataclass_init_def)
qed

lemma dataclass_init_get:
  assumes "dataclass_init cls (PyDict kw) = Inr a" "dict_get cls k = Some v"
  shows "dict_get a k = Some (dict_get_default kw k v)"
proof -
  from assms(1) have "a = map (\<lambda>(k, v). (k, dict_get_default kw k v)) cls"
    by (auto simp: dataclass_init_def split: if_splits)
  moreover have "map_of (map (\<lambda>(k, v). (k, dict_get_default kw k v)) d) k = map_option (dict_get_default kw k) (map_of d k)" for d
    by (induction d) auto
  ultimately show ?thesis using assms(2) by (simp add: dict_get_def)
qed

lemma section_set:
  "get_section (set_section s a c) s' = (if s' = s \<and> get_section c s \<noteq> None then Some a else get_section c s')"
  by (simp add: get_section_def set_section_def)

lemma lower_no_upper: "c \<in> set (takeWhile (\<lambda>x. x \<noteq> d) t) \<Longrightarrow> c \<noteq> d"
  by (auto dest: set_takeWhileD)

text \<open>A section named by a variable has no underscore, so it is never \<open>kernel_cache\<close>.\<close>

lemma env_target_section: "env_target key = Some (s, a) \<Longrightarrow> CHR ''_'' \<notin> set s"
  by (auto simp: env_target_def py_split1_def split: if_splits list.splits dest: lower_no_upper)

text \<open>The fields of a section with the types of their defaults, none of them None or a list.\<close>

definition typed_like :: "attrs \<Rightarrow> attrs \<Rightarrow> bool" where
  "typed_like cls a \<longleftrightarrow> dict_keys a = dict_keys cls \<and>
     (\<forall>k v. dict_get a k = Some v \<longrightarrow> (\<exists>v0. dict_get cls k = Some v0 \<and> pytype_of v = pytype_of v0
        \<and> pytype_of v0 \<in> {BoolT, IntT, FloatT, StrT}))"

definition env_config :: "config \<Rightarrow> bool" where
  "env_config c \<longleftrightarrow> typed_like AllocatorConfig (allocator c) \<and> typed_like BackpressureConfig (backpressure c)
     \<and> typed_like DispatchConfig (dispatch c) \<and> typed_like ProfilingConfig (profiling c)
     \<and> kernel_cache c = KernelCacheConfig"

lemma typed_like_self:
  "typed_like AllocatorConfig AllocatorConfig" "typed_like BackpressureConfig BackpressureConfig"
  "typed_like DispatchConfig DispatchConfig" "typed_like ProfilingConfig ProfilingConfig"
  unfolding typed_like_def section_classes dict_get_def by (auto split: if_splits)

lemma env_value_type:
  "env_value v t = Inr v' \<Longrightarrow> pytype_of v \<in> {BoolT, IntT, FloatT, StrT} \<Longrightarrow> pytype_of v' = pytype_of v"
  by (auto simp: env_value_def bindR_Inr_iff split: pytype.splits)

lemma typed_like_set:
  assumes t: "typed_like cls a" and k: "dict_get a k = Some v" and v: "env_value v txt = Inr v'"
  shows "typed_like cls (dict_set k v' a)"
proof -
  have "dict_has a k" using k by (simp add: dict_has_get)
  then have keys: "dict_keys (dict_set k v' a) = dict_keys cls" using t by (simp add: dict_keys_set typed_like_def)
  from t k obtain v0 where v0: "dict_get cls k = Some v0" "pytype_of v = pytype_of v0"
    "pytype_of v0 \<in> {BoolT, IntT, FloatT, StrT}" unfolding typed_like_def by blast
  have "pytype_of v' = pytype_of v0" using env_value_type [OF v] v0 by simp
  with v0 t keys show ?thesis unfolding typed_like_def by (simp add: dict_get_set)
qed

lemma env_step_config:
  assumes ok: "env_config c" and st: "env_step kv c = Inr c'"
  shows "env_config c'"
proof (cases "env_target (fst kv)")
  case None
  with ok st show ?thesis by (simp add: env_step_def)
next
  case (Some sa)
  obtain s a where sa: "sa = (s, a)" by (cases sa)
  have nk: "s \<noteq> ''kernel_cache''" using env_target_section [of "fst kv" s a] Some sa by auto
  show ?thesis
  proof (cases "get_section c s")
    case None
    with ok st Some sa show ?thesis by (simp add: env_step_def)
  next
    case (Some sec)
    show ?thesis
    proof (cases "dict_get sec a")
      case None
      with ok st \<open>env_target (fst kv) = Some sa\<close> sa Some show ?thesis by (simp add: env_step_def)
    next
      case (Some v)
      with st \<open>env_target (fst kv) = Some sa\<close> sa \<open>get_section c s = Some sec\<close> obtain v' where
        v': "env_value v (snd kv) = Inr v'" "c' = set_section s (dict_set a v' sec) c"
        by (auto simp: env_step_def bindR_Inr_iff)
      note ts = typed_like_set [OF _ Some v'(1)]
      consider "s = ''allocator''" | "s = ''backpressure''" | "s = ''dispatch''" | "s = ''profiling''"
        using \<open>get_section c s = Some sec\<close> nk by (auto simp: get_section_def split: if_splits)
      then show ?thesis
        by cases (use ok ts \<open>get_section c s = Some sec\<close> in
          \<open>simp_all add: v'(2) env_config_def get_section_def set_section_def\<close>)
    qed
  qed
qed

lemma from_env_config: "foldR env_step env c = Inr c' \<Longrightarrow> env_config c \<Longrightarrow> env_config c'"
proof (induction env arbitrary: c)
  case (Cons kv env)
  then obtain c1 where "env_step kv c = Inr c1" "foldR env_step env c1 = Inr c'" by (auto simp: bindR_Inr_iff)
  with Cons env_step_config show ?case by blast
qed simp

section \<open>Properties\<close>

text \<open>
  C32. Converting a configuration to a dictionary and back gives the configuration, and whatever
  \<open>from_dict\<close> returns has exactly the fields of the five classes.
\<close>

theorem config_dict_roundtrip:
  "(config_wf c \<longrightarrow> config_from_dict (config_to_dict c) = Inr c)
   \<and> (config_from_dict data = Inr c' \<longrightarrow> config_wf c')"
proof -
  have "config_from_dict (config_to_dict c) = Inr c" if "config_wf c"
    using that by (simp add: config_from_dict_def config_to_dict_def dict_get_default_def dict_get_def
        config_wf_def dataclass_init_same)
  moreover have "config_wf c'" if r: "config_from_dict data = Inr c'"
    using r by (auto simp: config_from_dict_def bindR_Inr_iff config_wf_def dest: dataclass_init_keys)
  ultimately show ?thesis by blast
qed

theorem config_dict_roundtrip_witness:
  "config_from_dict (config_to_dict MetalNativeConfig) = Inr MetalNativeConfig"
  using config_dict_roundtrip [of MetalNativeConfig PyNone MetalNativeConfig]
  by (simp add: config_wf_def MetalNativeConfig_def)

text \<open>
  A partial dictionary overrides exactly the fields it names: in what \<open>from_dict\<close> returns, a
  field given in its section has the given value, and every other field, also of a section that
  is absent, has its default.
\<close>

theorem config_from_dict_overrides:
  assumes "config_from_dict (PyDict d) = Inr c" and "get_section MetalNativeConfig s = Some cls"
    and "dict_get cls k = Some v"
  shows "\<exists>sec. get_section c s = Some sec \<and> dict_get sec k = Some (case dict_get d s of
      Some (PyDict kw) \<Rightarrow> dict_get_default kw k v | _ \<Rightarrow> v)"
proof -
  have sec: "dict_get a k = Some (case dict_get d s of Some (PyDict kw) \<Rightarrow> dict_get_default kw k v | _ \<Rightarrow> v)"
    if i: "dataclass_init cl (dict_get_default d s (PyDict [])) = Inr a" and cl: "cl = cls" for a cl
  proof -
    from i obtain kw where kw: "dict_get_default d s (PyDict []) = PyDict kw"
      by (auto simp: dataclass_init_def split: pyval.splits)
    with i assms(3) cl dataclass_init_get [of cls kw a k v] have "dict_get a k = Some (dict_get_default kw k v)" by simp
    moreover have "dict_get_default [] k v = v" by (simp add: dict_get_default_def dict_get_def)
    ultimately show ?thesis using kw by (cases "dict_get d s") (auto simp: dict_get_default_def)
  qed
  from assms(1) obtain a b e f g where
    "dataclass_init AllocatorConfig (dict_get_default d ''allocator'' (PyDict [])) = Inr a"
    "dataclass_init BackpressureConfig (dict_get_default d ''backpressure'' (PyDict [])) = Inr b"
    "dataclass_init DispatchConfig (dict_get_default d ''dispatch'' (PyDict [])) = Inr e"
    "dataclass_init KernelCacheConfig (dict_get_default d ''kernel_cache'' (PyDict [])) = Inr f"
    "dataclass_init ProfilingConfig (dict_get_default d ''profiling'' (PyDict [])) = Inr g"
    "c = \<lparr>allocator = a, backpressure = b, dispatch = e, kernel_cache = f, profiling = g\<rparr>"
    by (auto simp: config_from_dict_def bindR_Inr_iff)
  with assms(2) sec show ?thesis
    by (auto simp: get_section_def MetalNativeConfig_def split: if_splits)
qed

theorem config_from_dict_overrides_witness:
  "\<exists>c sec. config_from_dict (PyDict [(''backpressure'', PyDict [(''hard_limit'', PyInt 7)])]) = Inr c
     \<and> get_section c ''backpressure'' = Some sec \<and> dict_get sec ''hard_limit'' = Some (PyInt 7)"
proof -
  have "returns (config_from_dict (PyDict [(''backpressure'', PyDict [(''hard_limit'', PyInt 7)])]))"
    by (simp add: config_from_dict_def dict_get_default_def dict_get_def dataclass_init_def dict_keys_def dict_has_def
        BackpressureConfig_def)
  then obtain c where c: "config_from_dict (PyDict [(''backpressure'', PyDict [(''hard_limit'', PyInt 7)])]) = Inr c"
    by (auto simp: returns_iff)
  from config_from_dict_overrides [OF c, of "''backpressure''" BackpressureConfig "''hard_limit''" "PyInt 128"] c
  show ?thesis
    by (auto simp: get_section_def MetalNativeConfig_def BackpressureConfig_def dict_get_def dict_get_default_def)
qed

text \<open>
  C38. Whatever the environment holds, a configuration that \<open>from_env\<close> returns has exactly the
  fields of the classes, every field has the type of its default, and the kernel cache section
  is the default one: no variable can reach it, because the name is cut at its first
  underscore.
\<close>

theorem config_from_env_typed:
  assumes "config_from_env environ = Inr c" and "get_section c s = Some sec" and "dict_get sec k = Some v"
  shows "config_wf c \<and> kernel_cache c = KernelCacheConfig
    \<and> (\<exists>cls v0. get_section MetalNativeConfig s = Some cls \<and> dict_get cls k = Some v0 \<and> pytype_of v = pytype_of v0)"
proof -
  have "env_config MetalNativeConfig" by (simp add: env_config_def MetalNativeConfig_def typed_like_self)
  then have e: "env_config c" using assms(1) from_env_config unfolding config_from_env_def by blast
  then have t: "typed_like AllocatorConfig (allocator c)" "typed_like BackpressureConfig (backpressure c)"
    "typed_like DispatchConfig (dispatch c)" "typed_like ProfilingConfig (profiling c)" "kernel_cache c = KernelCacheConfig"
    by (simp_all add: env_config_def)
  have "config_wf c" using t by (simp add: config_wf_def typed_like_def)
  moreover have tl: "\<exists>v0. dict_get cls k = Some v0 \<and> pytype_of v = pytype_of v0" if "typed_like cls sec" for cls
    using that assms(3) unfolding typed_like_def by blast
  consider "s = ''allocator''" | "s = ''backpressure''" | "s = ''dispatch''" | "s = ''profiling''" | "s = ''kernel_cache''"
    using assms(2) by (auto simp: get_section_def split: if_splits)
  then have "\<exists>cls v0. get_section MetalNativeConfig s = Some cls \<and> dict_get cls k = Some v0 \<and> pytype_of v = pytype_of v0"
    by cases (use assms(2,3) t tl in \<open>auto simp: get_section_def MetalNativeConfig_def\<close>)
  ultimately show ?thesis using t(5) by blast
qed

theorem config_from_env_typed_witness:
  "\<exists>c. config_from_env [(''METAL_NATIVE_ALLOCATOR_MAX_HEAP_SIZE'', ''1024''), (''METAL_NATIVE_KERNEL_CACHE_CACHE_DIR'', ''/tmp'')] = Inr c
     \<and> kernel_cache c = KernelCacheConfig"
proof -
  have "returns (config_from_env [(''METAL_NATIVE_ALLOCATOR_MAX_HEAP_SIZE'', ''1024''), (''METAL_NATIVE_KERNEL_CACHE_CACHE_DIR'', ''/tmp'')])"
    by code_simp
  then obtain c where c: "config_from_env [(''METAL_NATIVE_ALLOCATOR_MAX_HEAP_SIZE'', ''1024''), (''METAL_NATIVE_KERNEL_CACHE_CACHE_DIR'', ''/tmp'')] = Inr c"
    by (auto simp: returns_iff)
  have "env_config MetalNativeConfig" by (simp add: env_config_def MetalNativeConfig_def typed_like_self)
  with c have "env_config c" using from_env_config unfolding config_from_env_def by blast
  then have "typed_like DispatchConfig (dispatch c)" by (simp add: env_config_def)
  then have "dict_has (dispatch c) ''release_gil''"
    by (simp add: typed_like_def dict_has_def dict_keys_def DispatchConfig_def del: set_map)
  then obtain v where "dict_get (dispatch c) ''release_gil'' = Some v" by (auto simp: dict_has_get)
  with config_from_env_typed [OF c, of "''dispatch''" "dispatch c"] c show ?thesis
    by (auto simp: get_section_def)
qed

text \<open>
  The last variable that names a field decides: after any environment that is accepted, a
  further variable for an integer field, holding the decimal text of \<open>i\<close>, sets that field to
  \<open>i\<close> and leaves every other field of every section; a text that is no integer raises
  ValueError.
\<close>

theorem config_from_env_int:
  assumes "config_from_env environ = Inr c" and "env_target key = Some (s, a)"
    and "get_section c s = Some sec" and "dict_get sec a = Some (PyInt n)"
  shows "config_from_env (environ @ [(key, show_int i)]) = Inr (set_section s (dict_set a (PyInt i) sec) c)
    \<and> (\<forall>s' k sec'. get_section c s' = Some sec' \<and> (s', k) \<noteq> (s, a) \<longrightarrow>
         (\<exists>sec''. get_section (set_section s (dict_set a (PyInt i) sec) c) s' = Some sec'' \<and> dict_get sec'' k = dict_get sec' k))
    \<and> (py_int txt = Inl e \<longrightarrow> raises ValueError (config_from_env (environ @ [(key, txt)])))"
proof -
  have "foldR env_step [(key, show_int i)] c = Inr (set_section s (dict_set a (PyInt i) sec) c)"
    by (simp add: env_step_def assms(2-4) env_value_def py_int_show_int)
  moreover have "raises ValueError (foldR env_step [(key, txt)] c)" if "py_int txt = Inl e"
    using that by (auto simp: env_step_def assms(2-4) env_value_def py_int_def raise_def split: prod.splits if_splits)
  moreover have "\<exists>sec''. get_section (set_section s (dict_set a (PyInt i) sec) c) s' = Some sec'' \<and> dict_get sec'' k = dict_get sec' k"
    if "get_section c s' = Some sec'" "(s', k) \<noteq> (s, a)" for s' k sec'
    using that assms(3) by (auto simp: section_set dict_get_set)
  ultimately show ?thesis using assms(1) by (simp add: config_from_env_def foldR_append)
qed

theorem config_from_env_int_witness:
  "config_from_env ([] @ [(''METAL_NATIVE_BACKPRESSURE_SOFT_LIMIT'', show_int 9)])
     = Inr (set_section ''backpressure'' (dict_set ''soft_limit'' (PyInt 9) BackpressureConfig) MetalNativeConfig)"
proof -
  have t: "env_target ''METAL_NATIVE_BACKPRESSURE_SOFT_LIMIT'' = Some (''backpressure'', ''soft_limit'')" by code_simp
  show ?thesis
    using config_from_env_int [of "[]" MetalNativeConfig, OF _ t, of BackpressureConfig 64 9]
    by (simp add: config_from_env_def get_section_def MetalNativeConfig_def BackpressureConfig_def dict_get_def)
qed

text \<open>The global configuration: reading it twice gives the same, and what was set is read.\<close>

lemma get_config_stable: "get_config g = (r, g') \<Longrightarrow> get_config g' = (r, g')"
  by (auto simp: get_config_def split: option.splits)

lemma set_get_config: "get_config (snd (set_config c g)) = (Inr c, Some c)"
  by (simp add: get_config_def set_config_def)

end
