(* ===== verification/Baselines.thy ===== *)
theory Baselines
  imports PyData "HOL-Library.List_Lexorder" "HOL-Library.Char_ord"
begin

text \<open>
  \<^verbatim>\<open>benchmarks/baseline_manager.py\<close>: baselines are JSON files in one directory, with a symbolic
  link \<open>latest.json\<close>. The directory maps paths, relative to it, to a file, whose content is the
  JSON document it holds or text that is none, to a link to another name of the directory, or to
  a folder. A label with a slash names a file in the folder before its last slash, which has to
  be there. Paths are compared as they are written: \<open>a//b\<close> is not identified with \<open>a/b\<close>, and \<open>..\<close>
  is a folder like any other.
\<close>

section \<open>The directory\<close>

datatype fnode = Doc pyval | Malformed | Link string | Folder

type_synonym directory = "(string, fnode) dict"

text \<open>Following links: the system gives up after 40 of them.\<close>

fun final_name :: "nat \<Rightarrow> directory \<Rightarrow> string \<Rightarrow> string option" where
  "final_name 0 d f = None"
| "final_name (Suc n) d f = (case dict_get d f of Some (Link t) \<Rightarrow> final_name n d t | _ \<Rightarrow> Some f)"

definition follow :: "directory \<Rightarrow> string \<Rightarrow> string option" where
  "follow d f = final_name 41 d f"

definition path_exists :: "directory \<Rightarrow> string \<Rightarrow> bool" where
  "path_exists d f \<longleftrightarrow> (case follow d f of None \<Rightarrow> False | Some g \<Rightarrow> dict_has d g)"

definition is_symlink :: "directory \<Rightarrow> string \<Rightarrow> bool" where
  "is_symlink d f \<longleftrightarrow> (case dict_get d f of Some (Link _) \<Rightarrow> True | _ \<Rightarrow> False)"

text \<open>The last component of a path, and the path of the folder that it is in.\<close>

definition slashed :: "string \<Rightarrow> bool" where
  "slashed f \<longleftrightarrow> CHR 0x2F \<in> set f"

definition base_name :: "string \<Rightarrow> string" where
  "base_name f = rev (takeWhile (\<lambda>c. c \<noteq> CHR 0x2F) (rev f))"

definition parent_path :: "string \<Rightarrow> string" where
  "parent_path f = rev (tl (dropWhile (\<lambda>c. c \<noteq> CHR 0x2F) (rev f)))"

definition check_parent :: "directory \<Rightarrow> string \<Rightarrow> unit res" where
  "check_parent d f = (if \<not> slashed f then Inr () else case follow d (parent_path f) of
     None \<Rightarrow> raise (OtherError ''OSError'') ''Too many levels of symbolic links''
   | Some g \<Rightarrow> (case dict_get d g of
       Some Folder \<Rightarrow> Inr ()
     | None \<Rightarrow> raise FileNotFoundError ''No such file or directory''
     | Some _ \<Rightarrow> raise (OtherError ''NotADirectoryError'') ''Not a directory''))"

text \<open>\<open>json.load\<close> of an opened file, and \<open>json.dump\<close> into one opened for writing.\<close>

definition read_json :: "directory \<Rightarrow> string \<Rightarrow> pyval res" where
  "read_json d f = (case follow d f of
     None \<Rightarrow> raise (OtherError ''OSError'') ''Too many levels of symbolic links''
   | Some g \<Rightarrow> (case dict_get d g of
       None \<Rightarrow> raise FileNotFoundError ''No such file or directory''
     | Some (Doc v) \<Rightarrow> Inr v
     | Some Folder \<Rightarrow> raise (OtherError ''IsADirectoryError'') ''Is a directory''
     | Some _ \<Rightarrow> raise JSONDecodeError ''Expecting value''))"

definition write_json :: "directory \<Rightarrow> string \<Rightarrow> pyval \<Rightarrow> directory res" where
  "write_json d f v = bindR (check_parent d f) (\<lambda>_. case follow d f of
     None \<Rightarrow> raise (OtherError ''OSError'') ''Too many levels of symbolic links''
   | Some g \<Rightarrow> if dict_get d g = Some Folder then raise (OtherError ''IsADirectoryError'') ''Is a directory''
       else Inr (dict_set g (Doc v) d))"

section \<open>The manager\<close>

text \<open>The clock and \<open>git\<close>: a command's output, its failure, or no such program.\<close>

datatype process = Output string | CalledProcessError | NoSuchProgram

record context_info =
  now_label :: string
  now_iso :: string
  run_git :: "string list \<Rightarrow> process"

definition get_git_hash :: "context_info \<Rightarrow> string" where
  "get_git_hash x = (case run_git x [''git'', ''rev-parse'', ''HEAD''] of
     Output s \<Rightarrow> py_strip s | CalledProcessError \<Rightarrow> ''unknown'' | NoSuchProgram \<Rightarrow> ''unknown'')"

definition get_git_branch :: "context_info \<Rightarrow> string" where
  "get_git_branch x = (case run_git x [''git'', ''rev-parse'', ''--abbrev-ref'', ''HEAD''] of
     Output s \<Rightarrow> py_strip s | CalledProcessError \<Rightarrow> ''unknown'' | NoSuchProgram \<Rightarrow> ''unknown'')"

definition file_of :: "string \<Rightarrow> string" where
  "file_of label = label @ ''.json''"

definition latest :: string where
  "latest = ''latest.json''"

definition baseline_doc :: "context_info \<Rightarrow> string \<Rightarrow> pyval list \<Rightarrow> pyval option \<Rightarrow> pyval" where
  "baseline_doc x label results metadata = PyDict
    [(''label'', PyStr label), (''timestamp'', PyStr (now_iso x)), (''git_hash'', PyStr (get_git_hash x)),
     (''git_branch'', PyStr (get_git_branch x)),
     (''metadata'', case metadata of Some m \<Rightarrow> if truthy m then m else PyDict [] | None \<Rightarrow> PyDict []),
     (''results'', PyList results)]"

text \<open>
  The file is written first, then the link is replaced; the link names the last component of the
  file's path only. A folder cannot be unlinked.
\<close>

definition save_baseline ::
  "context_info \<Rightarrow> pyval list \<Rightarrow> string option \<Rightarrow> pyval option \<Rightarrow> (directory, string) st" where
  "save_baseline x results label metadata = (\<lambda>d.
     let lb = (case label of None \<Rightarrow> now_label x | Some l \<Rightarrow> l) in
     case write_json d (file_of lb) (baseline_doc x lb results metadata) of
       Inl e \<Rightarrow> (Inl e, d)
     | Inr d1 \<Rightarrow>
         if dict_get d1 latest = Some Folder then (raise (OtherError ''OSError'') ''Operation not permitted'', d1)
         else let d2 = (if path_exists d1 latest \<or> is_symlink d1 latest then dict_del latest d1 else d1)
         in if dict_has d2 latest then (raise (OtherError ''FileExistsError'') ''File exists'', d2)
            else (Inr lb, dict_set latest (Link (base_name (file_of lb))) d2))"

definition load_baseline :: "directory \<Rightarrow> string \<Rightarrow> pyval res" where
  "load_baseline d label =
     (if \<not> path_exists d (file_of label)
      then raise FileNotFoundError (''Baseline '' @ label @ '' not found'')
      else read_json d (file_of label))"

definition ends_with :: "string \<Rightarrow> string \<Rightarrow> bool" where
  "ends_with s e \<longleftrightarrow> length e \<le> length s \<and> drop (length s - length e) s = e"

definition glob_json :: "directory \<Rightarrow> string list" where
  "glob_json d = filter (\<lambda>f. \<not> slashed f \<and> ends_with f ''.json'') (dict_keys d)"

definition stem :: "string \<Rightarrow> string" where
  "stem f = (if f = ''.json'' then f else take (length f - 5) f)"

definition baseline_info :: "string \<Rightarrow> pyval \<Rightarrow> pyval res" where
  "baseline_info f data =
     bindR (py_get data ''label'' (PyStr (stem f))) (\<lambda>l.
     bindR (py_get data ''timestamp'' (PyStr ''unknown'')) (\<lambda>t.
     bindR (py_get data ''git_hash'' (PyStr ''unknown'')) (\<lambda>h.
     bindR (py_get data ''git_branch'' (PyStr ''unknown'')) (\<lambda>b.
     bindR (bindR (py_get data ''results'' (PyList [])) py_len) (\<lambda>n.
     Inr (PyDict [(''label'', l), (''timestamp'', t), (''git_hash'', h), (''git_branch'', b),
                  (''num_benchmarks'', PyInt (int n))]))))))"

text \<open>\<open>except (json.JSONDecodeError, KeyError)\<close>: such a file is skipped, other errors pass.\<close>

definition skip_malformed :: "pyexc \<Rightarrow> bool" where
  "skip_malformed e \<longleftrightarrow> exc_class e \<in> {JSONDecodeError, KeyError}"

fun list_files :: "directory \<Rightarrow> string list \<Rightarrow> pyval list res" where
  "list_files d [] = Inr []"
| "list_files d (f # fs) =
     (if f = latest then list_files d fs
      else bindR (catchR skip_malformed (bindR (read_json d f) (\<lambda>v. bindR (baseline_info f v) (\<lambda>i. Inr [i])))
                   (\<lambda>_. Inr [])) (\<lambda>is.
           bindR (list_files d fs) (\<lambda>rest. Inr (is @ rest))))"

definition list_baselines :: "directory \<Rightarrow> pyval list res" where
  "list_baselines d = list_files d (sort (glob_json d))"

definition delete_baseline :: "string \<Rightarrow> (directory, unit) st" where
  "delete_baseline label = (\<lambda>d.
     if \<not> path_exists d (file_of label)
     then (raise FileNotFoundError (''Baseline '' @ label @ '' not found''), d)
     else if dict_get d (file_of label) = Some Folder
     then (raise (OtherError ''OSError'') ''Operation not permitted'', d)
     else (Inr (), dict_del (file_of label) d))"

definition hash_matches :: "string \<Rightarrow> pyval \<Rightarrow> bool res" where
  "hash_matches h data = bindR (py_get data ''git_hash'' (PyStr [])) (\<lambda>v.
     case v of PyStr s \<Rightarrow> Inr (py_startswith s h)
     | _ \<Rightarrow> raise AttributeError ''object has no attribute startswith'')"

fun find_hash :: "directory \<Rightarrow> string \<Rightarrow> string list \<Rightarrow> pyval option res" where
  "find_hash d h [] = Inr None"
| "find_hash d h (f # fs) =
     (if f = latest then find_hash d h fs
      else bindR (catchR skip_malformed
                   (bindR (read_json d f) (\<lambda>v. bindR (hash_matches h v) (\<lambda>m. Inr (if m then Some v else None))))
                   (\<lambda>_. Inr None)) (\<lambda>r.
           case r of Some v \<Rightarrow> Inr (Some v) | None \<Rightarrow> find_hash d h fs))"

definition get_baseline_by_git_hash :: "directory \<Rightarrow> string \<Rightarrow> pyval option res" where
  "get_baseline_by_git_hash d h = find_hash d h (glob_json d)"

section \<open>The invariant\<close>

text \<open>
  Only \<open>latest.json\<close> is a link, and not to itself; what a label without a slash names is not a
  folder.
\<close>

definition manager_wf :: "directory \<Rightarrow> bool" where
  "manager_wf d \<longleftrightarrow> (\<forall>f t. dict_get d f = Some (Link t) \<longrightarrow> f = latest \<and> t \<noteq> latest \<and> \<not> slashed t \<and> ends_with t ''.json'')
     \<and> (\<forall>f. \<not> slashed f \<and> ends_with f ''.json'' \<longrightarrow> dict_get d f \<noteq> Some Folder)"

definition plain_label :: "string \<Rightarrow> bool" where
  "plain_label l \<longleftrightarrow> l \<noteq> ''latest'' \<and> CHR 0x2F \<notin> set l"

lemma plain_file:
  "\<not> slashed (file_of l) \<longleftrightarrow> CHR 0x2F \<notin> set l" "ends_with (file_of l) ''.json''"
  by (simp_all add: slashed_def file_of_def ends_with_def)

lemma plain_latest: "\<not> slashed latest" "ends_with latest ''.json''"
  by (simp_all add: slashed_def latest_def ends_with_def)

lemma base_name_plain: "\<not> slashed f \<Longrightarrow> base_name f = f"
proof -
  assume "\<not> slashed f"
  then have "\<forall>c \<in> set (rev f). c \<noteq> CHR 0x2F" by (auto simp: slashed_def)
  then show ?thesis by (simp add: base_name_def takeWhile_eq_all_conv [THEN iffD2])
qed

lemma file_of_latest [simp]: "file_of label = latest \<longleftrightarrow> label = ''latest''"
proof
  assume "file_of label = latest"
  then have "label @ ''.json'' = ''latest'' @ ''.json''" by (simp add: file_of_def latest_def)
  then show "label = ''latest''" by (simp only: append_same_eq)
qed (simp add: file_of_def latest_def)

lemma file_of_inj: "file_of a = file_of b \<longleftrightarrow> a = b"
  by (simp add: file_of_def)

lemma final_plain: "\<not> is_symlink d f \<Longrightarrow> final_name (Suc n) d f = Some f"
  by (simp add: is_symlink_def split: option.splits fnode.splits)

lemma follow_plain: "\<not> is_symlink d f \<Longrightarrow> follow d f = Some f"
  using final_plain [of d f 40] by (simp add: follow_def)

lemma follow_link:
  assumes "dict_get d f = Some (Link t)" "\<not> is_symlink d t"
  shows "follow d f = Some t"
proof -
  have "final_name (Suc n) d f = final_name n d t" for n using assms(1) by simp
  from this [of "Suc 39"] final_plain [OF assms(2), of 39] show ?thesis by (simp add: follow_def)
qed

lemma manager_not_link: "manager_wf d \<Longrightarrow> f \<noteq> latest \<Longrightarrow> \<not> is_symlink d f"
  by (auto simp: manager_wf_def is_symlink_def split: option.splits fnode.splits)

lemma load_plain:
  "\<not> is_symlink d (file_of l) \<Longrightarrow> load_baseline d l = (case dict_get d (file_of l) of
     None \<Rightarrow> raise FileNotFoundError (''Baseline '' @ l @ '' not found'')
   | Some (Doc v) \<Rightarrow> Inr v
   | Some Folder \<Rightarrow> raise (OtherError ''IsADirectoryError'') ''Is a directory''
   | Some _ \<Rightarrow> raise JSONDecodeError ''Expecting value'')"
  by (cases "dict_get d (file_of l)")
    (simp_all add: load_baseline_def path_exists_def follow_plain dict_has_get read_json_def)

lemma load_link:
  "dict_get d (file_of l) = Some (Link (file_of t)) \<Longrightarrow> \<not> is_symlink d (file_of t) \<Longrightarrow>
   load_baseline d l = (if dict_has d (file_of t) then load_baseline d t
     else raise FileNotFoundError (''Baseline '' @ l @ '' not found''))"
  by (simp add: load_baseline_def path_exists_def follow_plain follow_link read_json_def)

text \<open>What saving does to the directory, for a plain label.\<close>

lemma save_baseline_dir:
  assumes wf: "manager_wf d" and l: "plain_label l"
  shows "save_baseline x results (Some l) md d =
    (Inr l, dict_set latest (Link (file_of l)) (dict_del latest (dict_set (file_of l) (Doc (baseline_doc x l results md)) d)))"
proof -
  let ?d1 = "dict_set (file_of l) (Doc (baseline_doc x l results md)) d"
  have ll: "l \<noteq> ''latest''" and ns: "\<not> slashed (file_of l)" using l by (simp_all add: plain_label_def plain_file)
  have fl: "latest \<noteq> file_of l" using ll file_of_latest [of l] by metis
  have nf: "dict_get d (file_of l) \<noteq> Some Folder" "dict_get d latest \<noteq> Some Folder"
    using wf ns plain_file(2) [of l] plain_latest unfolding manager_wf_def by blast+
  have w: "write_json d (file_of l) (baseline_doc x l results md) = Inr ?d1"
    using manager_not_link [OF wf, of "file_of l"] ll nf(1) ns by (simp add: write_json_def check_parent_def follow_plain)
  have same: "dict_get ?d1 latest = dict_get d latest" using fl by (simp add: dict_get_set)
  have del: "(if path_exists ?d1 latest \<or> is_symlink ?d1 latest then dict_del latest ?d1 else ?d1) = dict_del latest ?d1"
  proof (cases "path_exists ?d1 latest \<or> is_symlink ?d1 latest")
    case False
    then have "follow ?d1 latest = Some latest" by (simp add: follow_plain)
    with False have "\<not> dict_has ?d1 latest" by (simp add: path_exists_def)
    then have "dict_del latest ?d1 = ?d1"
      unfolding dict_del_def dict_has_def by (intro filter_True) (auto simp: image_iff)
    with False show ?thesis by simp
  qed simp
  have nf1: "dict_get ?d1 latest \<noteq> Some Folder" using same nf(2) by simp
  show ?thesis
    unfolding save_baseline_def Let_def option.case w sum.case del if_not_P [OF nf1] base_name_plain [OF ns]
    by (simp add: dict_has_get dict_get_del)
qed

lemma save_keeps_wf: "manager_wf d \<Longrightarrow> plain_label l \<Longrightarrow> manager_wf (snd (save_baseline x results (Some l) md d))"
  unfolding save_baseline_dir by (auto simp: manager_wf_def dict_get_set dict_get_del plain_label_def plain_file split: if_splits)

lemma delete_keeps_wf: "manager_wf d \<Longrightarrow> manager_wf (snd (delete_baseline l d))"
  by (auto simp: delete_baseline_def manager_wf_def dict_get_del split: if_splits)

text \<open>A label whose folder is not there: the file cannot be opened and nothing happens.\<close>

lemma save_baseline_nowhere:
  assumes "CHR 0x2F \<in> set l" and "dict_get d (parent_path (file_of l)) = None"
  shows "raises FileNotFoundError (fst (save_baseline x results (Some l) md d)) \<and> snd (save_baseline x results (Some l) md d) = d"
proof -
  have "slashed (file_of l)" using assms(1) plain_file(1) [of l] by blast
  moreover have "follow d (parent_path (file_of l)) = Some (parent_path (file_of l))"
    using assms(2) by (intro follow_plain) (simp add: is_symlink_def)
  ultimately have "write_json d (file_of l) (baseline_doc x l results md) = raise FileNotFoundError ''No such file or directory''"
    using assms(2) by (simp add: write_json_def check_parent_def)
  then show ?thesis by (simp add: save_baseline_def raise_def)
qed

text \<open>
  The directories that saving under plain labels and deleting can produce from one without links
  and without folders whose names end in \<open>.json\<close>.
\<close>

inductive managed :: "directory \<Rightarrow> bool" where
  fresh: "\<forall>f t. dict_get d f \<noteq> Some (Link t) \<Longrightarrow>
    \<forall>f. \<not> slashed f \<and> ends_with f ''.json'' \<longrightarrow> dict_get d f \<noteq> Some Folder \<Longrightarrow> managed d"
| saved: "managed d \<Longrightarrow> plain_label l \<Longrightarrow> managed (snd (save_baseline x results (Some l) md d))"
| deleted: "managed d \<Longrightarrow> managed (snd (delete_baseline l d))"

lemma managed_wf: "managed d \<Longrightarrow> manager_wf d"
proof (induction rule: managed.induct)
  case (fresh d)
  then show ?case by (simp add: manager_wf_def)
qed (simp_all add: save_keeps_wf delete_keeps_wf)

text \<open>A baseline found by its hash is a file of the directory whose hash starts with the given one.\<close>

lemma find_hash_sound:
  "find_hash d h fs = Inr (Some v) \<Longrightarrow>
   \<exists>f \<in> set fs. f \<noteq> latest \<and> read_json d f = Inr v \<and> hash_matches h v = Inr True"
proof (induction fs)
  case (Cons f fs)
  show ?case
  proof (cases "f = latest")
    case False
    with Cons show ?thesis
      by (cases "read_json d f"; cases "hash_matches h (projr (read_json d f))")
        (auto simp: catchR_def split: if_splits)
  qed (use Cons in auto)
qed simp

lemma get_baseline_by_git_hash_sound:
  "get_baseline_by_git_hash d h = Inr (Some v) \<Longrightarrow>
   \<exists>f. dict_has d f \<and> ends_with f ''.json'' \<and> f \<noteq> latest \<and> read_json d f = Inr v \<and> hash_matches h v = Inr True"
  unfolding get_baseline_by_git_hash_def
  by (drule find_hash_sound) (auto simp: glob_json_def dict_keys_def dict_has_def)

section \<open>Properties\<close>

lemma load_after_save:
  assumes wf: "manager_wf d" and pl: "plain_label l"
    and d': "d' = snd (save_baseline x results (Some l) md d)"
  shows "load_baseline d' l = Inr (baseline_doc x l results md)"
    "load_baseline d' ''latest'' = Inr (baseline_doc x l results md)"
    "k \<noteq> l \<Longrightarrow> k \<noteq> ''latest'' \<Longrightarrow> load_baseline d' k = load_baseline d k"
proof -
  have dd: "d' = dict_set latest (Link (file_of l)) (dict_del latest (dict_set (file_of l) (Doc (baseline_doc x l results md)) d))"
    using save_baseline_dir [OF wf pl, of x results md] d' by simp
  have l: "l \<noteq> ''latest''" using pl by (simp add: plain_label_def)
  have wf': "manager_wf d'" using save_keeps_wf [OF wf pl] d' by simp
  have nl: "\<not> is_symlink d' (file_of k)" "\<not> is_symlink d (file_of k)" if "k \<noteq> ''latest''" for k
    using manager_not_link [OF wf'] manager_not_link [OF wf] that by simp_all
  have get: "dict_get d' (file_of k) = (if k = l then Some (Doc (baseline_doc x l results md)) else dict_get d (file_of k))"
    if "k \<noteq> ''latest''" for k
    using that by (simp add: dd dict_get_set dict_get_del file_of_inj)
  show ll: "load_baseline d' l = Inr (baseline_doc x l results md)"
    using load_plain [OF nl(1) [OF l]] get [OF l] by simp
  show "k \<noteq> l \<Longrightarrow> k \<noteq> ''latest'' \<Longrightarrow> load_baseline d' k = load_baseline d k"
    by (simp add: load_plain nl get)
  have "dict_get d' (file_of ''latest'') = Some (Link (file_of l))"
    by (simp add: dd dict_get_set file_of_def latest_def)
  moreover have "dict_has d' (file_of l)" using get [OF l] by (simp add: dict_has_get)
  ultimately show "load_baseline d' ''latest'' = Inr (baseline_doc x l results md)"
    using load_link [OF _ nl(1) [OF l]] ll by simp
qed

text \<open>
  C33. In a directory that the manager has produced from one without links, saving under a plain
  label (one without a slash, and not \<open>latest\<close>) returns the label; the baseline then loads under
  that label and as \<open>latest\<close>, and every other label loads what it loaded before. A label with a
  slash whose folder does not exist raises FileNotFoundError and changes nothing.
\<close>

theorem baseline_save_load:
  assumes "managed d"
  shows "(plain_label l \<longrightarrow> (\<exists>d'. save_baseline x results (Some l) md d = (Inr l, d') \<and> managed d'
      \<and> load_baseline d' l = Inr (baseline_doc x l results md)
      \<and> load_baseline d' ''latest'' = Inr (baseline_doc x l results md)
      \<and> (\<forall>k. k \<noteq> l \<and> k \<noteq> ''latest'' \<longrightarrow> load_baseline d' k = load_baseline d k)))
    \<and> (CHR 0x2F \<in> set l \<and> dict_get d (parent_path (file_of l)) = None \<longrightarrow>
      raises FileNotFoundError (fst (save_baseline x results (Some l) md d)) \<and> snd (save_baseline x results (Some l) md d) = d)"
proof (intro conjI impI)
  let ?d = "snd (save_baseline x results (Some l) md d)"
  assume l: "plain_label l"
  have wf: "manager_wf d" using assms by (rule managed_wf)
  have "save_baseline x results (Some l) md d = (Inr l, ?d)" by (simp add: save_baseline_dir [OF wf l])
  moreover have "managed ?d" using assms l by (rule managed.saved)
  ultimately show "\<exists>d'. save_baseline x results (Some l) md d = (Inr l, d') \<and> managed d'
      \<and> load_baseline d' l = Inr (baseline_doc x l results md)
      \<and> load_baseline d' ''latest'' = Inr (baseline_doc x l results md)
      \<and> (\<forall>k. k \<noteq> l \<and> k \<noteq> ''latest'' \<longrightarrow> load_baseline d' k = load_baseline d k)"
    using load_after_save [OF wf l refl, where x = x and results = results and md = md] by blast
qed (use save_baseline_nowhere in blast)+

definition sample_context :: context_info where
  "sample_context = \<lparr>now_label = ''20240101_120000'', now_iso = ''2024-01-01T12:00:00'',
     run_git = (\<lambda>_. Output ''abc123 '')\<rparr>"

theorem baseline_save_load_witness:
  "(\<exists>d'. save_baseline sample_context [] (Some ''v1'') None [] = (Inr ''v1'', d')
     \<and> load_baseline d' ''latest'' = load_baseline d' ''v1'')
   \<and> raises FileNotFoundError (fst (save_baseline sample_context [] (Some ''release/v1'') None []))"
proof -
  have m: "managed []" by (rule managed.fresh) (simp_all add: dict_get_def)
  have "plain_label ''v1''" by (simp add: plain_label_def)
  with baseline_save_load [OF m, of "''v1''"]
  have "\<exists>d'. save_baseline sample_context [] (Some ''v1'') None [] = (Inr ''v1'', d')
     \<and> load_baseline d' ''latest'' = load_baseline d' ''v1''" by fastforce
  moreover have "raises FileNotFoundError (fst (save_baseline sample_context [] (Some ''release/v1'') None []))"
    using baseline_save_load [OF m, of "''release/v1''"] by (simp add: dict_get_def)
  ultimately show ?thesis ..
qed

text \<open>
  Deleting an existing baseline makes it, and \<open>latest\<close> if it was the one saved last, raise
  FileNotFoundError on loading (the link is left dangling); other labels are not affected. A
  label that does not exist raises FileNotFoundError and nothing changes.
\<close>

theorem baseline_delete:
  assumes "managed d" and "plain_label l"
  shows "(if dict_has d (file_of l)
     then \<exists>d'. delete_baseline l d = (Inr (), d') \<and> managed d' \<and> raises FileNotFoundError (load_baseline d' l)
       \<and> (dict_get d latest = Some (Link (file_of l)) \<longrightarrow> raises FileNotFoundError (load_baseline d' ''latest''))
       \<and> (\<forall>k. k \<noteq> l \<and> k \<noteq> ''latest'' \<longrightarrow> load_baseline d' k = load_baseline d k)
     else raises FileNotFoundError (fst (delete_baseline l d)) \<and> snd (delete_baseline l d) = d)"
proof -
  have wf: "manager_wf d" using assms(1) by (rule managed_wf)
  have l: "l \<noteq> ''latest''" using assms(2) by (simp add: plain_label_def)
  have nf: "dict_get d (file_of l) \<noteq> Some Folder"
    using wf assms(2) plain_file [of l] unfolding manager_wf_def plain_label_def by blast
  have nl: "\<not> is_symlink d (file_of k)" if "k \<noteq> ''latest''" for k
    using manager_not_link [OF wf] that by simp
  have ex: "path_exists d (file_of l) \<longleftrightarrow> dict_has d (file_of l)"
    using follow_plain [OF nl [OF l]] by (simp add: path_exists_def)
  let ?d = "dict_del (file_of l) d"
  have nl': "\<not> is_symlink ?d (file_of k)" if "k \<noteq> ''latest''" for k
    using nl [OF that] by (simp add: is_symlink_def dict_get_del)
  have "load_baseline ?d k = load_baseline d k" if "k \<noteq> l" "k \<noteq> ''latest''" for k
    using that by (simp add: load_plain nl nl' dict_get_del file_of_inj)
  moreover have "raises FileNotFoundError (load_baseline ?d l)"
    using l by (simp add: load_plain nl' dict_get_del)
  moreover have "raises FileNotFoundError (load_baseline ?d ''latest'')" if "dict_get d latest = Some (Link (file_of l))"
  proof -
    have "dict_get ?d (file_of ''latest'') = Some (Link (file_of l))"
      using that l file_of_inj [of "''latest''" l] by (simp add: dict_get_del file_of_def latest_def)
    from load_link [OF this nl' [OF l]] show ?thesis by (simp add: dict_has_get dict_get_del)
  qed
  moreover have "managed ?d" if "dict_has d (file_of l)"
    using managed.deleted [OF assms(1), of l] that ex nf by (simp add: delete_baseline_def)
  ultimately show ?thesis using ex nf by (simp add: delete_baseline_def)
qed

theorem baseline_delete_witness:
  "raises FileNotFoundError (load_baseline (snd (delete_baseline ''v1''
     (snd (save_baseline sample_context [] (Some ''v1'') None [])))) ''latest'')"
proof -
  have "managed []" by (rule managed.fresh) (simp_all add: dict_get_def)
  define d where "d = snd (save_baseline sample_context [] (Some ''v1'') None [])"
  have m: "managed d"
    unfolding d_def by (rule managed.saved [OF \<open>managed []\<close>]) (simp add: plain_label_def)
  have wf: "manager_wf []" by (simp add: manager_wf_def dict_get_def)
  have "d = dict_set latest (Link (file_of ''v1'')) (dict_del latest
      (dict_set (file_of ''v1'') (Doc (baseline_doc sample_context ''v1'' [] None)) []))"
    unfolding d_def by (subst save_baseline_dir [OF wf]) (simp_all add: plain_label_def)
  then have "dict_get d latest = Some (Link (file_of ''v1''))" "dict_has d (file_of ''v1'')"
    by (simp_all add: dict_has_get dict_get_set dict_get_del file_of_def latest_def del: dict_set.simps)
  with baseline_delete [OF m, of "''v1''", unfolded plain_label_def] obtain d' where
    "delete_baseline ''v1'' d = (Inr (), d')" "raises FileNotFoundError (load_baseline d' ''latest'')"
    by (simp split del: if_split) blast
  then show ?thesis by (simp add: d_def)
qed

text \<open>
  Saving under the label \<open>latest\<close> loses the baseline: the link that is made last points to
  itself, so neither \<open>load_baseline("latest")\<close> nor \<open>load_baseline()\<close> finds a file; and if the
  link pointed to another baseline, the document has been written over that one.
\<close>

theorem baseline_label_latest_lost:
  assumes "managed d"
  shows "\<exists>d'. save_baseline x results (Some ''latest'') md d = (Inr ''latest'', d')
    \<and> raises FileNotFoundError (load_baseline d' ''latest'')
    \<and> (\<forall>l. l \<noteq> ''latest'' \<and> dict_get d latest = Some (Link (file_of l)) \<longrightarrow>
         load_baseline d' l = Inr (baseline_doc x ''latest'' results md))"
proof -
  have wf: "manager_wf d" using assms by (rule managed_wf)
  let ?v = "baseline_doc x ''latest'' results md"
  define t where "t = (case dict_get d latest of Some (Link t) \<Rightarrow> t | _ \<Rightarrow> latest)"
  have fl: "file_of ''latest'' = latest" by (simp add: file_of_def latest_def)
  have t: "follow d latest = Some t"
  proof (cases "is_symlink d latest")
    case True
    then obtain u where u: "dict_get d latest = Some (Link u)" by (auto simp: is_symlink_def split: option.splits fnode.splits)
    then have "u \<noteq> latest" using wf by (simp add: manager_wf_def)
    then show ?thesis using follow_link [OF u] manager_not_link [OF wf] u by (simp add: t_def)
  qed (auto simp: t_def follow_plain is_symlink_def split: option.splits fnode.splits)
  let ?d1 = "dict_set t (Doc ?v) d"
  let ?d2 = "if path_exists ?d1 latest \<or> is_symlink ?d1 latest then dict_del latest ?d1 else ?d1"
  have td: "dict_get d t \<noteq> Some Folder" "dict_get ?d1 latest \<noteq> Some Folder"
  proof -
    have lf: "dict_get d latest \<noteq> Some Folder" using wf plain_latest unfolding manager_wf_def by blast
    then show "dict_get ?d1 latest \<noteq> Some Folder" by (simp add: dict_get_set)
    show "dict_get d t \<noteq> Some Folder"
    proof (cases "\<exists>u. dict_get d latest = Some (Link u)")
      case True
      then obtain u where u: "dict_get d latest = Some (Link u)" by blast
      then have "\<not> slashed u \<and> ends_with u ''.json''" using wf unfolding manager_wf_def by blast
      then have "dict_get d u \<noteq> Some Folder" using wf unfolding manager_wf_def by blast
      then show ?thesis by (simp add: t_def u)
    next
      case False
      then have "t = latest" by (auto simp: t_def split: option.splits fnode.splits)
      then show ?thesis using lf by simp
    qed
  qed
  have no: "\<not> dict_has ?d2 latest"
  proof (cases "path_exists ?d1 latest \<or> is_symlink ?d1 latest")
    case False
    then show ?thesis using follow_plain [of ?d1 latest] by (simp add: path_exists_def)
  qed (simp add: dict_has_get dict_get_del)
  let ?d' = "dict_set latest (Link latest) ?d2"
  have s: "save_baseline x results (Some ''latest'') md d = (Inr ''latest'', ?d')"
    unfolding save_baseline_def write_json_def Let_def option.case fl
    using no td base_name_plain [OF plain_latest(1)] by (simp add: check_parent_def plain_latest t)
  have loop: "final_name n ?d' latest = None" for n
    by (induction n) (simp_all add: dict_get_set)
  then have "raises FileNotFoundError (load_baseline ?d' ''latest'')"
    by (simp add: load_baseline_def fl path_exists_def follow_def)
  moreover have "load_baseline ?d' l = Inr ?v" if l: "l \<noteq> ''latest''" "dict_get d latest = Some (Link (file_of l))" for l
  proof -
    have "t = file_of l" using l(2) by (simp add: t_def)
    then have "dict_get ?d' (file_of l) = Some (Doc ?v)" using l(1) by (simp add: dict_get_set dict_get_del)
    then show ?thesis using load_plain [of ?d' l] by (simp add: is_symlink_def)
  qed
  ultimately show ?thesis using s by blast
qed

theorem baseline_label_latest_lost_witness:
  "\<exists>d'. save_baseline sample_context [] (Some ''latest'') None [] = (Inr ''latest'', d')
     \<and> raises FileNotFoundError (load_baseline d' ''latest'')"
proof -
  have "managed []" by (rule managed.fresh) (simp_all add: dict_get_def)
  from baseline_label_latest_lost [OF this] show ?thesis by fast
qed

end
