(* ===== verification/Regression.thy ===== *)
theory Regression
  imports Baselines
begin

text \<open>
  \<^verbatim>\<open>benchmarks/regression_runner.py\<close>: the timed benchmark functions, the statistics of their
  samples and the comparison with a baseline. The program's \<open>main\<close> is in theory Runner.

  The package under test, NumPy's random numbers and percentiles, and the clock are parameters
  (\<open>bench_env\<close>). A benchmark function is a computation that counts the clock readings and random
  draws and records, in order, what it asked of the package.
\<close>

section \<open>Outliers\<close>

definition remove_outliers_iqr :: "(real list \<Rightarrow> real \<Rightarrow> real) \<Rightarrow> real list \<Rightarrow> real list" where
  "remove_outliers_iqr percentile samples =
     (if length samples < 4 then samples
      else let q1 = percentile samples 25; q3 = percentile samples 75; iqr = q3 - q1;
               lower_bound = q1 - 3 / 2 * iqr; upper_bound = q3 + 3 / 2 * iqr;
               filtered = filter (\<lambda>s. lower_bound \<le> s \<and> s \<le> upper_bound) samples
           in if real (length filtered) < real (length samples) * (1 / 2) then samples else filtered)"

section \<open>Benchmark functions\<close>

datatype event = Create "int list" string | Launch string | Sync | Clock | Draw

record bench_env =
  has_metal_native :: bool
  mn_has :: "string \<Rightarrow> bool"
  mn_create :: "int list \<Rightarrow> string \<Rightarrow> unit res"
  mn_launch :: "string \<Rightarrow> unit res"
  clock_value :: "nat \<Rightarrow> real"
  normal_value :: "nat \<Rightarrow> real \<Rightarrow> real"
  np_percentile :: "real list \<Rightarrow> real \<Rightarrow> real"
  wall_time :: real

record bench_state =
  readings :: nat
  draws :: nat
  events :: "event list"

definition perf_counter :: "bench_env \<Rightarrow> (bench_state, real) st" where
  "perf_counter V = (\<lambda>s. (Inr (clock_value V (readings s)),
     s\<lparr>readings := Suc (readings s), events := events s @ [Clock]\<rparr>))"

definition draw_normal :: "bench_env \<Rightarrow> real \<Rightarrow> (bench_state, real) st" where
  "draw_normal V sd = (\<lambda>s. (Inr (normal_value V (draws s) sd),
     s\<lparr>draws := Suc (draws s), events := events s @ [Draw]\<rparr>))"

definition create :: "bench_env \<Rightarrow> int list \<Rightarrow> string \<Rightarrow> (bench_state, unit) st" where
  "create V shape dt = (\<lambda>s. (mn_create V shape dt, s\<lparr>events := events s @ [Create shape dt]\<rparr>))"

definition launch :: "bench_env \<Rightarrow> string \<Rightarrow> (bench_state, unit) st" where
  "launch V op = (\<lambda>s. (mn_launch V op, s\<lparr>events := events s @ [Launch op]\<rparr>))"

definition synchronize_mn :: "(bench_state, unit) st" where
  "synchronize_mn = (\<lambda>s. (Inr (), s\<lparr>events := events s @ [Sync]\<rparr>))"

definition warmup_loop :: "bench_env \<Rightarrow> string \<Rightarrow> nat \<Rightarrow> (bench_state, unit list) st" where
  "warmup_loop V op n = repeatS n (bindS (launch V op) (\<lambda>_. synchronize_mn))"

definition timed_loop :: "bench_env \<Rightarrow> string \<Rightarrow> nat \<Rightarrow> (bench_state, real list) st" where
  "timed_loop V op n = repeatS n (bindS (perf_counter V) (\<lambda>start. bindS (launch V op) (\<lambda>_.
     bindS synchronize_mn (\<lambda>_. bindS (perf_counter V) (\<lambda>stop. returnS ((stop - start) * 1000))))))"

definition placeholder :: "bench_env \<Rightarrow> real \<Rightarrow> nat \<Rightarrow> (bench_state, real list) st" where
  "placeholder V base_time n =
     repeatS n (bindS (draw_normal V (base_time * (5 / 100))) (\<lambda>x. returnS (base_time + x)))"

text \<open>The parameters of a benchmark: integers and the optional dtype.\<close>

definition param :: "(string, pyval) dict \<Rightarrow> string \<Rightarrow> (bench_state, int) st" where
  "param ps k = liftS (case dict_get ps k of
     None \<Rightarrow> raise KeyError k | Some (PyInt i) \<Rightarrow> Inr i | Some _ \<Rightarrow> raise TypeError ''not an integer'')"

definition np_dtype_of :: "(string, pyval) dict \<Rightarrow> string" where
  "np_dtype_of ps = (if dict_get_default ps ''dtype'' (PyStr ''float32'') = PyStr ''float16''
     then ''float16'' else ''float32'')"

definition benchmark_matmul :: "bench_env \<Rightarrow> (string, pyval) dict \<Rightarrow> nat \<Rightarrow> nat \<Rightarrow> (bench_state, real list) st" where
  "benchmark_matmul V ps warm n =
     bindS (param ps ''M'') (\<lambda>mm. bindS (param ps ''N'') (\<lambda>nn. bindS (param ps ''K'') (\<lambda>kk.
     if \<not> has_metal_native V then placeholder V (of_int (mm * nn * kk) / 10 ^ 9) n
     else
       bindS (create V [mm, kk] (np_dtype_of ps)) (\<lambda>_.
       bindS (create V [kk, nn] (np_dtype_of ps)) (\<lambda>_.
       bindS (warmup_loop V ''matmul'' warm) (\<lambda>_. timed_loop V ''matmul'' n))))))"

definition benchmark_attention :: "bench_env \<Rightarrow> (string, pyval) dict \<Rightarrow> nat \<Rightarrow> nat \<Rightarrow> (bench_state, real list) st" where
  "benchmark_attention V ps warm n =
     bindS (param ps ''batch'') (\<lambda>b. bindS (param ps ''num_heads'') (\<lambda>h. bindS (param ps ''seq_len'') (\<lambda>s.
     bindS (param ps ''head_dim'') (\<lambda>hd.
     if \<not> has_metal_native V then placeholder V (of_int (b * h * s * s * hd) / 10 ^ 9) n
     else
       bindS (create V [b, h, s, hd] (np_dtype_of ps)) (\<lambda>_.
       bindS (create V [b, h, s, hd] (np_dtype_of ps)) (\<lambda>_.
       bindS (create V [b, h, s, hd] (np_dtype_of ps)) (\<lambda>_.
       if mn_has V ''flash_attention''
       then bindS (warmup_loop V ''flash_attention'' warm) (\<lambda>_. timed_loop V ''flash_attention'' n)
       else placeholder V (of_int (b * h * s * s * hd) / 10 ^ 9) n)))))))"

definition benchmark_softmax :: "bench_env \<Rightarrow> (string, pyval) dict \<Rightarrow> nat \<Rightarrow> nat \<Rightarrow> (bench_state, real list) st" where
  "benchmark_softmax V ps warm n =
     bindS (param ps ''batch'') (\<lambda>b. bindS (param ps ''rows'') (\<lambda>r. bindS (param ps ''cols'') (\<lambda>c.
     if \<not> has_metal_native V then placeholder V (of_int (b * r * c) / 10 ^ 8) n
     else
       bindS (create V [b * r, c] (np_dtype_of ps)) (\<lambda>_.
       if mn_has V ''softmax''
       then bindS (warmup_loop V ''softmax'' warm) (\<lambda>_. timed_loop V ''softmax'' n)
       else placeholder V (of_int (b * r * c) / 10 ^ 8) n))))"

definition benchmark_rmsnorm :: "bench_env \<Rightarrow> (string, pyval) dict \<Rightarrow> nat \<Rightarrow> nat \<Rightarrow> (bench_state, real list) st" where
  "benchmark_rmsnorm V ps warm n =
     bindS (param ps ''batch'') (\<lambda>b. bindS (param ps ''seq_len'') (\<lambda>s. bindS (param ps ''hidden'') (\<lambda>h.
     if \<not> has_metal_native V then placeholder V (of_int (b * s * h) / 10 ^ 8) n
     else
       bindS (create V [b * s, h] (np_dtype_of ps)) (\<lambda>_.
       bindS (create V [h] (np_dtype_of ps)) (\<lambda>_.
       if mn_has V ''rmsnorm''
       then bindS (warmup_loop V ''rmsnorm'' warm) (\<lambda>_. timed_loop V ''rmsnorm'' n)
       else placeholder V (of_int (b * s * h) / 10 ^ 8) n)))))"

definition benchmark_swiglu :: "bench_env \<Rightarrow> (string, pyval) dict \<Rightarrow> nat \<Rightarrow> nat \<Rightarrow> (bench_state, real list) st" where
  "benchmark_swiglu V ps warm n =
     bindS (param ps ''batch'') (\<lambda>b. bindS (param ps ''seq_len'') (\<lambda>s. bindS (param ps ''hidden'') (\<lambda>h.
     if \<not> has_metal_native V then placeholder V (of_int (b * s * h) / 10 ^ 8) n
     else
       bindS (create V [b * s, h * 2] (np_dtype_of ps)) (\<lambda>_.
       if mn_has V ''swiglu''
       then bindS (warmup_loop V ''swiglu'' warm) (\<lambda>_. timed_loop V ''swiglu'' n)
       else placeholder V (of_int (b * s * h) / 10 ^ 8) n))))"

section \<open>Statistics\<close>

definition median :: "real list \<Rightarrow> real res" where
  "median xs = (let ys = sort xs; n = length xs in
     if n = 0 then raise StatisticsError ''no median for empty data''
     else if odd n then Inr (ys ! (n div 2))
     else Inr ((ys ! (n div 2 - 1) + ys ! (n div 2)) / 2))"

definition mean :: "real list \<Rightarrow> real res" where
  "mean xs = (if xs = [] then raise StatisticsError ''mean requires at least one data point''
     else Inr (sum_list xs / real (length xs)))"

definition stdev :: "real list \<Rightarrow> real res" where
  "stdev xs = (if length xs < 2 then raise StatisticsError ''stdev requires at least two data points''
     else bindR (mean xs) (\<lambda>m. Inr (sqrt (sum_list (map (\<lambda>x. (x - m)\<^sup>2) xs) / real (length xs - 1)))))"

record bench_config =
  b_name :: string
  b_category :: string
  b_op :: string
  b_params :: "(string, pyval) dict"
  b_warmup :: nat
  b_iters :: nat

record bench_result =
  r_name :: string
  r_category :: string
  median_ms :: real
  mean_ms :: real
  std_ms :: real
  min_ms :: real
  max_ms :: real
  p95_ms :: real
  p99_ms :: real
  n_samples :: nat
  r_timestamp :: real
  r_git_hash :: string
  r_git_branch :: string

definition dispatch_benchmark :: "bench_env \<Rightarrow> bench_config \<Rightarrow> (bench_state, real list) st" where
  "dispatch_benchmark V b =
     (if b_op b = ''matmul'' then benchmark_matmul V (b_params b) (b_warmup b) (b_iters b)
      else if b_op b = ''flash_attention'' then benchmark_attention V (b_params b) (b_warmup b) (b_iters b)
      else if b_op b = ''softmax'' then benchmark_softmax V (b_params b) (b_warmup b) (b_iters b)
      else if b_op b = ''rmsnorm'' then benchmark_rmsnorm V (b_params b) (b_warmup b) (b_iters b)
      else if b_op b = ''swiglu'' then benchmark_swiglu V (b_params b) (b_warmup b) (b_iters b)
      else raiseS ValueError (''Unknown op: '' @ b_op b))"

definition summarize :: "bench_env \<Rightarrow> context_info \<Rightarrow> bench_config \<Rightarrow> real list \<Rightarrow> bench_result res" where
  "summarize V x b xs =
     bindR (median xs) (\<lambda>md. bindR (mean xs) (\<lambda>mn.
     bindR (if length xs > 1 then stdev xs else Inr 0) (\<lambda>sd.
     Inr \<lparr>r_name = b_name b, r_category = b_category b, median_ms = md, mean_ms = mn, std_ms = sd,
          min_ms = Min (set xs), max_ms = Max (set xs), p95_ms = np_percentile V xs 95, p99_ms = np_percentile V xs 99,
          n_samples = length xs, r_timestamp = wall_time V,
          r_git_hash = get_git_hash x, r_git_branch = get_git_branch x\<rparr>)))"

definition run_benchmark ::
  "bench_env \<Rightarrow> context_info \<Rightarrow> bench_config \<Rightarrow> string \<Rightarrow> (bench_state, bench_result) st" where
  "run_benchmark V x b outlier_removal = bindS (dispatch_benchmark V b) (\<lambda>samples.
     liftS (summarize V x b (if outlier_removal = ''iqr'' then remove_outliers_iqr (np_percentile V) samples else samples)))"

section \<open>Comparison\<close>

datatype status = REGRESSION | IMPROVEMENT | STABLE

record comparison =
  c_name :: string
  c_category :: string
  current_ms :: real
  baseline_ms :: real
  c_ratio :: real
  change_pct :: real
  c_status :: status

definition classify :: "real \<Rightarrow> real \<Rightarrow> status" where
  "classify ratio threshold =
     (if ratio > 1 + threshold then REGRESSION else if ratio < 1 - threshold then IMPROVEMENT else STABLE)"

definition compare_with_baseline :: "bench_result \<Rightarrow> pyval \<Rightarrow> real \<Rightarrow> comparison res" where
  "compare_with_baseline cur baseline threshold =
     bindR (bindR (py_item baseline ''median_ms'') py_number) (\<lambda>bm.
     if bm = 0 then raise ZeroDivisionError ''float division by zero''
     else let ratio = median_ms cur / bm in
       Inr \<lparr>c_name = r_name cur, c_category = r_category cur, current_ms = median_ms cur, baseline_ms = bm,
            c_ratio = ratio, change_pct = (ratio - 1) * 100, c_status = classify ratio threshold\<rparr>)"

end
