(* ===== verification/BenchProps.thy ===== *)
theory BenchProps
  imports Regression "HOL-Library.Multiset"
begin

text \<open>
  Properties of the benchmark runner: what the outlier filter keeps, what a timed loop measures,
  the order of the statistics, and the classification against a baseline.
\<close>

section \<open>Outliers\<close>

text \<open>
  The outlier filter returns samples of the list in their order, at least half of them, and
  all of them when it would drop more than half; otherwise it drops exactly those outside one and a
  half interquartile ranges of the quartiles.
\<close>

theorem outliers_kept:
  "\<exists>keep. remove_outliers_iqr pc xs = filter keep xs \<and> length xs \<le> 2 * length (remove_outliers_iqr pc xs)
   \<and> (keep = (\<lambda>_. True) \<or> keep = (\<lambda>s. pc xs 25 - 3 / 2 * (pc xs 75 - pc xs 25) \<le> s \<and> s \<le> pc xs 75 + 3 / 2 * (pc xs 75 - pc xs 25)))"
proof -
  define keep where "keep = (\<lambda>s. pc xs 25 - 3 / 2 * (pc xs 75 - pc xs 25) \<le> s \<and> s \<le> pc xs 75 + 3 / 2 * (pc xs 75 - pc xs 25))"
  have r: "remove_outliers_iqr pc xs = (if length xs < 4 \<or> real (length (filter keep xs)) < real (length xs) * (1 / 2) then xs else filter keep xs)"
    by (simp add: remove_outliers_iqr_def Let_def keep_def)
  show ?thesis
  proof (cases "length xs < 4 \<or> real (length (filter keep xs)) < real (length xs) * (1 / 2)")
    case True
    then show ?thesis by (intro exI [of _ "\<lambda>_. True"]) (simp add: r)
  next
    case False
    then have "length xs \<le> 2 * length (filter keep xs)" by linarith
    with False show ?thesis unfolding keep_def [symmetric] by (intro exI [of _ keep]) (simp add: r)
  qed
qed

lemma outliers_length: "length (remove_outliers_iqr pc xs) \<le> length xs" "length xs \<le> 2 * length (remove_outliers_iqr pc xs)"
proof -
  show "length (remove_outliers_iqr pc xs) \<le> length xs" by (simp add: remove_outliers_iqr_def Let_def)
  show "length xs \<le> 2 * length (remove_outliers_iqr pc xs)"
    by (simp add: remove_outliers_iqr_def Let_def)
qed

section \<open>Timed loops\<close>

text \<open>The events of one iteration, and the samples of a run that starts at clock reading \<open>r\<close>.\<close>

definition timed_events :: "string \<Rightarrow> event list" where
  "timed_events op = [Clock, Launch op, Sync, Clock]"

definition elapsed :: "bench_env \<Rightarrow> nat \<Rightarrow> nat \<Rightarrow> real" where
  "elapsed V r i = (clock_value V (Suc (r + 2 * i)) - clock_value V (r + 2 * i)) * 1000"

lemma warmup_run:
  assumes "mn_launch V op = Inr ()"
  shows "warmup_loop V op n s = (Inr (replicate n ()), s\<lparr>events := events s @ concat (replicate n [Launch op, Sync])\<rparr>)"
  using assms unfolding warmup_loop_def
  by (induction n arbitrary: s) (simp_all add: bindS_def launch_def synchronize_mn_def)

lemma timed_run:
  assumes "mn_launch V op = Inr ()"
  shows "timed_loop V op n s = (Inr (map (elapsed V (readings s)) [0..<n]),
    s\<lparr>readings := readings s + 2 * n, events := events s @ concat (replicate n (timed_events op))\<rparr>)"
  using assms unfolding timed_loop_def
proof (induction n arbitrary: s)
  case (Suc n)
  have "map (elapsed V (readings s)) [0..<Suc n]
      = elapsed V (readings s) 0 # map (elapsed V (Suc (Suc (readings s)))) [0..<n]"
    unfolding map_upt_Suc by (simp add: elapsed_def)
  with Suc show ?case
    by (simp add: bindS_def perf_counter_def launch_def synchronize_mn_def timed_events_def)
      (simp add: elapsed_def)
qed simp

text \<open>
  When the package works, the matrix benchmark creates its two operands, runs the warm-up
  iterations unmeasured, and then takes each sample between two clock readings around one
  launch and the synchronisation that waits for it, so that no sample includes the work of
  another iteration.
\<close>

theorem matmul_benchmark_trace:
  assumes "has_metal_native V" and "\<forall>sh dt. mn_create V sh dt = Inr ()" and "mn_launch V ''matmul'' = Inr ()"
    and "dict_get ps ''M'' = Some (PyInt m)" and "dict_get ps ''N'' = Some (PyInt n)" and "dict_get ps ''K'' = Some (PyInt k)"
  shows "benchmark_matmul V ps warm it s = (Inr (map (elapsed V (readings s)) [0..<it]),
    s\<lparr>readings := readings s + 2 * it,
      events := events s @ [Create [m, k] (np_dtype_of ps), Create [k, n] (np_dtype_of ps)]
        @ concat (replicate warm [Launch ''matmul'', Sync]) @ concat (replicate it (timed_events ''matmul''))\<rparr>)"
  using assms by (simp add: benchmark_matmul_def param_def bindS_def create_def warmup_run timed_run)

definition steady_env :: bench_env where
  "steady_env = \<lparr>has_metal_native = True, mn_has = (\<lambda>_. True), mn_create = (\<lambda>_ _. Inr ()), mn_launch = (\<lambda>_. Inr ()),
     clock_value = real, normal_value = (\<lambda>_ _. 0), np_percentile = (\<lambda>xs _. hd xs), wall_time = 0\<rparr>"

definition bench_start :: bench_state where
  "bench_start = \<lparr>readings = 0, draws = 0, events = []\<rparr>"

theorem matmul_benchmark_trace_witness:
  "fst (benchmark_matmul steady_env [(''M'', PyInt 4), (''N'', PyInt 4), (''K'', PyInt 4)] 2 3 bench_start) = Inr [1000, 1000, 1000]"
  using matmul_benchmark_trace [of steady_env "[(''M'', PyInt 4), (''N'', PyInt 4), (''K'', PyInt 4)]" 4 4 4 2 3 bench_start]
  by (simp add: steady_env_def dict_get_def elapsed_def bench_start_def numeral_3_eq_3)

section \<open>Statistics\<close>

lemma in_range: "x \<in> set xs \<Longrightarrow> Min (set xs) \<le> x \<and> x \<le> (Max (set xs) :: real)"
  by simp

lemma median_range: "median xs = Inr md \<Longrightarrow> xs \<noteq> [] \<and> Min (set xs) \<le> md \<and> md \<le> Max (set xs)"
proof -
  assume md: "median xs = Inr md"
  then have ne: "xs \<noteq> []" by (auto simp: median_def Let_def)
  have r: "Min (set xs) \<le> sort xs ! i \<and> sort xs ! i \<le> Max (set xs)" if "i < length xs" for i
    by (rule in_range) (use that nth_mem [of i "sort xs"] in simp)
  have i: "length xs div 2 < length xs" "length xs div 2 - 1 < length xs" using ne by (simp_all add: less_imp_diff_less)
  from md ne r [OF i(1)] r [OF i(2)] show ?thesis
    by (auto simp: median_def Let_def split: if_splits)
qed

lemma sum_list_range:
  "(\<And>x. x \<in> set xs \<Longrightarrow> a \<le> x \<and> x \<le> (b :: real)) \<Longrightarrow> real (length xs) * a \<le> sum_list xs \<and> sum_list xs \<le> real (length xs) * b"
proof (induction xs)
  case (Cons x xs)
  then have "a \<le> x" "x \<le> b" "real (length xs) * a \<le> sum_list xs" "sum_list xs \<le> real (length xs) * b" by simp_all
  then show ?case by (simp add: distrib_right add_mono)
qed simp

lemma mean_range: "mean xs = Inr m \<Longrightarrow> Min (set xs) \<le> m \<and> m \<le> Max (set xs)"
proof -
  assume m: "mean xs = Inr m"
  then have "xs \<noteq> []" by (auto simp: mean_def)
  then have "0 < real (length xs)" by simp
  with m sum_list_range [of xs "Min (set xs)" "Max (set xs)"] in_range show ?thesis
    by (auto simp: mean_def field_simps split: if_splits)
qed

lemma stdev_nonneg: "stdev xs = Inr sd \<Longrightarrow> 0 \<le> sd"
proof -
  assume "stdev xs = Inr sd"
  then obtain m where "sd = sqrt (sum_list (map (\<lambda>x. (x - m)\<^sup>2) xs) / real (length xs - 1))"
    by (auto simp: stdev_def bindR_Inr_iff split: if_splits)
  moreover have "0 \<le> sum_list (map (\<lambda>x. (x - m)\<^sup>2) xs)" by (rule sum_list_nonneg) auto
  ultimately show "0 \<le> sd" by simp
qed

lemma placeholder_length: "placeholder V t n s = (Inr xs, s') \<Longrightarrow> length xs = n"
  unfolding placeholder_def by (rule repeatS_length)

lemma timed_length: "timed_loop V op n s = (Inr xs, s') \<Longrightarrow> length xs = n"
  unfolding timed_loop_def by (rule repeatS_length)

text \<open>Results that hold the requested number of samples, whatever state they start from.\<close>

definition counts :: "nat \<Rightarrow> (bench_state, real list) st \<Rightarrow> bool" where
  "counts n c \<longleftrightarrow> (\<forall>s xs s'. c s = (Inr xs, s') \<longrightarrow> length xs = n)"

lemma counts_intros:
  "counts n (placeholder V t n)" "counts n (timed_loop V op n)" "counts n (raiseS e msg)"
  "(\<And>x. counts n (f x)) \<Longrightarrow> counts n (bindS first f)"
  "counts n c \<Longrightarrow> counts n d \<Longrightarrow> counts n (if b then c else d)"
  by (auto simp: counts_def bindS_def raise_def dest: placeholder_length timed_length split: prod.splits sum.splits)

lemma dispatch_counts: "counts (b_iters b) (dispatch_benchmark V b)"
  unfolding dispatch_benchmark_def benchmark_matmul_def benchmark_attention_def benchmark_softmax_def
    benchmark_rmsnorm_def benchmark_swiglu_def
  by (intro counts_intros)

text \<open>
  C34. The numbers that a benchmark reports are consistent: it ran at least one iteration, the
  samples kept are at least half of the iterations, the median and the mean lie between the minimum
  and the maximum, and the deviation is not negative.
\<close>

theorem benchmark_statistics:
  assumes "run_benchmark V x b removal s = (Inr r, s')"
  shows "0 < b_iters b \<and> n_samples r \<le> b_iters b \<and> b_iters b \<le> 2 * n_samples r
    \<and> min_ms r \<le> median_ms r \<and> median_ms r \<le> max_ms r \<and> min_ms r \<le> mean_ms r \<and> mean_ms r \<le> max_ms r \<and> 0 \<le> std_ms r"
proof -
  from assms obtain xs where xs: "dispatch_benchmark V b s = (Inr xs, s')"
    and sum: "summarize V x b (if removal = ''iqr'' then remove_outliers_iqr (np_percentile V) xs else xs) = Inr r"
    by (auto simp: run_benchmark_def bindS_def split: prod.splits sum.splits)
  have n: "length xs = b_iters b" using dispatch_counts [of b V] xs by (auto simp: counts_def)
  define ys where "ys = (if removal = ''iqr'' then remove_outliers_iqr (np_percentile V) xs else xs)"
  have l: "length ys \<le> b_iters b" "b_iters b \<le> 2 * length ys"
    using outliers_length [where pc = "np_percentile V" and xs = xs] n by (simp_all add: ys_def)
  from sum obtain md mn sd where r: "median ys = Inr md" "mean ys = Inr mn"
    "(if length ys > 1 then stdev ys else Inr 0) = Inr sd"
    "median_ms r = md" "mean_ms r = mn" "std_ms r = sd" "min_ms r = Min (set ys)" "max_ms r = Max (set ys)" "n_samples r = length ys"
    unfolding ys_def [symmetric] by (auto simp: summarize_def bindR_Inr_iff)
  have "0 \<le> sd" using r(3) stdev_nonneg by (auto split: if_splits)
  moreover have "0 < length ys" using median_range [OF r(1)] by simp
  with l have "0 < b_iters b" by linarith
  ultimately show ?thesis using r l median_range [OF r(1)] mean_range [OF r(2)] by auto
qed

theorem benchmark_statistics_witness:
  "\<exists>r s'. run_benchmark steady_env sample_context
      \<lparr>b_name = ''m'', b_category = ''c'', b_op = ''matmul'', b_params = [(''M'', PyInt 4), (''N'', PyInt 4), (''K'', PyInt 4)],
        b_warmup = 1, b_iters = 2\<rparr> ''none'' bench_start = (Inr r, s')
     \<and> min_ms r \<le> median_ms r \<and> n_samples r \<le> 2"
proof -
  let ?b = "\<lparr>b_name = ''m'', b_category = ''c'', b_op = ''matmul'', b_params = [(''M'', PyInt 4), (''N'', PyInt 4), (''K'', PyInt 4)],
        b_warmup = 1, b_iters = 2\<rparr>"
  obtain s' where "benchmark_matmul steady_env (b_params ?b) 1 2 bench_start = (Inr [1000, 1000], s')"
    by (simp add: benchmark_matmul_def param_def bindS_def create_def warmup_run timed_run elapsed_def steady_env_def
        dict_get_def bench_start_def numeral_2_eq_2)
  then obtain r where "run_benchmark steady_env sample_context ?b ''none'' bench_start = (Inr r, s')"
    by (simp add: run_benchmark_def dispatch_benchmark_def bindS_def summarize_def median_def mean_def stdev_def Let_def)
  from this benchmark_statistics [OF this] show ?thesis by (intro exI conjI) auto
qed

section \<open>Comparison\<close>

text \<open>
  Against a baseline with a positive median, a result is a regression exactly when its median is
  more than the threshold above the baseline's, an improvement exactly when it is more than the
  threshold below, and stable otherwise; the reported change is the relative difference in per cent.
  A baseline of zero raises ZeroDivisionError, one without a median KeyError.
\<close>

theorem comparison_classifies:
  assumes "dict_get d ''median_ms'' = Some (PyFloat (Fin m))" and "0 < m"
  shows "\<exists>c. compare_with_baseline cur (PyDict d) th = Inr c \<and> c_name c = r_name cur
      \<and> c_status c = (if median_ms cur > m + th * m then REGRESSION else if median_ms cur < m - th * m then IMPROVEMENT else STABLE)
      \<and> m + change_pct c / 100 * m = median_ms cur
    \<and> raises ZeroDivisionError (compare_with_baseline cur (PyDict (dict_set ''median_ms'' (PyFloat (Fin 0)) d)) th)
    \<and> raises KeyError (compare_with_baseline cur (PyDict (dict_del ''median_ms'' d)) th)"
  using assms by (simp add: compare_with_baseline_def py_item_def py_number_def classify_def Let_def field_simps
      dict_get_set dict_get_del)

definition sample_result :: bench_result where
  "sample_result = \<lparr>r_name = ''m'', r_category = ''c'', median_ms = 106, mean_ms = 106, std_ms = 0, min_ms = 100, max_ms = 110,
     p95_ms = 110, p99_ms = 110, n_samples = 3, r_timestamp = 0, r_git_hash = [], r_git_branch = []\<rparr>"

theorem comparison_classifies_witness:
  "\<exists>c. compare_with_baseline sample_result (PyDict [(''median_ms'', PyFloat (Fin 100))]) (5 / 100) = Inr c
     \<and> c_status c = REGRESSION"
  using comparison_classifies [of "[(''median_ms'', PyFloat (Fin 100))]" 100 sample_result "5 / 100"]
  by (auto simp: dict_get_def sample_result_def)

section \<open>The order of the verdicts\<close>

text \<open>From best to worst: improvement, stable, regression.\<close>

fun severity :: "status \<Rightarrow> nat" where
  "severity IMPROVEMENT = 0"
| "severity STABLE = 1"
| "severity REGRESSION = 2"

lemma severity_inj: "severity a = severity b \<Longrightarrow> a = b"
  by (cases a; cases b) simp_all

instantiation status :: linorder
begin

definition less_eq_status :: "status \<Rightarrow> status \<Rightarrow> bool" where
  "less_eq_status a b \<longleftrightarrow> severity a \<le> severity b"

definition less_status :: "status \<Rightarrow> status \<Rightarrow> bool" where
  "less_status a b \<longleftrightarrow> severity a < severity b"

instance
  by standard (auto simp: less_eq_status_def less_status_def intro: severity_inj)

end

text \<open>
  A slower result never gets a better verdict: for a threshold that is not negative the
  classification is monotone in the measured median.
\<close>

theorem comparison_monotone:
  assumes "0 \<le> th" and "median_ms a \<le> median_ms b"
    and "compare_with_baseline a base th = Inr c" and "compare_with_baseline b base th = Inr d" and "0 < baseline_ms c"
  shows "c_status c \<le> c_status d"
proof -
  from assms(3) obtain m where m: "bindR (py_item base ''median_ms'') py_number = Inr m" "baseline_ms c = m"
    "c_status c = classify (median_ms a / m) th"
    by (auto simp: compare_with_baseline_def bindR_Inr_iff Let_def split: if_splits)
  with assms(4) have "c_status d = classify (median_ms b / m) th"
    by (auto simp: compare_with_baseline_def Let_def split: if_splits)
  moreover have "median_ms a / m \<le> median_ms b / m" using assms(2,5) m(2) by (simp add: divide_right_mono)
  ultimately show ?thesis using assms(1) m(3) by (simp add: classify_def less_eq_status_def)
qed

theorem comparison_monotone_witness:
  "\<exists>c d. compare_with_baseline sample_result (PyDict [(''median_ms'', PyFloat (Fin 100))]) (5 / 100) = Inr c
     \<and> compare_with_baseline (sample_result\<lparr>median_ms := 120\<rparr>) (PyDict [(''median_ms'', PyFloat (Fin 100))]) (5 / 100) = Inr d
     \<and> c_status c \<le> c_status d"
proof -
  let ?base = "PyDict [(''median_ms'', PyFloat (Fin 100))]"
  obtain c d where r: "compare_with_baseline sample_result ?base (5 / 100) = Inr c" "baseline_ms c = 100"
    "compare_with_baseline (sample_result\<lparr>median_ms := 120\<rparr>) ?base (5 / 100) = Inr d"
    by (simp add: compare_with_baseline_def py_item_def py_number_def dict_get_def Let_def)
  with comparison_monotone [OF _ _ r(1,3)] show ?thesis by (auto simp: sample_result_def)
qed

end
