(* ===== verification/Profiling.thy ===== *)
theory Profiling
  imports PyData
begin

text \<open>
  \<^verbatim>\<open>python/metal_native/profiling.py\<close>: GPU traces, counters, and the memory report. The state
  \<open>'g\<close> is that of the GPU's capture manager and of the file system.
\<close>

section \<open>The extension's functions\<close>

record 'g profiling_api =
  P_set_capture_destination :: "(string \<Rightarrow> ('g, unit) st) option"
  P_begin_capture :: "('g, unit) st option"
  P_end_capture :: "('g, unit) st option"
  P_sample_counters :: "('g, pyval) st option"
  P_memory_snapshot :: "('g, pyval) st option"

text \<open>The two \<open>except\<close> clauses that every function has.\<close>

definition guarded :: "('g, 'a) st \<Rightarrow> string \<Rightarrow> string \<Rightarrow> ('g, 'a) st" where
  "guarded c absent failed = catchS any_exception c (\<lambda>e.
     if import_or_attribute e then raiseS RuntimeError absent else raiseS RuntimeError (failed @ str_exc e))"

section \<open>Traces and counters\<close>

definition begin_trace :: "'g profiling_api cmod \<Rightarrow> string option \<Rightarrow> ('g, unit) st" where
  "begin_trace cm path = guarded
     (bindS (liftS (import_C cm)) (\<lambda>C.
      bindS (case path of
          None \<Rightarrow> returnS ()
        | Some p \<Rightarrow> attr_call C (\<lambda>m. case P_set_capture_destination m of None \<Rightarrow> None | Some f \<Rightarrow> Some (f p))) (\<lambda>_.
      attr_call C P_begin_capture)))
     ''Metal profiling not available. Is metal_native._C loaded?'' ''Failed to begin GPU trace capture: ''"

definition end_trace :: "'g profiling_api cmod \<Rightarrow> ('g, unit) st" where
  "end_trace cm = guarded (native_call cm P_end_capture)
     ''Metal profiling not available'' ''Failed to end GPU trace capture: ''"

definition invalid_counters :: "pyexc \<Rightarrow> pyval" where
  "invalid_counters e = PyDict
     [(''gpu_utilization'', PyFloat (Fin 0)), (''alu_utilization'', PyFloat (Fin 0)),
      (''memory_bandwidth'', PyFloat (Fin 0)), (''occupancy'', PyFloat (Fin 0)), (''timestamp_ns'', PyInt 0),
      (''is_valid'', PyBool False), (''error'', PyStr (str_exc e))]"

definition gpu_counters :: "'g profiling_api cmod \<Rightarrow> ('g, pyval) st" where
  "gpu_counters cm = catchS any_exception (native_call cm P_sample_counters) (\<lambda>e. returnS (invalid_counters e))"

text \<open>
  \<open>with TraceContext(path): body\<close>. The trace is ended on the way out of the body, whether it
  raised or not; what \<open>end_trace\<close> raises is dropped.
\<close>

definition TraceContext :: "'g profiling_api cmod \<Rightarrow> string option \<Rightarrow> ('g, 'a) st \<Rightarrow> ('g, 'a) st" where
  "TraceContext cm path body = bindS (begin_trace cm path) (\<lambda>_ s. case body s of (r, s1) \<Rightarrow>
     (case catchS any_exception (end_trace cm) (\<lambda>_. returnS ()) s1 of
        (Inl e, s2) \<Rightarrow> (Inl e, s2)
      | (Inr _, s2) \<Rightarrow> (r, s2)))"

section \<open>The memory report\<close>

definition memory_snapshot :: "'g profiling_api cmod \<Rightarrow> ('g, pyval) st" where
  "memory_snapshot cm = guarded (native_call cm P_memory_snapshot)
     ''Metal memory profiling not available'' ''Failed to take memory snapshot: ''"

text \<open>\<open>f"{label}{d[k] / c:.2f} {unit}"\<close>, the form of most lines.\<close>

definition size_line :: "string \<Rightarrow> pyval \<Rightarrow> string \<Rightarrow> real \<Rightarrow> string \<Rightarrow> string res" where
  "size_line label d k c unit = bindR (py_item d k) (\<lambda>v. bindR (py_divide v c) (\<lambda>x.
     Inr (label @ fmt_fixed 2 x @ unit)))"

definition overall_lines :: "pyval \<Rightarrow> string list res" where
  "overall_lines snapshot =
     bindR (size_line ''  Total Allocated:     '' snapshot ''total_allocated'' (1024 ^ 2) '' MB'') (\<lambda>a.
     bindR (size_line ''  Total Cached:        '' snapshot ''total_cached'' (1024 ^ 2) '' MB'') (\<lambda>b.
     bindR (size_line ''  Peak Allocated:      '' snapshot ''peak_allocated'' (1024 ^ 2) '' MB'') (\<lambda>c.
     bindR (size_line ''  Available System:    '' snapshot ''available_system'' (1024 ^ 3) '' GB'') (\<lambda>d.
     Inr [''Overall Statistics:'', a, b, c, d, '''']))))"

text \<open>Iteration over a list; other values are not iterable, a string or dictionary has no numbers.\<close>

definition py_items :: "pyval \<Rightarrow> pyval list res" where
  "py_items v = (case v of
     PyList xs \<Rightarrow> Inr xs
   | PyStr s \<Rightarrow> Inr (map (\<lambda>c. PyStr [c]) s)
   | PyDict d \<Rightarrow> Inr (map (PyStr \<circ> fst) d)
   | _ \<Rightarrow> raise TypeError ''object is not iterable'')"

definition heap_lines :: "(pyval \<Rightarrow> string) \<Rightarrow> nat \<times> pyval \<Rightarrow> string list res" where
  "heap_lines show_rest ih = (case ih of (i, heap) \<Rightarrow>
     bindR (size_line ''    Size:              '' heap ''heap_size'' (1024 ^ 2) '' MB'') (\<lambda>a.
     bindR (size_line ''    Used:              '' heap ''used_bytes'' (1024 ^ 2) '' MB'') (\<lambda>b.
     bindR (size_line ''    Free:              '' heap ''free_bytes'' (1024 ^ 2) '' MB'') (\<lambda>c.
     bindR (py_item heap ''num_allocations'') (\<lambda>n.
     bindR (bindR (py_item heap ''fragmentation_ratio'') py_number) (\<lambda>f.
     Inr [''  Heap '' @ show_nat i @ '':'', a, b, c, ''    Allocations:       '' @ py_str show_rest n,
          ''    Fragmentation:     '' @ fmt_fixed 2 (100 * f) @ ''%'']))))))"

definition heaps_section :: "(pyval \<Rightarrow> string) \<Rightarrow> pyval \<Rightarrow> string list res" where
  "heaps_section show_rest snapshot = bindR (py_get snapshot ''heaps'' PyNone) (\<lambda>hs.
     if \<not> truthy hs then Inr []
     else bindR (py_items hs) (\<lambda>heaps.
       bindR (mapR (heap_lines show_rest) (enumerate 0 heaps)) (\<lambda>ls.
       Inr (''Heap Statistics:'' # concat ls @ ['''']))))"

text \<open>
  \<open>sorted(..., key=lambda x: x['size'], reverse=True)[:10]\<close>: the sort is stable, so equal sizes
  keep their order.
\<close>

definition sized :: "pyval \<Rightarrow> (real \<times> pyval) res" where
  "sized alloc = bindR (bindR (py_item alloc ''size'') py_number) (\<lambda>x. Inr (x, alloc))"

definition largest_first :: "(real \<times> pyval) list \<Rightarrow> (real \<times> pyval) list" where
  "largest_first xs = sort_key (\<lambda>x. - fst x) xs"

definition alloc_line :: "(pyval \<Rightarrow> string) \<Rightarrow> real \<times> pyval \<Rightarrow> string res" where
  "alloc_line show_rest xa = bindR (py_get (snd xa) ''tag'' (PyStr ''unknown'')) (\<lambda>tag.
     Inr (''  '' @ rjust 10 (fmt_fixed 2 (fst xa / 1024 ^ 2)) @ '' MB  -  '' @ py_str show_rest tag))"

definition allocations_section :: "(pyval \<Rightarrow> string) \<Rightarrow> pyval \<Rightarrow> string list res" where
  "allocations_section show_rest snapshot = bindR (py_get snapshot ''allocations'' PyNone) (\<lambda>av.
     if \<not> truthy av then Inr []
     else bindR (py_len av) (\<lambda>n. bindR (py_items av) (\<lambda>allocs.
       bindR (mapR sized allocs) (\<lambda>xs.
       bindR (mapR (alloc_line show_rest) (take 10 (largest_first xs))) (\<lambda>ls.
       Inr ([''Active Allocations: '' @ show_nat n, '''']
            @ (if ls = [] then [] else ''Top 10 Largest Allocations:'' # ls @ [''''])))))))"

definition rule_line :: string where
  "rule_line = replicate 70 CHR ''=''"

definition report_text :: "(pyval \<Rightarrow> string) \<Rightarrow> pyval \<Rightarrow> string res" where
  "report_text show_rest snapshot =
     bindR (overall_lines snapshot) (\<lambda>os.
     bindR (heaps_section show_rest snapshot) (\<lambda>hs.
     bindR (allocations_section show_rest snapshot) (\<lambda>al.
     Inr (py_join newline ([rule_line, ''Metal Native - Memory Report'', rule_line, ''''] @ os @ hs @ al @ [rule_line])))))"

text \<open>\<open>write_file\<close> opens a file for writing and writes the text.\<close>

definition memory_report ::
  "(pyval \<Rightarrow> string) \<Rightarrow> (string \<Rightarrow> string \<Rightarrow> ('g, unit) st) \<Rightarrow> 'g profiling_api cmod \<Rightarrow> string option \<Rightarrow> ('g, string) st" where
  "memory_report show_rest write_file cm output_path = catchS any_exception
     (bindS (memory_snapshot cm) (\<lambda>snapshot.
      bindS (liftS (report_text show_rest snapshot)) (\<lambda>report.
      bindS (case output_path of
          Some (c # cs) \<Rightarrow> write_file (c # cs) report
        | _ \<Rightarrow> returnS ()) (\<lambda>_. returnS report))))
     (\<lambda>e. raiseS RuntimeError (''Failed to generate memory report: '' @ str_exc e))"

end
