(* ===== verification/ProfilingProps.thy ===== *)
theory ProfilingProps
  imports Profiling "HOL-Library.Multiset"
begin

text \<open>
  Properties of the profiler: traces are balanced, the report lists the largest allocations, and
  the shipped extension, whose profiling bindings are empty, makes every call fail cleanly.
\<close>

section \<open>Without the profiling functions\<close>

text \<open>What \<^verbatim>\<open>bindings/bind_profiling.cpp\<close> registers: nothing.\<close>

definition shipped_profiling :: "'g profiling_api" where
  "shipped_profiling = \<lparr>P_set_capture_destination = None, P_begin_capture = None, P_end_capture = None,
     P_sample_counters = None, P_memory_snapshot = None\<rparr>"

lemma guarded_absent:
  assumes "c s = (Inl e, s)" "import_or_attribute e"
  shows "fails_with RuntimeError (guarded c absent failed) s"
proof -
  from assms(2) have "any_exception e" by (auto simp: import_or_attribute_def any_exception_def)
  with assms show ?thesis by (simp add: fails_with_def guarded_def catchS_def)
qed

lemma begin_trace_absent:
  assumes "cm \<in> {CMissing, CNone, CMod shipped_profiling}"
  shows "fails_with RuntimeError (begin_trace cm path) s"
proof -
  have "\<exists>e. bindS (liftS (import_C cm)) (\<lambda>C. bindS (case path of
          None \<Rightarrow> returnS ()
        | Some p \<Rightarrow> attr_call C (\<lambda>m. case P_set_capture_destination m of None \<Rightarrow> None | Some f \<Rightarrow> Some (f p))) (\<lambda>_.
      attr_call C P_begin_capture)) s = (Inl e, s) \<and> import_or_attribute e"
    using assms by (auto simp: bindS_def import_C_def attr_call_def shipped_profiling_def raise_def
        import_or_attribute_def split: option.splits)
  then show ?thesis unfolding begin_trace_def by (blast intro: guarded_absent)
qed

lemma not_provided:
  assumes "cm \<in> {CMissing, CNone, CMod shipped_profiling}"
  shows "\<not> provides cm P_end_capture" "\<not> provides cm P_sample_counters" "\<not> provides cm P_memory_snapshot"
  using assms by (auto simp: provides_def shipped_profiling_def)

lemma guarded_call_absent: "\<not> provides cm sel \<Longrightarrow> fails_with RuntimeError (guarded (native_call cm sel) absent failed) s"
  using native_call_absent [of cm sel s] by (blast intro: guarded_absent)

text \<open>
  With the shipped extension, which has no profiling functions, as without any extension,
  no trace begins, the body of a \<open>TraceContext\<close> does not run, snapshots and reports raise
  RuntimeError, nothing is changed by any of them, and \<open>gpu_counters\<close> returns counters marked
  invalid.
\<close>

theorem profiling_unavailable:
  assumes "cm \<in> {CMissing, CNone, CMod shipped_profiling}"
  shows "fails_with RuntimeError (begin_trace cm path) s \<and> fails_with RuntimeError (end_trace cm) s
    \<and> fails_with RuntimeError (TraceContext cm path body) s \<and> fails_with RuntimeError (memory_snapshot cm) s
    \<and> fails_with RuntimeError (memory_report show_rest write_file cm out) s
    \<and> (\<exists>d. gpu_counters cm s = (Inr (PyDict d), s) \<and> dict_get d ''is_valid'' = Some (PyBool False))"
proof -
  note b = begin_trace_absent [OF assms, of path s] and np = not_provided [OF assms]
  have t: "fails_with RuntimeError (TraceContext cm path body) s"
    using b by (cases "begin_trace cm path s") (auto simp: TraceContext_def bindS_def fails_with_def raises_def split: sum.splits)
  have m: "fails_with RuntimeError (memory_snapshot cm) s"
    unfolding memory_snapshot_def by (rule guarded_call_absent [OF np(3)])
  then obtain e where e: "memory_snapshot cm s = (Inl e, s)" "exc_class e = RuntimeError"
    by (cases "memory_snapshot cm s") (auto simp: fails_with_def raises_def split: sum.splits)
  then have "fails_with RuntimeError (memory_report show_rest write_file cm out) s"
    by (simp add: memory_report_def catchS_def bindS_def fails_with_def any_exception_def)
  moreover have "fails_with RuntimeError (end_trace cm) s"
    unfolding end_trace_def by (rule guarded_call_absent [OF np(1)])
  moreover obtain e where "native_call cm P_sample_counters s = (Inl e, s)" "import_or_attribute e"
    using native_call_absent [OF np(2)] by blast
  then have "gpu_counters cm s = (Inr (invalid_counters e), s)"
    by (auto simp: gpu_counters_def catchS_def import_or_attribute_def any_exception_def)
  then have "\<exists>d. gpu_counters cm s = (Inr (PyDict d), s) \<and> dict_get d ''is_valid'' = Some (PyBool False)"
    by (simp add: invalid_counters_def dict_get_def)
  ultimately show ?thesis using b t m by simp
qed

theorem profiling_unavailable_witness:
  "fails_with RuntimeError (begin_trace (CMod shipped_profiling) (Some ''trace.gputrace'')) (5 :: nat)"
  using profiling_unavailable [of "CMod shipped_profiling" "Some ''trace.gputrace''" "5 :: nat" "returnS ()"] by simp

section \<open>Traces\<close>

text \<open>
  C35. When a trace has begun, \<open>TraceContext\<close> ends it exactly once after the body, whether the body
  returned or raised, and hands on what the body gave, even if ending the trace fails; when it
  cannot begin, the body does not run and the exception of \<open>begin_trace\<close> is raised.
\<close>

theorem trace_context_ends:
  assumes "P_end_capture m = Some f" and "\<forall>t u e. f t = (Inl e, u) \<longrightarrow> any_exception e"
  shows "TraceContext (CMod m) path body s = (case begin_trace (CMod m) path s of
      (Inl e, s1) \<Rightarrow> (Inl e, s1)
    | (Inr _, s1) \<Rightarrow> (case body s1 of (r, s2) \<Rightarrow> (r, snd (f s2))))"
proof -
  have e: "catchS any_exception (end_trace (CMod m)) (\<lambda>_. returnS ()) t = (Inr (), snd (f t))" for t
    using assms by (cases "f t")
      (auto simp: end_trace_def guarded_def catchS_def raise_def any_exception_def split: sum.splits)
  show ?thesis
    by (simp add: TraceContext_def bindS_def e split: prod.splits sum.splits)
qed

text \<open>A capture manager that counts: (traces open, traces ended).\<close>

definition counting_profiling :: "(nat \<times> nat) profiling_api" where
  "counting_profiling = shipped_profiling\<lparr>P_begin_capture := Some (\<lambda>(i, j). (Inr (), (Suc i, j))),
     P_end_capture := Some (\<lambda>(i, j). if i = 0 then (raise RuntimeError ''no capture'', (i, j)) else (Inr (), (i - 1, Suc j)))\<rparr>"

theorem trace_context_ends_witness:
  "TraceContext (CMod counting_profiling) None (raiseS KeyError ''x'' :: (nat \<times> nat, unit) st) (0, 0) = (raise KeyError ''x'', (0, 1))"
proof -
  let ?f = "\<lambda>(i, j). if i = 0 then (raise RuntimeError ''no capture'', (i, j)) else (Inr (), (i - 1, Suc j))"
  have "P_end_capture counting_profiling = Some ?f" by (simp add: counting_profiling_def)
  moreover have "\<forall>t u e. ?f t = (Inl e, u) \<longrightarrow> any_exception e" by (auto simp: raise_def any_exception_def split: if_splits)
  ultimately have "TraceContext (CMod counting_profiling) None (raiseS KeyError ''x'' :: (nat \<times> nat, unit) st) (0, 0)
      = (case begin_trace (CMod counting_profiling) None (0, 0) of
          (Inl e, s1) \<Rightarrow> (Inl e, s1)
        | (Inr _, s1) \<Rightarrow> (case raiseS KeyError ''x'' s1 of (r, s2) \<Rightarrow> (r, snd (?f s2))))"
    by (rule trace_context_ends)
  moreover have "begin_trace (CMod counting_profiling) None (0, 0) = (Inr (), (1, 0))"
    by (simp add: begin_trace_def guarded_def catchS_def bindS_def attr_call_def counting_profiling_def)
  ultimately show ?thesis by simp
qed

section \<open>The largest allocations\<close>

text \<open>An allocation as the snapshot gives it, and its line in the report.\<close>

definition allocation :: "real \<times> string \<Rightarrow> pyval" where
  "allocation xt = PyDict [(''size'', PyFloat (Fin (fst xt))), (''tag'', PyStr (snd xt))]"

definition allocation_line :: "real \<times> string \<Rightarrow> string" where
  "allocation_line xt = ''  '' @ rjust 10 (fmt_fixed 2 (fst xt / 1024 ^ 2)) @ '' MB  -  '' @ snd xt"

lemma insort_key_map: "insort_key f (g x) (map g xs) = map g (insort_key (\<lambda>y. f (g y)) x xs)"
  by (induction xs) simp_all

lemma sort_key_map: "sort_key f (map g xs) = map g (sort_key (\<lambda>y. f (g y)) xs)"
  by (induction xs) (simp_all add: insort_key_map)

text \<open>
  The report of a snapshot gives the number of allocations and one line for each of the ten
  largest (all of them when there are fewer): the listed ones are in order of size, and none that is left
  out is larger than one that is listed.
\<close>

theorem report_largest_allocations:
  assumes "dict_get d ''allocations'' = Some (PyList (map allocation xs))" and "xs \<noteq> []"
  shows "\<exists>listed rest. allocations_section show_rest (PyDict d)
      = Inr ([''Active Allocations: '' @ show_nat (length xs), '''', ''Top 10 Largest Allocations:'']
          @ map allocation_line listed @ [''''])
    \<and> mset (listed @ rest) = mset xs \<and> length listed = min 10 (length xs)
    \<and> sorted_wrt (\<lambda>x y. fst y \<le> fst x) listed \<and> (\<forall>x \<in> set listed. \<forall>y \<in> set rest. fst y \<le> fst x)"
proof -
  let ?p = "\<lambda>xt. (fst xt, allocation xt)"
  define ys where "ys = sort_key (\<lambda>xt. - fst xt) xs"
  have sized: "mapR sized (map allocation xs) = Inr (map ?p xs)"
    by (induction xs) (simp_all add: sized_def allocation_def py_item_def dict_get_def py_number_def)
  have sort: "largest_first (map ?p xs) = map ?p ys"
    by (simp add: largest_first_def ys_def sort_key_map)
  have lines: "mapR (alloc_line show_rest) (map ?p zs) = Inr (map allocation_line zs)" for zs
    by (induction zs) (simp_all add: alloc_line_def allocation_def allocation_line_def dict_get_default_def dict_get_def)
  have "length ys = length xs" by (simp add: ys_def)
  with assms(2) have "ys \<noteq> []" by auto
  then have ne: "take 10 ys \<noteq> []" by simp
  have "allocations_section show_rest (PyDict d)
      = Inr ([''Active Allocations: '' @ show_nat (length xs), '''', ''Top 10 Largest Allocations:'']
          @ map allocation_line (take 10 ys) @ [''''])"
    using assms ne by (simp add: allocations_section_def dict_get_default_def py_items_def sized sort lines take_map)
  moreover have "mset (take 10 ys @ drop 10 ys) = mset xs" by (simp add: ys_def)
  moreover have s: "sorted_wrt (\<lambda>x y. fst y \<le> fst x) (take 10 ys @ drop 10 ys)"
    using sorted_sort_key [of "\<lambda>x. - fst x" xs] by (simp add: ys_def sorted_map)
  moreover have "length (take 10 ys) = min 10 (length xs)" by (simp add: ys_def min.commute)
  ultimately show ?thesis unfolding sorted_wrt_append by blast
qed

theorem report_largest_allocations_witness:
  "\<exists>listed rest. allocations_section (\<lambda>_. '''') (PyDict [(''allocations'', PyList (map allocation [(1, ''a''), (3, ''b'')]))])
      = Inr ([''Active Allocations: '' @ show_nat 2, '''', ''Top 10 Largest Allocations:'']
          @ map allocation_line listed @ [''''])
    \<and> mset (listed @ rest) = mset [(1, ''a''), (3, ''b'')]"
proof -
  let ?xs = "[(1, ''a''), (3, ''b'')] :: (real \<times> string) list"
  have "dict_get [(''allocations'', PyList (map allocation ?xs))] ''allocations'' = Some (PyList (map allocation ?xs))"
    by (simp add: dict_get_def)
  moreover have "length ?xs = 2" by simp
  ultimately show ?thesis
    using report_largest_allocations [of "[(''allocations'', PyList (map allocation ?xs))]" ?xs "\<lambda>_. ''''"] by (metis list.distinct(1))
qed

end
