(* ===== verification/Runtime.thy ===== *)
theory Runtime
  imports PyData
begin

text \<open>
  \<^verbatim>\<open>python/metal_native/device.py\<close> and \<^verbatim>\<open>python/metal_native/utils.py\<close>: queries of the device,
  synchronisation, memory statistics and the random seed. Every function imports the extension
  and calls one of its functions; the calls change the state \<open>'g\<close> of the GPU.
\<close>

section \<open>The extension's functions\<close>

text \<open>A function that the extension does not have is \<open>None\<close>.\<close>

record 'g runtime_api =
  R_device_name :: "('g, string) st option"
  R_is_available :: "('g, bool) st option"
  R_device_properties :: "('g, pyval) st option"
  R_supports_bfloat16 :: "('g, bool) st option"
  R_synchronize :: "('g, unit) st option"
  R_empty_cache :: "('g, unit) st option"
  R_memory_allocated :: "('g, int) st option"
  R_max_memory_allocated :: "('g, int) st option"
  R_reset_peak_stats :: "('g, unit) st option"
  R_set_seed :: "(int \<Rightarrow> ('g, unit) st) option"

section \<open>Device queries\<close>

definition device_name :: "'g runtime_api cmod \<Rightarrow> ('g, string) st" where
  "device_name cm = catchS import_or_attribute (native_call cm R_device_name)
     (\<lambda>_. raiseS RuntimeError ''Metal device not available. Is metal_native._C loaded?'')"

definition is_available :: "'g runtime_api cmod \<Rightarrow> ('g, bool) st" where
  "is_available cm = catchS import_or_attribute (native_call cm R_is_available) (\<lambda>_. returnS False)"

definition device_properties :: "'g runtime_api cmod \<Rightarrow> ('g, pyval) st" where
  "device_properties cm = catchS import_or_attribute (native_call cm R_device_properties)
     (\<lambda>_. raiseS RuntimeError ''Metal device not available'')"

definition supports_bfloat16 :: "'g runtime_api cmod \<Rightarrow> ('g, bool) st" where
  "supports_bfloat16 cm = catchS import_or_attribute (native_call cm R_supports_bfloat16)
     (\<lambda>_. raiseS RuntimeError ''Metal device not available'')"

definition info_lines :: "(pyval \<Rightarrow> string) \<Rightarrow> pyval \<Rightarrow> string list res" where
  "info_lines show_rest props =
     bindR (py_get props ''name'' (PyStr ''Unknown'')) (\<lambda>name.
     bindR (py_get props ''cores'' (PyStr ''Unknown'')) (\<lambda>cores.
     bindR (py_get props ''memory'' (PyInt 0)) (\<lambda>memory.
     bindR (py_divide memory (1024 ^ 3)) (\<lambda>gb.
     bindR (py_get props ''bandwidth'' (PyInt 0)) (\<lambda>bandwidth.
     bindR (py_format 2 bandwidth) (\<lambda>bw.
     bindR (py_get props ''unified_memory'' (PyBool False)) (\<lambda>unified.
     bindR (py_get props ''supports_bfloat16'' (PyBool False)) (\<lambda>bf16.
     Inr [''Metal Device: '' @ py_str show_rest name,
          ''  GPU Cores: '' @ py_str show_rest cores,
          ''  Memory: '' @ fmt_fixed 2 gb @ '' GB'',
          ''  Bandwidth: '' @ bw @ '' GB/s'',
          ''  Unified Memory: '' @ py_str show_rest unified,
          ''  BFloat16 Support: '' @ py_str show_rest bf16]))))))))"

definition get_device_info :: "(pyval \<Rightarrow> string) \<Rightarrow> 'g runtime_api cmod \<Rightarrow> ('g, string) st" where
  "get_device_info show_rest cm = bindS (is_available cm) (\<lambda>av.
     if \<not> av then returnS ''Metal: Not available''
     else bindS (device_properties cm) (\<lambda>props.
       bindS (liftS (info_lines show_rest props)) (\<lambda>ls. returnS (py_join newline ls))))"

text \<open>The class \<open>Device\<close> holds its name; entering and leaving it does nothing.\<close>

definition Device_init :: "string option \<Rightarrow> string res" where
  "Device_init dev = (if dev \<noteq> None \<and> dev \<noteq> Some ''metal''
     then raise ValueError (''Invalid device: '' @ the dev @ ''. Only 'metal' is supported.'')
     else Inr ''metal'')"

definition Device_repr :: "string \<Rightarrow> string" where
  "Device_repr d = ''Device('' @ [CHR 0x27] @ d @ [CHR 0x27] @ '')''"

definition with_device :: "string \<Rightarrow> ('g, 'a) st \<Rightarrow> ('g, 'a) st" where
  "with_device d body = body"

section \<open>Synchronisation, memory and the seed\<close>

definition synchronize :: "'g runtime_api cmod \<Rightarrow> ('g, unit) st" where
  "synchronize cm = catchS import_or_attribute (native_call cm R_synchronize)
     (\<lambda>_. raiseS RuntimeError ''Cannot synchronize: metal_native._C not loaded'')"

definition empty_cache :: "'g runtime_api cmod \<Rightarrow> ('g, unit) st" where
  "empty_cache cm = catchS import_or_attribute (native_call cm R_empty_cache) (\<lambda>_. returnS ())"

definition memory_allocated :: "'g runtime_api cmod \<Rightarrow> ('g, int) st" where
  "memory_allocated cm = catchS import_or_attribute (native_call cm R_memory_allocated)
     (\<lambda>_. raiseS RuntimeError ''Cannot query memory: metal_native._C not loaded'')"

definition max_memory_allocated :: "'g runtime_api cmod \<Rightarrow> ('g, int) st" where
  "max_memory_allocated cm = catchS import_or_attribute (native_call cm R_max_memory_allocated)
     (\<lambda>_. raiseS RuntimeError ''Cannot query memory: metal_native._C not loaded'')"

definition reset_peak_stats :: "'g runtime_api cmod \<Rightarrow> ('g, unit) st" where
  "reset_peak_stats cm = catchS import_or_attribute (native_call cm R_reset_peak_stats) (\<lambda>_. returnS ())"

definition set_seed :: "'g runtime_api cmod \<Rightarrow> int \<Rightarrow> ('g, unit) st" where
  "set_seed cm seed =
     (if seed < 0 then raiseS ValueError (''Seed must be non-negative, got '' @ show_int seed)
      else catchS import_or_attribute
        (native_call cm (\<lambda>m. case R_set_seed m of None \<Rightarrow> None | Some f \<Rightarrow> Some (f seed)))
        (\<lambda>_. raiseS RuntimeError ''Cannot set seed: metal_native._C not loaded''))"

definition manual_seed :: "'g runtime_api cmod \<Rightarrow> int \<Rightarrow> ('g, unit) st" where
  "manual_seed cm seed = set_seed cm seed"

definition memory_text :: "int \<Rightarrow> int \<Rightarrow> string" where
  "memory_text current peak =
     ''GPU Memory:'' @ newline @ ''  Current: '' @ fmt_fixed 2 (of_int current / 1024 ^ 2) @ '' MB'' @ newline
     @ ''  Peak:    '' @ fmt_fixed 2 (of_int peak / 1024 ^ 2) @ '' MB''"

text \<open>\<open>except RuntimeError\<close> also takes its subclass \<open>NotImplementedError\<close>.\<close>

definition runtime_error :: "pyexc \<Rightarrow> bool" where
  "runtime_error e \<longleftrightarrow> exc_class e = RuntimeError \<or> exc_class e = NotImplementedError"

definition get_memory_info :: "'g runtime_api cmod \<Rightarrow> ('g, string) st" where
  "get_memory_info cm = catchS runtime_error
     (bindS (memory_allocated cm) (\<lambda>current. bindS (max_memory_allocated cm) (\<lambda>peak.
        returnS (memory_text current peak))))
     (\<lambda>_. returnS ''GPU Memory: Not available'')"

text \<open>
  \<open>with SynchronizeContext(): body\<close>. \<open>__exit__\<close> synchronises on the way out of the body in either
  case; it returns False, so an exception of the body goes on, unless synchronising raises.
\<close>

definition SynchronizeContext :: "'g runtime_api cmod \<Rightarrow> ('g, 'a) st \<Rightarrow> ('g, 'a) st" where
  "SynchronizeContext cm body = (\<lambda>s. case body s of (r, s1) \<Rightarrow>
     (case synchronize cm s1 of (Inl e, s2) \<Rightarrow> (Inl e, s2) | (Inr _, s2) \<Rightarrow> (r, s2)))"

end
