(* ===== verification/Package.thy ===== *)
theory Package
  imports Runtime
begin

text \<open>
  \<^verbatim>\<open>python/metal_native/__init__.py\<close> and \<^verbatim>\<open>python/metal_native/_metallib.py\<close>: lazy loading of
  the submodules and names of the package, the check of the installation, and the search for
  the shader library.
\<close>

section \<open>The package's namespace\<close>

text \<open>A global of the package is a submodule or an object that a submodule defines.\<close>

datatype pkg_val = PModule string | PObject string string

text \<open>
  The state: whether \<open>_C\<close> was imported, the text of the import error if there was one, the
  globals, and the submodules that are loaded.
\<close>

record package =
  has_C :: bool
  import_error :: "string option"
  globals :: "(string, pkg_val) dict"
  loaded :: "string list"

text \<open>
  The modules whose bodies run when a submodule is imported for the first time, in the order
  in which they finish: \<open>nn\<close> imports \<open>tensor\<close>, which imports \<open>dtypes\<close>; the others import no other
  module of the package at their top level. Python binds a module that has been loaded in the
  namespace of the package. The parameter \<open>ok\<close> says whether a module's body runs (it imports
  NumPy, for one).
\<close>

definition load_order :: "string \<Rightarrow> string list" where
  "load_order m = (if m = ''nn'' then [''dtypes'', ''tensor'', ''nn'']
     else if m = ''tensor'' then [''dtypes'', ''tensor''] else [m])"

definition load_one :: "(string \<Rightarrow> bool) \<Rightarrow> string \<Rightarrow> (package, unit) st" where
  "load_one ok m = (\<lambda>p.
     if m \<in> set (loaded p) then (Inr (), p)
     else if \<not> ok m then (raise ImportError (''cannot import '' @ m), p)
     else (Inr (), p\<lparr>globals := dict_set m (PModule m) (globals p), loaded := loaded p @ [m]\<rparr>))"

definition import_module :: "(string \<Rightarrow> bool) \<Rightarrow> string \<Rightarrow> (package, unit) st" where
  "import_module ok m = forS (load_one ok) (load_order m)"

definition set_global :: "string \<Rightarrow> pkg_val \<Rightarrow> (package, unit) st" where
  "set_global n v = (\<lambda>p. (Inr (), p\<lparr>globals := dict_set n v (globals p)\<rparr>))"

definition get_global :: "string \<Rightarrow> (package, pkg_val) st" where
  "get_global n = (\<lambda>p. (case dict_get (globals p) n of None \<Rightarrow> raise KeyError n | Some v \<Rightarrow> Inr v, p))"

definition ensure_initialized :: "(package, unit) st" where
  "ensure_initialized = (\<lambda>p.
     if has_C p then (Inr (), p)
     else (raise RuntimeError
       (''MetalNative requires macOS 14+ on Apple Silicon (M1/M2/M3/M4). ''
        @ ''Ensure you have Xcode Command Line Tools installed and run: pip install -e .''
        @ (case import_error p of None \<Rightarrow> [] | Some e \<Rightarrow> newline @ ''Import error: '' @ e)), p))"

section \<open>__getattr__\<close>

definition submodules :: "string list" where
  "submodules = [''nn'', ''optim'', ''interop'', ''dlpack_bridge'', ''accelerate_plugin'', ''dtypes'', ''config'', ''_version'']"

definition tensor_names :: "string list" where
  "tensor_names = [''Tensor'', ''zeros'', ''ones'', ''empty'', ''tensor'', ''randn'', ''from_numpy'', ''from_torch'', ''from_dlpack'']"

definition device_names :: "string list" where
  "device_names = [''device_name'', ''is_available'', ''device_properties'', ''supports_bfloat16'']"

definition util_names :: "string list" where
  "util_names = [''synchronize'', ''empty_cache'', ''memory_allocated'', ''max_memory_allocated'', ''reset_peak_stats'',
     ''set_seed'', ''manual_seed'']"

definition dtype_names :: "string list" where
  "dtype_names = [''float32'', ''float16'', ''bfloat16'', ''int64'', ''int32'', ''int16'', ''int8'', ''uint8'', ''bool_'']"

definition config_names :: "string list" where
  "config_names = [''MetalNativeConfig'', ''get_config'', ''set_config'']"

text \<open>\<open>from .m import a, b, ...\<close>, then \<open>globals().update\<close> with all of them.\<close>

definition load_names :: "(string \<Rightarrow> bool) \<Rightarrow> string \<Rightarrow> string list \<Rightarrow> string \<Rightarrow> (package, pkg_val) st" where
  "load_names ok m names name = bindS (import_module ok m) (\<lambda>_.
     bindS (forS (\<lambda>n. set_global n (PObject m n)) names) (\<lambda>_. get_global name))"

definition no_attribute :: "string \<Rightarrow> string" where
  "no_attribute name = ''module 'metal_native' has no attribute '' @ [CHR 0x27] @ name @ [CHR 0x27]"

definition getattr_names :: "(string \<Rightarrow> bool) \<Rightarrow> string \<Rightarrow> (package, pkg_val) st" where
  "getattr_names ok name =
     (if name \<in> set tensor_names then load_names ok ''tensor'' tensor_names name
      else if name \<in> set device_names then load_names ok ''device'' device_names name
      else if name \<in> set util_names then load_names ok ''utils'' util_names name
      else if name \<in> set dtype_names then load_names ok ''dtypes'' [name] name
      else if name \<in> set config_names then load_names ok ''config'' config_names name
      else raiseS AttributeError (no_attribute name))"

definition pkg_getattr_hook :: "(string \<Rightarrow> bool) \<Rightarrow> string \<Rightarrow> (package, pkg_val) st" where
  "pkg_getattr_hook ok name =
     (if name \<in> set submodules
      then bindS (import_module ok name) (\<lambda>_. bindS (set_global name (PModule name)) (\<lambda>_. returnS (PModule name)))
      else bindS ensure_initialized (\<lambda>_.
        catchS (\<lambda>e. exc_class e = ImportError) (getattr_names ok name)
          (\<lambda>_. raiseS AttributeError (no_attribute name))))"

text \<open>\<open>metal_native.name\<close>: Python calls \<open>__getattr__\<close> only for a name that is no global.\<close>

definition pkg_getattr :: "(string \<Rightarrow> bool) \<Rightarrow> string \<Rightarrow> (package, pkg_val) st" where
  "pkg_getattr ok name = (\<lambda>p. case dict_get (globals p) name of
     Some v \<Rightarrow> (Inr v, p)
   | None \<Rightarrow> pkg_getattr_hook ok name p)"

section \<open>The shader library\<close>

text \<open>
  The environment variable, the test for a regular file, the two ways to make a path absolute
  and the components of the package's directory are parameters.
\<close>

record paths =
  env_metallib :: "string option"
  is_file :: "string \<Rightarrow> bool"
  os_abspath :: "string \<Rightarrow> string"
  path_absolute :: "string \<Rightarrow> string"
  package_dir :: "string list"

definition path_text :: "string list \<Rightarrow> string" where
  "path_text cs = py_join ''/'' cs"

definition metallib_under :: "string list \<Rightarrow> string" where
  "metallib_under cs = path_text (cs @ [''shaders'', ''metal_native.metallib''])"

text \<open>The candidates inside the package and in the build directories of the repository.\<close>

definition packaged :: "paths \<Rightarrow> string list" where
  "packaged P = metallib_under (package_dir P)
     # map (\<lambda>b. metallib_under (butlast (butlast (package_dir P)) @ [b])) [''build'', ''build/Release'', ''build/Debug'']"

fun first_file :: "paths \<Rightarrow> string list \<Rightarrow> string option" where
  "first_file P [] = None"
| "first_file P (f # fs) = (if is_file P f then Some (path_absolute P f) else first_file P fs)"

definition find_metallib :: "paths \<Rightarrow> string option" where
  "find_metallib P = (case env_metallib P of
     Some p \<Rightarrow> if p \<noteq> [] \<and> is_file P p then Some (os_abspath P p) else first_file P (packaged P)
   | None \<Rightarrow> first_file P (packaged P))"

definition get_metallib_path :: "paths \<Rightarrow> string res" where
  "get_metallib_path P = (case find_metallib P of
     None \<Rightarrow> raise RuntimeError
       ''Cannot find metal_native.metallib. Try: pip install --force-reinstall metal-native''
   | Some p \<Rightarrow> Inr p)"

section \<open>Start and check of the installation\<close>

text \<open>What the two functions need of the extension, besides the device queries.\<close>

record 'g start_api =
  S_initialize :: "('g, unit) st option"
  S_load_library :: "(string \<Rightarrow> ('g, unit) st) option"

text \<open>\<open>_initialize\<close>: the GPU's state and what was printed to stderr.\<close>

definition initialize :: "'g start_api option \<Rightarrow> paths \<Rightarrow> ('g, unit) st" where
  "initialize C P = bindS (attr_call C S_initialize) (\<lambda>_.
     case find_metallib P of
       Some (c # cs) \<Rightarrow>
         attr_call C (\<lambda>m. case S_load_library m of None \<Rightarrow> None | Some f \<Rightarrow> Some (f (c # cs)))
     | _ \<Rightarrow> returnS ())"

definition pkg_initialize :: "'g start_api option \<Rightarrow> paths \<Rightarrow> ('g \<times> string list, unit) st" where
  "pkg_initialize C P = (\<lambda>(g, err).
     if C = None then (Inr (), (g, err))
     else case initialize C P g of
       (Inr _, g') \<Rightarrow> (Inr (), (g', err))
     | (Inl e, g') \<Rightarrow>
         if any_exception e
         then (Inr (), (g', err @ [''Warning: metal_native initialization failed: '' @ str_exc e]))
         else (Inl e, (g', err)))"

definition check_installation ::
  "string \<Rightarrow> 'g runtime_api option \<Rightarrow> string \<Rightarrow> ('g, bool \<times> string) st" where
  "check_installation version C err = (case C of
     None \<Rightarrow> returnS (False, ''C extension not loaded: '' @ err)
   | Some m \<Rightarrow> catchS any_exception
       (bindS (is_available (CMod m)) (\<lambda>av.
          if \<not> av then returnS (False, ''Metal is not available on this system'')
          else bindS (device_name (CMod m)) (\<lambda>name.
            returnS (True, ''metal_native '' @ version @ '' ready on '' @ name))))
       (\<lambda>e. returnS (False, ''Error checking Metal availability: '' @ str_exc e)))"

text \<open>
  \<open>print_device_info\<close> gives the lines printed to stdout and to stderr. The warning sign in front
  of the message is written as the six bytes of its UTF-8 form.
\<close>

definition warning_sign :: string where
  "warning_sign = [CHR 0xE2, CHR 0x9A, CHR 0xA0, CHR 0xEF, CHR 0xB8, CHR 0x8F]"

definition print_device_info ::
  "(pyval \<Rightarrow> string) \<Rightarrow> string \<Rightarrow> 'g runtime_api option \<Rightarrow> string \<Rightarrow> ('g, string list \<times> string list) st" where
  "print_device_info show_rest version C err = bindS (check_installation version C err) (\<lambda>(ok, msg).
     if \<not> ok then returnS ([], [warning_sign @ ''  '' @ msg])
     else catchS any_exception
       (bindS (get_device_info show_rest (case C of None \<Rightarrow> CNone | Some m \<Rightarrow> CMod m)) (\<lambda>info.
          returnS ([msg, info], [])))
       (\<lambda>e. returnS ([msg], [''Error getting device info: '' @ str_exc e])))"

end
