(* ===== verification/PackageProps.thy ===== *)
theory PackageProps
  imports Package
begin

text \<open>
  Properties of the package's lazy namespace (\<^verbatim>\<open>__getattr__\<close>) and of the search for the shader
  library.
\<close>

section \<open>Loading modules\<close>

lemma load_one_keeps:
  assumes "dict_get (globals p) n = Some v" "n \<noteq> m"
  shows "dict_get (globals (snd (load_one ok m p))) n = Some v"
  using assms by (simp add: load_one_def dict_get_set)

lemma load_one_ok: "ok m \<Longrightarrow> fst (load_one ok m p) = Inr ()"
  by (simp add: load_one_def)

lemma forS_ok: "(\<And>x s. x \<in> set xs \<Longrightarrow> fst (c x s) = Inr ()) \<Longrightarrow> fst (forS c xs s) = Inr ()"
proof (induction xs arbitrary: s)
  case (Cons x xs)
  then have "fst (c x s) = Inr ()" by simp
  with Cons show ?case by (cases "c x s") (simp add: bindS_def)
qed simp

lemma import_ok: "\<forall>m. ok m \<Longrightarrow> fst (import_module ok m p) = Inr ()"
  by (simp add: import_module_def forS_ok load_one_ok)

lemma load_one_has_C [simp]: "has_C (snd (load_one ok m p)) = has_C p"
  by (simp add: load_one_def)

lemma set_globals:
  "forS (\<lambda>n. set_global n (f n)) ns p = (Inr (), p\<lparr>globals := fold (\<lambda>n. dict_set n (f n)) ns (globals p)\<rparr>)"
  by (induction ns arbitrary: p) (simp_all add: set_global_def bindS_def)

lemma dict_get_fold_set:
  "dict_get (fold (\<lambda>n. dict_set n (f n)) ns d) k = (if k \<in> set ns then Some (f k) else dict_get d k)"
  by (induction ns arbitrary: d) (auto simp: dict_get_set)

text \<open>Names that a module provides are bound to the module's objects, and the one asked for is returned.\<close>

lemma load_names_result:
  assumes "\<forall>m. ok m" "name \<in> set names"
  shows "\<exists>q. load_names ok m names name p = (Inr (PObject m name), q)
    \<and> dict_get (globals q) name = Some (PObject m name)"
proof -
  obtain q where "import_module ok m p = (Inr (), q)"
    using import_ok [OF assms(1), of m p] by (cases "import_module ok m p") simp
  with assms(2) show ?thesis
    by (simp add: load_names_def bindS_def set_globals get_global_def dict_get_fold_set)
qed

section \<open>Resolution of names\<close>

text \<open>The module or object that a public name of the package stands for.\<close>

definition public_name :: "string \<Rightarrow> pkg_val option" where
  "public_name n =
     (if n \<in> set submodules then Some (PModule n)
      else if n \<in> set tensor_names then Some (PObject ''tensor'' n)
      else if n \<in> set device_names then Some (PObject ''device'' n)
      else if n \<in> set util_names then Some (PObject ''utils'' n)
      else if n \<in> set dtype_names then Some (PObject ''dtypes'' n)
      else if n \<in> set config_names then Some (PObject ''config'' n)
      else None)"

text \<open>
  C39. With the extension loaded and NumPy installed, a name that is not yet a global of the package
  gives the submodule or object it documents, and every later access gives the same value
  without running anything; a name the package does not document raises AttributeError.
  Without the extension the submodules still load, and every other name, documented or not,
  raises RuntimeError instead of AttributeError, so \<open>hasattr(metal_native, name)\<close> raises too.
\<close>

theorem package_names:
  assumes "\<forall>m. ok m" and "dict_get (globals p) name = None"
  shows "if name \<in> set submodules \<or> has_C p
    then (case public_name name of
        None \<Rightarrow> fails_with AttributeError (pkg_getattr ok name) p
      | Some v \<Rightarrow> \<exists>q. pkg_getattr ok name p = (Inr v, q) \<and> pkg_getattr ok name q = (Inr v, q))
    else fails_with RuntimeError (pkg_getattr ok name) p"
proof -
  have hook: "pkg_getattr ok name p = pkg_getattr_hook ok name p"
    by (simp add: pkg_getattr_def assms(2))
  show ?thesis
  proof (cases "name \<in> set submodules")
    case True
    obtain q where "import_module ok name p = (Inr (), q)"
      using import_ok [OF assms(1), of name p] by (cases "import_module ok name p") simp
    then have "pkg_getattr ok name p = (Inr (PModule name), q\<lparr>globals := dict_set name (PModule name) (globals q)\<rparr>)"
      by (simp add: hook pkg_getattr_hook_def True bindS_def set_global_def)
    with True show ?thesis by (simp add: public_name_def pkg_getattr_def dict_get_set)
  next
    case other: False
    show ?thesis
    proof (cases "has_C p")
      case False
      with other show ?thesis
        by (simp add: fails_with_def hook pkg_getattr_hook_def bindS_def ensure_initialized_def raise_def)
    next
      case True
      have h: "pkg_getattr ok name p = catchS (\<lambda>e. exc_class e = ImportError) (getattr_names ok name)
          (\<lambda>_. raiseS AttributeError (no_attribute name)) p"
        by (simp add: hook pkg_getattr_hook_def other bindS_def ensure_initialized_def True)
      have found: "\<exists>q. pkg_getattr ok name p = (Inr v, q) \<and> pkg_getattr ok name q = (Inr v, q)"
        if "getattr_names ok name p = (Inr v, q)" "dict_get (globals q) name = Some v" for v q
        using that by (simp add: h catchS_def) (simp add: pkg_getattr_def)
      show ?thesis
      proof (cases "public_name name")
        case None
        then have "getattr_names ok name = raiseS AttributeError (no_attribute name)"
          by (auto simp: public_name_def getattr_names_def split: if_splits)
        with True None show ?thesis by (simp add: fails_with_def h catchS_def raise_def)
      next
        case (Some v)
        then obtain m names where v: "v = PObject m name" and mem: "name \<in> set names"
          and get: "getattr_names ok name = load_names ok m names name"
          using other unfolding public_name_def getattr_names_def
          by (auto split: if_splits) (metis list.set_intros(1))
        from load_names_result [OF assms(1) mem, of m p] found [of v] True Some show ?thesis
          by (auto simp: v get)
      qed
    qed
  qed
qed


text \<open>A package with the extension whose documented names are all still unloaded.\<close>

definition fresh_package :: "bool \<Rightarrow> package" where
  "fresh_package C = \<lparr>has_C = C, import_error = None, globals = [], loaded = []\<rparr>"

theorem package_names_witness:
  "(\<exists>q. pkg_getattr (\<lambda>_. True) ''zeros'' (fresh_package True) = (Inr (PObject ''tensor'' ''zeros''), q)
      \<and> pkg_getattr (\<lambda>_. True) ''zeros'' q = (Inr (PObject ''tensor'' ''zeros''), q))
   \<and> fails_with AttributeError (pkg_getattr (\<lambda>_. True) ''profiling'') (fresh_package True)
   \<and> fails_with RuntimeError (pkg_getattr (\<lambda>_. True) ''zeros'') (fresh_package False)"
  using package_names [of "\<lambda>_. True" "fresh_package True" "''zeros''"]
    package_names [of "\<lambda>_. True" "fresh_package True" "''profiling''"]
    package_names [of "\<lambda>_. True" "fresh_package False" "''zeros''"]
  by (simp add: fresh_package_def dict_get_def public_name_def submodules_def tensor_names_def device_names_def
      util_names_def dtype_names_def config_names_def)

section \<open>The name tensor\<close>

definition load_effect :: "string \<Rightarrow> package \<Rightarrow> package" where
  "load_effect m p = (if m \<in> set (loaded p) then p
     else p\<lparr>globals := dict_set m (PModule m) (globals p), loaded := loaded p @ [m]\<rparr>)"

lemma load_effect_simps [simp]:
  "dict_get (globals (load_effect m p)) n
     = (if n = m \<and> m \<notin> set (loaded p) then Some (PModule m) else dict_get (globals p) n)"
  "set (loaded (load_effect m p)) = insert m (set (loaded p))"
  "has_C (load_effect m p) = has_C p"
  by (auto simp: load_effect_def dict_get_set)

lemma import_tensor:
  "\<forall>m. ok m \<Longrightarrow> import_module ok ''tensor'' p = (Inr (), load_effect ''tensor'' (load_effect ''dtypes'' p))"
  by (simp add: import_module_def load_order_def load_one_def load_effect_def bindS_def)

lemma import_nn:
  "\<forall>m. ok m \<Longrightarrow> import_module ok ''nn'' p = (Inr (), load_effect ''nn'' (load_effect ''tensor'' (load_effect ''dtypes'' p)))"
  by (simp add: import_module_def load_order_def load_one_def load_effect_def bindS_def)

lemma tensor_names_clear:
  "n \<in> set tensor_names \<Longrightarrow> n \<notin> set submodules \<and> n \<noteq> ''nn'' \<and> n \<noteq> ''dtypes''"
  by (auto simp: tensor_names_def submodules_def)

lemma tensor_name_itself: "''tensor'' \<in> set tensor_names"
  by (simp add: tensor_names_def)

text \<open>The state after a name of the tensor module, and after \<open>nn\<close>.\<close>

lemma get_tensor_name:
  assumes "\<forall>m. ok m" "n \<in> set tensor_names" "has_C p" "dict_get (globals p) n = None"
  shows "\<exists>q. pkg_getattr ok n p = (Inr (PObject ''tensor'' n), q) \<and> has_C q \<and> ''tensor'' \<in> set (loaded q)
    \<and> dict_get (globals q) ''tensor'' = Some (PObject ''tensor'' ''tensor'')
    \<and> dict_get (globals q) ''nn'' = dict_get (globals p) ''nn''"
  using assms tensor_names_clear [of n] tensor_names_clear [of "''nn''"] tensor_name_itself
  by (auto simp: pkg_getattr_def pkg_getattr_hook_def bindS_def ensure_initialized_def catchS_def getattr_names_def
      load_names_def import_tensor set_globals get_global_def dict_get_fold_set)

lemma get_nn:
  assumes "\<forall>m. ok m" "dict_get (globals p) ''nn'' = None"
  shows "\<exists>q. pkg_getattr ok ''nn'' p = (Inr (PModule ''nn''), q) \<and> has_C q = has_C p
    \<and> dict_get (globals q) ''tensor'' = (if ''tensor'' \<in> set (loaded p) then dict_get (globals p) ''tensor'' else Some (PModule ''tensor''))
    \<and> (\<forall>n \<in> set tensor_names - {''tensor''}. dict_get (globals q) n = dict_get (globals p) n)"
  using assms tensor_names_clear
  by (auto simp: pkg_getattr_def pkg_getattr_hook_def bindS_def submodules_def import_nn set_global_def dict_get_set)

text \<open>
  The package has a function and a submodule both called \<open>tensor\<close>, and which one
  \<open>metal_native.tensor\<close> is depends on what was used first: after a name that the tensor module
  provides it is the function, but if \<open>nn\<close> was used before any of those names Python has already bound
  the module under that name, so \<open>__getattr__\<close> is not asked and \<open>metal_native.tensor(...)\<close> calls a
  module.
\<close>

theorem tensor_name_shadowed:
  assumes "\<forall>m. ok m" and "n \<in> set tensor_names"
  shows "fst (bindS (pkg_getattr ok n) (\<lambda>_. bindS (pkg_getattr ok ''nn'') (\<lambda>_. pkg_getattr ok ''tensor'')) (fresh_package True))
      = Inr (PObject ''tensor'' ''tensor'')
    \<and> fst (bindS (pkg_getattr ok ''nn'') (\<lambda>_. bindS (pkg_getattr ok n) (\<lambda>_. pkg_getattr ok ''tensor'')) (fresh_package True))
      = Inr (if n = ''tensor'' then PModule ''tensor'' else PObject ''tensor'' ''tensor'')
    \<and> fst (bindS (pkg_getattr ok ''nn'') (\<lambda>_. pkg_getattr ok ''tensor'') (fresh_package True)) = Inr (PModule ''tensor'')"
proof -
  let ?p = "fresh_package True"
  have p: "has_C ?p" "loaded ?p = []" "dict_get (globals ?p) m = None" for m
    by (simp_all add: fresh_package_def dict_get_def)
  obtain q where q: "pkg_getattr ok n ?p = (Inr (PObject ''tensor'' n), q)" "has_C q" "''tensor'' \<in> set (loaded q)"
    "dict_get (globals q) ''tensor'' = Some (PObject ''tensor'' ''tensor'')" "dict_get (globals q) ''nn'' = None"
    using get_tensor_name [OF assms p(1,3)] p(3) by auto
  obtain r where r: "pkg_getattr ok ''nn'' q = (Inr (PModule ''nn''), r)"
    "dict_get (globals r) ''tensor'' = Some (PObject ''tensor'' ''tensor'')"
    using get_nn [OF assms(1) q(5)] q(3,4) by auto
  obtain s where s: "pkg_getattr ok ''nn'' ?p = (Inr (PModule ''nn''), s)" "has_C s"
    "dict_get (globals s) ''tensor'' = Some (PModule ''tensor'')"
    "\<forall>n \<in> set tensor_names - {''tensor''}. dict_get (globals s) n = None"
    using get_nn [OF assms(1) p(3)] p by auto
  have "fst (bindS (pkg_getattr ok n) (\<lambda>_. pkg_getattr ok ''tensor'') s)
      = Inr (if n = ''tensor'' then PModule ''tensor'' else PObject ''tensor'' ''tensor'')"
  proof (cases "n = ''tensor''")
    case True
    then show ?thesis using s(3) by (simp add: bindS_def pkg_getattr_def)
  next
    case False
    then obtain u where "pkg_getattr ok n s = (Inr (PObject ''tensor'' n), u)"
      "dict_get (globals u) ''tensor'' = Some (PObject ''tensor'' ''tensor'')"
      using get_tensor_name [OF assms s(2)] s(4) assms(2) by auto
    with False show ?thesis by (simp add: bindS_def) (simp add: pkg_getattr_def)
  qed
  moreover have "fst (pkg_getattr ok ''tensor'' r) = Inr (PObject ''tensor'' ''tensor'')"
    "fst (pkg_getattr ok ''tensor'' s) = Inr (PModule ''tensor'')"
    using r(2) s(3) by (simp_all add: pkg_getattr_def)
  ultimately show ?thesis
    by (simp add: bindS_Inr [where c = "pkg_getattr ok n", OF q(1)] bindS_Inr [where c = "pkg_getattr ok ''nn''", OF r(1)]
        bindS_Inr [where c = "pkg_getattr ok ''nn''", OF s(1)])
qed

theorem tensor_name_shadowed_witness:
  "fst (bindS (pkg_getattr (\<lambda>_. True) ''nn'') (\<lambda>_. pkg_getattr (\<lambda>_. True) ''tensor'') (fresh_package True)) = Inr (PModule ''tensor'')"
  using tensor_name_shadowed [of "\<lambda>_. True" "''zeros''"] by (simp add: tensor_names_def)

end
