(* ===== verification/Interop.thy ===== *)
theory Interop
  imports TensorLaws PyData
begin

text \<open>
  \<^verbatim>\<open>python/metal_native/interop.py\<close> and \<^verbatim>\<open>python/metal_native/dlpack_bridge.py\<close>: tensors to and
  from PyTorch, with the fallbacks when a way of sharing memory fails.
\<close>

section \<open>PyTorch and the extension's pointer functions\<close>

text \<open>
  The further calls on PyTorch tensors. A torch dtype is given by its text, \<open>torch.float32\<close>;
  \<open>pt_blit\<close> is the copy of a tensor into the memory behind a handle, through \<open>ctypes\<close> and
  \<open>np.frombuffer\<close> at a NumPy dtype.
\<close>

record ('p, 'c, 'h) torch_interop = "('p, 'c) torch_api" +
  pt_is_contiguous :: "'p \<Rightarrow> bool"
  pt_contiguous :: "'p \<Rightarrow> 'p"
  pt_dtype :: "'p \<Rightarrow> string"
  pt_data_ptr :: "'p \<Rightarrow> nat"
  pt_storage_nbytes :: "'p \<Rightarrow> int"
  pt_shape :: "'p \<Rightarrow> int list"
  pt_stride :: "'p \<Rightarrow> int list"
  pt_numpy :: "'p \<Rightarrow> ndarray res"
  pt_from_numpy :: "ndarray \<Rightarrow> 'p res"
  pt_set_requires_grad :: "'p \<Rightarrow> bool \<Rightarrow> 'p res"
  pt_blit :: "nat \<Rightarrow> string \<Rightarrow> 'p \<Rightarrow> 'h \<Rightarrow> 'h res"

record 'h pointer_api =
  X_from_mps_ptr :: "nat \<Rightarrow> int \<Rightarrow> int list \<Rightarrow> int list \<Rightarrow> string \<Rightarrow> 'h res"
  X_from_cpu_data :: "nat \<Rightarrow> int \<Rightarrow> int list \<Rightarrow> string \<Rightarrow> 'h res"
  X_allocate_for_copy :: "int list \<Rightarrow> string \<Rightarrow> (nat \<times> 'h) res"

text \<open>The loaded module has both groups of functions.\<close>

type_synonym ('h, 'c) full_api = "('h, 'c) native_api \<times> 'h pointer_api"

definition tensor_part :: "('h, 'c) full_api cmod \<Rightarrow> ('h, 'c) native_api cmod" where
  "tensor_part cm = map_cmod fst cm"

section \<open>interop.from_torch\<close>

definition torch_dtype_map :: "(string, string) dict" where
  "torch_dtype_map =
    [(''torch.float32'', ''float32''), (''torch.float16'', ''float16''), (''torch.bfloat16'', ''bfloat16''),
     (''torch.int64'', ''int64''), (''torch.int32'', ''int32''), (''torch.int16'', ''int16''), (''torch.int8'', ''int8''),
     (''torch.uint8'', ''uint8''), (''torch.bool'', ''bool'')]"

definition torch_numpy_map :: "(string, string) dict" where
  "torch_numpy_map =
    [(''torch.float32'', ''float32''), (''torch.float16'', ''float16''), (''torch.bfloat16'', ''float32''),
     (''torch.int64'', ''int64''), (''torch.int32'', ''int32''), (''torch.int16'', ''int16''), (''torch.int8'', ''int8''),
     (''torch.uint8'', ''uint8''), (''torch.bool'', ''bool'')]"

text \<open>\<open>s.replace(pat, '')\<close>.\<close>

function py_remove :: "string \<Rightarrow> string \<Rightarrow> string" where
  "py_remove pat s =
     (if s = [] then []
      else if pat \<noteq> [] \<and> py_startswith s pat then py_remove pat (drop (length pat) s)
      else hd s # py_remove pat (tl s))"
  by pat_completeness auto

termination
  by (relation "measure (length \<circ> snd)") auto

declare py_remove.simps [simp del]

definition torch_dtype_str :: "string \<Rightarrow> string" where
  "torch_dtype_str d = (case dict_get torch_dtype_map d of Some s \<Rightarrow> s | None \<Rightarrow> py_remove ''torch.'' d)"

definition from_mps ::
  "('p, 'c, 'h) torch_interop \<Rightarrow> ('h, 'c) full_api option \<Rightarrow> 'p \<Rightarrow> bool \<Rightarrow> 'h tensor res" where
  "from_mps T C p rg =
     (let p1 = if pt_is_contiguous T p then p else pt_contiguous T p;
          ds = torch_dtype_str (pt_dtype T p1);
          wrap_handle = \<lambda>h. Inr (from_handle h rg)
      in catchR any_exception
           (bindR (C_attr C (\<lambda>(N, X).
              X_from_mps_ptr X (pt_data_ptr T p1) (pt_storage_nbytes T p1) (pt_shape T p1) (pt_stride T p1) ds))
              wrap_handle)
           (\<lambda>_. case dict_get torch_numpy_map (pt_dtype T p1) of
              Some nd \<Rightarrow>
                if pt_dtype T p1 \<noteq> ''torch.bfloat16''
                then bindR (C_attr C (\<lambda>(N, X). X_allocate_for_copy X (pt_shape T p1) ds)) (\<lambda>(ptr, h).
                     bindR (pt_blit T ptr nd p1 h) wrap_handle)
                else let p2 = pt_contiguous T (pt_cpu T p1) in
                  bindR (C_attr C (\<lambda>(N, X). X_from_cpu_data X (pt_data_ptr T p2) (pt_storage_nbytes T p2) (pt_shape T p2) ds))
                    wrap_handle
            | None \<Rightarrow> let p2 = pt_contiguous T (pt_cpu T p1) in
                bindR (C_attr C (\<lambda>(N, X). X_from_cpu_data X (pt_data_ptr T p2) (pt_storage_nbytes T p2) (pt_shape T p2) ds))
                  wrap_handle))"

definition from_cpu ::
  "'d numpy_api \<Rightarrow> ('p, 'c, 'h) torch_interop \<Rightarrow> ('h, 'c) full_api cmod \<Rightarrow> ('h, 'c) full_api option \<Rightarrow> 'p \<Rightarrow> bool
   \<Rightarrow> 'h tensor res" where
  "from_cpu np T cm C p rg =
     (let copy = \<lambda>q. bindR (pt_numpy T q) (\<lambda>a. Tensor_init np (tensor_part cm) (Some (FromArray a)) None None rg None)
      in if pt_is_contiguous T p
         then catchR any_exception
           (bindR (pt_to_dlpack T p) (\<lambda>capsule.
            bindR (C_attr C (\<lambda>(N, X). C_tensor_from_dlpack N capsule rg)) (\<lambda>h. Inr (from_handle h rg))))
           (\<lambda>_. copy p)
         else copy p)"

definition interop_from_torch ::
  "'d numpy_api \<Rightarrow> ('p, 'c, 'h) torch_interop \<Rightarrow> ('h, 'c) full_api cmod \<Rightarrow> 'p \<Rightarrow> bool option \<Rightarrow> 'h tensor res" where
  "interop_from_torch np T cm p rg =
     (if \<not> torch_installed T
      then raise ImportError ''PyTorch is required for from_torch(). Install it with: pip install torch''
      else bindR (import_C cm) (\<lambda>C.
        let rg' = (case rg of None \<Rightarrow> pt_requires_grad T p | Some b \<Rightarrow> b) in
        if pt_device_type T p = ''mps'' then from_mps T C p rg'
        else from_cpu np T cm C (if pt_device_type T p \<noteq> ''cpu'' then pt_cpu T p else p) rg'))"

section \<open>interop.to_torch\<close>

text \<open>An argument: a tensor of the package, or another object with the name of its type.\<close>

datatype 'h mn_arg = MnTensor "'h tensor" | OtherObject string

definition keep_grad :: "('p, 'c, 'h) torch_interop \<Rightarrow> bool \<Rightarrow> 'p \<Rightarrow> 'p res" where
  "keep_grad T rg p = (if rg then pt_set_requires_grad T p True else Inr p)"

definition interop_to_torch ::
  "('p, 'c, 'h) torch_interop \<Rightarrow> ('h, 'c) native_api \<Rightarrow> 'h mn_arg \<Rightarrow> 'p res" where
  "interop_to_torch T N arg =
     (if \<not> torch_installed T
      then raise ImportError ''PyTorch is required for to_torch(). Install it with: pip install torch''
      else case arg of
        OtherObject ty \<Rightarrow> raise TypeError (''Expected MetalNative Tensor, got '' @ ty)
      | MnTensor t \<Rightarrow> catchR any_exception
          (bindR (Tensor_dlpack N t) (\<lambda>capsule. bindR (pt_from_dlpack T capsule) (keep_grad T (requires_grad t))))
          (\<lambda>_. bindR (Tensor_numpy N t) (\<lambda>a. bindR (pt_from_numpy T a) (keep_grad T (requires_grad t)))))"

section \<open>dlpack_bridge\<close>

definition to_dlpack :: "('h, 'c) native_api cmod \<Rightarrow> 'h mn_arg \<Rightarrow> 'c res" where
  "to_dlpack cm arg = (case arg of
     OtherObject ty \<Rightarrow> raise TypeError (''Expected MetalNative Tensor, got '' @ ty)
   | MnTensor t \<Rightarrow> catchR any_exception
       (bindR (import_C cm) (\<lambda>C. C_attr C (\<lambda>N. C_tensor_to_dlpack N (handle t))))
       (\<lambda>e. raise RuntimeError (''Failed to export tensor to DLPack: '' @ str_exc e)))"

definition bridge_from_dlpack :: "('h, 'c) native_api cmod \<Rightarrow> 'c \<Rightarrow> 'h tensor res" where
  "bridge_from_dlpack cm capsule = catchR any_exception
     (bindR (import_C cm) (\<lambda>C. bindR (C_attr C (\<lambda>N. C_tensor_from_dlpack N capsule False)) (\<lambda>h.
        Inr (from_handle h False))))
     (\<lambda>e. raise RuntimeError (''Failed to import tensor from DLPack: '' @ str_exc e))"

definition get_dlpack_device :: "'h mn_arg \<Rightarrow> (int \<times> int) res" where
  "get_dlpack_device arg = (case arg of
     OtherObject ty \<Rightarrow> raise TypeError (''Expected MetalNative Tensor, got '' @ ty)
   | MnTensor t \<Rightarrow> Inr (Tensor_dlpack_device t))"

end
