(* ===== verification/Accelerate.thy ===== *)
theory Accelerate
  imports Interop Runtime
begin

text \<open>
  \<^verbatim>\<open>python/metal_native/accelerate_plugin.py\<close>: the backend object for HuggingFace Accelerate.
\<close>

section \<open>Availability, synchronisation and memory\<close>

definition acc_is_available :: "'g runtime_api cmod \<Rightarrow> ('g, bool) st" where
  "acc_is_available cm = catchS import_or_attribute (native_call cm R_is_available) (\<lambda>_. returnS False)"

text \<open>The object has no attributes of its own.\<close>

definition Accelerator_init :: "'g runtime_api cmod \<Rightarrow> ('g, unit) st" where
  "Accelerator_init cm = bindS (acc_is_available cm) (\<lambda>av.
     if \<not> av then raiseS RuntimeError
       (''MetalNative is not available. '' @ ''Ensure metal_native is installed and Metal is supported.'')
     else returnS ())"

definition Accelerator_device :: string where
  "Accelerator_device = ''metal_native''"

definition acc_synchronize :: "'g runtime_api cmod \<Rightarrow> ('g, unit) st" where
  "acc_synchronize cm = catchS import_or_attribute (native_call cm R_synchronize) (\<lambda>_. returnS ())"

definition acc_empty_cache :: "'g runtime_api cmod \<Rightarrow> ('g, unit) st" where
  "acc_empty_cache cm = catchS import_or_attribute (native_call cm R_empty_cache) (\<lambda>_. returnS ())"

record memory_info =
  mi_allocated :: int
  mi_reserved :: int
  mi_peak :: int

definition acc_get_memory_info :: "'g runtime_api cmod \<Rightarrow> ('g, memory_info) st" where
  "acc_get_memory_info cm = catchS import_or_attribute
     (bindS (liftS (import_C cm)) (\<lambda>C.
      bindS (attr_call C R_memory_allocated) (\<lambda>a.
      bindS (attr_call C R_memory_allocated) (\<lambda>r.
      bindS (attr_call C R_max_memory_allocated) (\<lambda>p.
      returnS \<lparr>mi_allocated = a, mi_reserved = r, mi_peak = p\<rparr>)))))
     (\<lambda>_. returnS \<lparr>mi_allocated = 0, mi_reserved = 0, mi_peak = 0\<rparr>)"

section \<open>Preparing a model\<close>

text \<open>
  A PyTorch model: the data of its parameters and its buffers, by name. A name of a parameter or
  buffer of a submodule contains a dot. \<open>named_parameters\<close> and \<open>named_buffers\<close> give no \<open>None\<close>.
  \<open>register_buffer\<close> is PyTorch's.
\<close>

record 'p model =
  m_params :: "(string, 'p) dict"
  m_buffers :: "(string, 'p) dict"

type_synonym 'p register = "string \<Rightarrow> 'p \<Rightarrow> ('p model, unit) st"

definition set_param :: "string \<Rightarrow> 'p \<Rightarrow> ('p model, unit) st" where
  "set_param n p = (\<lambda>m. (Inr (), m\<lparr>m_params := dict_set n p (m_params m)\<rparr>))"

definition prepare_param :: "('p \<Rightarrow> 'p res) \<Rightarrow> string \<times> 'p \<Rightarrow> ('p model, unit) st" where
  "prepare_param conv np = bindS (liftS (conv (snd np))) (set_param (fst np))"

definition prepare_buffer :: "'p register \<Rightarrow> ('p \<Rightarrow> 'p res) \<Rightarrow> string \<times> 'p \<Rightarrow> ('p model, unit) st" where
  "prepare_buffer register conv nb = bindS (liftS (conv (snd nb))) (register (fst nb))"

text \<open>\<open>to_torch(from_torch(p))\<close>.\<close>

definition through_metal ::
  "'d numpy_api \<Rightarrow> ('p, 'c, 'h) torch_interop \<Rightarrow> ('h, 'c) full_api \<Rightarrow> 'p \<Rightarrow> 'p res" where
  "through_metal np T NX p =
     bindR (interop_from_torch np T (CMod NX) p None) (\<lambda>t. interop_to_torch T (fst NX) (MnTensor t))"

definition prepare_model ::
  "'d numpy_api \<Rightarrow> ('p, 'c, 'h) torch_interop \<Rightarrow> 'p register \<Rightarrow> ('h, 'c) full_api \<Rightarrow> ('p model, unit) st" where
  "prepare_model np T register NX = (\<lambda>m0.
     if \<not> torch_installed T then (raise ImportError ''PyTorch is required for model preparation'', m0)
     else bindS (forS (prepare_param (through_metal np T NX)) (m_params m0)) (\<lambda>_.
       forS (prepare_buffer register (through_metal np T NX)) (m_buffers m0)) m0)"

definition prepare_optimizer :: "'o \<Rightarrow> 'o" where
  "prepare_optimizer opt = opt"

text \<open>
  The registration at import time, from what the two imports of Accelerate give: a placeholder, which does
  nothing with them.
\<close>

definition register_backend :: "unit res \<Rightarrow> unit res \<Rightarrow> unit res" where
  "register_backend accelerate state = catchR (\<lambda>e. exc_class e = ImportError)
     (bindR accelerate (\<lambda>_. bindR state (\<lambda>_. Inr ()))) (\<lambda>_. Inr ())"

end
