(* ===== verification/InteropProps.thy ===== *)
theory InteropProps
  imports TensorProps Accelerate
begin

text \<open>
  Properties of \<^verbatim>\<open>interop.py\<close> and \<^verbatim>\<open>accelerate_plugin.py\<close> on the shipped core: with its DLPack stubs
  every exchange of a CPU tensor goes through a NumPy copy. What is relied on of PyTorch is the
  locale \<open>torch_laws\<close>.
\<close>

section \<open>PyTorch as the bridge uses it\<close>

text \<open>
  Documented behaviour: exporting raises ordinary exceptions only; \<open>torch.from_numpy\<close> of a
  C-contiguous array of a type both sides know gives a tensor with that array and without
  gradients; \<open>requires_grad_\<close> works on floating-point tensors and keeps the data, and only such
  tensors require gradients.
\<close>

definition float_types :: "string set" where
  "float_types = {''float16'', ''float32'', ''float64''}"

locale torch_laws =
  fixes T :: "('p, 'c, 'h) torch_interop"
  assumes export_error: "pt_to_dlpack T p = Inl e \<Longrightarrow> any_exception e"
    and from_array: "nd_wf a \<Longrightarrow> nd_c_contiguous a \<Longrightarrow> dict_has NUMPY_TO_DTYPE_MAP (nd_dtype a) \<Longrightarrow>
      \<exists>q. pt_from_numpy T a = Inr q \<and> pt_numpy T q = Inr a \<and> \<not> pt_requires_grad T q"
    and set_grad: "pt_numpy T q = Inr a \<Longrightarrow> nd_dtype a \<in> float_types \<Longrightarrow>
      \<exists>r. pt_set_requires_grad T q True = Inr r \<and> pt_numpy T r = Inr a \<and> pt_requires_grad T r"
    and grad_float: "pt_requires_grad T q \<Longrightarrow> pt_numpy T q = Inr a \<Longrightarrow> nd_dtype a \<in> float_types"
begin

lemma grad_kept:
  assumes "pt_numpy T q = Inr a" "\<not> pt_requires_grad T q" "rg \<Longrightarrow> nd_dtype a \<in> float_types"
  shows "\<exists>r. keep_grad T rg q = Inr r \<and> pt_numpy T r = Inr a \<and> pt_requires_grad T r = rg"
  using assms set_grad [of q a] by (cases rg) (simp_all add: keep_grad_def)

end

text \<open>A reference PyTorch on the CPU: a tensor is an array with a flag.\<close>

record ptensor =
  p_array :: ndarray
  p_grad :: bool

definition torch_ref :: "(ptensor, capsule, mntensor) torch_interop" where
  "torch_ref = \<lparr>torch_installed = True,
     pt_requires_grad = (\<lambda>p. p_grad p \<and> nd_dtype (p_array p) \<in> float_types),
     pt_device_type = (\<lambda>_. ''cpu''), pt_cpu = (\<lambda>p. p), pt_to_dlpack = (\<lambda>_. Inr (Capsule 0)),
     pt_from_dlpack = (\<lambda>_. raise RuntimeError ''not a capsule''),
     pt_is_contiguous = (\<lambda>p. nd_c_contiguous (p_array p)), pt_contiguous = (\<lambda>p. p),
     pt_dtype = (\<lambda>p. ''torch.'' @ nd_dtype (p_array p)), pt_data_ptr = (\<lambda>_. 0),
     pt_storage_nbytes = (\<lambda>p. int (4 * length (nd_mem (p_array p)))), pt_shape = (\<lambda>p. nd_shape (p_array p)),
     pt_stride = (\<lambda>p. nd_strides (p_array p)), pt_numpy = (\<lambda>p. Inr (p_array p)),
     pt_from_numpy = (\<lambda>a. Inr \<lparr>p_array = a, p_grad = False\<rparr>),
     pt_set_requires_grad = (\<lambda>p b. if b \<and> nd_dtype (p_array p) \<notin> float_types
        then raise RuntimeError ''only Tensors of floating point dtype can require gradients''
        else Inr (p\<lparr>p_grad := b\<rparr>)),
     pt_blit = (\<lambda>_ _ _ h. Inr h)\<rparr>"

interpretation torch_reference: torch_laws torch_ref
  by unfold_locales (auto simp: torch_ref_def raise_def any_exception_def)

section \<open>There and back\<close>

lemma interop_copy:
  assumes T: "torch_laws T" "torch_installed T" and p: "pt_device_type T p = ''cpu''" "pt_numpy T p = Inr a"
    and a: "nd_wf a" "holdable dev m (nd_shape a)" and m: "nd_dtype a = dtype_name m" "m \<noteq> BFloat16"
  shows "\<exists>d. interop_from_torch np T (CMod (cpp_api dev k, X)) p rg
    = Inr (made_tensor d (case rg of None \<Rightarrow> pt_requires_grad T p | Some b \<Rightarrow> b) (array_handle m a))"
proof -
  let ?rg = "case rg of None \<Rightarrow> pt_requires_grad T p | Some b \<Rightarrow> b"
  obtain d where d: "from_numpy np (CMod (cpp_api dev k)) a ?rg = Inr (made_tensor d ?rg (array_handle m a))"
    using from_numpy_core [OF a m] by blast
  have "from_cpu np T (CMod (cpp_api dev k, X)) (Some (cpp_api dev k, X)) p ?rg = Inr (made_tensor d ?rg (array_handle m a))"
  proof (cases "pt_is_contiguous T p")
    case True
    have "any_exception e" if "pt_to_dlpack T p = Inl e" for e
      using torch_laws.export_error [OF T(1) that] .
    with True d p(2) show ?thesis
      by (cases "pt_to_dlpack T p")
        (simp_all add: from_cpu_def tensor_part_def from_numpy_def Let_def catchR_def raise_def any_exception_def)
  qed (use d p(2) in \<open>simp add: from_cpu_def tensor_part_def from_numpy_def Let_def\<close>)
  with T(2) p(1) show ?thesis by (intro exI [of _ d]) (simp add: interop_from_torch_def Let_def)
qed

lemma interop_back:
  assumes T: "torch_laws T" "torch_installed T"
    and a: "nd_wf a" "fits (nd_shape a)" "nd_dtype a = dtype_name m" "m \<noteq> BFloat16"
    and rg: "rg \<Longrightarrow> nd_dtype a \<in> float_types"
  shows "\<exists>q. interop_to_torch T (cpp_api dev k) (MnTensor (made_tensor d rg (array_handle m a))) = Inr q
    \<and> pt_numpy T q = Inr (memory_order a) \<and> pt_requires_grad T q = rg"
proof -
  let ?t = "made_tensor d rg (array_handle m a)" and ?b = "memory_order a"
  have b: "nd_wf ?b" "nd_c_contiguous ?b" "dict_has NUMPY_TO_DTYPE_MAP (nd_dtype ?b)"
    using a memory_order_wf [OF a(1)] nd_compact_contiguous [of ?b]
    by simp_all (cases m, simp_all add: dict_has_def NUMPY_TO_DTYPE_MAP_def)
  have "Tensor_numpy (cpp_api dev k) ?t = Inr ?b"
    using array_handle_reads [OF a] by (simp add: Tensor_numpy_def)
  moreover obtain q where q: "pt_from_numpy T ?b = Inr q" "pt_numpy T q = Inr ?b" "\<not> pt_requires_grad T q"
    using torch_laws.from_array [OF T(1) b] by blast
  moreover obtain r where "keep_grad T rg q = Inr r" "pt_numpy T r = Inr ?b" "pt_requires_grad T r = rg"
    using torch_laws.grad_kept [OF T(1) q(2,3), of rg] rg by auto
  ultimately show ?thesis using T(2)
    by (simp add: interop_to_torch_def Tensor_dlpack_def catchR_def raise_def any_exception_def)
qed

lemma known_type:
  assumes "dict_has NUMPY_TO_DTYPE_MAP n"
  shows "\<exists>m. n = dtype_name m \<and> m \<noteq> BFloat16"
proof -
  from assms have "n \<in> dtype_name ` {Float32, Float16, Int64, Int32, Int16, Int8, UInt8, mndtype.BoolT}"
    by (auto simp: dict_has_def NUMPY_TO_DTYPE_MAP_def)
  then obtain m where "m \<in> {Float32, Float16, Int64, Int32, Int16, Int8, UInt8, mndtype.BoolT}" "n = dtype_name m" by blast
  then show ?thesis by (intro exI [of _ m]) auto
qed

text \<open>
  C19. A PyTorch CPU tensor that has elements, of a type that both NumPy and the package have
  (not bfloat16), for which the device has room, crosses to the package and back with its
  shape, type and gradient flag, by copying: \<open>from_torch\<close> takes as many elements as the tensor
  has from the memory behind its NumPy view, in memory order, whatever the strides, and
  \<open>to_torch\<close> gives these. So the values come back if the view is C-contiguous; under any other
  layout there are contents that come back with their elements in the wrong places.
\<close>

theorem interop_roundtrip:
  assumes "torch_laws T" and "torch_installed T" and "pt_device_type T p = ''cpu''"
    and "pt_numpy T p = Inr a" and "nd_wf a" and "nd_dtype a = dtype_name m" and "m \<noteq> BFloat16"
    and "holdable dev m (nd_shape a)"
  shows "\<exists>t q c. interop_from_torch np T (CMod (cpp_api dev k, X)) p None = Inr t
    \<and> shape_of (cpp_api dev k) t = nd_shape a \<and> mt_data (handle t) = take (length (nd_elems a)) (nd_mem a)
    \<and> interop_to_torch T (cpp_api dev k) (MnTensor t) = Inr q
    \<and> requires_grad t = pt_requires_grad T p \<and> pt_requires_grad T q = pt_requires_grad T p
    \<and> pt_numpy T q = Inr c \<and> nd_shape c = nd_shape a \<and> nd_dtype c = nd_dtype a
    \<and> nd_elems c = take (length (nd_elems a)) (nd_mem a)
    \<and> (nd_c_contiguous a \<longrightarrow> nd_elems c = nd_elems a)
    \<and> (\<not> nd_c_contiguous a \<longrightarrow> (\<exists>b. nd_wf b \<and> same_layout a b \<and> take (length (nd_elems b)) (nd_mem b) \<noteq> nd_elems b))"
proof -
  have fit: "fits (nd_shape a)" by (rule holdable_fits [OF assms(5,8)])
  obtain d where d: "interop_from_torch np T (CMod (cpp_api dev k, X)) p None
      = Inr (made_tensor d (pt_requires_grad T p) (array_handle m a))"
    using interop_copy [OF assms(1-5,8,6,7), of np k X None] by auto
  obtain q where "interop_to_torch T (cpp_api dev k) (MnTensor (made_tensor d (pt_requires_grad T p) (array_handle m a))) = Inr q"
    "pt_numpy T q = Inr (memory_order a)" "pt_requires_grad T q = pt_requires_grad T p"
    using interop_back [OF assms(1,2,5) fit assms(6,7), of "pt_requires_grad T p"]
      torch_laws.grad_float [OF assms(1) _ assms(4)] by blast
  with d nd_wf_mem [OF assms(5)] contiguous_iff_memory_order [OF assms(5)] show ?thesis
    by (auto simp: shape_of_def made_tensor_def array_handle_def)
qed

text \<open>Pointer functions that always raise; a CPU tensor does not need them.\<close>

definition no_pointers :: "mntensor pointer_api" where
  "no_pointers = \<lparr>X_from_mps_ptr = (\<lambda>_ _ _ _ _. raise RuntimeError ''no pointer''),
     X_from_cpu_data = (\<lambda>_ _ _ _. raise RuntimeError ''no pointer''), X_allocate_for_copy = (\<lambda>_ _. raise RuntimeError ''no pointer'')\<rparr>"

theorem interop_roundtrip_witness:
  "\<exists>t q. interop_from_torch (np_ref (\<lambda>_ x. x)) torch_ref (CMod (cpp_api plain_device plain_kernels, no_pointers))
        \<lparr>p_array = sample_array, p_grad = True\<rparr> None = Inr t
     \<and> interop_to_torch torch_ref (cpp_api plain_device plain_kernels) (MnTensor t) = Inr q
     \<and> (\<exists>c. pt_numpy torch_ref q = Inr c \<and> nd_elems c = [1, 2, 3, 4, 5, 6]) \<and> pt_requires_grad torch_ref q"
proof -
  have p: "torch_installed torch_ref" "pt_device_type torch_ref \<lparr>p_array = sample_array, p_grad = True\<rparr> = ''cpu''"
    "pt_numpy torch_ref \<lparr>p_array = sample_array, p_grad = True\<rparr> = Inr sample_array"
    "pt_requires_grad torch_ref \<lparr>p_array = sample_array, p_grad = True\<rparr>"
    by (simp_all add: torch_ref_def float_types_def) (simp add: sample_array_def)
  have n: "nd_dtype sample_array = dtype_name Float32" "nd_elems sample_array = [1, 2, 3, 4, 5, 6]"
    "holdable plain_device Float32 (nd_shape sample_array)"
    using sample_holdable by (simp_all add: sample_array_def)
  show ?thesis
    using interop_roundtrip [OF torch_reference.torch_laws_axioms p(1-3) sample_array_ok(1) n(1) _ n(3),
        of "np_ref (\<lambda>_ x. x)" plain_kernels no_pointers] sample_array_ok(3) p(4) n(2) by auto
qed


section \<open>Preparing a model for Accelerate\<close>

text \<open>
  \<open>register_buffer\<close> of PyTorch on a name of a buffer: a name with a dot raises KeyError, another
  one stores the buffer under the name.
\<close>

definition dotted :: "string \<Rightarrow> bool" where
  "dotted n \<longleftrightarrow> CHR ''.'' \<in> set n"

locale register_laws =
  fixes register :: "'p register"
  assumes plain: "\<not> dotted n \<Longrightarrow> register n b m = (Inr (), m\<lparr>m_buffers := dict_set n b (m_buffers m)\<rparr>)"
    and dotted_error: "dotted n \<Longrightarrow> fails_with KeyError (register n b) m"

definition register_ref :: "'p register" where
  "register_ref n b = (if dotted n then raiseS KeyError ''buffer name can't contain '.' ''
     else (\<lambda>m. (Inr (), m\<lparr>m_buffers := dict_set n b (m_buffers m)\<rparr>)))"

interpretation register_reference: register_laws register_ref
  by unfold_locales (simp_all add: register_ref_def)

lemma dict_set_middle:
  "dict_wf (xs @ (k, w) # ys) \<Longrightarrow> dict_set k v (xs @ (k, w) # ys) = xs @ (k, v) # ys"
  by (induction xs) (auto simp: dict_wf_def)

text \<open>One pass over the parameters replaces every one by its conversion.\<close>

lemma prepare_params:
  assumes "\<And>n p. (n, p) \<in> set ps \<Longrightarrow> conv p = Inr (g p)" "m_params m = xs @ ps" "dict_wf (xs @ ps)"
  shows "forS (prepare_param conv) ps m = (Inr (), m\<lparr>m_params := xs @ map (apsnd g) ps\<rparr>)"
  using assms
proof (induction ps arbitrary: xs m)
  case (Cons np ps)
  obtain n p where np: "np = (n, p)" by (cases np)
  let ?m = "m\<lparr>m_params := xs @ (n, g p) # ps\<rparr>"
  have "prepare_param conv np m = (Inr (), ?m)"
    using Cons.prems(1) [of n p] dict_set_middle [of xs n p ps "g p"] Cons.prems(2,3)
    by (simp add: np prepare_param_def set_param_def bindS_def)
  moreover have "forS (prepare_param conv) ps ?m = (Inr (), ?m\<lparr>m_params := (xs @ [(n, g p)]) @ map (apsnd g) ps\<rparr>)"
    by (rule Cons.IH) (use Cons.prems in \<open>auto simp: np dict_wf_def\<close>)
  ultimately show ?case by (simp add: bindS_def np)
qed (simp add: dict_wf_def)

lemma prepare_buffers:
  assumes reg: "register_laws register"
    and "\<And>n p. (n, p) \<in> set ps \<Longrightarrow> conv p = Inr (g p)" "m_buffers m = xs @ ps" "dict_wf (xs @ ps)"
  shows "if \<exists>n \<in> set (map fst ps). dotted n then raises KeyError (fst (forS (prepare_buffer register conv) ps m))
    else forS (prepare_buffer register conv) ps m = (Inr (), m\<lparr>m_buffers := xs @ map (apsnd g) ps\<rparr>)"
  using assms(2-)
proof (induction ps arbitrary: xs m)
  case (Cons np ps)
  obtain n p where np: "np = (n, p)" by (cases np)
  have c: "conv p = Inr (g p)" using Cons.prems(1) [of n p] by (simp add: np)
  show ?case
  proof (cases "dotted n")
    case True
    from register_laws.dotted_error [OF reg this, of "g p" m] show ?thesis
      by (cases "register n (g p) m") (auto simp: np prepare_buffer_def bindS_def c True fails_with_def raises_def split: sum.splits)
  next
    case False
    let ?m = "m\<lparr>m_buffers := xs @ (n, g p) # ps\<rparr>"
    have "prepare_buffer register conv np m = (Inr (), ?m)"
      using register_laws.plain [OF reg False, of "g p" m] dict_set_middle [of xs n p ps "g p"] Cons.prems(2,3) c
      by (simp add: np prepare_buffer_def bindS_def)
    then have step: "forS (prepare_buffer register conv) (np # ps) m = forS (prepare_buffer register conv) ps ?m"
      by (simp add: bindS_def)
    have "if \<exists>n \<in> set (map fst ps). dotted n then raises KeyError (fst (forS (prepare_buffer register conv) ps ?m))
      else forS (prepare_buffer register conv) ps ?m = (Inr (), ?m\<lparr>m_buffers := (xs @ [(n, g p)]) @ map (apsnd g) ps\<rparr>)"
      by (rule Cons.IH) (use Cons.prems in \<open>auto simp: np dict_wf_def\<close>)
    with step False show ?thesis by (simp add: np split: if_splits)
  qed
qed (simp add: dict_wf_def)


text \<open>
  A CPU tensor that has elements, of a type that NumPy and the package both have, whose memory is
  C-contiguous and for which the device has room; and the tensor that stands for it.
\<close>

definition copyable :: "('p, 'c, 'h) torch_interop \<Rightarrow> device \<Rightarrow> 'p \<Rightarrow> bool" where
  "copyable T dev p \<longleftrightarrow> pt_device_type T p = ''cpu'' \<and> (\<exists>a m. pt_numpy T p = Inr a \<and> nd_wf a \<and> nd_c_contiguous a
     \<and> nd_dtype a = dtype_name m \<and> m \<noteq> BFloat16 \<and> holdable dev m (nd_shape a))"

definition same_tensor :: "('p, 'c, 'h) torch_interop \<Rightarrow> string \<times> 'p \<Rightarrow> string \<times> 'p \<Rightarrow> bool" where
  "same_tensor T x y \<longleftrightarrow> fst y = fst x
     \<and> (\<exists>a c. pt_numpy T (snd x) = Inr a \<and> pt_numpy T (snd y) = Inr c
         \<and> nd_shape c = nd_shape a \<and> nd_dtype c = nd_dtype a \<and> nd_elems c = nd_elems a)
     \<and> pt_requires_grad T (snd y) = pt_requires_grad T (snd x)"

lemma through_metal_same:
  assumes T: "torch_laws T" "torch_installed T" and p: "copyable T dev p"
  shows "\<exists>q. through_metal np T (cpp_api dev k, X) p = Inr q \<and> same_tensor T (n, p) (n, q)"
proof -
  obtain a m where a: "pt_device_type T p = ''cpu''" "pt_numpy T p = Inr a" "nd_wf a" "nd_c_contiguous a"
    and m: "nd_dtype a = dtype_name m" "m \<noteq> BFloat16" and h: "holdable dev m (nd_shape a)"
    using p by (auto simp: copyable_def)
  obtain d where "interop_from_torch np T (CMod (cpp_api dev k, X)) p None
      = Inr (made_tensor d (pt_requires_grad T p) (array_handle m a))"
    using interop_copy [OF T a(1-3) h m, of np k X None] by auto
  moreover obtain q where "interop_to_torch T (cpp_api dev k) (MnTensor (made_tensor d (pt_requires_grad T p) (array_handle m a))) = Inr q"
    "pt_numpy T q = Inr (memory_order a)" "pt_requires_grad T q = pt_requires_grad T p"
    using interop_back [OF T a(3) holdable_fits [OF a(3) h] m, of "pt_requires_grad T p"]
      torch_laws.grad_float [OF T(1) _ a(2)] by blast
  ultimately show ?thesis using a(2) nd_wf_mem [OF a(3,4)] by (simp add: through_metal_def same_tensor_def)
qed

text \<open>
  C20. \<open>prepare_model\<close> on a model whose parameters and buffers are all \<open>copyable\<close> (CPU tensors that
  have elements, of a type other than bfloat16 that NumPy and the package both have, with
  C-contiguous memory, and for which the device has room) replaces every one of them by a
  tensor of the same name, shape, type, values and gradient flag. It works only for models
  without buffers in submodules: the name of such a buffer has a dot, PyTorch's
  \<open>register_buffer\<close> refuses it, and the call raises KeyError.
\<close>

theorem prepare_model_spec:
  assumes "torch_laws T" and "register_laws register" and "torch_installed T"
    and "dict_wf (m_params m)" and "dict_wf (m_buffers m)"
    and "\<forall>x \<in> set (m_params m) \<union> set (m_buffers m). copyable T dev (snd x)"
  shows "if \<exists>n \<in> set (map fst (m_buffers m)). dotted n
    then raises KeyError (fst (prepare_model np T register (cpp_api dev k, X) m))
    else \<exists>m'. prepare_model np T register (cpp_api dev k, X) m = (Inr (), m')
      \<and> list_all2 (same_tensor T) (m_params m) (m_params m') \<and> list_all2 (same_tensor T) (m_buffers m) (m_buffers m')"
proof -
  define conv where "conv = through_metal np T (cpp_api dev k, X)"
  define g where "g = (\<lambda>p. projr (conv p))"
  have g: "conv p = Inr (g p) \<and> same_tensor T (n, p) (n, g p)" if "copyable T dev p" for p n
    using through_metal_same [OF assms(1,3) that, of np k X n] by (auto simp: conv_def g_def)
  have same: "list_all2 (same_tensor T) xs (map (apsnd g) xs)" if "\<forall>x \<in> set xs. copyable T dev (snd x)" for xs
    unfolding list_all2_conv_all_nth
  proof (intro conjI allI impI)
    fix i assume i: "i < length xs"
    have "xs ! i = (fst (xs ! i), snd (xs ! i))" by simp
    with i that g [of "snd (xs ! i)" "fst (xs ! i)"] show "same_tensor T (xs ! i) (map (apsnd g) xs ! i)"
      by (metis apsnd_conv nth_map nth_mem)
  qed simp
  let ?m = "m\<lparr>m_params := map (apsnd g) (m_params m)\<rparr>"
  have ps: "forS (prepare_param conv) (m_params m) m = (Inr (), ?m)"
    using prepare_params [of "m_params m" conv g m "[]"] assms(4,6) g by fastforce
  have bs: "if \<exists>n \<in> set (map fst (m_buffers m)). dotted n
      then raises KeyError (fst (forS (prepare_buffer register conv) (m_buffers m) ?m))
      else forS (prepare_buffer register conv) (m_buffers m) ?m = (Inr (), ?m\<lparr>m_buffers := map (apsnd g) (m_buffers m)\<rparr>)"
    using prepare_buffers [OF assms(2), of "m_buffers m" conv g ?m "[]"] assms(5,6) g by fastforce
  have "prepare_model np T register (cpp_api dev k, X) m = forS (prepare_buffer register conv) (m_buffers m) ?m"
    using assms(3) ps by (simp add: prepare_model_def conv_def bindS_def)
  with bs same assms(6) show ?thesis by (auto split: if_splits)
qed

theorem prepare_model_spec_witness:
  "(\<exists>m. prepare_model (np_ref (\<lambda>_ x. x)) torch_ref register_ref (cpp_api plain_device plain_kernels, no_pointers)
       \<lparr>m_params = [(''fc.weight'', \<lparr>p_array = sample_array, p_grad = True\<rparr>)],
        m_buffers = [(''scale'', \<lparr>p_array = sample_array, p_grad = False\<rparr>)]\<rparr> = (Inr (), m))
   \<and> raises KeyError (fst (prepare_model (np_ref (\<lambda>_ x. x)) torch_ref register_ref (cpp_api plain_device plain_kernels, no_pointers)
       \<lparr>m_params = [], m_buffers = [(''bn.mean'', \<lparr>p_array = sample_array, p_grad = False\<rparr>)]\<rparr>))"
proof -
  have n: "nd_dtype sample_array = dtype_name Float32" "holdable plain_device Float32 (nd_shape sample_array)"
    using sample_holdable by (simp_all add: sample_array_def)
  then have c: "copyable torch_ref plain_device \<lparr>p_array = sample_array, p_grad = b\<rparr>" for b
    using sample_array_ok unfolding copyable_def
    by (intro conjI exI [of _ sample_array] exI [of _ Float32]) (simp_all add: torch_ref_def)
  have i: "torch_installed torch_ref" by (simp add: torch_ref_def)
  note spec = prepare_model_spec [OF torch_reference.torch_laws_axioms register_reference.register_laws_axioms i]
  show ?thesis
    using spec [of "\<lparr>m_params = [(''fc.weight'', \<lparr>p_array = sample_array, p_grad = True\<rparr>)],
        m_buffers = [(''scale'', \<lparr>p_array = sample_array, p_grad = False\<rparr>)]\<rparr>" plain_device "np_ref (\<lambda>_ x. x)" plain_kernels no_pointers]
      spec [of "\<lparr>m_params = [], m_buffers = [(''bn.mean'', \<lparr>p_array = sample_array, p_grad = False\<rparr>)]\<rparr>"
        plain_device "np_ref (\<lambda>_ x. x)" plain_kernels no_pointers] c
    by (auto simp: dict_wf_def dotted_def)
qed

end
