(* ===== verification/Nn.thy ===== *)
theory Nn
  imports TensorLaws PyData
begin

text \<open>
  \<^verbatim>\<open>python/metal_native/nn\<close>: the layers \<open>Linear\<close>, \<open>RMSNorm\<close> and \<open>LayerNorm\<close> and the activations.
\<close>

section \<open>NumPy as the layers use it\<close>

text \<open>
  \<open>nn_uniform\<close> draws an array with the limit and the shape given, \<open>nn_full\<close> is \<open>np.ones\<close> or
  \<open>np.zeros\<close> at a dtype, and \<open>nn_map\<close> evaluates an expression element by element (in the type
  that NumPy's promotion gives).
\<close>

record nn_numpy =
  nn_uniform :: "pyfloat \<Rightarrow> int list \<Rightarrow> ndarray res"
  nn_full :: "real \<Rightarrow> int list \<Rightarrow> string \<Rightarrow> ndarray res"
  nn_map :: "(real \<Rightarrow> real) \<Rightarrow> ndarray \<Rightarrow> ndarray"

section \<open>Linear\<close>

record 'h linear =
  l_in :: int
  l_out :: int
  l_weight :: "'h tensor"
  l_bias :: "'h tensor option"

definition xavier_limit :: "int \<Rightarrow> int \<Rightarrow> pyfloat res" where
  "xavier_limit i j =
     (if i + j = 0 then raise ZeroDivisionError ''float division by zero''
      else if i + j < 0 then Inr NaN
      else Inr (Fin (sqrt (6 / of_int (i + j)))))"

definition Linear_init ::
  "'d numpy_api \<Rightarrow> nn_numpy \<Rightarrow> ('h, 'c) native_api cmod \<Rightarrow> int \<Rightarrow> int \<Rightarrow> bool \<Rightarrow> dtype option \<Rightarrow> 'h linear res" where
  "Linear_init np nn cm i j bias dt =
     (let d = default_dtype dt in
      bindR (xavier_limit i j) (\<lambda>limit.
      bindR (nn_uniform nn limit [j, i]) (\<lambda>w.
      bindR (dtype_to_numpy d) (\<lambda>n.
      bindR (from_numpy np cm (np_astype np w n) False) (\<lambda>weight.
      bindR (if bias
             then bindR (dtype_to_numpy d) (\<lambda>n. bindR (nn_full nn 0 [j] n) (\<lambda>z.
                  bindR (from_numpy np cm z False) (\<lambda>b. Inr (Some b))))
             else Inr None) (\<lambda>b.
      Inr \<lparr>l_in = i, l_out = j, l_weight = weight, l_bias = b\<rparr>))))))"

definition Linear_call :: "('h, 'c) native_api cmod \<Rightarrow> 'h linear \<Rightarrow> 'h tensor \<Rightarrow> 'h tensor res" where
  "Linear_call cm l x =
     bindR (import_C cm) (\<lambda>C. C_attr C (\<lambda>N.
     bindR (C_matmul N (handle x) (handle (l_weight l)) False True) (\<lambda>h.
     case l_bias l of
       None \<Rightarrow> Inr (from_handle h False)
     | Some b \<Rightarrow> Tensor_add N (from_handle h False) (OpTensor b))))"

definition show_bool :: "bool \<Rightarrow> string" where
  "show_bool b = (if b then ''True'' else ''False'')"

definition Linear_repr :: "'h linear \<Rightarrow> string" where
  "Linear_repr l = ''Linear(in_features='' @ show_int (l_in l) @ '', out_features='' @ show_int (l_out l)
     @ '', bias='' @ show_bool (l_bias l \<noteq> None) @ '')''"

section \<open>Normalisation\<close>

record 'h rms_norm =
  rn_shape :: int
  rn_eps :: real
  rn_weight :: "'h tensor"

definition RMSNorm_init ::
  "'d numpy_api \<Rightarrow> nn_numpy \<Rightarrow> ('h, 'c) native_api cmod \<Rightarrow> int \<Rightarrow> real \<Rightarrow> dtype option \<Rightarrow> 'h rms_norm res" where
  "RMSNorm_init np nn cm n ep dt =
     bindR (dtype_to_numpy (default_dtype dt)) (\<lambda>d.
     bindR (nn_full nn 1 [n] d) (\<lambda>a.
     bindR (from_numpy np cm a False) (\<lambda>w.
     Inr \<lparr>rn_shape = n, rn_eps = ep, rn_weight = w\<rparr>)))"

definition RMSNorm_call :: "('h, 'c) native_api cmod \<Rightarrow> 'h rms_norm \<Rightarrow> 'h tensor \<Rightarrow> 'h tensor res" where
  "RMSNorm_call cm l x = bindR (import_C cm) (\<lambda>C. C_attr C (\<lambda>N.
     bindR (C_rms_norm N (handle x) (handle (rn_weight l)) (rn_eps l)) (\<lambda>h. Inr (from_handle h False))))"

definition RMSNorm_repr :: "(real \<Rightarrow> string) \<Rightarrow> 'h rms_norm \<Rightarrow> string" where
  "RMSNorm_repr show_float l = ''RMSNorm('' @ show_int (rn_shape l) @ '', eps='' @ show_float (rn_eps l) @ '')''"

record 'h layer_norm =
  ln_shape :: int
  ln_eps :: real
  ln_weight :: "'h tensor"
  ln_bias :: "'h tensor"

definition LayerNorm_init ::
  "'d numpy_api \<Rightarrow> nn_numpy \<Rightarrow> ('h, 'c) native_api cmod \<Rightarrow> int \<Rightarrow> real \<Rightarrow> dtype option \<Rightarrow> 'h layer_norm res" where
  "LayerNorm_init np nn cm n ep dt =
     bindR (dtype_to_numpy (default_dtype dt)) (\<lambda>d.
     bindR (nn_full nn 1 [n] d) (\<lambda>a.
     bindR (from_numpy np cm a False) (\<lambda>w.
     bindR (nn_full nn 0 [n] d) (\<lambda>z.
     bindR (from_numpy np cm z False) (\<lambda>b.
     Inr \<lparr>ln_shape = n, ln_eps = ep, ln_weight = w, ln_bias = b\<rparr>)))))"

definition LayerNorm_call :: "('h, 'c) native_api cmod \<Rightarrow> 'h layer_norm \<Rightarrow> 'h tensor \<Rightarrow> 'h tensor res" where
  "LayerNorm_call cm l x = bindR (import_C cm) (\<lambda>C. C_attr C (\<lambda>N.
     bindR (C_layer_norm N (handle x) (handle (ln_weight l)) (handle (ln_bias l)) (ln_eps l)) (\<lambda>h.
     Inr (from_handle h False))))"

definition LayerNorm_repr :: "(real \<Rightarrow> string) \<Rightarrow> 'h layer_norm \<Rightarrow> string" where
  "LayerNorm_repr show_float l = ''LayerNorm('' @ show_int (ln_shape l) @ '', eps='' @ show_float (ln_eps l) @ '')''"

section \<open>Activations\<close>

definition ReLU_call :: "('h, 'c) native_api \<Rightarrow> 'h tensor \<Rightarrow> 'h tensor res" where
  "ReLU_call N x = Tensor_relu N x"

definition gelu_value :: "real \<Rightarrow> real" where
  "gelu_value x = x * (1 / 2) * (1 + tanh (sqrt (2 / pi) * (x + 44715 / 1000000 * x ^ 3)))"

definition silu_value :: "real \<Rightarrow> real" where
  "silu_value x = x / (1 + exp (- x))"

text \<open>The result is cast back to the dtype of the array that \<open>numpy()\<close> gave.\<close>

definition numpy_activation ::
  "'d numpy_api \<Rightarrow> nn_numpy \<Rightarrow> ('h, 'c) native_api \<Rightarrow> (real \<Rightarrow> real) \<Rightarrow> 'h tensor \<Rightarrow> 'h tensor res" where
  "numpy_activation np nn N f x = bindR (Tensor_numpy N x) (\<lambda>a.
     from_numpy np (CMod N) (np_astype np (nn_map nn f a) (nd_dtype a)) False)"

definition GELU_call :: "'d numpy_api \<Rightarrow> nn_numpy \<Rightarrow> ('h, 'c) native_api \<Rightarrow> 'h tensor \<Rightarrow> 'h tensor res" where
  "GELU_call np nn N x = numpy_activation np nn N gelu_value x"

definition SiLU_call :: "'d numpy_api \<Rightarrow> nn_numpy \<Rightarrow> ('h, 'c) native_api \<Rightarrow> 'h tensor \<Rightarrow> 'h tensor res" where
  "SiLU_call np nn N x = numpy_activation np nn N silu_value x"

text \<open>\<open>Softmax\<close> holds its dimension.\<close>

definition Softmax_init :: "int option \<Rightarrow> int" where
  "Softmax_init dm = (case dm of None \<Rightarrow> -1 | Some d \<Rightarrow> d)"

definition Softmax_call :: "('h, 'c) native_api \<Rightarrow> int \<Rightarrow> 'h tensor \<Rightarrow> 'h tensor res" where
  "Softmax_call N dm x = Tensor_softmax N x dm"

definition activation_reprs :: "int \<Rightarrow> string list" where
  "activation_reprs dm = [''ReLU()'', ''GELU()'', ''SiLU()'', ''Softmax(dim='' @ show_int dm @ '')'']"

end
