(* ===== verification/LayerProps.thy ===== *)
theory LayerProps
  imports ArithProps Nn
begin

text \<open>
  Properties of the layers and activations of \<^verbatim>\<open>python/metal_native/nn\<close> on the C++ core. What the
  layers rely on of NumPy beyond \<open>numpy_laws\<close> is the locale \<open>nn_laws\<close>.
\<close>

section \<open>NumPy as the layers use it\<close>

text \<open>
  \<open>np.random.uniform\<close> gives an array of doubles of the requested shape between the limits;
  \<open>np.zeros\<close> and \<open>np.ones\<close> fill the shape; an expression in a float array and Python numbers
  keeps the element type (NumPy's promotion rules) and evaluates element by element.
\<close>

definition filled_array :: "real \<Rightarrow> int list \<Rightarrow> string \<Rightarrow> ndarray" where
  "filled_array v s d = row_major s d (replicate (nat (prod_list s)) v)"

definition map_array :: "(real \<Rightarrow> real) \<Rightarrow> ndarray \<Rightarrow> ndarray" where
  "map_array f a = row_major (nd_shape a) (nd_dtype a) (map f (nd_elems a))"

locale nn_laws = numpy_laws np for np :: "'d numpy_api" +
  fixes nn :: nn_numpy
  assumes uniform: "0 \<le> l \<Longrightarrow> \<forall>d \<in> set s. 0 \<le> d \<Longrightarrow> \<exists>a. nn_uniform nn (Fin l) s = Inr a \<and> nd_wf a
      \<and> nd_c_contiguous a \<and> nd_shape a = s \<and> nd_dtype a = ''float64'' \<and> (\<forall>x \<in> set (nd_elems a). \<bar>x\<bar> \<le> l)"
    and full: "\<forall>d \<in> set s. 0 \<le> d \<Longrightarrow> nn_full nn v s n = Inr (filled_array v s n)"
    and elementwise: "nd_wf a \<Longrightarrow> nd_c_contiguous a \<Longrightarrow> nd_dtype a \<in> {''float32'', ''float16''} \<Longrightarrow> nn_map nn f a = map_array f a"

text \<open>A reference: uniform draws are taken from a sequence.\<close>

definition nn_ref :: "(nat \<Rightarrow> real) \<Rightarrow> nn_numpy" where
  "nn_ref draws = \<lparr>
     nn_uniform = (\<lambda>l s. case l of
         Fin x \<Rightarrow> let xs = map (\<lambda>i. x * (2 * frac (draws i) - 1)) [0..<nat (prod_list s)]
           in Inr (row_major s ''float64'' xs)
       | _ \<Rightarrow> raise (OtherError ''OverflowError'') ''Range exceeds valid bounds''),
     nn_full = (\<lambda>v s d. Inr (filled_array v s d)),
     nn_map = map_array\<rparr>"

lemma frac_limit: "0 \<le> x \<Longrightarrow> \<bar>x * (2 * frac y - 1)\<bar> \<le> x"
proof -
  assume x: "0 \<le> x"
  have "\<bar>2 * frac y - 1\<bar> \<le> 1" using frac_lt_1 [of y] frac_ge_0 [of y] by (simp add: abs_le_iff)
  with x show ?thesis by (simp add: abs_mult mult_left_le)
qed

interpretation nn_reference: nn_laws "np_ref conv" "nn_ref draws" for conv draws
proof unfold_locales
  fix l :: real and s :: "int list"
  assume "0 \<le> l" "\<forall>d \<in> set s. 0 \<le> d"
  then show "\<exists>a. nn_uniform (nn_ref draws) (Fin l) s = Inr a \<and> nd_wf a \<and> nd_c_contiguous a \<and> nd_shape a = s
      \<and> nd_dtype a = ''float64'' \<and> (\<forall>x \<in> set (nd_elems a). \<bar>x\<bar> \<le> l)"
    by (auto simp: nn_ref_def Let_def prod_nonneg frac_limit)
qed (simp_all add: nn_ref_def)

section \<open>Arrays made into tensors\<close>

lemma filled_array_ok: "\<forall>d \<in> set s. 0 \<le> d \<Longrightarrow> nd_wf (filled_array v s n)" "nd_c_contiguous (filled_array v s n)"
  by (simp_all add: filled_array_def prod_nonneg)

section \<open>Activations\<close>

definition sigmoid :: "real \<Rightarrow> real" where
  "sigmoid z = 1 / (1 + exp (- z))"

lemma sigmoid_bounds: "0 < sigmoid z" "sigmoid z < 1"
  by (simp_all add: sigmoid_def add_pos_pos)

lemma half_tanh: "1 / 2 * (1 + tanh u) = sigmoid (2 * u)"
proof -
  have "tanh u = (1 - exp (- 2 * u)) / (1 + exp (- 2 * u))" by (rule tanh_real_altdef)
  moreover have "1 + exp (- 2 * u) \<noteq> 0" using add_pos_pos [of 1 "exp (- 2 * u)"] by simp
  ultimately show ?thesis by (simp add: sigmoid_def divide_simps) (simp add: algebra_simps)
qed

lemma gate_bounds: "0 \<le> g \<Longrightarrow> g \<le> 1 \<Longrightarrow> min x 0 \<le> x * g \<and> x * g \<le> max x (0 :: real)"
  by (cases "0 \<le> x") (auto simp: min_def max_def mult_left_le mult_nonneg_nonneg mult_nonpos_nonneg
      intro: mult_left_mono_neg [of g 1 x, simplified])

text \<open>
  The values of the activations: the \<open>tanh\<close> form of GELU in the code is the gate
  \<open>x * sigmoid (2 u)\<close> of the published approximation, SiLU is \<open>x * sigmoid x\<close>, and both lie
  between \<open>x\<close> and 0.
\<close>

theorem activation_gates:
  "gelu_value x = x * sigmoid (2 * (sqrt (2 / pi) * (x + 44715 / 1000000 * x ^ 3)))
   \<and> silu_value x = x * sigmoid x
   \<and> min x 0 \<le> gelu_value x \<and> gelu_value x \<le> max x 0
   \<and> min x 0 \<le> silu_value x \<and> silu_value x \<le> max x 0"
proof -
  have "gelu_value x = x * (1 / 2 * (1 + tanh (sqrt (2 / pi) * (x + 44715 / 1000000 * x ^ 3))))"
    by (simp add: gelu_value_def)
  then have g: "gelu_value x = x * sigmoid (2 * (sqrt (2 / pi) * (x + 44715 / 1000000 * x ^ 3)))"
    by (simp only: half_tanh)
  have s: "silu_value x = x * sigmoid x" by (simp add: silu_value_def sigmoid_def)
  show ?thesis
    using gate_bounds [of "sigmoid z" x for z] sigmoid_bounds [THEN less_imp_le] unfolding g s by blast
qed

lemma numpy_activation_data:
  assumes laws: "nn_laws np nn" and t: "mt_wf (handle t)" "mt_dtype (handle t) \<in> {Float32, Float16}"
    and mem: "holdable dev (mt_dtype (handle t)) (mt_shape (handle t))"
  shows "\<exists>d. dname d = dtype_name (mt_dtype (handle t)) \<and> numpy_activation np nn (cpp_api dev k) f t
    = Inr (made_tensor d False ((handle t)\<lparr>mt_data := map f (mt_data (handle t))\<rparr>))"
proof -
  let ?h = "handle t"
  define a where "a = row_major (mt_shape ?h) (dtype_name (mt_dtype ?h)) (mt_data ?h)"
  have nb: "mt_dtype ?h \<noteq> BFloat16" using t(2) by auto
  have arr: "Tensor_numpy (cpp_api dev k) t = Inr a"
    using mn_to_numpy_plain [OF t(1) nb, of dev] by (simp add: Tensor_numpy_def a_def)
  have "\<forall>d \<in> set (mt_shape ?h). 0 \<le> d" "int (length (mt_data ?h)) = prod_list (mt_shape ?h)"
    using t(1) fits_bounds [of "mt_shape ?h"] by (auto simp: mt_wf_def fits_def)
  then have c: "nd_wf a" "nd_c_contiguous a" "nd_wf (map_array f a)" by (simp_all add: a_def map_array_def)
  have "nd_dtype a \<in> {''float32'', ''float16''}" using t(2) by (auto simp: a_def)
  from nn_laws.elementwise [OF laws c(1,2) this] have m: "nn_map nn f a = map_array f a" .
  have np: "numpy_laws np" using laws by (simp add: nn_laws_def)
  have cast: "np_astype np (nn_map nn f a) (nd_dtype a) = map_array f a"
    unfolding m by (rule numpy_laws.astype_compact [OF np c(3)]) (simp_all add: map_array_def)
  have md: "nd_dtype (map_array f a) = dtype_name (mt_dtype ?h)" by (simp add: a_def map_array_def)
  have hold: "holdable dev (mt_dtype ?h) (nd_shape (map_array f a))" using mem by (simp add: a_def map_array_def)
  obtain d where "dname d = dtype_name (mt_dtype ?h)" and "from_numpy np (CMod (cpp_api dev k)) (map_array f a) False
      = Inr (made_tensor d False (array_handle (mt_dtype ?h) (map_array f a)))"
    using from_numpy_core [OF c(3) hold md nb, of np k False] NUMPY_TO_DTYPE_MAP_name by blast
  moreover have "array_handle (mt_dtype ?h) (map_array f a) = ?h\<lparr>mt_data := map f (mt_data ?h)\<rparr>"
    using t(1) by (intro mntensor.equality) (simp_all add: array_handle_def map_array_def a_def mt_wf_def)
  ultimately show ?thesis by (intro exI [of _ d]) (simp add: numpy_activation_def arr cast)
qed

text \<open>
  \<open>GELU()\<close> and \<open>SiLU()\<close> on a float32 or float16 tensor that has elements return a tensor of its shape and dtype
  with the activation applied to every element, through NumPy and back.
\<close>

theorem activation_elementwise:
  assumes "nn_laws np nn" and "mt_wf (handle t)" and "mt_dtype (handle t) \<in> {Float32, Float16}"
    and "holdable dev (mt_dtype (handle t)) (mt_shape (handle t))"
  shows "\<exists>g s. GELU_call np nn (cpp_api dev k) t = Inr g \<and> SiLU_call np nn (cpp_api dev k) t = Inr s
    \<and> handle g = (handle t)\<lparr>mt_data := map gelu_value (mt_data (handle t))\<rparr>
    \<and> handle s = (handle t)\<lparr>mt_data := map silu_value (mt_data (handle t))\<rparr>
    \<and> caches_agree (cpp_api dev k) g \<and> caches_agree (cpp_api dev k) s"
proof -
  from numpy_activation_data [OF assms, of k gelu_value] numpy_activation_data [OF assms, of k silu_value]
  obtain d e where "dname d = dtype_name (mt_dtype (handle t))" "dname e = dtype_name (mt_dtype (handle t))"
    "GELU_call np nn (cpp_api dev k) t = Inr (made_tensor d False ((handle t)\<lparr>mt_data := map gelu_value (mt_data (handle t))\<rparr>))"
    "SiLU_call np nn (cpp_api dev k) t = Inr (made_tensor e False ((handle t)\<lparr>mt_data := map silu_value (mt_data (handle t))\<rparr>))"
    unfolding GELU_call_def SiLU_call_def by blast
  then show ?thesis by (simp add: made_tensor_agree)
qed

theorem activation_elementwise_witness:
  "\<exists>g. SiLU_call (np_ref (\<lambda>_ x. x)) (nn_ref (\<lambda>_. 0)) (cpp_api plain_device plain_kernels) (from_handle sample_handle False) = Inr g
     \<and> mt_data (handle g) = map silu_value [1, 2, 3, 4, 5, 6] \<and> mt_shape (handle g) = [2, 3]"
  using activation_elementwise [OF nn_reference.nn_laws_axioms [of "\<lambda>_ x. x" "\<lambda>_. 0"],
      of "from_handle sample_handle False" plain_device plain_kernels] sample_handle_ok(1) sample_holdable
  by (auto simp: sample_handle_def)


section \<open>Construction of the layers\<close>

text \<open>A parameter tensor of a layer: its shape, its dtype and, when it is filled, its value.\<close>

definition parameter :: "int list \<Rightarrow> mndtype \<Rightarrow> mntensor tensor \<Rightarrow> bool" where
  "parameter s m t \<longleftrightarrow> mt_wf (handle t) \<and> mt_shape (handle t) = s \<and> mt_dtype (handle t) = m \<and> \<not> requires_grad t"

lemma array_handle_parameter:
  "nd_wf a \<Longrightarrow> fits (nd_shape a) \<Longrightarrow> parameter (nd_shape a) m (made_tensor d False (array_handle m a))"
  using array_handle_wf [of a m] by (simp add: parameter_def) (simp add: array_handle_def)

lemma filled_parameter:
  assumes laws: "nn_laws np nn" and mem: "holdable dev m s" and m: "m \<noteq> BFloat16" and s: "fits s"
  shows "\<exists>t. bindR (nn_full nn v s (dtype_name m)) (\<lambda>a. from_numpy np (CMod (cpp_api dev k)) a False) = Inr t
    \<and> parameter s m t \<and> mt_data (handle t) = replicate (nat (prod_list s)) v"
proof -
  have nn: "\<forall>d \<in> set s. 0 \<le> d" using s by (simp add: fits_def)
  let ?a = "filled_array v s (dtype_name m)"
  have dt: "nd_dtype ?a = dtype_name m" by (simp add: filled_array_def)
  have hold: "holdable dev m (nd_shape ?a)" using mem by (simp add: filled_array_def)
  obtain d where "from_numpy np (CMod (cpp_api dev k)) ?a False = Inr (made_tensor d False (array_handle m ?a))"
    using from_numpy_core [OF filled_array_ok(1) [OF nn] hold dt m, of np k False] by blast
  moreover have "parameter s m (made_tensor d False (array_handle m ?a))"
    using array_handle_parameter [OF filled_array_ok(1) [OF nn], of v "dtype_name m" m d] s
    by (simp add: filled_array_def)
  ultimately show ?thesis
    by (simp add: nn_laws.full [OF laws nn]) (simp add: array_handle_def filled_array_def)
qed

text \<open>
  \<open>Linear(i, o, bias, dtype)\<close> has a weight of shape (o, i), a bias of o zeros if it was asked
  for, both of the requested dtype (float32 by default) and without gradients, when i and o are
  positive and the device has room; a bfloat16 layer
  cannot be built, since NumPy has no such type: ValueError.
\<close>

theorem linear_init_spec:
  assumes "nn_laws np nn" and "m \<noteq> BFloat16 \<longrightarrow> holdable dev m [j, i] \<and> holdable dev m [j]"
    and "dname (default_dtype dt) = dtype_name m"
    and "0 \<le> i" and "0 \<le> j" and "0 < i + j" and "fits [j, i]" and "fits [j]"
  shows "if m = BFloat16 then raises ValueError (Linear_init np nn (CMod (cpp_api dev k)) i j bias dt)
    else \<exists>l. Linear_init np nn (CMod (cpp_api dev k)) i j bias dt = Inr l \<and> l_in l = i \<and> l_out l = j
      \<and> parameter [j, i] m (l_weight l)
      \<and> (case l_bias l of None \<Rightarrow> \<not> bias
         | Some b \<Rightarrow> bias \<and> parameter [j] m b \<and> mt_data (handle b) = replicate (nat j) 0)"
proof -
  let ?d = "default_dtype dt" and ?N = "CMod (cpp_api dev k)"
  define q where "q = sqrt (6 / real_of_int (i + j))"
  obtain w where w: "nn_uniform nn (Fin q) [j, i] = Inr w" "nd_wf w" "nd_shape w = [j, i]"
    using nn_laws.uniform [OF assms(1), of q "[j, i]"] assms(4-6) by (auto simp: q_def)
  have lim: "xavier_limit i j = Inr (Fin q)" using assms(6) by (simp add: xavier_limit_def q_def)
  have np: "numpy_laws np" using assms(1) by (simp add: nn_laws_def)
  show ?thesis
  proof (cases "m = BFloat16")
    case True
    with assms(3) have "raises ValueError (dtype_to_numpy ?d)"
      by (auto simp: dtype_to_numpy_def NUMPY_DTYPE_MAP_def dtype_eq_def)
    then obtain e where "dtype_to_numpy ?d = Inl e" "exc_class e = ValueError"
      by (cases "dtype_to_numpy ?d") simp_all
    with True show ?thesis by (simp add: Linear_init_def Let_def lim w(1))
  next
    case False
    with assms(3) have n: "dtype_to_numpy ?d = Inr (dtype_name m)"
      by (cases m) (simp_all add: dtype_to_numpy_Inr)
    let ?a = "np_astype np w (dtype_name m)"
    have a: "nd_wf ?a" "nd_shape ?a = [j, i]" "nd_dtype ?a = dtype_name m"
      using numpy_laws.astype_wf [OF np w(2)] numpy_laws.astype_shape [OF np] numpy_laws.astype_dtype [OF np] w(3) by simp_all
    obtain d where d: "from_numpy np ?N ?a False = Inr (made_tensor d False (array_handle m ?a))"
      using from_numpy_core [OF a(1) _ a(3) False, of dev np k False] assms(2) False a(2) by auto
    have p: "parameter [j, i] m (made_tensor d False (array_handle m ?a))"
      using array_handle_parameter [OF a(1), of m d] a(2) assms(7) by simp
    obtain b where b: "bindR (nn_full nn 0 [j] (dtype_name m)) (\<lambda>z. from_numpy np ?N z False) = Inr b"
      "parameter [j] m b" "mt_data (handle b) = replicate (nat j) 0"
      using filled_parameter [OF assms(1) _ False assms(8), of dev 0 k] assms(2) False by auto
    then obtain z where "nn_full nn 0 [j] (dtype_name m) = Inr z" "from_numpy np ?N z False = Inr b"
      by (auto simp: bindR_Inr_iff)
    with False b(2,3) p show ?thesis by (simp add: Linear_init_def Let_def lim w(1) n d)
  qed
qed

theorem linear_init_spec_witness:
  "(\<exists>l. Linear_init (np_ref (\<lambda>_ x. x)) (nn_ref (\<lambda>_. 0)) (CMod (cpp_api plain_device plain_kernels)) 3 2 True None = Inr l
      \<and> mt_shape (handle (l_weight l)) = [2, 3])
   \<and> raises ValueError (Linear_init (np_ref (\<lambda>_ x. x)) (nn_ref (\<lambda>_. 0)) (CMod (cpp_api plain_device plain_kernels)) 3 2 True (Some bfloat16))"
  using linear_init_spec [OF nn_reference.nn_laws_axioms [of "\<lambda>_ x. x" "\<lambda>_. 0"], of Float32 plain_device 2 3 None plain_kernels True]
    linear_init_spec [OF nn_reference.nn_laws_axioms [of "\<lambda>_ x. x" "\<lambda>_. 0"], of BFloat16 plain_device 2 3 "Some bfloat16" plain_kernels True]
  by (auto simp: fits_def holdable_def default_dtype_def parameter_def size_max_def)


text \<open>
  \<open>RMSNorm\<close> and \<open>LayerNorm\<close> start as the identity scaling: weights of ones and, for LayerNorm, a
  bias of zeros, one per normalised element, with the given eps.
\<close>

theorem norm_init_spec:
  assumes "nn_laws np nn" and "holdable dev m [n]" and "dname (default_dtype dt) = dtype_name m"
    and "m \<noteq> BFloat16" and "fits [n]"
  shows "\<exists>r l. RMSNorm_init np nn (CMod (cpp_api dev k)) n ep dt = Inr r
    \<and> LayerNorm_init np nn (CMod (cpp_api dev k)) n ep dt = Inr l
    \<and> rn_eps r = ep \<and> ln_eps l = ep \<and> rn_shape r = n \<and> ln_shape l = n
    \<and> parameter [n] m (rn_weight r) \<and> mt_data (handle (rn_weight r)) = replicate (nat n) 1
    \<and> parameter [n] m (ln_weight l) \<and> mt_data (handle (ln_weight l)) = replicate (nat n) 1
    \<and> parameter [n] m (ln_bias l) \<and> mt_data (handle (ln_bias l)) = replicate (nat n) 0"
proof -
  let ?N = "CMod (cpp_api dev k)"
  from assms(3,4) have d: "dtype_to_numpy (default_dtype dt) = Inr (dtype_name m)"
    by (cases m) (simp_all add: dtype_to_numpy_Inr)
  have par: "\<exists>a t. nn_full nn v [n] (dtype_name m) = Inr a \<and> from_numpy np ?N a False = Inr t
      \<and> parameter [n] m t \<and> mt_data (handle t) = replicate (nat n) v" for v
    using filled_parameter [OF assms(1,2,4,5), of v k] by (auto simp: bindR_Inr_iff)
  from par [of 1] par [of 0] show ?thesis
    by (auto simp: RMSNorm_init_def LayerNorm_init_def d)
qed

theorem norm_init_spec_witness:
  "\<exists>l. LayerNorm_init (np_ref (\<lambda>_ x. x)) (nn_ref (\<lambda>_. 0)) (CMod (cpp_api plain_device plain_kernels)) 3 (1 / 100000) None = Inr l
      \<and> mt_data (handle (ln_weight l)) = [1, 1, 1]"
  using norm_init_spec [OF nn_reference.nn_laws_axioms [of "\<lambda>_ x. x" "\<lambda>_. 0"], of plain_device Float32 3 None plain_kernels]
  by (auto simp: fits_def holdable_def default_dtype_def numeral_3_eq_3)

section \<open>The forward pass of Linear\<close>

text \<open>
  The product of an n by i matrix with the transposed j by i weight, row by row: what the
  matrix kernel promises for \<open>transpose_b\<close>.
\<close>

definition row_products :: "real list \<Rightarrow> real list \<Rightarrow> nat \<Rightarrow> nat \<Rightarrow> nat \<Rightarrow> real list" where
  "row_products xs ws n i j = map (\<lambda>p. \<Sum>q<i. xs ! (p div j * i + q) * ws ! (p mod j * i + q)) [0..<n * j]"

text \<open>
  \<open>Linear\<close> computes the products of the rows of its input with the rows of its weight; the
  bias is added by the element-wise kernel, which does not follow the broadcast: the first row
  gets the bias, every later row gets what lies past the end of the bias buffer, so only a
  batch of one row is right.
\<close>

theorem linear_forward:
  assumes y: "k_matmul k (handle x) (handle (l_weight l)) False True = Inr y" "computable dev y"
      "mt_shape y = [int n, int j]" "mt_data y = row_products xs ws n i j"
    and b: "\<And>b. l_bias l = Some b \<Longrightarrow> mt_wf (handle b) \<and> mt_shape (handle b) = [int j] \<and> mt_dtype (handle b) = mt_dtype y"
  shows "\<exists>u. Linear_call (CMod (cpp_api dev k)) l x = Inr u \<and> mt_shape (handle u) = [int n, int j]
    \<and> (\<forall>r < n. \<forall>c < j. mt_data (handle u) ! (r * j + c) = (\<Sum>q<i. xs ! (r * i + q) * ws ! (c * i + q))
        + (case l_bias l of None \<Rightarrow> 0
           | Some b \<Rightarrow> if r = 0 then mt_data (handle b) ! c else past_end dev (mt_data (handle b)) (r * j + c)))"
proof -
  have pos: "r * j + c < n * j \<and> (r * j + c) div j = r \<and> (r * j + c) mod j = c" if "r < n" "c < j" for r c
  proof -
    from that(1) have "Suc r * j \<le> n * j" by (intro mult_right_mono) simp_all
    with that(2) show ?thesis by simp
  qed
  have yd: "mt_data y ! (r * j + c) = (\<Sum>q<i. xs ! (r * i + q) * ws ! (c * i + q))" if "r < n" "c < j" for r c
    using pos [OF that] by (simp add: y(4) row_products_def)
  have len: "length (mt_data y) = n * j" by (simp add: y(4) row_products_def)
  show ?thesis
  proof (cases "l_bias l")
    case None
    with y(1,3) yd show ?thesis by (simp add: Linear_call_def cpp_api_def)
  next
    case (Some b)
    let ?f = "\<lambda>p. read_buffer dev (mt_data y) p + read_buffer dev (mt_data (handle b)) p"
    from assms(5) [OF Some] have bb: "mt_wf (handle b)" "mt_shape (handle b) = [int j]" "mt_dtype (handle b) = mt_dtype y" by simp_all
    have sh: "broadcast_with (mt_shape y) (mt_shape (handle b)) = Inr (mt_shape y)"
      by (simp add: broadcast_with_def y(3) bb(2))
    from bb(1,2) have lb: "length (mt_data (handle b)) = j" by (simp add: mt_wf_def)
    have "Linear_call (CMod (cpp_api dev k)) l x
        = Inr (from_handle (y\<lparr>mt_data := map ?f [0..<n * j]\<rparr>) False)"
      using dispatch_binary_shape [OF y(2) bb(3) mt_wf_contiguous [OF bb(1)] sh, of "(+)"] y(1)
      by (simp add: Linear_call_def Some Tensor_add_def wrap_def binary_kernel_def len) (simp add: cpp_api_def)
    moreover have "?f (r * j + c) = (\<Sum>q<i. xs ! (r * i + q) * ws ! (c * i + q))
        + (if r = 0 then mt_data (handle b) ! c else past_end dev (mt_data (handle b)) (r * j + c))"
      if "r < n" "c < j" for r c
      using that pos [OF that] yd [OF that] by (cases r) (simp_all add: read_buffer_def len lb)
    ultimately show ?thesis using pos y(3) by (simp add: Some)
  qed
qed


definition square_kernels :: kernels where
  "square_kernels = plain_kernels\<lparr>k_matmul := (\<lambda>a b _ _.
     Inr (a\<lparr>mt_data := row_products (mt_data a) (mt_data b) 2 2 2\<rparr>))\<rparr>"

definition sample_square :: "real list \<Rightarrow> mntensor" where
  "sample_square xs = \<lparr>mt_shape = [2, 2], mt_strides = [2, 1], mt_dtype = Float32, mt_data = xs\<rparr>"

definition sample_bias :: mntensor where
  "sample_bias = \<lparr>mt_shape = [2], mt_strides = [1], mt_dtype = Float32, mt_data = [10, 20]\<rparr>"

definition sample_linear :: "mntensor linear" where
  "sample_linear = \<lparr>l_in = 2, l_out = 2, l_weight = from_handle (sample_square [1, 0, 0, 1]) False,
     l_bias = Some (from_handle sample_bias False)\<rparr>"

lemma sample_square_ok: "length xs = 4 \<Longrightarrow> computable plain_device (sample_square xs)"
  by (simp add: computable_def sample_square_def mt_wf_def fits_def contiguous_strides_Cons s64_id u32_max_def)

lemma sample_bias_ok: "mt_wf sample_bias"
  by (simp add: sample_bias_def mt_wf_def fits_def contiguous_strides_Cons s64_id)

theorem linear_forward_witness:
  "\<exists>u. Linear_call (CMod (cpp_api plain_device square_kernels)) sample_linear (from_handle (sample_square [1, 2, 3, 4]) False) = Inr u
     \<and> mt_data (handle u) ! 0 = 11 \<and> mt_data (handle u) ! 1 = 22
     \<and> mt_data (handle u) ! 2 = 3 \<and> mt_data (handle u) ! 3 = 4"
proof -
  let ?x = "from_handle (sample_square [1, 2, 3, 4]) False :: mntensor tensor"
  let ?y = "sample_square (row_products [1, 2, 3, 4] [1, 0, 0, 1] 2 2 2)"
  have y: "k_matmul square_kernels (handle ?x) (handle (l_weight sample_linear)) False True = Inr ?y"
    by (simp add: square_kernels_def sample_square_def sample_linear_def)
  have ok: "computable plain_device ?y" by (rule sample_square_ok) (simp add: row_products_def)
  have "\<exists>u. Linear_call (CMod (cpp_api plain_device square_kernels)) sample_linear ?x = Inr u
      \<and> mt_shape (handle u) = [int 2, int 2]
      \<and> (\<forall>r < 2. \<forall>c < 2. mt_data (handle u) ! (r * 2 + c) = (\<Sum>q<2. [1, 2, 3, 4] ! (r * 2 + q) * [1, 0, 0, 1] ! (c * 2 + q))
        + (case l_bias sample_linear of None \<Rightarrow> 0
           | Some b \<Rightarrow> if r = 0 then mt_data (handle b) ! c else past_end plain_device (mt_data (handle b)) (r * 2 + c)))"
    by (rule linear_forward [OF y ok]) (auto simp: sample_square_def sample_linear_def sample_bias_ok, auto simp: sample_bias_def)
  then obtain u where u: "Linear_call (CMod (cpp_api plain_device square_kernels)) sample_linear ?x = Inr u"
    and v: "\<And>r c. r < 2 \<Longrightarrow> c < 2 \<Longrightarrow> mt_data (handle u) ! (r * 2 + c) = (\<Sum>q<2. [1, 2, 3, 4] ! (r * 2 + q) * [1, 0, 0, 1] ! (c * 2 + q))
        + (if r = 0 then [10, 20] ! c else 0)"
    by (auto simp: sample_linear_def sample_bias_def)
  from v [of 0 0] v [of 0 1] v [of 1 0] v [of 1 1] u show ?thesis by (simp add: numeral_2_eq_2 numeral_3_eq_3)
qed

end
