(* ===== verification/HeapManager.thy ===== *)
theory HeapManager
  imports Prelude "HOL-Library.Multiset"
begin

text \<open>
  \<^verbatim>\<open>src/memory/heap_manager.mm\<close>: the pool of Metal heaps from which the allocator takes its
  blocks. Sizes are \<open>size_t\<close> values, written as natural numbers with the wrap-around where a
  sum can pass \<open>2^64\<close>; the counters are integers, of which the program keeps the value modulo
  \<open>2^64\<close>. What Metal decides is a parameter: whether it creates a heap of some
  capacity and whether it makes a buffer of some size. It is an argument of each operation, and
  the runs of \<open>HeapRefinement\<close> and \<open>AllocatorProps\<close> take another for every request. A heap object has an identity, which
  Metal never gives twice; 0 stands for a cleared reference.
\<close>

section \<open>Sizes\<close>

datatype storage_mode = Shared | Private

definition page_size :: nat where
  "page_size = 16384"

text \<open>Rounding up to a multiple of the page size, with the mask as a division.\<close>

definition align_to_page :: "nat \<Rightarrow> nat" where
  "align_to_page n = ((n + page_size - 1) mod 2 ^ 64) div page_size * page_size"

definition heap_size_for_alloc :: "nat \<Rightarrow> nat" where
  "heap_size_for_alloc aligned =
     (if aligned < 1024 * 1024 then 4 * 1024 * 1024
      else if aligned \<le> 16 * 1024 * 1024 then 64 * 1024 * 1024
      else align_to_page (max (256 * 1024 * 1024) aligned))"

section \<open>State\<close>

record region =
  r_off :: nat
  r_size :: nat

record heap_entry =
  he_heap :: nat
  he_capacity :: nat
  he_mode :: storage_mode
  he_free :: "region list"
  he_count :: int

record heap_mgr =
  hm_heaps :: "heap_entry list"
  hm_total :: int
  hm_allocated :: int
  hm_count :: int
  hm_next :: nat

record heap_block =
  hb_off :: nat
  hb_size :: nat
  hb_index :: nat
  hb_heap :: nat

record metal =
  new_heap_ok :: "nat \<Rightarrow> storage_mode \<Rightarrow> bool"
  new_buffer_ok :: "nat \<Rightarrow> bool"

definition new_manager :: heap_mgr where
  "new_manager = \<lparr>hm_heaps = [], hm_total = 0, hm_allocated = 0, hm_count = 0, hm_next = 1\<rparr>"

section \<open>Best fit\<close>

text \<open>
  The free blocks of the mode in the order of the two loops, each with its heap index, its
  position and its size; the scan keeps the first block of least waste and stops at a block
  that fits exactly.
\<close>

definition candidates :: "heap_entry list \<Rightarrow> storage_mode \<Rightarrow> (nat \<times> nat \<times> nat) list" where
  "candidates hs mode = concat (map (\<lambda>(hi, e).
     if he_mode e \<noteq> mode then [] else map (\<lambda>(bi, fb). (hi, bi, r_size fb)) (enumerate 0 (he_free e)))
     (enumerate 0 hs))"

fun best_fit_scan :: "nat \<Rightarrow> (nat \<times> nat \<times> nat) list \<Rightarrow> (nat \<times> nat \<times> nat) option \<Rightarrow> (nat \<times> nat) option" where
  "best_fit_scan n [] best = map_option (\<lambda>(hi, bi, w). (hi, bi)) best"
| "best_fit_scan n ((hi, bi, sz) # cs) best =
     (if n \<le> sz \<and> sz - n < (case best of None \<Rightarrow> 2 ^ 64 - 1 | Some (_, _, w) \<Rightarrow> w)
      then if sz - n = 0 then Some (hi, bi) else best_fit_scan n cs (Some (hi, bi, sz - n))
      else best_fit_scan n cs best)"

definition find_best_fit :: "heap_entry list \<Rightarrow> nat \<Rightarrow> storage_mode \<Rightarrow> (nat \<times> nat) option" where
  "find_best_fit hs n mode = best_fit_scan n (candidates hs mode) None"

section \<open>Allocation\<close>

definition create_heap :: "metal \<Rightarrow> nat \<Rightarrow> storage_mode \<Rightarrow> (heap_mgr, nat) st" where
  "create_heap M capacity mode = (\<lambda>s.
     if \<not> new_heap_ok M capacity mode then (raise NativeError ''HeapManager: failed to create MTLHeap'', s)
     else (Inr (length (hm_heaps s)),
       s\<lparr>hm_heaps := hm_heaps s @
            [\<lparr>he_heap = hm_next s, he_capacity = capacity, he_mode = mode,
              he_free = [\<lparr>r_off = 0, r_size = capacity\<rparr>], he_count = 0\<rparr>],
         hm_total := hm_total s + int capacity, hm_next := Suc (hm_next s)\<rparr>))"

text \<open>The free list after \<open>n\<close> bytes were taken from its block at position \<open>bi\<close>.\<close>

definition take_from :: "region list \<Rightarrow> nat \<Rightarrow> nat \<Rightarrow> region list" where
  "take_from fs bi n =
     (let fb = fs ! bi in
      if r_size fb > n then fs[bi := \<lparr>r_off = r_off fb + n, r_size = r_size fb - n\<rparr>]
      else take bi fs @ drop (Suc bi) fs)"

text \<open>
  The block is taken off the free list before the buffer is made; when Metal gives no buffer
  the exception leaves the list without the block.
\<close>

definition sub_allocate :: "metal \<Rightarrow> nat \<Rightarrow> nat \<times> nat \<Rightarrow> (heap_mgr, heap_block) st" where
  "sub_allocate M n hb = (case hb of (hi, bi) \<Rightarrow> (\<lambda>s.
     let e = hm_heaps s ! hi;
         off = r_off (he_free e ! bi);
         e1 = e\<lparr>he_free := take_from (he_free e) bi n\<rparr>
     in if \<not> new_buffer_ok M n
        then (raise NativeError ''HeapManager: MTLHeap newBufferWithLength returned nil'',
              s\<lparr>hm_heaps := (hm_heaps s)[hi := e1]\<rparr>)
        else (Inr \<lparr>hb_off = off, hb_size = n, hb_index = hi, hb_heap = he_heap e\<rparr>,
              s\<lparr>hm_heaps := (hm_heaps s)[hi := e1\<lparr>he_count := he_count e + 1\<rparr>],
                hm_allocated := hm_allocated s + int n, hm_count := hm_count s + 1\<rparr>)))"

definition hm_allocate :: "metal \<Rightarrow> nat \<Rightarrow> storage_mode \<Rightarrow> (heap_mgr, heap_block) st" where
  "hm_allocate M n mode =
     (if n = 0 then raiseS NativeError ''HeapManager::allocate: size must be > 0''
      else (\<lambda>s. (case find_best_fit (hm_heaps s) (align_to_page n) mode of
          Some hb \<Rightarrow> sub_allocate M (align_to_page n) hb
        | None \<Rightarrow> bindS (create_heap M (heap_size_for_alloc (align_to_page n)) mode) (\<lambda>hi.
            sub_allocate M (align_to_page n) (hi, 0))) s))"

section \<open>Deallocation\<close>

fun merge_regions :: "region \<Rightarrow> region list \<Rightarrow> region list" where
  "merge_regions prev [] = [prev]"
| "merge_regions prev (fb # rs) =
     (if r_off prev + r_size prev = r_off fb
      then merge_regions (prev\<lparr>r_size := r_size prev + r_size fb\<rparr>) rs
      else prev # merge_regions fb rs)"

definition coalesce :: "region list \<Rightarrow> region list" where
  "coalesce fs = (if length fs < 2 then fs
     else case sort_key r_off fs of [] \<Rightarrow> [] | f # rs \<Rightarrow> merge_regions f rs)"

definition hm_deallocate :: "heap_block \<Rightarrow> (heap_mgr, unit) st" where
  "hm_deallocate b = (\<lambda>s.
     if \<not> hb_index b < length (hm_heaps s) then (raise NativeError ''HeapManager::deallocate: invalid heap_index'', s)
     else let e = hm_heaps s ! hb_index b in
       (Inr (), s\<lparr>hm_heaps := (hm_heaps s)[hb_index b :=
           e\<lparr>he_free := coalesce (he_free e @ [\<lparr>r_off = hb_off b, r_size = hb_size b\<rparr>]), he_count := he_count e - 1\<rparr>],
         hm_allocated := hm_allocated s - int (hb_size b), hm_count := hm_count s - 1\<rparr>))"

definition release_empty_heaps :: "heap_mgr \<Rightarrow> heap_mgr" where
  "release_empty_heaps s = s\<lparr>hm_heaps := filter (\<lambda>e. he_count e \<noteq> 0) (hm_heaps s),
     hm_total := fold (\<lambda>e t. if he_count e = 0 then t - int (he_capacity e) else t) (hm_heaps s) (hm_total s)\<rparr>"

section \<open>Lemmas: sizes\<close>

lemma align_to_page_spec:
  assumes "n < 2 ^ 64 - page_size"
  shows "n \<le> align_to_page n" "align_to_page n < n + page_size" "page_size dvd align_to_page n"
proof -
  have "(n + page_size - 1) mod 2 ^ 64 = n + page_size - 1"
    using assms by (simp add: page_size_def)
  then show "n \<le> align_to_page n" "align_to_page n < n + page_size" "page_size dvd align_to_page n"
    by (simp_all add: align_to_page_def page_size_def)
qed

lemma heap_size_fits: "n < 2 ^ 64 - page_size \<Longrightarrow> n \<le> heap_size_for_alloc n"
  using align_to_page_spec(1) [of "max (256 * 1024 * 1024) n"]
  by (auto simp: heap_size_for_alloc_def page_size_def max_def split: if_splits)

section \<open>Regions that tile a heap\<close>

text \<open>How many regions of a list contain a byte; a heap is tiled when every byte is in one.\<close>

definition in_region :: "nat \<Rightarrow> region \<Rightarrow> bool" where
  "in_region x r \<longleftrightarrow> r_off r \<le> x \<and> x < r_off r + r_size r"

definition cover :: "region list \<Rightarrow> nat \<Rightarrow> nat" where
  "cover rs x = length (filter (in_region x) rs)"

text \<open>Without \<open>full\<close>, bytes may be in no region: those of a block that was lost.\<close>

definition tiles :: "bool \<Rightarrow> nat \<Rightarrow> region list \<Rightarrow> bool" where
  "tiles full cap rs \<longleftrightarrow> (\<forall>r \<in> set rs. 0 < r_size r)
     \<and> (\<forall>x. if full then cover rs x = (if x < cap then 1 else 0) else cover rs x \<le> (if x < cap then 1 else 0))"

lemma cover_simps [simp]:
  "cover [] x = 0"
  "cover (r # rs) x = (if in_region x r then 1 else 0) + cover rs x"
  "cover (rs @ ss) x = cover rs x + cover ss x"
  by (simp_all add: cover_def)

lemma cover_mset: "mset rs = mset ss \<Longrightarrow> cover rs x = cover ss x"
  unfolding cover_def by (metis mset_filter size_mset)

lemma cover_update: "i < length rs \<Longrightarrow> cover rs x = (if in_region x (rs ! i) then 1 else 0) + cover (take i rs @ drop (Suc i) rs) x"
proof -
  assume "i < length rs"
  then have "cover rs x = cover (take i rs @ rs ! i # drop (Suc i) rs) x"
    by (intro arg_cong [where f = "\<lambda>l. cover l x"] id_take_nth_drop)
  then show ?thesis by (simp only: cover_simps)
qed

lemma cover_merge: "cover (merge_regions r rs) x = cover (r # rs) x"
  by (induction r rs rule: merge_regions.induct) (auto simp: in_region_def)

lemma merge_pos: "\<forall>s \<in> set (r # rs). 0 < r_size s \<Longrightarrow> \<forall>s \<in> set (merge_regions r rs). 0 < r_size s"
  by (induction r rs rule: merge_regions.induct) auto

lemma cover_coalesce: "cover (coalesce fs) x = cover fs x"
proof (cases "sort_key r_off fs")
  case Nil
  then have "mset fs = {#}" by (metis mset.simps(1) mset_sort)
  then show ?thesis by (simp add: coalesce_def)
next
  case (Cons f rs)
  then have "mset fs = mset (f # rs)" by (metis mset_sort)
  then show ?thesis using Cons by (simp add: coalesce_def cover_merge cover_mset [of fs "f # rs"])
qed

lemma coalesce_pos:
  assumes "\<forall>s \<in> set fs. 0 < r_size s"
  shows "\<forall>s \<in> set (coalesce fs). 0 < r_size s"
proof (cases "sort_key r_off fs")
  case Nil
  then show ?thesis using assms by (auto simp: coalesce_def)
next
  case (Cons f rs)
  then have e: "coalesce fs = (if length fs < 2 then fs else merge_regions f rs)" by (simp add: coalesce_def)
  have "set (f # rs) = set fs" by (metis Cons set_sort)
  then have "\<forall>s \<in> set (merge_regions f rs). 0 < r_size s" using assms merge_pos [of f rs] by blast
  then show ?thesis using assms by (simp add: e)
qed

text \<open>Taking \<open>n\<close> bytes from a free block: together with the new block the cover is as before.\<close>

lemma cover_take_from:
  assumes "bi < length fs" "0 < n" "n \<le> r_size (fs ! bi)"
  shows "cover (take_from fs bi n) x + (if in_region x \<lparr>r_off = r_off (fs ! bi), r_size = n\<rparr> then 1 else 0) = cover fs x"
proof (cases "n < r_size (fs ! bi)")
  case True
  let ?r = "\<lparr>r_off = r_off (fs ! bi) + n, r_size = r_size (fs ! bi) - n\<rparr>"
  have "take_from fs bi n = fs[bi := ?r]" using True by (simp add: take_from_def Let_def)
  moreover have "cover (fs[bi := ?r]) x = (if in_region x ?r then 1 else 0) + cover (take bi fs @ drop (Suc bi) fs) x"
    using assms(1) cover_update [of bi "fs[bi := ?r]" x] by simp
  ultimately show ?thesis using True cover_update [OF assms(1), of x] by (auto simp: in_region_def)
next
  case False
  then have "take_from fs bi n = take bi fs @ drop (Suc bi) fs" by (simp add: take_from_def Let_def)
  then show ?thesis using False assms(3) cover_update [OF assms(1), of x] by (auto simp: in_region_def)
qed

lemma take_from_pos:
  assumes "bi < length fs" "\<forall>s \<in> set fs. 0 < r_size s"
  shows "\<forall>s \<in> set (take_from fs bi n). 0 < r_size s"
proof (cases "n < r_size (fs ! bi)")
  case True
  then show ?thesis using assms
    by (auto simp: take_from_def Let_def dest!: set_update_subset_insert [THEN subsetD])
next
  case False
  then show ?thesis using assms(2) by (auto simp: take_from_def Let_def dest: in_set_takeD in_set_dropD)
qed

text \<open>Two regions of a tiled heap that share a byte are the same entry.\<close>

lemma cover_two:
  assumes "i < j" "j < length rs" "in_region x (rs ! i)" "in_region x (rs ! j)"
  shows "2 \<le> cover rs x"
proof -
  have "cover rs x = 1 + cover (take i rs @ drop (Suc i) rs) x" using cover_update [of i rs x] assms by simp
  moreover have "rs ! j \<in> set (drop (Suc i) rs)" using assms by (auto simp: in_set_conv_nth intro!: exI [of _ "j - Suc i"])
  then have "1 \<le> cover (drop (Suc i) rs) x"
    using assms(4) by (auto simp: cover_def Suc_le_eq length_greater_0_conv filter_empty_conv)
  ultimately show ?thesis by simp
qed

lemma tiles_disjoint:
  assumes "tiles full cap rs" "i < length rs" "j < length rs" "i \<noteq> j" "in_region x (rs ! i)"
  shows "\<not> in_region x (rs ! j)"
proof
  assume "in_region x (rs ! j)"
  then have "2 \<le> cover rs x" using assms cover_two [of i j rs x] cover_two [of j i rs x] by (cases "i < j") auto
  moreover have "cover rs x \<le> 1"
    using assms(1) le_trans [of "cover rs x" "if x < cap then 1 else 0" 1] by (cases full) (auto simp: tiles_def)
  ultimately show False by simp
qed

lemma tiles_same:
  assumes "tiles full cap rs" "\<And>x. cover ss x = cover rs x" "\<forall>r \<in> set ss. 0 < r_size r"
  shows "tiles full cap ss"
  using assms by (simp add: tiles_def)

lemma tiles_less:
  assumes "tiles full cap rs" "\<And>x. cover ss x \<le> cover rs x" "\<forall>r \<in> set ss. 0 < r_size r"
  shows "tiles False cap ss"
proof -
  have "cover rs x \<le> (if x < cap then 1 else 0)" for x using assms(1) by (cases full) (simp_all add: tiles_def)
  then have "cover ss x \<le> (if x < cap then 1 else 0)" for x using assms(2) le_trans by blast
  then show ?thesis using assms(3) by (simp only: tiles_def if_False) blast
qed

lemma tiles_weaken: "tiles full cap rs \<Longrightarrow> tiles False cap rs"
  by (rule tiles_less [of full cap rs]) (auto simp: tiles_def)

section \<open>Best fit is best\<close>

lemma candidates_iff:
  "(hi, bi, sz) \<in> set (candidates hs mode) \<longleftrightarrow>
     hi < length hs \<and> he_mode (hs ! hi) = mode \<and> bi < length (he_free (hs ! hi)) \<and> sz = r_size (he_free (hs ! hi) ! bi)"
proof
  assume "(hi, bi, sz) \<in> set (candidates hs mode)"
  then show "hi < length hs \<and> he_mode (hs ! hi) = mode \<and> bi < length (he_free (hs ! hi)) \<and> sz = r_size (he_free (hs ! hi) ! bi)"
    by (auto simp: candidates_def in_set_enumerate_eq split: if_splits)
next
  assume a: "hi < length hs \<and> he_mode (hs ! hi) = mode \<and> bi < length (he_free (hs ! hi)) \<and> sz = r_size (he_free (hs ! hi) ! bi)"
  then have "(hi, hs ! hi) \<in> set (enumerate 0 hs)" "(bi, he_free (hs ! hi) ! bi) \<in> set (enumerate 0 (he_free (hs ! hi)))"
    by (simp_all add: in_set_enumerate_eq)
  then show "(hi, bi, sz) \<in> set (candidates hs mode)" using a by (force simp: candidates_def)
qed

definition threshold :: "(nat \<times> nat \<times> nat) option \<Rightarrow> nat" where
  "threshold best = (case best of None \<Rightarrow> 2 ^ 64 - 1 | Some (_, _, w) \<Rightarrow> w)"

lemma best_fit_scan_Cons:
  "best_fit_scan n ((hi, bi, sz) # cs) best =
     (if n \<le> sz \<and> sz - n < threshold best
      then if sz - n = 0 then Some (hi, bi) else best_fit_scan n cs (Some (hi, bi, sz - n))
      else best_fit_scan n cs best)"
  by (simp add: threshold_def)

declare best_fit_scan.simps(2) [simp del]

lemma best_fit_scan_Some:
  "best_fit_scan n cs best = Some (hi, bi) \<Longrightarrow>
   \<exists>w. (best = Some (hi, bi, w) \<or> (hi, bi, n + w) \<in> set cs) \<and> w \<le> threshold best
     \<and> (\<forall>h b sz. (h, b, sz) \<in> set cs \<longrightarrow> n \<le> sz \<longrightarrow> w \<le> sz - n)"
proof (induction cs arbitrary: best)
  case Nil
  then show ?case by (auto simp: threshold_def)
next
  case (Cons c cs)
  obtain h b sz where c: "c = (h, b, sz)" by (cases c)
  note eq = Cons.prems [unfolded c best_fit_scan_Cons]
  consider (exact) "n \<le> sz" "sz - n < threshold best" "sz - n = 0"
    | (better) "n \<le> sz" "sz - n < threshold best" "sz - n \<noteq> 0"
    | (worse) "\<not> (n \<le> sz \<and> sz - n < threshold best)" by blast
  then show ?case
  proof cases
    case exact
    then have "h = hi" "b = bi" "sz = n" using eq by simp_all
    then show ?thesis by (intro exI [of _ 0]) (simp add: c)
  next
    case better
    then have "best_fit_scan n cs (Some (h, b, sz - n)) = Some (hi, bi)" using eq by simp
    from Cons.IH [OF this] obtain w where w: "Some (h, b, sz - n) = Some (hi, bi, w) \<or> (hi, bi, n + w) \<in> set cs"
      "w \<le> sz - n" "\<forall>h b sz. (h, b, sz) \<in> set cs \<longrightarrow> n \<le> sz \<longrightarrow> w \<le> sz - n" by (auto simp: threshold_def)
    then show ?thesis using better c by (intro exI [of _ w]) auto
  next
    case worse
    then have "best_fit_scan n cs best = Some (hi, bi)" using eq by (simp only: if_False)
    from Cons.IH [OF this] obtain w where w: "best = Some (hi, bi, w) \<or> (hi, bi, n + w) \<in> set cs"
      "w \<le> threshold best" "\<forall>h b sz. (h, b, sz) \<in> set cs \<longrightarrow> n \<le> sz \<longrightarrow> w \<le> sz - n" by blast
    then show ?thesis using worse c by (intro exI [of _ w]) auto
  qed
qed

lemma best_fit_scan_None:
  "best_fit_scan n cs best = None \<Longrightarrow>
   best = None \<and> (\<forall>h b sz. (h, b, sz) \<in> set cs \<longrightarrow> n \<le> sz \<longrightarrow> 2 ^ 64 - 1 \<le> sz - n)"
proof (induction cs arbitrary: best)
  case (Cons c cs)
  obtain h b sz where c: "c = (h, b, sz)" by (cases c)
  have worse: "\<not> (n \<le> sz \<and> sz - n < threshold best)" and eq: "best_fit_scan n cs best = None"
    using Cons.prems Cons.IH [of "Some (h, b, sz - n)"] by (auto simp: c best_fit_scan_Cons split: if_splits)
  from Cons.IH [OF eq] worse show ?case by (auto simp: c threshold_def)
qed simp

text \<open>
  The block chosen is free, in a heap of the mode, large enough, and of the least size among the
  large enough free blocks of that mode.
\<close>

definition free_block :: "heap_entry list \<Rightarrow> storage_mode \<Rightarrow> nat \<Rightarrow> nat \<Rightarrow> region \<Rightarrow> bool" where
  "free_block hs mode hi bi r \<longleftrightarrow> hi < length hs \<and> he_mode (hs ! hi) = mode \<and> bi < length (he_free (hs ! hi))
     \<and> r = he_free (hs ! hi) ! bi"

lemma find_best_fit_Some:
  assumes "find_best_fit hs n mode = Some (hi, bi)"
  shows "\<exists>r. free_block hs mode hi bi r \<and> n \<le> r_size r
    \<and> (\<forall>hi' bi' r'. free_block hs mode hi' bi' r' \<longrightarrow> n \<le> r_size r' \<longrightarrow> r_size r \<le> r_size r')"
proof -
  from best_fit_scan_Some [OF assms [unfolded find_best_fit_def]] obtain w where
    w: "(hi, bi, n + w) \<in> set (candidates hs mode)"
    "\<forall>h b sz. (h, b, sz) \<in> set (candidates hs mode) \<longrightarrow> n \<le> sz \<longrightarrow> w \<le> sz - n" by blast
  have "r_size (he_free (hs ! hi) ! bi) \<le> r_size r'"
    if "free_block hs mode hi' bi' r'" "n \<le> r_size r'" for hi' bi' r'
  proof -
    have "(hi', bi', r_size r') \<in> set (candidates hs mode)" using that(1) by (simp add: candidates_iff free_block_def)
    then have "w \<le> r_size r' - n" using w(2) that(2) by blast
    moreover have "r_size (he_free (hs ! hi) ! bi) = n + w" using w(1) by (simp add: candidates_iff)
    ultimately show ?thesis using that(2) by linarith
  qed
  then show ?thesis using w(1) by (intro exI [of _ "he_free (hs ! hi) ! bi"]) (auto simp: candidates_iff free_block_def)
qed

lemma find_best_fit_None:
  assumes "find_best_fit hs n mode = None" "0 < n" "free_block hs mode hi bi r" "r_size r < 2 ^ 64"
  shows "r_size r < n"
proof (rule ccontr)
  assume "\<not> r_size r < n"
  moreover have "(hi, bi, r_size r) \<in> set (candidates hs mode)" using assms(3) by (simp add: candidates_iff free_block_def)
  ultimately have "2 ^ 64 - 1 \<le> r_size r - n"
    using best_fit_scan_None [OF assms(1) [unfolded find_best_fit_def]] by auto
  then show False using assms(2,4) by simp
qed

section \<open>The invariant\<close>

text \<open>
  \<open>outs\<close> are the blocks handed out. In every heap the free regions and the blocks with its index
  tile it, and the counters count the blocks.
\<close>

definition blk :: "heap_block \<Rightarrow> region" where
  "blk b = \<lparr>r_off = hb_off b, r_size = hb_size b\<rparr>"

definition outs_at :: "nat \<Rightarrow> heap_block list \<Rightarrow> heap_block list" where
  "outs_at i outs = filter (\<lambda>b. hb_index b = i) outs"

definition entry_ok :: "bool \<Rightarrow> heap_entry \<Rightarrow> heap_block list \<Rightarrow> bool" where
  "entry_ok full e outs \<longleftrightarrow> tiles full (he_capacity e) (he_free e @ map blk outs)
     \<and> he_count e = int (length outs) \<and> (\<forall>b \<in> set outs. hb_heap b = he_heap e)"

definition heaps_ok :: "heap_mgr \<Rightarrow> bool" where
  "heaps_ok s \<longleftrightarrow> distinct (map he_heap (hm_heaps s)) \<and> (\<forall>e \<in> set (hm_heaps s). he_heap e < hm_next s)"

definition hm_inv :: "bool \<Rightarrow> heap_mgr \<Rightarrow> heap_block list \<Rightarrow> bool" where
  "hm_inv full s outs \<longleftrightarrow> heaps_ok s
     \<and> (\<forall>i < length (hm_heaps s). entry_ok full (hm_heaps s ! i) (outs_at i outs))
     \<and> (\<forall>b \<in> set outs. hb_index b < length (hm_heaps s))
     \<and> hm_allocated s = (\<Sum>b\<leftarrow>outs. int (hb_size b)) \<and> hm_count s = int (length outs)"

lemma outs_at_simps [simp]:
  "outs_at i [] = []"
  "outs_at i (b # bs) = (if hb_index b = i then b # outs_at i bs else outs_at i bs)"
  by (simp_all add: outs_at_def)

lemma new_manager_inv: "hm_inv full new_manager []"
  by (simp add: hm_inv_def heaps_ok_def new_manager_def)

lemma create_heap_inv:
  assumes "hm_inv full s outs" "create_heap M cap mode s = (Inr hi, s')" "0 < cap"
  shows "hm_inv full s' outs" "free_block (hm_heaps s') mode hi 0 \<lparr>r_off = 0, r_size = cap\<rparr>"
proof -
  let ?e = "\<lparr>he_heap = hm_next s, he_capacity = cap, he_mode = mode, he_free = [\<lparr>r_off = 0, r_size = cap\<rparr>], he_count = 0\<rparr>"
  have s': "hm_heaps s' = hm_heaps s @ [?e]" "hm_next s' = Suc (hm_next s)" "hm_allocated s' = hm_allocated s"
    "hm_count s' = hm_count s" and hi: "hi = length (hm_heaps s)"
    using assms(2) by (auto simp: create_heap_def split: if_splits)
  have none: "outs_at hi outs = []" using assms(1) by (auto simp: hm_inv_def outs_at_def hi filter_empty_conv)
  have "entry_ok full ?e []" using assms(3) by (simp add: entry_ok_def tiles_def in_region_def)
  then have "entry_ok full (hm_heaps s' ! i) (outs_at i outs)" if "i < length (hm_heaps s')" for i
    using that assms(1) none by (cases "i < hi") (auto simp: hm_inv_def s' hi nth_append less_Suc_eq)
  moreover have "heaps_ok s'" using assms(1) by (force simp: hm_inv_def heaps_ok_def s' less_Suc_eq)
  ultimately show "hm_inv full s' outs" using assms(1) by (auto simp: hm_inv_def s' less_Suc_eq)
  show "free_block (hm_heaps s') mode hi 0 \<lparr>r_off = 0, r_size = cap\<rparr>" by (simp add: free_block_def s' hi)
qed

lemma create_heap_fails: "create_heap M cap mode s = (Inl e, s') \<Longrightarrow> s' = s"
  by (auto simp: create_heap_def split: if_splits)

text \<open>One heap entry replaced by another with the same heap object.\<close>

lemma heaps_ok_update:
  "heaps_ok s \<Longrightarrow> i < length (hm_heaps s) \<Longrightarrow> he_heap e = he_heap (hm_heaps s ! i) \<Longrightarrow> hm_next s' = hm_next s \<Longrightarrow>
   hm_heaps s' = (hm_heaps s)[i := e] \<Longrightarrow> heaps_ok s'"
proof -
  assume a: "heaps_ok s" "i < length (hm_heaps s)" "he_heap e = he_heap (hm_heaps s ! i)" "hm_next s' = hm_next s"
    "hm_heaps s' = (hm_heaps s)[i := e]"
  have "map he_heap (hm_heaps s') = map he_heap (hm_heaps s)"
    unfolding a(5) map_update a(3) using a(2) by (metis list_update_id nth_map)
  then have "distinct (map he_heap (hm_heaps s'))" using a(1) by (simp add: heaps_ok_def)
  moreover have "\<forall>x \<in> set (hm_heaps s'). he_heap x < hm_next s'"
    using a by (auto simp: heaps_ok_def dest!: set_update_subset_insert [THEN subsetD])
  ultimately show "heaps_ok s'" by (simp add: heaps_ok_def)
qed

lemma sub_allocate_ok:
  assumes inv: "hm_inv full s outs" and free: "free_block (hm_heaps s) mode hi bi r" "n \<le> r_size r" "0 < n"
    and run: "sub_allocate M n (hi, bi) s = (Inr b, s')"
  shows "hm_inv full s' (b # outs)" "hb_size b = n" "hb_index b = hi"
    "b \<notin> set outs" "length (hm_heaps s') = length (hm_heaps s)"
proof -
  let ?e = "hm_heaps s ! hi"
  let ?e' = "?e\<lparr>he_free := take_from (he_free ?e) bi n, he_count := he_count ?e + 1\<rparr>"
  have hi: "hi < length (hm_heaps s)" "bi < length (he_free ?e)" "n \<le> r_size (he_free ?e ! bi)"
    using free by (auto simp: free_block_def)
  have b: "b = \<lparr>hb_off = r_off (he_free ?e ! bi), hb_size = n, hb_index = hi, hb_heap = he_heap ?e\<rparr>"
    and s': "hm_heaps s' = (hm_heaps s)[hi := ?e']" "hm_next s' = hm_next s"
      "hm_allocated s' = hm_allocated s + int n" "hm_count s' = hm_count s + 1"
    using run by (auto simp: sub_allocate_def Let_def split: if_splits)
  show "hb_size b = n" "hb_index b = hi" "length (hm_heaps s') = length (hm_heaps s)" by (simp_all add: b s')
  have ok: "entry_ok full ?e (outs_at hi outs)" using inv hi(1) by (simp add: hm_inv_def)
  have cov: "cover (take_from (he_free ?e) bi n @ map blk (b # outs_at hi outs)) x
      = cover (he_free ?e @ map blk (outs_at hi outs)) x" for x
    using cover_take_from [OF hi(2) free(3) hi(3), of x] by (simp add: b blk_def)
  have pos: "\<forall>q \<in> set (he_free ?e @ map blk (outs_at hi outs)). 0 < r_size q" using ok by (simp add: entry_ok_def tiles_def)
  then have "\<forall>q \<in> set (take_from (he_free ?e) bi n @ map blk (b # outs_at hi outs)). 0 < r_size q"
    using take_from_pos [OF hi(2), of n] free(3) by (auto simp: b blk_def)
  then have "entry_ok full ?e' (b # outs_at hi outs)"
    using ok tiles_same [OF _ cov] by (auto simp: entry_ok_def b)
  then have "entry_ok full (hm_heaps s' ! i) (outs_at i (b # outs))" if "i < length (hm_heaps s')" for i
    using inv that by (cases "i = hi") (auto simp: hm_inv_def s' b)
  moreover have "heaps_ok s'"
    by (rule heaps_ok_update [OF _ hi(1) _ s'(2,1)]) (use inv in \<open>simp_all add: hm_inv_def\<close>)
  ultimately show "hm_inv full s' (b # outs)" using inv hi(1) by (auto simp: hm_inv_def s' b)
  show "b \<notin> set outs"
  proof
    assume "b \<in> set outs"
    then have "blk b \<in> set (map blk (outs_at hi outs))" by (auto simp: outs_at_def b)
    then have "1 \<le> cover (map blk (outs_at hi outs)) (hb_off b)"
      using free(3) by (auto simp: cover_def Suc_le_eq filter_empty_conv in_region_def blk_def b)
    moreover have "1 \<le> cover (he_free ?e) (hb_off b)"
      using hi(2,3) free(3) by (auto simp: cover_def Suc_le_eq filter_empty_conv in_region_def b intro!: bexI [OF _ nth_mem])
    moreover have "cover (he_free ?e) (hb_off b) + cover (map blk (outs_at hi outs)) (hb_off b) \<le> 1"
      using ok by (cases full) (auto simp: entry_ok_def tiles_def dest: spec [of _ "hb_off b"] split: if_splits)
    ultimately show False by linarith
  qed
qed

text \<open>When Metal makes no buffer, the block is lost: the heap is no longer tiled fully.\<close>

lemma sub_allocate_fails:
  assumes inv: "hm_inv full s outs" and free: "free_block (hm_heaps s) mode hi bi r" "n \<le> r_size r" "0 < n"
    and run: "sub_allocate M n (hi, bi) s = (Inl e, s')"
  shows "hm_inv False s' outs"
proof -
  let ?e = "hm_heaps s ! hi"
  let ?e' = "?e\<lparr>he_free := take_from (he_free ?e) bi n\<rparr>"
  have hi: "hi < length (hm_heaps s)" "bi < length (he_free ?e)" "n \<le> r_size (he_free ?e ! bi)"
    using free by (auto simp: free_block_def)
  have s': "hm_heaps s' = (hm_heaps s)[hi := ?e']" "hm_next s' = hm_next s"
      "hm_allocated s' = hm_allocated s" "hm_count s' = hm_count s"
    using run by (auto simp: sub_allocate_def Let_def split: if_splits)
  note weak = tiles_weaken
  have ok: "entry_ok full ?e (outs_at hi outs)" using inv hi(1) by (simp add: hm_inv_def)
  have "cover (take_from (he_free ?e) bi n @ map blk (outs_at hi outs)) x \<le> cover (he_free ?e @ map blk (outs_at hi outs)) x" for x
    using cover_take_from [OF hi(2) free(3) hi(3), of x] by simp
  moreover have "\<forall>q \<in> set (take_from (he_free ?e) bi n @ map blk (outs_at hi outs)). 0 < r_size q"
    using ok take_from_pos [OF hi(2), of n] by (auto simp: entry_ok_def tiles_def)
  ultimately have "entry_ok False ?e' (outs_at hi outs)"
    using ok tiles_less by (auto simp: entry_ok_def)
  then have "entry_ok False (hm_heaps s' ! i) (outs_at i outs)" if "i < length (hm_heaps s')" for i
    using inv that weak by (cases "i = hi") (auto simp: hm_inv_def entry_ok_def s')
  moreover have "heaps_ok s'"
    by (rule heaps_ok_update [OF _ hi(1) _ s'(2,1)]) (use inv in \<open>simp_all add: hm_inv_def\<close>)
  ultimately show ?thesis using inv hi(1) by (auto simp: hm_inv_def s')
qed

text \<open>\<open>allocate\<close>: the block is at least as large as asked, and disjoint from all others.\<close>

lemma hm_allocate_ok:
  assumes inv: "hm_inv full s outs" and n: "0 < n" "n \<le> 2 ^ 63" and run: "hm_allocate M n mode s = (Inr b, s')"
  shows "hm_inv full s' (b # outs)" "n \<le> hb_size b" "b \<notin> set outs" "length (hm_heaps s) \<le> length (hm_heaps s')"
proof -
  let ?n = "align_to_page n"
  have al: "n \<le> ?n" "?n < 2 ^ 64 - page_size" using align_to_page_spec(1,2) [of n] n by (simp_all add: page_size_def)
  then have n0: "0 < ?n" using n(1) by simp
  have "hm_inv full s' (b # outs) \<and> hb_size b = ?n \<and> b \<notin> set outs \<and> length (hm_heaps s) \<le> length (hm_heaps s')"
  proof (cases "find_best_fit (hm_heaps s) ?n mode")
    case None
    then obtain hi s1 where c: "create_heap M (heap_size_for_alloc ?n) mode s = (Inr hi, s1)"
      and r: "sub_allocate M ?n (hi, 0) s1 = (Inr b, s')"
      using run n(1) by (auto simp: hm_allocate_def bindS_def split: prod.splits sum.splits)
    have cap: "?n \<le> heap_size_for_alloc ?n" by (rule heap_size_fits [OF al(2)])
    have "0 < heap_size_for_alloc ?n" using cap n0 by simp
    note c' = create_heap_inv [OF inv c this]
    have "length (hm_heaps s) \<le> length (hm_heaps s1)" using c by (auto simp: create_heap_def split: if_splits)
    then show ?thesis using sub_allocate_ok [OF c'(1,2) _ n0 r] cap by simp
  next
    case (Some hb)
    obtain hi bi where hb: "hb = (hi, bi)" by (cases hb)
    from find_best_fit_Some [OF Some [unfolded hb]] obtain q where
      q: "free_block (hm_heaps s) mode hi bi q" "?n \<le> r_size q" by blast
    have "sub_allocate M ?n (hi, bi) s = (Inr b, s')" using run n(1) Some by (simp add: hm_allocate_def hb)
    from sub_allocate_ok [OF inv q n0 this] show ?thesis by simp
  qed
  then show "hm_inv full s' (b # outs)" "n \<le> hb_size b" "b \<notin> set outs" "length (hm_heaps s) \<le> length (hm_heaps s')"
    using al(1) by auto
qed

lemma hm_inv_weaken: "hm_inv full s outs \<Longrightarrow> hm_inv False s outs"
  unfolding hm_inv_def entry_ok_def using tiles_weaken by blast

lemma hm_allocate_fails:
  assumes inv: "hm_inv full s outs" and n: "0 < n" "n \<le> 2 ^ 63" and run: "hm_allocate M n mode s = (Inl e, s')"
  shows "hm_inv False s' outs"
proof -
  let ?n = "align_to_page n"
  have al: "n \<le> ?n" "?n < 2 ^ 64 - page_size" using align_to_page_spec(1,2) [of n] n by (simp_all add: page_size_def)
  then have n0: "0 < ?n" using n(1) by simp
  have cap: "?n \<le> heap_size_for_alloc ?n" by (rule heap_size_fits [OF al(2)])
  show ?thesis
  proof (cases "find_best_fit (hm_heaps s) ?n mode")
    case None
    then consider (no_heap) "create_heap M (heap_size_for_alloc ?n) mode s = (Inl e, s')"
      | (no_buffer) hi s1 where "create_heap M (heap_size_for_alloc ?n) mode s = (Inr hi, s1)"
        "sub_allocate M ?n (hi, 0) s1 = (Inl e, s')"
      using run n(1) by (auto simp: hm_allocate_def bindS_def split: prod.splits sum.splits)
    then show ?thesis
    proof cases
      case no_heap
      then show ?thesis using create_heap_fails hm_inv_weaken inv by blast
    next
      case no_buffer
      have "0 < heap_size_for_alloc ?n" using cap n0 by simp
      note c' = create_heap_inv [OF inv no_buffer(1) this]
      show ?thesis using sub_allocate_fails [OF c'(1,2) _ n0 no_buffer(2)] cap by simp
    qed
  next
    case (Some hb)
    obtain hi bi where hb: "hb = (hi, bi)" by (cases hb)
    from find_best_fit_Some [OF Some [unfolded hb]] obtain q where
      q: "free_block (hm_heaps s) mode hi bi q" "?n \<le> r_size q" by blast
    have "sub_allocate M ?n (hi, bi) s = (Inl e, s')" using run n(1) Some by (simp add: hm_allocate_def hb)
    from sub_allocate_fails [OF inv q n0 this] show ?thesis .
  qed
qed

text \<open>\<open>deallocate\<close> of a block that is out.\<close>

lemma length_remove1_int: "b \<in> set l \<Longrightarrow> int (length (remove1 b l)) = int (length l) - 1"
  using length_pos_if_in_set [of b l] by (simp add: length_remove1 of_nat_diff Suc_le_eq)

lemma outs_at_remove1: "outs_at i (remove1 b outs) = (if hb_index b = i then remove1 b (outs_at i outs) else outs_at i outs)"
  by (auto simp: outs_at_def filter_remove1 remove1_idem)

lemma hm_deallocate_ok:
  assumes inv: "hm_inv full s outs" and b: "b \<in> set outs"
  shows "\<exists>s'. hm_deallocate b s = (Inr (), s') \<and> hm_inv full s' (remove1 b outs) \<and> length (hm_heaps s') = length (hm_heaps s)"
proof -
  let ?i = "hb_index b"
  let ?e = "hm_heaps s ! ?i"
  let ?e' = "?e\<lparr>he_free := coalesce (he_free ?e @ [blk b]), he_count := he_count ?e - 1\<rparr>"
  let ?s' = "s\<lparr>hm_heaps := (hm_heaps s)[?i := ?e'], hm_allocated := hm_allocated s - int (hb_size b), hm_count := hm_count s - 1\<rparr>"
  have i: "?i < length (hm_heaps s)" using inv b by (simp add: hm_inv_def)
  then have run: "hm_deallocate b s = (Inr (), ?s')" by (simp add: hm_deallocate_def Let_def blk_def)
  have ok: "entry_ok full ?e (outs_at ?i outs)" using inv i by (simp add: hm_inv_def)
  have bo: "b \<in> set (outs_at ?i outs)" using b by (simp add: outs_at_def)
  have "mset (outs_at ?i outs) = mset (b # remove1 b (outs_at ?i outs))" using bo by simp
  then have mb: "mset (map blk (outs_at ?i outs)) = mset (map blk (b # remove1 b (outs_at ?i outs)))" by (metis mset_map)
  have "cover (coalesce (he_free ?e @ [blk b]) @ map blk (remove1 b (outs_at ?i outs))) x
      = cover (he_free ?e @ map blk (outs_at ?i outs)) x" for x
    using cover_mset [OF mb, of x] by (simp add: cover_coalesce)
  moreover have pos: "\<forall>q \<in> set (he_free ?e @ map blk (outs_at ?i outs)). 0 < r_size q"
    using ok by (simp add: entry_ok_def tiles_def)
  then have "\<forall>q \<in> set (coalesce (he_free ?e @ [blk b]) @ map blk (remove1 b (outs_at ?i outs))). 0 < r_size q"
  proof -
    have "\<forall>q \<in> set (he_free ?e @ [blk b]). 0 < r_size q" using pos bo by auto
    moreover have "set (map blk (remove1 b (outs_at ?i outs))) \<subseteq> set (map blk (outs_at ?i outs))"
      using set_remove1_subset [of b "outs_at ?i outs"] by auto
    ultimately show ?thesis using coalesce_pos [of "he_free ?e @ [blk b]"] pos by (simp only: set_append) blast
  qed
  ultimately have "tiles full (he_capacity ?e) (coalesce (he_free ?e @ [blk b]) @ map blk (remove1 b (outs_at ?i outs)))"
    using ok tiles_same unfolding entry_ok_def by blast
  then have "entry_ok full ?e' (remove1 b (outs_at ?i outs))"
    using ok bo set_remove1_subset [of b "outs_at ?i outs"]
    by (auto simp: entry_ok_def length_remove1_int)
  then have "entry_ok full (hm_heaps ?s' ! j) (outs_at j (remove1 b outs))" if "j < length (hm_heaps ?s')" for j
    using inv that by (cases "j = ?i") (auto simp: hm_inv_def outs_at_remove1)
  moreover have "heaps_ok ?s'"
    by (rule heaps_ok_update [OF _ i, of ?e']) (use inv in \<open>simp_all add: hm_inv_def\<close>)
  moreover have "(\<Sum>c\<leftarrow>outs. int (hb_size c)) = int (hb_size b) + (\<Sum>c\<leftarrow>remove1 b outs. int (hb_size c))"
    using b by (rule sum_list_map_remove1)
  ultimately have "hm_inv full ?s' (remove1 b outs)"
    using inv b set_remove1_subset [of b outs]
    by (auto simp: hm_inv_def length_remove1_int)
  then show ?thesis using run by auto
qed

text \<open>\<open>release_empty_heaps\<close>, when no empty heap stands before one that is in use.\<close>

definition empties_last :: "heap_mgr \<Rightarrow> bool" where
  "empties_last s \<longleftrightarrow> (\<forall>e \<in> set (dropWhile (\<lambda>e. he_count e \<noteq> 0) (hm_heaps s)). he_count e = 0)"

lemma release_ok:
  assumes inv: "hm_inv full s outs" and last: "empties_last s"
  shows "hm_inv full (release_empty_heaps s) outs"
proof -
  let ?P = "\<lambda>e :: heap_entry. he_count e \<noteq> 0"
  let ?hs = "takeWhile ?P (hm_heaps s)"
  have "filter ?P (hm_heaps s) = filter ?P ?hs @ filter ?P (dropWhile ?P (hm_heaps s))"
    by (simp only: filter_append [symmetric] takeWhile_dropWhile_id)
  moreover have "filter ?P ?hs = ?hs" by (rule filter_True) (blast dest: set_takeWhileD)
  moreover have "filter ?P (dropWhile ?P (hm_heaps s)) = []"
    by (rule filter_False) (use last [unfolded empties_last_def] in blast)
  ultimately have hs: "hm_heaps (release_empty_heaps s) = ?hs" by (simp add: release_empty_heaps_def)
  have "hb_index b < length ?hs" if b: "b \<in> set outs" for b
  proof (rule ccontr)
    let ?i = "hb_index b"
    assume n: "\<not> ?i < length ?hs"
    have i: "?i < length (hm_heaps s)" using inv b by (simp add: hm_inv_def)
    have "hm_heaps s ! ?i = (?hs @ dropWhile ?P (hm_heaps s)) ! ?i" by simp
    also have "\<dots> = dropWhile ?P (hm_heaps s) ! (?i - length ?hs)" using n by (simp only: nth_append if_False)
    finally have "hm_heaps s ! ?i = dropWhile ?P (hm_heaps s) ! (?i - length ?hs)" .
    moreover have "length (?hs @ dropWhile ?P (hm_heaps s)) = length (hm_heaps s)" by (simp only: takeWhile_dropWhile_id)
    then have "length ?hs + length (dropWhile ?P (hm_heaps s)) = length (hm_heaps s)" by (simp only: length_append)
    then have "?i - length ?hs < length (dropWhile ?P (hm_heaps s))" using i n by linarith
    ultimately have "hm_heaps s ! ?i \<in> set (dropWhile ?P (hm_heaps s))" by (simp only: nth_mem)
    then have "he_count (hm_heaps s ! ?i) = 0" using last unfolding empties_last_def by blast
    moreover have "entry_ok full (hm_heaps s ! ?i) (outs_at ?i outs)" using inv i by (simp add: hm_inv_def)
    ultimately have "outs_at ?i outs = []" by (simp add: entry_ok_def)
    then show False using b unfolding outs_at_def filter_empty_conv by blast
  qed
  moreover have "heaps_ok (release_empty_heaps s)"
    using inv by (auto simp: hm_inv_def heaps_ok_def release_empty_heaps_def distinct_map_filter)
  moreover have "length ?hs \<le> length (hm_heaps s)" by (rule length_takeWhile_le)
  ultimately show ?thesis
    using inv unfolding hm_inv_def hs by (auto simp: takeWhile_nth release_empty_heaps_def)
qed

text \<open>The order of the blocks does not matter.\<close>

lemma hm_inv_mset:
  assumes "mset outs = mset outs'" "hm_inv full s outs"
  shows "hm_inv full s outs'"
proof -
  have m: "mset (outs_at i outs) = mset (outs_at i outs')" for i using assms(1) by (simp add: outs_at_def mset_filter)
  have "entry_ok full e (outs_at i outs) \<longleftrightarrow> entry_ok full e (outs_at i outs')" for e i
  proof -
    have "mset (map blk (outs_at i outs)) = mset (map blk (outs_at i outs'))" by (simp add: m)
    from cover_mset [OF this] have "cover (he_free e @ map blk (outs_at i outs)) x = cover (he_free e @ map blk (outs_at i outs')) x" for x
      by simp
    moreover have "set (outs_at i outs) = set (outs_at i outs')" "length (outs_at i outs) = length (outs_at i outs')"
      using m [of i] by (metis set_mset_mset, metis size_mset)
    ultimately show ?thesis by (simp add: entry_ok_def tiles_def)
  qed
  moreover have "set outs = set outs'" "length outs = length outs'" using assms(1) by (metis set_mset_mset, metis size_mset)
  moreover have "(\<Sum>b\<leftarrow>outs. int (hb_size b)) = (\<Sum>b\<leftarrow>outs'. int (hb_size b))"
    using assms(1) by (metis mset_map sum_mset_sum_list)
  ultimately show ?thesis using assms(2) by (simp add: hm_inv_def)
qed

text \<open>Blocks that are out do not overlap.\<close>

definition overlap :: "heap_block \<Rightarrow> heap_block \<Rightarrow> bool" where
  "overlap a b \<longleftrightarrow> hb_heap a = hb_heap b \<and> hb_off a < hb_off b + hb_size b \<and> hb_off b < hb_off a + hb_size a"

lemma hm_inv_disjoint:
  assumes inv: "hm_inv full s (xs @ a # ys @ b # zs)"
  shows "\<not> overlap a b"
proof
  assume o: "overlap a b"
  let ?outs = "xs @ a # ys @ b # zs"
  have ix: "hb_index a < length (hm_heaps s)" "hb_index b < length (hm_heaps s)" using inv by (simp_all add: hm_inv_def)
  have ok: "entry_ok full (hm_heaps s ! hb_index c) (outs_at (hb_index c) ?outs)" if "c \<in> {a, b}" for c
    using inv ix that by (auto simp: hm_inv_def)
  have hp: "hb_heap c = he_heap (hm_heaps s ! hb_index c)" if "c \<in> {a, b}" for c
    using ok [OF that] that by (auto simp: entry_ok_def outs_at_def)
  have "map he_heap (hm_heaps s) ! hb_index a = map he_heap (hm_heaps s) ! hb_index b"
    using o hp [of a] hp [of b] ix by (simp add: overlap_def)
  then have same: "hb_index a = hb_index b"
    using inv ix by (simp add: hm_inv_def heaps_ok_def nth_eq_iff_index_eq del: nth_map)
  let ?x = "max (hb_off a) (hb_off b)"
  have "blk c \<in> set (he_free (hm_heaps s ! hb_index c) @ map blk (outs_at (hb_index c) ?outs))" if "c \<in> {a, b}" for c
    using that by (auto simp: outs_at_def)
  then have "0 < r_size (blk c)" if "c \<in> {a, b}" for c using ok that unfolding entry_ok_def tiles_def by blast
  from this [of a] this [of b] have ab: "in_region ?x (blk a)" "in_region ?x (blk b)"
    using o by (auto simp: overlap_def in_region_def blk_def)
  have at: "outs_at (hb_index a) ?outs = outs_at (hb_index a) xs @ a # outs_at (hb_index a) ys @ b # outs_at (hb_index a) zs"
    using same by (simp add: outs_at_def)
  have "2 \<le> cover (he_free (hm_heaps s ! hb_index a) @ map blk (outs_at (hb_index a) ?outs)) ?x"
    using ab by (simp add: at)
  moreover have "tiles full (he_capacity (hm_heaps s ! hb_index a)) (he_free (hm_heaps s ! hb_index a) @ map blk (outs_at (hb_index a) ?outs))"
    using ok [of a] by (simp add: entry_ok_def)
  then have "cover (he_free (hm_heaps s ! hb_index a) @ map blk (outs_at (hb_index a) ?outs)) ?x \<le> 1"
    unfolding tiles_def by (cases full) (auto dest!: spec [of _ ?x] split: if_splits)
  ultimately show False by linarith
qed

end
