(* ===== verification/SmartAllocator.thy ===== *)
theory SmartAllocator
  imports HeapManager
begin

text \<open>
  \<^verbatim>\<open>src/memory/allocator.mm\<close>: \<open>MetalSmartAllocator\<close>, which every tensor's buffer comes from.
  It rounds sizes to size classes, keeps freed blocks in one free list per class and storage
  mode, and takes new blocks from the heap manager. Each operation runs under the allocator's
  mutex, so a run is a sequence of operations.
\<close>

section \<open>Size classes\<close>

text \<open>
  The loop doubles a power of two in \<open>size_t\<close> until it is large enough; past \<open>2^63\<close> it wraps to
  zero and never ends, so the result is an option.
\<close>

partial_function (option) grow_pow2 :: "nat \<Rightarrow> nat \<Rightarrow> nat option" where
  "grow_pow2 p n = (if p < n then grow_pow2 ((2 * p) mod 2 ^ 64) n else Some p)"

definition min_alloc_size :: nat where
  "min_alloc_size = 64"

definition next_size_class :: "nat \<Rightarrow> nat option" where
  "next_size_class n =
     (if n \<le> min_alloc_size then Some min_alloc_size
      else case grow_pow2 min_alloc_size n of
        None \<Rightarrow> None
      | Some pow2 \<Rightarrow>
          let half = pow2 div 2; intermediate = half + half div 2 in
          if n \<le> intermediate \<and> intermediate < pow2 then Some intermediate else Some pow2)"

definition bucket_key :: "nat \<Rightarrow> storage_mode \<Rightarrow> nat" where
  "bucket_key sc mode = (2 * sc) mod 2 ^ 64 + (if mode = Private then 1 else 0)"

section \<open>State\<close>

record cached =
  cb_block :: heap_block
  cb_class :: nat
  cb_mode :: storage_mode

record allocator =
  al_heaps :: heap_mgr
  al_free :: "(nat, cached list) dict"
  al_live :: "(nat, heap_block) dict"
  al_next :: nat
  al_allocated :: int
  al_cached :: int
  al_peak :: int
  al_count :: int
  al_hits :: int
  al_misses :: int

text \<open>The handle that a caller holds; \<open>ab_buffer\<close> is \<open>None\<close> for a null buffer.\<close>

record alloc_block =
  ab_size :: nat
  ab_requested :: nat
  ab_class :: nat
  ab_mode :: storage_mode
  ab_aliasable :: bool
  ab_buffer :: "heap_block option"
  ab_id :: nat

definition new_allocator :: allocator where
  "new_allocator = \<lparr>al_heaps = new_manager, al_free = [], al_live = [], al_next = 1, al_allocated = 0, al_cached = 0,
     al_peak = 0, al_count = 0, al_hits = 0, al_misses = 0\<rparr>"

section \<open>Operations\<close>

text \<open>The block for a request: the last of the free list, or a new one from the heaps.\<close>

definition get_block :: "metal \<Rightarrow> nat \<Rightarrow> storage_mode \<Rightarrow> (allocator, heap_block) st" where
  "get_block M sc mode = (\<lambda>s. case dict_get (al_free s) (bucket_key sc mode) of
     Some (c # cs) \<Rightarrow>
       (Inr (cb_block (last (c # cs))),
        s\<lparr>al_free := dict_set (bucket_key sc mode) (butlast (c # cs)) (al_free s),
          al_cached := al_cached s - int sc, al_hits := al_hits s + 1\<rparr>)
   | _ \<Rightarrow> (case hm_allocate M sc mode (al_heaps s) of
       (Inl e, h) \<Rightarrow> (Inl e, s\<lparr>al_heaps := h\<rparr>)
     | (Inr b, h) \<Rightarrow> (Inr b, s\<lparr>al_heaps := h, al_misses := al_misses s + 1\<rparr>)))"

definition issue :: "nat \<Rightarrow> nat \<Rightarrow> storage_mode \<Rightarrow> heap_block \<Rightarrow> (allocator, alloc_block) st" where
  "issue n sc mode b = (\<lambda>s.
     (Inr \<lparr>ab_size = sc, ab_requested = n, ab_class = sc, ab_mode = mode, ab_aliasable = False, ab_buffer = Some b,
           ab_id = al_next s\<rparr>,
      s\<lparr>al_live := dict_set (al_next s) b (al_live s), al_next := Suc (al_next s), al_allocated := al_allocated s + int sc,
        al_count := al_count s + 1, al_peak := max (al_peak s) (al_allocated s + int sc)\<rparr>))"

text \<open>\<open>None\<close>: the call does not return.\<close>

definition al_allocate :: "metal \<Rightarrow> nat \<Rightarrow> storage_mode \<Rightarrow> allocator \<Rightarrow> (alloc_block res \<times> allocator) option" where
  "al_allocate M n mode s =
     (if n = 0 then Some (raise NativeError ''MetalSmartAllocator::allocate: nbytes must be > 0'', s)
      else case next_size_class n of
        None \<Rightarrow> None
      | Some sc \<Rightarrow> Some (bindS (get_block M sc mode) (issue n sc mode) s))"

text \<open>\<open>deallocate\<close> returns the cleared handle; the block goes to the free list unless it is aliasable.\<close>

definition cleared_handle :: "alloc_block \<Rightarrow> alloc_block" where
  "cleared_handle b = b\<lparr>ab_buffer := None, ab_size := 0, ab_requested := 0, ab_id := 0\<rparr>"

definition put_free :: "nat \<Rightarrow> cached \<Rightarrow> (nat, cached list) dict \<Rightarrow> (nat, cached list) dict" where
  "put_free k c d = dict_set k (dict_get_default d k [] @ [c]) d"

definition al_deallocate :: "alloc_block \<Rightarrow> (allocator, alloc_block) st" where
  "al_deallocate b = (\<lambda>s. case dict_get (al_live s) (ab_id b) of
     None \<Rightarrow> (raise NativeError ''MetalSmartAllocator::deallocate: unknown block (double free?)'', s)
   | Some hb \<Rightarrow>
       let s1 = s\<lparr>al_live := dict_del (ab_id b) (al_live s), al_allocated := al_allocated s - int (ab_size b),
                  al_count := al_count s - 1\<rparr>
       in if ab_aliasable b
          then (case hm_deallocate hb (al_heaps s1) of
              (Inl e, h) \<Rightarrow> (Inl e, s1\<lparr>al_heaps := h\<rparr>)
            | (Inr _, h) \<Rightarrow> (Inr (cleared_handle b), s1\<lparr>al_heaps := h\<rparr>))
          else (Inr (cleared_handle b),
            s1\<lparr>al_free := put_free (bucket_key (ab_class b) (ab_mode b))
                 \<lparr>cb_block = hb, cb_class = ab_class b, cb_mode = ab_mode b\<rparr> (al_free s1),
               al_cached := al_cached s1 + int (ab_size b)\<rparr>))"

definition make_aliasable :: "alloc_block \<Rightarrow> alloc_block res" where
  "make_aliasable b =
     (if ab_buffer b = None then raise NativeError ''MetalSmartAllocator::make_aliasable: block has no buffer''
      else Inr (b\<lparr>ab_aliasable := True\<rparr>))"

text \<open>
  \<open>empty_cache\<close> gives every cached block back to the heaps. The block's fields are cleared in
  the free list as it goes, which shows when a later block raises; the order of the buckets is
  that of the list here, which the hash table leaves open.
\<close>

definition cleared_block :: "heap_block \<Rightarrow> heap_block" where
  "cleared_block b = b\<lparr>hb_off := 0, hb_size := 0, hb_heap := 0\<rparr>"

fun drain_bucket :: "cached list \<Rightarrow> heap_mgr \<Rightarrow> unit res \<times> cached list \<times> heap_mgr" where
  "drain_bucket [] h = (Inr (), [], h)"
| "drain_bucket (c # cs) h = (case hm_deallocate (cb_block c) h of
     (Inl e, h1) \<Rightarrow> (Inl e, c # cs, h1)
   | (Inr _, h1) \<Rightarrow> (case drain_bucket cs h1 of (r, cs', h2) \<Rightarrow>
       (r, c\<lparr>cb_block := cleared_block (cb_block c)\<rparr> # cs', h2)))"

fun drain :: "(nat, cached list) dict \<Rightarrow> heap_mgr \<Rightarrow> unit res \<times> (nat, cached list) dict \<times> heap_mgr" where
  "drain [] h = (Inr (), [], h)"
| "drain ((k, cs) # d) h = (case drain_bucket cs h of
     (Inl e, cs', h1) \<Rightarrow> (Inl e, (k, cs') # d, h1)
   | (Inr _, cs', h1) \<Rightarrow> (case drain d h1 of (r, d', h2) \<Rightarrow> (r, (k, cs') # d', h2)))"

definition al_empty_cache :: "(allocator, unit) st" where
  "al_empty_cache = (\<lambda>s. case drain (al_free s) (al_heaps s) of
     (Inl e, d, h) \<Rightarrow> (Inl e, s\<lparr>al_free := d, al_heaps := h\<rparr>)
   | (Inr _, d, h) \<Rightarrow> (Inr (), s\<lparr>al_free := [], al_cached := 0, al_heaps := release_empty_heaps h\<rparr>))"

record alloc_stats =
  st_allocated :: int
  st_cached :: int
  st_peak :: int
  st_count :: int
  st_hits :: int
  st_misses :: int

definition al_stats :: "allocator \<Rightarrow> alloc_stats" where
  "al_stats s = \<lparr>st_allocated = al_allocated s, st_cached = al_cached s, st_peak = al_peak s, st_count = al_count s,
     st_hits = al_hits s, st_misses = al_misses s\<rparr>"

section \<open>Size classes: the loop\<close>

lemma grow_zero: "grow_pow2 0 n = Some y \<Longrightarrow> n = 0"
proof -
  have "p = 0 \<longrightarrow> n = 0" if "grow_pow2 p n = Some y" for p n y :: nat
    using that
  proof (rule grow_pow2.raw_induct [where P = "\<lambda>p n y. p = 0 \<longrightarrow> n = 0", rotated])
    fix f :: "nat \<Rightarrow> nat \<Rightarrow> nat option" and p n y :: nat
    assume "\<And>p n y. f p n = Some y \<Longrightarrow> p = 0 \<longrightarrow> n = 0" "(if p < n then f ((2 * p) mod 2 ^ 64) n else Some p) = Some y"
    then show "p = 0 \<longrightarrow> n = 0" by (cases "p < n") auto
  qed
  then show "grow_pow2 0 n = Some y \<Longrightarrow> n = 0" by blast
qed

lemma grow_zero_None: "0 < n \<Longrightarrow> grow_pow2 0 n = None"
  using grow_zero [of n] by (cases "grow_pow2 0 n") auto

text \<open>The sizes the loop runs through are \<open>64 * 2^k\<close>.\<close>

lemma grow_step: "p < n \<Longrightarrow> grow_pow2 p n = grow_pow2 ((2 * p) mod 2 ^ 64) n"
  by (subst grow_pow2.simps) simp

lemma grow_done: "n \<le> p \<Longrightarrow> grow_pow2 p n = Some p"
  by (subst grow_pow2.simps) simp

lemma grow_pow2_value:
  assumes "64 * 2 ^ k < n" "n \<le> 2 ^ 63" "k + j = 57"
  shows "\<exists>m > k. grow_pow2 (64 * 2 ^ k) n = Some (64 * 2 ^ m) \<and> n \<le> 64 * 2 ^ m \<and> 64 * 2 ^ (m - 1) < n"
  using assms
proof (induction j arbitrary: k)
  case 0
  then have "(64 :: nat) * 2 ^ k = 2 ^ 63" by simp
  then show ?case using 0 by simp
next
  case (Suc j)
  have "(2::nat) ^ Suc k \<le> 2 ^ 57" using Suc.prems(3) by (intro power_increasing) auto
  then have "64 * 2 ^ Suc k < (2 :: nat) ^ 64" by simp
  then have g: "grow_pow2 (64 * 2 ^ k) n = grow_pow2 (64 * 2 ^ Suc k) n"
    using grow_step [OF Suc.prems(1)] by (simp add: mult.left_commute)
  show ?case
  proof (cases "64 * 2 ^ Suc k < n")
    case True
    then show ?thesis using Suc.IH [of "Suc k"] Suc.prems g by (metis Suc_lessD add_Suc add_Suc_shift)
  next
    case False
    then show ?thesis using g grow_done [of n "64 * 2 ^ Suc k"] Suc.prems(1) by (intro exI [of _ "Suc k"]) simp
  qed
qed

lemma grow_pow2_wraps:
  assumes "2 ^ 63 < n" "k + j = 57"
  shows "grow_pow2 (64 * 2 ^ k) n = None"
  using assms(2)
proof (induction j arbitrary: k)
  case 0
  then have k: "64 * 2 ^ k = (2 :: nat) ^ 63" by simp
  show ?case using assms(1) grow_step [of "2 ^ 63" n] grow_zero_None [of n] by (simp add: k)
next
  case (Suc j)
  have "(2::nat) ^ Suc k \<le> 2 ^ 57" using Suc.prems by (intro power_increasing) auto
  then have b: "64 * 2 ^ Suc k < (2 :: nat) ^ 64" "64 * 2 ^ k < n" using assms(1) by simp_all
  then have "grow_pow2 (64 * 2 ^ k) n = grow_pow2 (64 * 2 ^ Suc k) n"
    using grow_step [OF b(2)] by (simp add: mult.left_commute)
  then show ?case using Suc.IH [of "Suc k"] Suc.prems by simp
qed

text \<open>The size classes: 64 and 96 times the powers of two.\<close>

definition is_class :: "nat \<Rightarrow> bool" where
  "is_class c \<longleftrightarrow> (\<exists>k. c = 64 * 2 ^ k \<or> c = 96 * 2 ^ k)"

lemma next_size_class_between:
  assumes "64 < n" "n \<le> 2 ^ 63"
  shows "\<exists>q. 64 * 2 ^ q < n \<and> n \<le> 128 * 2 ^ q
    \<and> next_size_class n = Some (if n \<le> 96 * 2 ^ q then 96 * 2 ^ q else 128 * 2 ^ q)"
proof -
  from grow_pow2_value [of 0 n 57] assms obtain m where
    m: "0 < m" "grow_pow2 64 n = Some (64 * 2 ^ m)" "n \<le> 64 * 2 ^ m" "64 * 2 ^ (m - 1) < n" by auto
  then obtain q where q: "m = Suc q" by (cases m) auto
  have h: "(64 :: nat) * 2 ^ m = 128 * 2 ^ q" "(128 * 2 ^ q :: nat) div 2 = 64 * 2 ^ q" "(64 * 2 ^ q :: nat) div 2 = 32 * 2 ^ q"
    by (simp_all add: q)
  have "next_size_class n = Some (if n \<le> 96 * 2 ^ q then 96 * 2 ^ q else 128 * 2 ^ q)"
    using assms m(2) unfolding next_size_class_def min_alloc_size_def by (simp add: Let_def h)
  then show ?thesis using m(3,4) h(1) q by auto
qed

lemma class_least:
  assumes "64 * 2 ^ q < n" "is_class d" "n \<le> d"
  shows "(if n \<le> 96 * 2 ^ q then 96 * 2 ^ q else 128 * 2 ^ q) \<le> d"
proof -
  from assms(2) obtain k where "d = 64 * 2 ^ k \<or> d = 96 * 2 ^ k" by (auto simp: is_class_def)
  then show ?thesis
  proof
    assume d: "d = 64 * 2 ^ k"
    then have "(2::nat) ^ q < 2 ^ k" using assms(1,3) by linarith
    then have "q < k" by simp
    then have "(2::nat) ^ Suc q \<le> 2 ^ k" by (intro power_increasing) auto
    then show ?thesis by (simp add: d)
  next
    assume d: "d = 96 * 2 ^ k"
    have "q \<le> k"
    proof (rule ccontr)
      assume "\<not> q \<le> k"
      then have "(2::nat) ^ Suc k \<le> 2 ^ q" by (intro power_increasing) auto
      then show False using assms(1,3) d by simp
    qed
    then have le: "(2::nat) ^ q \<le> 2 ^ k" by (intro power_increasing) auto
    show ?thesis
    proof (cases "n \<le> 96 * 2 ^ q")
      case True
      then show ?thesis using le by (simp add: d)
    next
      case False
      then have "q \<noteq> k" using assms(3) d by auto
      then have "(2::nat) ^ Suc q \<le> 2 ^ k" using \<open>q \<le> k\<close> by (intro power_increasing) auto
      then show ?thesis using False by (simp add: d)
    qed
  qed
qed

lemma is_class_between: "is_class (if b then 96 * 2 ^ q else 128 * 2 ^ q)"
proof (cases b)
  case False
  then have "(if b then 96 * 2 ^ q else 128 * 2 ^ q :: nat) = 64 * 2 ^ Suc q" by simp
  then show ?thesis unfolding is_class_def by blast
qed (auto simp: is_class_def)

lemma class_ge_64: "is_class d \<Longrightarrow> 64 \<le> d"
proof -
  assume "is_class d"
  then obtain k where "d = 64 * 2 ^ k \<or> d = 96 * 2 ^ k" by (auto simp: is_class_def)
  moreover have "(1::nat) \<le> 2 ^ k" by simp
  ultimately show ?thesis by linarith
qed

text \<open>
  C30. The allocator rounds a request to the least size class that holds it, where the classes are
  64 and 96 times the powers of two; above the least class it gives less than 3/2 of the request.
  For a request above 2**63 bytes the doubling wraps to zero and the loop never ends.
\<close>

theorem size_class_spec:
  "(n \<le> 2 ^ 63 \<longrightarrow> (\<exists>c. next_size_class n = Some c \<and> is_class c \<and> n \<le> c
      \<and> (\<forall>d. is_class d \<longrightarrow> n \<le> d \<longrightarrow> c \<le> d) \<and> (64 < n \<longrightarrow> 2 * c < 3 * n)))
   \<and> (2 ^ 63 < n \<longrightarrow> next_size_class n = None)"
proof (cases "64 < n")
  case False
  then have "next_size_class n = Some 64" by (simp add: next_size_class_def min_alloc_size_def)
  moreover have "is_class 64" unfolding is_class_def by (intro exI [of _ 0]) simp
  ultimately show ?thesis using False class_ge_64 by auto
next
  case big: True
  show ?thesis
  proof (cases "n \<le> 2 ^ 63")
    case True
    from next_size_class_between [OF big True] obtain q where q: "64 * 2 ^ q < n" "n \<le> 128 * 2 ^ q"
      "next_size_class n = Some (if n \<le> 96 * 2 ^ q then 96 * 2 ^ q else 128 * 2 ^ q)" by blast
    let ?c = "if n \<le> 96 * 2 ^ q then 96 * 2 ^ q else 128 * 2 ^ q :: nat"
    have "n \<le> ?c" "2 * ?c < 3 * n" using q(1,2) by auto
    then show ?thesis using q(3) is_class_between [of "n \<le> 96 * 2 ^ q" q] class_least [OF q(1)] True
      by (intro conjI impI exI [of _ ?c]) auto
  next
    case False
    then have "grow_pow2 64 n = None" using grow_pow2_wraps [of n 0 57] by simp
    then show ?thesis using False big by (simp add: next_size_class_def min_alloc_size_def)
  qed
qed

theorem size_class_spec_witness:
  "next_size_class 97 = Some 128 \<and> next_size_class (2 ^ 63 + 1) = None"
proof -
  obtain c where c: "next_size_class 97 = Some c" "97 \<le> c" "\<forall>d. is_class d \<longrightarrow> 97 \<le> d \<longrightarrow> c \<le> d" "is_class c"
    using size_class_spec [of 97] by auto
  have "is_class 128" unfolding is_class_def by (intro exI [of _ 1]) simp
  then have "c \<le> 128" using c(3) by simp
  moreover obtain k where k: "c = 64 * 2 ^ k \<or> c = 96 * 2 ^ k" using c(4) by (auto simp: is_class_def)
  have "c = 128"
  proof (cases k)
    case 0
    then show ?thesis using k c(2) by auto
  next
    case (Suc j)
    show ?thesis
    proof (cases j)
      case (Suc i)
      have "c = 256 * 2 ^ i \<or> c = 384 * 2 ^ i" using k \<open>k = Suc j\<close> Suc by auto
      moreover have "(1::nat) \<le> 2 ^ i" by simp
      ultimately show ?thesis using \<open>c \<le> 128\<close> by linarith
    qed (use k \<open>k = Suc j\<close> c(2) \<open>c \<le> 128\<close> in auto)
  qed
  then show ?thesis using c(1) size_class_spec [of "2 ^ 63 + 1"] by simp
qed

end
