(* ===== verification/AllocatorProps.thy ===== *)
theory AllocatorProps
  imports SmartAllocator
begin

text \<open>
  Runs of the allocator: the statistics are right after any sequence of operations, and live
  blocks never overlap as long as emptying the cache releases no heap before one in use; when it
  does, two live blocks can share memory.
\<close>

section \<open>Runs\<close>

text \<open>
  The callers hold the handles \<open>hs\<close>, pass them back unchanged and drop one when it is freed.
  \<open>may_empty\<close> restricts the states in which \<open>empty_cache\<close> is called. Every request is
  answered by one of the Metals of \<open>Ms\<close>, so that what is granted may change during a run.
\<close>

inductive al_reach :: "metal set \<Rightarrow> (allocator \<Rightarrow> bool) \<Rightarrow> allocator \<Rightarrow> alloc_block list \<Rightarrow> bool"
  for Ms :: "metal set" and may_empty :: "allocator \<Rightarrow> bool" where
  start: "al_reach Ms may_empty new_allocator []"
| alloc: "al_reach Ms may_empty s hs \<Longrightarrow> M \<in> Ms \<Longrightarrow> al_allocate M n mode s = Some (Inr b, s') \<Longrightarrow> al_reach Ms may_empty s' (b # hs)"
| alloc_fails: "al_reach Ms may_empty s hs \<Longrightarrow> M \<in> Ms \<Longrightarrow> al_allocate M n mode s = Some (Inl e, s') \<Longrightarrow> al_reach Ms may_empty s' hs"
| mark_aliasable: "al_reach Ms may_empty s (xs @ b # ys) \<Longrightarrow> make_aliasable b = Inr b' \<Longrightarrow> al_reach Ms may_empty s (xs @ b' # ys)"
| free: "al_reach Ms may_empty s (xs @ b # ys) \<Longrightarrow> al_deallocate b s = (r, s') \<Longrightarrow> al_reach Ms may_empty s' (xs @ ys)"
| empty: "al_reach Ms may_empty s hs \<Longrightarrow> may_empty s \<Longrightarrow> al_empty_cache s = (r, s') \<Longrightarrow> al_reach Ms may_empty s' hs"

section \<open>Free lists as multisets\<close>

definition all_cached :: "(nat, cached list) dict \<Rightarrow> cached list" where
  "all_cached d = concat (map snd d)"

lemma mset_all_cached_set:
  "mset (all_cached (dict_set k cs d)) + mset (dict_get_default d k []) = mset (all_cached d) + mset cs"
  by (induction d) (auto simp: all_cached_def dict_get_default_def dict_get_def ac_simps)

lemma put_free_cached: "mset (all_cached (put_free k c d)) = add_mset c (mset (all_cached d))"
  using mset_all_cached_set [of k "dict_get_default d k [] @ [c]" d] by (simp add: put_free_def ac_simps)

lemma take_free_cached:
  assumes "dict_get d k = Some (c # cs)"
  shows "mset (all_cached d) = add_mset (last (c # cs)) (mset (all_cached (dict_set k (butlast (c # cs)) d)))"
proof -
  have "butlast (c # cs) @ [last (c # cs)] = c # cs" by (rule append_butlast_last_id) simp
  then have "mset (c # cs) = mset (butlast (c # cs) @ [last (c # cs)])" by (simp only:)
  then have "mset (c # cs) = add_mset (last (c # cs)) (mset (butlast (c # cs)))"
    by (simp only: mset_append mset.simps union_mset_add_mset_right add_0_right)
  moreover have "mset (all_cached (dict_set k (butlast (c # cs)) d)) + mset (c # cs) = mset (all_cached d) + mset (butlast (c # cs))"
    using mset_all_cached_set [of k "butlast (c # cs)" d] assms by (simp only: dict_get_default_def option.case)
  ultimately show ?thesis by simp
qed

lemma in_all_cached: "c \<in> set (all_cached d) \<longleftrightarrow> (\<exists>k cs. (k, cs) \<in> set d \<and> c \<in> set cs)"
  by (force simp: all_cached_def)

lemma dict_set_entry: "(k', v') \<in> set (dict_set k v d) \<Longrightarrow> (k' = k \<and> v' = v) \<or> (k', v') \<in> set d"
  by (induction d) (auto split: if_splits)

lemma dict_get_entry: "dict_get d k = Some v \<Longrightarrow> (k, v) \<in> set d"
  by (auto simp: dict_get_def dest: map_of_SomeD)

lemma dict_del_values:
  assumes "dict_wf d" "dict_get d k = Some v"
  shows "mset (map snd d) = add_mset v (mset (map snd (dict_del k d)))"
  using assms
proof (induction d)
  case (Cons kv d)
  obtain k' v' where kv: "kv = (k', v')" by (cases kv)
  show ?case
  proof (cases "k' = k")
    case True
    then have "dict_del k d = d" using Cons.prems(1) by (force simp: kv dict_del_def dict_wf_def filter_id_conv)
    then show ?thesis using Cons.prems(2) True by (simp add: kv dict_del_def dict_get_def)
  next
    case False
    then show ?thesis using Cons by (simp add: kv dict_del_def dict_get_def dict_wf_def)
  qed
qed (simp add: dict_get_def)

lemma dict_set_fresh: "\<not> dict_has d k \<Longrightarrow> dict_set k v d = d @ [(k, v)]"
  by (induction d) (auto simp: dict_has_def)

section \<open>Buckets\<close>

definition valid_class :: "nat \<Rightarrow> bool" where
  "valid_class c \<longleftrightarrow> 64 \<le> c \<and> c \<le> 2 ^ 63"

lemma next_size_class_valid: "next_size_class n = Some c \<Longrightarrow> valid_class c \<and> n \<le> c"
proof -
  assume c: "next_size_class n = Some c"
  have two: "is_class (2 ^ 63)" unfolding is_class_def by (intro exI [of _ 57]) simp
  show ?thesis
  proof (cases "64 < n")
    case False
    then show ?thesis using c by (simp add: next_size_class_def min_alloc_size_def valid_class_def)
  next
    case big: True
    show ?thesis
    proof (cases "n \<le> 2 ^ 63")
      case True
      from next_size_class_between [OF big True] obtain q where q: "64 * 2 ^ q < n" "n \<le> 128 * 2 ^ q"
        "next_size_class n = Some (if n \<le> 96 * 2 ^ q then 96 * 2 ^ q else 128 * 2 ^ q)" by blast
      have "c = (if n \<le> 96 * 2 ^ q then 96 * 2 ^ q else 128 * 2 ^ q)" using c q(3) by simp
      then show ?thesis using class_least [OF q(1) two True] q(2) big by (auto simp: valid_class_def)
    next
      case False
      then have "grow_pow2 64 n = None" using grow_pow2_wraps [of n 0 57] by simp
      then show ?thesis using c big by (simp add: next_size_class_def min_alloc_size_def)
    qed
  qed
qed

lemma bucket_key_inj:
  assumes "valid_class a" "valid_class b" "bucket_key a m = bucket_key b m'"
  shows "a = b"
proof -
  have v: "2 * c mod 18446744073709551616 = (if c = 2 ^ 63 then 0 else 2 * c)" if "valid_class c" for c :: nat
    using that by (auto simp: valid_class_def)
  have k: "bucket_key c m div 2 = (if c = 2 ^ 63 then 0 else c)" if "valid_class c" for c m
    by (cases m) (simp_all add: bucket_key_def v [OF that])
  have "bucket_key a m div 2 = bucket_key b m' div 2" using assms(3) by simp
  then show ?thesis using assms(1,2) by (auto simp: k valid_class_def split: if_splits)
qed

section \<open>The statistics\<close>

text \<open>Every cached block is in the bucket of its class and mode.\<close>

definition buckets_ok :: "(nat, cached list) dict \<Rightarrow> bool" where
  "buckets_ok d \<longleftrightarrow> (\<forall>(k, cs) \<in> set d. \<forall>c \<in> set cs. valid_class (cb_class c) \<and> k = bucket_key (cb_class c) (cb_mode c))"

definition handle_ok :: "allocator \<Rightarrow> alloc_block \<Rightarrow> bool" where
  "handle_ok s h \<longleftrightarrow> ab_id h < al_next s \<and> ab_size h = ab_class h \<and> valid_class (ab_class h) \<and> ab_requested h \<le> ab_class h
     \<and> dict_has (al_live s) (ab_id h)"

definition stats_inv :: "allocator \<Rightarrow> alloc_block list \<Rightarrow> bool" where
  "stats_inv s hs \<longleftrightarrow> dict_wf (al_live s) \<and> distinct (map ab_id hs)
     \<and> (\<forall>k. dict_has (al_live s) k \<longrightarrow> k < al_next s) \<and> (\<forall>h \<in> set hs. handle_ok s h)
     \<and> buckets_ok (al_free s)
     \<and> al_allocated s = (\<Sum>h\<leftarrow>hs. int (ab_size h)) \<and> al_count s = int (length hs) \<and> al_allocated s \<le> al_peak s
     \<and> al_cached s = (\<Sum>c\<leftarrow>all_cached (al_free s). int (cb_class c))"

lemma sum_mset_eq: "mset xs = mset ys \<Longrightarrow> (\<Sum>x\<leftarrow>xs. f x :: int) = (\<Sum>x\<leftarrow>ys. f x)"
  by (metis mset_map sum_mset_sum_list)

lemma buckets_ok_Cons:
  "buckets_ok ((k, cs) # d) \<longleftrightarrow> (\<forall>c \<in> set cs. valid_class (cb_class c) \<and> k = bucket_key (cb_class c) (cb_mode c)) \<and> buckets_ok d"
  by (simp add: buckets_ok_def)

lemma buckets_ok_set:
  assumes "buckets_ok d" "\<forall>c \<in> set cs. valid_class (cb_class c) \<and> k = bucket_key (cb_class c) (cb_mode c)"
  shows "buckets_ok (dict_set k cs d)"
  using assms dict_set_entry [of _ _ k cs d] unfolding buckets_ok_def by fastforce

lemma buckets_ok_get: "buckets_ok d \<Longrightarrow> dict_get d k = Some cs \<Longrightarrow> c \<in> set cs \<Longrightarrow> valid_class (cb_class c) \<and> k = bucket_key (cb_class c) (cb_mode c)"
  using dict_get_entry unfolding buckets_ok_def by fastforce

lemma get_block_stats:
  assumes inv: "stats_inv s hs" and sc: "valid_class sc" and run: "get_block M sc mode s = (r, s')"
  shows "stats_inv s' hs" "al_live s' = al_live s" "al_next s' = al_next s"
proof -
  let ?k = "bucket_key sc mode"
  have "stats_inv s' hs \<and> al_live s' = al_live s \<and> al_next s' = al_next s"
  proof (cases "\<exists>c cs. dict_get (al_free s) ?k = Some (c # cs)")
    case True
    then obtain c cs where g: "dict_get (al_free s) ?k = Some (c # cs)" by blast
    let ?d = "dict_set ?k (butlast (c # cs)) (al_free s)"
    have s': "s' = s\<lparr>al_free := ?d, al_cached := al_cached s - int sc, al_hits := al_hits s + 1\<rparr>"
      using run g by (simp add: get_block_def)
    have all: "valid_class (cb_class x) \<and> ?k = bucket_key (cb_class x) (cb_mode x)" if "x \<in> set (c # cs)" for x
      using inv g that buckets_ok_get unfolding stats_inv_def by blast
    have "last (c # cs) \<in> set (c # cs)" by (rule last_in_set) simp
    from all [OF this] have cl: "cb_class (last (c # cs)) = sc" using bucket_key_inj sc by metis
    have "buckets_ok ?d" using inv all by (intro buckets_ok_set) (auto simp: stats_inv_def dest: in_set_butlastD)
    moreover have "(\<Sum>x\<leftarrow>all_cached (al_free s). int (cb_class x)) = (\<Sum>x\<leftarrow>last (c # cs) # all_cached ?d. int (cb_class x))"
      using take_free_cached [OF g] by (intro sum_mset_eq) simp
    ultimately show ?thesis using inv cl by (simp add: stats_inv_def s' handle_ok_def del: dict_set.simps)
  next
    case False
    then have "get_block M sc mode s = (case hm_allocate M sc mode (al_heaps s) of
       (Inl e, h) \<Rightarrow> (Inl e, s\<lparr>al_heaps := h\<rparr>)
     | (Inr b, h) \<Rightarrow> (Inr b, s\<lparr>al_heaps := h, al_misses := al_misses s + 1\<rparr>))"
      by (auto simp: get_block_def split: option.splits list.splits)
    then show ?thesis using run inv
      by (auto simp: stats_inv_def handle_ok_def split: prod.splits sum.splits)
  qed
  then show "stats_inv s' hs" "al_live s' = al_live s" "al_next s' = al_next s" by auto
qed

lemma issue_stats:
  assumes inv: "stats_inv s hs" and sc: "valid_class sc" "n \<le> sc" and run: "issue n sc mode b s = (r, s')"
  shows "\<exists>h. r = Inr h \<and> stats_inv s' (h # hs)"
proof -
  have fresh: "al_next s \<notin> ab_id ` set hs" using inv by (auto simp: stats_inv_def handle_ok_def)
  have nl: "\<not> dict_has (al_live s) (al_next s)" using inv by (auto simp: stats_inv_def)
  let ?h = "\<lparr>ab_size = sc, ab_requested = n, ab_class = sc, ab_mode = mode, ab_aliasable = False, ab_buffer = Some b,
    ab_id = al_next s\<rparr>"
  have r: "r = Inr ?h" and s': "al_live s' = dict_set (al_next s) b (al_live s)" "al_next s' = Suc (al_next s)"
    "al_allocated s' = al_allocated s + int sc" "al_count s' = al_count s + 1" "al_free s' = al_free s"
    "al_peak s' = max (al_peak s) (al_allocated s + int sc)" "al_cached s' = al_cached s"
    using run by (auto simp: issue_def)
  have has: "dict_has (al_live s') k \<longleftrightarrow> k = al_next s \<or> dict_has (al_live s) k" for k
    by (simp add: s' dict_has_get dict_get_set)
  have "handle_ok s' h" if "handle_ok s h" for h using that unfolding handle_ok_def has s'(2) by auto
  moreover have "handle_ok s' ?h" using sc unfolding handle_ok_def has s'(2) by simp
  moreover have "dict_wf (al_live s')" unfolding s'(1) using inv by (intro dict_wf_set) (simp add: stats_inv_def)
  moreover have "\<forall>k. dict_has (al_live s') k \<longrightarrow> k < al_next s'" using inv unfolding has s'(2) stats_inv_def by (auto simp: less_Suc_eq)
  ultimately have "stats_inv s' (?h # hs)" using inv fresh by (simp add: stats_inv_def s')
  then show ?thesis using r by blast
qed

lemma al_allocate_stats:
  assumes inv: "stats_inv s hs" and run: "al_allocate M n mode s = Some (r, s')"
  shows "case r of Inr b \<Rightarrow> stats_inv s' (b # hs) | Inl e \<Rightarrow> stats_inv s' hs"
proof (cases "n = 0")
  case True
  then show ?thesis using assms by (auto simp: al_allocate_def raise_def)
next
  case False
  then obtain sc where sc: "next_size_class n = Some sc" "bindS (get_block M sc mode) (issue n sc mode) s = (r, s')"
    using run by (auto simp: al_allocate_def split: option.splits)
  note v = next_size_class_valid [OF sc(1)]
  obtain r1 s1 where g: "get_block M sc mode s = (r1, s1)" by fastforce
  note i1 = get_block_stats(1) [OF inv conjunct1 [OF v] g]
  show ?thesis
  proof (cases r1)
    case (Inl e)
    then show ?thesis using sc(2) g i1 by (auto simp: bindS_def)
  next
    case (Inr b)
    then have "issue n sc mode b s1 = (r, s')" using sc(2) g by (simp add: bindS_def)
    from issue_stats [OF i1 conjunct1 [OF v] conjunct2 [OF v] this] show ?thesis by auto
  qed
qed

lemma handle_ok_other:
  "handle_ok s h \<Longrightarrow> ab_id h \<noteq> k \<Longrightarrow> al_next s' = al_next s \<Longrightarrow> al_live s' = dict_del k (al_live s) \<Longrightarrow> handle_ok s' h"
  by (auto simp: handle_ok_def dict_has_get dict_get_del)

lemma al_deallocate_stats:
  assumes inv: "stats_inv s (xs @ b # ys)" and run: "al_deallocate b s = (r, s')"
  shows "stats_inv s' (xs @ ys)"
proof -
  have hb: "handle_ok s b" using inv by (simp add: stats_inv_def)
  then obtain blk where g: "dict_get (al_live s) (ab_id b) = Some blk" by (auto simp: handle_ok_def dict_has_get)
  have others: "ab_id h \<noteq> ab_id b" if "h \<in> set (xs @ ys)" for h
  proof -
    have "distinct (map ab_id xs @ ab_id b # map ab_id ys)" using inv by (simp add: stats_inv_def)
    then have "ab_id b \<notin> ab_id ` set (xs @ ys)" by auto
    then show ?thesis using that by (metis imageI)
  qed
  have s': "al_live s' = dict_del (ab_id b) (al_live s)" "al_next s' = al_next s"
    "al_allocated s' = al_allocated s - int (ab_size b)" "al_count s' = al_count s - 1" "al_peak s' = al_peak s"
    "(al_free s' = al_free s \<and> al_cached s' = al_cached s)
     \<or> (al_free s' = put_free (bucket_key (ab_class b) (ab_mode b)) \<lparr>cb_block = blk, cb_class = ab_class b, cb_mode = ab_mode b\<rparr> (al_free s)
        \<and> al_cached s' = al_cached s + int (ab_size b))"
    using run g by (auto simp: al_deallocate_def Let_def split: if_splits prod.splits sum.splits)
  have free: "buckets_ok (al_free s') \<and> al_cached s' = (\<Sum>c\<leftarrow>all_cached (al_free s'). int (cb_class c))"
    using s'(6)
  proof
    assume f: "al_free s' = put_free (bucket_key (ab_class b) (ab_mode b)) \<lparr>cb_block = blk, cb_class = ab_class b, cb_mode = ab_mode b\<rparr> (al_free s)
        \<and> al_cached s' = al_cached s + int (ab_size b)"
    let ?k = "bucket_key (ab_class b) (ab_mode b)" and ?c = "\<lparr>cb_block = blk, cb_class = ab_class b, cb_mode = ab_mode b\<rparr>"
    have old: "\<forall>c \<in> set (dict_get_default (al_free s) ?k []). valid_class (cb_class c) \<and> ?k = bucket_key (cb_class c) (cb_mode c)"
    proof (cases "dict_get (al_free s) ?k")
      case (Some cs)
      have "buckets_ok (al_free s)" using inv by (simp add: stats_inv_def)
      from buckets_ok_get [OF this Some] show ?thesis using Some by (simp add: dict_get_default_def)
    qed (simp add: dict_get_default_def)
    have "buckets_ok (al_free s')"
      unfolding conjunct1 [OF f] put_free_def using inv old hb by (intro buckets_ok_set) (auto simp: stats_inv_def handle_ok_def)
    moreover have "(\<Sum>c\<leftarrow>all_cached (al_free s'). int (cb_class c)) = (\<Sum>c\<leftarrow>?c # all_cached (al_free s). int (cb_class c))"
      using f put_free_cached by (intro sum_mset_eq) simp
    ultimately show ?thesis using f inv hb by (simp add: stats_inv_def handle_ok_def)
  qed (use inv in \<open>simp add: stats_inv_def\<close>)
  have "\<forall>h \<in> set (xs @ ys). handle_ok s' h"
    using inv others handle_ok_other [OF _ _ s'(2,1)] by (auto simp: stats_inv_def)
  moreover have "dict_wf (al_live s')" "\<forall>k. dict_has (al_live s') k \<longrightarrow> k < al_next s'"
    using inv dict_wf_del by (auto simp: stats_inv_def s' dict_has_get dict_get_del split: if_splits)
  ultimately show ?thesis using inv free by (auto simp: stats_inv_def s')
qed

text \<open>Draining changes neither the keys nor the classes of the free lists.\<close>

definition same_classes :: "cached list \<Rightarrow> cached list \<Rightarrow> bool" where
  "same_classes cs cs' \<longleftrightarrow> map (\<lambda>c. (cb_class c, cb_mode c)) cs = map (\<lambda>c. (cb_class c, cb_mode c)) cs'"

lemma drain_bucket_classes: "drain_bucket cs h = (r, cs', h') \<Longrightarrow> same_classes cs cs'"
proof (induction cs arbitrary: h r cs' h')
  case (Cons c cs)
  then show ?case
    by (auto simp: same_classes_def split: prod.splits sum.splits)
qed (simp add: same_classes_def)

lemma drain_classes:
  "drain d h = (r, d', h') \<Longrightarrow> buckets_ok d \<Longrightarrow>
   buckets_ok d' \<and> (\<Sum>c\<leftarrow>all_cached d'. int (cb_class c)) = (\<Sum>c\<leftarrow>all_cached d. int (cb_class c))"
proof (induction d arbitrary: h r d' h')
  case (Cons kcs d)
  obtain k cs where kcs: "kcs = (k, cs)" by (cases kcs)
  obtain r1 cs' h1 where b: "drain_bucket cs h = (r1, cs', h1)" by (metis prod_cases3)
  note sc = drain_bucket_classes [OF b, unfolded same_classes_def]
  have sum: "(\<Sum>c\<leftarrow>cs'. int (cb_class c)) = (\<Sum>c\<leftarrow>cs. int (cb_class c))"
    using arg_cong [OF sc, of "\<lambda>l. \<Sum>p\<leftarrow>l. int (fst p)"] by (simp add: comp_def)
  have "(cb_class c, cb_mode c) \<in> set (map (\<lambda>c. (cb_class c, cb_mode c)) cs)" if "c \<in> set cs'" for c
    unfolding sc using that by auto
  then have ok: "\<forall>c \<in> set cs'. valid_class (cb_class c) \<and> k = bucket_key (cb_class c) (cb_mode c)"
    using Cons.prems(2) by (fastforce simp: kcs buckets_ok_def)
  have bd: "buckets_ok d" using Cons.prems(2) by (simp add: buckets_ok_def)
  show ?case
  proof (cases r1)
    case (Inl e)
    then show ?thesis using Cons.prems(1) b ok bd sum by (auto simp: kcs buckets_ok_Cons all_cached_def)
  next
    case (Inr u)
    obtain r2 d2 h2 where d2: "drain d h1 = (r2, d2, h2)" by (metis prod_cases3)
    then have "d' = (k, cs') # d2" using Cons.prems(1) b Inr by (simp add: kcs)
    then show ?thesis using Cons.IH [OF d2 bd] ok sum by (simp add: kcs buckets_ok_Cons all_cached_def)
  qed
qed (simp add: buckets_ok_def)

lemma al_empty_cache_stats:
  assumes inv: "stats_inv s hs" and run: "al_empty_cache s = (r, s')"
  shows "stats_inv s' hs"
proof -
  obtain r1 d h where d: "drain (al_free s) (al_heaps s) = (r1, d, h)" by (metis prod_cases3)
  have "buckets_ok (al_free s)" using inv by (simp add: stats_inv_def)
  note dc = drain_classes [OF d this]
  show ?thesis
  proof (cases r1)
    case (Inl e)
    then have "s' = s\<lparr>al_free := d, al_heaps := h\<rparr>" using run d by (simp add: al_empty_cache_def)
    then show ?thesis using inv dc by (simp add: stats_inv_def handle_ok_def)
  next
    case (Inr u)
    then have "s' = s\<lparr>al_free := [], al_cached := 0, al_heaps := release_empty_heaps h\<rparr>"
      using run d by (simp add: al_empty_cache_def)
    then show ?thesis using inv by (simp add: stats_inv_def handle_ok_def buckets_ok_def all_cached_def)
  qed
qed

lemma alias_stats:
  assumes "stats_inv s (xs @ b # ys)" "make_aliasable b = Inr b'"
  shows "stats_inv s (xs @ b' # ys)"
proof -
  have "b' = b\<lparr>ab_aliasable := True\<rparr>" using assms(2) by (auto simp: make_aliasable_def split: if_splits)
  then show ?thesis using assms(1) by (simp add: stats_inv_def handle_ok_def)
qed

lemma reach_stats: "al_reach Ms may_empty s hs \<Longrightarrow> stats_inv s hs"
proof (induction rule: al_reach.induct)
  case start
  then show ?case by (simp add: stats_inv_def new_allocator_def dict_wf_def dict_has_def buckets_ok_def all_cached_def)
next
  case (alloc s hs M n mode b s')
  then show ?case using al_allocate_stats by fastforce
next
  case (alloc_fails s hs M n mode e s')
  then show ?case using al_allocate_stats by fastforce
qed (auto intro: alias_stats al_deallocate_stats al_empty_cache_stats)

section \<open>Live blocks do not overlap\<close>

text \<open>The blocks that the heaps have handed out: the live ones and the cached ones.\<close>

definition given_out :: "allocator \<Rightarrow> heap_block list" where
  "given_out s = map snd (al_live s) @ map cb_block (all_cached (al_free s))"

definition mem_inv :: "allocator \<Rightarrow> alloc_block list \<Rightarrow> bool" where
  "mem_inv s hs \<longleftrightarrow> stats_inv s hs \<and> hm_inv False (al_heaps s) (given_out s)
     \<and> (\<forall>c \<in> set (all_cached (al_free s)). cb_class c \<le> hb_size (cb_block c))
     \<and> (\<forall>h \<in> set hs. \<forall>b. dict_get (al_live s) (ab_id h) = Some b \<longrightarrow> ab_class h \<le> hb_size b)"

text \<open>
  Emptying the cache is harmless when the heaps it empties are the last ones: the indices of
  the others stay.
\<close>

definition releasable :: "allocator \<Rightarrow> bool" where
  "releasable s = empties_last (snd (snd (drain (al_free s) (al_heaps s))))"

lemma get_block_mem:
  assumes inv: "mem_inv s hs" and sc: "valid_class sc" and run: "get_block M sc mode s = (r, s')"
  shows "case r of
      Inr b \<Rightarrow> hm_inv False (al_heaps s') (b # given_out s') \<and> sc \<le> hb_size b
        \<and> (\<forall>c \<in> set (all_cached (al_free s')). cb_class c \<le> hb_size (cb_block c))
    | Inl e \<Rightarrow> mem_inv s' hs"
proof -
  let ?k = "bucket_key sc mode"
  have st: "stats_inv s' hs" "al_live s' = al_live s"
    using get_block_stats [OF _ sc run] inv unfolding mem_inv_def by blast+
  show ?thesis
  proof (cases "\<exists>c cs. dict_get (al_free s) ?k = Some (c # cs)")
    case True
    then obtain c cs where g: "dict_get (al_free s) ?k = Some (c # cs)" by blast
    let ?d = "dict_set ?k (butlast (c # cs)) (al_free s)"
    let ?l = "last (c # cs)"
    have r: "r = Inr (cb_block ?l)" and s': "al_heaps s' = al_heaps s" "al_free s' = ?d"
      using run g by (auto simp: get_block_def)
    note tk = take_free_cached [OF g]
    have "?l \<in> set (c # cs)" by (rule last_in_set) simp
    then have "valid_class (cb_class ?l) \<and> ?k = bucket_key (cb_class ?l) (cb_mode ?l)"
      using inv g buckets_ok_get unfolding mem_inv_def stats_inv_def by blast
    then have cl: "cb_class ?l = sc" using bucket_key_inj sc by metis
    have "set_mset (mset (all_cached (al_free s))) = insert ?l (set_mset (mset (all_cached ?d)))" by (simp only: tk set_mset_add_mset_insert)
    then have sub: "set (all_cached (al_free s)) = insert ?l (set (all_cached ?d))" by (simp only: set_mset_mset)
    have "mset (map cb_block (all_cached (al_free s))) = mset (map cb_block (?l # all_cached ?d))"
      using tk by (simp only: mset_map mset.simps)
    then have "mset (given_out s) = mset (cb_block ?l # given_out s')" by (simp add: given_out_def st(2) s')
    then show ?thesis using inv hm_inv_mset sub cl by (simp add: r s' mem_inv_def)
  next
    case False
    then have eq: "get_block M sc mode s = (case hm_allocate M sc mode (al_heaps s) of
       (Inl e, h) \<Rightarrow> (Inl e, s\<lparr>al_heaps := h\<rparr>)
     | (Inr b, h) \<Rightarrow> (Inr b, s\<lparr>al_heaps := h, al_misses := al_misses s + 1\<rparr>))"
      by (auto simp: get_block_def split: option.splits list.splits)
    obtain r1 h where a: "hm_allocate M sc mode (al_heaps s) = (r1, h)" by fastforce
    have hinv: "hm_inv False (al_heaps s) (given_out s)" and v: "0 < sc" "sc \<le> 2 ^ 63"
      using inv sc by (simp_all add: mem_inv_def valid_class_def)
    show ?thesis
    proof (cases r1)
      case (Inl e)
      then have "s' = s\<lparr>al_heaps := h\<rparr>" "r = Inl e" using run eq a by auto
      then show ?thesis using hm_allocate_fails [OF hinv v a [unfolded Inl]] inv st(1) by (simp add: mem_inv_def given_out_def)
    next
      case (Inr b)
      then have "s' = s\<lparr>al_heaps := h, al_misses := al_misses s + 1\<rparr>" "r = Inr b" using run eq a by auto
      then show ?thesis using hm_allocate_ok(1,2) [OF hinv v a [unfolded Inr]] inv by (simp add: mem_inv_def given_out_def)
    qed
  qed
qed

lemma al_allocate_mem:
  assumes inv: "mem_inv s hs" and run: "al_allocate M n mode s = Some (r, s')"
  shows "case r of Inr b \<Rightarrow> mem_inv s' (b # hs) | Inl e \<Rightarrow> mem_inv s' hs"
proof (cases "n = 0")
  case True
  then show ?thesis using assms by (auto simp: al_allocate_def raise_def)
next
  case False
  then obtain sc where sc: "next_size_class n = Some sc" "bindS (get_block M sc mode) (issue n sc mode) s = (r, s')"
    using run by (auto simp: al_allocate_def split: option.splits)
  note v = next_size_class_valid [OF sc(1)]
  obtain r1 s1 where g: "get_block M sc mode s = (r1, s1)" by fastforce
  note m1 = get_block_mem [OF inv conjunct1 [OF v] g]
  have st: "stats_inv s hs" using inv by (simp add: mem_inv_def)
  note g1 = get_block_stats [OF st conjunct1 [OF v] g]
  show ?thesis
  proof (cases r1)
    case (Inl e)
    then show ?thesis using sc(2) g m1 by (auto simp: bindS_def)
  next
    case (Inr b)
    then have iss: "issue n sc mode b s1 = (r, s')" using sc(2) g by (simp add: bindS_def)
    from issue_stats [OF g1(1) conjunct1 [OF v] conjunct2 [OF v] iss] obtain h where
      h: "r = Inr h" "stats_inv s' (h # hs)" by blast
    have new: "\<not> dict_has (al_live s) (al_next s)" using st by (auto simp: stats_inv_def)
    have s': "al_live s' = al_live s @ [(al_next s, b)]" "al_heaps s' = al_heaps s1" "al_free s' = al_free s1"
      "ab_id h = al_next s" "ab_class h = sc"
      using iss h(1) g1(2,3) dict_set_fresh [OF new] by (auto simp: issue_def)
    have old: "dict_get (al_live s') (ab_id x) = dict_get (al_live s) (ab_id x)" if "x \<in> set hs" for x
    proof -
      have "handle_ok s x" using that st by (simp add: stats_inv_def)
      then have "dict_has (al_live s) (ab_id x)" by (simp add: handle_ok_def)
      then show ?thesis by (auto simp: s' dict_get_def dict_has_get map_add_def split: option.splits)
    qed
    have "dict_get (al_live s') (ab_id h) = Some b"
      using new by (simp add: s' dict_get_def dict_has_get map_add_def)
    moreover have "mset (given_out s') = mset (b # given_out s1)" by (simp add: given_out_def s' g1(2))
    ultimately show ?thesis using h m1 hm_inv_mset [of "b # given_out s1" "given_out s'"] inv old
      by (simp add: Inr mem_inv_def s'(2,3,5))
  qed
qed

lemma handle_live:
  assumes "stats_inv s hs" "h \<in> set hs"
  obtains b where "dict_get (al_live s) (ab_id h) = Some b"
  using assms by (auto simp: stats_inv_def handle_ok_def dict_has_get)

lemma al_deallocate_mem:
  assumes inv: "mem_inv s (xs @ b # ys)" and run: "al_deallocate b s = (r, s')"
  shows "mem_inv s' (xs @ ys)" "r = Inr (cleared_handle b)"
proof -
  have st: "stats_inv s (xs @ b # ys)" and hm: "hm_inv False (al_heaps s) (given_out s)" using inv by (simp_all add: mem_inv_def)
  obtain hb where g: "dict_get (al_live s) (ab_id b) = Some hb" using handle_live [OF st, of b] by auto
  note st' = al_deallocate_stats [OF st run]
  have wf: "dict_wf (al_live s)" using st by (simp add: stats_inv_def)
  note dv = dict_del_values [OF wf g]
  have sz: "ab_class b \<le> hb_size hb" using inv g by (simp add: mem_inv_def)
  let ?live = "dict_del (ab_id b) (al_live s)"
  have old: "ab_class h \<le> hb_size x" if "h \<in> set (xs @ ys)" "dict_get ?live (ab_id h) = Some x" for h x
    using inv that by (auto simp: mem_inv_def dict_get_del split: if_splits)
  have out: "mset (given_out s) = add_mset hb (mset (map snd ?live @ map cb_block (all_cached (al_free s))))"
    by (simp only: given_out_def mset_append dv union_mset_add_mset_left)
  have "mem_inv s' (xs @ ys) \<and> r = Inr (cleared_handle b)"
  proof (cases "ab_aliasable b")
    case True
    have "hb \<in># mset (given_out s)" using out by simp
    then have "hb \<in> set (given_out s)" by (simp only: set_mset_mset)
    from hm_deallocate_ok [OF hm this] obtain h where h: "hm_deallocate hb (al_heaps s) = (Inr (), h)"
      "hm_inv False h (remove1 hb (given_out s))" by blast
    then have s': "al_live s' = ?live" "al_heaps s' = h" "al_free s' = al_free s" "r = Inr (cleared_handle b)"
      using run g True by (auto simp: al_deallocate_def Let_def)
    have "mset (remove1 hb (given_out s)) = mset (given_out s')" using out by (simp add: given_out_def s')
    from hm_inv_mset [OF this h(2)] show ?thesis using st' old inv by (simp add: mem_inv_def s')
  next
    case False
    let ?c = "\<lparr>cb_block = hb, cb_class = ab_class b, cb_mode = ab_mode b\<rparr>"
    have s': "al_live s' = ?live" "al_heaps s' = al_heaps s" "r = Inr (cleared_handle b)"
      "al_free s' = put_free (bucket_key (ab_class b) (ab_mode b)) ?c (al_free s)"
      using run g False by (auto simp: al_deallocate_def Let_def)
    have pf: "mset (all_cached (al_free s')) = add_mset ?c (mset (all_cached (al_free s)))"
      by (simp only: s' put_free_cached)
    then have "set_mset (mset (all_cached (al_free s'))) = insert ?c (set_mset (mset (all_cached (al_free s))))"
      by (simp only: set_mset_add_mset_insert)
    then have sub: "set (all_cached (al_free s')) = insert ?c (set (all_cached (al_free s)))" by (simp only: set_mset_mset)
    have "mset (given_out s) = mset (given_out s')" using out pf by (simp add: given_out_def s'(1))
    from hm_inv_mset [OF this hm] show ?thesis using st' old sz inv sub by (simp add: mem_inv_def s'(1-3))
  qed
  then show "mem_inv s' (xs @ ys)" "r = Inr (cleared_handle b)" by auto
qed

text \<open>Draining frees every cached block and nothing else.\<close>

lemma drain_bucket_ok:
  "hm_inv full h (map cb_block cs @ os) \<Longrightarrow> \<exists>cs' h'. drain_bucket cs h = (Inr (), cs', h') \<and> hm_inv full h' os"
proof (induction cs arbitrary: h)
  case (Cons c cs)
  from hm_deallocate_ok [OF Cons.prems, of "cb_block c"] obtain h1 where
    h1: "hm_deallocate (cb_block c) h = (Inr (), h1)" "hm_inv full h1 (map cb_block cs @ os)" by auto
  from Cons.IH [OF h1(2)] obtain cs' h' where "drain_bucket cs h1 = (Inr (), cs', h')" "hm_inv full h' os" by blast
  then show ?case using h1(1) by simp
qed simp

lemma drain_ok:
  "hm_inv full h (map cb_block (all_cached d) @ os) \<Longrightarrow> \<exists>d' h'. drain d h = (Inr (), d', h') \<and> hm_inv full h' os"
proof (induction d arbitrary: h)
  case Nil
  then show ?case by (simp add: all_cached_def)
next
  case (Cons kcs d)
  obtain k cs where kcs: "kcs = (k, cs)" by (cases kcs)
  have "hm_inv full h (map cb_block cs @ (map cb_block (all_cached d) @ os))"
    using Cons.prems by (simp add: kcs all_cached_def)
  from drain_bucket_ok [OF this] obtain cs' h1 where
    h1: "drain_bucket cs h = (Inr (), cs', h1)" "hm_inv full h1 (map cb_block (all_cached d) @ os)" by blast
  from Cons.IH [OF h1(2)] obtain d' h' where "drain d h1 = (Inr (), d', h')" "hm_inv full h' os" by blast
  then show ?case using h1(1) by (simp add: kcs)
qed

lemma al_empty_cache_mem:
  assumes inv: "mem_inv s hs" and rel: "releasable s" and run: "al_empty_cache s = (r, s')"
  shows "mem_inv s' hs" "r = Inr ()"
proof -
  have "hm_inv False (al_heaps s) (map cb_block (all_cached (al_free s)) @ map snd (al_live s))"
    by (rule hm_inv_mset [of "given_out s"]) (use inv in \<open>simp_all add: given_out_def mem_inv_def\<close>)
  from drain_ok [OF this] obtain d h where d: "drain (al_free s) (al_heaps s) = (Inr (), d, h)"
    "hm_inv False h (map snd (al_live s))" by blast
  have "hm_inv False (release_empty_heaps h) (map snd (al_live s))"
    using release_ok [OF d(2)] rel d(1) by (simp add: releasable_def)
  moreover have s': "s' = s\<lparr>al_free := [], al_cached := 0, al_heaps := release_empty_heaps h\<rparr>" "r = Inr ()"
    using run d(1) by (simp_all add: al_empty_cache_def)
  moreover have "stats_inv s' hs" using al_empty_cache_stats [OF _ run] inv by (simp add: mem_inv_def)
  ultimately show "mem_inv s' hs" "r = Inr ()"
    using inv by (simp_all add: mem_inv_def given_out_def all_cached_def)
qed

lemma alias_mem:
  assumes "mem_inv s (xs @ b # ys)" "make_aliasable b = Inr b'"
  shows "mem_inv s (xs @ b' # ys)"
proof -
  have "b' = b\<lparr>ab_aliasable := True\<rparr>" using assms(2) by (auto simp: make_aliasable_def split: if_splits)
  moreover have "stats_inv s (xs @ b # ys)" using assms(1) by (simp add: mem_inv_def)
  from alias_stats [OF this assms(2)] have "stats_inv s (xs @ b' # ys)" .
  ultimately show ?thesis using assms(1) by (simp add: mem_inv_def)
qed

lemma reach_mem: "al_reach Ms releasable s hs \<Longrightarrow> mem_inv s hs"
proof (induction rule: al_reach.induct)
  case start
  have "stats_inv new_allocator []" by (rule reach_stats [OF al_reach.start])
  then show ?case using new_manager_inv
    by (simp add: mem_inv_def given_out_def all_cached_def new_allocator_def)
next
  case (alloc s hs M n mode b s')
  then show ?case using al_allocate_mem by fastforce
next
  case (alloc_fails s hs M n mode e s')
  then show ?case using al_allocate_mem by fastforce
qed (auto intro: alias_mem al_deallocate_mem al_empty_cache_mem)

text \<open>Two different keys of a dictionary split its list of values.\<close>

lemma two_values:
  assumes "dict_get d k = Some a" "dict_get d k' = Some b" "k \<noteq> k'"
  shows "\<exists>xs ys zs. map snd d = xs @ a # ys @ b # zs \<or> map snd d = xs @ b # ys @ a # zs"
  using assms
proof (induction d)
  case (Cons kv d)
  obtain l v where kv: "kv = (l, v)" by (cases kv)
  have *: "\<exists>ys zs. map snd d = ys @ c # zs" if "dict_get d m = Some c" for m c
    using that by (force simp: dict_get_def dest!: map_of_SomeD split_list)
  show ?case
  proof (cases "l = k \<or> l = k'")
    case True
    then show ?thesis using Cons.prems * by (fastforce simp: kv dict_get_def intro: exI [of _ "[]"])
  next
    case False
    then have "dict_get d k = Some a" "dict_get d k' = Some b" using Cons.prems by (auto simp: kv dict_get_def split: if_splits)
    from Cons.IH [OF this Cons.prems(3)] obtain xs ys zs where
      "map snd d = xs @ a # ys @ b # zs \<or> map snd d = xs @ b # ys @ a # zs" by blast
    then have "map snd (kv # d) = (v # xs) @ a # ys @ b # zs \<or> map snd (kv # d) = (v # xs) @ b # ys @ a # zs"
      by (simp add: kv)
    then show ?thesis by blast
  qed
qed (simp add: dict_get_def)

lemma overlap_sym: "overlap a b = overlap b a"
  by (auto simp: overlap_def)

lemma mem_inv_disjoint:
  assumes "mem_inv s hs" "dict_get (al_live s) k = Some a" "dict_get (al_live s) k' = Some b" "k \<noteq> k'"
  shows "\<not> overlap a b"
proof -
  have hm: "hm_inv False (al_heaps s) (given_out s)" using assms(1) by (simp add: mem_inv_def)
  from two_values [OF assms(2-4)] obtain xs ys zs where
    "map snd (al_live s) = xs @ a # ys @ b # zs \<or> map snd (al_live s) = xs @ b # ys @ a # zs" by blast
  then have "hm_inv False (al_heaps s) (xs @ a # ys @ b # (zs @ map cb_block (all_cached (al_free s))))
      \<or> hm_inv False (al_heaps s) (xs @ b # ys @ a # (zs @ map cb_block (all_cached (al_free s))))"
    using hm by (auto simp: given_out_def)
  then show ?thesis using hm_inv_disjoint overlap_sym by blast
qed

section \<open>Running a list of operations\<close>

datatype alloc_op = DoAlloc nat storage_mode | DoFree nat | DoEmpty

fun do_op :: "metal \<Rightarrow> (allocator \<Rightarrow> bool) \<Rightarrow> alloc_op \<Rightarrow> allocator \<times> alloc_block list \<Rightarrow> (allocator \<times> alloc_block list) option" where
  "do_op M may_empty (DoAlloc n mode) (s, hs) = (case al_allocate M n mode s of
     None \<Rightarrow> None
   | Some (Inl e, s') \<Rightarrow> Some (s', hs)
   | Some (Inr b, s') \<Rightarrow> Some (s', b # hs))"
| "do_op M may_empty (DoFree i) (s, hs) =
     (if i < length hs then Some (snd (al_deallocate (hs ! i) s), take i hs @ drop (Suc i) hs) else None)"
| "do_op M may_empty DoEmpty (s, hs) = (if may_empty s then Some (snd (al_empty_cache s), hs) else None)"

fun do_ops :: "metal \<Rightarrow> (allocator \<Rightarrow> bool) \<Rightarrow> alloc_op list \<Rightarrow> allocator \<times> alloc_block list \<Rightarrow> (allocator \<times> alloc_block list) option" where
  "do_ops M may_empty [] c = Some c"
| "do_ops M may_empty (op # ops) c = (case do_op M may_empty op c of None \<Rightarrow> None | Some c' \<Rightarrow> do_ops M may_empty ops c')"

lemma do_op_reach:
  assumes "al_reach Ms may_empty s hs" "M \<in> Ms" "do_op M may_empty op (s, hs) = Some (s', hs')"
  shows "al_reach Ms may_empty s' hs'"
proof (cases op)
  case (DoAlloc n mode)
  then show ?thesis using assms al_reach.alloc al_reach.alloc_fails
    by (auto split: option.splits prod.splits sum.splits)
next
  case (DoFree i)
  then have i: "i < length hs" "s' = snd (al_deallocate (hs ! i) s)" "hs' = take i hs @ drop (Suc i) hs"
    using assms(3) by (auto split: if_splits)
  have "al_reach Ms may_empty s (take i hs @ hs ! i # drop (Suc i) hs)" using assms(1) id_take_nth_drop [OF i(1)] by simp
  from al_reach.free [OF this] show ?thesis by (simp add: i prod_eq_iff)
next
  case DoEmpty
  then show ?thesis using assms al_reach.empty by (auto simp: prod_eq_iff split: if_splits)
qed

lemma do_ops_reach:
  "al_reach Ms may_empty s hs \<Longrightarrow> M \<in> Ms \<Longrightarrow> do_ops M may_empty ops (s, hs) = Some (s', hs') \<Longrightarrow> al_reach Ms may_empty s' hs'"
proof (induction ops arbitrary: s hs)
  case (Cons op ops)
  then obtain s1 hs1 where "do_op M may_empty op (s, hs) = Some (s1, hs1)" "do_ops M may_empty ops (s1, hs1) = Some (s', hs')"
    by (auto split: option.splits)
  then show ?case using Cons.IH [OF do_op_reach [OF Cons.prems(1,2)] Cons.prems(2)] by simp
qed simp

definition willing_metal :: metal where
  "willing_metal = \<lparr>new_heap_ok = \<lambda>_ _. True, new_buffer_ok = \<lambda>_. True\<rparr>"

text \<open>
  The run that shares memory: the first heap is released while the second is in use, so the
  blocks of the second have a stale index; one of them is later given back to a third heap.
\<close>

definition sharing_run :: "alloc_op list" where
  "sharing_run = [DoAlloc 64 Shared, DoAlloc 64 Private, DoAlloc 64 Private, DoFree 2, DoEmpty,
     DoAlloc 64 Shared, DoAlloc 64 Shared, DoFree 3, DoEmpty, DoAlloc 64 Shared]"

definition live_of :: "(allocator \<times> alloc_block list) option \<Rightarrow> (nat \<times> heap_block option) list" where
  "live_of r = (case r of None \<Rightarrow> [] | Some (s, hs) \<Rightarrow> map (\<lambda>h. (ab_id h, dict_get (al_live s) (ab_id h))) hs)"

lemmas run_simps = al_allocate_def next_size_class_def min_alloc_size_def get_block_def bucket_key_def issue_def bindS_def
  hm_allocate_def align_to_page_def page_size_def heap_size_for_alloc_def find_best_fit_def candidates_def best_fit_scan_Cons
  threshold_def create_heap_def sub_allocate_def take_from_def al_deallocate_def hm_deallocate_def coalesce_def dict_get_def
  dict_del_def put_free_def dict_get_default_def al_empty_cache_def release_empty_heaps_def cleared_block_def
  releasable_def empties_last_def new_allocator_def new_manager_def willing_metal_def Let_def live_of_def

section \<open>Properties\<close>

text \<open>
  C9. After any sequence of allocations, frees, failures and cache emptyings, whatever Metal
  grants, the statistics are exact: the allocated bytes are the sizes of the blocks that callers
  hold, the count is their number, the cached bytes are the classes of the cached blocks, the
  peak is at least the allocated bytes, and no two callers hold the same block number. (The numbers
  are integers, of which the program's \<open>size_t\<close> counters keep the value modulo 2**64.)
\<close>

theorem allocator_stats_exact:
  assumes "al_reach Ms may_empty s hs"
  shows "st_allocated (al_stats s) = (\<Sum>h\<leftarrow>hs. int (ab_size h)) \<and> st_count (al_stats s) = int (length hs)
    \<and> st_cached (al_stats s) = (\<Sum>c\<leftarrow>all_cached (al_free s). int (cb_class c))
    \<and> st_allocated (al_stats s) \<le> st_peak (al_stats s) \<and> distinct (map ab_id hs)"
  using reach_stats [OF assms] by (simp add: stats_inv_def al_stats_def)

theorem allocator_stats_exact_witness:
  "\<exists>s hs. do_ops willing_metal (\<lambda>_. True) [DoAlloc 64 Shared, DoAlloc 10 Private, DoFree 1] (new_allocator, []) = Some (s, hs)
     \<and> st_allocated (al_stats s) = 64 \<and> st_count (al_stats s) = 1"
proof -
  obtain s hs where r: "do_ops willing_metal (\<lambda>_. True) [DoAlloc 64 Shared, DoAlloc 10 Private, DoFree 1] (new_allocator, []) = Some (s, hs)"
    "map ab_size hs = [64]" by (simp add: run_simps)
  from allocator_stats_exact [OF do_ops_reach [OF al_reach.start singletonI r(1)]] r show ?thesis by (cases hs) auto
qed

text \<open>
  C2. As long as the cache is only emptied when the heaps that become empty are the last ones, two
  blocks that callers hold never overlap in memory, each is at least as large as was asked, and
  freeing one always succeeds.
\<close>

theorem live_blocks_disjoint:
  assumes "al_reach Ms releasable s hs" "h \<in> set hs" "h' \<in> set hs" "ab_id h \<noteq> ab_id h'"
  shows "\<exists>a b. dict_get (al_live s) (ab_id h) = Some a \<and> dict_get (al_live s) (ab_id h') = Some b
    \<and> \<not> overlap a b \<and> ab_requested h \<le> hb_size a \<and> returns (fst (al_deallocate h s))"
proof -
  note inv = reach_mem [OF assms(1)]
  then have st: "stats_inv s hs" by (simp add: mem_inv_def)
  obtain a b where ab: "dict_get (al_live s) (ab_id h) = Some a" "dict_get (al_live s) (ab_id h') = Some b"
    using handle_live [OF st assms(2)] handle_live [OF st assms(3)] by metis
  moreover have "ab_requested h \<le> ab_class h" using st assms(2) by (simp add: stats_inv_def handle_ok_def)
  then have "ab_requested h \<le> hb_size a" using inv assms(2) ab(1) le_trans unfolding mem_inv_def by blast
  moreover obtain xs ys where "hs = xs @ h # ys" using assms(2) by (auto dest: split_list)
  then have "returns (fst (al_deallocate h s))"
    using al_deallocate_mem(2) inv by (metis prod.collapse returns_simps(3))
  ultimately show ?thesis using mem_inv_disjoint [OF inv ab assms(4)] by blast
qed

theorem live_blocks_disjoint_witness:
  "\<exists>s hs h h' a b. do_ops willing_metal releasable
       [DoAlloc 64 Shared, DoAlloc 64 Private, DoFree 0, DoEmpty, DoAlloc 64 Private] (new_allocator, []) = Some (s, hs)
     \<and> h \<in> set hs \<and> h' \<in> set hs \<and> dict_get (al_live s) (ab_id h) = Some a \<and> dict_get (al_live s) (ab_id h') = Some b
     \<and> ab_id h \<noteq> ab_id h' \<and> \<not> overlap a b"
proof -
  obtain s hs where r: "do_ops willing_metal releasable
       [DoAlloc 64 Shared, DoAlloc 64 Private, DoFree 0, DoEmpty, DoAlloc 64 Private] (new_allocator, []) = Some (s, hs)"
    "map ab_id hs = [3, 1]" by (simp add: run_simps)
  obtain h h' where "hs = [h, h']" "ab_id h = 3" "ab_id h' = 1" using r(2) by (auto simp: map_eq_Cons_conv)
  then have hs: "h \<in> set hs" "h' \<in> set hs" "ab_id h \<noteq> ab_id h'" by auto
  from live_blocks_disjoint [OF do_ops_reach [OF al_reach.start singletonI r(1)] hs] r(1) hs show ?thesis by blast
qed

text \<open>
  C21. Emptying the cache while tensors are live can make two of them share memory:
  \<open>release_empty_heaps\<close> drops the first heap, the blocks of the second keep its old index, and
  when one of them is given back, the region goes to the free list of another heap, where it
  belongs to a live block.
\<close>

theorem empty_cache_shares_memory:
  "\<exists>s hs h h' a b. al_reach {willing_metal} (\<lambda>_. True) s hs \<and> h \<in> set hs \<and> h' \<in> set hs \<and> ab_id h \<noteq> ab_id h'
     \<and> dict_get (al_live s) (ab_id h) = Some a \<and> dict_get (al_live s) (ab_id h') = Some b \<and> overlap a b"
proof -
  obtain s hs where r: "do_ops willing_metal (\<lambda>_. True) sharing_run (new_allocator, []) = Some (s, hs)"
    "map ab_id hs = [6, 5, 4, 3]" "dict_get (al_live s) 6 = dict_get (al_live s) 4"
    "dict_get (al_live s) 4 = Some \<lparr>hb_off = 0, hb_size = 16384, hb_index = 1, hb_heap = 3\<rparr>"
    by (simp add: run_simps sharing_run_def)
  then obtain h1 h2 h3 h4 where hs: "hs = [h1, h2, h3, h4]" "ab_id h1 = 6" "ab_id h3 = 4" by (cases hs) auto
  have "al_reach {willing_metal} (\<lambda>_. True) s hs" by (rule do_ops_reach [OF al_reach.start singletonI r(1)])
  then show ?thesis using hs r(3,4)
    by (intro exI [of _ s] exI [of _ hs] exI [of _ h1] exI [of _ h3]) (auto simp: overlap_def)
qed

text \<open>A block whose buffer Metal refuses to make is lost to its heap.\<close>

lemma failed_buffer_leaks:
  "fst (hm_allocate \<lparr>new_heap_ok = \<lambda>_ _. True, new_buffer_ok = \<lambda>_. False\<rparr> 64 Shared new_manager)
     = raise NativeError ''HeapManager: MTLHeap newBufferWithLength returned nil''"
  "map he_free (hm_heaps (snd (hm_allocate \<lparr>new_heap_ok = \<lambda>_ _. True, new_buffer_ok = \<lambda>_. False\<rparr> 64 Shared new_manager)))
     = [[\<lparr>r_off = 16384, r_size = 4177920\<rparr>]]"
  by (simp_all add: run_simps)

end
