(* ===== verification/RuntimeProps.thy ===== *)
theory RuntimeProps
  imports Runtime AllocatorProps
begin

text \<open>
  The functions of \<open>bindings/bind_core.cpp\<close> behind the device queries, the memory statistics
  and the seed, and what \<open>device.py\<close> and \<open>utils.py\<close> do with and without the extension.
\<close>

section \<open>The core\<close>

text \<open>
  The device, if the machine has one (\<open>MNDevice::instance()\<close> throws otherwise), the allocator
  and the stored seed. Waiting for the command pipeline is the parameter \<open>sync\<close>.
\<close>

record device_info =
  di_name :: string
  di_working_set :: int
  di_max_buffer :: int
  di_bf16 :: bool
  di_unified :: bool

record gpu =
  gp_device :: "device_info option"
  gp_alloc :: allocator
  gp_seed :: int

definition on_device :: "(device_info \<Rightarrow> (gpu, 'a) st) \<Rightarrow> (gpu, 'a) st" where
  "on_device f = (\<lambda>g. case gp_device g of
     None \<Rightarrow> (raise NativeError ''No Metal device'', g)
   | Some d \<Rightarrow> f d g)"

definition on_allocator :: "(allocator, 'a) st \<Rightarrow> (gpu, 'a) st" where
  "on_allocator c = (\<lambda>g. case c (gp_alloc g) of (r, s) \<Rightarrow> (r, g\<lparr>gp_alloc := s\<rparr>))"

definition core_device_name :: "(gpu, string) st" where
  "core_device_name = (\<lambda>g. (Inr (case gp_device g of None \<Rightarrow> ''Unknown Metal Device'' | Some d \<Rightarrow> di_name d), g))"

definition core_is_available :: "(gpu, bool) st" where
  "core_is_available = (\<lambda>g. (Inr (gp_device g \<noteq> None), g))"

definition core_supports_bfloat16 :: "(gpu, bool) st" where
  "core_supports_bfloat16 = (\<lambda>g. (Inr (case gp_device g of None \<Rightarrow> False | Some d \<Rightarrow> di_bf16 d), g))"

definition core_device_properties :: "(gpu, pyval) st" where
  "core_device_properties = on_device (\<lambda>d. returnS (PyDict
     [(''name'', PyStr (di_name d)), (''cores'', PyInt 0), (''memory'', PyInt (di_working_set d)),
      (''bandwidth'', PyFloat (Fin 0)), (''max_buffer_length'', PyInt (di_max_buffer d)),
      (''supports_bfloat16'', PyBool (di_bf16 d)), (''unified_memory'', PyBool (di_unified d)),
      (''recommended_working_set'', PyInt (di_working_set d))]))"

definition core_empty_cache :: "(gpu, unit) st" where
  "core_empty_cache = on_device (\<lambda>_. on_allocator al_empty_cache)"

definition core_memory_allocated :: "(gpu, int) st" where
  "core_memory_allocated = on_device (\<lambda>_ g. (Inr (st_allocated (al_stats (gp_alloc g))), g))"

definition core_max_memory_allocated :: "(gpu, int) st" where
  "core_max_memory_allocated = on_device (\<lambda>_ g. (Inr (st_peak (al_stats (gp_alloc g))), g))"

definition core_reset_peak_stats :: "(gpu, unit) st" where
  "core_reset_peak_stats = on_device (\<lambda>_. on_allocator al_empty_cache)"

text \<open>The seed is an \<open>int64_t\<close>: the binding refuses a larger Python int.\<close>

definition core_set_seed :: "int \<Rightarrow> (gpu, unit) st" where
  "core_set_seed seed = (\<lambda>g.
     if - (2 ^ 63) \<le> seed \<and> seed < 2 ^ 63 then (Inr (), g\<lparr>gp_seed := seed\<rparr>)
     else (raise TypeError ''set_seed(): incompatible function arguments'', g))"

definition core_runtime :: "(gpu, unit) st \<Rightarrow> gpu runtime_api" where
  "core_runtime sync = \<lparr>R_device_name = Some core_device_name, R_is_available = Some core_is_available,
     R_device_properties = Some core_device_properties, R_supports_bfloat16 = Some core_supports_bfloat16,
     R_synchronize = Some (on_device (\<lambda>_. sync)), R_empty_cache = Some core_empty_cache,
     R_memory_allocated = Some core_memory_allocated, R_max_memory_allocated = Some core_max_memory_allocated,
     R_reset_peak_stats = Some core_reset_peak_stats, R_set_seed = Some core_set_seed\<rparr>"

lemma core_runtime_simps [simp]:
  "R_device_name (core_runtime sync) = Some core_device_name"
  "R_is_available (core_runtime sync) = Some core_is_available"
  "R_device_properties (core_runtime sync) = Some core_device_properties"
  "R_supports_bfloat16 (core_runtime sync) = Some core_supports_bfloat16"
  "R_synchronize (core_runtime sync) = Some (on_device (\<lambda>_. sync))"
  "R_empty_cache (core_runtime sync) = Some core_empty_cache"
  "R_memory_allocated (core_runtime sync) = Some core_memory_allocated"
  "R_max_memory_allocated (core_runtime sync) = Some core_max_memory_allocated"
  "R_reset_peak_stats (core_runtime sync) = Some core_reset_peak_stats"
  "R_set_seed (core_runtime sync) = Some core_set_seed"
  by (simp_all add: core_runtime_def)

section \<open>Without the extension\<close>

lemma unloaded_call:
  assumes "cm = CMissing \<or> cm = CNone"
  shows "catchS import_or_attribute (native_call cm sel) (\<lambda>_. h) g = h g"
  using assms catch_absent [of cm sel "\<lambda>_. h" g] by (auto simp: provides_def)

text \<open>
  Without the extension (no \<open>_C\<close> in the package, or \<open>None\<close>) nothing changes and every query
  gives its documented answer: the device is reported as unavailable, queries, \<open>synchronize\<close> and
  \<open>set_seed\<close> raise RuntimeError, \<open>empty_cache\<close> and \<open>reset_peak_stats\<close> do nothing, and the two
  summaries say that there is nothing; a negative seed is a ValueError all the same.
\<close>

theorem runtime_without_extension:
  assumes "cm = CMissing \<or> cm = CNone"
  shows "is_available cm g = (Inr False, g)
    \<and> empty_cache cm g = (Inr (), g) \<and> reset_peak_stats cm g = (Inr (), g)
    \<and> get_device_info show_rest cm g = (Inr ''Metal: Not available'', g)
    \<and> get_memory_info cm g = (Inr ''GPU Memory: Not available'', g)
    \<and> fails_with RuntimeError (device_name cm) g \<and> fails_with RuntimeError (device_properties cm) g
    \<and> fails_with RuntimeError (supports_bfloat16 cm) g \<and> fails_with RuntimeError (synchronize cm) g
    \<and> fails_with RuntimeError (memory_allocated cm) g \<and> fails_with RuntimeError (max_memory_allocated cm) g
    \<and> fails_with (if seed < 0 then ValueError else RuntimeError) (manual_seed cm seed) g"
proof -
  note u = unloaded_call [OF assms]
  have "is_available cm g = (Inr False, g)" by (simp add: is_available_def u)
  moreover have "get_memory_info cm g = (Inr ''GPU Memory: Not available'', g)"
    by (simp add: get_memory_info_def memory_allocated_def catchS_def [of runtime_error] bindS_def u runtime_error_def raise_def)
  moreover have "get_device_info show_rest cm g = (Inr ''Metal: Not available'', g)"
    by (simp add: get_device_info_def bindS_def is_available_def u)
  ultimately show ?thesis
    by (simp add: empty_cache_def reset_peak_stats_def device_name_def device_properties_def supports_bfloat16_def
        synchronize_def memory_allocated_def max_memory_allocated_def manual_seed_def set_seed_def u fails_with_def)
qed

theorem runtime_without_extension_witness:
  "is_available (CNone :: nat runtime_api cmod) 0 = (Inr False, 0)"
  using runtime_without_extension [of "CNone :: nat runtime_api cmod" 0] by simp

section \<open>With the core\<close>

lemma catchS_class: "c g = (Inr x, g') \<Longrightarrow> catchS p c h g = (Inr x, g')"
  by (simp add: catchS_def)

lemma empty_cache_keeps: "al_empty_cache s = (r, s') \<Longrightarrow> al_allocated s' = al_allocated s \<and> al_peak s' = al_peak s"
  by (auto simp: al_empty_cache_def split: prod.splits sum.splits)

text \<open>
  On a machine with a device, \<open>memory_allocated\<close> never exceeds \<open>max_memory_allocated\<close> in any
  state the allocator can reach, and \<open>reset_peak_stats\<close> changes neither: the peak is that since
  the start of the program, not since the reset.
\<close>

theorem memory_queries:
  assumes "gp_device g = Some d" "al_reach Ms may_empty (gp_alloc g) hs"
    and "reset_peak_stats (CMod (core_runtime sync)) g = (r, g')"
  shows "\<exists>m p. memory_allocated (CMod (core_runtime sync)) g = (Inr m, g)
    \<and> max_memory_allocated (CMod (core_runtime sync)) g = (Inr p, g) \<and> m \<le> p \<and> m = (\<Sum>h\<leftarrow>hs. int (ab_size h))
    \<and> memory_allocated (CMod (core_runtime sync)) g' = (Inr m, g')
    \<and> max_memory_allocated (CMod (core_runtime sync)) g' = (Inr p, g')"
proof -
  let ?s = "gp_alloc g"
  obtain r1 s' where e: "al_empty_cache ?s = (r1, s')" by fastforce
  have "g' = g\<lparr>gp_alloc := s'\<rparr>"
  proof (cases r1)
    case (Inl e1)
    then show ?thesis using assms(1,3) e
      by (auto simp: reset_peak_stats_def catchS_def core_reset_peak_stats_def on_device_def on_allocator_def split: if_splits)
  next
    case (Inr u)
    then show ?thesis using assms(1,3) e
      by (simp add: reset_peak_stats_def catchS_def core_reset_peak_stats_def on_device_def on_allocator_def)
  qed
  then have g': "gp_device g' = Some d" "al_allocated (gp_alloc g') = al_allocated ?s" "al_peak (gp_alloc g') = al_peak ?s"
    using assms(1) empty_cache_keeps [OF e] by simp_all
  have q: "memory_allocated (CMod (core_runtime sync)) x = (Inr (al_allocated (gp_alloc x)), x)
    \<and> max_memory_allocated (CMod (core_runtime sync)) x = (Inr (al_peak (gp_alloc x)), x)" if "gp_device x = Some d" for x
    using that by (simp add: memory_allocated_def max_memory_allocated_def catchS_def core_memory_allocated_def
        core_max_memory_allocated_def on_device_def al_stats_def)
  have "al_allocated ?s \<le> al_peak ?s" "al_allocated ?s = (\<Sum>h\<leftarrow>hs. int (ab_size h))"
    using reach_stats [OF assms(2)] by (simp_all add: stats_inv_def)
  then show ?thesis using q [OF assms(1)] q [OF g'(1)] g'(2,3)
    by (intro exI [of _ "al_allocated ?s"] exI [of _ "al_peak ?s"]) simp
qed

definition sample_gpu :: gpu where
  "sample_gpu = \<lparr>gp_device = Some \<lparr>di_name = ''Apple M1'', di_working_set = 0, di_max_buffer = 0, di_bf16 = True, di_unified = True\<rparr>,
     gp_alloc = new_allocator, gp_seed = 0\<rparr>"

theorem memory_queries_witness:
  "\<exists>p. max_memory_allocated (CMod (core_runtime (returnS ()))) sample_gpu = (Inr p, sample_gpu) \<and> 0 \<le> p"
proof -
  have "gp_device sample_gpu \<noteq> None" "gp_alloc sample_gpu = new_allocator" by (simp_all add: sample_gpu_def)
  then obtain d where d: "gp_device sample_gpu = Some d" "al_reach {willing_metal} (\<lambda>_. True) (gp_alloc sample_gpu) []"
    using al_reach.start by auto
  obtain r g' where "reset_peak_stats (CMod (core_runtime (returnS ()))) sample_gpu = (r, g')" by fastforce
  from memory_queries [OF d this] show ?thesis by auto
qed

text \<open>
  \<open>set_seed\<close> raises ValueError for a negative seed, before the extension is touched, stores a
  seed below 2**63, and raises TypeError for a larger one; only the second changes anything.
\<close>

theorem set_seed_spec:
  "set_seed (CMod (core_runtime sync)) seed g =
     (if seed < 0 then (raise ValueError (''Seed must be non-negative, got '' @ show_int seed), g)
      else if seed < 2 ^ 63 then (Inr (), g\<lparr>gp_seed := seed\<rparr>)
      else (raise TypeError ''set_seed(): incompatible function arguments'', g))"
  by (simp add: set_seed_def catchS_def core_set_seed_def import_or_attribute_def raise_def)

end
