(* ===== verification/HeapRefinement.thy ===== *)
theory HeapRefinement
  imports HeapManager
begin

text \<open>
  The heap manager as a refinement of a set of bytes: abstractly it owns the bytes of its heaps,
  gives out sets of free bytes and takes them back; the free lists, splits and merges of the
  code only represent that set. Metal may answer every request differently: a heap it refuses
  changes nothing, a buffer it refuses costs the manager the bytes that were set aside for it.
\<close>

section \<open>The abstract state\<close>

definition region_bytes :: "nat \<Rightarrow> region \<Rightarrow> (nat \<times> nat) set" where
  "region_bytes h r = {h} \<times> {x. in_region x r}"

definition block_bytes :: "heap_block \<Rightarrow> (nat \<times> nat) set" where
  "block_bytes b = region_bytes (hb_heap b) (blk b)"

definition heap_bytes :: "heap_mgr \<Rightarrow> (nat \<times> nat) set" where
  "heap_bytes s = (\<Union>e \<in> set (hm_heaps s). {he_heap e} \<times> {x. x < he_capacity e})"

definition free_bytes :: "heap_mgr \<Rightarrow> (nat \<times> nat) set" where
  "free_bytes s = (\<Union>e \<in> set (hm_heaps s). \<Union>r \<in> set (he_free e). region_bytes (he_heap e) r)"

definition taken_bytes :: "heap_block list \<Rightarrow> (nat \<times> nat) set" where
  "taken_bytes outs = (\<Union>b \<in> set outs. block_bytes b)"

lemma cover_pos: "0 < cover rs x \<longleftrightarrow> (\<exists>r \<in> set rs. in_region x r)"
  by (auto simp: cover_def filter_empty_conv)

text \<open>Heap objects are told apart by their number.\<close>

lemma heap_unique:
  assumes "hm_inv full s outs" "i < length (hm_heaps s)" "j < length (hm_heaps s)"
    "he_heap (hm_heaps s ! i) = he_heap (hm_heaps s ! j)"
  shows "i = j"
proof -
  have "map he_heap (hm_heaps s) ! i = map he_heap (hm_heaps s) ! j" using assms by simp
  then show ?thesis using assms by (simp add: hm_inv_def heaps_ok_def nth_eq_iff_index_eq del: nth_map)
qed

lemma ex_entry: "(\<exists>e \<in> set hs. P e) \<longleftrightarrow> (\<exists>i < length hs. P (hs ! i))"
  by (metis in_set_conv_nth)

lemma free_bytes_iff:
  "(h, x) \<in> free_bytes s \<longleftrightarrow>
     (\<exists>i < length (hm_heaps s). he_heap (hm_heaps s ! i) = h \<and> 0 < cover (he_free (hm_heaps s ! i)) x)"
  unfolding cover_pos by (auto simp: free_bytes_def region_bytes_def ex_entry)

lemma heap_bytes_iff:
  "(h, x) \<in> heap_bytes s \<longleftrightarrow> (\<exists>i < length (hm_heaps s). he_heap (hm_heaps s ! i) = h \<and> x < he_capacity (hm_heaps s ! i))"
  by (auto simp: heap_bytes_def ex_entry)

lemma taken_bytes_iff:
  assumes inv: "hm_inv full s outs"
  shows "(h, x) \<in> taken_bytes outs \<longleftrightarrow>
     (\<exists>i < length (hm_heaps s). he_heap (hm_heaps s ! i) = h \<and> 0 < cover (map blk (outs_at i outs)) x)"
proof -
  have own: "hb_index b < length (hm_heaps s)" "he_heap (hm_heaps s ! hb_index b) = hb_heap b" if "b \<in> set outs" for b
  proof -
    show i: "hb_index b < length (hm_heaps s)" using inv that by (simp add: hm_inv_def)
    then have "entry_ok full (hm_heaps s ! hb_index b) (outs_at (hb_index b) outs)" using inv by (simp add: hm_inv_def)
    then show "he_heap (hm_heaps s ! hb_index b) = hb_heap b" using that by (auto simp: entry_ok_def outs_at_def)
  qed
  have "(h, x) \<in> taken_bytes outs \<longleftrightarrow> (\<exists>b \<in> set outs. hb_heap b = h \<and> in_region x (blk b))"
    by (auto simp: taken_bytes_def block_bytes_def region_bytes_def)
  also have "\<dots> \<longleftrightarrow> (\<exists>i < length (hm_heaps s). he_heap (hm_heaps s ! i) = h \<and> (\<exists>b \<in> set (outs_at i outs). in_region x (blk b)))"
    using own by (auto simp: outs_at_def)
  finally show ?thesis by (simp add: cover_pos)
qed

text \<open>
  Under the invariant the free lists and the blocks in use share no byte, and all are bytes of the
  heaps; with \<open>full\<close> they are all the bytes of the heaps.
\<close>

lemma memory_split:
  assumes inv: "hm_inv full s outs"
  shows "free_bytes s \<inter> taken_bytes outs = {}" "free_bytes s \<union> taken_bytes outs \<subseteq> heap_bytes s"
    "full \<Longrightarrow> free_bytes s \<union> taken_bytes outs = heap_bytes s"
proof -
  have tile: "cover (he_free (hm_heaps s ! i)) x + cover (map blk (outs_at i outs)) x \<le> (if x < he_capacity (hm_heaps s ! i) then 1 else 0)"
    "full \<Longrightarrow> cover (he_free (hm_heaps s ! i)) x + cover (map blk (outs_at i outs)) x = (if x < he_capacity (hm_heaps s ! i) then 1 else 0)"
    if "i < length (hm_heaps s)" for i x
    using inv that by (cases full; simp add: hm_inv_def entry_ok_def tiles_def)+
  have "p \<notin> taken_bytes outs" if f: "p \<in> free_bytes s" for p
  proof
    assume t: "p \<in> taken_bytes outs"
    obtain h x where p: "p = (h, x)" by (cases p)
    obtain i j where ij: "i < length (hm_heaps s)" "he_heap (hm_heaps s ! i) = h" "0 < cover (he_free (hm_heaps s ! i)) x"
      "j < length (hm_heaps s)" "he_heap (hm_heaps s ! j) = h" "0 < cover (map blk (outs_at j outs)) x"
      using f t unfolding p free_bytes_iff taken_bytes_iff [OF inv] by blast
    then have "i = j" using heap_unique [OF inv] by simp
    then show False using ij tile(1) [OF ij(1), of x] by (simp split: if_splits)
  qed
  then show "free_bytes s \<inter> taken_bytes outs = {}" by blast
  have "(h, x) \<in> heap_bytes s" if m: "(h, x) \<in> free_bytes s \<union> taken_bytes outs" for h x
  proof -
    obtain i where i: "i < length (hm_heaps s)" "he_heap (hm_heaps s ! i) = h"
      "0 < cover (he_free (hm_heaps s ! i)) x + cover (map blk (outs_at i outs)) x"
      using m unfolding Un_iff free_bytes_iff taken_bytes_iff [OF inv] add_gr_0 by blast
    then have "x < he_capacity (hm_heaps s ! i)" using tile(1) [OF i(1), of x] by (simp split: if_splits)
    then show ?thesis using i(1,2) by (auto simp: heap_bytes_iff)
  qed
  then show sub: "free_bytes s \<union> taken_bytes outs \<subseteq> heap_bytes s" by auto
  assume full
  have "(h, x) \<in> free_bytes s \<union> taken_bytes outs" if m: "(h, x) \<in> heap_bytes s" for h x
  proof -
    obtain i where i: "i < length (hm_heaps s)" "he_heap (hm_heaps s ! i) = h" "x < he_capacity (hm_heaps s ! i)"
      using m unfolding heap_bytes_iff by blast
    then have "0 < cover (he_free (hm_heaps s ! i)) x \<or> 0 < cover (map blk (outs_at i outs)) x"
      using tile(2) [OF i(1) \<open>full\<close>, of x] by (simp split: if_splits) linarith
    then show ?thesis using i(1,2) unfolding Un_iff free_bytes_iff taken_bytes_iff [OF inv] by blast
  qed
  then show "free_bytes s \<union> taken_bytes outs = heap_bytes s" using sub by auto
qed

section \<open>The operations\<close>

text \<open>
  The runs of the manager: requests, granted or refused, blocks given back, and the release of empty
  heaps at the end of the list. Each request meets a Metal of its own, so that what Metal grants may
  change from one to the next. The flag tells whether no buffer was refused so far: a refused
  buffer is the only failure that changes the state.
\<close>

inductive hm_reach :: "bool \<Rightarrow> heap_mgr \<Rightarrow> heap_block list \<Rightarrow> bool" where
  start: "hm_reach True new_manager []"
| allocate: "hm_reach full s outs \<Longrightarrow> n \<le> 2 ^ 63 \<Longrightarrow> hm_allocate M n mode s = (Inr b, s') \<Longrightarrow> hm_reach full s' (b # outs)"
| allocate_fails: "hm_reach full s outs \<Longrightarrow> n \<le> 2 ^ 63 \<Longrightarrow> hm_allocate M n mode s = (Inl e, s') \<Longrightarrow> hm_reach (full \<and> s' = s) s' outs"
| deallocate: "hm_reach full s outs \<Longrightarrow> b \<in> set outs \<Longrightarrow> hm_deallocate b s = (r, s') \<Longrightarrow> hm_reach full s' (remove1 b outs)"
| release: "hm_reach full s outs \<Longrightarrow> empties_last s \<Longrightarrow> hm_reach full (release_empty_heaps s) outs"

lemma hm_allocate_zero: "hm_allocate M 0 mode s = (raise NativeError ''HeapManager::allocate: size must be > 0'', s)"
  by (simp add: hm_allocate_def)

lemma hm_reach_inv: "hm_reach full s outs \<Longrightarrow> hm_inv full s outs"
proof (induction rule: hm_reach.induct)
  case (allocate full s outs n M mode b s')
  then have "0 < n" by (cases "n = 0") (simp_all add: hm_allocate_zero raise_def)
  then show ?case using allocate hm_allocate_ok(1) by blast
next
  case (allocate_fails full s outs n M mode e s')
  show ?case
  proof (cases "s' = s")
    case False
    then have "0 < n" using allocate_fails by (cases "n = 0") (simp_all add: hm_allocate_zero)
    then show ?thesis using False allocate_fails hm_allocate_fails by simp
  qed (use allocate_fails in simp)
next
  case (deallocate full s outs b r s')
  then show ?case using hm_deallocate_ok [of full s outs b] by auto
qed (simp_all add: new_manager_inv release_ok)

lemma heap_bytes_update:
  fixes hs :: "heap_entry list"
  assumes "i < length hs" "he_heap e = he_heap (hs ! i)" "he_capacity e = he_capacity (hs ! i)"
  shows "(\<Union>e \<in> set (hs[i := e]). {he_heap e} \<times> {x. x < he_capacity e}) = (\<Union>e \<in> set hs. {he_heap e} \<times> {x. x < he_capacity e})"
proof -
  have e: "(he_heap e, he_capacity e) = map (\<lambda>e. (he_heap e, he_capacity e)) hs ! i" using assms by simp
  have "map (\<lambda>e. (he_heap e, he_capacity e)) (hs[i := e]) = map (\<lambda>e. (he_heap e, he_capacity e)) hs"
    unfolding map_update e by (rule list_update_id)
  then have im: "(\<lambda>e. (he_heap e, he_capacity e)) ` set (hs[i := e]) = (\<lambda>e. (he_heap e, he_capacity e)) ` set hs"
    by (simp only: list.set_map [symmetric])
  have un: "(\<Union>e \<in> X. {he_heap e} \<times> {x. x < he_capacity e}) = (\<Union>hc \<in> (\<lambda>e. (he_heap e, he_capacity e)) ` X. {fst hc} \<times> {x. x < snd hc})" for X :: "heap_entry set"
    by auto
  show ?thesis unfolding un im by (rule refl)
qed

lemma card_region_bytes: "card (region_bytes h r) = r_size r"
proof -
  have "{x. in_region x r} = {r_off r..<r_off r + r_size r}" by (auto simp: in_region_def)
  then show ?thesis by (simp add: region_bytes_def card_cartesian_product)
qed

lemma card_block_bytes: "card (block_bytes b) = hb_size b"
  by (simp add: block_bytes_def card_region_bytes blk_def)

lemma hm_deallocate_heaps: "heap_bytes (snd (hm_deallocate b s)) = heap_bytes s"
  by (simp add: hm_deallocate_def Let_def heap_bytes_def heap_bytes_update)

text \<open>The free bytes after the free list of one heap was replaced.\<close>

lemma free_bytes_update:
  assumes inv: "hm_inv full s outs" and i: "i < length (hm_heaps s)"
    and s': "hm_heaps s' = (hm_heaps s)[i := e]" "he_heap e = he_heap (hm_heaps s ! i)"
  shows "(h, x) \<in> free_bytes s' \<longleftrightarrow>
     (if h = he_heap (hm_heaps s ! i) then 0 < cover (he_free e) x else (h, x) \<in> free_bytes s)"
proof (cases "h = he_heap (hm_heaps s ! i)")
  case True
  have "j = i" if "j < length (hm_heaps s)" "he_heap (hm_heaps s ! j) = h" for j
    using heap_unique [OF inv that(1) i] that(2) True by simp
  then show ?thesis using i True s' by (auto simp: free_bytes_iff nth_list_update split: if_splits)
next
  case False
  then show ?thesis using i s' by (auto simp: free_bytes_iff nth_list_update split: if_splits)
qed

text \<open>What \<open>sub_allocate\<close> takes from the free bytes, whether Metal makes the buffer or not.\<close>

lemma sub_allocate_bytes:
  assumes inv: "hm_inv full s outs" and free: "free_block (hm_heaps s) mode hi bi r" "n \<le> r_size r" "0 < n"
    and run: "sub_allocate M n (hi, bi) s = (res, s')"
  shows "\<exists>L. card L = n \<and> L \<subseteq> free_bytes s \<and> heap_bytes s' = heap_bytes s \<and> free_bytes s' = free_bytes s - L
    \<and> (\<forall>b. res = Inr b \<longrightarrow> L = block_bytes b)"
proof -
  let ?e = "hm_heaps s ! hi"
  let ?r = "\<lparr>r_off = r_off (he_free ?e ! bi), r_size = n\<rparr>"
  let ?L = "region_bytes (he_heap ?e) ?r"
  have hi: "hi < length (hm_heaps s)" "bi < length (he_free ?e)" "n \<le> r_size (he_free ?e ! bi)"
    using free by (auto simp: free_block_def)
  obtain e' where e': "hm_heaps s' = (hm_heaps s)[hi := e']" "he_heap e' = he_heap ?e" "he_capacity e' = he_capacity ?e"
    "he_free e' = take_from (he_free ?e) bi n"
    using run by (auto simp: sub_allocate_def Let_def split: if_splits)
  have blk: "\<forall>b. res = Inr b \<longrightarrow> ?L = block_bytes b"
    using run by (auto simp: sub_allocate_def Let_def block_bytes_def blk_def raise_def split: if_splits)
  have le1: "cover (he_free ?e) x \<le> 1" for x
  proof -
    have "entry_ok full ?e (outs_at hi outs)" using inv hi(1) by (simp add: hm_inv_def)
    then have "tiles full (he_capacity ?e) (he_free ?e @ map blk (outs_at hi outs))" by (simp add: entry_ok_def)
    from tiles_weaken [OF this] have "cover (he_free ?e) x + cover (map blk (outs_at hi outs)) x \<le> (if x < he_capacity ?e then 1 else 0)"
      by (simp add: tiles_def)
    then show ?thesis by (simp split: if_splits)
  qed
  have cov: "0 < cover (he_free e') x \<longleftrightarrow> 0 < cover (he_free ?e) x \<and> \<not> in_region x ?r" "in_region x ?r \<Longrightarrow> 0 < cover (he_free ?e) x" for x
    using cover_take_from [OF hi(2) free(3) hi(3), of x] le1 [of x] unfolding e'(4) by (simp_all split: if_splits)
  have old: "(he_heap ?e, x) \<in> free_bytes s \<longleftrightarrow> 0 < cover (he_free ?e) x" for x
    using free_bytes_update [OF inv hi(1), of s ?e "he_heap ?e" x] by simp
  have "(h, x) \<in> free_bytes s' \<longleftrightarrow> (h, x) \<in> free_bytes s - ?L" for h x
    unfolding free_bytes_update [OF inv hi(1) e'(1,2)] using cov(1) [of x] old [of x] by (auto simp: region_bytes_def)
  then have "free_bytes s' = free_bytes s - ?L" by auto
  moreover have "?L \<subseteq> free_bytes s" using cov(2) old by (auto simp: region_bytes_def)
  moreover have "heap_bytes s' = heap_bytes s" unfolding heap_bytes_def e'(1) by (rule heap_bytes_update [OF hi(1) e'(2,3)])
  ultimately show ?thesis using blk by (intro exI [of _ ?L]) (simp add: card_region_bytes)
qed

lemma create_heap_bytes:
  assumes inv: "hm_inv full s outs" and run: "create_heap M cap mode s = (Inr hi, s')"
  shows "heap_bytes s \<subseteq> heap_bytes s'" "free_bytes s' = free_bytes s \<union> (heap_bytes s' - heap_bytes s)"
proof -
  let ?new = "region_bytes (hm_next s) \<lparr>r_off = 0, r_size = cap\<rparr>"
  have s': "heap_bytes s' = heap_bytes s \<union> ?new" "free_bytes s' = free_bytes s \<union> ?new"
    using run by (auto simp: create_heap_def heap_bytes_def free_bytes_def region_bytes_def in_region_def split: if_splits)
  have "he_heap e < hm_next s" if "e \<in> set (hm_heaps s)" for e using inv that by (simp add: hm_inv_def heaps_ok_def)
  then have "?new \<inter> heap_bytes s = {}" by (fastforce simp: heap_bytes_def region_bytes_def)
  then show "heap_bytes s \<subseteq> heap_bytes s'" "free_bytes s' = free_bytes s \<union> (heap_bytes s' - heap_bytes s)"
    unfolding s' by auto
qed

text \<open>
  A request that takes bytes: it may add a heap first, takes a set of free bytes of at least the
  size asked for and leaves everything else as it is.
\<close>

definition takes_bytes :: "nat \<Rightarrow> heap_mgr \<Rightarrow> heap_mgr \<Rightarrow> (nat \<times> nat) set \<Rightarrow> bool" where
  "takes_bytes n s s' L \<longleftrightarrow> n \<le> card L \<and> heap_bytes s \<subseteq> heap_bytes s'
     \<and> L \<subseteq> free_bytes s \<union> (heap_bytes s' - heap_bytes s)
     \<and> free_bytes s' = free_bytes s \<union> (heap_bytes s' - heap_bytes s) - L"

lemma hm_allocate_bytes:
  assumes inv: "hm_inv full s outs" and n: "n \<le> 2 ^ 63" and run: "hm_allocate M n mode s = (res, s')"
  shows "case res of Inr b \<Rightarrow> takes_bytes n s s' (block_bytes b) | Inl e \<Rightarrow> s' = s \<or> (\<exists>L. takes_bytes n s s' L)"
proof (cases "n = 0")
  case True
  then show ?thesis using run by (auto simp: hm_allocate_zero raise_def)
next
  case False
  let ?n = "align_to_page n"
  have al: "n \<le> ?n" "?n < 2 ^ 64 - page_size" using align_to_page_spec(1,2) [of n] n by (simp_all add: page_size_def)
  have taken: "case res of Inr b \<Rightarrow> takes_bytes n s s' (block_bytes b) | Inl e \<Rightarrow> s' = s \<or> (\<exists>L. takes_bytes n s s' L)"
    if i1: "hm_inv full s1 outs" and fb: "free_block (hm_heaps s1) mode hi bi r" "?n \<le> r_size r"
      and sub: "sub_allocate M ?n (hi, bi) s1 = (res, s')"
      and s1: "heap_bytes s \<subseteq> heap_bytes s1" "free_bytes s1 = free_bytes s \<union> (heap_bytes s1 - heap_bytes s)" for s1 hi bi r
  proof -
    from sub_allocate_bytes [OF i1 fb _ sub] False al(1) obtain L where L: "card L = ?n" "L \<subseteq> free_bytes s1"
      "heap_bytes s' = heap_bytes s1" "free_bytes s' = free_bytes s1 - L" "\<forall>b. res = Inr b \<longrightarrow> L = block_bytes b" by auto
    then have "takes_bytes n s s' L" using al(1) s1 by (simp add: takes_bytes_def)
    then show ?thesis using L(5) by (auto split: sum.splits)
  qed
  show ?thesis
  proof (cases "find_best_fit (hm_heaps s) ?n mode")
    case None
    then consider (refused) e where "create_heap M (heap_size_for_alloc ?n) mode s = (Inl e, s')" "res = Inl e"
      | (created) hi s1 where "create_heap M (heap_size_for_alloc ?n) mode s = (Inr hi, s1)" "sub_allocate M ?n (hi, 0) s1 = (res, s')"
      using run False by (auto simp: hm_allocate_def bindS_def split: prod.splits sum.splits)
    then show ?thesis
    proof cases
      case refused
      then show ?thesis using create_heap_fails by fastforce
    next
      case created
      have cap: "?n \<le> heap_size_for_alloc ?n" by (rule heap_size_fits [OF al(2)])
      then have "0 < heap_size_for_alloc ?n" using False al(1) by simp
      note c = create_heap_inv [OF inv created(1) this]
      show ?thesis by (rule taken [OF c _ created(2) create_heap_bytes [OF inv created(1)]]) (simp add: cap)
    qed
  next
    case (Some hb)
    obtain hi bi where hb: "hb = (hi, bi)" by (cases hb)
    from find_best_fit_Some [OF Some [unfolded hb]] obtain q where
      q: "free_block (hm_heaps s) mode hi bi q" "?n \<le> r_size q" by blast
    have "sub_allocate M ?n (hi, bi) s = (res, s')" using run False Some by (simp add: hm_allocate_def hb)
    from taken [OF inv q this] show ?thesis by simp
  qed
qed

lemma hm_deallocate_bytes:
  assumes inv: "hm_inv full s outs" and b: "b \<in> set outs" and run: "hm_deallocate b s = (r, s')"
  shows "r = Inr () \<and> heap_bytes s' = heap_bytes s \<and> free_bytes s' = free_bytes s \<union> block_bytes b"
proof -
  let ?e = "hm_heaps s ! hb_index b"
  have i: "hb_index b < length (hm_heaps s)" using inv b by (simp add: hm_inv_def)
  then have "entry_ok full ?e (outs_at (hb_index b) outs)" using inv by (simp add: hm_inv_def)
  then have h: "he_heap ?e = hb_heap b" using b by (auto simp: entry_ok_def outs_at_def)
  let ?e' = "?e\<lparr>he_free := coalesce (he_free ?e @ [blk b]), he_count := he_count ?e - 1\<rparr>"
  have s': "r = Inr ()" "hm_heaps s' = (hm_heaps s)[hb_index b := ?e']"
    using run i by (auto simp: hm_deallocate_def Let_def blk_def)
  have old: "(he_heap ?e, x) \<in> free_bytes s \<longleftrightarrow> 0 < cover (he_free ?e) x" for x
    using free_bytes_update [OF inv i, of s ?e "he_heap ?e" x] by simp
  have "(g, x) \<in> free_bytes s' \<longleftrightarrow> (g, x) \<in> free_bytes s \<union> block_bytes b" for g x
    using free_bytes_update [OF inv i s'(2), of g x] old [of x] h
    by (auto simp: cover_coalesce block_bytes_def region_bytes_def)
  then have "free_bytes s' = free_bytes s \<union> block_bytes b" by auto
  moreover have "heap_bytes s' = heap_bytes s" using hm_deallocate_heaps [of b s] run by simp
  ultimately show ?thesis by (simp add: s'(1))
qed

text \<open>
  C5. The heap manager implements a set of free bytes. In every state that a sequence of requests
  (of at most 2**63 bytes, each granted or refused by Metal in its own way), returned blocks and
  releases of empty heaps reaches, where heaps are only released when those that are empty are the
  last of the list, the free lists share no byte with the blocks in use, both lie inside the heaps,
  and as long as Metal refused no buffer every byte of the heaps is in one of them. From such a
  state, a request that succeeds may add a heap and then takes its block, at least as large as asked,
  out of the free bytes and changes nothing else; one that fails changes nothing or, when the
  buffer was refused, loses as many free bytes, and no other; giving back a block that is in use
  always succeeds and returns exactly its bytes.
\<close>

theorem heap_manager_refines:
  assumes "hm_reach full s outs"
  shows "free_bytes s \<inter> taken_bytes outs = {} \<and> free_bytes s \<union> taken_bytes outs \<subseteq> heap_bytes s
    \<and> (full \<longrightarrow> free_bytes s \<union> taken_bytes outs = heap_bytes s)
    \<and> (\<forall>M n mode res s'. n \<le> 2 ^ 63 \<and> hm_allocate M n mode s = (res, s') \<longrightarrow> (case res of
          Inr b \<Rightarrow> takes_bytes n s s' (block_bytes b)
        | Inl e \<Rightarrow> s' = s \<or> (\<exists>L. takes_bytes n s s' L)))
    \<and> (\<forall>b \<in> set outs. \<exists>s'. hm_deallocate b s = (Inr (), s') \<and> heap_bytes s' = heap_bytes s
        \<and> free_bytes s' = free_bytes s \<union> block_bytes b)"
proof -
  note inv = hm_reach_inv [OF assms]
  have "\<exists>s'. hm_deallocate b s = (Inr (), s') \<and> heap_bytes s' = heap_bytes s \<and> free_bytes s' = free_bytes s \<union> block_bytes b"
    if "b \<in> set outs" for b
    using hm_deallocate_bytes [OF inv that] by (metis prod.exhaust)
  then show ?thesis using memory_split [OF inv] hm_allocate_bytes [OF inv] by blast
qed

definition generous_metal :: metal where
  "generous_metal = \<lparr>new_heap_ok = (\<lambda>_ _. True), new_buffer_ok = (\<lambda>_. True)\<rparr>"

text \<open>A block is made, a second request is refused its buffer, and the block is given back.\<close>

theorem heap_manager_refines_witness:
  "\<exists>s b s1 s'. hm_allocate generous_metal 100 Shared new_manager = (Inr b, s) \<and> takes_bytes 100 new_manager s (block_bytes b)
     \<and> snd (hm_allocate (generous_metal\<lparr>new_buffer_ok := \<lambda>_. False\<rparr>) 100 Private s) = s1
     \<and> hm_deallocate b s1 = (Inr (), s') \<and> free_bytes s' = free_bytes s1 \<union> block_bytes b"
proof -
  have "find_best_fit [] (align_to_page 100) Shared = None" by (simp add: find_best_fit_def candidates_def)
  then obtain b s where run: "hm_allocate generous_metal 100 Shared new_manager = (Inr b, s)"
    by (simp add: hm_allocate_def new_manager_def bindS_def create_heap_def sub_allocate_def generous_metal_def Let_def)
  obtain res s1 where run1: "hm_allocate (generous_metal\<lparr>new_buffer_ok := \<lambda>_. False\<rparr>) 100 Private s = (res, s1)" by fastforce
  have "\<exists>e. res = Inl e" using run1
    by (auto simp: hm_allocate_def bindS_def sub_allocate_def Let_def raise_def split: option.splits prod.splits sum.splits if_splits)
  then obtain e where e: "res = Inl e" by blast
  have s: "hm_reach True s [b]" by (rule hm_reach.allocate [OF hm_reach.start _ run]) simp
  have "hm_reach (True \<and> s1 = s) s1 [b]" by (rule hm_reach.allocate_fails [OF s _ run1 [unfolded e]]) simp
  note after = heap_manager_refines [OF this]
  note before = heap_manager_refines [OF hm_reach.start, THEN conjunct2, THEN conjunct2, THEN conjunct2, THEN conjunct1, rule_format]
  have "takes_bytes 100 new_manager s (block_bytes b)" using before [of 100 generous_metal Shared "Inr b" s] run by simp
  moreover obtain s' where "hm_deallocate b s1 = (Inr (), s')" "free_bytes s' = free_bytes s1 \<union> block_bytes b"
    using after by (simp only: list.set bex_simps ball_simps) blast
  ultimately show ?thesis using run run1 by auto
qed

end
