(* ===== verification/Report.thy ===== *)
theory Report
  imports Regression
begin

text \<open>
  \<^verbatim>\<open>benchmarks/report_generator.py\<close>: the Markdown, text and JSON reports over a list of comparisons.
  The clock, the text of floats and containers, and the error (an OSError) with which a file of a
  given name cannot be written, if so, are parameters (\<open>report_env\<close>); a report directory maps names
  to the files written into it. Fields are padded by the number of characters,
  so the rows are those of the code for ASCII names. The emoji are spelled by their UTF-8 bytes.
\<close>

section \<open>Data\<close>

record report_env =
  now_text :: string
  now_isoformat :: string
  show_value :: "pyval \<Rightarrow> string"
  json_dumps :: "pyval \<Rightarrow> string"
  write_error :: "string \<Rightarrow> pyexc option"

datatype report_file = TextFile string | JsonFile pyval

type_synonym reports = "(string, report_file) dict"

definition status_name :: "status \<Rightarrow> string" where
  "status_name s = (case s of REGRESSION \<Rightarrow> ''REGRESSION'' | IMPROVEMENT \<Rightarrow> ''IMPROVEMENT'' | STABLE \<Rightarrow> ''STABLE'')"

text \<open>The dictionary that \<open>compare_with_baseline\<close> returns, as the JSON report holds it.\<close>

definition comparison_value :: "comparison \<Rightarrow> pyval" where
  "comparison_value c = PyDict
    [(''name'', PyStr (c_name c)), (''category'', PyStr (c_category c)),
     (''current_ms'', PyFloat (Fin (current_ms c))), (''baseline_ms'', PyFloat (Fin (baseline_ms c))),
     (''ratio'', PyFloat (Fin (c_ratio c))), (''change_pct'', PyFloat (Fin (change_pct c))),
     (''status'', PyStr (status_name (c_status c)))]"

definition with_status :: "status \<Rightarrow> comparison list \<Rightarrow> comparison list" where
  "with_status s cs = filter (\<lambda>c. c_status c = s) cs"

definition count_status :: "status \<Rightarrow> comparison list \<Rightarrow> nat" where
  "count_status s cs = length (with_status s cs)"

text \<open>\<open>meta.get(key, 'unknown')\<close>, and its first \<open>n\<close> characters: only sequences can be sliced.\<close>

definition meta :: "(string, pyval) dict \<Rightarrow> string \<Rightarrow> pyval" where
  "meta m k = dict_get_default m k (PyStr ''unknown'')"

definition slice_text :: "report_env \<Rightarrow> nat \<Rightarrow> pyval \<Rightarrow> string res" where
  "slice_text E n v = (case v of
     PyStr s \<Rightarrow> Inr (take n s)
   | PyList xs \<Rightarrow> Inr (show_value E (PyList (take n xs)))
   | _ \<Rightarrow> raise TypeError ''object is not subscriptable'')"

definition meta_text :: "report_env \<Rightarrow> (string, pyval) dict \<Rightarrow> string \<Rightarrow> string" where
  "meta_text E m k = py_str (show_value E) (meta m k)"

definition write_report :: "report_env \<Rightarrow> string option \<Rightarrow> report_file \<Rightarrow> (reports, unit) st" where
  "write_report E out f = (\<lambda>rs. case out of
     None \<Rightarrow> (Inr (), rs)
   | Some name \<Rightarrow> if name = [] then (Inr (), rs) else (case write_error E name of
       None \<Rightarrow> (Inr (), dict_set name f rs) | Some e \<Rightarrow> (Inl e, rs)))"

section \<open>Markdown\<close>

definition warning_sign :: string where
  "warning_sign = [CHR 0xE2, CHR 0x9A, CHR 0xA0, CHR 0xEF, CHR 0xB8, CHR 0x8F]"

definition rocket :: string where
  "rocket = [CHR 0xF0, CHR 0x9F, CHR 0x9A, CHR 0x80]"

definition check_mark :: string where
  "check_mark = [CHR 0xE2, CHR 0x9C, CHR 0x85]"

definition status_emoji :: "status \<Rightarrow> string" where
  "status_emoji s = (case s of REGRESSION \<Rightarrow> warning_sign | IMPROVEMENT \<Rightarrow> rocket | STABLE \<Rightarrow> check_mark)"

definition format_comparison_row :: "comparison \<Rightarrow> string" where
  "format_comparison_row c =
     ''| '' @ c_name c @ '' | '' @ fmt_fixed 3 (current_ms c) @ '' | '' @ fmt_fixed 3 (baseline_ms c)
     @ '' | '' @ fmt_signed 2 (change_pct c) @ ''% | '' @ status_emoji (c_status c) @ '' '' @ status_name (c_status c) @ '' |''"

definition table_header :: "string list" where
  "table_header = [''| Benchmark | Current (ms) | Baseline (ms) | Change | Status |'',
     ''|-----------|--------------|---------------|--------|--------|'']"

text \<open>The category of a comparison is the part of its name before the first underscore.\<close>

definition name_category :: "comparison \<Rightarrow> string" where
  "name_category c = (case py_split CHR ''_'' (c_name c) of [] \<Rightarrow> ''unknown'' | p # _ \<Rightarrow> p)"

definition add_category :: "comparison \<Rightarrow> (string, comparison list) dict \<Rightarrow> (string, comparison list) dict" where
  "add_category c cats = dict_set (name_category c) (dict_get_default cats (name_category c) [] @ [c]) cats"

definition category_lines :: "string \<times> comparison list \<Rightarrow> string list" where
  "category_lines kc = (case kc of (k, cs) \<Rightarrow>
     [''### '' @ py_capitalize k, [], ''- Total: '' @ show_nat (length cs),
      ''- Regressions: '' @ show_nat (count_status REGRESSION cs),
      ''- Improvements: '' @ show_nat (count_status IMPROVEMENT cs), []])"

definition generate_category_breakdown :: "comparison list \<Rightarrow> string list" where
  "generate_category_breakdown cs =
     [''## Category Breakdown'', []] @ concat (map category_lines (sort_key fst (fold add_category cs [])))"

definition markdown_section :: "string \<Rightarrow> status \<Rightarrow> comparison list \<Rightarrow> string list" where
  "markdown_section title s cs =
     (if 0 < count_status s cs
      then [title, []] @ table_header @ map format_comparison_row (with_status s cs) @ [[]]
      else [])"

definition markdown_lines :: "report_env \<Rightarrow> comparison list \<Rightarrow> (string, pyval) dict \<Rightarrow> (string, pyval) dict \<Rightarrow> string list res" where
  "markdown_lines E cs cur base = bindR (slice_text E 8 (meta base ''git_hash'')) (\<lambda>h. Inr (
     [''# Performance Regression Test Report'', [], ''**Generated:** '' @ now_text E, [], ''## Summary'', [],
      ''- **Current Git Hash:** `'' @ meta_text E cur ''git_hash'' @ ''`'',
      ''- **Current Branch:** `'' @ meta_text E cur ''git_branch'' @ ''`'',
      ''- **Baseline:** '' @ meta_text E base ''label'' @ '' (Git: `'' @ h @ ''`)'',
      ''- **Total Benchmarks:** '' @ show_nat (length cs), []]
     @ [''### Status Breakdown'', [],
        ''- '' @ check_mark @ '' **Stable:** '' @ show_nat (count_status STABLE cs),
        ''- '' @ rocket @ '' **Improvements:** '' @ show_nat (count_status IMPROVEMENT cs),
        ''- '' @ warning_sign @ '' **Regressions:** '' @ show_nat (count_status REGRESSION cs), []]
     @ markdown_section (''## '' @ warning_sign @ '' Regressions Detected'') REGRESSION cs
     @ markdown_section (''## '' @ rocket @ '' Improvements'') IMPROVEMENT cs
     @ [''## All Results'', []] @ table_header @ map format_comparison_row cs @ [[]]
     @ generate_category_breakdown cs))"

definition generate_markdown_report ::
  "report_env \<Rightarrow> comparison list \<Rightarrow> (string, pyval) dict \<Rightarrow> (string, pyval) dict \<Rightarrow> string option \<Rightarrow> (reports, string) st" where
  "generate_markdown_report E cs cur base out = bindS (liftS (markdown_lines E cs cur base)) (\<lambda>ls.
     bindS (write_report E out (TextFile (py_join newline ls))) (\<lambda>_. returnS (py_join newline ls)))"

section \<open>Plain text\<close>

definition rule80 :: "char \<Rightarrow> string" where
  "rule80 c = replicate 80 c"

definition banner :: "string \<Rightarrow> string list" where
  "banner title = [rule80 CHR ''='', title, rule80 CHR ''='', []]"

definition text_columns :: string where
  "text_columns = ljust 35 ''Benchmark'' @ '' '' @ rjust 12 ''Current'' @ '' '' @ rjust 12 ''Baseline'' @ '' '' @ rjust 10 ''Change''"

definition text_row :: "comparison \<Rightarrow> string" where
  "text_row c = ljust 35 (c_name c) @ '' '' @ rjust 12 (fmt_fixed 3 (current_ms c)) @ '' ''
     @ rjust 12 (fmt_fixed 3 (baseline_ms c)) @ '' '' @ rjust 9 (fmt_signed 2 (change_pct c)) @ ''%''"

definition text_status_row :: "comparison \<Rightarrow> string" where
  "text_status_row c = text_row c @ '' '' @ rjust 12 (status_name (c_status c))"

definition text_section :: "string \<Rightarrow> status \<Rightarrow> comparison list \<Rightarrow> string list" where
  "text_section title s cs =
     (if 0 < count_status s cs
      then banner title @ [text_columns, rule80 CHR ''-''] @ map text_row (with_status s cs) @ [[]]
      else [])"

definition text_lines :: "report_env \<Rightarrow> comparison list \<Rightarrow> (string, pyval) dict \<Rightarrow> (string, pyval) dict \<Rightarrow> string list res" where
  "text_lines E cs cur base =
     bindR (slice_text E 12 (meta cur ''git_hash'')) (\<lambda>hc.
     bindR (slice_text E 8 (meta base ''git_hash'')) (\<lambda>hb. Inr (
     banner ''PERFORMANCE REGRESSION TEST REPORT''
     @ [''Generated: '' @ now_text E, ''Current Git Hash: '' @ hc,
        ''Baseline: '' @ meta_text E base ''label'' @ '' (Git: '' @ hb @ '')'', []]
     @ banner ''SUMMARY''
     @ [''Total Benchmarks: '' @ show_nat (length cs),
        ''  - Stable:       '' @ show_nat (count_status STABLE cs),
        ''  - Improvements: '' @ show_nat (count_status IMPROVEMENT cs),
        ''  - Regressions:  '' @ show_nat (count_status REGRESSION cs), []]
     @ text_section ''REGRESSIONS DETECTED'' REGRESSION cs
     @ text_section ''IMPROVEMENTS'' IMPROVEMENT cs
     @ banner ''ALL RESULTS''
     @ [text_columns @ '' '' @ rjust 12 ''Status'', rule80 CHR ''-'']
     @ map text_status_row cs @ [rule80 CHR ''=''])))"

definition generate_text_report ::
  "report_env \<Rightarrow> comparison list \<Rightarrow> (string, pyval) dict \<Rightarrow> (string, pyval) dict \<Rightarrow> string res" where
  "generate_text_report E cs cur base = bindR (text_lines E cs cur base) (\<lambda>ls. Inr (py_join newline ls))"

section \<open>JSON\<close>

definition json_report :: "report_env \<Rightarrow> comparison list \<Rightarrow> (string, pyval) dict \<Rightarrow> (string, pyval) dict \<Rightarrow> pyval" where
  "json_report E cs cur base = PyDict
    [(''generated_at'', PyStr (now_isoformat E)), (''current'', PyDict cur), (''baseline'', PyDict base),
     (''summary'', PyDict
       [(''total'', PyInt (int (length cs))), (''stable'', PyInt (int (count_status STABLE cs))),
        (''improvements'', PyInt (int (count_status IMPROVEMENT cs))), (''regressions'', PyInt (int (count_status REGRESSION cs)))]),
     (''regressions'', PyList (map comparison_value (with_status REGRESSION cs))),
     (''improvements'', PyList (map comparison_value (with_status IMPROVEMENT cs))),
     (''all_results'', PyList (map comparison_value cs))]"

definition generate_json_report ::
  "report_env \<Rightarrow> comparison list \<Rightarrow> (string, pyval) dict \<Rightarrow> (string, pyval) dict \<Rightarrow> string option \<Rightarrow> (reports, pyval) st" where
  "generate_json_report E cs cur base out =
     bindS (write_report E out (JsonFile (json_report E cs cur base))) (\<lambda>_. returnS (json_report E cs cur base))"

end
