(* ===== verification/Runner.thy ===== *)
theory Runner
  imports Report
begin

text \<open>
  \<^verbatim>\<open>main\<close> of \<^verbatim>\<open>benchmarks/regression_runner.py\<close>: the run of the selected benchmarks, the saving of a
  baseline, the comparison with one, the report and the exit status. Arguments and configuration
  are the parsed command line and the decoded configuration file. The state joins the counters of
  the benchmarks, the directory of the baselines, the one of the reports, and the text printed
  (in which the path of a missing baseline is left out).
\<close>

section \<open>Arguments, configuration and state\<close>

datatype report_format = TextFormat | MarkdownFormat | JsonFormat

record runner_args =
  a_config :: string
  a_save_baseline :: bool
  a_baseline_label :: "string option"
  a_compare :: bool
  a_baseline :: string
  a_category :: "string option"
  a_report :: report_format
  a_report_file :: "string option"
  a_fail_on_regression :: bool

record runner_config =
  rc_benchmarks :: "bench_config list"
  rc_outlier_removal :: string
  rc_threshold_default :: "real option"

record world =
  w_bench :: bench_state
  w_baselines :: directory
  w_reports :: reports
  w_out :: string

definition put_text :: "string \<Rightarrow> (world, unit) st" where
  "put_text t = (\<lambda>w. (Inr (), w\<lparr>w_out := w_out w @ t\<rparr>))"

definition print_line :: "string \<Rightarrow> (world, unit) st" where
  "print_line t = put_text (t @ newline)"

definition on_bench :: "(bench_state, 'a) st \<Rightarrow> (world, 'a) st" where
  "on_bench c = (\<lambda>w. case c (w_bench w) of (r, b) \<Rightarrow> (r, w\<lparr>w_bench := b\<rparr>))"

definition on_baselines :: "(directory, 'a) st \<Rightarrow> (world, 'a) st" where
  "on_baselines c = (\<lambda>w. case c (w_baselines w) of (r, d) \<Rightarrow> (r, w\<lparr>w_baselines := d\<rparr>))"

definition on_reports :: "(reports, 'a) st \<Rightarrow> (world, 'a) st" where
  "on_reports c = (\<lambda>w. case c (w_reports w) of (r, d) \<Rightarrow> (r, w\<lparr>w_reports := d\<rparr>))"

text \<open>\<open>sys.exit(1)\<close>. The process ends with status 1 for it and for every uncaught exception.\<close>

definition sys_exit :: "(world, unit) st" where
  "sys_exit = raiseS SystemExit ''1''"

definition exit_status :: "'a res \<Rightarrow> int" where
  "exit_status r = (case r of Inl _ \<Rightarrow> 1 | Inr _ \<Rightarrow> 0)"

section \<open>Running the benchmarks\<close>

definition nonempty :: "string option \<Rightarrow> bool" where
  "nonempty s \<longleftrightarrow> (case s of None \<Rightarrow> False | Some t \<Rightarrow> t \<noteq> [])"

definition select_benchmarks :: "runner_args \<Rightarrow> runner_config \<Rightarrow> bench_config list" where
  "select_benchmarks A cfg =
     (if nonempty (a_category A) then filter (\<lambda>b. Some (b_category b) = a_category A) (rc_benchmarks cfg)
      else rc_benchmarks cfg)"

text \<open>\<open>i\<close> counts from one, \<open>n\<close> is the number of benchmarks.\<close>

fun run_all ::
  "bench_env \<Rightarrow> context_info \<Rightarrow> string \<Rightarrow> nat \<Rightarrow> nat \<Rightarrow> bench_config list \<Rightarrow> (world, bench_result list) st" where
  "run_all V x outlier n i [] = returnS []"
| "run_all V x outlier n i (b # bs) =
     bindS (put_text (''['' @ show_nat i @ ''/'' @ show_nat n @ ''] Running '' @ b_name b @ ''... '')) (\<lambda>_.
     bindS (on_bench (run_benchmark V x b outlier)) (\<lambda>r.
     bindS (print_line (fmt_fixed 3 (median_ms r) @ '' ms'')) (\<lambda>_.
     bindS (run_all V x outlier n (Suc i) bs) (\<lambda>rs. returnS (r # rs)))))"

text \<open>The dictionary \<open>run_benchmark\<close> returns, as it is stored in a baseline.\<close>

definition result_value :: "bench_result \<Rightarrow> pyval" where
  "result_value r = PyDict
    [(''name'', PyStr (r_name r)), (''category'', PyStr (r_category r)), (''median_ms'', PyFloat (Fin (median_ms r))),
     (''mean_ms'', PyFloat (Fin (mean_ms r))), (''std_ms'', PyFloat (Fin (std_ms r))), (''min_ms'', PyFloat (Fin (min_ms r))),
     (''max_ms'', PyFloat (Fin (max_ms r))), (''p95_ms'', PyFloat (Fin (p95_ms r))), (''p99_ms'', PyFloat (Fin (p99_ms r))),
     (''samples'', PyInt (int (n_samples r))), (''timestamp'', PyFloat (Fin (r_timestamp r))),
     (''git_hash'', PyStr (r_git_hash r)), (''git_branch'', PyStr (r_git_branch r))]"

definition save_metadata :: "runner_args \<Rightarrow> pyval" where
  "save_metadata A = PyDict [(''config_file'', PyStr (a_config A)),
     (''category_filter'', case a_category A of None \<Rightarrow> PyNone | Some c \<Rightarrow> PyStr c)]"

definition save_stage :: "context_info \<Rightarrow> runner_args \<Rightarrow> bench_result list \<Rightarrow> (world, unit) st" where
  "save_stage x A results =
     (if a_save_baseline A
      then bindS (on_baselines (save_baseline x (map result_value results) (a_baseline_label A) (Some (save_metadata A)))) (\<lambda>label.
           bindS (print_line (''Baseline saved: '' @ label)) (\<lambda>_. print_line []))
      else returnS ())"

section \<open>The comparison\<close>

text \<open>Iterating over a value: the items of a list, the characters of a string, the keys of a dictionary.\<close>

definition py_iter :: "pyval \<Rightarrow> pyval list res" where
  "py_iter v = (case v of
     PyList xs \<Rightarrow> Inr xs
   | PyStr s \<Rightarrow> Inr (map (\<lambda>c. PyStr [c]) s)
   | PyDict d \<Rightarrow> Inr (map (\<lambda>(k, _). PyStr k) d)
   | _ \<Rightarrow> raise TypeError ''object is not iterable'')"

definition hashable :: "pyval \<Rightarrow> bool" where
  "hashable v \<longleftrightarrow> (case v of PyList _ \<Rightarrow> False | PyDict _ \<Rightarrow> False | _ \<Rightarrow> True)"

text \<open>\<open>{r["name"]: r for r in baseline_data["results"]}\<close>: of two results with one name the later stays.\<close>

definition index_result :: "pyval \<Rightarrow> (pyval, pyval) dict \<Rightarrow> (pyval, pyval) dict res" where
  "index_result r idx = bindR (py_item r ''name'') (\<lambda>k.
     if hashable k then Inr (dict_set k r idx) else raise TypeError ''unhashable type'')"

definition index_results :: "pyval \<Rightarrow> (pyval, pyval) dict res" where
  "index_results doc = bindR (py_item doc ''results'') (\<lambda>v. bindR (py_iter v) (\<lambda>rs. foldR index_result rs []))"

text \<open>Results whose name the baseline does not have are passed over.\<close>

fun compare_results :: "real \<Rightarrow> (pyval, pyval) dict \<Rightarrow> bench_result list \<Rightarrow> comparison list res" where
  "compare_results th idx [] = Inr []"
| "compare_results th idx (r # rs) =
     (case dict_get idx (PyStr (r_name r)) of
        None \<Rightarrow> compare_results th idx rs
      | Some b \<Rightarrow> bindR (compare_with_baseline r b th) (\<lambda>c. bindR (compare_results th idx rs) (\<lambda>cs. Inr (c # cs))))"

definition threshold_of :: "runner_config \<Rightarrow> real" where
  "threshold_of cfg = (case rc_threshold_default cfg of None \<Rightarrow> 5 / 100 | Some t \<Rightarrow> t)"

definition current_meta :: "bench_env \<Rightarrow> context_info \<Rightarrow> (string, pyval) dict" where
  "current_meta V x = [(''git_hash'', PyStr (get_git_hash x)), (''git_branch'', PyStr (get_git_branch x)),
     (''timestamp'', PyFloat (Fin (wall_time V)))]"

definition baseline_meta :: "pyval \<Rightarrow> (string, pyval) dict res" where
  "baseline_meta doc =
     bindR (py_get doc ''label'' (PyStr ''unknown'')) (\<lambda>l.
     bindR (py_get doc ''git_hash'' (PyStr ''unknown'')) (\<lambda>h.
     bindR (py_get doc ''git_branch'' (PyStr ''unknown'')) (\<lambda>b.
     bindR (py_get doc ''timestamp'' (PyStr ''unknown'')) (\<lambda>t.
     Inr [(''label'', l), (''git_hash'', h), (''git_branch'', b), (''timestamp'', t)]))))"

definition report_stage ::
  "report_env \<Rightarrow> runner_args \<Rightarrow> comparison list \<Rightarrow> (string, pyval) dict \<Rightarrow> (string, pyval) dict \<Rightarrow> (world, unit) st" where
  "report_stage E A cs cur base = (case a_report A of
     MarkdownFormat \<Rightarrow>
       bindS (on_reports (generate_markdown_report E cs cur base (a_report_file A))) print_line
   | JsonFormat \<Rightarrow>
       bindS (on_reports (generate_json_report E cs cur base (a_report_file A))) (\<lambda>v. print_line (json_dumps E v))
   | TextFormat \<Rightarrow>
       bindS (liftS (generate_text_report E cs cur base)) (\<lambda>t. bindS (print_line t) (\<lambda>_.
       on_reports (write_report E (a_report_file A) (TextFile t)))))"

definition gate_stage :: "runner_args \<Rightarrow> comparison list \<Rightarrow> (world, unit) st" where
  "gate_stage A cs =
     (if a_fail_on_regression A \<and> with_status REGRESSION cs \<noteq> []
      then bindS (print_line (newline @ ''FAILURE: '' @ show_nat (count_status REGRESSION cs) @ '' regression(s) detected''))
             (\<lambda>_. sys_exit)
      else returnS ())"

definition compare_body ::
  "bench_env \<Rightarrow> context_info \<Rightarrow> report_env \<Rightarrow> runner_args \<Rightarrow> runner_config \<Rightarrow> bench_result list \<Rightarrow> (world, unit) st" where
  "compare_body V x E A cfg results =
     bindS (\<lambda>w. (load_baseline (w_baselines w) (a_baseline A), w)) (\<lambda>doc.
     bindS (liftS (index_results doc)) (\<lambda>idx.
     bindS (liftS (compare_results (threshold_of cfg) idx results)) (\<lambda>cs.
     bindS (liftS (baseline_meta doc)) (\<lambda>base.
     bindS (report_stage E A cs (current_meta V x) base) (\<lambda>_. gate_stage A cs)))))"

definition compare_stage ::
  "bench_env \<Rightarrow> context_info \<Rightarrow> report_env \<Rightarrow> runner_args \<Rightarrow> runner_config \<Rightarrow> bench_result list \<Rightarrow> (world, unit) st" where
  "compare_stage V x E A cfg results =
     (if a_compare A
      then catchS (\<lambda>e. exc_class e = FileNotFoundError) (compare_body V x E A cfg results)
             (\<lambda>e. bindS (print_line (''Error: '' @ exc_msg e)) (\<lambda>_. sys_exit))
      else returnS ())"

section \<open>The program\<close>

definition py_bool_text :: "bool \<Rightarrow> string" where
  "py_bool_text b = (if b then ''True'' else ''False'')"

definition print_header :: "bench_env \<Rightarrow> runner_config \<Rightarrow> bench_config list \<Rightarrow> (world, unit) st" where
  "print_header V cfg bs =
     bindS (print_line (''Running '' @ show_nat (length bs) @ '' benchmarks...'')) (\<lambda>_.
     bindS (print_line (''MetalNative available: '' @ py_bool_text (has_metal_native V))) (\<lambda>_.
     bindS (print_line (''Outlier removal: '' @ rc_outlier_removal cfg)) (\<lambda>_. print_line [])))"

definition runner_main ::
  "bench_env \<Rightarrow> context_info \<Rightarrow> report_env \<Rightarrow> runner_args \<Rightarrow> runner_config option \<Rightarrow> (world, unit) st" where
  "runner_main V x E A cfg_file = (case cfg_file of
     None \<Rightarrow> bindS (print_line (''Error: Config file not found: '' @ a_config A)) (\<lambda>_. sys_exit)
   | Some cfg \<Rightarrow>
       let bs = select_benchmarks A cfg in
       if nonempty (a_category A) \<and> bs = []
       then bindS (print_line (''Error: No benchmarks found for category '' @ [CHR 0x27] @ the (a_category A) @ [CHR 0x27])) (\<lambda>_. sys_exit)
       else
         bindS (print_header V cfg bs) (\<lambda>_.
         bindS (run_all V x (rc_outlier_removal cfg) (length bs) 1 bs) (\<lambda>results.
         bindS (print_line []) (\<lambda>_.
         bindS (save_stage x A results) (\<lambda>_.
         bindS (compare_stage V x E A cfg results) (\<lambda>_. print_line ''Done!''))))))"

end
