(* ===== verification/RunnerProps.thy ===== *)
theory RunnerProps
  imports Runner BenchProps
begin

text \<open>
  Properties of the reports and of the runner as a whole: what the category breakdown holds, when
  the run ends with status 0, and what saving and comparing in one run does.
\<close>

section \<open>Counting verdicts\<close>

lemma count_total: "count_status STABLE cs + count_status IMPROVEMENT cs + count_status REGRESSION cs = length cs"
proof (induction cs)
  case (Cons c cs)
  then show ?case by (cases "c_status c") (simp_all add: count_status_def with_status_def)
qed (simp add: count_status_def with_status_def)

lemma with_status_empty: "with_status s cs = [] \<longleftrightarrow> (\<forall>c \<in> set cs. c_status c \<noteq> s)"
  by (auto simp: with_status_def filter_empty_conv)

section \<open>Categories\<close>

definition category_members :: "comparison list \<Rightarrow> string \<Rightarrow> comparison list" where
  "category_members cs k = filter (\<lambda>c. name_category c = k) cs"

lemma category_lookup:
  "dict_get (fold add_category cs m) k =
     (if category_members cs k = [] then dict_get m k else Some (dict_get_default m k [] @ category_members cs k))"
proof (induction cs arbitrary: m)
  case (Cons c cs)
  show ?case unfolding fold_simps comp_def Cons.IH
    by (auto simp: category_members_def add_category_def dict_get_set dict_get_default_def)
qed (simp add: category_members_def)

lemma category_lookup_all:
  "dict_get (fold add_category cs []) k = (if category_members cs k = [] then None else Some (category_members cs k))"
  unfolding category_lookup by (simp add: dict_get_def dict_get_default_def)

lemma category_wf: "dict_wf m \<Longrightarrow> dict_wf (fold add_category cs m)"
  by (induction cs arbitrary: m) (auto simp: add_category_def intro: dict_wf_set)

lemma members_empty: "category_members cs k = [] \<longleftrightarrow> k \<notin> name_category ` set cs"
  by (auto simp: category_members_def filter_empty_conv)

text \<open>A dictionary with distinct keys, sorted by them.\<close>

lemma sort_items:
  assumes wf: "dict_wf (d :: ('k :: linorder, 'v) dict)"
  shows "sort_key fst d = map (\<lambda>k. (k, the (dict_get d k))) (sorted_list_of_set (fst ` set d))"
proof -
  let ?s = "sort_key fst d"
  have "mset (map fst ?s) = mset (map fst d)" by simp
  from mset_eq_imp_distinct_iff [OF this] have "distinct (map fst ?s)"
    using wf by (simp add: dict_wf_def)
  then have keys: "map fst ?s = sorted_list_of_set (fst ` set d)"
    using sorted_list_of_set.idem_if_sorted_distinct [of "map fst ?s"] by simp
  have "the (dict_get d (fst kv)) = snd kv" if "kv \<in> set ?s" for kv
    using that wf by (cases kv rule: prod.exhaust) (simp add: dict_wf_def dict_get_def map_of_is_SomeI)
  then have "?s = map (\<lambda>k. (k, the (dict_get d k))) (map fst ?s)"
    unfolding map_map by (intro map_idI [symmetric]) simp
  then show ?thesis unfolding keys .
qed

lemma category_keys: "fst ` set (fold add_category cs []) = name_category ` set cs"
proof -
  have "k \<in> fst ` set (fold add_category cs []) \<longleftrightarrow> k \<in> name_category ` set cs" for k
    using dict_has_get [of "fold add_category cs []" k]
    by (simp add: dict_has_def category_lookup_all members_empty)
  then show ?thesis by blast
qed

text \<open>
  The category breakdown of a report has one section for every category of the compared benchmarks (the
  part of a name before its first underscore), in alphabetical order and each once; a section counts exactly
  the comparisons of its category, so that every comparison is counted in one section only.
\<close>

theorem category_breakdown_spec:
  "generate_category_breakdown cs = [''## Category Breakdown'', []]
     @ concat (map (\<lambda>k. category_lines (k, category_members cs k)) (sorted_list_of_set (name_category ` set cs)))
   \<and> (\<Sum>k \<in> name_category ` set cs. length (category_members cs k)) = length cs"
proof -
  let ?m = "fold add_category cs []"
  have wf: "dict_wf ?m" by (rule category_wf) (simp add: dict_wf_def)
  have "the (dict_get ?m k) = category_members cs k" if "k \<in> name_category ` set cs" for k
    using that members_empty [of cs k] by (simp add: category_lookup_all)
  then have "sort_key fst ?m = map (\<lambda>k. (k, category_members cs k)) (sorted_list_of_set (name_category ` set cs))"
    unfolding sort_items [OF wf] category_keys by simp
  moreover have "(\<Sum>k \<in> name_category ` set cs. length (category_members cs k)) = length cs"
  proof -
    have "length (category_members cs k) = count (mset (map name_category cs)) k" for k
      by (induction cs) (simp_all add: category_members_def)
    then show ?thesis using size_multiset_overloaded_eq [of "mset (map name_category cs)"] by simp
  qed
  ultimately show ?thesis by (simp add: generate_category_breakdown_def comp_def)
qed

section \<open>What the stages leave alone\<close>

lemma put_text_run [simp]: "put_text t w = (Inr (), w\<lparr>w_out := w_out w @ t\<rparr>)"
  by (simp add: put_text_def)

lemma print_line_run [simp]: "print_line t w = (Inr (), w\<lparr>w_out := w_out w @ t @ newline\<rparr>)"
  by (simp add: print_line_def)

text \<open>Computations that leave the baselines alone.\<close>

definition keeps_baselines :: "(world, 'a) st \<Rightarrow> bool" where
  "keeps_baselines c \<longleftrightarrow> (\<forall>w. w_baselines (snd (c w)) = w_baselines w)"

lemma keeps_intros [intro]:
  "keeps_baselines (put_text t)" "keeps_baselines (print_line t)" "keeps_baselines (returnS x)" "keeps_baselines (on_bench b)"
  "keeps_baselines c \<Longrightarrow> (\<And>x. keeps_baselines (f x)) \<Longrightarrow> keeps_baselines (bindS c f)"
proof -
  show "keeps_baselines c \<Longrightarrow> (\<And>x. keeps_baselines (f x)) \<Longrightarrow> keeps_baselines (bindS c f)"
    by (simp add: keeps_baselines_def bindS_def split: prod.split sum.split) (metis snd_conv)
qed (simp_all add: keeps_baselines_def on_bench_def split: prod.split)

lemma keepsD: "keeps_baselines c \<Longrightarrow> c w = (r, w') \<Longrightarrow> w_baselines w' = w_baselines w"
  by (metis keeps_baselines_def snd_conv)

lemma print_header_returns: "\<exists>w'. print_header V cfg bs w = (Inr (), w') \<and> w_baselines w' = w_baselines w"
  unfolding print_header_def bindS_apply print_line_run prod.case sum.case by simp

lemma run_all_keeps: "keeps_baselines (run_all V x outlier n i bs)"
proof (induction bs arbitrary: i)
  case Nil
  show ?case unfolding run_all.simps by blast
next
  case (Cons b bs)
  then show ?case unfolding run_all.simps by (intro keeps_intros)
qed

lemma run_benchmark_name: "run_benchmark V x b outlier s = (Inr r, s') \<Longrightarrow> r_name r = b_name b"
  by (auto simp: run_benchmark_def bindS_def summarize_def bindR_Inr_iff split: prod.splits sum.splits)

lemma run_all_names: "run_all V x outlier n i bs w = (Inr rs, w') \<Longrightarrow> map r_name rs = map b_name bs"
proof (induction bs arbitrary: i w rs)
  case (Cons b bs)
  from Cons.prems show ?case
    unfolding run_all.simps bindS_apply put_text_run print_line_run prod.case sum.case
    by (auto simp: on_bench_def split: prod.splits sum.splits dest: run_benchmark_name Cons.IH)
qed simp

section \<open>The index of stored results\<close>

lemma index_result_stored:
  "foldR index_result (map result_value rs) idx =
     Inr (foldl (\<lambda>m (k, v). dict_set k v m) idx (map (\<lambda>r. (PyStr (r_name r), result_value r)) rs))"
  by (induction rs arbitrary: idx) (simp_all add: index_result_def result_value_def py_item_def dict_get_def hashable_def)

lemma index_stored:
  assumes "distinct (map r_name rs)"
  shows "\<exists>idx. index_results (baseline_doc x l (map result_value rs) md) = Inr idx
    \<and> (\<forall>r \<in> set rs. dict_get idx (PyStr (r_name r)) = Some (result_value r))"
proof -
  let ?kvs = "map (\<lambda>r. (PyStr (r_name r), result_value r)) rs"
  let ?idx = "foldl (\<lambda>m (k, v). dict_set k v m) [] ?kvs"
  have i: "index_results (baseline_doc x l (map result_value rs) md) = Inr ?idx"
    by (simp add: index_results_def baseline_doc_def py_item_def dict_get_def py_iter_def index_result_stored)
  have "distinct (map fst ?kvs)" using assms by (simp add: comp_def distinct_map inj_on_def)
  then have "map_of (rev ?kvs) (PyStr (r_name r)) = Some (result_value r)" if "r \<in> set rs" for r
    using that by (intro map_of_is_SomeI) (auto simp: rev_map [symmetric])
  then have "dict_get ?idx (PyStr (r_name r)) = Some (result_value r)" if "r \<in> set rs" for r
    using that by (simp add: pydict.lookup_writes)
  with i show ?thesis by blast
qed

lemma compare_stored:
  assumes "median_ms r \<noteq> 0" and "0 \<le> th"
  shows "\<exists>c. compare_with_baseline r (result_value r) th = Inr c \<and> c_status c = STABLE"
  using assms by (simp add: compare_with_baseline_def result_value_def py_item_def dict_get_def py_number_def classify_def Let_def)

lemma compare_results_stored:
  assumes "\<forall>r \<in> set rs. dict_get idx (PyStr (r_name r)) = Some (result_value r) \<and> median_ms r \<noteq> 0" and "0 \<le> th"
  shows "\<exists>cs. compare_results th idx rs = Inr cs \<and> with_status REGRESSION cs = []"
  using assms(1)
proof (induction rs)
  case (Cons r rs)
  then obtain cs where "compare_results th idx rs = Inr cs" "with_status REGRESSION cs = []" by auto
  with Cons.prems compare_stored [OF _ assms(2), of r] show ?case by (auto simp: with_status_def)
qed (simp add: with_status_def)

section \<open>The report and the gate\<close>

text \<open>The report can be written, if a file was asked for.\<close>

definition report_writable :: "report_env \<Rightarrow> runner_args \<Rightarrow> bool" where
  "report_writable E A \<longleftrightarrow> (\<forall>name. a_report_file A = Some name \<and> name \<noteq> [] \<longrightarrow> write_error E name = None)"

lemma report_stage_done:
  assumes "report_writable E A" and "returns (slice_text E 8 (meta base ''git_hash''))" and "returns (slice_text E 12 (meta cur ''git_hash''))"
  shows "\<exists>w'. report_stage E A cs cur base w = (Inr (), w')"
  using assms
  by (auto simp: report_writable_def report_stage_def on_reports_def generate_markdown_report_def generate_json_report_def
      generate_text_report_def markdown_lines_def text_lines_def returns_iff bindS_def write_report_def
      split: report_format.split option.split)

lemma current_hash: "slice_text E n (meta (current_meta V x) ''git_hash'') = Inr (take n (get_git_hash x))"
  by (simp add: meta_def current_meta_def slice_text_def dict_get_default_def dict_get_def)

lemma gate_stage_status: "exit_status (fst (gate_stage A cs w)) = (if a_fail_on_regression A \<and> with_status REGRESSION cs \<noteq> [] then 1 else 0)"
  by (simp add: gate_stage_def exit_status_def bindS_def sys_exit_def raise_def)

text \<open>The status of the comparison, when the baseline can be read.\<close>

lemma compare_body_status:
  assumes "load_baseline (w_baselines w) (a_baseline A) = Inr doc" and "index_results doc = Inr idx"
    and "compare_results (threshold_of cfg) idx results = Inr cs" and "baseline_meta doc = Inr base"
    and "returns (slice_text E 8 (meta base ''git_hash''))" and "report_writable E A"
  shows "exit_status (fst (compare_body V x E A cfg results w))
    = (if a_fail_on_regression A \<and> with_status REGRESSION cs \<noteq> [] then 1 else 0)"
proof -
  obtain w' where "report_stage E A cs (current_meta V x) base w = (Inr (), w')"
    using report_stage_done [OF assms(6,5)] current_hash by (metis returns_iff)
  with assms(1-4) show ?thesis
    by (simp add: compare_body_def bindS_def gate_stage_status)
qed

lemma catchS_returns: "exit_status (fst (c w)) = 0 \<Longrightarrow> catchS p c h w = c w"
  by (auto simp: catchS_def exit_status_def split: prod.split sum.split)

lemma returned: "exit_status r = 0 \<longleftrightarrow> returns r"
  by (simp add: exit_status_def returns_def split: sum.split)

text \<open>The run of the program up to the comparison.\<close>

lemma runner_main_unfold:
  assumes sel: "\<not> (nonempty (a_category A) \<and> select_benchmarks A cfg = [])"
    and run: "run_all V x (rc_outlier_removal cfg) (length (select_benchmarks A cfg)) 1 (select_benchmarks A cfg)
           (snd (print_header V cfg (select_benchmarks A cfg) w)) = (Inr results, w2)"
    and save: "save_stage x A results (w2\<lparr>w_out := w_out w2 @ [] @ newline\<rparr>) = (Inr (), w3)"
  shows "exit_status (fst (runner_main V x E A (Some cfg) w)) = exit_status (fst (compare_stage V x E A cfg results w3))"
proof -
  obtain w1 where h: "print_header V cfg (select_benchmarks A cfg) w = (Inr (), w1)"
    using print_header_returns by blast
  have r: "run_all V x (rc_outlier_removal cfg) (length (select_benchmarks A cfg)) 1 (select_benchmarks A cfg) w1 = (Inr results, w2)"
    using run h by simp
  have "runner_main V x E A (Some cfg) w = bindS (compare_stage V x E A cfg results) (\<lambda>_. print_line ''Done!'') w3"
    unfolding runner_main_def Let_def option.case if_not_P [OF sel]
      bindS_Inr [where c = "print_header V cfg (select_benchmarks A cfg)" and s = w, OF h]
      bindS_Inr [where c = "run_all V x (rc_outlier_removal cfg) (length (select_benchmarks A cfg)) 1 (select_benchmarks A cfg)"
        and s = w1, OF r]
      bindS_Inr [where c = "print_line []" and s = w2, OF print_line_run]
      bindS_Inr [where c = "save_stage x A results", OF save] ..
  then show ?thesis by (simp add: bindS_def exit_status_def split: prod.split sum.split)
qed

section \<open>The gate\<close>

lemma status_bind:
  assumes "exit_status (fst (bindS c f w)) = 0"
  obtains v w' where "c w = (Inr v, w')" "exit_status (fst (f v w')) = 0"
  using assms by (auto simp: bindS_def exit_status_def split: prod.splits sum.splits)

lemma status_lift:
  assumes "exit_status (fst (bindS (liftS r) f w)) = 0"
  obtains v where "r = Inr v" "exit_status (fst (f v w)) = 0"
  using assms by (cases r) (auto simp: bindS_def exit_status_def)

lemma compare_stage_body:
  assumes "a_compare A" and "exit_status (fst (compare_stage V x E A cfg results w)) = 0"
  shows "exit_status (fst (compare_body V x E A cfg results w)) = 0"
proof (cases "compare_body V x E A cfg results w")
  case (Pair r w')
  with assms show ?thesis
    by (cases r) (auto simp: compare_stage_def catchS_def bindS_def sys_exit_def exit_status_def raise_def split: if_splits)
qed

lemma compared_not_slower:
  assumes "compare_results th idx rs = Inr cs" and "with_status REGRESSION cs = []" and "r \<in> set rs"
    and "dict_get idx (PyStr (r_name r)) = Some b" and "bindR (py_item b ''median_ms'') py_number = Inr m" and "0 < m"
  shows "median_ms r \<le> m + th * m"
  using assms(1-3)
proof (induction rs arbitrary: cs)
  case (Cons r' rs)
  show ?case
  proof (cases "r = r'")
    case True
    with Cons.prems assms(4) obtain c cs' where c: "compare_with_baseline r b th = Inr c" "cs = c # cs'"
      by (auto simp: bindR_Inr_iff)
    with Cons.prems(2) have "c_status c \<noteq> REGRESSION" by (auto simp: with_status_def split: if_splits)
    with c assms(5,6) have "\<not> 1 + th < median_ms r / m"
      by (auto simp: compare_with_baseline_def Let_def classify_def split: if_splits)
    with assms(6) show ?thesis by (simp add: field_simps not_less)
  next
    case False
    from Cons.prems(1) have "\<exists>cs'. compare_results th idx rs = Inr cs' \<and> set cs' \<subseteq> set cs"
      by (cases "dict_get idx (PyStr (r_name r'))") (auto simp: bindR_Inr_iff)
    with Cons False show ?thesis by (auto simp: with_status_empty)
  qed
qed simp

text \<open>
  The directory that the comparison reads: with \<open>--save-baseline\<close> the one in which these results have just been
  saved, and without it the one that was there.
\<close>

definition compared_dir :: "context_info \<Rightarrow> runner_args \<Rightarrow> bench_result list \<Rightarrow> directory \<Rightarrow> directory" where
  "compared_dir x A results d =
     (if a_save_baseline A
      then snd (save_baseline x (map result_value results) (a_baseline_label A) (Some (save_metadata A)) d)
      else d)"

lemma save_stage_dir: "save_stage x A results w = (Inr (), w') \<Longrightarrow> w_baselines w' = compared_dir x A results (w_baselines w)"
  by (auto simp: save_stage_def compared_dir_def bindS_apply on_baselines_def split: if_splits prod.splits sum.splits)

text \<open>
  C4. The gate is sound, with and without \<open>--save-baseline\<close>: a run that compares with a baseline under
  \<open>--fail-on-regression\<close> and ends with status 0 has run every selected benchmark; it has loaded the baseline that was
  asked for, from the directory as it was or, with \<open>--save-baseline\<close>, as saving these results left it; and no benchmark
  that this baseline has with a positive median is slower than that median by more than the default threshold. (That
  a run which saves and then compares with \<open>latest\<close> passes for this reason alone is another property.)
\<close>

theorem regression_gate_sound:
  assumes "a_compare A" and "a_fail_on_regression A" and "exit_status (fst (runner_main V x E A (Some cfg) w)) = 0"
  shows "\<exists>results w2 doc idx.
      run_all V x (rc_outlier_removal cfg) (length (select_benchmarks A cfg)) 1 (select_benchmarks A cfg)
        (snd (print_header V cfg (select_benchmarks A cfg) w)) = (Inr results, w2)
    \<and> map r_name results = map b_name (select_benchmarks A cfg)
    \<and> load_baseline (compared_dir x A results (w_baselines w)) (a_baseline A) = Inr doc \<and> index_results doc = Inr idx
    \<and> (\<forall>r \<in> set results. \<forall>b m. dict_get idx (PyStr (r_name r)) = Some b \<and> bindR (py_item b ''median_ms'') py_number = Inr m \<and> 0 < m
         \<longrightarrow> median_ms r \<le> m + threshold_of cfg * m)"
proof -
  let ?bs = "select_benchmarks A cfg"
  have sel: "\<not> (nonempty (a_category A) \<and> ?bs = [])"
  proof
    assume a: "nonempty (a_category A) \<and> ?bs = []"
    show False using assms(3) unfolding runner_main_def Let_def option.case if_P [OF a]
      by (elim status_bind) (simp add: sys_exit_def exit_status_def raise_def)
  qed
  obtain w1 where h: "print_header V cfg ?bs w = (Inr (), w1)" "w_baselines w1 = w_baselines w"
    using print_header_returns by blast
  from assms(3) obtain results w2 w3 where
    r: "run_all V x (rc_outlier_removal cfg) (length ?bs) 1 ?bs w1 = (Inr results, w2)"
    and s: "save_stage x A results (w2\<lparr>w_out := w_out w2 @ [] @ newline\<rparr>) = (Inr (), w3)"
    and c: "exit_status (fst (compare_stage V x E A cfg results w3)) = 0"
    unfolding runner_main_def Let_def option.case if_not_P [OF sel]
    by (elim status_bind) (auto simp: h)
  from compare_stage_body [OF assms(1) c] obtain doc idx cs where
    l: "load_baseline (w_baselines w3) (a_baseline A) = Inr doc" "index_results doc = Inr idx"
    "compare_results (threshold_of cfg) idx results = Inr cs"
    and g: "\<exists>v. exit_status (fst (gate_stage A cs v)) = 0"
    unfolding compare_body_def by (elim status_bind status_lift) (auto simp: bindS_def)
  from g assms(2) have n: "with_status REGRESSION cs = []" by (auto simp: gate_stage_status split: if_splits)
  have k: "w_baselines w3 = compared_dir x A results (w_baselines w)"
    using save_stage_dir [OF s] keepsD [OF run_all_keeps r] h by simp
  show ?thesis
    using h r run_all_names [OF r] l compared_not_slower [OF l(3) n]
    by (intro exI [of _ results] exI [of _ w2] exI [of _ doc] exI [of _ idx]) (auto simp: k)
qed

section \<open>Saving and comparing in one run\<close>

definition saved_label :: "context_info \<Rightarrow> runner_args \<Rightarrow> string" where
  "saved_label x A = (case a_baseline_label A of None \<Rightarrow> now_label x | Some l \<Rightarrow> l)"

lemma save_stage_latest:
  assumes "a_save_baseline A" and "plain_label (saved_label x A)" and "managed (w_baselines w)"
  shows "\<exists>w'. save_stage x A results w = (Inr (), w')
    \<and> load_baseline (w_baselines w') ''latest'' = Inr (baseline_doc x (saved_label x A) (map result_value results) (Some (save_metadata A)))"
proof -
  let ?l = "saved_label x A" and ?rs = "map result_value results" and ?md = "Some (save_metadata A)"
  have wf: "manager_wf (w_baselines w)" using assms(3) by (rule managed_wf)
  have "save_baseline x ?rs (a_baseline_label A) ?md = save_baseline x ?rs (Some ?l) ?md"
    by (simp add: save_baseline_def saved_label_def Let_def fun_eq_iff split: option.split)
  moreover obtain d where d: "save_baseline x ?rs (Some ?l) ?md (w_baselines w) = (Inr ?l, d)"
    using save_baseline_dir [OF wf assms(2)] by blast
  ultimately have s: "on_baselines (save_baseline x ?rs (a_baseline_label A) ?md) w = (Inr ?l, w\<lparr>w_baselines := d\<rparr>)"
    by (simp add: on_baselines_def)
  have "load_baseline d ''latest'' = Inr (baseline_doc x ?l ?rs ?md)"
    using load_after_save(2) [OF wf assms(2) refl, of x ?rs ?md] d by simp
  then show ?thesis unfolding save_stage_def if_P [OF assms(1)] bindS_apply s print_line_run prod.case sum.case by simp
qed

text \<open>
  C26. A run that saves its results and compares with \<open>latest\<close>, the default, compares them with
  themselves: however slow the code has become, whatever the earlier baselines hold, it ends with status 0
  also under \<open>--fail-on-regression\<close>. This is for a run that selects a benchmark, or has no category to select by, and
  whose benchmarks all return, with different names and no median of zero; for a label without a slash other than
  \<open>latest\<close> (by default the time), saved in a directory that the manager has produced; for a threshold that is not
  negative; and for a report file that can be written, if one is asked for.
\<close>

theorem self_comparison_passes:
  assumes "a_save_baseline A" and "a_compare A" and "a_baseline A = ''latest''" and "plain_label (saved_label x A)"
    and "report_writable E A" and "managed (w_baselines w)" and "0 \<le> threshold_of cfg" and "\<not> (nonempty (a_category A) \<and> select_benchmarks A cfg = [])"
    and "run_all V x (rc_outlier_removal cfg) (length (select_benchmarks A cfg)) 1 (select_benchmarks A cfg)
           (snd (print_header V cfg (select_benchmarks A cfg) w)) = (Inr results, w2)"
    and "distinct (map b_name (select_benchmarks A cfg))" and "\<forall>r \<in> set results. median_ms r \<noteq> 0"
  shows "exit_status (fst (runner_main V x E A (Some cfg) w)) = 0"
proof -
  let ?bs = "select_benchmarks A cfg" and ?md = "Some (save_metadata A)"
  obtain w1 where h: "print_header V cfg ?bs w = (Inr (), w1)" "w_baselines w1 = w_baselines w"
    using print_header_returns by blast
  have "w_baselines w2 = w_baselines w" using keepsD [OF run_all_keeps] assms(9) h by force
  then obtain w3 where s: "save_stage x A results (w2\<lparr>w_out := w_out w2 @ [] @ newline\<rparr>) = (Inr (), w3)"
    and l: "load_baseline (w_baselines w3) ''latest'' = Inr (baseline_doc x (saved_label x A) (map result_value results) ?md)"
    using save_stage_latest [OF assms(1,4), of "w2\<lparr>w_out := w_out w2 @ [] @ newline\<rparr>" results] assms(6) by auto
  have "distinct (map r_name results)" using run_all_names [OF assms(9)] assms(10) by simp
  then obtain idx where i: "index_results (baseline_doc x (saved_label x A) (map result_value results) ?md) = Inr idx"
    "\<forall>r \<in> set results. dict_get idx (PyStr (r_name r)) = Some (result_value r)"
    using index_stored by blast
  with compare_results_stored [OF _ assms(7)] assms(11) obtain cs where
    c: "compare_results (threshold_of cfg) idx results = Inr cs" "with_status REGRESSION cs = []" by blast
  have b: "\<exists>base. baseline_meta (baseline_doc x (saved_label x A) (map result_value results) ?md) = Inr base
      \<and> returns (slice_text E 8 (meta base ''git_hash''))"
    by (simp add: baseline_meta_def baseline_doc_def dict_get_default_def dict_get_def meta_def slice_text_def)
  then have "exit_status (fst (compare_body V x E A cfg results w3)) = 0"
    using compare_body_status [OF l [folded assms(3)] i(1) c(1) _ _ assms(5)] c(2) by auto
  with assms(2) have "exit_status (fst (compare_stage V x E A cfg results w3)) = 0"
    by (simp add: compare_stage_def catchS_returns)
  with runner_main_unfold [OF assms(8,9) s] show ?thesis by simp
qed

section \<open>Sample runs\<close>

definition sample_bench :: bench_config where
  "sample_bench = \<lparr>b_name = ''m'', b_category = ''c'', b_op = ''matmul'', b_params = [(''M'', PyInt 4), (''N'', PyInt 4), (''K'', PyInt 4)],
     b_warmup = 1, b_iters = 2\<rparr>"

definition sample_config :: runner_config where
  "sample_config = \<lparr>rc_benchmarks = [sample_bench], rc_outlier_removal = ''none'', rc_threshold_default = None\<rparr>"

definition sample_args :: "bool \<Rightarrow> runner_args" where
  "sample_args save = \<lparr>a_config = ''c.json'', a_save_baseline = save, a_baseline_label = Some ''v1'', a_compare = True,
     a_baseline = (if save then ''latest'' else ''v0''), a_category = None, a_report = TextFormat, a_report_file = None,
     a_fail_on_regression = True\<rparr>"

definition sample_world :: "directory \<Rightarrow> world" where
  "sample_world d = \<lparr>w_bench = bench_start, w_baselines = d, w_reports = [], w_out = []\<rparr>"

lemma sample_select: "select_benchmarks (sample_args s) sample_config = [sample_bench]" "\<not> nonempty (a_category (sample_args s))"
  by (simp_all add: select_benchmarks_def sample_args_def sample_config_def nonempty_def)

lemma sample_run: "\<exists>r s'. run_benchmark steady_env sample_context sample_bench ''none'' bench_start = (Inr r, s') \<and> median_ms r = 1000"
proof -
  obtain s' where "benchmark_matmul steady_env (b_params sample_bench) 1 2 bench_start = (Inr [1000, 1000], s')"
    by (simp add: benchmark_matmul_def param_def bindS_def create_def warmup_run timed_run elapsed_def steady_env_def
        dict_get_def bench_start_def numeral_2_eq_2 sample_bench_def)
  then show ?thesis
    by (simp add: run_benchmark_def dispatch_benchmark_def bindS_def summarize_def median_def mean_def stdev_def Let_def sample_bench_def)
qed

lemma sample_run_all:
  "\<exists>r w2. run_all steady_env sample_context (rc_outlier_removal sample_config) (length [sample_bench]) 1 [sample_bench]
     (snd (print_header steady_env sample_config [sample_bench] (sample_world d))) = (Inr [r], w2)
   \<and> w_baselines w2 = d \<and> median_ms r = 1000 \<and> r_name r = ''m''"
proof -
  obtain r s' where r: "run_benchmark steady_env sample_context sample_bench ''none'' bench_start = (Inr r, s')" "median_ms r = 1000"
    using sample_run by blast
  have n: "r_name r = ''m''" using run_benchmark_name [OF r(1)] by (simp add: sample_bench_def)
  let ?w = "snd (print_header steady_env sample_config [sample_bench] (sample_world d))"
  have b: "w_bench ?w = bench_start" "w_baselines ?w = d"
    unfolding print_header_def bindS_apply print_line_run prod.case sum.case by (simp_all add: sample_world_def)
  have o: "rc_outlier_removal sample_config = ''none''" by (simp add: sample_config_def)
  have "on_bench (run_benchmark steady_env sample_context sample_bench ''none'') v = (Inr r, v\<lparr>w_bench := s'\<rparr>)"
    if "w_bench v = bench_start" for v
    using that r by (simp add: on_bench_def)
  then show ?thesis
    unfolding run_all.simps bindS_apply put_text_run print_line_run prod.case sum.case o by (simp add: b r n)
qed

definition plain_report :: report_env where
  "plain_report = \<lparr>now_text = ''now'', now_isoformat = ''now'', show_value = (\<lambda>_. ''?''), json_dumps = (\<lambda>_. ''?''), write_error = (\<lambda>_. None)\<rparr>"

theorem self_comparison_passes_witness:
  "exit_status (fst (runner_main steady_env sample_context plain_report (sample_args True) (Some sample_config) (sample_world []))) = 0"
proof -
  obtain r w2 where r: "run_all steady_env sample_context (rc_outlier_removal sample_config) (length [sample_bench]) 1 [sample_bench]
     (snd (print_header steady_env sample_config [sample_bench] (sample_world []))) = (Inr [r], w2)" "median_ms r = 1000"
    using sample_run_all by blast
  have m: "managed []" by (rule managed.fresh) (simp_all add: dict_get_def)
  show ?thesis
    by (rule self_comparison_passes [where A = "sample_args True" and cfg = sample_config, unfolded sample_select, OF _ _ _ _ _ _ _ _ r(1)])
      (simp_all add: m r(2) sample_world_def threshold_of_def sample_config_def sample_args_def saved_label_def
        plain_label_def report_writable_def)
qed

definition v0_baseline :: directory where
  "v0_baseline = [(file_of ''v0'', Doc (PyDict [(''results'', PyList [PyDict [(''name'', PyStr ''m''), (''median_ms'', PyFloat (Fin 990))]])]))]"

lemma v0_exit: "exit_status (fst (runner_main steady_env sample_context E (sample_args False) (Some sample_config) (sample_world v0_baseline))) = 0"
proof -
  obtain r w2 where r: "run_all steady_env sample_context (rc_outlier_removal sample_config) (length [sample_bench]) 1 [sample_bench]
     (snd (print_header steady_env sample_config [sample_bench] (sample_world v0_baseline))) = (Inr [r], w2)"
    "w_baselines w2 = v0_baseline" "median_ms r = 1000" "r_name r = ''m''"
    using sample_run_all by blast
  let ?A = "sample_args False"
  let ?doc = "PyDict [(''results'', PyList [PyDict [(''name'', PyStr ''m''), (''median_ms'', PyFloat (Fin 990))]])]"
  let ?b = "PyDict [(''name'', PyStr ''m''), (''median_ms'', PyFloat (Fin 990))]"
  have l: "load_baseline v0_baseline (a_baseline ?A) = Inr ?doc"
    by (subst load_plain) (simp_all add: v0_baseline_def sample_args_def is_symlink_def dict_get_def)
  have i: "index_results ?doc = Inr [(PyStr ''m'', ?b)]"
    by (simp add: index_results_def py_item_def dict_get_def py_iter_def index_result_def hashable_def)
  obtain c where c: "compare_with_baseline r ?b (threshold_of sample_config) = Inr c" "c_status c = STABLE"
    by (simp add: compare_with_baseline_def py_item_def py_number_def dict_get_def classify_def Let_def r threshold_of_def sample_config_def)
  have cs: "compare_results (threshold_of sample_config) [(PyStr ''m'', ?b)] [r] = Inr [c]"
    by (simp add: r(4) c(1) dict_get_def)
  have b: "\<exists>base. baseline_meta ?doc = Inr base \<and> returns (slice_text E 8 (meta base ''git_hash''))"
    by (simp add: baseline_meta_def dict_get_default_def dict_get_def meta_def slice_text_def)
  let ?w = "w2\<lparr>w_out := w_out w2 @ [] @ newline\<rparr>"
  have s: "save_stage sample_context ?A [r] ?w = (Inr (), ?w)" by (simp add: save_stage_def sample_args_def)
  have lw: "load_baseline (w_baselines ?w) (a_baseline ?A) = Inr ?doc" using l r(2) by simp
  from b have "exit_status (fst (compare_body steady_env sample_context E ?A sample_config [r] ?w)) = 0"
    using compare_body_status [OF lw i cs] c(2) by (auto simp: with_status_def report_writable_def sample_args_def)
  moreover have "a_compare ?A" by (simp add: sample_args_def)
  ultimately have "exit_status (fst (compare_stage steady_env sample_context E ?A sample_config [r] ?w)) = 0"
    by (simp add: compare_stage_def catchS_returns)
  with runner_main_unfold [where A = ?A and cfg = sample_config, unfolded sample_select, OF _ r(1) s] show ?thesis
    by (simp add: sample_select)
qed

theorem regression_gate_sound_witness:
  "\<exists>(results :: bench_result list) doc idx. load_baseline v0_baseline ''v0'' = Inr doc \<and> index_results doc = Inr idx
     \<and> map r_name results = [''m'']
     \<and> (\<forall>r \<in> set results. \<forall>b m. dict_get idx (PyStr (r_name r)) = Some b \<and> bindR (py_item b ''median_ms'') py_number = Inr m \<and> 0 < m
          \<longrightarrow> median_ms r \<le> m + 5 / 100 * m)"
proof -
  have a: "a_compare (sample_args False)" "a_fail_on_regression (sample_args False)" "a_baseline (sample_args False) = ''v0''"
    by (simp_all add: sample_args_def)
  have t: "threshold_of sample_config = 5 / 100" "map b_name [sample_bench] = [''m'']"
    by (simp_all add: threshold_of_def sample_config_def sample_bench_def)
  have w: "compared_dir sample_context (sample_args False) results (w_baselines (sample_world v0_baseline)) = v0_baseline" for results
    by (simp add: compared_dir_def sample_args_def sample_world_def)
  show ?thesis using regression_gate_sound [OF a(1,2) v0_exit, unfolded sample_select t a(3) w]
    by (elim exE conjE, intro exI conjI) assumption+
qed

end
