(* ===== verification/ExampleBase.thy ===== *)
theory ExampleBase
  imports PyData
begin

text \<open>
  What the example programs share: a session with a random generator, the readings of the clock taken so
  far and the text printed, and the host the program runs on: whether Metal is available, the
  device name, the clock, and the text of floats.
\<close>

record 's session =
  generator :: 's
  clock_reads :: nat
  printed :: string

record host =
  host_available :: bool
  host_device :: string
  host_clock :: "nat \<Rightarrow> real"
  host_float :: "real \<Rightarrow> string"

definition say :: "string \<Rightarrow> ('s session, unit) st" where
  "say t = (\<lambda>w. (Inr (), w\<lparr>printed := printed w @ t @ newline\<rparr>))"

fun say_all :: "string list \<Rightarrow> ('s session, unit) st" where
  "say_all [] = returnS ()"
| "say_all (t # ts) = bindS (say t) (\<lambda>_. say_all ts)"

definition ruler :: "char \<Rightarrow> string" where
  "ruler c = replicate 80 c"

definition read_clock :: "host \<Rightarrow> ('s session, real) st" where
  "read_clock H = (\<lambda>w. (Inr (host_clock H (clock_reads w)), w\<lparr>clock_reads := Suc (clock_reads w)\<rparr>))"

definition with_generator :: "('s, 'a) st \<Rightarrow> ('s session, 'a) st" where
  "with_generator c = (\<lambda>w. case c (generator w) of (r, s) \<Rightarrow> (r, w\<lparr>generator := s\<rparr>))"

text \<open>\<open>a / b\<close> of Python floats.\<close>

definition float_div :: "real \<Rightarrow> real \<Rightarrow> real res" where
  "float_div a b = (if b = 0 then raise ZeroDivisionError ''float division by zero'' else Inr (a / b))"

text \<open>The rows of an array in row-major order.\<close>

fun chunk :: "nat \<Rightarrow> nat \<Rightarrow> 'a list \<Rightarrow> 'a list list" where
  "chunk 0 m xs = []"
| "chunk (Suc n) m xs = take m xs # chunk n m (drop m xs)"

definition metal_missing :: string where
  "metal_missing = ''Error: Metal is not available on this system''"

lemma say_run [simp]: "say t w = (Inr (), w\<lparr>printed := printed w @ t @ newline\<rparr>)"
  by (simp add: say_def)

lemma say_all_run: "say_all ts w = (Inr (), w\<lparr>printed := printed w @ concat (map (\<lambda>t. t @ newline) ts)\<rparr>)"
  by (induction ts arbitrary: w) (simp_all add: bindS_def)

text \<open>The outcome of a program without its text: one rule for each kind of step.\<close>

lemma after_say_all: "(\<And>p. Q (fst (f () (w\<lparr>printed := p\<rparr>)))) \<Longrightarrow> Q (fst (bindS (say_all ts) f w))"
  by (simp add: bindS_def say_all_run)

lemma after_say: "(\<And>p. Q (fst (f () (w\<lparr>printed := p\<rparr>)))) \<Longrightarrow> Q (fst (bindS (say t) f w))"
  by (simp add: bindS_def)

lemma after_clock: "Q (fst (f (host_clock H (clock_reads w)) (w\<lparr>clock_reads := Suc (clock_reads w)\<rparr>))) \<Longrightarrow> Q (fst (bindS (read_clock H) f w))"
  by (simp add: bindS_def read_clock_def)

lemma after_generator:
  "c (generator w) = (Inr v, s) \<Longrightarrow> Q (fst (f v (w\<lparr>generator := s\<rparr>))) \<Longrightarrow> Q (fst (bindS (with_generator c) f w))"
  by (simp add: bindS_def with_generator_def)

lemma say_all_bind: "bindS (say_all ts) f w = f () (w\<lparr>printed := printed w @ concat (map (\<lambda>t. t @ newline) ts)\<rparr>)"
  by (simp add: bindS_def say_all_run)

section \<open>Computations that always give a value\<close>

text \<open>Computations that return a value with a property, from every state.\<close>

definition gives :: "('s, 'a) st \<Rightarrow> ('a \<Rightarrow> bool) \<Rightarrow> bool" where
  "gives c P \<longleftrightarrow> (\<forall>s. \<exists>v s'. c s = (Inr v, s') \<and> P v)"

lemma gives_bind: "gives c P \<Longrightarrow> (\<And>v. P v \<Longrightarrow> gives (f v) Q) \<Longrightarrow> gives (bindS c f) Q"
  unfolding gives_def bindS_def by (metis (no_types, lifting) old.sum.simps(6) prod.case)

lemma gives_return: "P x \<Longrightarrow> gives (returnS x) P"
  by (simp add: gives_def)

lemma gives_weaken: "gives c P \<Longrightarrow> (\<And>v. P v \<Longrightarrow> Q v) \<Longrightarrow> gives c Q"
  unfolding gives_def by metis

lemma gives_lift: "r = Inr x \<Longrightarrow> P x \<Longrightarrow> gives (liftS r) P"
  by (simp add: gives_def)

lemma after_gives:
  assumes "gives c P" and "\<And>v s. P v \<Longrightarrow> Q (fst (f v (w\<lparr>generator := s\<rparr>)))"
  shows "Q (fst (bindS (with_generator c) f w))"
proof -
  obtain v s where "c (generator w) = (Inr v, s)" "P v" using assms(1) unfolding gives_def by blast
  then show ?thesis using assms(2) by (auto intro: after_generator)
qed

text \<open>An exception passes through what follows.\<close>

lemma raises_bindS: "raises k (fst (c s)) \<Longrightarrow> raises k (fst (bindS c f s))"
  by (cases "c s") (auto simp: bindS_def raises_def split: sum.splits)

lemma gives_raises: "gives c P \<Longrightarrow> (\<And>v s. P v \<Longrightarrow> raises k (fst (f v s))) \<Longrightarrow> raises k (fst (bindS c f s))"
  unfolding gives_def bindS_def by (metis (no_types, lifting) old.sum.simps(6) prod.case)

lemma raises_with_generator: "raises k (fst (c (generator w))) \<Longrightarrow> raises k (fst (with_generator c w))"
  by (auto simp: with_generator_def split: prod.split)

text \<open>Computations that do not end the process, whatever else they raise.\<close>

definition stays :: "('s, 'a) st \<Rightarrow> bool" where
  "stays c \<longleftrightarrow> (\<forall>s e s'. c s = (Inl e, s') \<longrightarrow> any_exception e)"

lemma stays_bind: "stays c \<Longrightarrow> (\<And>x. stays (f x)) \<Longrightarrow> stays (bindS c f)"
  unfolding stays_def bindS_def by (fastforce split: prod.splits sum.splits)

lemma stays_return: "stays (returnS x)"
  by (simp add: stays_def)

lemma stays_say: "stays (say t)"
  by (simp add: stays_def)

lemma stays_clock: "stays (read_clock H)"
  by (simp add: stays_def read_clock_def)

lemma stays_generator: "stays c \<Longrightarrow> stays (with_generator c)"
  unfolding stays_def with_generator_def by (auto split: prod.splits)

lemma stays_repeat: "stays c \<Longrightarrow> stays (repeatS n c)"
  by (induction n) (simp_all add: stays_bind stays_return)

lemma stays_catch: "stays c \<Longrightarrow> (\<And>e. stays (h e)) \<Longrightarrow> stays (catchS any_exception c h)"
  unfolding stays_def catchS_def by (auto split: prod.splits sum.splits if_splits)

lemma stays_if: "(b \<Longrightarrow> stays c) \<Longrightarrow> (\<not> b \<Longrightarrow> stays d) \<Longrightarrow> stays (if b then c else d)"
  by simp

lemma stays_divide: "stays (liftS (float_div a b))"
  by (auto simp: stays_def float_div_def raise_def any_exception_def)

lemma gives_stays: "gives c P \<Longrightarrow> stays c"
  unfolding gives_def stays_def by (metis fst_conv sum.distinct(1))

lemma gives_with_generator: "gives c P \<Longrightarrow> gives (with_generator c) P"
  unfolding gives_def with_generator_def by (metis (no_types, lifting) prod.case)

lemma gives_say_all: "gives (say_all ts) (\<lambda>_. True)"
  by (simp add: gives_def say_all_run)

lemma gives_say: "gives (say t) (\<lambda>_. True)"
  by (simp add: gives_def)

lemma stays_say_all: "stays (say_all ts)"
  by (simp add: stays_def say_all_run)

lemma stays_raise: "k \<noteq> SystemExit \<Longrightarrow> stays (raiseS k m)"
  by (simp add: stays_def raise_def any_exception_def)

lemmas stays_intros = stays_bind stays_return stays_say stays_say_all stays_clock stays_generator stays_repeat stays_catch
  stays_if stays_divide

text \<open>A handler for every exception makes a computation that stays in the process return.\<close>

lemma gives_caught:
  assumes "stays c" and "\<And>e. gives (h e) (\<lambda>_. True)"
  shows "gives (catchS any_exception c h) (\<lambda>_. True)"
  unfolding gives_def
proof
  fix s
  show "\<exists>v s'. catchS any_exception c h s = (Inr v, s') \<and> True"
  proof (cases "c s")
    case (Pair r s')
    show ?thesis
    proof (cases r)
      case (Inl e)
      with Pair assms(1) have "any_exception e" unfolding stays_def by blast
      with Pair Inl assms(2) show ?thesis unfolding gives_def by (simp add: catchS_def)
    qed (simp add: Pair catchS_def)
  qed
qed

section \<open>Sums of exponentials\<close>

lemma sum_exp_bounds:
  assumes "r \<noteq> []"
  shows "1 \<le> (\<Sum>x \<leftarrow> r. exp (x - Max (set r)) :: real)"
proof -
  have "Max (set r) \<in> set r" using assms by simp
  then have "exp (Max (set r) - Max (set r)) \<le> (\<Sum>x \<leftarrow> r. exp (x - Max (set r)))"
    by (intro member_le_sum_list) auto
  then show ?thesis by simp
qed

lemma sum_divide: "sum_list (map (\<lambda>e. e / c) es) = sum_list es / (c :: real)"
  by (induction es) (simp_all add: add_divide_distrib)

end
