(* ===== verification/MnistTraining.thy ===== *)
theory MnistTraining
  imports Nn ExampleBase
begin

text \<open>
  \<^verbatim>\<open>examples/mnist_training.py\<close>: a two-layer classifier over the tensors of the package, the loss and the accuracy,
  an epoch of training and the evaluation. A data set is a list of rows with a list of labels; a batch becomes an
  array, a tensor, the tensor of its logits and an array again. The random numbers of NumPy are parameters
  (\<open>data_random\<close>). The mean of an empty array is NaN in NumPy, which is not followed further.
\<close>

section \<open>Arrays\<close>

type_synonym rows = "real list list"

record 's data_random =
  np_randn_rows :: "nat \<Rightarrow> nat \<Rightarrow> 's \<Rightarrow> rows \<times> 's"
  np_randint :: "int \<Rightarrow> int \<Rightarrow> nat \<Rightarrow> 's \<Rightarrow> int list \<times> 's"
  np_permutation :: "nat \<Rightarrow> 's \<Rightarrow> nat list \<times> 's"

definition rows_array :: "rows \<Rightarrow> ndarray" where
  "rows_array xs = row_major [int (length xs), int (case xs of [] \<Rightarrow> 0 | r # _ \<Rightarrow> length r)] ''float32'' (concat xs)"

definition array_rows :: "ndarray \<Rightarrow> rows res" where
  "array_rows a = (case nd_shape a of
     [n, m] \<Rightarrow> Inr (chunk (nat n) (nat m) (nd_elems a))
   | _ \<Rightarrow> raise ValueError ''axis 1 is out of bounds'')"

definition np_mean :: "real list \<Rightarrow> real res" where
  "np_mean xs = (if xs = [] then raise (OtherError ''not finite'') [] else Inr (sum_list xs / real (length xs)))"

text \<open>\<open>xs[a:b]\<close>.\<close>

definition slice_bound :: "nat \<Rightarrow> int \<Rightarrow> nat" where
  "slice_bound n i = (if i < 0 then nat (int n + i) else min n (nat i))"

definition py_slice :: "int \<Rightarrow> int \<Rightarrow> 'a list \<Rightarrow> 'a list" where
  "py_slice a b xs = take (slice_bound (length xs) b - slice_bound (length xs) a) (drop (slice_bound (length xs) a) xs)"

section \<open>The classifier\<close>

record 'h mlp =
  input_size :: int
  hidden_size :: int
  output_size :: int
  w1 :: "'h tensor"
  b1 :: "'h tensor"
  w2 :: "'h tensor"
  b2 :: "'h tensor"

definition SimpleMLP_init ::
  "'d numpy_api \<Rightarrow> nn_numpy \<Rightarrow> ('h, 'c) native_api cmod \<Rightarrow> int \<Rightarrow> int \<Rightarrow> int \<Rightarrow> 'h mlp res" where
  "SimpleMLP_init np nn cm i h j =
     bindR (xavier_limit i h) (\<lambda>limit1.
     bindR (nn_uniform nn limit1 [i, h]) (\<lambda>u1.
     bindR (from_numpy np cm (np_astype np u1 ''float32'') False) (\<lambda>a1.
     bindR (zeros cm [h] None False) (\<lambda>z1.
     bindR (xavier_limit h j) (\<lambda>limit2.
     bindR (nn_uniform nn limit2 [h, j]) (\<lambda>u2.
     bindR (from_numpy np cm (np_astype np u2 ''float32'') False) (\<lambda>a2.
     bindR (zeros cm [j] None False) (\<lambda>z2.
     Inr \<lparr>input_size = i, hidden_size = h, output_size = j, w1 = a1, b1 = z1, w2 = a2, b2 = z2\<rparr>))))))))"

definition SimpleMLP_forward ::
  "'d numpy_api \<Rightarrow> nn_numpy \<Rightarrow> ('h, 'c) native_api \<Rightarrow> 'h mlp \<Rightarrow> 'h tensor \<Rightarrow> 'h tensor res" where
  "SimpleMLP_forward np nn N m x =
     bindR (Tensor_matmul N x (OpTensor (w1 m))) (\<lambda>p1.
     bindR (Tensor_add N p1 (OpTensor (b1 m))) (\<lambda>z1.
     bindR (Tensor_numpy N z1) (\<lambda>a.
     bindR (from_numpy np (CMod N) (nn_map nn (max 0) a) False) (\<lambda>a1.
     bindR (Tensor_matmul N a1 (OpTensor (w2 m))) (\<lambda>p2.
     Tensor_add N p2 (OpTensor (b2 m)))))))"

definition get_parameters :: "'h mlp \<Rightarrow> 'h tensor list" where
  "get_parameters m = [w1 m, b1 m, w2 m, b2 m]"

text \<open>\<open>mn.from_numpy(batch_x)\<close>, the forward pass and \<open>numpy()\<close>.\<close>

definition batch_logits ::
  "'d numpy_api \<Rightarrow> nn_numpy \<Rightarrow> ('h, 'c) native_api \<Rightarrow> 'h mlp \<Rightarrow> rows \<Rightarrow> rows res" where
  "batch_logits np nn N m batch =
     bindR (from_numpy np (CMod N) (rows_array batch) False) (\<lambda>x.
     bindR (SimpleMLP_forward np nn N m x) (\<lambda>logits.
     bindR (Tensor_numpy N logits) array_rows))"

section \<open>Loss and accuracy\<close>

definition softmax_row :: "real list \<Rightarrow> real list res" where
  "softmax_row r =
     (if r = [] then raise ValueError ''zero-size array to reduction operation maximum which has no identity''
      else let es = map (\<lambda>x. exp (x - Max (set r))) r in Inr (map (\<lambda>e. e / sum_list es) es))"

definition softmax :: "rows \<Rightarrow> rows res" where
  "softmax logits = mapR softmax_row logits"

text \<open>Two arrays side by side: equal lengths, or one element against many.\<close>

definition np_pair :: "exc_kind \<Rightarrow> 'a list \<Rightarrow> 'b list \<Rightarrow> ('a \<times> 'b) list res" where
  "np_pair k xs ys =
     (if length xs = length ys then Inr (zip xs ys)
      else if length ys = 1 then Inr (map (\<lambda>x. (x, hd ys)) xs)
      else if length xs = 1 then Inr (map (\<lambda>y. (hd xs, y)) ys)
      else raise k ''operands could not be broadcast together'')"

definition cross_entropy_loss :: "rows \<Rightarrow> int list \<Rightarrow> real res" where
  "cross_entropy_loss logits labels =
     bindR (softmax logits) (\<lambda>probs.
     bindR (np_pair IndexError probs labels) (\<lambda>pairs.
     bindR (mapR (\<lambda>(p, l). py_getitem p l) pairs) (\<lambda>picked.
     bindR (np_mean (map (\<lambda>p. ln (p + 1 / 10 ^ 8)) picked)) (\<lambda>m. Inr (- m)))))"

text \<open>\<open>np.argmax\<close> of a row is the first position of its maximum.\<close>

definition argmax :: "real list \<Rightarrow> nat res" where
  "argmax r = (if r = [] then raise ValueError ''attempt to get argmax of an empty sequence''
     else Inr (length (takeWhile (\<lambda>x. x \<noteq> Max (set r)) r)))"

definition compute_accuracy :: "rows \<Rightarrow> int list \<Rightarrow> real res" where
  "compute_accuracy logits labels =
     bindR (mapR argmax logits) (\<lambda>predictions.
     bindR (np_pair ValueError predictions labels) (\<lambda>pairs.
     np_mean (map (\<lambda>(p, l). if int p = l then 1 else 0) pairs)))"

section \<open>Epochs\<close>

text \<open>One batch adds its loss and accuracy to the totals.\<close>

definition score_batch :: "(rows \<Rightarrow> rows res) \<Rightarrow> rows \<Rightarrow> int list \<Rightarrow> real \<times> real \<Rightarrow> (real \<times> real) res" where
  "score_batch F batch_x batch_y totals =
     bindR (F batch_x) (\<lambda>logits.
     bindR (cross_entropy_loss logits batch_y) (\<lambda>loss.
     bindR (compute_accuracy logits batch_y) (\<lambda>acc.
     Inr (fst totals + loss, snd totals + acc))))"

definition averages :: "real \<times> real \<Rightarrow> int \<Rightarrow> (real \<times> real) res" where
  "averages totals n_batches =
     bindR (float_div (fst totals) (of_int n_batches)) (\<lambda>l.
     bindR (float_div (snd totals) (of_int n_batches)) (\<lambda>a. Inr (l, a)))"

definition int_floor_div :: "int \<Rightarrow> int \<Rightarrow> int res" where
  "int_floor_div a b = (if b = 0 then raise ZeroDivisionError ''integer division or modulo by zero'' else Inr (a div b))"

text \<open>
  The body of \<open>train_epoch\<close> after the shuffle; \<open>F\<close> is the way of a batch through the model. The learning rate
  is not used: the weights are never changed.
\<close>

definition train_batches :: "(rows \<Rightarrow> rows res) \<Rightarrow> rows \<Rightarrow> int list \<Rightarrow> int \<Rightarrow> (real \<times> real) res" where
  "train_batches F xs ys batch_size =
     bindR (int_floor_div (int (length xs)) batch_size) (\<lambda>n_batches.
     bindR (foldR (\<lambda>i. score_batch F (py_slice (i * batch_size) (i * batch_size + batch_size) xs)
                        (py_slice (i * batch_size) (i * batch_size + batch_size) ys))
              (map int [0..<nat n_batches]) (0, 0)) (\<lambda>totals.
     averages totals n_batches))"

definition train_epoch ::
  "'s data_random \<Rightarrow> (rows \<Rightarrow> rows res) \<Rightarrow> rows \<Rightarrow> int list \<Rightarrow> int \<Rightarrow> real \<Rightarrow> ('s, real \<times> real) st" where
  "train_epoch R F train_x train_y batch_size learning_rate = (\<lambda>s.
     if batch_size = 0 then (raise ZeroDivisionError ''integer division or modulo by zero'', s)
     else case np_permutation R (length train_x) s of (indices, s') \<Rightarrow>
       (bindR (mapR (\<lambda>i. py_getitem train_x (int i)) indices) (\<lambda>xs.
        bindR (mapR (\<lambda>i. py_getitem train_y (int i)) indices) (\<lambda>ys. train_batches F xs ys batch_size)), s'))"

definition evaluate :: "(rows \<Rightarrow> rows res) \<Rightarrow> rows \<Rightarrow> int list \<Rightarrow> int \<Rightarrow> (real \<times> real) res" where
  "evaluate F test_x test_y batch_size =
     bindR (int_floor_div (int (length test_x) + batch_size - 1) batch_size) (\<lambda>n_batches.
     bindR (foldR (\<lambda>i. score_batch F
                        (py_slice (i * batch_size) (min (i * batch_size + batch_size) (int (length test_x))) test_x)
                        (py_slice (i * batch_size) (min (i * batch_size + batch_size) (int (length test_x))) test_y))
              (map int [0..<nat n_batches]) (0, 0)) (\<lambda>totals.
     averages totals n_batches))"

section \<open>The program\<close>

definition load_mnist_data :: "'s data_random \<Rightarrow> ('s session, rows \<times> int list \<times> rows \<times> int list) st" where
  "load_mnist_data R =
     bindS (say ''Loading MNIST data (using synthetic data for demo)...'') (\<lambda>_.
     bindS (with_generator (\<lambda>s0.
        case np_randn_rows R 60000 784 s0 of (train_x, s1) \<Rightarrow>
        case np_randint R 0 10 60000 s1 of (train_y, s2) \<Rightarrow>
        case np_randn_rows R 10000 784 s2 of (test_x, s3) \<Rightarrow>
        case np_randint R 0 10 10000 s3 of (test_y, s4) \<Rightarrow>
          (Inr (map (map (\<lambda>x. x / 255)) train_x, train_y, map (map (\<lambda>x. x / 255)) test_x, test_y), s4))) (\<lambda>data.
     bindS (say ''Train: (60000, 784), Test: (10000, 784)'') (\<lambda>_. returnS data)))"

record mnist_args =
  arg_epochs :: int
  arg_batch_size :: int
  arg_hidden_size :: int
  arg_lr :: real

definition epoch_lines :: "int \<Rightarrow> int \<Rightarrow> real \<Rightarrow> real \<times> real \<Rightarrow> real \<times> real \<Rightarrow> string list" where
  "epoch_lines e epochs dt train test =
     [''Epoch '' @ show_int (e + 1) @ ''/'' @ show_int epochs @ '' ('' @ fmt_fixed 2 dt @ ''s):'',
      ''  Train Loss: '' @ fmt_fixed 4 (fst train) @ '', Train Acc: '' @ fmt_fixed 4 (snd train),
      ''  Test Loss:  '' @ fmt_fixed 4 (fst test) @ '', Test Acc:  '' @ fmt_fixed 4 (snd test), []]"

definition run_epoch ::
  "host \<Rightarrow> 's data_random \<Rightarrow> (rows \<Rightarrow> rows res) \<Rightarrow> mnist_args \<Rightarrow> rows \<times> int list \<times> rows \<times> int list \<Rightarrow> int \<Rightarrow> ('s session, unit) st" where
  "run_epoch H R F A data e = (case data of (train_x, train_y, test_x, test_y) \<Rightarrow>
     bindS (read_clock H) (\<lambda>start.
     bindS (with_generator (train_epoch R F train_x train_y (arg_batch_size A) (arg_lr A))) (\<lambda>train.
     bindS (liftS (evaluate F test_x test_y (arg_batch_size A))) (\<lambda>test.
     bindS (read_clock H) (\<lambda>stop. say_all (epoch_lines e (arg_epochs A) (stop - start) train test))))))"

definition mnist_main ::
  "host \<Rightarrow> 's data_random \<Rightarrow> 'd numpy_api \<Rightarrow> nn_numpy \<Rightarrow> ('h, 'c) native_api \<Rightarrow> mnist_args \<Rightarrow> ('s session, unit) st" where
  "mnist_main H R np nn N A =
     bindS (say_all [ruler CHR ''='', ''MNIST Training with MetalNative'', ruler CHR ''='', ''Epochs: '' @ show_int (arg_epochs A),
       ''Batch size: '' @ show_int (arg_batch_size A), ''Hidden size: '' @ show_int (arg_hidden_size A),
       ''Learning rate: '' @ host_float H (arg_lr A), ruler CHR ''='']) (\<lambda>_.
     if \<not> host_available H then say metal_missing
     else
       bindS (say_all [''Using device: '' @ host_device H, []]) (\<lambda>_.
       bindS (load_mnist_data R) (\<lambda>data.
       bindS (liftS (SimpleMLP_init np nn (CMod N) 784 (arg_hidden_size A) 10)) (\<lambda>m.
       bindS (say_all [''Model created: 784->'' @ show_int (arg_hidden_size A) @ ''->10'', [], ''Starting training...'', ruler CHR ''-'']) (\<lambda>_.
       bindS (forS (run_epoch H R (batch_logits np nn N m) A data) (map int [0..<nat (arg_epochs A)])) (\<lambda>_.
       bindS (say_all [ruler CHR ''-'', ''Training completed!'']) (\<lambda>_.
       bindS (liftS (evaluate (batch_logits np nn N m) (fst (snd (snd data))) (snd (snd (snd data))) (arg_batch_size A))) (\<lambda>final.
       say_all [[], ''Final Test Accuracy: '' @ fmt_fixed 4 (snd final)]))))))))"

end
