(* ===== verification/MnistProps.thy ===== *)
theory MnistProps
  imports MnistTraining LayerProps "HOL-Library.Multiset"
begin

text \<open>
  Properties of the training example: the range of its loss and accuracy, and what the averages over the
  batches are in terms of the samples.
\<close>

section \<open>Softmax and loss\<close>

lemma softmax_row_ok:
  assumes "r \<noteq> []"
  shows "\<exists>p. softmax_row r = Inr p \<and> length p = length r \<and> (\<forall>q \<in> set p. 0 < q \<and> q \<le> 1) \<and> sum_list p = 1"
proof -
  let ?es = "map (\<lambda>x. exp (x - Max (set r))) r"
  have pos: "1 \<le> sum_list ?es" by (rule sum_exp_bounds [OF assms])
  have "e \<le> sum_list ?es" if "e \<in> set ?es" for e
    using that by (intro member_le_sum_list) auto
  with pos have "\<forall>q \<in> set (map (\<lambda>e. e / sum_list ?es) ?es). 0 < q \<and> q \<le> 1" by (auto simp: divide_le_eq)
  moreover have "sum_list (map (\<lambda>e. e / sum_list ?es) ?es) = 1" unfolding sum_divide using pos by simp
  ultimately show ?thesis using assms by (simp add: softmax_row_def Let_def)
qed

text \<open>The largest and smallest loss of a sample.\<close>

definition loss_low :: real where
  "loss_low = - ln (1 + 1 / 10 ^ 8)"

definition loss_high :: real where
  "loss_high = 8 * ln 10"

lemma loss_range: "0 < p \<Longrightarrow> p \<le> 1 \<Longrightarrow> loss_low \<le> - ln (p + 1 / 10 ^ 8) \<and> - ln (p + 1 / 10 ^ 8) \<le> loss_high"
proof -
  assume p: "0 < p" "p \<le> 1"
  have "ln (1 / 10 ^ 8) \<le> ln (p + 1 / 10 ^ 8)" using p by (intro ln_mono) simp_all
  moreover have "ln (1 / 10 ^ 8 :: real) = - (8 * ln 10)"
    using ln_realpow [of "10 :: real" 8] by (simp add: ln_div)
  ultimately have "- ln (p + 1 / 10 ^ 8) \<le> 8 * ln 10" by linarith
  moreover have "ln (p + 1 / 10 ^ 8) \<le> ln (1 + 1 / 10 ^ 8)" using p by (intro ln_mono) simp_all
  ultimately show ?thesis unfolding loss_low_def loss_high_def by linarith
qed

lemma softmax_row_Inr: "softmax_row r = Inr p \<Longrightarrow> r \<noteq> []"
  by (auto simp: softmax_row_def)

lemma mean_between:
  assumes "np_mean xs = Inr m" and "\<forall>x \<in> set xs. a \<le> x \<and> x \<le> b"
  shows "a \<le> m \<and> m \<le> b"
proof -
  have "real (length xs) * a \<le> sum_list xs \<and> sum_list xs \<le> real (length xs) * b"
    using assms(2) by (induction xs) (auto simp: algebra_simps)
  with assms(1) show ?thesis by (auto simp: np_mean_def field_simps split: if_splits)
qed

lemma mapR_set: "mapR f xs = Inr ys \<Longrightarrow> y \<in> set ys \<Longrightarrow> \<exists>x \<in> set xs. f x = Inr y"
  by (induction xs arbitrary: ys) (auto simp: bindR_Inr_iff)

lemma np_pair_fst: "np_pair k xs ys = Inr ps \<Longrightarrow> (a, b) \<in> set ps \<Longrightarrow> a \<in> set xs"
  by (cases xs) (auto simp: np_pair_def dest: set_zip_leftD split: if_splits)

lemma cross_entropy_range:
  assumes "cross_entropy_loss logits labels = Inr l"
  shows "loss_low \<le> l \<and> l \<le> loss_high"
proof -
  from assms obtain probs pairs picked m where
    probs: "softmax logits = Inr probs" and pairs: "np_pair IndexError probs labels = Inr pairs"
    and picked: "mapR (\<lambda>(p, l). py_getitem p l) pairs = Inr picked"
    and m: "np_mean (map (\<lambda>p. ln (p + 1 / 10 ^ 8)) picked) = Inr m" "l = - m"
    by (auto simp: cross_entropy_loss_def bindR_Inr_iff)
  have "0 < q \<and> q \<le> 1" if "q \<in> set picked" for q
  proof -
    from mapR_set [OF picked that] obtain p k where p: "p \<in> set probs" "py_getitem p k = Inr q"
      by (auto dest: np_pair_fst [OF pairs])
    from mapR_set [OF probs [unfolded softmax_def] p(1)] obtain r where r: "softmax_row r = Inr p" by blast
    have "q \<in> set p" using p(2) by (auto simp: py_getitem_def bindR_Inr_iff py_position_Inr)
    with softmax_row_ok [OF softmax_row_Inr [OF r]] r show ?thesis by auto
  qed
  then have "\<forall>x \<in> set (map (\<lambda>p. ln (p + 1 / 10 ^ 8)) picked). - loss_high \<le> x \<and> x \<le> - loss_low"
    using loss_range by fastforce
  from mean_between [OF m(1) this] m(2) show ?thesis by linarith
qed

lemma accuracy_range: "compute_accuracy logits labels = Inr a \<Longrightarrow> 0 \<le> a \<and> a \<le> 1"
  by (auto simp: compute_accuracy_def bindR_Inr_iff split: if_splits elim!: mean_between)

section \<open>Totals\<close>

lemma totals_range:
  assumes "foldR (\<lambda>i. score_batch F (X i) (Y i)) is t = Inr t'"
  shows "fst t + real (length is) * loss_low \<le> fst t' \<and> fst t' \<le> fst t + real (length is) * loss_high
    \<and> snd t \<le> snd t' \<and> snd t' \<le> snd t + real (length is)"
  using assms
proof (induction "is" arbitrary: t)
  case (Cons i "is")
  then obtain t1 where t1: "score_batch F (X i) (Y i) t = Inr t1" and r: "foldR (\<lambda>i. score_batch F (X i) (Y i)) is t1 = Inr t'"
    by auto
  from t1 obtain logits l a where b: "cross_entropy_loss logits (Y i) = Inr l" "compute_accuracy logits (Y i) = Inr a"
    "t1 = (fst t + l, snd t + a)"
    by (auto simp: bindR_Inr_iff score_batch_def)
  from Cons.IH [OF r] cross_entropy_range [OF b(1)] accuracy_range [OF b(2)] b(3) show ?case
    by (auto simp: algebra_simps)
qed simp

lemma averages_range:
  assumes "averages t n = Inr la" and "real (nat n) * loss_low \<le> fst t" and "fst t \<le> real (nat n) * loss_high"
    and "0 \<le> snd t" and "snd t \<le> real (nat n)"
  shows "loss_low \<le> fst la \<and> fst la \<le> loss_high \<and> 0 \<le> snd la \<and> snd la \<le> 1"
proof -
  from assms(1) have la: "n \<noteq> 0" "fst la = fst t / of_int n" "snd la = snd t / of_int n"
    by (auto simp: averages_def float_div_def bindR_Inr_iff split: if_splits)
  have low: "loss_low \<le> 0" "0 \<le> loss_high" by (simp_all add: loss_low_def loss_high_def)
  show ?thesis
  proof (cases "0 < n")
    case True
    then have n: "real (nat n) = of_int n" "0 < (of_int n :: real)" by simp_all
    show ?thesis using assms(2-5) unfolding la(2,3) n(1) by (simp add: pos_le_divide_eq [OF n(2)] pos_divide_le_eq [OF n(2)] mult.commute)
  next
    case False
    then have "real (nat n) = 0" by simp
    with assms la low show ?thesis by simp
  qed
qed

text \<open>
  Whatever the model computes, an epoch of training and an evaluation that return report an accuracy between zero
  and one and a loss between \<open>- ln (1 + 1e-8)\<close> and \<open>8 ln 10\<close>: the constant in the logarithm bounds the loss
  of a sample and lets it be slightly negative.
\<close>

theorem mnist_scores_range:
  assumes "evaluate F xs ys bs = Inr la \<or> train_batches F xs ys bs = Inr la"
  shows "loss_low \<le> fst la \<and> fst la \<le> loss_high \<and> 0 \<le> snd la \<and> snd la \<le> 1"
proof -
  from assms obtain n X Y t where "foldR (\<lambda>i. score_batch F (X i) (Y i)) (map int [0..<nat n]) (0, 0) = Inr t" "averages t n = Inr la"
    unfolding evaluate_def train_batches_def by (auto simp: bindR_Inr_iff)
  with totals_range [of F X Y "map int [0..<nat n]" "(0, 0)" t] show ?thesis
    by (intro averages_range [of t n la]) auto
qed

section \<open>Averages over batches\<close>

text \<open>A model that treats every row on its own; its loss and whether it is right on one sample.\<close>

definition rowwise :: "(real list \<Rightarrow> real list) \<Rightarrow> rows \<Rightarrow> rows res" where
  "rowwise f batch = Inr (map f batch)"

definition shares :: "real list \<Rightarrow> real list" where
  "shares r = map (\<lambda>x. exp (x - Max (set r)) / (\<Sum>x \<leftarrow> r. exp (x - Max (set r)))) r"

definition sample_loss :: "(real list \<Rightarrow> real list) \<Rightarrow> real list \<Rightarrow> int \<Rightarrow> real" where
  "sample_loss f x y = - ln (shares (f x) ! nat y + 1 / 10 ^ 8)"

definition hit :: "(real list \<Rightarrow> real list) \<Rightarrow> real list \<Rightarrow> int \<Rightarrow> real" where
  "hit f x y = (if int (length (takeWhile (\<lambda>v. v \<noteq> Max (set (f x))) (f x))) = y then 1 else 0)"

definition average :: "real list \<Rightarrow> real" where
  "average zs = sum_list zs / real (length zs)"

definition labelled :: "(real list \<Rightarrow> real list) \<Rightarrow> rows \<Rightarrow> int list \<Rightarrow> bool" where
  "labelled f xs ys \<longleftrightarrow> list_all2 (\<lambda>x y. 0 \<le> y \<and> y < int (length (f x))) xs ys"

lemma labelled_length: "labelled f xs ys \<Longrightarrow> length ys = length xs"
  by (auto simp: labelled_def dest: list_all2_lengthD)

lemma softmax_shares: "r \<noteq> [] \<Longrightarrow> softmax_row r = Inr (shares r)"
  by (simp add: softmax_row_def shares_def Let_def comp_def)

lemma picked_shares:
  "labelled f xs ys \<Longrightarrow> mapR (\<lambda>(p, l). py_getitem p l) (zip (map (\<lambda>x. shares (f x)) xs) ys) = Inr (map2 (\<lambda>x y. shares (f x) ! nat y) xs ys)"
  unfolding labelled_def
  by (induction rule: list_all2_induct) (auto simp: py_getitem_def py_position_def Let_def shares_def)

lemma predictions_map: "mapR argmax (map f xs) = Inr (map (\<lambda>x. length (takeWhile (\<lambda>v. v \<noteq> Max (set (f x))) (f x))) xs)"
  if "\<forall>x \<in> set xs. f x \<noteq> []"
  using that by (induction xs) (auto simp: argmax_def)

lemma softmax_map: "\<forall>x \<in> set xs. f x \<noteq> [] \<Longrightarrow> softmax (map f xs) = Inr (map (\<lambda>x. shares (f x)) xs)"
  unfolding softmax_def by (induction xs) (auto simp: softmax_shares)

lemma labelled_nonempty: "labelled f xs ys \<Longrightarrow> \<forall>x \<in> set xs. f x \<noteq> []"
  unfolding labelled_def by (induction rule: list_all2_induct) auto

lemma average_uminus: "average (map (\<lambda>z. - g z) zs) = - average (map g zs)"
proof -
  have "(\<Sum>z \<leftarrow> zs. - g z) = - sum_list (map g zs)" by (induction zs) simp_all
  then show ?thesis by (simp add: average_def)
qed

lemma loss_rowwise:
  assumes "labelled f xs ys" and "xs \<noteq> []"
  shows "cross_entropy_loss (map f xs) ys = Inr (average (map2 (sample_loss f) xs ys))"
proof -
  let ?picked = "map2 (\<lambda>x y. shares (f x) ! nat y) xs ys"
  have len: "length ys = length xs" using assms(1) by (rule labelled_length)
  then have ne: "?picked \<noteq> []" using assms(2) by (cases xs; cases ys) auto
  have "map2 (sample_loss f) xs ys = map (\<lambda>z. - ln (z + 1 / 10 ^ 8)) ?picked"
    by (simp add: sample_loss_def split_def)
  then have a: "average (map2 (sample_loss f) xs ys) = - average (map (\<lambda>p. ln (p + 1 / 10 ^ 8)) ?picked)"
    by (simp only: average_uminus)
  have m: "np_mean (map (\<lambda>p. ln (p + 1 / 10 ^ 8)) ?picked) = Inr (average (map (\<lambda>p. ln (p + 1 / 10 ^ 8)) ?picked))"
    using ne by (simp add: np_mean_def average_def)
  have z: "np_pair IndexError (map (\<lambda>x. shares (f x)) xs) ys = Inr (zip (map (\<lambda>x. shares (f x)) xs) ys)"
    using len by (simp add: np_pair_def)
  show ?thesis
    unfolding cross_entropy_loss_def softmax_map [OF labelled_nonempty [OF assms(1)]] z bindR_simps picked_shares [OF assms(1)] m a ..
qed

lemma accuracy_rowwise:
  assumes "labelled f xs ys" and "xs \<noteq> []"
  shows "compute_accuracy (map f xs) ys = Inr (average (map2 (hit f) xs ys))"
proof -
  have len: "length ys = length xs" using assms(1) by (rule labelled_length)
  then have ne: "map2 (hit f) xs ys \<noteq> []" using assms(2) by (cases xs; cases ys) auto
  have "map (\<lambda>(p, l). if int p = l then 1 else 0) (zip (map (\<lambda>x. length (takeWhile (\<lambda>v. v \<noteq> Max (set (f x))) (f x))) xs) ys) = map2 (hit f) xs ys"
    by (simp add: zip_map1 hit_def split_def)
  then show ?thesis
    unfolding compute_accuracy_def predictions_map [OF labelled_nonempty [OF assms(1)]] bindR_simps np_pair_def
    using len ne by (simp add: np_mean_def average_def)
qed

lemma score_rowwise:
  assumes "labelled f xs ys" and "xs \<noteq> []"
  shows "score_batch (rowwise f) xs ys t =
    Inr (fst t + average (map2 (sample_loss f) xs ys), snd t + average (map2 (hit f) xs ys))"
  by (simp add: score_batch_def rowwise_def loss_rowwise [OF assms] accuracy_rowwise [OF assms])

section \<open>Slices\<close>

lemma slice_taken:
  assumes "i * b \<le> length zs"
  shows "py_slice (int i * int b) (int i * int b + int b) zs = take b (drop (i * b) zs)"
    "py_slice (int i * int b) (min (int i * int b + int b) (int (length zs))) zs = take b (drop (i * b) zs)"
proof -
  have s: "slice_bound (length zs) (int i * int b) = i * b"
    using assms by (simp add: slice_bound_def min_def flip: of_nat_mult)
  have e: "slice_bound (length zs) (int i * int b + int b) = min (length zs) (i * b + b)"
    by (simp add: slice_bound_def nat_add_distrib nat_mult_distrib flip: of_nat_mult of_nat_add)
  have e2: "slice_bound (length zs) (min (int i * int b + int b) (int (length zs))) = min (length zs) (i * b + b)"
    by (auto simp: slice_bound_def min_def nat_add_distrib nat_mult_distrib simp flip: of_nat_mult of_nat_add)
  have "take (min (length zs) (i * b + b) - i * b) (drop (i * b) zs) = take b (drop (i * b) zs)"
    by (cases "length zs \<le> i * b + b") (simp_all add: min_def)
  then show "py_slice (int i * int b) (int i * int b + int b) zs = take b (drop (i * b) zs)"
    "py_slice (int i * int b) (min (int i * int b + int b) (int (length zs))) zs = take b (drop (i * b) zs)"
    unfolding py_slice_def s e e2 by simp_all
qed

lemma map2_slice: "map2 g (take b (drop k xs)) (take b (drop k ys)) = take b (drop k (map2 g xs ys))"
  by (simp add: take_zip drop_zip take_map drop_map)

lemma labelled_slice: "labelled f xs ys \<Longrightarrow> labelled f (take b (drop k xs)) (take b (drop k ys))"
  by (simp add: labelled_def list_all2_takeI list_all2_dropI)

text \<open>The sum of the averages of the first \<open>k\<close> slices.\<close>

definition slice_averages :: "nat \<Rightarrow> nat \<Rightarrow> real list \<Rightarrow> real" where
  "slice_averages b k zs = (\<Sum>i<k. average (take b (drop (i * b) zs)))"

lemma score_slices:
  assumes "labelled f xs ys" and "0 < b" and "\<forall>i<k. i * b < length xs"
    and "\<And>i zs :: rows. i < k \<Longrightarrow> length zs = length xs \<Longrightarrow> sl i zs = take b (drop (i * b) zs)"
    and "\<And>i zs :: int list. i < k \<Longrightarrow> length zs = length xs \<Longrightarrow> sl' i zs = take b (drop (i * b) zs)"
  shows "foldR (\<lambda>i. score_batch (rowwise f) (sl i xs) (sl' i ys)) [0..<k] (0, 0)
    = Inr (slice_averages b k (map2 (sample_loss f) xs ys), slice_averages b k (map2 (hit f) xs ys))"
  using assms(3-5)
proof (induction k)
  case (Suc k)
  have len: "length ys = length xs" using assms(1) by (rule labelled_length)
  have ne: "take b (drop (k * b) xs) \<noteq> []" using Suc.prems(1) assms(2) by auto
  have "foldR (\<lambda>i. score_batch (rowwise f) (sl i xs) (sl' i ys)) [0..<k] (0, 0)
    = Inr (slice_averages b k (map2 (sample_loss f) xs ys), slice_averages b k (map2 (hit f) xs ys))"
    by (rule Suc.IH) (use Suc.prems in auto)
  then show ?case
    using Suc.prems(2) [of k xs] Suc.prems(3) [of k ys] len
    by (simp add: foldR_append score_rowwise [OF labelled_slice [OF assms(1)] ne] map2_slice slice_averages_def)
qed (simp add: slice_averages_def)

lemma foldR_map: "foldR f (map h xs) t = foldR (\<lambda>i. f (h i)) xs t"
proof (induction xs arbitrary: t)
  case (Cons x xs)
  then show ?case by (cases "f (h x) t") simp_all
qed simp

text \<open>Full slices give the sum of the samples.\<close>

lemma full_slices: "k * b \<le> length zs \<Longrightarrow> 0 < b \<Longrightarrow> slice_averages b k zs = sum_list (take (k * b) zs) / real b"
proof (induction k)
  case (Suc k)
  then have "length (take b (drop (k * b) zs)) = b" by simp
  moreover have "Suc k * b = k * b + b" by simp
  then have "take (Suc k * b) zs = take (k * b) zs @ take b (drop (k * b) zs)" by (simp only: take_add)
  moreover have "slice_averages b k zs = sum_list (take (k * b) zs) / real b" using Suc by simp
  ultimately show ?case by (simp add: slice_averages_def average_def add_divide_distrib)
qed (simp add: slice_averages_def)

section \<open>What an epoch and an evaluation report\<close>

text \<open>
  The number of batches of an evaluation, and the mean of the batch averages in terms of the samples: when the last
  batch is short, its samples weigh more than the others.
\<close>

definition batch_mean :: "nat \<Rightarrow> real list \<Rightarrow> real" where
  "batch_mean b zs =
     (let m = length zs div b in
      if length zs mod b = 0 then average zs
      else (sum_list (take (m * b) zs) / real b + average (drop (m * b) zs)) / real (Suc m))"

lemma ceil_batches:
  assumes "0 < b" and "0 < n"
  shows "(int n + int b - 1) div int b = int (if n mod b = 0 then n div b else Suc (n div b))"
proof -
  have "(n + b - 1) div b = (if n mod b = 0 then n div b else Suc (n div b))"
  proof (cases "n mod b = 0")
    case True
    then obtain q where q: "n = q * b" by (metis add.right_neutral div_mult_mod_eq)
    then have "n + b - 1 = (b - 1) + q * b" using assms by simp
    then have "(n + b - 1) div b = q" using assms by (simp only: div_mult_self1) simp
    then show ?thesis using assms q by simp
  next
    case False
    have "n = n div b * b + n mod b" "0 < n mod b" using False by simp_all
    then have e: "n + b - 1 = (n mod b - 1) + Suc (n div b) * b" unfolding mult_Suc by linarith
    have lt: "n mod b - 1 < b" using assms by (simp add: less_imp_diff_less)
    have "b \<noteq> 0" using assms by simp
    then have "(n + b - 1) div b = Suc (n div b)" unfolding e div_mult_self1 [OF \<open>b \<noteq> 0\<close>] div_less [OF lt] by simp
    then show ?thesis using False by simp
  qed
  note batches = this
  have "int n + int b - 1 = int (n + b - 1)" using assms by (simp add: of_nat_diff)
  then show ?thesis by (simp only: batches [symmetric] zdiv_int)
qed

lemma slices_mean:
  assumes "0 < b" and "zs \<noteq> []"
  shows "slice_averages b (if length zs mod b = 0 then length zs div b else Suc (length zs div b)) zs
    / real (if length zs mod b = 0 then length zs div b else Suc (length zs div b)) = batch_mean b zs"
proof (cases "length zs mod b = 0")
  case True
  then have l: "length zs div b * b = length zs" by (metis div_mult_mod_eq add.right_neutral)
  with assms have "0 < length zs div b" by (cases "length zs div b = 0") auto
  with l assms(1) True show ?thesis
    by (simp add: full_slices batch_mean_def average_def flip: of_nat_mult) (metis l mult.commute)
next
  case False
  have "length zs div b * b \<le> length zs" by simp
  with False assms(1) show ?thesis
    using mod_less_divisor [OF assms(1), of "length zs"] minus_div_mult_eq_mod [of "length zs" b]
    by (simp add: slice_averages_def [of b "Suc _"] full_slices [unfolded slice_averages_def] batch_mean_def Let_def)
qed

lemma evaluate_rowwise:
  assumes "labelled f xs ys" and "0 < b" and "xs \<noteq> []"
  shows "evaluate (rowwise f) xs ys (int b) = Inr (batch_mean b (map2 (sample_loss f) xs ys), batch_mean b (map2 (hit f) xs ys))"
proof -
  let ?n = "length xs"
  let ?k = "if ?n mod b = 0 then ?n div b else Suc (?n div b)"
  have len: "length ys = ?n" using assms(1) by (rule labelled_length)
  have n: "0 < ?n" using assms(3) by simp
  have k: "int_floor_div (int ?n + int b - 1) (int b) = Inr (int ?k)"
    using ceil_batches [OF assms(2) n] assms(2) by (simp add: int_floor_div_def)
  have i: "i * b < ?n" if "i < ?k" for i
  proof (cases "?n mod b = 0")
    case True
    with that have "Suc i * b \<le> ?n div b * b" by (intro mult_le_mono1) simp
    then show ?thesis using div_mult_mod_eq [of ?n b] True assms(2) by simp
  next
    case False
    with that have "i * b \<le> ?n div b * b" by (intro mult_le_mono1) simp
    then show ?thesis using div_mult_mod_eq [of ?n b] False by linarith
  qed
  have fold: "foldR (\<lambda>i. score_batch (rowwise f)
        (py_slice (i * int b) (min (i * int b + int b) (int ?n)) xs) (py_slice (i * int b) (min (i * int b + int b) (int ?n)) ys))
      (map int [0..<?k]) (0, 0)
    = Inr (slice_averages b ?k (map2 (sample_loss f) xs ys), slice_averages b ?k (map2 (hit f) xs ys))"
    unfolding foldR_map
  proof (rule score_slices [OF assms(1,2)])
    fix j and zs :: rows assume "j < ?k" "length zs = ?n"
    then show "py_slice (int j * int b) (min (int j * int b + int b) (int (length zs))) zs = take b (drop (j * b) zs)"
      using i [of j] by (intro slice_taken(2)) simp
  next
    fix j and zs :: "int list" assume "j < ?k" "length zs = ?n"
    then show "py_slice (int j * int b) (min (int j * int b + int b) (int ?n)) zs = take b (drop (j * b) zs)"
      using i [of j] slice_taken(2) [of j b zs] by simp
  qed (use i in blast)
  have l2: "length (map2 g xs ys) = ?n" "map2 g xs ys \<noteq> []" for g :: "real list \<Rightarrow> int \<Rightarrow> real"
  proof -
    show l: "length (map2 g xs ys) = ?n" using len by simp
    then show "map2 g xs ys \<noteq> []" using n by (metis length_greater_0_conv)
  qed
  have pos: "0 < ?k" using assms(2) n by (cases "?n mod b = 0") (auto simp: div_greater_zero_iff mod_eq_0_iff_dvd dvd_imp_le)
  have "evaluate (rowwise f) xs ys (int b)
      = averages (slice_averages b ?k (map2 (sample_loss f) xs ys), slice_averages b ?k (map2 (hit f) xs ys)) (int ?k)"
    unfolding evaluate_def k bindR_simps nat_int fold ..
  also have "\<dots> = Inr (batch_mean b (map2 (sample_loss f) xs ys), batch_mean b (map2 (hit f) xs ys))"
    using pos slices_mean [OF assms(2) l2(2), of "sample_loss f"] slices_mean [OF assms(2) l2(2), of "hit f"]
    unfolding l2(1) by (simp add: averages_def float_div_def del: of_nat_Suc)
  finally show ?thesis .
qed

text \<open>
  C28. For a model that treats every row on its own, an evaluation with a positive batch size over a non-empty data set, each sample labelled with one of the model's classes, returns the
  mean of the batch averages of the loss and the accuracy (\<open>batch_mean\<close>). It is the fraction of correct samples when
  the batch size divides the number of samples; otherwise the samples of the short last batch weigh more. An
  empty data set raises ZeroDivisionError.
\<close>

theorem evaluate_average:
  assumes "labelled f xs ys" and "0 < b" and "xs \<noteq> []"
  shows "evaluate (rowwise f) xs ys (int b) = Inr (batch_mean b (map2 (sample_loss f) xs ys), batch_mean b (map2 (hit f) xs ys))
    \<and> (b dvd length xs \<longrightarrow> batch_mean b (map2 (hit f) xs ys) = average (map2 (hit f) xs ys))
    \<and> raises ZeroDivisionError (evaluate (rowwise f) [] [] (int b))"
proof -
  have "length (map2 (hit f) xs ys) = length xs" using labelled_length [OF assms(1)] by simp
  then have "b dvd length xs \<longrightarrow> batch_mean b (map2 (hit f) xs ys) = average (map2 (hit f) xs ys)"
    by (simp add: batch_mean_def Let_def dvd_imp_mod_0)
  moreover have "raises ZeroDivisionError (evaluate (rowwise f) [] [] (int b))"
    using assms(2) by (simp add: evaluate_def int_floor_div_def averages_def float_div_def)
  ultimately show ?thesis using evaluate_rowwise [OF assms] by blast
qed

lemma full_mean:
  assumes "0 < b" and "b \<le> length zs"
  shows "slice_averages b (length zs div b) zs / real (length zs div b) = average (take (length zs - length zs mod b) zs)"
proof -
  have m: "length zs div b * b = length zs - length zs mod b" by (simp add: minus_mod_eq_div_mult)
  have r: "real (length zs - length zs mod b) = real b * real (length zs div b)" unfolding m [symmetric] by simp
  have "0 < length zs div b" using assms by (simp add: div_greater_zero_iff)
  moreover have "slice_averages b (length zs div b) zs = sum_list (take (length zs - length zs mod b) zs) / real b"
    unfolding m [symmetric] using assms by (intro full_slices) simp_all
  moreover have "length (take (length zs - length zs mod b) zs) = length zs - length zs mod b" by simp
  ultimately show ?thesis unfolding average_def by (simp only: r divide_divide_eq_left)
qed

lemma train_rowwise:
  assumes "labelled f xs ys" and "0 < b"
  shows "if length xs < b then raises ZeroDivisionError (train_batches (rowwise f) xs ys (int b))
    else train_batches (rowwise f) xs ys (int b) = Inr (average (take (length xs - length xs mod b) (map2 (sample_loss f) xs ys)),
       average (take (length xs - length xs mod b) (map2 (hit f) xs ys)))"
proof -
  let ?n = "length xs" and ?k = "length xs div b"
  have len: "length ys = ?n" using assms(1) by (rule labelled_length)
  have k: "int_floor_div (int ?n) (int b) = Inr (int ?k)" using assms(2) by (simp add: int_floor_div_def zdiv_int)
  have i: "i * b < ?n" if "i < ?k" for i
  proof -
    from that have "Suc i * b \<le> ?k * b" by (intro mult_le_mono1) simp
    then show ?thesis using div_mult_mod_eq [of ?n b] assms(2) unfolding mult_Suc by linarith
  qed
  have fold: "foldR (\<lambda>i. score_batch (rowwise f) (py_slice (i * int b) (i * int b + int b) xs) (py_slice (i * int b) (i * int b + int b) ys))
      (map int [0..<?k]) (0, 0)
    = Inr (slice_averages b ?k (map2 (sample_loss f) xs ys), slice_averages b ?k (map2 (hit f) xs ys))"
    unfolding foldR_map
  proof (rule score_slices [OF assms])
    fix j and zs :: rows assume "j < ?k" "length zs = ?n"
    then show "py_slice (int j * int b) (int j * int b + int b) zs = take b (drop (j * b) zs)"
      using i [of j] by (intro slice_taken(1)) simp
  next
    fix j and zs :: "int list" assume "j < ?k" "length zs = ?n"
    then show "py_slice (int j * int b) (int j * int b + int b) zs = take b (drop (j * b) zs)"
      using i [of j] by (intro slice_taken(1)) simp
  qed (use i in blast)
  have t: "train_batches (rowwise f) xs ys (int b)
      = averages (slice_averages b ?k (map2 (sample_loss f) xs ys), slice_averages b ?k (map2 (hit f) xs ys)) (int ?k)"
    unfolding train_batches_def k bindR_simps nat_int fold ..
  show ?thesis
  proof (cases "?n < b")
    case True
    then show ?thesis unfolding t by (simp add: averages_def float_div_def)
  next
    case False
    have "length (map2 g xs ys) = ?n" for g :: "real list \<Rightarrow> int \<Rightarrow> real" using len by simp
    moreover have "0 < ?k" using False assms(2) by (simp add: div_greater_zero_iff)
    ultimately show ?thesis
      using full_mean [OF assms(2), of "map2 (sample_loss f) xs ys"] full_mean [OF assms(2), of "map2 (hit f) xs ys"] False
      unfolding t by (simp add: averages_def float_div_def)
  qed
qed

lemma labelled_permuted:
  assumes "labelled f xs ys" and "\<forall>i \<in> set is. i < length xs"
  shows "labelled f (map ((!) xs) is) (map ((!) ys) is)"
  using assms unfolding labelled_def by (auto simp: list_all2_map1 list_all2_map2 list_all2_conv_all_nth list_all2_same)

text \<open>
  An epoch of training reports the averages of the loss and the accuracy over the samples in the order of the
  permutation, leaving out those that do not fill a last batch; it changes no weight, so the report is the same for every learning
  rate. A batch size above the number of samples raises ZeroDivisionError, zero before anything is drawn.
\<close>

theorem train_epoch_average:
  assumes "labelled f xs ys" and "0 < b" and "np_permutation R (length xs) s = (is, s')" and "mset is = mset [0..<length xs]"
  shows "snd (train_epoch R (rowwise f) xs ys (int b) lr s) = s'
    \<and> (if length xs < b then raises ZeroDivisionError (fst (train_epoch R (rowwise f) xs ys (int b) lr s))
       else fst (train_epoch R (rowwise f) xs ys (int b) lr s)
         = Inr (average (take (length xs - length xs mod b) (map (\<lambda>i. sample_loss f (xs ! i) (ys ! i)) is)),
                average (take (length xs - length xs mod b) (map (\<lambda>i. hit f (xs ! i) (ys ! i)) is))))
    \<and> fails_with ZeroDivisionError (train_epoch R (rowwise f) xs ys 0 lr) s"
proof -
  have i: "set is = {0..<length xs}" using arg_cong [OF assms(4), of set_mset] by (simp only: set_mset_mset set_upt)
  then have l: "labelled f (map ((!) xs) is) (map ((!) ys) is)"
    by (intro labelled_permuted [OF assms(1)]) simp
  have n: "length is = length xs" using mset_eq_length [OF assms(4)] by simp
  have g: "mapR (\<lambda>i. py_getitem zs (int i)) is = Inr (map ((!) zs) is)" if "length zs = length xs" for zs :: "'z list"
    using i that by (intro mapR_total) (simp add: py_getitem_def py_position_def Let_def)
  have "train_epoch R (rowwise f) xs ys (int b) lr s = (train_batches (rowwise f) (map ((!) xs) is) (map ((!) ys) is) (int b), s')"
    using assms(2,3) labelled_length [OF assms(1)] by (simp add: train_epoch_def g)
  moreover have "map2 g (map ((!) xs) is) (map ((!) ys) is) = map (\<lambda>i. g (xs ! i) (ys ! i)) is" for g :: "real list \<Rightarrow> int \<Rightarrow> real"
    by (simp add: zip_map_map zip_same_conv_map comp_def)
  moreover have "fails_with ZeroDivisionError (train_epoch R (rowwise f) xs ys 0 lr) s"
    by (simp add: fails_with_def train_epoch_def raise_def)
  ultimately show ?thesis using train_rowwise [OF l assms(2)] n by simp
qed

section \<open>Samples\<close>

definition sample_scores :: "real list \<Rightarrow> real list" where
  "sample_scores x = (if hd x < 6 then [2, 1] else [1, 2])"

lemma sample_labelled: "labelled sample_scores [[5], [6], [7]] [0, 1, 0]"
  by (simp add: labelled_def sample_scores_def)

theorem mnist_scores_range_witness:
  "\<exists>la. evaluate (rowwise sample_scores) [[5], [6], [7]] [0, 1, 0] 2 = Inr la \<and> 0 \<le> snd la \<and> snd la \<le> 1"
proof -
  obtain la where la: "evaluate (rowwise sample_scores) [[5], [6], [7]] [0, 1, 0] 2 = Inr la"
    using evaluate_rowwise [OF sample_labelled, of 2] by simp
  with mnist_scores_range [OF disjI1 [OF la]] show ?thesis by blast
qed

theorem evaluate_average_witness:
  "\<exists>l. evaluate (rowwise sample_scores) [[5], [6], [7]] [0, 1, 0] 2 = Inr (l, 1 / 2)"
proof -
  have "batch_mean 2 (map2 (hit sample_scores) [[5], [6], [7]] [0, 1, 0]) = 1 / 2"
    by (simp add: batch_mean_def average_def hit_def sample_scores_def Let_def)
  with evaluate_average [OF sample_labelled, of 2] show ?thesis by simp
qed

definition sample_data :: "nat data_random" where
  "sample_data = \<lparr>np_randn_rows = (\<lambda>n m s. (replicate n (replicate m 0), s)), np_randint = (\<lambda>lo hi n s. (replicate n lo, s)),
     np_permutation = (\<lambda>n s. (rev [0..<n], Suc s))\<rparr>"

theorem train_epoch_average_witness:
  "\<exists>l. train_epoch sample_data (rowwise sample_scores) [[5], [6], [7]] [0, 1, 0] 2 (1 / 100) 7 = (Inr (l, 1 / 2), 8)"
proof -
  have rows: "length [[5 :: real], [6], [7]] = 3" by simp
  have p: "np_permutation sample_data (length [[5 :: real], [6], [7]]) 7 = ([2, 1, 0], 8)"
    by (simp add: sample_data_def numeral_3_eq_3)
  have "rev [2, 1, 0] = [0..<length [[5 :: real], [6], [7]]]" by (simp add: upt_rec)
  then have "mset [2, 1, 0] = mset [0..<length [[5 :: real], [6], [7]]]" by (metis mset_rev)
  note run = train_epoch_average [OF sample_labelled _ p this, of 2 "1 / 100"]
  have m: "take (length [[5 :: real], [6], [7]] - length [[5 :: real], [6], [7]] mod 2) (map g [2, 1, 0]) = [g 2, g 1]" for g :: "nat \<Rightarrow> real"
  proof -
    have "length [[5 :: real], [6], [7]] - length [[5 :: real], [6], [7]] mod 2 = (2 :: nat)" by (subst (1 2) rows) simp
    then show ?thesis by (simp only:) (simp add: numeral_2_eq_2)
  qed
  have h: "average [hit sample_scores ([[5], [6], [7]] ! 2) ([0, 1, 0] ! 2), hit sample_scores ([[5], [6], [7]] ! 1) ([0, 1, 0] ! 1)] = 1 / 2"
    by (simp add: average_def hit_def sample_scores_def)
  from run show ?thesis unfolding m h by (auto simp: prod_eq_iff)
qed

end
