(* ===== verification/LlmGeneration.thy ===== *)
theory LlmGeneration
  imports ExampleBase
begin

text \<open>
  \<^verbatim>\<open>examples/llm_generation.py\<close>: a small GPT-like model and autoregressive sampling. An array of the model is
  a list of rows of real numbers; the element-wise arithmetic, the matrix products and the reductions of
  NumPy are written as the arithmetic they stand for. Every row of a batch is computed on its own, so
  \<open>forward\<close> is given for one sequence, and \<open>MiniGPT_forward\<close> maps it over the batch. The random numbers of NumPy and its
  \<open>partition\<close> are parameters (\<open>np_env\<close>), over a generator state of any type.
\<close>

section \<open>NumPy\<close>

record 's np_env =
  np_normal :: "'s \<Rightarrow> real \<times> 's"
  np_choice :: "real list \<Rightarrow> ('s, nat) st"
  np_partition :: "real list \<Rightarrow> int \<Rightarrow> real list res"

type_synonym mat = "real list list"

text \<open>\<open>np.random.randn(n, m).astype(np.float32) * scale\<close>, in row-major order.\<close>

fun draw_row :: "'s np_env \<Rightarrow> nat \<Rightarrow> 's \<Rightarrow> real list \<times> 's" where
  "draw_row np 0 s = ([], s)"
| "draw_row np (Suc n) s = (case np_normal np s of (x, s1) \<Rightarrow> case draw_row np n s1 of (xs, s2) \<Rightarrow> (x # xs, s2))"

fun draw_rows :: "'s np_env \<Rightarrow> nat \<Rightarrow> nat \<Rightarrow> 's \<Rightarrow> mat \<times> 's" where
  "draw_rows np 0 m s = ([], s)"
| "draw_rows np (Suc n) m s = (case draw_row np m s of (r, s1) \<Rightarrow> case draw_rows np n m s1 of (rs, s2) \<Rightarrow> (r # rs, s2))"

definition randn :: "'s np_env \<Rightarrow> int \<Rightarrow> int \<Rightarrow> real \<Rightarrow> ('s, mat) st" where
  "randn np n m scale = (\<lambda>s.
     if n < 0 \<or> m < 0 then (raise ValueError ''negative dimensions are not allowed'', s)
     else case draw_rows np (nat n) (nat m) s of (rs, s') \<Rightarrow> (Inr (map (map (\<lambda>x. x * scale)) rs), s'))"

text \<open>\<open>np.ones(n)\<close> and \<open>np.zeros(n)\<close>.\<close>

definition np_fill :: "real \<Rightarrow> int \<Rightarrow> real list res" where
  "np_fill v n = (if n < 0 then raise ValueError ''negative dimensions are not allowed'' else Inr (replicate (nat n) v))"

definition columns :: "mat \<Rightarrow> nat" where
  "columns w = (case w of [] \<Rightarrow> 0 | r # _ \<Rightarrow> length r)"

text \<open>\<open>x @ w\<close> for one row \<open>x\<close>.\<close>

definition row_mul :: "real list \<Rightarrow> mat \<Rightarrow> real list res" where
  "row_mul x w =
     (if length x = length w then Inr (map (\<lambda>j. \<Sum>k \<leftarrow> [0..<length w]. x ! k * w ! k ! j) [0..<columns w])
      else raise ValueError ''matmul: Input operand 1 has a mismatch in its core dimension 0'')"

definition mat_mul :: "mat \<Rightarrow> mat \<Rightarrow> mat res" where
  "mat_mul x w = mapR (\<lambda>r. row_mul r w) x"

definition dot :: "real list \<Rightarrow> real list \<Rightarrow> real" where
  "dot a b = sum_list (map2 (*) a b)"

definition row_add :: "real list \<Rightarrow> real list \<Rightarrow> real list" where
  "row_add a b = map2 (+) a b"

definition mat_add :: "mat \<Rightarrow> mat \<Rightarrow> mat" where
  "mat_add x y = map2 row_add x y"

section \<open>The transformer block\<close>

record transformer_block =
  b_d_model :: int
  b_n_heads :: int
  b_d_ff :: int
  b_head_dim :: int
  q_proj :: mat
  k_proj :: mat
  v_proj :: mat
  o_proj :: mat
  ff_w1 :: mat
  ff_w2 :: mat
  ln1_gamma :: "real list"
  ln1_beta :: "real list"
  ln2_gamma :: "real list"
  ln2_beta :: "real list"

definition init_weight :: "'s np_env \<Rightarrow> int \<Rightarrow> int \<Rightarrow> ('s, mat) st" where
  "init_weight np i j =
     (if i = 0 then raiseS ZeroDivisionError ''float division by zero''
      else randn np i j (sqrt (2 / of_int i)))"

definition floor_div :: "int \<Rightarrow> int \<Rightarrow> int res" where
  "floor_div a b = (if b = 0 then raise ZeroDivisionError ''integer division or modulo by zero'' else Inr (a div b))"

definition TransformerBlock_init :: "'s np_env \<Rightarrow> int \<Rightarrow> int \<Rightarrow> int \<Rightarrow> ('s, transformer_block) st" where
  "TransformerBlock_init np d h f =
     bindS (liftS (floor_div d h)) (\<lambda>hd.
     bindS (init_weight np d d) (\<lambda>q. bindS (init_weight np d d) (\<lambda>k. bindS (init_weight np d d) (\<lambda>v.
     bindS (init_weight np d d) (\<lambda>p. bindS (init_weight np d f) (\<lambda>w1. bindS (init_weight np f d) (\<lambda>w2.
     bindS (liftS (np_fill 1 d)) (\<lambda>g1. bindS (liftS (np_fill 0 d)) (\<lambda>b1.
     bindS (liftS (np_fill 1 d)) (\<lambda>g2. bindS (liftS (np_fill 0 d)) (\<lambda>b2.
     returnS \<lparr>b_d_model = d, b_n_heads = h, b_d_ff = f, b_head_dim = hd, q_proj = q, k_proj = k, v_proj = v, o_proj = p,
       ff_w1 = w1, ff_w2 = w2, ln1_gamma = g1, ln1_beta = b1, ln2_gamma = g2, ln2_beta = b2\<rparr>)))))))))))"

definition row_mean :: "real list \<Rightarrow> real" where
  "row_mean r = sum_list r / real (length r)"

definition row_var :: "real list \<Rightarrow> real" where
  "row_var r = sum_list (map (\<lambda>x. (x - row_mean r)\<^sup>2) r) / real (length r)"

definition norm_row :: "real list \<Rightarrow> real list \<Rightarrow> real list \<Rightarrow> real list" where
  "norm_row gamma beta r =
     map2 (+) (map2 (\<lambda>g x. g * (x - row_mean r) / sqrt (row_var r + 1 / 10 ^ 5)) gamma r) beta"

definition layer_norm :: "mat \<Rightarrow> real list \<Rightarrow> real list \<Rightarrow> mat" where
  "layer_norm x gamma beta = map (norm_row gamma beta) x"

text \<open>
  \<open>reshape(batch, seq, n_heads, head_dim).transpose(0, 2, 1, 3)\<close>: the rows of every head. The
  reshape fails unless the heads divide the row (an empty sequence has no elements to misplace).
\<close>

definition split_heads :: "transformer_block \<Rightarrow> mat \<Rightarrow> mat list res" where
  "split_heads b x =
     (if x = [] \<or> (\<forall>r \<in> set x. int (length r) = b_n_heads b * b_head_dim b)
      then Inr (map (\<lambda>h. map (\<lambda>r. take (nat (b_head_dim b)) (drop (h * nat (b_head_dim b)) r)) x) [0..<nat (b_n_heads b)])
      else raise ValueError ''cannot reshape array'')"

definition head_scores :: "transformer_block \<Rightarrow> mat \<Rightarrow> mat \<Rightarrow> mat" where
  "head_scores b q k = map (\<lambda>qr. map (\<lambda>kr. dot qr kr * (1 / sqrt (of_int (b_head_dim b)))) k) q"

definition apply_mask :: "mat option \<Rightarrow> mat \<Rightarrow> mat" where
  "apply_mask msk scores = (case msk of None \<Rightarrow> scores | Some m \<Rightarrow> mat_add scores m)"

text \<open>The softmax of one row of scores, with the small constant in the denominator.\<close>

definition attention_weights :: "real list \<Rightarrow> real list" where
  "attention_weights scores =
     (let es = map (\<lambda>x. exp (x - Max (set scores))) scores
      in map (\<lambda>e. e / (sum_list es + 1 / 10 ^ 8)) es)"

text \<open>One row of \<open>attn_weights @ v\<close>, with \<open>n\<close> columns of \<open>v\<close>.\<close>

definition weighted_sum :: "nat \<Rightarrow> real list \<Rightarrow> mat \<Rightarrow> real list" where
  "weighted_sum n ws v = map (\<lambda>j. \<Sum>u \<leftarrow> [0..<length ws]. ws ! u * v ! u ! j) [0..<n]"

definition head_output :: "transformer_block \<Rightarrow> mat option \<Rightarrow> mat \<times> mat \<times> mat \<Rightarrow> mat" where
  "head_output b msk qkv = (case qkv of (q, k, v) \<Rightarrow>
     map (\<lambda>scores. weighted_sum (nat (b_head_dim b)) (attention_weights scores) v) (apply_mask msk (head_scores b q k)))"

text \<open>\<open>attn_out.transpose(0, 2, 1, 3).reshape(batch, seq, d_model)\<close>: the heads side by side.\<close>

definition merge_heads :: "nat \<Rightarrow> mat list \<Rightarrow> mat" where
  "merge_heads n outs = map (\<lambda>t. concat (map (\<lambda>out. out ! t) outs)) [0..<n]"

definition attention :: "transformer_block \<Rightarrow> mat option \<Rightarrow> mat \<Rightarrow> mat res" where
  "attention b msk x =
     bindR (mat_mul x (q_proj b)) (\<lambda>q. bindR (mat_mul x (k_proj b)) (\<lambda>k. bindR (mat_mul x (v_proj b)) (\<lambda>v.
     bindR (split_heads b q) (\<lambda>qs. bindR (split_heads b k) (\<lambda>ks. bindR (split_heads b v) (\<lambda>vs.
     mat_mul (merge_heads (length x) (map (head_output b msk) (zip qs (zip ks vs)))) (o_proj b)))))))"

definition ff_gelu :: "real \<Rightarrow> real" where
  "ff_gelu h = 1 / 2 * h * (1 + tanh (sqrt (2 / pi) * (h + 44715 / 10 ^ 6 * h ^ 3)))"

definition feed_forward :: "transformer_block \<Rightarrow> mat \<Rightarrow> mat res" where
  "feed_forward b x = bindR (mat_mul x (ff_w1 b)) (\<lambda>h. mat_mul (map (map ff_gelu) h) (ff_w2 b))"

definition block_forward :: "mat option \<Rightarrow> transformer_block \<Rightarrow> mat \<Rightarrow> mat res" where
  "block_forward msk b x =
     bindR (attention b msk (layer_norm x (ln1_gamma b) (ln1_beta b))) (\<lambda>a.
     let x1 = mat_add x a in
     bindR (feed_forward b (layer_norm x1 (ln2_gamma b) (ln2_beta b))) (\<lambda>f. Inr (mat_add x1 f)))"

section \<open>The model\<close>

record mini_gpt =
  vocab_size :: int
  d_model :: int
  n_heads :: int
  d_ff :: int
  n_layers :: int
  max_seq_len :: int
  token_embedding :: mat
  position_embedding :: mat
  blocks :: "transformer_block list"
  lm_head :: mat
  ln_final_gamma :: "real list"
  ln_final_beta :: "real list"

fun init_blocks :: "'s np_env \<Rightarrow> int \<Rightarrow> int \<Rightarrow> int \<Rightarrow> nat \<Rightarrow> ('s, transformer_block list) st" where
  "init_blocks np d h f 0 = returnS []"
| "init_blocks np d h f (Suc n) =
     bindS (TransformerBlock_init np d h f) (\<lambda>b. bindS (init_blocks np d h f n) (\<lambda>bs. returnS (b # bs)))"

definition MiniGPT_init :: "'s np_env \<Rightarrow> int \<Rightarrow> int \<Rightarrow> int \<Rightarrow> int \<Rightarrow> int \<Rightarrow> int \<Rightarrow> ('s, mini_gpt) st" where
  "MiniGPT_init np vocab d h f layers max_len =
     bindS (randn np vocab d (2 / 100)) (\<lambda>te.
     bindS (randn np max_len d (2 / 100)) (\<lambda>pe.
     bindS (init_blocks np d h f (nat layers)) (\<lambda>bs.
     bindS (randn np d vocab (2 / 100)) (\<lambda>lm.
     bindS (liftS (np_fill 1 d)) (\<lambda>g.
     bindS (liftS (np_fill 0 d)) (\<lambda>b.
     returnS \<lparr>vocab_size = vocab, d_model = d, n_heads = h, d_ff = f, n_layers = layers, max_seq_len = max_len,
       token_embedding = te, position_embedding = pe, blocks = bs, lm_head = lm, ln_final_gamma = g, ln_final_beta = b\<rparr>))))))"

text \<open>\<open>np.triu(np.full((n, n), -1e9), k=1)\<close>.\<close>

definition causal_mask :: "nat \<Rightarrow> mat" where
  "causal_mask n = map (\<lambda>t. map (\<lambda>u. if t < u then - (10 ^ 9) else 0) [0..<n]) [0..<n]"

text \<open>\<open>token_emb + pos_emb\<close>: equal lengths, or one row against many.\<close>

definition add_positions :: "mat \<Rightarrow> mat \<Rightarrow> mat res" where
  "add_positions te pe =
     (if length te = length pe then Inr (mat_add te pe)
      else if length pe = 1 then Inr (map (\<lambda>r. row_add r (hd pe)) te)
      else if length te = 1 then Inr (map (row_add (hd te)) pe)
      else raise ValueError ''operands could not be broadcast together'')"

text \<open>\<open>a[:n]\<close> and \<open>a[-n:]\<close> of a list.\<close>

definition py_prefix :: "int \<Rightarrow> 'a list \<Rightarrow> 'a list" where
  "py_prefix n xs = (if 0 \<le> n then take (nat n) xs else take (nat (int (length xs) + n)) xs)"

definition py_last :: "int \<Rightarrow> 'a list \<Rightarrow> 'a list" where
  "py_last n xs = (if 0 < n then drop (length xs - nat n) xs else drop (nat (- n)) xs)"

definition sequence_forward :: "mini_gpt \<Rightarrow> int list \<Rightarrow> mat res" where
  "sequence_forward g ids =
     bindR (mapR (py_getitem (token_embedding g)) ids) (\<lambda>te.
     bindR (add_positions te (take (length ids) (position_embedding g))) (\<lambda>x.
     bindR (foldR (block_forward (Some (causal_mask (length ids)))) (blocks g) x) (\<lambda>y.
     mat_mul (layer_norm y (ln_final_gamma g) (ln_final_beta g)) (lm_head g))))"

definition MiniGPT_forward :: "mini_gpt \<Rightarrow> int list list \<Rightarrow> mat list res" where
  "MiniGPT_forward g batch = mapR (sequence_forward g) batch"

section \<open>Sampling\<close>

text \<open>The logits that are not among the largest \<open>top_k\<close> become minus infinity.\<close>

definition keep_top :: "'s np_env \<Rightarrow> real list \<Rightarrow> int \<Rightarrow> pyfloat list res" where
  "keep_top np xs top_k =
     (if 0 < top_k
      then bindR (np_partition np xs (- top_k)) (\<lambda>ys. bindR (py_getitem ys (- top_k)) (\<lambda>t.
           Inr (map (\<lambda>x. if x < t then NegInf else Fin x) xs)))
      else Inr (map Fin xs))"

fun finite_values :: "pyfloat list \<Rightarrow> real list" where
  "finite_values [] = []"
| "finite_values (Fin x # vs) = x # finite_values vs"
| "finite_values (_ # vs) = finite_values vs"

text \<open>\<open>np.exp(v - m)\<close> where \<open>v\<close> is finite or minus infinity.\<close>

definition exp_shifted :: "real \<Rightarrow> pyfloat \<Rightarrow> real" where
  "exp_shifted m v = (case v of Fin x \<Rightarrow> exp (x - m) | _ \<Rightarrow> 0)"

definition probabilities :: "pyfloat list \<Rightarrow> real list res" where
  "probabilities vs =
     (if vs = [] then raise ValueError ''zero-size array to reduction operation maximum which has no identity''
      else let es = map (exp_shifted (Max (set (finite_values vs)))) vs
           in Inr (map (\<lambda>e. e / sum_list es) es))"

text \<open>
  A temperature of zero divides every logit by zero: the maximum is an infinity or NaN, the
  probabilities are NaN, and \<open>np.random.choice\<close> refuses them.
\<close>

definition sample_token :: "'s np_env \<Rightarrow> real list \<Rightarrow> real \<Rightarrow> int \<Rightarrow> ('s, nat) st" where
  "sample_token np logits temperature top_k =
     (if temperature = 0 then raiseS ValueError ''probabilities contain NaN''
      else bindS (liftS (keep_top np (map (\<lambda>x. x / temperature) logits) top_k)) (\<lambda>vs.
           bindS (liftS (probabilities vs)) (np_choice np)))"

text \<open>The loop of \<open>generate_text\<close>: \<open>n\<close> tokens remain.\<close>

definition next_token :: "'s np_env \<Rightarrow> mini_gpt \<Rightarrow> real \<Rightarrow> int \<Rightarrow> int list \<Rightarrow> ('s, nat) st" where
  "next_token np g temperature top_k ids =
     bindS (liftS (MiniGPT_forward g [py_last (max_seq_len g) ids])) (\<lambda>logits.
     bindS (liftS (bindR (py_getitem logits 0) (\<lambda>rows. py_getitem rows (-1)))) (\<lambda>row.
     sample_token np row temperature top_k))"

fun generate_loop :: "'s np_env \<Rightarrow> mini_gpt \<Rightarrow> real \<Rightarrow> int \<Rightarrow> nat \<Rightarrow> int list \<Rightarrow> ('s, int list) st" where
  "generate_loop np g temperature top_k 0 ids = returnS ids"
| "generate_loop np g temperature top_k (Suc n) ids =
     bindS (next_token np g temperature top_k ids) (\<lambda>tok.
     if tok = 0 then returnS (ids @ [int tok])
     else generate_loop np g temperature top_k n (ids @ [int tok]))"

definition generate_text :: "'s np_env \<Rightarrow> mini_gpt \<Rightarrow> int list \<Rightarrow> int \<Rightarrow> real \<Rightarrow> int \<Rightarrow> ('s, int list) st" where
  "generate_text np g prompt max_new_tokens temperature top_k =
     generate_loop np g temperature top_k (nat max_new_tokens) prompt"

section \<open>Text\<close>

definition create_simple_vocab :: "(int, string) dict" where
  "create_simple_vocab =
     [(0, ''<EOS>''), (1, ''the''), (2, ''cat''), (3, ''sat''), (4, ''on''), (5, ''mat''), (6, ''dog''), (7, ''ran''),
      (8, ''in''), (9, ''park''), (10, ''quick''), (11, ''brown''), (12, ''fox''), (13, ''jumped''), (14, ''over''),
      (15, ''lazy'')]"

definition ids_to_text :: "int list \<Rightarrow> (int, string) dict \<Rightarrow> string" where
  "ids_to_text ids vocab =
     py_join '' '' (map (\<lambda>i. dict_get_default vocab i (''<UNK:'' @ show_int i @ ''>'')) ids)"

section \<open>The program\<close>

record llm_args =
  arg_vocab_size :: int
  arg_d_model :: int
  arg_n_heads :: int
  arg_d_ff :: int
  arg_n_layers :: int
  arg_max_seq_len :: int
  arg_max_new_tokens :: int
  arg_temperature :: real
  arg_top_k :: int

definition llm_banner :: "host \<Rightarrow> llm_args \<Rightarrow> string list" where
  "llm_banner H A =
     [ruler CHR ''='', ''Autoregressive Text Generation with MetalNative'', ruler CHR ''='',
      ''Model: d_model='' @ show_int (arg_d_model A) @ '', n_heads='' @ show_int (arg_n_heads A) @ '', n_layers='' @ show_int (arg_n_layers A),
      ''Vocab size: '' @ show_int (arg_vocab_size A),
      ''Max sequence length: '' @ show_int (arg_max_seq_len A),
      ''Generation: max_tokens='' @ show_int (arg_max_new_tokens A) @ '', temp='' @ host_float H (arg_temperature A)
        @ '', top_k='' @ show_int (arg_top_k A),
      ruler CHR ''='']"

definition prompt_ids :: "int list" where
  "prompt_ids = [1, 2, 3, 4, 5]"

definition llm_summary :: "int list \<Rightarrow> real \<Rightarrow> ('s session, unit) st" where
  "llm_summary generated dt =
     bindS (say_all [ruler CHR ''-'', ''Generated text:'', ids_to_text generated create_simple_vocab, ruler CHR ''-'', [],
       ''Generated '' @ show_int (int (length generated) - int (length prompt_ids)) @ '' tokens in '' @ fmt_fixed 2 dt @ ''s'']) (\<lambda>_.
     bindS (liftS (float_div (of_int (int (length generated) - int (length prompt_ids))) dt)) (\<lambda>rate.
     say (''Throughput: '' @ fmt_fixed 2 rate @ '' tokens/s'')))"

definition llm_main :: "host \<Rightarrow> 's np_env \<Rightarrow> llm_args \<Rightarrow> ('s session, unit) st" where
  "llm_main H np A =
     bindS (say_all (llm_banner H A)) (\<lambda>_.
     if \<not> host_available H then say metal_missing
     else
       bindS (say_all [''Using device: '' @ host_device H, [], ''Creating mini GPT model...'']) (\<lambda>_.
       bindS (with_generator (MiniGPT_init np (arg_vocab_size A) (arg_d_model A) (arg_n_heads A) (arg_d_ff A)
                (arg_n_layers A) (arg_max_seq_len A))) (\<lambda>model.
       bindS (say_all [''Model created successfully'', [], ''Prompt: '' @ ids_to_text prompt_ids create_simple_vocab, [],
                ''Generating text...'']) (\<lambda>_.
       bindS (read_clock H) (\<lambda>start.
       bindS (with_generator (generate_text np model prompt_ids (arg_max_new_tokens A) (arg_temperature A) (arg_top_k A))) (\<lambda>generated.
       bindS (read_clock H) (\<lambda>stop. llm_summary generated (stop - start))))))))"

end
