(* ===== verification/Resnet.thy ===== *)
theory Resnet
  imports LlmGeneration
begin

text \<open>
  \<^verbatim>\<open>examples/resnet_inference.py\<close>: the ResNet-18 example. The convolutions, normalisations and pools of the
  network are comments in the program; what it computes is a random activation, the rectifier of
  every block, a spatial mean and the last layer. An array of four dimensions is its shape with its
  elements in row-major order.
\<close>

section \<open>Arrays of four dimensions\<close>

record array4 =
  a4_shape :: "int list"
  a4_elems :: "real list"

definition randn4 :: "'s np_env \<Rightarrow> int list \<Rightarrow> real \<Rightarrow> ('s, array4) st" where
  "randn4 np shape scale = (\<lambda>s.
     if \<exists>n \<in> set shape. n < 0 then (raise ValueError ''negative dimensions are not allowed'', s)
     else case draw_row np (nat (prod_list shape)) s of (xs, s') \<Rightarrow>
       (Inr \<lparr>a4_shape = shape, a4_elems = map (\<lambda>x. x * scale) xs\<rparr>, s'))"

text \<open>\<open>np.mean(x, axis=(2, 3))\<close>.\<close>

definition spatial_mean :: "array4 \<Rightarrow> mat" where
  "spatial_mean x = (case a4_shape x of
     [n, c, h, w] \<Rightarrow> chunk (nat n) (nat c) (map row_mean (chunk (nat n * nat c) (nat h * nat w) (a4_elems x)))
   | _ \<Rightarrow> [])"

definition init_conv_weight :: "'s np_env \<Rightarrow> int \<Rightarrow> int \<Rightarrow> int \<Rightarrow> int \<Rightarrow> ('s, array4) st" where
  "init_conv_weight np in_ch out_ch kh kw =
     bindS (liftS (float_div 2 (of_int (in_ch * kh * kw)))) (\<lambda>v. randn4 np [out_ch, in_ch, kh, kw] (sqrt v))"

section \<open>The basic block\<close>

record basic_block =
  in_channels :: int
  out_channels :: int
  stride :: int
  conv1_weight :: array4
  conv2_weight :: array4
  use_shortcut :: bool
  shortcut_weight :: "array4 option"
  bn1_gamma :: "real list"
  bn1_beta :: "real list"
  bn2_gamma :: "real list"
  bn2_beta :: "real list"

definition BasicBlock_init :: "'s np_env \<Rightarrow> int \<Rightarrow> int \<Rightarrow> int \<Rightarrow> ('s, basic_block) st" where
  "BasicBlock_init np i j st =
     bindS (init_conv_weight np i j 3 3) (\<lambda>c1.
     bindS (init_conv_weight np j j 3 3) (\<lambda>c2.
     let sc = st \<noteq> 1 \<or> i \<noteq> j in
     bindS (if sc then bindS (init_conv_weight np i j 1 1) (\<lambda>w. returnS (Some w)) else returnS None) (\<lambda>sw.
     bindS (liftS (np_fill 1 j)) (\<lambda>g1. bindS (liftS (np_fill 0 j)) (\<lambda>b1.
     bindS (liftS (np_fill 1 j)) (\<lambda>g2. bindS (liftS (np_fill 0 j)) (\<lambda>b2.
     returnS \<lparr>in_channels = i, out_channels = j, stride = st, conv1_weight = c1, conv2_weight = c2, use_shortcut = sc,
       shortcut_weight = sw, bn1_gamma = g1, bn1_beta = b1, bn2_gamma = g2, bn2_beta = b2\<rparr>)))))))"

text \<open>The convolutions and the shortcut are placeholders: a block is \<open>np.maximum(0, x)\<close>.\<close>

definition BasicBlock_forward :: "basic_block \<Rightarrow> array4 \<Rightarrow> array4" where
  "BasicBlock_forward b x = x\<lparr>a4_elems := map (max 0) (a4_elems x)\<rparr>"

section \<open>The network\<close>

record resnet18 =
  num_classes :: int
  stem_weight :: array4
  stem_gamma :: "real list"
  stem_beta :: "real list"
  layers :: "basic_block list"
  fc_weight :: mat
  fc_bias :: "real list"

text \<open>Input channels, output channels and stride of the eight blocks.\<close>

definition block_plan :: "(int \<times> int \<times> int) list" where
  "block_plan = [(64, 64, 1), (64, 64, 1), (64, 128, 2), (128, 128, 1), (128, 256, 2), (256, 256, 1), (256, 512, 2), (512, 512, 1)]"

fun build_blocks :: "'s np_env \<Rightarrow> (int \<times> int \<times> int) list \<Rightarrow> ('s, basic_block list) st" where
  "build_blocks np [] = returnS []"
| "build_blocks np ((i, j, st) # plan) =
     bindS (BasicBlock_init np i j st) (\<lambda>b. bindS (build_blocks np plan) (\<lambda>bs. returnS (b # bs)))"

definition ResNet18_init :: "'s np_env \<Rightarrow> int \<Rightarrow> ('s, resnet18) st" where
  "ResNet18_init np classes =
     bindS (init_conv_weight np 3 64 7 7) (\<lambda>c1.
     bindS (liftS (np_fill 1 64)) (\<lambda>g. bindS (liftS (np_fill 0 64)) (\<lambda>b.
     bindS (build_blocks np block_plan) (\<lambda>bs.
     bindS (randn np 512 classes (1 / 100)) (\<lambda>w.
     bindS (liftS (np_fill 0 classes)) (\<lambda>bias.
     returnS \<lparr>num_classes = classes, stem_weight = c1, stem_gamma = g, stem_beta = b, layers = bs, fc_weight = w, fc_bias = bias\<rparr>))))))"

text \<open>\<open>x @ self.fc_weight + self.fc_bias\<close>, where \<open>x\<close> has \<open>channels\<close> columns.\<close>

definition fc_layer :: "resnet18 \<Rightarrow> int \<Rightarrow> mat \<Rightarrow> mat res" where
  "fc_layer m channels x =
     (if channels \<noteq> int (length (fc_weight m))
      then raise ValueError ''matmul: Input operand 1 has a mismatch in its core dimension 0''
      else bindR (mat_mul x (fc_weight m)) (\<lambda>y. Inr (map (\<lambda>r. row_add r (fc_bias m)) y)))"

text \<open>The input gives only the size of the batch: the activations are drawn anew.\<close>

definition ResNet18_forward :: "'s np_env \<Rightarrow> resnet18 \<Rightarrow> array4 \<Rightarrow> ('s, mat) st" where
  "ResNet18_forward np m x =
     bindS (liftS (py_getitem (a4_shape x) 0)) (\<lambda>batch_size.
     bindS (randn4 np [batch_size, 64, 56, 56] 1) (\<lambda>x1.
     let y = fold BasicBlock_forward (layers m) x1 in
     liftS (bindR (py_getitem (a4_shape y) 1) (\<lambda>channels. fc_layer m channels (spatial_mean y)))))"

section \<open>The program\<close>

definition channel_mean :: "real list" where
  "channel_mean = [485 / 1000, 456 / 1000, 406 / 1000]"

definition channel_std :: "real list" where
  "channel_std = [229 / 1000, 224 / 1000, 225 / 1000]"

definition load_sample_image :: "'s np_env \<Rightarrow> ('s, array4) st" where
  "load_sample_image np =
     bindS (randn4 np [1, 3, 224, 224] 1) (\<lambda>img.
     returnS (img\<lparr>a4_elems := map2 (\<lambda>i x. (x - channel_mean ! (i div (224 * 224))) / channel_std ! (i div (224 * 224)))
                                 [0..<length (a4_elems img)] (a4_elems img)\<rparr>))"

record resnet_args =
  arg_num_classes :: int
  arg_warmup :: int
  arg_iterations :: int

definition resnet_banner :: "resnet_args \<Rightarrow> string list" where
  "resnet_banner A =
     [ruler CHR ''='', ''ResNet-18 Inference with MetalNative'', ruler CHR ''='',
      ''Number of classes: '' @ show_int (arg_num_classes A), ''Warmup iterations: '' @ show_int (arg_warmup A),
      ''Inference iterations: '' @ show_int (arg_iterations A), ruler CHR ''='']"

text \<open>One timed run; \<open>sync\<close> is \<open>mn.synchronize()\<close> and \<open>i\<close> counts from zero.\<close>

definition timed_inference ::
  "host \<Rightarrow> 's np_env \<Rightarrow> ('s session, unit) st \<Rightarrow> resnet_args \<Rightarrow> resnet18 \<Rightarrow> array4 \<Rightarrow> nat \<Rightarrow> ('s session, real) st" where
  "timed_inference H np sync A model img i =
     bindS (read_clock H) (\<lambda>start.
     bindS (with_generator (ResNet18_forward np model img)) (\<lambda>_.
     bindS sync (\<lambda>_.
     bindS (read_clock H) (\<lambda>end_time.
     let t = (end_time - start) * 1000 in
     bindS (if Suc i mod 5 = 0
            then say (''  Iteration '' @ show_nat (Suc i) @ ''/'' @ show_int (arg_iterations A) @ '': '' @ fmt_fixed 2 t @ '' ms'')
            else returnS ()) (\<lambda>_. returnS t)))))"

fun timed_inferences ::
  "host \<Rightarrow> 's np_env \<Rightarrow> ('s session, unit) st \<Rightarrow> resnet_args \<Rightarrow> resnet18 \<Rightarrow> array4 \<Rightarrow> nat list \<Rightarrow> ('s session, real list) st" where
  "timed_inferences H np sync A model img [] = returnS []"
| "timed_inferences H np sync A model img (i # is) =
     bindS (timed_inference H np sync A model img i) (\<lambda>t.
     bindS (timed_inferences H np sync A model img is) (\<lambda>ts. returnS (t # ts)))"

text \<open>
  The mean of no times is NaN, which is not printed: \<open>np.min\<close> of an empty list raises. The division by
  a mean of zero, a NumPy number, gives an infinity.
\<close>

definition inference_lines :: "real list \<Rightarrow> string list res" where
  "inference_lines ts =
     (if ts = [] then raise ValueError ''zero-size array to reduction operation minimum which has no identity''
      else Inr
       [[], replicate 80 CHR ''-'', ''Inference Statistics:'',
        ''  Average: '' @ fmt_fixed 2 (row_mean ts) @ '' '' @ [CHR 0xC2, CHR 0xB1] @ '' '' @ fmt_fixed 2 (sqrt (row_var ts)) @ '' ms'',
        ''  Min:     '' @ fmt_fixed 2 (Min (set ts)) @ '' ms'',
        ''  Max:     '' @ fmt_fixed 2 (Max (set ts)) @ '' ms'',
        ''  Throughput: '' @ (if row_mean ts = 0 then ''inf'' else fmt_fixed 2 (1000 / row_mean ts)) @ '' images/second'',
        replicate 80 CHR ''-'', [], ''Sample prediction:'', ''  (Actual predictions would appear here with real model)''])"

definition resnet_run :: "host \<Rightarrow> 's np_env \<Rightarrow> ('s session, unit) st \<Rightarrow> resnet_args \<Rightarrow> ('s session, unit) st" where
  "resnet_run H np sync A =
     bindS (say_all [''Using device: '' @ host_device H, [], ''Creating ResNet-18 model...'']) (\<lambda>_.
     bindS (with_generator (ResNet18_init np (arg_num_classes A))) (\<lambda>model.
     bindS (say_all [''Model created successfully'', [], ''Loading sample image (224x224)...'']) (\<lambda>_.
     bindS (with_generator (load_sample_image np)) (\<lambda>img.
     bindS (say_all [''Image shape: (1, 3, 224, 224)'', [], ''Running '' @ show_int (arg_warmup A) @ '' warmup iterations...'']) (\<lambda>_.
     bindS (forS (\<lambda>_. bindS (with_generator (ResNet18_forward np model img)) (\<lambda>_. sync)) [0..<nat (arg_warmup A)]) (\<lambda>_.
     bindS (say_all [''Warmup complete'', [], ''Running '' @ show_int (arg_iterations A) @ '' inference iterations...'']) (\<lambda>_.
     bindS (timed_inferences H np sync A model img [0..<nat (arg_iterations A)]) (\<lambda>ts.
     bindS (liftS (inference_lines ts)) say_all))))))))"

definition resnet_main :: "host \<Rightarrow> 's np_env \<Rightarrow> ('s session, unit) st \<Rightarrow> resnet_args \<Rightarrow> ('s session, unit) st" where
  "resnet_main H np sync A =
     bindS (say_all (resnet_banner A)) (\<lambda>_.
     if \<not> host_available H then say metal_missing else resnet_run H np sync A)"

section \<open>The activations keep sixty-four channels\<close>

lemma blocks_keep_shape: "a4_shape (fold BasicBlock_forward bs x) = a4_shape x"
  by (induction bs arbitrary: x) (simp_all add: BasicBlock_forward_def)

lemma blocks_rectify: "bs \<noteq> [] \<Longrightarrow> a4_elems (fold BasicBlock_forward bs x) = map (max 0) (a4_elems x)"
proof (induction bs arbitrary: x)
  case (Cons b bs)
  show ?case
  proof (cases "bs = []")
    case False
    have idem: "map (max 0) (map (max 0) ys) = map (max 0) ys" for ys :: "real list" by (induction ys) auto
    from False show ?thesis using Cons.IH [of "BasicBlock_forward b x"] idem by (simp add: BasicBlock_forward_def)
  qed (simp add: BasicBlock_forward_def)
qed simp

lemma forward_raises:
  assumes "length (fc_weight m) = 512" and "a4_shape x \<noteq> []"
  shows "raises ValueError (fst (ResNet18_forward np m x s))"
proof -
  obtain n ns where x: "a4_shape x = n # ns" using assms(2) by (cases "a4_shape x") auto
  have g: "py_getitem (n # ns) 0 = Inr n" by (simp add: py_getitem_def py_position_def)
  have c: "py_getitem [n, 64, 56, 56] 1 = Inr 64" by (simp add: py_getitem_def py_position_def)
  show ?thesis
  proof (cases "n < 0")
    case True
    then show ?thesis by (simp add: ResNet18_forward_def bindS_def x g randn4_def raise_def)
  next
    case False
    obtain xs s' where d: "draw_row np (nat (prod_list [n, 64, 56, 56])) s = (xs, s')" by fastforce
    have "randn4 np [n, 64, 56, 56] 1 s = (Inr \<lparr>a4_shape = [n, 64, 56, 56], a4_elems = map (\<lambda>x. x * 1) xs\<rparr>, s')"
      unfolding randn4_def using False d by simp
    then show ?thesis
      using assms(1) by (simp add: ResNet18_forward_def bindS_def x g blocks_keep_shape c fc_layer_def Let_def)
  qed
qed

end
