(* ===== verification/LlmProps.thy ===== *)
theory LlmProps
  imports LlmGeneration "HOL-Library.Multiset"
begin

text \<open>
  Properties of the text generation example: the shapes of the model, what masked attention can see,
  which tokens sampling can give, and that generation ends with the text it promises.
\<close>

section \<open>Shapes\<close>

definition is_mat :: "nat \<Rightarrow> nat \<Rightarrow> mat \<Rightarrow> bool" where
  "is_mat n m w \<longleftrightarrow> length w = n \<and> (\<forall>r \<in> set w. length r = m)"

lemma is_mat_nth: "is_mat n m w \<Longrightarrow> i < n \<Longrightarrow> length (w ! i) = m"
  by (auto simp: is_mat_def)

lemma is_mat_map: "is_mat n m x \<Longrightarrow> (\<And>r. length r = m \<Longrightarrow> length (f r) = k) \<Longrightarrow> is_mat n k (map f x)"
  by (auto simp: is_mat_def)

lemma is_mat_add: "is_mat n m x \<Longrightarrow> is_mat n m y \<Longrightarrow> is_mat n m (mat_add x y)"
  by (auto simp: is_mat_def mat_add_def row_add_def elim!: in_set_zipE)

lemma columns_mat: "is_mat n m w \<Longrightarrow> 0 < n \<Longrightarrow> columns w = m"
  by (cases w) (auto simp: is_mat_def columns_def)

lemma mat_mul_shape:
  assumes "is_mat s n x" and "is_mat n m w" and "0 < n"
  shows "\<exists>y. mat_mul x w = Inr y \<and> is_mat s m y"
proof -
  let ?f = "\<lambda>r. map (\<lambda>j. \<Sum>k \<leftarrow> [0..<length w]. r ! k * w ! k ! j) [0..<columns w]"
  have "mat_mul x w = Inr (map ?f x)"
    using assms unfolding mat_mul_def by (intro mapR_total) (auto simp: row_mul_def is_mat_def)
  moreover have "is_mat s m (map ?f x)"
    using assms columns_mat [OF assms(2,3)] by (auto simp: is_mat_def)
  ultimately show ?thesis by blast
qed

lemma length_norm_row: "length gamma = length r \<Longrightarrow> length beta = length r \<Longrightarrow> length (norm_row gamma beta r) = length r"
  by (simp add: norm_row_def)

lemma layer_norm_shape: "is_mat s n x \<Longrightarrow> length gamma = n \<Longrightarrow> length beta = n \<Longrightarrow> is_mat s n (layer_norm x gamma beta)"
  by (auto simp: is_mat_def layer_norm_def length_norm_row)

definition block_wf :: "nat \<Rightarrow> transformer_block \<Rightarrow> bool" where
  "block_wf d b \<longleftrightarrow> 0 < d \<and> 0 \<le> b_n_heads b \<and> 0 \<le> b_head_dim b \<and> b_n_heads b * b_head_dim b = int d \<and> 0 < b_d_ff b
   \<and> is_mat d d (q_proj b) \<and> is_mat d d (k_proj b) \<and> is_mat d d (v_proj b) \<and> is_mat d d (o_proj b)
   \<and> is_mat d (nat (b_d_ff b)) (ff_w1 b) \<and> is_mat (nat (b_d_ff b)) d (ff_w2 b)
   \<and> length (ln1_gamma b) = d \<and> length (ln1_beta b) = d \<and> length (ln2_gamma b) = d \<and> length (ln2_beta b) = d"

lemma split_heads_shape:
  assumes "block_wf d b" and "is_mat s d x"
  shows "\<exists>hs. split_heads b x = Inr hs \<and> length hs = nat (b_n_heads b) \<and> (\<forall>h \<in> set hs. is_mat s (nat (b_head_dim b)) h)"
proof -
  let ?n = "nat (b_head_dim b)"
  have d: "d = nat (b_n_heads b) * ?n"
    using assms(1) by (simp add: block_wf_def flip: nat_mult_distrib)
  have "h * ?n + ?n \<le> d" if "h < nat (b_n_heads b)" for h
    using mult_right_mono [of "Suc h" "nat (b_n_heads b)" ?n] that unfolding d by simp
  then have "length (take ?n (drop (h * ?n) r)) = ?n" if "h < nat (b_n_heads b)" "length r = d" for h and r :: "real list"
    using that by fastforce
  with assms show ?thesis by (auto simp: split_heads_def is_mat_def block_wf_def)
qed

lemma head_output_shape:
  assumes "is_mat s m q" and "is_mat s m k" and "is_mat s s msk"
  shows "is_mat s (nat (b_head_dim b)) (head_output b (Some msk) (q, k, v))"
  using assms by (auto simp: is_mat_def head_output_def apply_mask_def head_scores_def mat_add_def weighted_sum_def)

lemma merge_heads_shape:
  assumes "\<forall>out \<in> set outs. is_mat s m out"
  shows "is_mat s (length outs * m) (merge_heads s outs)"
proof -
  have "length (concat (map (\<lambda>out. out ! t) outs)) = length outs * m" if "t < s" for t
    using assms that by (induction outs) (auto simp: is_mat_def)
  then show ?thesis by (auto simp: is_mat_def merge_heads_def)
qed

lemma attention_shape:
  assumes b: "block_wf d b" and x: "is_mat s d x" and m: "is_mat s s msk"
  shows "\<exists>y. attention b (Some msk) x = Inr y \<and> is_mat s d y"
proof -
  have d: "0 < d" "is_mat d d (q_proj b)" "is_mat d d (k_proj b)" "is_mat d d (v_proj b)" "is_mat d d (o_proj b)"
    using b by (simp_all add: block_wf_def)
  from mat_mul_shape [OF x d(2,1)] obtain q where q: "mat_mul x (q_proj b) = Inr q" "is_mat s d q" by blast
  from mat_mul_shape [OF x d(3,1)] obtain k where k: "mat_mul x (k_proj b) = Inr k" "is_mat s d k" by blast
  from mat_mul_shape [OF x d(4,1)] obtain v where v: "mat_mul x (v_proj b) = Inr v" "is_mat s d v" by blast
  obtain qs where qs: "split_heads b q = Inr qs" "length qs = nat (b_n_heads b)" "\<forall>h \<in> set qs. is_mat s (nat (b_head_dim b)) h"
    using split_heads_shape [OF b q(2)] by blast
  obtain ks where ks: "split_heads b k = Inr ks" "length ks = nat (b_n_heads b)" "\<forall>h \<in> set ks. is_mat s (nat (b_head_dim b)) h"
    using split_heads_shape [OF b k(2)] by blast
  obtain vs where vs: "split_heads b v = Inr vs" "length vs = nat (b_n_heads b)"
    using split_heads_shape [OF b v(2)] by blast
  let ?outs = "map (head_output b (Some msk)) (zip qs (zip ks vs))"
  have l: "length x = s" using x by (simp add: is_mat_def)
  have "\<forall>out \<in> set ?outs. is_mat s (nat (b_head_dim b)) out"
  proof
    fix out assume "out \<in> set ?outs"
    then obtain q' k' v' where o: "out = head_output b (Some msk) (q', k', v')" "q' \<in> set qs" "k' \<in> set ks"
      by (auto elim!: in_set_zipE)
    with qs(3) ks(3) show "is_mat s (nat (b_head_dim b)) out" using head_output_shape [OF _ _ m] by blast
  qed
  from merge_heads_shape [OF this] have "is_mat s d (merge_heads s ?outs)"
    using qs(2) ks(2) vs(2) b by (simp add: block_wf_def flip: nat_mult_distrib)
  from mat_mul_shape [OF this d(5,1)] show ?thesis
    by (simp add: attention_def q k v qs(1) ks(1) vs(1) l)
qed

lemma feed_forward_shape:
  assumes b: "block_wf d b" and x: "is_mat s d x"
  shows "\<exists>y. feed_forward b x = Inr y \<and> is_mat s d y"
proof -
  let ?f = "nat (b_d_ff b)"
  have d: "0 < d" "0 < ?f" "is_mat d ?f (ff_w1 b)" "is_mat ?f d (ff_w2 b)" using b by (simp_all add: block_wf_def)
  from mat_mul_shape [OF x d(3,1)] obtain h where h: "mat_mul x (ff_w1 b) = Inr h" "is_mat s ?f h" by blast
  have "is_mat s ?f (map (map ff_gelu) h)" using h(2) by (rule is_mat_map) simp
  from mat_mul_shape [OF this d(4,2)] show ?thesis by (simp add: feed_forward_def h)
qed

lemma block_forward_shape:
  assumes b: "block_wf d b" and x: "is_mat s d x" and m: "is_mat s s msk"
  shows "\<exists>y. block_forward (Some msk) b x = Inr y \<and> is_mat s d y"
proof -
  have n: "is_mat s d (layer_norm x (ln1_gamma b) (ln1_beta b))"
    using b by (intro layer_norm_shape x) (simp_all add: block_wf_def)
  from attention_shape [OF b n m] obtain a where
    a: "attention b (Some msk) (layer_norm x (ln1_gamma b) (ln1_beta b)) = Inr a" "is_mat s d a" by blast
  have x1: "is_mat s d (mat_add x a)" using x a(2) by (rule is_mat_add)
  then have n1: "is_mat s d (layer_norm (mat_add x a) (ln2_gamma b) (ln2_beta b))"
    using b by (intro layer_norm_shape) (simp_all add: block_wf_def)
  from feed_forward_shape [OF b n1] obtain f where
    f: "feed_forward b (layer_norm (mat_add x a) (ln2_gamma b) (ln2_beta b)) = Inr f" "is_mat s d f" by blast
  show ?thesis using is_mat_add [OF x1 f(2)] by (simp add: block_forward_def a f Let_def)
qed

section \<open>The model\<close>

definition gpt_wf :: "mini_gpt \<Rightarrow> bool" where
  "gpt_wf g \<longleftrightarrow> 0 < d_model g \<and> 0 < vocab_size g \<and> 0 < max_seq_len g
   \<and> is_mat (nat (vocab_size g)) (nat (d_model g)) (token_embedding g)
   \<and> is_mat (nat (max_seq_len g)) (nat (d_model g)) (position_embedding g)
   \<and> is_mat (nat (d_model g)) (nat (vocab_size g)) (lm_head g)
   \<and> length (ln_final_gamma g) = nat (d_model g) \<and> length (ln_final_beta g) = nat (d_model g)
   \<and> (\<forall>b \<in> set (blocks g). block_wf (nat (d_model g)) b)"

definition known_ids :: "mini_gpt \<Rightarrow> int list \<Rightarrow> bool" where
  "known_ids g ids \<longleftrightarrow> (\<forall>i \<in> set ids. 0 \<le> i \<and> i < vocab_size g)"

lemma causal_mask_shape: "is_mat n n (causal_mask n)"
  by (auto simp: is_mat_def causal_mask_def)

lemma blocks_shape:
  assumes "\<forall>b \<in> set bs. block_wf d b" and "is_mat s d x"
  shows "\<exists>y. foldR (block_forward (Some (causal_mask s))) bs x = Inr y \<and> is_mat s d y"
  using assms
proof (induction bs arbitrary: x)
  case (Cons b bs)
  from block_forward_shape [OF _ Cons.prems(2) causal_mask_shape, of b] Cons.prems(1)
  obtain y where "block_forward (Some (causal_mask s)) b x = Inr y" "is_mat s d y" by auto
  with Cons.IH [of y] Cons.prems(1) show ?case by simp
qed simp

lemma embedding_lookup:
  assumes "known_ids g ids" and "length (token_embedding g) = nat (vocab_size g)"
  shows "mapR (py_getitem (token_embedding g)) ids = Inr (map (\<lambda>i. token_embedding g ! nat i) ids)"
  using assms by (intro mapR_total) (auto simp: known_ids_def py_getitem_def py_position_def Let_def)

text \<open>A well-formed model computes one row of logits for every token of a sequence that fits.\<close>

lemma sequence_forward_shape:
  assumes g: "gpt_wf g" and ids: "known_ids g ids" and len: "int (length ids) \<le> max_seq_len g"
  shows "\<exists>rows. sequence_forward g ids = Inr rows \<and> is_mat (length ids) (nat (vocab_size g)) rows"
proof -
  let ?d = "nat (d_model g)" and ?s = "length ids"
  let ?te = "map (\<lambda>i. token_embedding g ! nat i) ids"
  have te: "mapR (py_getitem (token_embedding g)) ids = Inr ?te"
    by (rule embedding_lookup [OF ids]) (use g in \<open>simp add: gpt_wf_def is_mat_def\<close>)
  have "length (token_embedding g ! nat i) = ?d" if "i \<in> set ids" for i
    using that ids g by (auto simp: gpt_wf_def known_ids_def intro: is_mat_nth)
  then have m: "is_mat ?s ?d ?te" by (auto simp: is_mat_def)
  have p: "is_mat ?s ?d (take ?s (position_embedding g))"
    using g len by (auto simp: gpt_wf_def is_mat_def dest: in_set_takeD)
  have x: "add_positions ?te (take ?s (position_embedding g)) = Inr (mat_add ?te (take ?s (position_embedding g)))"
    using m p by (simp add: add_positions_def is_mat_def)
  have bw: "\<forall>b \<in> set (blocks g). block_wf ?d b" using g by (simp add: gpt_wf_def)
  from blocks_shape [OF bw is_mat_add [OF m p]] obtain y where
    y: "foldR (block_forward (Some (causal_mask ?s))) (blocks g) (mat_add ?te (take ?s (position_embedding g))) = Inr y" "is_mat ?s ?d y"
    by blast
  have n: "is_mat ?s ?d (layer_norm y (ln_final_gamma g) (ln_final_beta g))"
    using g by (intro layer_norm_shape y(2)) (simp_all add: gpt_wf_def)
  have lm: "is_mat ?d (nat (vocab_size g)) (lm_head g)" "0 < ?d" using g by (simp_all add: gpt_wf_def)
  from mat_mul_shape [OF n lm] show ?thesis by (simp add: sequence_forward_def te x y)
qed

section \<open>Construction\<close>

lemma draw_row_length: "length (fst (draw_row np n s)) = n"
proof (induction n arbitrary: s)
  case (Suc n)
  obtain x s1 where "np_normal np s = (x, s1)" by fastforce
  with Suc [of s1] show ?case by (simp split: prod.split) (metis fst_conv)
qed simp

lemma draw_rows_shape: "is_mat n m (fst (draw_rows np n m s))"
proof (induction n arbitrary: s)
  case (Suc n)
  obtain r s1 where r: "draw_row np m s = (r, s1)" by fastforce
  obtain rs s2 where rs: "draw_rows np n m s1 = (rs, s2)" by fastforce
  from Suc [of s1] draw_row_length [of np m s] r rs show ?case by (auto simp: is_mat_def)
qed (simp add: is_mat_def)

lemma randn_shape:
  assumes "0 \<le> n" and "0 \<le> m"
  shows "\<exists>w s'. randn np n m c s = (Inr w, s') \<and> is_mat (nat n) (nat m) w"
proof -
  obtain rs s' where "draw_rows np (nat n) (nat m) s = (rs, s')" by fastforce
  with draw_rows_shape [of "nat n" "nat m" np s] assms show ?thesis by (auto simp: randn_def is_mat_def)
qed

lemma init_weight_shape:
  "0 < i \<Longrightarrow> 0 \<le> j \<Longrightarrow> \<exists>w s'. init_weight np i j s = (Inr w, s') \<and> is_mat (nat i) (nat j) w"
  using randn_shape [of i j] by (simp add: init_weight_def)

lemma gives_randn: "0 \<le> n \<Longrightarrow> 0 \<le> m \<Longrightarrow> gives (randn np n m c) (is_mat (nat n) (nat m))"
  using randn_shape by (auto simp: gives_def)

lemma gives_init_weight: "0 < i \<Longrightarrow> 0 \<le> j \<Longrightarrow> gives (init_weight np i j) (is_mat (nat i) (nat j))"
  using init_weight_shape by (auto simp: gives_def)

lemma gives_fill: "0 \<le> n \<Longrightarrow> gives (liftS (np_fill c n)) (\<lambda>r. length r = nat n)"
  by (simp add: gives_def np_fill_def)

lemma block_init_wf:
  assumes "0 < d" and "0 < h" and "0 < f" and "h dvd d"
  shows "gives (TransformerBlock_init np d h f) (block_wf (nat d))"
proof -
  have w: "gives (init_weight np d d) (is_mat (nat d) (nat d))" "gives (init_weight np d f) (is_mat (nat d) (nat f))"
    "gives (init_weight np f d) (is_mat (nat f) (nat d))"
    using assms by (simp_all add: gives_init_weight)
  have l: "gives (liftS (np_fill c d)) (\<lambda>r. length r = nat d)" for c using assms by (simp add: gives_fill)
  have d: "gives (liftS (floor_div d h)) (\<lambda>hd. hd = d div h)" using assms by (simp add: gives_def floor_div_def)
  have dh: "h * (d div h) = d" "0 \<le> d div h" using assms by (simp_all add: pos_imp_zdiv_nonneg_iff)
  show ?thesis
    unfolding TransformerBlock_init_def
    by (rule gives_bind [OF d] gives_bind [OF w(1)] gives_bind [OF w(2)] gives_bind [OF w(3)] gives_bind [OF l] gives_return)+
      (use assms dh in \<open>simp add: block_wf_def\<close>)
qed

lemma init_blocks_wf:
  assumes "0 < d" and "0 < h" and "0 < f" and "h dvd d"
  shows "gives (init_blocks np d h f n) (\<lambda>bs. length bs = n \<and> (\<forall>b \<in> set bs. block_wf (nat d) b))"
proof (induction n)
  case (Suc n)
  show ?case unfolding init_blocks.simps
    by (rule gives_bind [OF block_init_wf [OF assms]], rule gives_bind [OF Suc], rule gives_return) simp
qed (simp add: gives_def)

lemma model_init_gives:
  assumes "0 < d" and "0 < h" and "0 < f" and "h dvd d" and "0 < vocab" and "0 < max_len"
  shows "gives (MiniGPT_init np vocab d h f layers max_len)
    (\<lambda>g. gpt_wf g \<and> vocab_size g = vocab \<and> max_seq_len g = max_len \<and> length (blocks g) = nat layers)"
proof -
  have r: "gives (randn np vocab d c) (is_mat (nat vocab) (nat d))" "gives (randn np max_len d c) (is_mat (nat max_len) (nat d))"
    "gives (randn np d vocab c) (is_mat (nat d) (nat vocab))" for c
    using assms by (simp_all add: gives_randn)
  have l: "gives (liftS (np_fill c d)) (\<lambda>r. length r = nat d)" for c using assms by (simp add: gives_fill)
  show ?thesis
    unfolding MiniGPT_init_def
    by (rule gives_bind [OF r(1)] gives_bind [OF r(2)] gives_bind [OF r(3)] gives_bind [OF l]
        gives_bind [OF init_blocks_wf [OF assms(1-4)]] gives_return)+
      (use assms in \<open>simp add: gpt_wf_def\<close>)
qed

text \<open>
  When the number of heads divides the model dimension and the sizes are positive, construction always
  succeeds, whatever the random numbers are, and gives a model whose matrices fit together (\<open>gpt_wf\<close>) with
  the number of blocks asked for; a model without heads raises ZeroDivisionError before anything is drawn for a block.
\<close>

theorem model_init_wf:
  assumes "0 < d" and "0 < h" and "0 < f" and "h dvd d" and "0 < vocab" and "0 < max_len" and "0 \<le> layers"
  shows "\<exists>g s'. MiniGPT_init np vocab d h f layers max_len s = (Inr g, s') \<and> gpt_wf g
      \<and> vocab_size g = vocab \<and> max_seq_len g = max_len \<and> length (blocks g) = nat layers
    \<and> fails_with ZeroDivisionError (TransformerBlock_init np d 0 f) s"
proof -
  have "fails_with ZeroDivisionError (TransformerBlock_init np d 0 f) s"
    by (simp add: fails_with_def TransformerBlock_init_def floor_div_def bindS_def raise_def)
  then show ?thesis using model_init_gives [OF assms(1-6), of np layers] unfolding gives_def by blast
qed

section \<open>Masked attention\<close>

lemma weights_nth:
  "u < length r \<Longrightarrow> attention_weights r ! u = exp (r ! u - Max (set r)) / ((\<Sum>x \<leftarrow> r. exp (x - Max (set r))) + 1 / 10 ^ 8)"
  by (simp add: attention_weights_def Let_def)

lemma sum_weights:
  "sum_list (attention_weights r) = (\<Sum>x \<leftarrow> r. exp (x - Max (set r))) / ((\<Sum>x \<leftarrow> r. exp (x - Max (set r))) + 1 / 10 ^ 8)"
  unfolding attention_weights_def Let_def sum_divide ..

text \<open>
  C29. The attention weights of a position are not negative and add up to almost one (at least \<open>1 / (1 + 1e-8)\<close>
  and less than one). Under the causal mask the weight of a later position is at most the exponential
  of the difference of the two raw scores minus \<open>1e9\<close>, which is zero in floating point for all scores a model can have.
\<close>

theorem attention_weights_causal:
  assumes "length scores = n" and "t < u" and "u < n"
  shows "(\<forall>w \<in> set (attention_weights (row_add scores (causal_mask n ! t))). 0 \<le> w)
    \<and> attention_weights (row_add scores (causal_mask n ! t)) ! u \<le> exp (scores ! u - scores ! t - 10 ^ 9)
    \<and> 1 / (1 + 1 / 10 ^ 8) \<le> sum_list (attention_weights (row_add scores (causal_mask n ! t)))
    \<and> sum_list (attention_weights (row_add scores (causal_mask n ! t))) < 1"
proof -
  let ?r = "row_add scores (causal_mask n ! t)"
  let ?M = "Max (set ?r)"
  define S where "S = (\<Sum>x \<leftarrow> ?r. exp (x - ?M))"
  have len: "length ?r = n" using assms by (simp add: row_add_def causal_mask_def)
  then have S: "1 \<le> S" unfolding S_def using assms by (intro sum_exp_bounds) auto
  have ru: "?r ! u = scores ! u - 10 ^ 9" and rt: "?r ! t = scores ! t"
    using assms by (simp_all add: row_add_def causal_mask_def)
  have "?r ! t \<in> set ?r" using assms len by (intro nth_mem) simp
  then have "scores ! t \<le> ?M" using rt by simp
  then have e: "exp (?r ! u - ?M) \<le> exp (scores ! u - scores ! t - 10 ^ 9)" using ru by simp
  have "attention_weights ?r ! u = exp (?r ! u - ?M) / (S + 1 / 10 ^ 8)"
    using weights_nth [of u ?r] assms len by (simp add: S_def)
  also have "\<dots> \<le> exp (?r ! u - ?M)" using S by (simp add: divide_le_eq mult_le_cancel_left1)
  finally have "attention_weights ?r ! u \<le> exp (scores ! u - scores ! t - 10 ^ 9)" using e by linarith
  moreover have "\<forall>w \<in> set (attention_weights ?r). 0 \<le> w"
    using S by (auto simp: attention_weights_def Let_def S_def [symmetric])
  moreover have "sum_list (attention_weights ?r) = S / (S + 1 / 10 ^ 8)"
    using sum_weights [of ?r] by (simp add: S_def)
  moreover have "1 / (1 + 1 / 10 ^ 8) \<le> S / (S + 1 / 10 ^ 8)" "S / (S + 1 / 10 ^ 8) < 1" using S by (simp_all add: field_simps)
  ultimately show ?thesis by simp
qed

theorem attention_weights_causal_witness:
  "attention_weights (row_add [3, 5] (causal_mask 2 ! 0)) ! 1 \<le> exp (5 - 3 - 10 ^ 9)"
  using attention_weights_causal [of "[3, 5]" 2 0 1] by (simp add: numeral_2_eq_2)

section \<open>The interface of NumPy that sampling relies on\<close>

text \<open>
  \<open>np.partition(a, k)\<close> puts the element that sorting would put at position \<open>k\<close> there, and raises ValueError when
  there is no such position; \<open>np.random.choice(n, p=p)\<close> with probabilities gives an index of positive probability.
\<close>

locale np_sampling =
  fixes np :: "'s np_env"
  assumes partition_ok: "- int (length xs) \<le> k \<Longrightarrow> k < int (length xs) \<Longrightarrow>
      \<exists>ys. np_partition np xs k = Inr ys \<and> mset ys = mset xs \<and> py_getitem ys k = py_getitem (sort xs) k"
    and partition_bounds: "k < - int (length xs) \<Longrightarrow> raises ValueError (np_partition np xs k)"
    and choice_ok: "p \<noteq> [] \<Longrightarrow> \<forall>x \<in> set p. 0 \<le> x \<Longrightarrow> sum_list p = 1 \<Longrightarrow>
      \<exists>i s'. np_choice np p s = (Inr i, s') \<and> i < length p \<and> 0 < p ! i"
begin

text \<open>The threshold is the \<open>k\<close>-th largest logit.\<close>

lemma threshold:
  assumes "0 < k" and "k \<le> int (length xs)"
  shows "keep_top np xs k = Inr (map (\<lambda>x. if x < sort xs ! (length xs - nat k) then NegInf else Fin x) xs)"
proof -
  from partition_ok [of xs "- k"] assms obtain ys where
    "np_partition np xs (- k) = Inr ys" "py_getitem ys (- k) = py_getitem (sort xs) (- k)" by auto
  moreover have "nat (int (length xs) - k) = length xs - nat k" using assms by simp
  ultimately show ?thesis using assms
    by (simp add: keep_top_def py_getitem_def py_position_def Let_def)
qed

lemma too_many: "int (length xs) < k \<Longrightarrow> raises ValueError (keep_top np xs k)"
  using partition_bounds [of "- k" xs] by (cases "np_partition np xs (- k)") (auto simp: keep_top_def)

end

section \<open>Probabilities\<close>

lemma finite_values_set: "x \<in> set (finite_values vs) \<longleftrightarrow> Fin x \<in> set vs"
  by (induction vs rule: finite_values.induct) auto

lemma probabilities_ok:
  assumes "Fin x \<in> set vs"
  shows "\<exists>p. probabilities vs = Inr p \<and> length p = length vs \<and> (\<forall>q \<in> set p. 0 \<le> q) \<and> sum_list p = 1
    \<and> (\<forall>i < length vs. 0 < p ! i \<longleftrightarrow> (\<exists>x. vs ! i = Fin x))"
proof -
  let ?M = "Max (set (finite_values vs))"
  let ?es = "map (exp_shifted ?M) vs"
  have nn: "\<forall>e \<in> set ?es. 0 \<le> e" by (auto simp: exp_shifted_def split: pyfloat.split)
  have "exp_shifted ?M (Fin x) \<in> set ?es" using assms by (metis image_eqI set_map)
  then have "exp_shifted ?M (Fin x) \<le> sum_list ?es" using nn by (intro member_le_sum_list) auto
  moreover have "0 < exp_shifted ?M (Fin x)" by (simp add: exp_shifted_def)
  ultimately have pos: "0 < sum_list ?es" by linarith
  have "sum_list (map (\<lambda>e. e / sum_list ?es) ?es) = 1" unfolding sum_divide using pos by simp
  moreover have "0 < map (\<lambda>e. e / sum_list ?es) ?es ! i \<longleftrightarrow> (\<exists>x. vs ! i = Fin x)" if "i < length vs" for i
    using that pos by (auto simp: exp_shifted_def split: pyfloat.split)
  ultimately show ?thesis
    using nn pos assms by (auto simp: probabilities_def Let_def)
qed

text \<open>How many elements of a list exceed the one that sorting puts at a position.\<close>

lemma count_above:
  assumes "0 < k" and "k \<le> length xs"
  shows "length (filter (\<lambda>x. (sort xs :: real list) ! (length xs - k) < x) xs) < k"
proof -
  let ?s = "sort xs" and ?p = "length xs - k"
  let ?above = "\<lambda>x. ?s ! ?p < x"
  have "?s ! i \<le> ?s ! ?p" if "i \<le> ?p" for i
    using that assms by (intro sorted_nth_mono) auto
  then have "filter ?above (take (Suc ?p) ?s) = []"
    using assms by (auto simp: filter_empty_conv in_set_conv_nth not_less)
  then have "filter ?above ?s = filter ?above (drop (Suc ?p) ?s)"
    using filter_append [of ?above "take (Suc ?p) ?s" "drop (Suc ?p) ?s"] by simp
  then have "length (filter ?above ?s) \<le> length xs - Suc ?p"
    using length_filter_le [of ?above "drop (Suc ?p) ?s"] by simp
  moreover have "length (filter ?above ?s) = length (filter ?above xs)"
    by (metis mset_filter mset_sort size_mset)
  ultimately show ?thesis using assms by linarith
qed

section \<open>Sampling\<close>

lemma length_filter_mono: "(\<And>x. P x \<Longrightarrow> Q x) \<Longrightarrow> length (filter P xs) \<le> length (filter Q xs)"
  by (induction xs) auto

context np_sampling
begin

lemma sample_kept:
  assumes "temperature \<noteq> 0" and "keep_top np (map (\<lambda>x. x / temperature) logits) k = Inr vs" and "Fin x \<in> set vs"
    and "length vs = length logits"
  shows "\<exists>i s'. sample_token np logits temperature k s = (Inr i, s') \<and> i < length logits \<and> (\<exists>x. vs ! i = Fin x)"
proof -
  obtain p where p: "probabilities vs = Inr p" "length p = length vs" "\<forall>q \<in> set p. 0 \<le> q" "sum_list p = 1"
    "\<forall>i < length vs. 0 < p ! i \<longleftrightarrow> (\<exists>x. vs ! i = Fin x)"
    using probabilities_ok [OF assms(3)] by blast
  have "p \<noteq> []" using p(2) assms(3) by auto
  from choice_ok [OF this p(3,4), of s] obtain i s' where "np_choice np p s = (Inr i, s')" "i < length p" "0 < p ! i" by blast
  with p assms show ?thesis by (auto simp: sample_token_def bindS_def)
qed

lemma sample_top:
  assumes "0 < temperature" and "0 < k" and "k \<le> int (length logits)"
  shows "\<exists>i s'. sample_token np logits temperature k s = (Inr i, s') \<and> i < length logits
    \<and> length (filter (\<lambda>x. logits ! i < x) logits) < nat k"
proof -
  let ?xs = "map (\<lambda>x. x / temperature) logits"
  let ?t = "sort ?xs ! (length ?xs - nat k)"
  let ?vs = "map (\<lambda>x. if x < ?t then NegInf else Fin x) ?xs"
  have k: "keep_top np ?xs k = Inr ?vs" by (rule threshold) (use assms in simp_all)
  have "length ?xs - nat k < length (sort ?xs)" using assms by simp
  then have "?t \<in> set ?xs" using nth_mem [of "length ?xs - nat k" "sort ?xs"] by (metis set_sort)
  then have f: "Fin ?t \<in> set ?vs" by force
  have l: "length ?vs = length logits" and t: "temperature \<noteq> 0" using assms(1) by simp_all
  obtain i s' where i: "sample_token np logits temperature k s = (Inr i, s')" "i < length logits" "\<exists>x. ?vs ! i = Fin x"
    using sample_kept [OF t k f l, of s] by blast
  then have "?t \<le> logits ! i / temperature" by (auto split: if_splits)
  then have "length (filter (\<lambda>x. logits ! i < x) logits) \<le> length (filter (\<lambda>x. ?t < x) ?xs)"
    using assms(1) by (simp add: filter_map comp_def)
      (rule length_filter_mono, meson divide_strict_right_mono le_less_trans)
  also have "\<dots> < nat k" by (rule count_above) (use assms in simp_all)
  finally show ?thesis using i by blast
qed

lemma sample_any:
  assumes "temperature \<noteq> 0" and "logits \<noteq> []" and "k \<le> int (length logits)"
  shows "\<exists>i s'. sample_token np logits temperature k s = (Inr i, s') \<and> i < length logits"
proof (cases "0 < k")
  case True
  let ?xs = "map (\<lambda>x. x / temperature) logits"
  have k: "keep_top np ?xs k = Inr (map (\<lambda>x. if x < sort ?xs ! (length ?xs - nat k) then NegInf else Fin x) ?xs)"
    by (rule threshold) (use True assms in simp_all)
  have "length ?xs - nat k < length (sort ?xs)" using True assms by simp
  then have "sort ?xs ! (length ?xs - nat k) \<in> set ?xs" using nth_mem [of "length ?xs - nat k" "sort ?xs"] by (metis set_sort)
  then have "Fin (sort ?xs ! (length ?xs - nat k)) \<in> set (map (\<lambda>x. if x < sort ?xs ! (length ?xs - nat k) then NegInf else Fin x) ?xs)"
    by force
  from sample_kept [OF assms(1) k this, of s] show ?thesis by (simp only: length_map) blast
next
  case False
  have k: "keep_top np (map (\<lambda>x. x / temperature) logits) k = Inr (map Fin (map (\<lambda>x. x / temperature) logits))"
    using False by (simp add: keep_top_def)
  have "Fin (hd logits / temperature) \<in> set (map Fin (map (\<lambda>x. x / temperature) logits))" using assms(2) by force
  from sample_kept [OF assms(1) k this, of s] show ?thesis by (simp only: length_map) blast
qed

end

text \<open>
  With a positive temperature and \<open>0 < k \<le> vocabulary\<close>, sampling always returns a token, and fewer than \<open>k\<close>
  logits are larger than its own (for \<open>k = 1\<close> it has the largest logit); asking for more candidates than
  there are tokens, and a temperature of zero, raise ValueError without drawing a number.
\<close>

theorem sample_token_top_k:
  assumes "np_sampling np" and "0 < temperature" and "0 < k" and "k \<le> int (length logits)" and "int (length logits) < m"
  shows "(\<exists>i s'. sample_token np logits temperature k s = (Inr i, s') \<and> i < length logits
      \<and> length (filter (\<lambda>x. logits ! i < x) logits) < nat k)
    \<and> fails_with ValueError (sample_token np logits temperature m) s
    \<and> fails_with ValueError (sample_token np logits 0 k) s"
proof -
  have "raises ValueError (keep_top np (map (\<lambda>x. x / temperature) logits) m)"
    by (rule np_sampling.too_many [OF assms(1)]) (use assms in simp)
  then have "fails_with ValueError (sample_token np logits temperature m) s"
    using assms(2) by (cases "keep_top np (map (\<lambda>x. x / temperature) logits) m") (simp_all add: fails_with_def sample_token_def bindS_def)
  moreover have "fails_with ValueError (sample_token np logits 0 k) s"
    by (simp add: sample_token_def)
  ultimately show ?thesis using np_sampling.sample_top [OF assms(1-4)] by blast
qed

section \<open>A reference generator\<close>

text \<open>
  The reference sorts for \<open>partition\<close>, and its \<open>choice\<close> inverts the cumulative distribution at a number between
  zero and one; the generator is a position in a fixed stream of numbers.
\<close>

fun pick_index :: "real \<Rightarrow> real list \<Rightarrow> nat" where
  "pick_index u [] = 0"
| "pick_index u (p # ps) = (if u < p then 0 else Suc (pick_index (u - p) ps))"

lemma pick_index_ok:
  "\<forall>x \<in> set ps. 0 \<le> x \<Longrightarrow> 0 \<le> u \<Longrightarrow> u < sum_list ps \<Longrightarrow> pick_index u ps < length ps \<and> 0 < ps ! pick_index u ps"
  by (induction ps arbitrary: u) auto

definition np_reference :: "(nat \<Rightarrow> real) \<Rightarrow> nat np_env" where
  "np_reference draws = \<lparr>
     np_normal = (\<lambda>s. (draws s, Suc s)),
     np_choice = (\<lambda>p s. (Inr (pick_index (frac (draws s)) p), Suc s)),
     np_partition = (\<lambda>xs k. if - int (length xs) \<le> k \<and> k < int (length xs) then Inr (sort xs)
        else raise ValueError ''kth out of bounds'')\<rparr>"

interpretation reference_sampler: np_sampling "np_reference draws" for draws
proof unfold_locales
  fix p :: "real list" and s
  assume "\<forall>x \<in> set p. 0 \<le> x" "sum_list p = 1"
  with pick_index_ok [of p "frac (draws s)"]
  show "\<exists>i s'. np_choice (np_reference draws) p s = (Inr i, s') \<and> i < length p \<and> 0 < p ! i"
    by (simp add: np_reference_def frac_lt_1)
qed (auto simp: np_reference_def)

theorem sample_token_top_k_witness:
  "\<exists>i s'. sample_token (np_reference (\<lambda>_. 0)) [1, 4, 2] 1 1 0 = (Inr i, s') \<and> filter (\<lambda>x. [1, 4, 2] ! i < x) [1, 4, 2 :: real] = []"
  using sample_token_top_k [OF reference_sampler.np_sampling_axioms, of 1 1 "[1, 4, 2]" 4 "\<lambda>_. 0" 0] by (auto simp del: filter.simps)

section \<open>Generation\<close>

lemma forward_one:
  "MiniGPT_forward g [ids] = bindR (sequence_forward g ids) (\<lambda>rows. Inr [rows])"
  by (simp add: MiniGPT_forward_def)

lemma py_getitem_head: "py_getitem (x # xs) 0 = Inr x"
  by (simp add: py_getitem_def py_position_def)

lemma py_last_suffix: "0 < n \<Longrightarrow> set (py_last n xs) \<subseteq> set xs \<and> int (length (py_last n xs)) \<le> n \<and> (xs \<noteq> [] \<longrightarrow> py_last n xs \<noteq> [])"
  by (cases xs) (auto simp: py_last_def dest: in_set_dropD)

lemma next_token_known:
  assumes "np_sampling np" and "gpt_wf g" and "known_ids g ids" and "ids \<noteq> []" and "temperature \<noteq> 0" and "k \<le> vocab_size g"
  shows "\<exists>i s'. next_token np g temperature k ids s = (Inr i, s') \<and> int i < vocab_size g"
proof -
  let ?w = "py_last (max_seq_len g) ids"
  have m: "0 < max_seq_len g" "0 < vocab_size g" using assms(2) by (simp_all add: gpt_wf_def)
  note w = py_last_suffix [OF m(1), of ids]
  have "known_ids g ?w" using w assms(3) by (auto simp: known_ids_def)
  with sequence_forward_shape [OF assms(2)] w obtain rows where
    rows: "sequence_forward g ?w = Inr rows" "is_mat (length ?w) (nat (vocab_size g)) rows" by blast
  from w rows(2) assms(4) have ne: "rows \<noteq> []" by (auto simp: is_mat_def)
  then have "nat (int (length rows) - 1) = length rows - 1" by (cases rows) simp_all
  with ne have row: "py_getitem rows (-1) = Inr (last rows)"
    by (simp add: py_getitem_def py_position_def Let_def last_conv_nth)
  have l: "length (last rows) = nat (vocab_size g)" using ne rows(2) by (simp add: is_mat_def)
  have "last rows \<noteq> []" using l m by auto
  then have "\<exists>i s'. sample_token np (last rows) temperature k s = (Inr i, s') \<and> i < length (last rows)"
    by (intro np_sampling.sample_any [OF assms(1)]) (use assms l m in simp_all)
  moreover have "next_token np g temperature k ids s = sample_token np (last rows) temperature k s"
    using py_getitem_head [of rows "[]"] by (simp add: next_token_def forward_one rows(1) bindS_def row)
  ultimately show ?thesis using l by auto
qed

lemma generate_loop_ends:
  assumes "np_sampling np" and "gpt_wf g" and "temperature \<noteq> 0" and "k \<le> vocab_size g" and "known_ids g ids" and "ids \<noteq> []"
  shows "\<exists>new s'. generate_loop np g temperature k m ids s = (Inr (ids @ new), s')
    \<and> length new \<le> m \<and> known_ids g new \<and> 0 \<notin> set (butlast new) \<and> (length new < m \<longrightarrow> new \<noteq> [] \<and> last new = 0)"
  using assms(5,6)
proof (induction m arbitrary: ids s)
  case 0
  then show ?case by (simp add: known_ids_def)
next
  case (Suc m)
  obtain i s1 where i: "next_token np g temperature k ids s = (Inr i, s1)" "int i < vocab_size g"
    using next_token_known [OF assms(1,2) Suc.prems assms(3,4)] by blast
  show ?case
  proof (cases "i = 0")
    case True
    with i assms(2) show ?thesis
      by (intro exI [of _ "[0]"]) (simp add: bindS_def known_ids_def gpt_wf_def)
  next
    case False
    have "known_ids g (ids @ [int i])" using Suc.prems i(2) by (simp add: known_ids_def)
    from Suc.IH [OF this] obtain new s' where
      "generate_loop np g temperature k m (ids @ [int i]) s1 = (Inr ((ids @ [int i]) @ new), s')"
      "length new \<le> m" "known_ids g new" "0 \<notin> set (butlast new)" "length new < m \<longrightarrow> new \<noteq> [] \<and> last new = 0"
      by blast
    with False i show ?thesis
      by (intro exI [of _ "int i # new"]) (simp add: bindS_def known_ids_def)
  qed
qed

text \<open>
  C13. Generation always ends with a text: for a well-formed model, a non-empty prompt of known tokens, a temperature that
  is not zero and at most as many candidates as tokens, \<open>generate_text\<close> returns the prompt followed by at most
  \<open>max_new_tokens\<close> known tokens; the end-of-sequence token 0 can only be the last one, and fewer tokens than asked for
  means that it is. The prompt may be longer than the context: the model sees the last \<open>max_seq_len\<close> tokens.
\<close>

theorem generate_text_ends:
  assumes "np_sampling np" and "gpt_wf g" and "known_ids g prompt" and "prompt \<noteq> []" and "temperature \<noteq> 0" and "k \<le> vocab_size g"
  shows "\<exists>new s'. generate_text np g prompt n temperature k s = (Inr (prompt @ new), s')
    \<and> int (length new) \<le> max 0 n \<and> known_ids g new \<and> 0 \<notin> set (butlast new)
    \<and> (int (length new) < n \<longrightarrow> new \<noteq> [] \<and> last new = 0)"
proof -
  from generate_loop_ends [OF assms(1,2,5,6,3,4), of "nat n" s] obtain new s' where
    g: "generate_text np g prompt n temperature k s = (Inr (prompt @ new), s')" "length new \<le> nat n" "known_ids g new"
    "0 \<notin> set (butlast new)" "length new < nat n \<longrightarrow> new \<noteq> [] \<and> last new = 0"
    by (auto simp: generate_text_def)
  moreover have "int (length new) \<le> max 0 n" "int (length new) < n \<Longrightarrow> length new < nat n" using g(2) by linarith+
  ultimately show ?thesis by blast
qed

section \<open>A sample model\<close>

definition sample_block :: transformer_block where
  "sample_block = \<lparr>b_d_model = 1, b_n_heads = 1, b_d_ff = 1, b_head_dim = 1, q_proj = [[1]], k_proj = [[1]], v_proj = [[1]],
     o_proj = [[1]], ff_w1 = [[1]], ff_w2 = [[1]], ln1_gamma = [1], ln1_beta = [0], ln2_gamma = [1], ln2_beta = [0]\<rparr>"

definition sample_gpt :: mini_gpt where
  "sample_gpt = \<lparr>vocab_size = 2, d_model = 1, n_heads = 1, d_ff = 1, n_layers = 1, max_seq_len = 2,
     token_embedding = [[1], [2]], position_embedding = [[0], [1]], blocks = [sample_block], lm_head = [[1, 2]],
     ln_final_gamma = [1], ln_final_beta = [0]\<rparr>"

lemma sample_gpt_wf: "gpt_wf sample_gpt"
  by (simp add: gpt_wf_def sample_gpt_def block_wf_def sample_block_def is_mat_def numeral_2_eq_2)

theorem model_init_wf_witness:
  "\<exists>g s'. MiniGPT_init (np_reference (\<lambda>_. 1)) 3 4 2 8 2 5 0 = (Inr g, s') \<and> gpt_wf g \<and> length (blocks g) = 2"
  using model_init_wf [of 4 2 8 3 5 2 "np_reference (\<lambda>_. 1)" 0] by auto

theorem generate_text_ends_witness:
  "\<exists>new s'. generate_text (np_reference (\<lambda>_. 0)) sample_gpt [1, 0, 1] 4 1 2 0 = (Inr ([1, 0, 1] @ new), s') \<and> length new \<le> 4"
  using generate_text_ends [OF reference_sampler.np_sampling_axioms sample_gpt_wf, of "[1, 0, 1]" 1 2 "\<lambda>_. 0" 4 0]
  by (auto simp: known_ids_def sample_gpt_def)

section \<open>Heads that do not divide the model\<close>

lemma raises_bindR: "raises e r \<Longrightarrow> raises e (bindR r f)"
  by (cases r) simp_all

text \<open>
  When the number of heads does not divide the model dimension, construction succeeds all the same; every
  call of the block on a non-empty sequence then raises ValueError in the reshape of the heads.
\<close>

theorem undivided_heads_fail:
  assumes "0 < d" and "0 < h" and "0 < f" and "\<not> h dvd d" and "is_mat n (nat d) x" and "0 < n"
  shows "\<exists>b s'. TransformerBlock_init np d h f s = (Inr b, s') \<and> raises ValueError (block_forward msk b x)"
proof -
  have w: "gives (init_weight np d d) (is_mat (nat d) (nat d))" "gives (init_weight np d f) (is_mat (nat d) (nat f))"
    "gives (init_weight np f d) (is_mat (nat f) (nat d))"
    using assms by (simp_all add: gives_init_weight)
  have l: "gives (liftS (np_fill c d)) (\<lambda>r. length r = nat d)" for c using assms by (simp add: gives_fill)
  have dd: "gives (liftS (floor_div d h)) (\<lambda>hd. hd = d div h)" using assms by (simp add: gives_def floor_div_def)
  have "gives (TransformerBlock_init np d h f) (\<lambda>b. b_n_heads b = h \<and> b_head_dim b = d div h
      \<and> is_mat (nat d) (nat d) (q_proj b) \<and> is_mat (nat d) (nat d) (k_proj b) \<and> is_mat (nat d) (nat d) (v_proj b)
      \<and> length (ln1_gamma b) = nat d \<and> length (ln1_beta b) = nat d)"
    unfolding TransformerBlock_init_def
    by (rule gives_bind [OF dd] gives_bind [OF w(1)] gives_bind [OF w(2)] gives_bind [OF w(3)] gives_bind [OF l] gives_return)+ simp
  then obtain b s' where b: "TransformerBlock_init np d h f s = (Inr b, s')" "b_n_heads b = h" "b_head_dim b = d div h"
    "is_mat (nat d) (nat d) (q_proj b)" "is_mat (nat d) (nat d) (k_proj b)" "is_mat (nat d) (nat d) (v_proj b)"
    "length (ln1_gamma b) = nat d" "length (ln1_beta b) = nat d"
    unfolding gives_def by blast
  let ?x = "layer_norm x (ln1_gamma b) (ln1_beta b)"
  have x: "is_mat n (nat d) ?x" by (rule layer_norm_shape [OF assms(5) b(7,8)])
  have d: "0 < nat d" using assms(1) by simp
  from mat_mul_shape [OF x b(4) d] obtain q where q: "mat_mul ?x (q_proj b) = Inr q" "is_mat n (nat d) q" by blast
  from mat_mul_shape [OF x b(5) d] obtain k where k: "mat_mul ?x (k_proj b) = Inr k" by blast
  from mat_mul_shape [OF x b(6) d] obtain v where v: "mat_mul ?x (v_proj b) = Inr v" by blast
  have "h * (d div h) \<noteq> d" using assms(4) by (metis dvd_triv_left)
  then have "raises ValueError (split_heads b q)"
    using q(2) b(2,3) assms(1,6) by (cases q) (auto simp: split_heads_def is_mat_def)
  then have "raises ValueError (attention b msk ?x)" by (simp add: attention_def q k v raises_bindR)
  then have "raises ValueError (block_forward msk b x)" by (simp add: block_forward_def raises_bindR)
  with b(1) show ?thesis by blast
qed

theorem undivided_heads_fail_witness:
  "\<exists>b s'. TransformerBlock_init (np_reference (\<lambda>_. 1)) 3 2 4 0 = (Inr b, s') \<and> raises ValueError (block_forward None b [[1, 2, 3]])"
  by (rule undivided_heads_fail [where n = 1]) (simp_all add: is_mat_def)

section \<open>The program\<close>

lemma with_generator_gives:
  "c (generator w) = (Inr v, s') \<Longrightarrow> with_generator c w = (Inr v, w\<lparr>generator := s'\<rparr>)"
  by (simp add: with_generator_def)

text \<open>
  The program as a whole: on a host with Metal, for sizes that fit together and a vocabulary that has the five
  tokens of the prompt, it builds the model, generates and prints its report without an exception,
  unless the clock does not advance, in which case the throughput raises ZeroDivisionError.
\<close>

theorem llm_main_returns:
  assumes "np_sampling np" and "host_available H" and "0 < arg_d_model A" and "0 < arg_n_heads A" and "0 < arg_d_ff A"
    and "arg_n_heads A dvd arg_d_model A" and "5 < arg_vocab_size A" and "0 < arg_max_seq_len A" and "0 \<le> arg_n_layers A"
    and "arg_temperature A \<noteq> 0" and "arg_top_k A \<le> arg_vocab_size A"
  shows "if host_clock H (Suc (clock_reads w)) = host_clock H (clock_reads w)
    then raises ZeroDivisionError (fst (llm_main H np A w)) else fst (llm_main H np A w) = Inr ()"
proof -
  obtain g s1 where g: "MiniGPT_init np (arg_vocab_size A) (arg_d_model A) (arg_n_heads A) (arg_d_ff A) (arg_n_layers A)
      (arg_max_seq_len A) (generator w) = (Inr g, s1)" "gpt_wf g" "vocab_size g = arg_vocab_size A"
    using model_init_gives [OF assms(3-6) _ assms(8), of "arg_vocab_size A" np "arg_n_layers A"] assms(7)
    unfolding gives_def by fastforce
  have "known_ids g prompt_ids" "prompt_ids \<noteq> []" using assms(7) g(3) by (simp_all add: known_ids_def prompt_ids_def)
  from generate_loop_ends [OF assms(1) g(2) assms(10) _ this, of "arg_top_k A" "nat (arg_max_new_tokens A)" s1] assms(11) g(3)
  obtain new s2 where
    n: "generate_text np g prompt_ids (arg_max_new_tokens A) (arg_temperature A) (arg_top_k A) s1 = (Inr (prompt_ids @ new), s2)"
    by (auto simp: generate_text_def)
  let ?dt = "host_clock H (Suc (clock_reads w)) - host_clock H (clock_reads w)"
  define Q where "Q = (\<lambda>r :: unit res. if host_clock H (Suc (clock_reads w)) = host_clock H (clock_reads w) then raises ZeroDivisionError r else r = Inr ())"
  have sum: "Q (fst (llm_summary gen ?dt v))" for gen v
    unfolding llm_summary_def by (rule after_say_all) (auto simp: float_div_def bindS_def Q_def raise_def)
  have "Q (fst (llm_main H np A w))"
    unfolding llm_main_def
    apply (rule after_say_all)
    apply (simp only: assms(2) not_True_eq_False if_False)
    apply (rule after_say_all)
    apply (rule after_generator)
     apply (simp add: g(1))
    apply (rule after_say_all)
    apply (rule after_clock)
    apply (rule after_generator)
     apply (simp add: n)
    apply (rule after_clock)
    using sum by simp
  then show ?thesis by (simp add: Q_def)
qed

end
