(* ===== verification/ResnetProps.thy ===== *)
theory ResnetProps
  imports Resnet LlmProps
begin

text \<open>
  Properties of the ResNet-18 example: the network can be built, its layers have the sizes they
  promise, and the last one does not fit the activations, so that no run of the program succeeds.
\<close>

section \<open>Construction\<close>

lemma gives_randn4: "\<forall>n \<in> set shape. 0 \<le> n \<Longrightarrow> gives (randn4 np shape c) (\<lambda>a. a4_shape a = shape)"
  unfolding gives_def randn4_def by (auto split: prod.split)

lemma gives_conv: "0 < i * kh * kw \<Longrightarrow> 0 \<le> i \<Longrightarrow> 0 \<le> j \<Longrightarrow> 0 \<le> kh \<Longrightarrow> 0 \<le> kw \<Longrightarrow>
    gives (init_conv_weight np i j kh kw) (\<lambda>a. a4_shape a = [j, i, kh, kw])"
  unfolding init_conv_weight_def
  by (rule gives_bind [OF gives_lift [where P = "\<lambda>_. True"] gives_randn4]) (auto simp: float_div_def)

text \<open>A block as its plan says.\<close>

definition block_fits :: "basic_block \<Rightarrow> int \<times> int \<times> int \<Rightarrow> bool" where
  "block_fits b p \<longleftrightarrow> (case p of (i, j, st) \<Rightarrow>
     in_channels b = i \<and> out_channels b = j \<and> stride b = st \<and> a4_shape (conv1_weight b) = [j, i, 3, 3]
     \<and> a4_shape (conv2_weight b) = [j, j, 3, 3] \<and> (use_shortcut b \<longleftrightarrow> st \<noteq> 1 \<or> i \<noteq> j)
     \<and> map_option a4_shape (shortcut_weight b) = (if use_shortcut b then Some [j, i, 1, 1] else None)
     \<and> length (bn1_gamma b) = nat j \<and> length (bn1_beta b) = nat j \<and> length (bn2_gamma b) = nat j \<and> length (bn2_beta b) = nat j)"

lemma gives_block:
  assumes "0 < i" and "0 < j"
  shows "gives (BasicBlock_init np i j st) (\<lambda>b. block_fits b (i, j, st))"
proof -
  have c: "gives (init_conv_weight np i j 3 3) (\<lambda>a. a4_shape a = [j, i, 3, 3])"
    "gives (init_conv_weight np j j 3 3) (\<lambda>a. a4_shape a = [j, j, 3, 3])"
    "gives (init_conv_weight np i j 1 1) (\<lambda>a. a4_shape a = [j, i, 1, 1])"
    using assms by (simp_all add: gives_conv)
  have sc: "gives (if st \<noteq> 1 \<or> i \<noteq> j then bindS (init_conv_weight np i j 1 1) (\<lambda>w. returnS (Some w)) else returnS None)
      (\<lambda>w. map_option a4_shape w = (if st \<noteq> 1 \<or> i \<noteq> j then Some [j, i, 1, 1] else None))"
    by (auto intro!: gives_bind [OF c(3)] gives_return)
  have l: "gives (liftS (np_fill c j)) (\<lambda>r. length r = nat j)" for c using assms by (simp add: gives_fill)
  show ?thesis
    unfolding BasicBlock_init_def Let_def
    by (rule gives_bind [OF c(1)] gives_bind [OF c(2)] gives_bind [OF sc] gives_bind [OF l] gives_return)+ (simp add: block_fits_def)
qed

lemma gives_blocks:
  "\<forall>p \<in> set plan. case p of (i, j, st) \<Rightarrow> 0 < i \<and> 0 < j \<Longrightarrow> gives (build_blocks np plan) (\<lambda>bs. list_all2 block_fits bs plan)"
proof (induction plan)
  case (Cons p plan)
  obtain i j st where p: "p = (i, j, st)" by (cases p)
  with Cons.prems have b: "gives (BasicBlock_init np i j st) (\<lambda>b. block_fits b p)" by (simp add: gives_block)
  have "gives (build_blocks np plan) (\<lambda>bs. list_all2 block_fits bs plan)" using Cons by simp
  then show ?case unfolding p build_blocks.simps
    by (rule gives_bind [OF b [unfolded p] gives_bind [OF _ gives_return]]) simp
qed (simp add: gives_return)

definition network_fits :: "int \<Rightarrow> resnet18 \<Rightarrow> bool" where
  "network_fits classes m \<longleftrightarrow> num_classes m = classes \<and> a4_shape (stem_weight m) = [64, 3, 7, 7]
     \<and> list_all2 block_fits (layers m) block_plan \<and> is_mat 512 (nat classes) (fc_weight m) \<and> length (fc_bias m) = nat classes"

lemma plan_positive: "\<forall>p \<in> set block_plan. case p of (i, j, st) \<Rightarrow> 0 < i \<and> 0 < j"
  by (simp add: block_plan_def)

lemma gives_network:
  assumes "0 \<le> classes"
  shows "gives (ResNet18_init np classes) (network_fits classes)"
proof -
  have c: "gives (init_conv_weight np 3 64 7 7) (\<lambda>a. a4_shape a = [64, 3, 7, 7])" by (simp add: gives_conv)
  have l: "gives (liftS (np_fill v 64)) (\<lambda>r. length r = 64)" "gives (liftS (np_fill 0 classes)) (\<lambda>r. length r = nat classes)" for v
    using gives_fill [of 64 v] gives_fill [OF assms, of 0] by simp_all
  have r: "gives (randn np 512 classes (1 / 100)) (is_mat 512 (nat classes))" using gives_randn [of 512 classes np "1 / 100"] assms by simp
  show ?thesis
    unfolding ResNet18_init_def
    by (rule gives_bind [OF c] gives_bind [OF l(1)] gives_bind [OF gives_blocks [OF plan_positive]] gives_bind [OF r]
        gives_bind [OF l(2)] gives_return)+ (simp add: network_fits_def)
qed

lemma negative_classes:
  assumes "classes < 0"
  shows "raises ValueError (fst (ResNet18_init np classes s))"
proof -
  have c: "gives (init_conv_weight np 3 64 7 7) (\<lambda>a. a4_shape a = [64, 3, 7, 7])" by (simp add: gives_conv)
  have l: "gives (liftS (np_fill v 64)) (\<lambda>r. length r = 64)" for v using gives_fill [of 64 v] by simp
  show ?thesis
    unfolding ResNet18_init_def
    by (rule gives_raises [OF c] gives_raises [OF l] gives_raises [OF gives_blocks [OF plan_positive]])+
      (use assms in \<open>simp add: bindS_def randn_def raise_def\<close>)
qed

text \<open>
  For every number of classes that is not negative, ResNet-18 is built with eight blocks of the planned channels and strides, each with
  a shortcut weight exactly when the channels or the size change, and with a last layer of 512 rows; a negative
  number raises ValueError. The forward pass of such a network raises ValueError on every input of at least one dimension, since
  the activations keep their 64 channels up to the last layer.
\<close>

theorem resnet_built:
  assumes "0 \<le> classes" and "a4_shape x \<noteq> []"
  shows "\<exists>m s'. ResNet18_init np classes s = (Inr m, s') \<and> network_fits classes m
    \<and> raises ValueError (fst (ResNet18_forward np m x s'))
    \<and> (\<forall>c < 0. raises ValueError (fst (ResNet18_init np c s)))"
proof -
  obtain m s' where m: "ResNet18_init np classes s = (Inr m, s')" "network_fits classes m"
    using gives_network [OF assms(1), of np] unfolding gives_def by blast
  then have "length (fc_weight m) = 512" by (simp add: network_fits_def is_mat_def)
  then have f: "raises ValueError (fst (ResNet18_forward np m x s'))" using assms(2) by (rule forward_raises)
  have "\<forall>c < 0. raises ValueError (fst (ResNet18_init np c s))" by (simp add: negative_classes)
  with m f show ?thesis by blast
qed

section \<open>The program\<close>

lemma gives_image: "gives (load_sample_image np) (\<lambda>a. a4_shape a = [1, 3, 224, 224])"
  unfolding load_sample_image_def
  by (rule gives_bind [OF gives_randn4 gives_return]) auto

lemma warmup_raises:
  assumes "\<And>s. raises ValueError (fst (f s))" and "0 < n"
  shows "raises ValueError (fst (forS (\<lambda>_. bindS (with_generator f) (\<lambda>_. sync)) [0..<n] w))"
proof -
  have u: "[0..<n] = 0 # [1..<n]" using assms(2) by (simp add: upt_conv_Cons)
  show ?thesis unfolding u forS.simps by (rule raises_bindS, rule raises_bindS, rule raises_with_generator, rule assms(1))
qed

lemma inferences_raise:
  assumes "\<And>s. raises ValueError (fst (ResNet18_forward np m img s))" and "0 < n"
  shows "raises ValueError (fst (timed_inferences H np sync A m img [0..<n] w))"
proof -
  have u: "[0..<n] = 0 # [1..<n]" using assms(2) by (simp add: upt_conv_Cons)
  show ?thesis unfolding u timed_inferences.simps timed_inference_def Let_def
    by (rule raises_bindS, rule after_clock, rule raises_bindS, rule raises_with_generator, rule assms(1))
qed

text \<open>
  C36. No run of the ResNet example succeeds: where Metal is available it raises ValueError, whatever the
  arguments, the random numbers and the synchronisation; otherwise it prints that Metal is missing and returns.
\<close>

theorem resnet_never_succeeds:
  "if host_available H then raises ValueError (fst (resnet_main H np sync A w)) else fst (resnet_main H np sync A w) = Inr ()"
proof (cases "host_available H")
  case True
  have "raises ValueError (fst (resnet_run H np sync A v))" for v
  proof (cases "arg_num_classes A < 0")
    case True
    show ?thesis
      unfolding resnet_run_def
      by (rule after_say_all, rule raises_bindS, rule raises_with_generator, rule negative_classes [OF True])
  next
    case False
    then have init: "gives (ResNet18_init np (arg_num_classes A)) (network_fits (arg_num_classes A))" by (simp add: gives_network)
    have run: "raises ValueError (fst (bindS (forS (\<lambda>_. bindS (with_generator (ResNet18_forward np m img)) (\<lambda>_. sync)) [0..<nat (arg_warmup A)])
          (\<lambda>_. bindS (say_all [''Warmup complete'', [], ''Running '' @ show_int (arg_iterations A) @ '' inference iterations...'']) (\<lambda>_.
          bindS (timed_inferences H np sync A m img [0..<nat (arg_iterations A)]) (\<lambda>ts. bindS (liftS (inference_lines ts)) say_all))) u))"
      if "network_fits (arg_num_classes A) m" "a4_shape img = [1, 3, 224, 224]" for m img u
    proof -
      have f: "raises ValueError (fst (ResNet18_forward np m img s))" for s
        using that by (intro forward_raises) (simp_all add: network_fits_def is_mat_def)
      have i: "raises ValueError (fst (bindS (timed_inferences H np sync A m img [0..<nat (arg_iterations A)]) (\<lambda>ts. bindS (liftS (inference_lines ts)) say_all) u))" for u
      proof (cases "0 < nat (arg_iterations A)")
        case True
        show ?thesis by (rule raises_bindS [OF inferences_raise [OF f True]])
      next
        case False
        then show ?thesis by (simp add: bindS_def inference_lines_def raise_def)
      qed
      show ?thesis
      proof (cases "0 < nat (arg_warmup A)")
        case True
        show ?thesis by (rule raises_bindS [OF warmup_raises [OF f True]])
      next
        case False
        then have "forS g [0..<nat (arg_warmup A)] = returnS ()" for g :: "nat \<Rightarrow> ('a session, unit) st" by simp
        then show ?thesis unfolding bindS_Inr [OF returnS_apply] by (simp only: bindS_Inr [OF returnS_apply]) (rule after_say_all, rule i)
      qed
    qed
    show ?thesis
      unfolding resnet_run_def
      by (rule after_say_all, rule after_gives [OF init], rule after_say_all, rule after_gives [OF gives_image], rule after_say_all, rule run)
  qed
  with True show ?thesis unfolding resnet_main_def by (simp only: if_True not_True_eq_False if_False) (rule after_say_all)
next
  case False
  then show ?thesis unfolding resnet_main_def by (simp add: bindS_def say_all_run)
qed

theorem resnet_built_witness:
  "\<exists>m s'. ResNet18_init (np_reference (\<lambda>_. 1)) 10 0 = (Inr m, s') \<and> network_fits 10 m
    \<and> raises ValueError (fst (ResNet18_forward (np_reference (\<lambda>_. 1)) m \<lparr>a4_shape = [1, 3, 224, 224], a4_elems = []\<rparr> s'))"
  using resnet_built [of 10 "\<lparr>a4_shape = [1, 3, 224, 224], a4_elems = []\<rparr>" "np_reference (\<lambda>_. 1)" 0] by auto

end
