(* ===== verification/ModernModels.thy ===== *)
theory ModernModels
  imports ExampleBase
begin

text \<open>
  \<^verbatim>\<open>benchmark_modern_models.py\<close>: the benchmark of pretrained language models. PyTorch and the transformers
  library are a parameter (\<open>lab_api\<close>): the models \<open>'m\<close>, the tokenizers \<open>'k\<close>, the tensors \<open>'t\<close>, and calls that change
  the state \<open>'g\<close> of the device, which takes the place of the generator of a session. \<open>torch.no_grad()\<close> belongs to the calls
  inside it. A missing time is the number zero, also where the code has the integer. What the program
  writes into its file is its result; \<open>traceback\<close> prints elsewhere.
\<close>

section \<open>PyTorch and transformers\<close>

record ('g, 'm, 'k, 't) lab_api =
  L_import_transformers :: "('g, unit) st"
  L_mps_available :: "('g, bool) st"
  L_synchronize :: "('g, unit) st"
  L_empty_cache :: "('g, unit) st"
  L_current_allocated :: "('g, int) st option"
  L_load_tokenizer :: "string \<Rightarrow> ('g, 'k) st"
  L_pad_missing :: "'k \<Rightarrow> bool"
  L_pad_with_eos :: "'k \<Rightarrow> 'k"
  L_encode :: "'k \<Rightarrow> string \<Rightarrow> int \<Rightarrow> ('g, 't) st"
  L_to :: "string \<Rightarrow> 't \<Rightarrow> ('g, 't) st"
  L_load_model :: "string \<Rightarrow> string \<Rightarrow> string \<Rightarrow> ('g, 'm) st"
  L_eval :: "'m \<Rightarrow> ('g, unit) st"
  L_forward :: "'m \<Rightarrow> 't \<Rightarrow> ('g, unit) st"
  L_generate :: "'m \<Rightarrow> 't \<Rightarrow> int \<Rightarrow> ('g, 't) st"
  L_width :: "'t \<Rightarrow> int res"
  L_torch_version :: string
  L_python_version :: string
  L_transformers_version :: string
  L_date :: string
  L_out_path :: string

section \<open>Results\<close>

record model_bench_result =
  model_name :: string
  model_id :: string
  mb_params :: string
  mb_dtype :: string
  release_year :: int
  forward_time_ms :: real
  forward_std_ms :: real
  tokens_per_sec :: real
  gen_time_ms :: real
  gen_tokens :: int
  gpu_memory_mb :: real
  cpu_forward_ms :: real
  speedup_vs_cpu :: real
  mb_status :: string
  mb_error :: "string option"

definition ModelBenchResult :: "string \<Rightarrow> string \<Rightarrow> string \<Rightarrow> string \<Rightarrow> int \<Rightarrow> model_bench_result" where
  "ModelBenchResult name mid params dtype year =
     \<lparr>model_name = name, model_id = mid, mb_params = params, mb_dtype = dtype, release_year = year,
      forward_time_ms = 0, forward_std_ms = 0, tokens_per_sec = 0, gen_time_ms = 0, gen_tokens = 0, gpu_memory_mb = 0,
      cpu_forward_ms = 0, speedup_vs_cpu = 0, mb_status = ''pending'', mb_error = None\<rparr>"

text \<open>\<open>asdict(r)\<close> and \<open>round(x, n)\<close>.\<close>

definition mb_asdict :: "model_bench_result \<Rightarrow> pyval" where
  "mb_asdict r = PyDict
    [(''model_name'', PyStr (model_name r)), (''model_id'', PyStr (model_id r)), (''params'', PyStr (mb_params r)),
     (''dtype'', PyStr (mb_dtype r)), (''release_year'', PyInt (release_year r)),
     (''forward_time_ms'', PyFloat (Fin (forward_time_ms r))), (''forward_std_ms'', PyFloat (Fin (forward_std_ms r))),
     (''tokens_per_sec'', PyFloat (Fin (tokens_per_sec r))), (''gen_time_ms'', PyFloat (Fin (gen_time_ms r))),
     (''gen_tokens'', PyInt (gen_tokens r)), (''gpu_memory_mb'', PyFloat (Fin (gpu_memory_mb r))),
     (''cpu_forward_ms'', PyFloat (Fin (cpu_forward_ms r))), (''speedup_vs_cpu'', PyFloat (Fin (speedup_vs_cpu r))),
     (''status'', PyStr (mb_status r)), (''error'', case mb_error r of None \<Rightarrow> PyNone | Some e \<Rightarrow> PyStr e)]"

definition py_round :: "nat \<Rightarrow> real \<Rightarrow> real" where
  "py_round n x = of_int (round_half_even (x * 10 ^ n)) / 10 ^ n"

text \<open>\<open>f"{x:.0f}"\<close>.\<close>

definition fmt_whole :: "real \<Rightarrow> string" where
  "fmt_whole x = (if x < 0 then ''-'' else []) @ show_nat (nat (round_half_even \<bar>x\<bar>))"

section \<open>Measurements\<close>

definition get_gpu_memory_mb :: "('g, 'm, 'k, 't) lab_api \<Rightarrow> ('g session, real) st" where
  "get_gpu_memory_mb L = (case L_current_allocated L of
     None \<Rightarrow> returnS 0
   | Some c \<Rightarrow> bindS (with_generator c) (\<lambda>n. returnS (of_int n / 1024 / 1024)))"

definition cleanup :: "('g, 'm, 'k, 't) lab_api \<Rightarrow> ('g session, unit) st" where
  "cleanup L = bindS (with_generator (L_mps_available L)) (\<lambda>av.
     if av then with_generator (L_empty_cache L) else returnS ())"

definition sync_on :: "('g, 'm, 'k, 't) lab_api \<Rightarrow> string \<Rightarrow> ('g session, unit) st" where
  "sync_on L device = (if device = ''mps'' then with_generator (L_synchronize L) else returnS ())"

definition timed_call :: "host \<Rightarrow> ('g, 'm, 'k, 't) lab_api \<Rightarrow> string \<Rightarrow> ('g, 'a) st \<Rightarrow> ('g session, real \<times> 'a) st" where
  "timed_call H L device call =
     bindS (sync_on L device) (\<lambda>_.
     bindS (read_clock H) (\<lambda>t0.
     bindS (with_generator call) (\<lambda>out.
     bindS (sync_on L device) (\<lambda>_.
     bindS (read_clock H) (\<lambda>t1. returnS ((t1 - t0) * 1000, out))))))"

definition warm_call :: "('g, 'm, 'k, 't) lab_api \<Rightarrow> string \<Rightarrow> ('g, 'a) st \<Rightarrow> ('g session, unit) st" where
  "warm_call L device call = bindS (with_generator call) (\<lambda>_. sync_on L device)"

text \<open>\<open>sum(times) / len(times)\<close> and the square root of the mean squared deviation.\<close>

definition mean_time :: "real list \<Rightarrow> real res" where
  "mean_time ts = float_div (sum_list ts) (real (length ts))"

definition std_time :: "real list \<Rightarrow> real \<Rightarrow> real res" where
  "std_time ts avg = bindR (float_div (\<Sum>t \<leftarrow> ts. (t - avg)\<^sup>2) (real (length ts))) (\<lambda>v. Inr (sqrt v))"

definition benchmark_forward ::
  "host \<Rightarrow> ('g, 'm, 'k, 't) lab_api \<Rightarrow> 'm \<Rightarrow> 't \<Rightarrow> string \<Rightarrow> int \<Rightarrow> int \<Rightarrow> ('g session, real \<times> real) st" where
  "benchmark_forward H L model ids device warmup runs =
     bindS (with_generator (L_eval L model)) (\<lambda>_.
     bindS (repeatS (nat warmup) (warm_call L device (L_forward L model ids))) (\<lambda>_.
     bindS (repeatS (nat runs) (timed_call H L device (L_forward L model ids))) (\<lambda>ts.
     bindS (liftS (mean_time (map fst ts))) (\<lambda>avg.
     bindS (liftS (std_time (map fst ts) avg)) (\<lambda>std. returnS (avg, std))))))"

text \<open>One timed generation, with the number of new tokens.\<close>

definition timed_generation ::
  "host \<Rightarrow> ('g, 'm, 'k, 't) lab_api \<Rightarrow> 'm \<Rightarrow> 't \<Rightarrow> string \<Rightarrow> int \<Rightarrow> ('g session, real \<times> int) st" where
  "timed_generation H L model ids device max_new_tokens =
     bindS (timed_call H L device (L_generate L model ids max_new_tokens)) (\<lambda>(t, out).
     bindS (liftS (L_width L out)) (\<lambda>w. bindS (liftS (L_width L ids)) (\<lambda>v. returnS (t, w - v))))"

definition throughput :: "int \<Rightarrow> real \<Rightarrow> real" where
  "throughput tokens avg_ms = (if 0 < avg_ms then of_int tokens / (avg_ms / 1000) else 0)"

definition benchmark_generation ::
  "host \<Rightarrow> ('g, 'm, 'k, 't) lab_api \<Rightarrow> 'm \<Rightarrow> 't \<Rightarrow> string \<Rightarrow> int \<Rightarrow> int \<Rightarrow> int \<Rightarrow> ('g session, real \<times> real \<times> int) st" where
  "benchmark_generation H L model ids device max_new_tokens warmup runs =
     bindS (with_generator (L_eval L model)) (\<lambda>_.
     bindS (repeatS (nat warmup) (warm_call L device (L_generate L model ids max_new_tokens))) (\<lambda>_.
     bindS (repeatS (nat runs) (timed_generation H L model ids device max_new_tokens)) (\<lambda>ts.
     bindS (liftS (mean_time (map fst ts))) (\<lambda>avg_ms.
     let n = snd (last ts) in returnS (avg_ms, throughput n avg_ms, n)))))"

text \<open>Loading the model and the first call may fail, which gives \<open>-1.0\<close>; the timed call may not.\<close>

definition cpu_load :: "('g, 'm, 'k, 't) lab_api \<Rightarrow> string \<Rightarrow> ('g session, 'm option) st" where
  "cpu_load L mid = catchS any_exception
     (bindS (with_generator (L_load_model L mid ''float32'' ''cpu'')) (\<lambda>m.
      bindS (with_generator (L_eval L m)) (\<lambda>_. returnS (Some m))))
     (\<lambda>e. bindS (say (''    [CPU] Failed to load: '' @ str_exc e)) (\<lambda>_. returnS None))"

definition benchmark_cpu_forward ::
  "host \<Rightarrow> ('g, 'm, 'k, 't) lab_api \<Rightarrow> string \<Rightarrow> 't \<Rightarrow> ('g session, real) st" where
  "benchmark_cpu_forward H L mid ids =
     bindS (with_generator (L_import_transformers L)) (\<lambda>_.
     bindS (cpu_load L mid) (\<lambda>cm. case cm of
       None \<Rightarrow> returnS (-1)
     | Some m \<Rightarrow>
         bindS (catchS any_exception (bindS (with_generator (L_forward L m ids)) (\<lambda>_. returnS True))
                (\<lambda>_. bindS (cleanup L) (\<lambda>_. returnS False))) (\<lambda>ok.
         if \<not> ok then returnS (-1)
         else bindS (read_clock H) (\<lambda>t0.
              bindS (with_generator (L_forward L m ids)) (\<lambda>_.
              bindS (read_clock H) (\<lambda>t1.
              bindS (cleanup L) (\<lambda>_. returnS ((t1 - t0) * 1000))))))))"

section \<open>The registry\<close>

record model_info =
  mi_name :: string
  mi_id :: string
  mi_params :: string
  mi_dtype :: string
  mi_year :: int
  mi_cpu_test :: bool

definition model_entry :: "string \<Rightarrow> string \<Rightarrow> string \<Rightarrow> bool \<Rightarrow> model_info" where
  "model_entry name mid params cpu =
     \<lparr>mi_name = name, mi_id = mid, mi_params = params, mi_dtype = ''float16'', mi_year = 2024, mi_cpu_test = cpu\<rparr>"

definition MODELS :: "model_info list" where
  "MODELS =
    [model_entry ''Qwen2.5-0.5B'' ''Qwen/Qwen2.5-0.5B'' ''0.5B'' True,
     model_entry ''SmolLM2-1.7B'' ''HuggingFaceTB/SmolLM2-1.7B'' ''1.7B'' True,
     model_entry ''Qwen2.5-1.5B'' ''Qwen/Qwen2.5-1.5B'' ''1.5B'' True,
     model_entry ''Qwen2.5-3B'' ''Qwen/Qwen2.5-3B'' ''3B'' True,
     model_entry ''Phi-3.5-Mini-3.8B'' ''microsoft/Phi-3.5-mini-instruct'' ''3.8B'' False,
     model_entry ''Qwen2.5-7B'' ''Qwen/Qwen2.5-7B'' ''7B'' False,
     model_entry ''Qwen2.5-14B'' ''Qwen/Qwen2.5-14B'' ''14B'' False]"

section \<open>One model\<close>

text \<open>The result under construction is updated as the measurements come, and keeps them when a later one fails.\<close>

record 'g lab =
  lab_session :: "'g session"
  lab_result :: model_bench_result

definition in_session :: "('g session, 'a) st \<Rightarrow> ('g lab, 'a) st" where
  "in_session c = (\<lambda>l. case c (lab_session l) of (r, w) \<Rightarrow> (r, l\<lparr>lab_session := w\<rparr>))"

definition record_result :: "(model_bench_result \<Rightarrow> model_bench_result) \<Rightarrow> ('g lab, unit) st" where
  "record_result f = (\<lambda>l. (Inr (), l\<lparr>lab_result := f (lab_result l)\<rparr>))"

definition seq_len :: int where
  "seq_len = 64"

definition bench_prompt :: string where
  "bench_prompt = ''The future of artificial intelligence will''"

definition plus_minus :: string where
  "plus_minus = [CHR 0xC2, CHR 0xB1]"

definition encode_prompt :: "('g, 'm, 'k, 't) lab_api \<Rightarrow> string \<Rightarrow> string \<Rightarrow> ('g, 't \<times> 't) st" where
  "encode_prompt L device mid =
     bindS (L_load_tokenizer L mid) (\<lambda>k.
     bindS (L_encode L (if L_pad_missing L k then L_pad_with_eos L k else k) bench_prompt seq_len) (\<lambda>ids.
     bindS (L_to L device ids) (\<lambda>ids_mps.
     bindS (L_to L ''cpu'' ids_mps) (\<lambda>ids_cpu. returnS (ids_mps, ids_cpu)))))"

definition load_on_mps :: "host \<Rightarrow> ('g, 'm, 'k, 't) lab_api \<Rightarrow> model_info \<Rightarrow> ('g session, 'm) st" where
  "load_on_mps H L info =
     bindS (say (''  Loading model to MPS ('' @ mi_dtype info @ '')...'')) (\<lambda>_.
     bindS (read_clock H) (\<lambda>t0.
     bindS (with_generator (L_load_model L (mi_id info) (if mi_dtype info = ''float16'' then ''float16'' else ''float32'') ''mps'')) (\<lambda>m.
     bindS (with_generator (L_eval L m)) (\<lambda>_.
     bindS (read_clock H) (\<lambda>t1.
     bindS (say (''  Loaded in '' @ fmt_fixed 1 (t1 - t0) @ ''s'')) (\<lambda>_. returnS m))))))"

definition memory_stage :: "('g, 'm, 'k, 't) lab_api \<Rightarrow> string \<Rightarrow> ('g lab, unit) st" where
  "memory_stage L device =
     bindS (in_session (bindS (sync_on L device) (\<lambda>_. get_gpu_memory_mb L))) (\<lambda>mb.
     bindS (record_result (\<lambda>r. r\<lparr>gpu_memory_mb := mb\<rparr>)) (\<lambda>_.
     in_session (say (''  GPU Memory: '' @ fmt_whole mb @ '' MB''))))"

definition forward_stage :: "host \<Rightarrow> ('g, 'm, 'k, 't) lab_api \<Rightarrow> string \<Rightarrow> 'm \<Rightarrow> 't \<Rightarrow> ('g lab, real) st" where
  "forward_stage H L device m ids =
     bindS (in_session (say (''  Benchmarking forward pass (seq_len='' @ show_int seq_len @ '')...''))) (\<lambda>_.
     bindS (in_session (benchmark_forward H L m ids device 3 10)) (\<lambda>(fwd_ms, fwd_std).
     bindS (record_result (\<lambda>r. r\<lparr>forward_time_ms := py_round 2 fwd_ms, forward_std_ms := py_round 2 fwd_std\<rparr>)) (\<lambda>_.
     bindS (in_session (say (''  Forward: '' @ fmt_fixed 2 fwd_ms @ '' '' @ plus_minus @ '' '' @ fmt_fixed 2 fwd_std @ '' ms''))) (\<lambda>_.
     returnS fwd_ms))))"

definition generation_stage :: "host \<Rightarrow> ('g, 'm, 'k, 't) lab_api \<Rightarrow> string \<Rightarrow> 'm \<Rightarrow> 't \<Rightarrow> ('g lab, unit) st" where
  "generation_stage H L device m ids =
     bindS (in_session (say ''  Benchmarking generation (50 tokens)...'')) (\<lambda>_.
     bindS (in_session (benchmark_generation H L m ids device 50 1 3)) (\<lambda>(gen_ms, tok_s, gen_tok).
     bindS (record_result (\<lambda>r. r\<lparr>gen_time_ms := py_round 2 gen_ms, tokens_per_sec := py_round 1 tok_s, gen_tokens := gen_tok\<rparr>)) (\<lambda>_.
     in_session (say (''  Generation: '' @ fmt_fixed 1 tok_s @ '' tok/s ('' @ show_int gen_tok @ '' tokens in '' @ fmt_whole gen_ms @ '' ms)'')))))"

definition cpu_stage :: "host \<Rightarrow> ('g, 'm, 'k, 't) lab_api \<Rightarrow> model_info \<Rightarrow> 't \<Rightarrow> real \<Rightarrow> ('g lab, unit) st" where
  "cpu_stage H L info ids_cpu fwd_ms =
     (if mi_cpu_test info
      then bindS (in_session (say ''  Benchmarking CPU forward pass...'')) (\<lambda>_.
           bindS (in_session (benchmark_cpu_forward H L (mi_id info) ids_cpu)) (\<lambda>cpu_ms.
           if 0 < cpu_ms
           then bindS (record_result (\<lambda>r. r\<lparr>cpu_forward_ms := py_round 2 cpu_ms\<rparr>)) (\<lambda>_.
                bindS (liftS (float_div cpu_ms fwd_ms)) (\<lambda>q.
                bindS (record_result (\<lambda>r. r\<lparr>speedup_vs_cpu := py_round 2 q\<rparr>)) (\<lambda>_.
                in_session (say (''  CPU Forward: '' @ fmt_fixed 2 cpu_ms @ '' ms '' @ [CHR 0xE2, CHR 0x86, CHR 0x92] @ '' ''
                  @ fmt_fixed 2 (py_round 2 q) @ ''x speedup'')))))
           else in_session (say ''  CPU Forward: skipped (load failed)'')))
      else in_session (say ''  CPU Forward: skipped (model too large)''))"

definition model_body :: "host \<Rightarrow> ('g, 'm, 'k, 't) lab_api \<Rightarrow> string \<Rightarrow> model_info \<Rightarrow> ('g lab, unit) st" where
  "model_body H L device info =
     bindS (in_session (with_generator (encode_prompt L device (mi_id info)))) (\<lambda>(ids_mps, ids_cpu).
     bindS (in_session (load_on_mps H L info)) (\<lambda>m.
     bindS (memory_stage L device) (\<lambda>_.
     bindS (forward_stage H L device m ids_mps) (\<lambda>fwd_ms.
     bindS (generation_stage H L device m ids_mps) (\<lambda>_.
     bindS (in_session (cleanup L)) (\<lambda>_.
     bindS (cpu_stage H L info ids_cpu fwd_ms) (\<lambda>_.
     bindS (record_result (\<lambda>r. r\<lparr>mb_status := ''success''\<rparr>)) (\<lambda>_.
     in_session (say (''  '' @ [CHR 0xE2, CHR 0x9C, CHR 0x93] @ '' Done''))))))))))"

definition model_failed :: "pyexc \<Rightarrow> ('g lab, unit) st" where
  "model_failed e =
     bindS (record_result (\<lambda>r. r\<lparr>mb_status := ''error'', mb_error := Some (str_exc e)\<rparr>)) (\<lambda>_.
     in_session (say (''  '' @ [CHR 0xE2, CHR 0x9C, CHR 0x97] @ '' Error: '' @ str_exc e)))"

definition fresh_result :: "model_info \<Rightarrow> model_bench_result" where
  "fresh_result info = ModelBenchResult (mi_name info) (mi_id info) (mi_params info) (mi_dtype info) (mi_year info)"

definition benchmark_model ::
  "host \<Rightarrow> ('g, 'm, 'k, 't) lab_api \<Rightarrow> string \<Rightarrow> nat \<Rightarrow> nat \<Rightarrow> model_info \<Rightarrow> ('g session, model_bench_result) st" where
  "benchmark_model H L device n i info =
     bindS (say_all [''['' @ show_nat i @ ''/'' @ show_nat n @ ''] '' @ mi_name info @ '' ('' @ mi_params info @ '', '' @ mi_dtype info @ '')'',
       ''  Loading from: '' @ mi_id info]) (\<lambda>_.
     bindS (\<lambda>w. case catchS any_exception (model_body H L device info) model_failed \<lparr>lab_session = w, lab_result = fresh_result info\<rparr> of
              (r, l) \<Rightarrow> (bindR r (\<lambda>_. Inr (lab_result l)), lab_session l)) (\<lambda>result.
     bindS (cleanup L) (\<lambda>_. bindS (say []) (\<lambda>_. returnS result))))"

section \<open>The program\<close>

text \<open>\<open>i\<close> counts from one.\<close>

fun benchmark_models ::
  "host \<Rightarrow> ('g, 'm, 'k, 't) lab_api \<Rightarrow> string \<Rightarrow> nat \<Rightarrow> nat \<Rightarrow> model_info list \<Rightarrow> ('g session, model_bench_result list) st" where
  "benchmark_models H L device n i [] = returnS []"
| "benchmark_models H L device n i (info # infos) =
     bindS (benchmark_model H L device n i info) (\<lambda>r.
     bindS (benchmark_models H L device n (Suc i) infos) (\<lambda>rs. returnS (r # rs)))"

definition em_dash :: string where
  "em_dash = [CHR 0xE2, CHR 0x80, CHR 0x94]"

definition summary_row :: "model_bench_result \<Rightarrow> string" where
  "summary_row r = ljust 22 (model_name r) @ '' '' @ rjust 6 (mb_params r) @
     (if mb_status r = ''success''
      then '' '' @ rjust 8 (fmt_fixed 2 (forward_time_ms r)) @ ''ms '' @ rjust 7 (fmt_fixed 1 (tokens_per_sec r)) @ '' ''
        @ rjust 7 (fmt_whole (gpu_memory_mb r)) @ '' ''
        @ (if 0 < speedup_vs_cpu r then rjust 8 (fmt_fixed 1 (speedup_vs_cpu r) @ ''x'') else replicate 7 CHR '' '' @ em_dash)
      else ''  FAILED: '' @ (case mb_error r of None \<Rightarrow> ''None'' | Some e \<Rightarrow> e))"

definition summary_table :: "('g, 'm, 'k, 't) lab_api \<Rightarrow> model_bench_result list \<Rightarrow> string list" where
  "summary_table L results =
     [newline @ replicate 90 CHR ''='', ''  RESULTS SUMMARY '' @ em_dash @ '' Modern Open-Source LLMs on Apple Silicon MPS'',
      replicate 90 CHR ''='',
      ljust 22 ''Model'' @ '' '' @ rjust 6 ''Params'' @ '' '' @ rjust 10 ''Forward'' @ '' '' @ rjust 8 ''tok/s'' @ '' ''
        @ rjust 8 ''GPU MB'' @ '' '' @ rjust 8 ''Speedup'',
      replicate 90 CHR ''-'']
     @ map summary_row results
     @ [replicate 90 CHR ''-'', ''  Platform: Apple M4 Max, 36GB Unified Memory'',
        ''  PyTorch '' @ L_torch_version L @ '' | Input seq_len='' @ show_int seq_len @ '' | Generation: 50 tokens'', []]"

definition output_document :: "('g, 'm, 'k, 't) lab_api \<Rightarrow> model_bench_result list \<Rightarrow> pyval" where
  "output_document L results = PyDict
     [(''metadata'', PyDict
        [(''benchmark'', PyStr ''Modern LLM Benchmark Suite''), (''device'', PyStr ''Apple M4 Max 36GB''),
         (''pytorch_version'', PyStr (L_torch_version L)), (''python_version'', PyStr (L_python_version L)),
         (''input_seq_len'', PyInt seq_len), (''gen_tokens'', PyInt 50), (''date'', PyStr (L_date L))]),
      (''results'', PyList (map mb_asdict results))]"

definition modern_main :: "host \<Rightarrow> ('g, 'm, 'k, 't) lab_api \<Rightarrow> ('g session, pyval) st" where
  "modern_main H L =
     bindS (say_all [replicate 70 CHR ''='', ''  MetalNative '' @ em_dash @ '' Modern LLM Benchmark Suite'',
       ''  Apple Silicon MPS vs CPU (Real Pretrained Models)'', replicate 70 CHR ''='']) (\<lambda>_.
     bindS (with_generator (L_mps_available L)) (\<lambda>av.
     let device = (if av then ''mps'' else ''cpu'') in
     bindS (say_all [newline @ ''  Device: '' @ device, ''  PyTorch: '' @ L_torch_version L, ''  Python: '' @ L_python_version L]) (\<lambda>_.
     bindS (with_generator (L_import_transformers L)) (\<lambda>_.
     bindS (say_all [''  Transformers: '' @ L_transformers_version L, ''  Models to test: '' @ show_nat (length MODELS), []]) (\<lambda>_.
     bindS (benchmark_models H L device (length MODELS) 1 MODELS) (\<lambda>results.
     bindS (say_all (summary_table L results)) (\<lambda>_.
     bindS (say (''  Results saved to: '' @ L_out_path L)) (\<lambda>_.
     returnS (output_document L results)))))))))"

end
