(* ===== verification/ModernProps.thy ===== *)
theory ModernProps
  imports ModernModels
begin

text \<open>
  Properties of the benchmark of language models: the statistics of the timed runs in terms of the readings of the
  clock, and the report, which has one entry for every model whatever fails.
\<close>

section \<open>Clock readings\<close>

text \<open>The calls of the library do not read the clock.\<close>

lemma with_generator_clock: "clock_reads (snd (with_generator c w)) = clock_reads w"
  by (simp add: with_generator_def split: prod.split)

lemma with_generator_Inr: "with_generator c w = (Inr x, w') \<Longrightarrow> clock_reads w' = clock_reads w"
  using with_generator_clock [of c w] by simp

lemma sync_on_Inr: "sync_on L device w = (Inr x, w') \<Longrightarrow> clock_reads w' = clock_reads w"
  by (auto simp: sync_on_def dest: with_generator_Inr split: if_splits)

text \<open>The time in milliseconds between readings \<open>n\<close> and \<open>n + 1\<close> of the clock.\<close>

definition lap :: "host \<Rightarrow> nat \<Rightarrow> real" where
  "lap H n = (host_clock H (Suc n) - host_clock H n) * 1000"

lemma bindS_Inr_E:
  assumes "bindS c f s = (Inr y, s')"
  obtains x t where "c s = (Inr x, t)" and "f x t = (Inr y, s')"
  using assms by (auto simp: bindS_def split: prod.splits sum.splits)

lemma timed_call_lap:
  assumes "timed_call H L device c w = (Inr (t, x), w')"
  shows "t = lap H (clock_reads w) \<and> clock_reads w' = clock_reads w + 2"
  using assms unfolding timed_call_def
  by (auto elim!: bindS_Inr_E dest!: sync_on_Inr with_generator_Inr simp: read_clock_def lap_def)

text \<open>A measurement that reads the clock twice.\<close>

definition laps_once :: "host \<Rightarrow> ('g session, real \<times> 'a) st \<Rightarrow> bool" where
  "laps_once H c \<longleftrightarrow> (\<forall>w t x w'. c w = (Inr (t, x), w') \<longrightarrow> t = lap H (clock_reads w) \<and> clock_reads w' = clock_reads w + 2)"

lemma timed_call_once: "laps_once H (timed_call H L device c)"
  unfolding laps_once_def by (intro allI impI) (rule timed_call_lap)

lemma timed_generation_once: "laps_once H (timed_generation H L m ids device n)"
  unfolding laps_once_def timed_generation_def
  by (auto elim!: bindS_Inr_E dest!: timed_call_lap)

lemma repeat_laps:
  assumes "laps_once H c" and "repeatS n c w = (Inr ts, w')"
  shows "map fst ts = map (\<lambda>i. lap H (clock_reads w + 2 * i)) [0..<n] \<and> clock_reads w' = clock_reads w + 2 * n"
  using assms(2)
proof (induction n arbitrary: w ts)
  case (Suc n)
  from Suc.prems obtain t x us v where c: "c w = (Inr (t, x), v)" and us: "repeatS n c v = (Inr us, w')" and ts: "ts = (t, x) # us"
    by (auto elim!: bindS_Inr_E)
  from assms(1) c have t: "t = lap H (clock_reads w)" "clock_reads v = clock_reads w + 2" unfolding laps_once_def by blast+
  have "[0..<Suc n] = 0 # map Suc [0..<n]" by (simp add: upt_conv_Cons map_Suc_upt)
  with Suc.IH [OF us] t ts show ?case by (simp add: add.assoc)
qed simp

lemma warm_calls_clock:
  assumes "repeatS n (warm_call L device c) w = (Inr us, w')"
  shows "clock_reads w' = clock_reads w"
  using assms
proof (induction n arbitrary: w us)
  case (Suc n)
  from Suc.prems obtain v u us' where "warm_call L device c w = (Inr u, v)" and r: "repeatS n (warm_call L device c) v = (Inr us', w')"
    by (auto elim!: bindS_Inr_E)
  then have "clock_reads v = clock_reads w"
    unfolding warm_call_def by (auto elim!: bindS_Inr_E dest!: sync_on_Inr with_generator_Inr)
  with Suc.IH [OF r] show ?case by simp
qed simp

section \<open>Statistics\<close>

lemma mean_time_Inr: "mean_time ts = Inr a \<longleftrightarrow> ts \<noteq> [] \<and> a = sum_list ts / real (length ts)"
  by (auto simp: mean_time_def float_div_def)

lemma std_time_Inr: "ts \<noteq> [] \<Longrightarrow> std_time ts a = Inr d \<longleftrightarrow> d = sqrt ((\<Sum>t \<leftarrow> ts. (t - a)\<^sup>2) / real (length ts))"
  by (auto simp: std_time_def float_div_def)

lemma sum_between:
  fixes ts :: "real list"
  assumes "\<forall>t \<in> set ts. a \<le> t \<and> t \<le> b" and "ts \<noteq> []"
  shows "a \<le> sum_list ts / real (length ts) \<and> sum_list ts / real (length ts) \<le> b"
proof -
  have "real (length ts) * a \<le> sum_list ts \<and> sum_list ts \<le> real (length ts) * b"
    using assms(1) by (induction ts) (auto simp: algebra_simps)
  with assms(2) show ?thesis by (simp add: field_simps)
qed

lemma sum_deviations:
  fixes ts :: "real list"
  assumes "ts \<noteq> []"
  shows "(\<Sum>t \<leftarrow> ts. (t - sum_list ts / real (length ts))\<^sup>2) / real (length ts)
    = (\<Sum>t \<leftarrow> ts. t\<^sup>2) / real (length ts) - (sum_list ts / real (length ts))\<^sup>2"
proof -
  have e: "(\<Sum>t \<leftarrow> ts. (t - a)\<^sup>2) = (\<Sum>t \<leftarrow> ts. t\<^sup>2) - 2 * a * sum_list ts + real (length ts) * a\<^sup>2" for a :: real
    by (induction ts) (simp_all add: power2_eq_square algebra_simps)
  show ?thesis unfolding e using assms by (simp add: power2_eq_square field_simps)
qed

lemma deviations_nonneg: "0 \<le> (\<Sum>t \<leftarrow> ts. (t - a :: real)\<^sup>2)"
  by (induction ts) simp_all

text \<open>The times that \<open>n\<close> runs after reading \<open>k\<close> of the clock give.\<close>

definition lap_times :: "host \<Rightarrow> nat \<Rightarrow> nat \<Rightarrow> real list" where
  "lap_times H k n = map (\<lambda>i. lap H (k + 2 * i)) [0..<n]"

text \<open>
  What \<open>benchmark_forward\<close> returns is the mean and the population standard deviation of the times of exactly
  \<open>runs\<close> calls, each between two readings of the clock of its own; the warm-up is not timed. The mean lies
  between the shortest and the longest time and the squared deviation is the mean of the squares less the square of
  the mean. It only returns when \<open>runs\<close> is positive.
\<close>

theorem forward_statistics:
  assumes "benchmark_forward H L m ids device warmup runs w = (Inr (avg, std), w')"
  shows "0 < runs \<and> clock_reads w' = clock_reads w + 2 * nat runs
    \<and> (let ts = lap_times H (clock_reads w) (nat runs) in
         avg = sum_list ts / of_int runs \<and> Min (set ts) \<le> avg \<and> avg \<le> Max (set ts)
         \<and> 0 \<le> std \<and> std\<^sup>2 = (\<Sum>t \<leftarrow> ts. t\<^sup>2) / of_int runs - avg\<^sup>2)"
proof -
  let ?ts = "lap_times H (clock_reads w) (nat runs)"
  from assms obtain us v ts where
    v: "clock_reads v = clock_reads w" and
    r: "repeatS (nat runs) (timed_call H L device (L_forward L m ids)) v = (Inr ts, w')" and
    s: "mean_time (map fst ts) = Inr avg" "std_time (map fst ts) avg = Inr std"
    unfolding benchmark_forward_def by (auto elim!: bindS_Inr_E dest!: warm_calls_clock with_generator_Inr)
  have t: "map fst ts = ?ts" "clock_reads w' = clock_reads w + 2 * nat runs"
    using repeat_laps [OF timed_call_once r] v by (simp_all add: lap_times_def)
  have ne: "?ts \<noteq> []" using s(1) t(1) by (simp add: mean_time_Inr)
  then have runs: "0 < runs" by (auto simp: lap_times_def)
  have len: "real (length ?ts) = of_int runs" using runs by (simp add: lap_times_def)
  have a: "avg = sum_list ?ts / real (length ?ts)" using s(1) unfolding t(1) mean_time_Inr by simp
  have d: "std = sqrt ((\<Sum>x \<leftarrow> ?ts. (x - avg)\<^sup>2) / real (length ?ts))" using s(2) unfolding t(1) std_time_Inr [OF ne] .
  have "0 \<le> (\<Sum>x \<leftarrow> ?ts. (x - avg)\<^sup>2) / real (length ?ts)" using deviations_nonneg by (intro divide_nonneg_nonneg) auto
  with d have "0 \<le> std" "std\<^sup>2 = (\<Sum>x \<leftarrow> ?ts. (x - avg)\<^sup>2) / real (length ?ts)" by simp_all
  moreover have "Min (set ?ts) \<le> avg \<and> avg \<le> Max (set ?ts)" unfolding a using ne by (intro sum_between) auto
  ultimately show ?thesis
    using runs t(2) sum_deviations [OF ne] a unfolding Let_def len [symmetric] by simp
qed

text \<open>
  \<open>benchmark_generation\<close> returns the mean time of exactly \<open>runs\<close> generations, and a throughput which, over the
  mean time, gives the number of new tokens; it is zero when no time has passed.
\<close>

theorem generation_throughput:
  assumes "benchmark_generation H L m ids device n warmup runs w = (Inr (avg_ms, rate, tokens), w')"
  shows "0 < runs \<and> clock_reads w' = clock_reads w + 2 * nat runs
    \<and> avg_ms = sum_list (lap_times H (clock_reads w) (nat runs)) / of_int runs
    \<and> (if 0 < avg_ms then rate * (avg_ms / 1000) = of_int tokens else rate = 0)"
proof -
  let ?ts = "lap_times H (clock_reads w) (nat runs)"
  from assms obtain v ts where
    v: "clock_reads v = clock_reads w" and
    r: "repeatS (nat runs) (timed_generation H L m ids device n) v = (Inr ts, w')" and
    s: "mean_time (map fst ts) = Inr avg_ms" and q: "rate = throughput tokens avg_ms"
    unfolding benchmark_generation_def Let_def
    by (auto elim!: bindS_Inr_E dest!: warm_calls_clock with_generator_Inr)
  have t: "map fst ts = ?ts" "clock_reads w' = clock_reads w + 2 * nat runs"
    using repeat_laps [OF timed_generation_once r] v by (simp_all add: lap_times_def)
  have ne: "?ts \<noteq> []" using s t(1) by (simp add: mean_time_Inr)
  then have runs: "0 < runs" by (auto simp: lap_times_def)
  have len: "real (length ?ts) = of_int runs" using runs by (simp add: lap_times_def)
  have "avg_ms = sum_list ?ts / real (length ?ts)" using s unfolding t(1) mean_time_Inr by simp
  with runs t(2) q show ?thesis unfolding len by (simp add: throughput_def)
qed

section \<open>What the program relies on\<close>

lemma stays_session: "stays c \<Longrightarrow> stays (in_session c)"
  unfolding stays_def in_session_def by (auto split: prod.splits)

lemma stays_record: "stays (record_result f)"
  by (simp add: stays_def record_result_def)

lemma stays_mean: "stays (liftS (mean_time ts))"
  by (simp add: mean_time_def stays_divide)

lemma stays_std: "stays (liftS (std_time ts a))"
  by (auto simp: stays_def std_time_def float_div_def raise_def any_exception_def bindR_def)

lemmas lab_stays = stays_intros stays_session stays_record stays_mean stays_std

text \<open>
  The contract of PyTorch and transformers: the queries and the cache operations of the device and the import return,
  and no other call ends the process.
\<close>

locale lab_laws =
  fixes L :: "('g, 'm, 'k, 't) lab_api"
  assumes importing: "gives (L_import_transformers L) (\<lambda>_. True)"
    and availability: "gives (L_mps_available L) (\<lambda>_. True)"
    and emptying: "gives (L_empty_cache L) (\<lambda>_. True)"
    and device_calls: "stays (L_synchronize L)" "\<And>c. L_current_allocated L = Some c \<Longrightarrow> stays c"
    and tokenizer_calls: "stays (L_load_tokenizer L mid)" "stays (L_encode L k text n)" "stays (L_to L dev ids)"
    and model_calls: "stays (L_load_model L mid dtype dev)" "stays (L_eval L m)" "stays (L_forward L m ids)" "stays (L_generate L m ids n)"
    and widths: "L_width L ids = Inl e \<Longrightarrow> any_exception e"

section \<open>The result under construction\<close>

text \<open>A property of the result that a computation keeps, also when it raises.\<close>

definition keeps_result :: "(model_bench_result \<Rightarrow> bool) \<Rightarrow> ('g lab, 'a) st \<Rightarrow> bool" where
  "keeps_result P c \<longleftrightarrow> (\<forall>l. P (lab_result l) \<longrightarrow> P (lab_result (snd (c l))))"

lemma keeps_bindS: "keeps_result P c \<Longrightarrow> (\<And>x. keeps_result P (f x)) \<Longrightarrow> keeps_result P (bindS c f)"
  unfolding keeps_result_def bindS_def by (fastforce split: prod.splits sum.splits)

lemma keeps_session: "keeps_result P (in_session c)"
  by (simp add: keeps_result_def in_session_def split: prod.split)

lemma keeps_record: "(\<And>r. P r \<Longrightarrow> P (f r)) \<Longrightarrow> keeps_result P (record_result f)"
  by (simp add: keeps_result_def record_result_def)

lemma keeps_lift: "keeps_result P (liftS r)"
  by (simp add: keeps_result_def)

lemma keeps_return: "keeps_result P (returnS x)"
  by (simp add: keeps_result_def)

lemmas keeps_intros = keeps_bindS keeps_session keeps_record keeps_lift keeps_return

text \<open>A result of the model, without an error, and without CPU times where none were asked for.\<close>

definition started :: "model_info \<Rightarrow> model_bench_result \<Rightarrow> bool" where
  "started info r \<longleftrightarrow> model_name r = mi_name info \<and> model_id r = mi_id info \<and> mb_params r = mi_params info
     \<and> mb_dtype r = mi_dtype info \<and> release_year r = mi_year info \<and> mb_error r = None
     \<and> (\<not> mi_cpu_test info \<longrightarrow> cpu_forward_ms r = 0 \<and> speedup_vs_cpu r = 0)"

text \<open>What the report says of a model.\<close>

definition reported :: "model_info \<Rightarrow> model_bench_result \<Rightarrow> bool" where
  "reported info r \<longleftrightarrow> started info (r\<lparr>mb_error := None\<rparr>)
     \<and> (mb_status r = ''success'' \<and> mb_error r = None \<or> mb_status r = ''error'' \<and> mb_error r \<noteq> None)"

lemma started_updates:
  "started info r \<Longrightarrow> started info (r\<lparr>gpu_memory_mb := a\<rparr>)"
  "started info r \<Longrightarrow> started info (r\<lparr>forward_time_ms := a, forward_std_ms := b\<rparr>)"
  "started info r \<Longrightarrow> started info (r\<lparr>gen_time_ms := a, tokens_per_sec := b, gen_tokens := n\<rparr>)"
  "started info r \<Longrightarrow> started info (r\<lparr>mb_status := s\<rparr>)"
  "mi_cpu_test info \<Longrightarrow> started info r \<Longrightarrow> started info (r\<lparr>cpu_forward_ms := a\<rparr>)"
  "mi_cpu_test info \<Longrightarrow> started info r \<Longrightarrow> started info (r\<lparr>speedup_vs_cpu := a\<rparr>)"
  by (simp_all add: started_def)

lemma started_fresh: "started info (fresh_result info)"
  by (simp add: started_def fresh_result_def ModelBenchResult_def)

lemma keeps_ifS: "(b \<Longrightarrow> keeps_result P c) \<Longrightarrow> (\<not> b \<Longrightarrow> keeps_result P d) \<Longrightarrow> keeps_result P (if b then c else d)"
  by simp

lemma body_started: "keeps_result (started info) (model_body H L device info)"
proof -
  have m: "keeps_result (started info) (memory_stage L device)"
    unfolding memory_stage_def by (intro keeps_intros started_updates)
  have f: "keeps_result (started info) (forward_stage H L device m ids)" for m ids
    unfolding forward_stage_def by (intro keeps_intros) (auto intro!: keeps_intros started_updates)
  have g: "keeps_result (started info) (generation_stage H L device m ids)" for m ids
    unfolding generation_stage_def by (intro keeps_intros) (auto intro!: keeps_intros started_updates)
  have c: "keeps_result (started info) (cpu_stage H L info ids t)" for ids t
    unfolding cpu_stage_def by (intro keeps_ifS keeps_intros started_updates)
  show ?thesis
    unfolding model_body_def by (intro keeps_intros) (auto intro!: keeps_intros m f g c started_updates)
qed

lemma in_session_result: "in_session c l = (r, l') \<Longrightarrow> lab_result l' = lab_result l"
  by (auto simp: in_session_def split: prod.splits)

lemma body_success:
  assumes "model_body H L device info l = (Inr x, l')"
  shows "mb_status (lab_result l') = ''success''"
  using assms unfolding model_body_def record_result_def
  by (auto elim!: bindS_Inr_E dest!: in_session_result)

context lab_laws
begin

lemma cleanup_gives: "gives (cleanup L) (\<lambda>_. True)"
  unfolding cleanup_def
  by (rule gives_bind [OF gives_with_generator [OF availability]]) (simp add: gives_with_generator emptying gives_return)

lemma sync_stays: "stays (sync_on L device)"
  by (simp add: sync_on_def stays_generator device_calls stays_return)

lemma timed_stays: "stays c \<Longrightarrow> stays (timed_call H L device c)"
  unfolding timed_call_def by (intro lab_stays sync_stays)

lemma warm_stays: "stays c \<Longrightarrow> stays (warm_call L device c)"
  unfolding warm_call_def by (intro lab_stays sync_stays)

lemma width_stays: "stays (liftS (L_width L ids))"
  unfolding stays_def using widths by simp

lemma forward_stays: "stays (benchmark_forward H L m ids device a b)"
  unfolding benchmark_forward_def by (intro lab_stays timed_stays warm_stays model_calls)

lemma generation_stays: "stays (benchmark_generation H L m ids device n a b)"
  unfolding benchmark_generation_def timed_generation_def Let_def
  by (intro lab_stays timed_stays warm_stays model_calls) (auto intro!: lab_stays width_stays)

lemma cpu_stays: "stays (benchmark_cpu_forward H L mid ids)"
  unfolding benchmark_cpu_forward_def cpu_load_def
  by (intro lab_stays gives_stays [OF importing])
    (auto intro!: lab_stays gives_stays [OF cleanup_gives] model_calls split: option.split)

lemma body_stays: "stays (model_body H L device info)"
proof -
  have e: "stays (encode_prompt L device mid)" for mid
    unfolding encode_prompt_def by (intro lab_stays tokenizer_calls)
  have l: "stays (load_on_mps H L info)"
    unfolding load_on_mps_def by (intro lab_stays model_calls)
  have g: "stays (get_gpu_memory_mb L)"
    unfolding get_gpu_memory_mb_def by (cases "L_current_allocated L") (simp_all add: lab_stays device_calls)
  have s: "stays (memory_stage L device)"
    unfolding memory_stage_def by (intro lab_stays sync_stays g)
  have f: "stays (forward_stage H L device m ids)" for m ids
    unfolding forward_stage_def by (intro lab_stays forward_stays) (auto intro!: lab_stays)
  have n: "stays (generation_stage H L device m ids)" for m ids
    unfolding generation_stage_def by (intro lab_stays generation_stays) (auto intro!: lab_stays)
  have c: "stays (cpu_stage H L info ids t)" for ids t
    unfolding cpu_stage_def by (intro lab_stays cpu_stays)
  show ?thesis
    unfolding model_body_def
    by (intro lab_stays e) (auto intro!: lab_stays l s f n c gives_stays [OF cleanup_gives])
qed

lemma model_reported: "gives (benchmark_model H L device n i info) (reported info)"
proof -
  have "gives (\<lambda>w. case catchS any_exception (model_body H L device info) model_failed \<lparr>lab_session = w, lab_result = fresh_result info\<rparr> of
      (r, l) \<Rightarrow> (bindR r (\<lambda>_. Inr (lab_result l)), lab_session l)) (reported info)"
    unfolding gives_def
  proof
    fix w :: "'g session"
    let ?l = "\<lparr>lab_session = w, lab_result = fresh_result info\<rparr>"
    obtain r l where b: "model_body H L device info ?l = (r, l)" by fastforce
    have s: "started info (lab_result l)"
      using body_started [of info H L device] started_fresh [of info] b unfolding keeps_result_def by (metis lab.select_convs(2) snd_conv)
    show "\<exists>v w'. (case catchS any_exception (model_body H L device info) model_failed ?l of
        (r, l) \<Rightarrow> (bindR r (\<lambda>_. Inr (lab_result l)), lab_session l)) = (Inr v, w') \<and> reported info v"
    proof (cases r)
      case (Inr x)
      then have "mb_status (lab_result l) = ''success''" using body_success b by metis
      with s have "reported info (lab_result l)" by (simp add: reported_def started_def)
      with b Inr show ?thesis by (simp add: catchS_def)
    next
      case (Inl e)
      then have "any_exception e" using body_stays b unfolding stays_def by blast
      with b Inl s show ?thesis
        by (simp add: catchS_def model_failed_def bindS_def record_result_def in_session_def reported_def started_def)
    qed
  qed
  then show ?thesis
    unfolding benchmark_model_def
    by (intro gives_bind [OF gives_say_all] gives_bind [OF _ gives_bind [OF cleanup_gives gives_bind [OF gives_say gives_return]]])
qed

lemma models_reported: "gives (benchmark_models H L device n i infos) (list_all2 reported infos)"
proof (induction infos arbitrary: i)
  case (Cons info infos)
  show ?case unfolding benchmark_models.simps
    by (rule gives_bind [OF model_reported gives_bind [OF Cons.IH gives_return]]) simp
qed (simp add: gives_return)

lemma main_reports:
  "gives (modern_main H L) (\<lambda>doc. \<exists>results. doc = output_document L results \<and> list_all2 reported MODELS results)"
  unfolding modern_main_def Let_def
  by (rule gives_bind [OF gives_say_all] gives_bind [OF gives_say] gives_bind [OF gives_with_generator [OF availability]]
      gives_bind [OF gives_with_generator [OF importing]] gives_bind [OF models_reported] gives_return)+ blast

end

text \<open>
  C11. As long as the library can be imported and the device queried and cleaned, the benchmark always
  finishes and writes a document with exactly one entry for every model of the registry, in order: a
  success without an error, or an error with its text. A model that fails does not keep the others from being
  measured, and the large models are reported without CPU times.
\<close>

theorem modern_benchmark_completes:
  assumes "lab_laws L"
  shows "\<exists>results w'. modern_main H L w = (Inr (output_document L results), w') \<and> list_all2 reported MODELS results
    \<and> length results = 7"
proof -
  obtain results w' where "modern_main H L w = (Inr (output_document L results), w')" and r: "list_all2 reported MODELS results"
    using lab_laws.main_reports [OF assms, of H] unfolding gives_def by blast
  moreover have "length results = 7" using list_all2_lengthD [OF r] by (simp add: MODELS_def)
  ultimately show ?thesis by blast
qed

section \<open>A sample laboratory\<close>

text \<open>A device whose state counts the calls; the model \<open>''Qwen/Qwen2.5-7B''\<close> cannot be loaded.\<close>

definition tick :: "'a \<Rightarrow> (nat, 'a) st" where
  "tick x = (\<lambda>s. (Inr x, Suc s))"

definition sample_lab :: "(nat, string, unit, int) lab_api" where
  "sample_lab = \<lparr>L_import_transformers = tick (), L_mps_available = tick True, L_synchronize = tick (), L_empty_cache = tick (),
     L_current_allocated = Some (tick 1048576), L_load_tokenizer = (\<lambda>_. tick ()), L_pad_missing = (\<lambda>_. False), L_pad_with_eos = id,
     L_encode = (\<lambda>_ _ n. tick n), L_to = (\<lambda>_. tick),
     L_load_model = (\<lambda>mid _ _. if mid = ''Qwen/Qwen2.5-7B'' then raiseS RuntimeError ''out of memory'' else tick mid),
     L_eval = (\<lambda>_. tick ()), L_forward = (\<lambda>_ _. tick ()), L_generate = (\<lambda>_ ids n. tick (ids + n)), L_width = Inr,
     L_torch_version = ''2'', L_python_version = ''3'', L_transformers_version = ''4'', L_date = ''today'', L_out_path = ''out.json''\<rparr>"

lemma gives_tick: "P x \<Longrightarrow> gives (tick x) P"
  by (simp add: gives_def tick_def)

lemma stays_tick: "stays (tick x)"
  by (simp add: stays_def tick_def)

interpretation sample_lab: lab_laws sample_lab
  by unfold_locales (auto simp: sample_lab_def stays_tick stays_raise intro: gives_tick)

definition sample_host :: host where
  "sample_host = \<lparr>host_available = True, host_device = ''M4'', host_clock = (\<lambda>n. real n / 1000), host_float = (\<lambda>_. ''?'')\<rparr>"

definition sample_session :: "nat session" where
  "sample_session = \<lparr>generator = 0, clock_reads = 0, printed = []\<rparr>"

theorem modern_benchmark_completes_witness:
  "\<exists>results w'. modern_main sample_host sample_lab sample_session = (Inr (output_document sample_lab results), w')
    \<and> list_all2 reported MODELS results"
  using modern_benchmark_completes [OF sample_lab.lab_laws_axioms, of sample_host sample_session] by blast

lemmas sample_runs = sample_lab_def sample_host_def sample_session_def tick_def with_generator_def read_clock_def sync_on_def
  timed_call_def warm_call_def bindS_def mean_time_def std_time_def float_div_def

lemma sample_forward: "\<exists>w'. benchmark_forward sample_host sample_lab ''m'' 5 ''mps'' 1 2 sample_session = (Inr (1, 0), w')"
  by (simp add: benchmark_forward_def sample_runs numeral_2_eq_2)

lemma sample_generation:
  "\<exists>w'. benchmark_generation sample_host sample_lab ''m'' 5 ''mps'' 50 1 2 sample_session = (Inr (1, 50000, 50), w')"
  by (simp add: benchmark_generation_def timed_generation_def throughput_def sample_runs numeral_2_eq_2)

theorem forward_statistics_witness:
  "\<exists>w'. benchmark_forward sample_host sample_lab ''m'' 5 ''mps'' 1 2 sample_session = (Inr (1, 0), w') \<and> clock_reads w' = 4"
proof -
  obtain w' where w: "benchmark_forward sample_host sample_lab ''m'' 5 ''mps'' 1 2 sample_session = (Inr (1, 0), w')"
    using sample_forward by blast
  with forward_statistics [OF w] show ?thesis by (simp add: sample_session_def)
qed

theorem generation_throughput_witness:
  "\<exists>w'. benchmark_generation sample_host sample_lab ''m'' 5 ''mps'' 50 1 2 sample_session = (Inr (1, 50000, 50), w') \<and> clock_reads w' = 4"
proof -
  obtain w' where w: "benchmark_generation sample_host sample_lab ''m'' 5 ''mps'' 50 1 2 sample_session = (Inr (1, 50000, 50), w')"
    using sample_generation by blast
  with generation_throughput [OF w] show ?thesis by (simp add: sample_session_def)
qed

end
