(* ===== verification/Huggingface.thy ===== *)
theory Huggingface
  imports ExampleBase Runtime
begin

text \<open>
  \<^verbatim>\<open>examples/huggingface_integration.py\<close>: the demonstrations of the work with transformers, as the program runs them.
  PyTorch and transformers are a parameter (\<open>hf_api\<close>): tokenizers \<open>'k\<close>, models \<open>'m\<close>, inputs \<open>'i\<close> and outputs \<open>'o\<close>, over
  the state \<open>'g\<close> of a session, in which the memory of the device is queried as well. \<open>no_grad\<close> and \<open>nullcontext\<close>
  belong to the calls inside them.
\<close>

section \<open>The libraries\<close>

record ('g, 'k, 'm, 'i, 'o) hf_api =
  HAS_TRANSFORMERS :: bool
  HAS_TORCH :: bool
  HF_version :: string
  HF_tokenizer :: "string \<Rightarrow> ('g, 'k) st"
  HF_model :: "string \<Rightarrow> ('g, 'm) st"
  HF_numel :: "'m \<Rightarrow> ('g, int) st"
  HF_model_type :: "'m \<Rightarrow> ('g, string) st"
  HF_hidden_size :: "'m \<Rightarrow> ('g, string) st"
  HF_tokenize :: "'k \<Rightarrow> string \<Rightarrow> ('g, 'i) st"
  HF_tokenize_batch :: "'k \<Rightarrow> string list \<Rightarrow> ('g, 'i) st"
  HF_ids_shape :: "'i \<Rightarrow> ('g, string) st"
  HF_run :: "'m \<Rightarrow> 'i \<Rightarrow> ('g, 'o) st"
  HF_output_shape :: "'o \<Rightarrow> ('g, string) st"

definition import_warnings :: "('g, 'k, 'm, 'i, 'o) hf_api \<Rightarrow> string list" where
  "import_warnings A =
     (if HAS_TRANSFORMERS A then [] else [''Warning: transformers not available'', ''Install with: pip install transformers''])
     @ (if HAS_TORCH A then [] else [''Warning: torch not available''])"

definition hf_title :: "string \<Rightarrow> string list" where
  "hf_title t = [newline @ ruler CHR ''='', t, ruler CHR ''='']"

definition transformers_missing :: "('g session, unit) st" where
  "transformers_missing = say ''Error: transformers package is required''"

definition model_of_demos :: string where
  "model_of_demos = ''bert-base-uncased''"

text \<open>\<open>except Exception as e: print(f"...: {e}")\<close>.\<close>

definition reporting :: "string \<Rightarrow> ('g session, unit) st \<Rightarrow> ('g session, unit) st" where
  "reporting t c = catchS any_exception c (\<lambda>e. say (t @ '': '' @ str_exc e))"

section \<open>Demonstrations\<close>

definition demo_model_loading :: "('g, 'k, 'm, 'i, 'o) hf_api \<Rightarrow> ('g session, unit) st" where
  "demo_model_loading A =
     bindS (say_all [ruler CHR ''='', ''Model Loading Demo'', ruler CHR ''='']) (\<lambda>_.
     if \<not> HAS_TRANSFORMERS A then transformers_missing
     else bindS (say (newline @ ''Loading model: '' @ model_of_demos)) (\<lambda>_. reporting ''Error loading model''
       (bindS (say ''Loading tokenizer...'') (\<lambda>_.
        bindS (with_generator (HF_tokenizer A model_of_demos)) (\<lambda>_.
        bindS (say_all [''Tokenizer loaded'', ''Loading model...'']) (\<lambda>_.
        bindS (with_generator (HF_model A model_of_demos)) (\<lambda>m.
        bindS (say_all [''Model loaded'', newline @ ''Model info:'']) (\<lambda>_.
        bindS (with_generator (HF_numel A m)) (\<lambda>n.
        bindS (say (''  Parameters: '' @ fmt_fixed 1 (of_int n / 10 ^ 6) @ ''M'')) (\<lambda>_.
        bindS (with_generator (HF_model_type A m)) (\<lambda>t.
        bindS (say (''  Architecture: '' @ t)) (\<lambda>_.
        bindS (with_generator (HF_hidden_size A m)) (\<lambda>h.
        say (''  Hidden size: '' @ h))))))))))))))"

definition demo_inference :: "host \<Rightarrow> ('g, 'k, 'm, 'i, 'o) hf_api \<Rightarrow> ('g session, unit) st" where
  "demo_inference H A =
     bindS (say_all (hf_title ''Inference Demo'')) (\<lambda>_.
     if \<not> HAS_TRANSFORMERS A then transformers_missing
     else bindS (say (newline @ ''Running inference with: '' @ model_of_demos)) (\<lambda>_. reporting ''Error during inference''
       (bindS (with_generator (HF_tokenizer A model_of_demos)) (\<lambda>k.
        bindS (with_generator (HF_model A model_of_demos)) (\<lambda>m.
        let text = ''MetalNative provides high-performance deep learning on Apple Silicon.'' in
        bindS (say (newline @ ''Input text: '' @ text)) (\<lambda>_.
        bindS (with_generator (HF_tokenize A k text)) (\<lambda>inputs.
        bindS (with_generator (HF_ids_shape A inputs)) (\<lambda>sh.
        bindS (say_all [''Input IDs shape: '' @ sh, newline @ ''Running inference...'']) (\<lambda>_.
        bindS (read_clock H) (\<lambda>start.
        bindS (with_generator (HF_run A m inputs)) (\<lambda>outputs.
        bindS (read_clock H) (\<lambda>stop.
        bindS (say (''Inference completed in '' @ fmt_fixed 2 ((stop - start) * 1000) @ '' ms'')) (\<lambda>_.
        bindS (with_generator (HF_output_shape A outputs)) (\<lambda>out.
        say (''Output shape: '' @ out)))))))))))))))"

text \<open>
  The names that \<^verbatim>\<open>accelerate_plugin.py\<close> defines, besides what it imports. The demonstration asks for a function of the
  module by name; \<open>plugin\<close> gives the functions there are.
\<close>

definition plugin_names :: "string list" where
  "plugin_names = [''is_available'', ''MetalNativeAccelerator'', ''_register_backend'']"

definition quoted :: "string \<Rightarrow> string" where
  "quoted s = [CHR 0x27] @ s @ [CHR 0x27]"

definition accelerate_usage :: "string list" where
  "accelerate_usage =
     [newline @ ''MetalNative accelerate plugin usage:'', ruler CHR ''-'',
      ''from metal_native.accelerate_plugin import register_metal_native_backend'', ''from accelerate import Accelerator'', [],
      ''# Register MetalNative as an accelerate backend'', ''register_metal_native_backend()'', [],
      ''# Create accelerator'', ''accelerator = Accelerator(device='' @ quoted ''metal_native'' @ '')'', [],
      ''# Prepare model'', ''model = accelerator.prepare(model)'', [],
      ''# Run inference'', ''with torch.no_grad():'', ''    outputs = model(**inputs)'', ruler CHR ''-'']"

definition plugin_missing :: string where
  "plugin_missing = newline @ ''Note: Accelerate plugin not yet implemented''"

definition demo_accelerate_plugin :: "(string, ('g, unit) st) dict \<Rightarrow> ('g session, unit) st" where
  "demo_accelerate_plugin plugin =
     bindS (say_all (hf_title ''Accelerate Plugin Demo'' @ accelerate_usage)) (\<lambda>_.
     catchS any_exception
       (catchS (\<lambda>e. exc_class e = ImportError)
         (case dict_get plugin ''register_metal_native_backend'' of
            None \<Rightarrow> raiseS ImportError ''cannot import name''
          | Some register \<Rightarrow>
              bindS (say_all [newline @ ''Accelerate plugin is available!'', ''Registering backend...'']) (\<lambda>_.
              bindS (with_generator register) (\<lambda>_. say ''Backend registered successfully'')))
         (\<lambda>_. say plugin_missing))
       (\<lambda>e. say (newline @ ''Error: '' @ str_exc e)))"

definition sample_text :: string where
  "sample_text = ''This is a sample text for benchmarking.''"

text \<open>One batch size: three calls to warm up, then ten timed ones.\<close>

definition time_batch :: "host \<Rightarrow> ('g, 'k, 'm, 'i, 'o) hf_api \<Rightarrow> 'k \<Rightarrow> 'm \<Rightarrow> nat \<Rightarrow> ('g session, unit) st" where
  "time_batch H A k m batch_size =
     bindS (with_generator (HF_tokenize_batch A k (replicate batch_size sample_text))) (\<lambda>inputs.
     bindS (repeatS 3 (with_generator (HF_run A m inputs))) (\<lambda>_.
     bindS (read_clock H) (\<lambda>start.
     bindS (repeatS 10 (with_generator (HF_run A m inputs))) (\<lambda>_.
     bindS (read_clock H) (\<lambda>stop.
     let elapsed = stop - start in
     bindS (liftS (float_div (real (batch_size * 10)) elapsed)) (\<lambda>rate.
     say (ljust 15 (show_nat batch_size) @ '' '' @ ljust 15 (fmt_fixed 2 (elapsed / 10 * 1000)) @ '' '' @ ljust 25 (fmt_fixed 2 rate))))))))"

definition demo_batch_inference :: "host \<Rightarrow> ('g, 'k, 'm, 'i, 'o) hf_api \<Rightarrow> ('g session, unit) st" where
  "demo_batch_inference H A =
     bindS (say_all (hf_title ''Batch Inference Demo'')) (\<lambda>_.
     if \<not> HAS_TRANSFORMERS A then transformers_missing
     else bindS (say (newline @ ''Benchmarking batched inference with: '' @ model_of_demos)) (\<lambda>_. reporting ''Error during batch inference''
       (bindS (with_generator (HF_tokenizer A model_of_demos)) (\<lambda>k.
        bindS (with_generator (HF_model A model_of_demos)) (\<lambda>m.
        bindS (say_all [newline @ ruler CHR ''-'', ljust 15 ''Batch Size'' @ '' '' @ ljust 15 ''Time (ms)'' @ '' '' @ ljust 25 ''Throughput (samples/s)'',
          ruler CHR ''-'']) (\<lambda>_.
        bindS (forS (time_batch H A k m) [1, 4, 8, 16]) (\<lambda>_.
        say (ruler CHR ''-''))))))))"

definition demo_model_conversion :: "('g session, unit) st" where
  "demo_model_conversion = say_all (hf_title ''Model Conversion Demo'' @
     [newline @ ''Converting PyTorch models to MetalNative:'', ruler CHR ''-'', ''Option 1: Direct tensor conversion'',
      ''  for name, param in model.named_parameters():'', ''      param.data = mn.from_torch(param.data)'', [],
      ''Option 2: State dict conversion'', ''  state_dict = model.state_dict()'', ''  metal_state_dict = {'',
      ''      k: mn.from_torch(v) for k, v in state_dict.items()'', ''  }'', ''  model.load_state_dict(metal_state_dict)'', [],
      ''Option 3: Using accelerate (recommended)'', ''  from metal_native.accelerate_plugin import MetalNativeAccelerator'',
      ''  accelerator = MetalNativeAccelerator()'', ''  model = accelerator.prepare(model)'', ruler CHR ''-''])"

definition memory_strategies :: "string list" where
  "memory_strategies =
     [newline @ ''Memory optimization strategies:'', ruler CHR ''-'', ''1. Gradient checkpointing:'',
      ''   model.gradient_checkpointing_enable()'', [], ''2. Mixed precision (bfloat16 on M1/M2):'',
      ''   model = model.to(dtype=mn.bfloat16)'', [], ''3. Batch size tuning:'', ''   # Start with small batch, increase until OOM'',
      ''   for batch_size in [1, 2, 4, 8, 16, 32]:'', ''       try:'', ''           outputs = model(inputs[:batch_size])'',
      ''       except RuntimeError as e:'', ''           optimal_batch_size = batch_size // 2'', ''           break'', [],
      ''4. Monitor memory usage:'', ''   print(f'' @ quoted ''Allocated: {mn.memory_allocated() / 1e9:.2f} GB'' @ '')'',
      ''   print(f'' @ quoted ''Peak: {mn.max_memory_allocated() / 1e9:.2f} GB'' @ '')'', ruler CHR ''-'']"

definition say_megabytes :: "string \<Rightarrow> ('g, int) st \<Rightarrow> ('g session, unit) st" where
  "say_megabytes label query =
     bindS (with_generator query) (\<lambda>n. say (label @ fmt_fixed 2 (of_int n / 1024 ^ 2) @ '' MB''))"

definition demo_memory_optimization :: "'g runtime_api cmod \<Rightarrow> ('g session, unit) st" where
  "demo_memory_optimization rt =
     bindS (say_all (hf_title ''Memory Optimization Demo'' @ memory_strategies @ [newline @ ''Current MetalNative memory stats:''])) (\<lambda>_.
     bindS (say_megabytes ''  Allocated: '' (memory_allocated rt)) (\<lambda>_.
     say_megabytes ''  Peak:      '' (max_memory_allocated rt)))"

section \<open>The program\<close>

datatype hf_demo = AllDemos | LoadingDemo | InferenceDemo | AccelerateDemo | BatchDemo | ConversionDemo | MemoryDemo

text \<open>\<open>args.demo in ['all', d]\<close>.\<close>

definition when_asked :: "hf_demo \<Rightarrow> hf_demo \<Rightarrow> ('g session, unit) st \<Rightarrow> ('g session, unit) st" where
  "when_asked asked d c = (if asked = AllDemos \<or> asked = d then c else returnS ())"

definition hf_demos ::
  "host \<Rightarrow> ('g, 'k, 'm, 'i, 'o) hf_api \<Rightarrow> (string, ('g, unit) st) dict \<Rightarrow> 'g runtime_api cmod \<Rightarrow> hf_demo \<Rightarrow> ('g session, unit) st" where
  "hf_demos H A plugin rt d =
     bindS (when_asked d LoadingDemo (demo_model_loading A)) (\<lambda>_.
     bindS (when_asked d InferenceDemo (demo_inference H A)) (\<lambda>_.
     bindS (when_asked d AccelerateDemo (demo_accelerate_plugin plugin)) (\<lambda>_.
     bindS (when_asked d BatchDemo (demo_batch_inference H A)) (\<lambda>_.
     bindS (when_asked d ConversionDemo demo_model_conversion) (\<lambda>_.
     bindS (when_asked d MemoryDemo (demo_memory_optimization rt)) (\<lambda>_.
     say_all (hf_title ''Demo completed!'')))))))"

definition hf_main ::
  "host \<Rightarrow> ('g, 'k, 'm, 'i, 'o) hf_api \<Rightarrow> (string, ('g, unit) st) dict \<Rightarrow> 'g runtime_api cmod \<Rightarrow> string \<Rightarrow> hf_demo
   \<Rightarrow> ('g session, unit) st" where
  "hf_main H A plugin rt version d =
     bindS (say_all (import_warnings A @ [''HuggingFace Transformers + MetalNative Integration'', ruler CHR ''='']
       @ (if HAS_TRANSFORMERS A then [] else [''Warning: transformers not installed'', ''Install with: pip install transformers'', []]))) (\<lambda>_.
     bindS (with_generator (is_available rt)) (\<lambda>av.
     if \<not> av then say metal_missing
     else
       bindS (with_generator (device_name rt)) (\<lambda>name.
       bindS (say_all ([''Device: '' @ name, ''MetalNative version: '' @ version]
         @ (if HAS_TRANSFORMERS A then [''Transformers version: '' @ HF_version A] else []) @ [[]])) (\<lambda>_.
       hf_demos H A plugin rt d))))"

end
