(* ===== verification/HuggingfaceProps.thy ===== *)
theory HuggingfaceProps
  imports Huggingface RuntimeProps
begin

text \<open>
  Properties of the demonstrations with transformers: what fails in the libraries stays inside its demonstration, and the one
  with the Accelerate plugin never finds what it looks for.
\<close>

section \<open>What the demonstrations rely on\<close>

locale hf_laws =
  fixes A :: "('g, 'k, 'm, 'i, 'o) hf_api"
  assumes loading: "stays (HF_tokenizer A name)" "stays (HF_model A name)"
    and queries: "stays (HF_numel A m)" "stays (HF_model_type A m)" "stays (HF_hidden_size A m)"
    and inputs: "stays (HF_tokenize A k t)" "stays (HF_tokenize_batch A k ts)" "stays (HF_ids_shape A i)"
    and running: "stays (HF_run A m i)" "stays (HF_output_shape A out)"
begin

lemma reported_gives: "stays c \<Longrightarrow> gives (reporting t c) (\<lambda>_. True)"
  unfolding reporting_def by (rule gives_caught) (simp_all add: gives_say)

lemma missing_gives: "gives transformers_missing (\<lambda>_. True)"
  by (simp add: transformers_missing_def gives_say)

lemma body: "stays c \<Longrightarrow> gives (bindS (say t) (\<lambda>_. reporting u c)) (\<lambda>_. True)"
  by (intro gives_bind [OF gives_say] reported_gives)

lemma loading_gives: "gives (demo_model_loading A) (\<lambda>_. True)"
  unfolding demo_model_loading_def
  by (rule gives_bind [OF gives_say_all]) (auto intro!: missing_gives body stays_intros loading queries)

lemma inference_gives: "gives (demo_inference H A) (\<lambda>_. True)"
  unfolding demo_inference_def Let_def
  by (rule gives_bind [OF gives_say_all]) (auto intro!: missing_gives body stays_intros loading inputs running)

lemma time_batch_stays: "stays (time_batch H A k m n)"
  unfolding time_batch_def Let_def by (intro stays_intros inputs running)

lemma stays_for: "(\<And>x. stays (f x)) \<Longrightarrow> stays (forS f xs)"
  by (induction xs) (simp_all add: stays_bind stays_return)

lemma batch_gives: "gives (demo_batch_inference H A) (\<lambda>_. True)"
  unfolding demo_batch_inference_def
  by (rule gives_bind [OF gives_say_all]) (auto intro!: missing_gives body stays_intros loading stays_for time_batch_stays)

lemma accelerate_gives:
  fixes plugin :: "(string, ('g, unit) st) dict"
  assumes "\<forall>c \<in> set (map snd plugin). stays c"
  shows "gives (demo_accelerate_plugin plugin) (\<lambda>_. True)"
proof -
  have "stays c" if "dict_get plugin k = Some c" for c k
    using that assms by (auto simp: dict_get_def dest!: map_of_SomeD)
  then have "stays (case dict_get plugin k of None \<Rightarrow> raiseS ImportError t
      | Some register \<Rightarrow> bindS (say_all ts) (\<lambda>_. bindS (with_generator register) (\<lambda>_. say u)))" for k t ts u
    by (auto intro!: stays_intros stays_raise split: option.split)
  note st = this
  have "stays (catchS (\<lambda>e. exc_class e = ImportError) c (\<lambda>_. say t))" if "stays c" for c :: "('g session, unit) st" and t
    using that unfolding stays_def catchS_def by (auto split: prod.splits sum.splits if_splits)
  note it = this
  show ?thesis
    unfolding demo_accelerate_plugin_def
    by (rule gives_bind [OF gives_say_all gives_caught [OF it [OF st] gives_say]])
qed

lemma demos_give:
  assumes "\<forall>c \<in> set (map snd plugin). stays c"
    and "d \<in> {AllDemos, MemoryDemo} \<longrightarrow> gives (memory_allocated rt) (\<lambda>_. True) \<and> gives (max_memory_allocated rt) (\<lambda>_. True)"
  shows "gives (hf_demos H A plugin rt d) (\<lambda>_. True)"
proof -
  have w: "gives (when_asked d x c) (\<lambda>_. True)" if "d = AllDemos \<or> d = x \<Longrightarrow> gives c (\<lambda>_. True)" for x c
    using that by (auto simp: when_asked_def intro: gives_return)
  have m: "gives (demo_memory_optimization rt) (\<lambda>_. True)" if "d = AllDemos \<or> d = MemoryDemo"
    using that assms(2) unfolding demo_memory_optimization_def say_megabytes_def
    by (intro gives_bind [OF gives_say_all] gives_bind [OF gives_bind [OF gives_with_generator gives_say]] gives_bind [OF gives_with_generator] gives_say) auto
  have c: "gives demo_model_conversion (\<lambda>_. True)"
    unfolding demo_model_conversion_def by (rule gives_say_all)
  show ?thesis
    unfolding hf_demos_def
    by (intro gives_bind [OF w [OF loading_gives]] gives_bind [OF w [OF inference_gives]] gives_bind [OF w [OF accelerate_gives [OF assms(1)]]]
        gives_bind [OF w [OF batch_gives]] gives_bind [OF w [OF c]] gives_bind [OF w [OF m]] gives_say_all)
qed

end

text \<open>
  Where Metal is available, the program returns whatever the libraries raise, as long as they do not end
  the process: only the memory demonstration can fail, when the memory cannot be queried.
\<close>

theorem hf_failures_contained:
  assumes "hf_laws A" and "\<forall>c \<in> set (map snd plugin). stays c"
    and "gives (is_available rt) (\<lambda>_. True)" and "gives (device_name rt) (\<lambda>_. True)"
    and "d \<in> {AllDemos, MemoryDemo} \<longrightarrow> gives (memory_allocated rt) (\<lambda>_. True) \<and> gives (max_memory_allocated rt) (\<lambda>_. True)"
  shows "\<exists>w'. hf_main H A plugin rt version d w = (Inr (), w')"
proof -
  have if_gives: "gives (if b then c else e) (\<lambda>_. True)" if "gives c (\<lambda>_. True)" "gives e (\<lambda>_. True)" for b and c e :: "('a session, unit) st"
    using that by simp
  have "gives (hf_main H A plugin rt version d) (\<lambda>_. True)"
    unfolding hf_main_def
    by (rule gives_bind [OF gives_say_all gives_bind [OF gives_with_generator [OF assms(3)] if_gives [OF gives_say
      gives_bind [OF gives_with_generator [OF assms(4)] gives_bind [OF gives_say_all hf_laws.demos_give [OF assms(1,2,5)]]]]]])
  then show ?thesis unfolding gives_def by simp
qed

text \<open>
  With the functions that the plugin has, the demonstration of the plugin changes no state but the text, and
  ends with the note that the plugin does not exist yet.
\<close>

theorem plugin_never_found:
  assumes "map fst plugin = plugin_names"
  shows "\<exists>t. demo_accelerate_plugin plugin w = (Inr (), w\<lparr>printed := printed w @ t @ plugin_missing @ newline\<rparr>)"
proof -
  have "dict_get plugin ''register_metal_native_backend'' = None"
    using assms by (auto simp: dict_get_def map_of_eq_None_iff plugin_names_def simp flip: set_map)
  then show ?thesis
    unfolding demo_accelerate_plugin_def say_all_bind
    by (intro exI [of _ "concat (map (\<lambda>t. t @ newline) (hf_title ''Accelerate Plugin Demo'' @ accelerate_usage))"])
      (simp add: catchS_def raise_def)
qed

section \<open>A sample run\<close>

text \<open>The models cannot be downloaded; the state is the device of the package's core.\<close>

definition offline :: "(gpu, unit, unit, unit, unit) hf_api" where
  "offline = \<lparr>HAS_TRANSFORMERS = True, HAS_TORCH = True, HF_version = ''4'', HF_tokenizer = (\<lambda>_. returnS ()),
     HF_model = (\<lambda>_. raiseS (OtherError ''OSError'') ''offline''), HF_numel = (\<lambda>_. returnS 0), HF_model_type = (\<lambda>_. returnS ''bert''),
     HF_hidden_size = (\<lambda>_. returnS ''768''), HF_tokenize = (\<lambda>_ _. returnS ()), HF_tokenize_batch = (\<lambda>_ _. returnS ()),
     HF_ids_shape = (\<lambda>_. returnS ''?''), HF_run = (\<lambda>_ _. returnS ()), HF_output_shape = (\<lambda>_. returnS ''?'')\<rparr>"

interpretation offline: hf_laws offline
  by unfold_locales (simp_all add: offline_def stays_return stays_raise)

lemma core_answers:
  "gives (is_available (CMod (core_runtime sync))) (\<lambda>_. True)" "gives (device_name (CMod (core_runtime sync))) (\<lambda>_. True)"
  by (simp_all add: gives_def is_available_def device_name_def native_call_def attr_call_def core_is_available_def core_device_name_def
      catchS_def bindS_def)

theorem hf_failures_contained_witness:
  "\<exists>w'. hf_main \<lparr>host_available = True, host_device = ''M4'', host_clock = (\<lambda>n. real n), host_float = (\<lambda>_. ''?'')\<rparr> offline []
     (CMod (core_runtime (returnS ()))) ''0.1.0'' BatchDemo \<lparr>generator = sample_gpu, clock_reads = 0, printed = []\<rparr> = (Inr (), w')"
  by (rule hf_failures_contained [OF offline.hf_laws_axioms _ core_answers]) simp_all

theorem plugin_never_found_witness:
  "\<exists>t. demo_accelerate_plugin [(''is_available'', returnS ()), (''MetalNativeAccelerator'', returnS ()), (''_register_backend'', returnS ())]
       \<lparr>generator = (0 :: nat), clock_reads = 0, printed = []\<rparr>
     = (Inr (), \<lparr>generator = 0, clock_reads = 0, printed = t @ plugin_missing @ newline\<rparr>)"
proof -
  have "map fst [(''is_available'', returnS () :: (nat, unit) st), (''MetalNativeAccelerator'', returnS ()), (''_register_backend'', returnS ())] = plugin_names"
    unfolding plugin_names_def by (simp only: list.map fst_conv)
  from plugin_never_found [OF this, of "\<lparr>generator = 0, clock_reads = 0, printed = []\<rparr>"] show ?thesis
    unfolding session.simps append_Nil .
qed

end
