(* ===== verification/ProfilingDemo.thy ===== *)
theory ProfilingDemo
  imports ExampleBase Runtime Tensors
begin

text \<open>
  \<^verbatim>\<open>examples/profiling_demo.py\<close>: the demonstrations of tensors, timing and memory statistics. An operation on tensors
  is the one of theory Tensors; what it does to the memory of the device is a parameter (\<open>on_gpu\<close>), since the statistics
  are read in between, and so are NumPy's random matrices (\<open>randn_matrix\<close>).
\<close>

record ('g, 'h, 'c, 'd) demo_env =
  numpy_of :: "'d numpy_api"
  native_of :: "('h, 'c) native_api"
  runtime_of :: "'g runtime_api cmod"
  on_gpu :: "'h tensor res \<Rightarrow> ('g, 'h tensor) st"
  randn_matrix :: "int \<Rightarrow> ('g, ndarray) st"
  text_of :: "pyval \<Rightarrow> string"

definition demo_title :: "string \<Rightarrow> string list" where
  "demo_title t = [newline @ ruler CHR ''='', t, ruler CHR ''='']"

definition random_tensor :: "('g, 'h, 'c, 'd) demo_env \<Rightarrow> int \<Rightarrow> ('g session, 'h tensor) st" where
  "random_tensor E size_n =
     bindS (with_generator (randn_matrix E size_n)) (\<lambda>a.
     with_generator (on_gpu E (from_numpy (numpy_of E) (CMod (native_of E)) a False)))"

definition tensor_op :: "('g, 'h, 'c, 'd) demo_env \<Rightarrow> 'h tensor res \<Rightarrow> ('g session, 'h tensor) st" where
  "tensor_op E r = with_generator (on_gpu E r)"

definition in_megabytes :: "int \<Rightarrow> string" where
  "in_megabytes n = fmt_fixed 2 (of_int n / 1024 ^ 2)"

definition memory_state :: "('g, 'h, 'c, 'd) demo_env \<Rightarrow> ('g session, unit) st" where
  "memory_state E =
     bindS (with_generator (memory_allocated (runtime_of E))) (\<lambda>n.
     bindS (say (''  Allocated: '' @ in_megabytes n @ '' MB'')) (\<lambda>_.
     bindS (with_generator (max_memory_allocated (runtime_of E))) (\<lambda>p.
     say (''  Peak:      '' @ in_megabytes p @ '' MB''))))"

section \<open>The demonstrations\<close>

definition demo_basic_profiling :: "host \<Rightarrow> ('g, 'h, 'c, 'd) demo_env \<Rightarrow> ('g session, unit) st" where
  "demo_basic_profiling H E =
     (let N = native_of E in
     bindS (say_all [ruler CHR ''='', ''Basic Profiling Demo'', ruler CHR ''='', newline @ ''Creating 2048x2048 matrices...'']) (\<lambda>_.
     bindS (random_tensor E 2048) (\<lambda>a.
     bindS (random_tensor E 2048) (\<lambda>b.
     bindS (say (newline @ ''Initial memory state:'')) (\<lambda>_.
     bindS (memory_state E) (\<lambda>_.
     bindS (say (newline @ ''Performing matrix operations...'')) (\<lambda>_.
     bindS (read_clock H) (\<lambda>start.
     bindS (tensor_op E (Tensor_matmul N a (OpTensor b))) (\<lambda>c.
     bindS (with_generator (synchronize (runtime_of E))) (\<lambda>_.
     bindS (tensor_op E (Tensor_add N c (OpTensor a))) (\<lambda>d.
     bindS (tensor_op E (Tensor_mul N d (OpNumber 2))) (\<lambda>e.
     bindS (tensor_op E (Tensor_sub N e (OpTensor b))) (\<lambda>f.
     bindS (with_generator (synchronize (runtime_of E))) (\<lambda>_.
     bindS (read_clock H) (\<lambda>stop.
     bindS (say_all [''Operations completed in '' @ fmt_fixed 2 ((stop - start) * 1000) @ '' ms'', newline @ ''Final memory state:'']) (\<lambda>_.
     bindS (memory_state E) (\<lambda>_.
     bindS (with_generator (reset_peak_stats (runtime_of E))) (\<lambda>_.
     say (newline @ ''Peak memory stats reset'')))))))))))))))))))"

definition demo_trace_context :: "('g session, unit) st" where
  "demo_trace_context = say_all (demo_title ''TraceContext Demo'' @
     [newline @ ''TraceContext API demonstration (placeholder):'', ''  Usage pattern:'',
      ''    with mn.TraceContext('' @ [CHR 0x27] @ ''operation_name'' @ [CHR 0x27] @ '') as trace:'',
      ''        # ... perform operations ...'', ''        mn.synchronize()'',
      ''    print(f'' @ [CHR 0x27] @ ''Duration: {trace.duration_ms()} ms'' @ [CHR 0x27] @ '')''])"

definition demo_performance_counters :: "('g session, unit) st" where
  "demo_performance_counters = say_all (demo_title ''Performance Counters Demo'' @
     [newline @ ''Performance counter API demonstration (placeholder):'', ''  Available counters might include:'',
      ''    - gpu_utilization: GPU busy percentage'', ''    - memory_bandwidth: Memory bandwidth utilization'',
      ''    - shader_cycles: Total shader core cycles'', ''    - cache_hit_rate: Cache hit rate percentage'',
      newline @ ''  Usage pattern:'', ''    counters = mn.read_performance_counters()'',
      ''    print(f'' @ [CHR 0x27] @ ''GPU utilization: {counters['' @ [CHR 0x27] @ ''gpu_utilization'' @ [CHR 0x27] @ '']}%'' @ [CHR 0x27] @ '')''])"

definition snapshot_sizes :: "int list" where
  "snapshot_sizes = [64, 128, 256, 512, 1024]"

fun create_tensors :: "('g, 'h, 'c, 'd) demo_env \<Rightarrow> int list \<Rightarrow> ('g session, 'h tensor list) st" where
  "create_tensors E [] = returnS []"
| "create_tensors E (n # ns) =
     bindS (tensor_op E (zeros (CMod (native_of E)) [n, n] None False)) (\<lambda>t.
     bindS (say (''  Created '' @ show_int n @ ''x'' @ show_int n @ '' tensor'')) (\<lambda>_.
     bindS (create_tensors E ns) (\<lambda>ts. returnS (t # ts))))"

definition overhead_line :: "int \<Rightarrow> int \<Rightarrow> string res" where
  "overhead_line overhead allocated =
     bindR (float_div (of_int (100 * overhead)) (of_int allocated)) (\<lambda>pct.
     Inr (''  Overhead:           '' @ in_megabytes overhead @ '' MB ('' @ fmt_fixed 1 pct @ ''%)''))"

definition demo_memory_snapshot :: "('g, 'h, 'c, 'd) demo_env \<Rightarrow> ('g session, unit) st" where
  "demo_memory_snapshot E =
     bindS (say_all (demo_title ''Memory Snapshot Demo'' @ [newline @ ''Creating tensors to generate memory activity...''])) (\<lambda>_.
     bindS (create_tensors E snapshot_sizes) (\<lambda>tensors.
     bindS (with_generator (memory_allocated (runtime_of E))) (\<lambda>allocated.
     bindS (with_generator (max_memory_allocated (runtime_of E))) (\<lambda>peak.
     bindS (say_all [newline @ ''Memory snapshot:'', ''  Current allocation: '' @ in_megabytes allocated @ '' MB'',
       ''  Peak allocation:    '' @ in_megabytes peak @ '' MB'', ''  Number of tensors:  '' @ show_nat (length tensors)]) (\<lambda>_.
     bindS (liftS (mapR (Tensor_nbytes (native_of E)) tensors)) (\<lambda>sizes.
     bindS (say (''  Tensor data:        '' @ in_megabytes (sum_list sizes) @ '' MB'')) (\<lambda>_.
     bindS (liftS (overhead_line (allocated - sum_list sizes) allocated)) say)))))))"

definition operations :: "('h, 'c) native_api \<Rightarrow> (string \<times> ('h tensor \<Rightarrow> 'h tensor \<Rightarrow> 'h tensor res) \<times> int) list" where
  "operations N =
     [(''Matrix Mul 512x512'', \<lambda>a b. Tensor_matmul N a (OpTensor b), 512),
      (''Matrix Mul 1024x1024'', \<lambda>a b. Tensor_matmul N a (OpTensor b), 1024),
      (''Matrix Mul 2048x2048'', \<lambda>a b. Tensor_matmul N a (OpTensor b), 2048),
      (''Element-wise Add'', \<lambda>a b. Tensor_add N a (OpTensor b), 1024),
      (''Element-wise Mul'', \<lambda>a b. Tensor_mul N a (OpTensor b), 1024),
      (''Element-wise Div'', \<lambda>a b. Tensor_truediv N a (OpTensor b), 1024)]"

text \<open>Three calls to warm up and ten timed ones, each followed by a synchronisation.\<close>

definition synced :: "('g, 'h, 'c, 'd) demo_env \<Rightarrow> 'h tensor res \<Rightarrow> ('g session, 'h tensor) st" where
  "synced E r = bindS (tensor_op E r) (\<lambda>t. bindS (with_generator (synchronize (runtime_of E))) (\<lambda>_. returnS t))"

definition profile_operation ::
  "host \<Rightarrow> ('g, 'h, 'c, 'd) demo_env \<Rightarrow> string \<times> ('h tensor \<Rightarrow> 'h tensor \<Rightarrow> 'h tensor res) \<times> int \<Rightarrow> ('g session, unit) st" where
  "profile_operation H E entry = (case entry of (name, f, n) \<Rightarrow>
     bindS (random_tensor E n) (\<lambda>a.
     bindS (random_tensor E n) (\<lambda>b.
     bindS (repeatS 3 (synced E (f a b))) (\<lambda>_.
     bindS (with_generator (reset_peak_stats (runtime_of E))) (\<lambda>_.
     bindS (read_clock H) (\<lambda>start.
     bindS (repeatS 10 (synced E (f a b))) (\<lambda>_.
     bindS (read_clock H) (\<lambda>stop.
     bindS (with_generator (max_memory_allocated (runtime_of E))) (\<lambda>peak.
     say (ljust 25 name @ '': '' @ rjust 7 (fmt_fixed 2 ((stop - start) / 10 * 1000)) @ '' ms  |  Peak mem: ''
       @ rjust 6 (in_megabytes peak) @ '' MB''))))))))))"

definition demo_operation_benchmark :: "host \<Rightarrow> ('g, 'h, 'c, 'd) demo_env \<Rightarrow> ('g session, unit) st" where
  "demo_operation_benchmark H E =
     bindS (say_all (demo_title ''Operation Benchmark with Profiling'' @ [newline @ ''Benchmarking operations...'', ruler CHR ''-''])) (\<lambda>_.
     bindS (forS (profile_operation H E) (operations (native_of E))) (\<lambda>_. say (ruler CHR ''-'')))"

section \<open>The program\<close>

datatype profiling_choice = AllProfiling | BasicChoice | TraceChoice | CountersChoice | SnapshotChoice | BenchmarkChoice

definition when_chosen :: "profiling_choice \<Rightarrow> profiling_choice \<Rightarrow> ('g session, unit) st \<Rightarrow> ('g session, unit) st" where
  "when_chosen asked d c = (if asked = AllProfiling \<or> asked = d then c else returnS ())"

text \<open>The bare \<open>except\<close> takes every exception.\<close>

definition property_line :: "('g, 'h, 'c, 'd) demo_env \<Rightarrow> pyval \<Rightarrow> string \<Rightarrow> string \<Rightarrow> ('g session, unit) st" where
  "property_line E props label key =
     bindS (liftS (py_get props key (PyStr ''N/A''))) (\<lambda>v. say (label @ py_str (text_of E) v))"

definition show_properties :: "('g, 'h, 'c, 'd) demo_env \<Rightarrow> ('g session, unit) st" where
  "show_properties E = catchS (\<lambda>_. True)
     (bindS (with_generator (device_properties (runtime_of E))) (\<lambda>props.
      if truthy props
      then bindS (property_line E props ''Max buffer length: '' ''max_buffer_length'') (\<lambda>_.
           property_line E props ''Max threads per group: '' ''max_threads_per_group'')
      else returnS ()))
     (\<lambda>_. returnS ())"

definition run_demos :: "host \<Rightarrow> ('g, 'h, 'c, 'd) demo_env \<Rightarrow> profiling_choice \<Rightarrow> ('g session, unit) st" where
  "run_demos H E d =
     bindS (when_chosen d BasicChoice (demo_basic_profiling H E)) (\<lambda>_.
     bindS (when_chosen d TraceChoice demo_trace_context) (\<lambda>_.
     bindS (when_chosen d CountersChoice demo_performance_counters) (\<lambda>_.
     bindS (when_chosen d SnapshotChoice (demo_memory_snapshot E)) (\<lambda>_.
     bindS (when_chosen d BenchmarkChoice (demo_operation_benchmark H E)) (\<lambda>_.
     say_all (demo_title ''Profiling demo completed''))))))"

definition profiling_main :: "host \<Rightarrow> ('g, 'h, 'c, 'd) demo_env \<Rightarrow> profiling_choice \<Rightarrow> ('g session, unit) st" where
  "profiling_main H E d =
     bindS (say_all [''MetalNative Profiling Demonstration'', ruler CHR ''='']) (\<lambda>_.
     bindS (with_generator (is_available (runtime_of E))) (\<lambda>av.
     if \<not> av then say metal_missing
     else
       bindS (with_generator (device_name (runtime_of E))) (\<lambda>name.
       bindS (say (''Device: '' @ name)) (\<lambda>_.
       bindS (show_properties E) (\<lambda>_.
       bindS (say []) (\<lambda>_. run_demos H E d))))))"

end
