(* ===== verification/ProfilingDemoProps.thy ===== *)
theory ProfilingDemoProps
  imports ProfilingDemo BridgeProps
begin

text \<open>
  A property of the memory demonstration over the package's C++ core: what its overhead is, and when it
  can be computed.
\<close>

lemma gives_run: "gives c P \<Longrightarrow> (\<And>v s. P v \<Longrightarrow> Q (f v s)) \<Longrightarrow> Q (bindS c f s)"
  unfolding gives_def bindS_def by (metis (no_types, lifting) old.sum.simps(6) prod.case)

text \<open>A square of zeros takes four bytes for every element.\<close>

lemma square_bytes:
  assumes "\<forall>n. alloc_ok dev n" and "0 < n" and "n < 2 ^ 20"
  shows "\<exists>t. zeros (CMod (cpp_api dev k)) [n, n] None False = Inr t \<and> Tensor_nbytes (cpp_api dev k) t = Inr (4 * n * n)"
proof -
  have "n * n \<le> 2 ^ 20 * 2 ^ 20" using assms(2,3) by (intro mult_mono) auto
  then have f: "fits [n, n]" "prod_list [n, n] \<le> size_max div 8" using assms(2) by (auto simp: fits_def size_max_def)
  show ?thesis
    using f(1)
    by (simp add: zeros_def mn_filled_def mn_empty_ok [OF f assms(1)] default_dtype_def parse_dtype_str_def float32_def fits_numel
        from_handle_def Tensor_nbytes_def Tensor_size_def shape_of_def dtype_of_def dict_get_def DTYPE_MAP_def dtype_consts)
qed

lemma gives_tensor_op:
  assumes "\<forall>r g. fst (on_gpu E r g) = r"
  shows "gives (tensor_op E (Inr t)) (\<lambda>u. u = t)"
  unfolding tensor_op_def
proof (rule gives_with_generator, unfold gives_def, rule allI)
  fix g
  have "fst (on_gpu E (Inr t) g) = Inr t" using assms by blast
  then show "\<exists>v s'. on_gpu E (Inr t) g = (Inr v, s') \<and> v = t" by (cases "on_gpu E (Inr t) g") simp
qed

lemma create_squares:
  assumes "\<forall>r g. fst (on_gpu E r g) = r" and "native_of E = cpp_api dev k" and "\<forall>n. alloc_ok dev n"
    and "\<forall>n \<in> set ns. 0 < n \<and> n < 2 ^ 20"
  shows "gives (create_tensors E ns) (\<lambda>ts. mapR (Tensor_nbytes (cpp_api dev k)) ts = Inr (map (\<lambda>n. 4 * n * n) ns))"
  using assms(4)
proof (induction ns)
  case (Cons n ns)
  then obtain t where t: "zeros (CMod (cpp_api dev k)) [n, n] None False = Inr t" "Tensor_nbytes (cpp_api dev k) t = Inr (4 * n * n)"
    using square_bytes [OF assms(3), of n k] by auto
  have op: "gives (tensor_op E (zeros (CMod (native_of E)) [n, n] None False)) (\<lambda>u. u = t)"
    unfolding assms(2) t(1) by (rule gives_tensor_op [OF assms(1)])
  have "gives (create_tensors E ns) (\<lambda>ts. mapR (Tensor_nbytes (cpp_api dev k)) ts = Inr (map (\<lambda>n. 4 * n * n) ns))"
    using Cons by simp
  then show ?case unfolding create_tensors.simps
    by (rule gives_bind [OF op gives_bind [OF gives_say gives_bind [OF _ gives_return]]]) (simp add: t(2))
qed (simp add: gives_return)

text \<open>
  The memory demonstration creates five tensors of 5586944 bytes altogether and reports what is allocated beyond
  them as overhead, in megabytes and as a share of all; when the device reports no memory in use it raises ZeroDivisionError.
\<close>

theorem snapshot_overhead:
  assumes "\<forall>r g. fst (on_gpu E r g) = r" and "native_of E = cpp_api dev k" and "\<forall>n. alloc_ok dev n"
    and "gives (memory_allocated (runtime_of E)) (\<lambda>n. n = a)" and "gives (max_memory_allocated (runtime_of E)) (\<lambda>_. True)"
  shows "if a = 0 then raises ZeroDivisionError (fst (demo_memory_snapshot E w))
    else \<exists>w' t. demo_memory_snapshot E w = (Inr (), w') \<and> printed w' = t @ ''  Overhead:           '' @ in_megabytes (a - 5586944)
      @ '' MB ('' @ fmt_fixed 1 (of_int (100 * (a - 5586944)) / of_int a) @ ''%)'' @ newline"
proof -
  let ?Q = "\<lambda>r :: unit res \<times> 'a session. if a = 0 then raises ZeroDivisionError (fst r)
    else \<exists>w' t. r = (Inr (), w') \<and> printed w' = t @ ''  Overhead:           '' @ in_megabytes (a - 5586944)
      @ '' MB ('' @ fmt_fixed 1 (of_int (100 * (a - 5586944)) / of_int a) @ ''%)'' @ newline"
  have sz: "\<forall>n \<in> set snapshot_sizes. 0 < n \<and> n < 2 ^ 20" by (simp add: snapshot_sizes_def)
  have total: "sum_list (map (\<lambda>n. 4 * n * n) snapshot_sizes) = 5586944" by (simp add: snapshot_sizes_def)
  have final: "?Q (bindS (liftS (overhead_line (a - 5586944) a)) say v)" for v
    by (cases "a = 0") (simp_all add: overhead_line_def float_div_def bindS_def raise_def)
  show ?thesis
    unfolding demo_memory_snapshot_def
  proof (rule gives_run [OF gives_say_all], rule gives_run [OF create_squares [OF assms(1-3) sz]],
      rule gives_run [OF gives_with_generator [OF assms(4)]], rule gives_run [OF gives_with_generator [OF assms(5)]], rule gives_run [OF gives_say_all])
    fix ts n v
    assume ts: "mapR (Tensor_nbytes (cpp_api dev k)) ts = Inr (map (\<lambda>n. 4 * n * n) snapshot_sizes)" and n: "n = a"
    show "?Q (bindS (liftS (mapR (Tensor_nbytes (native_of E)) ts)) (\<lambda>sizes.
        bindS (say (''  Tensor data:        '' @ in_megabytes (sum_list sizes) @ '' MB'')) (\<lambda>_.
        bindS (liftS (overhead_line (n - sum_list sizes) n)) say)) v)"
      unfolding assms(2) ts n
      by (rule gives_run [OF gives_lift [OF refl, where P = "\<lambda>s. s = map (\<lambda>n. 4 * n * n) snapshot_sizes", OF refl]], rule gives_run [OF gives_say])
        (simp only: total, rule final)
  qed
qed

section \<open>A sample device\<close>

text \<open>Half of what the device reports belongs to the five tensors.\<close>

definition sample_runtime :: "nat runtime_api" where
  "sample_runtime = \<lparr>R_device_name = Some (returnS ''M4''), R_is_available = Some (returnS True), R_device_properties = None,
     R_supports_bfloat16 = None, R_synchronize = Some (returnS ()), R_empty_cache = Some (returnS ()),
     R_memory_allocated = Some (returnS 11173888), R_max_memory_allocated = Some (returnS 20000000),
     R_reset_peak_stats = Some (returnS ()), R_set_seed = None\<rparr>"

definition sample_demo :: "(nat, mntensor, capsule, ndarray) demo_env" where
  "sample_demo = \<lparr>numpy_of = np_ref (\<lambda>_ x. x), native_of = cpp_api plain_device plain_kernels, runtime_of = CMod sample_runtime,
     on_gpu = (\<lambda>r g. (r, Suc g)), randn_matrix = (\<lambda>n. returnS sample_array), text_of = (\<lambda>_. ''?'')\<rparr>"

theorem snapshot_overhead_witness:
  "\<exists>w' t. demo_memory_snapshot sample_demo \<lparr>generator = 0, clock_reads = 0, printed = []\<rparr> = (Inr (), w')
     \<and> printed w' = t @ ''  Overhead:           '' @ in_megabytes 5586944 @ '' MB ('' @ fmt_fixed 1 50 @ ''%)'' @ newline"
proof -
  have a: "\<forall>r g. fst (on_gpu sample_demo r g) = r" "native_of sample_demo = cpp_api plain_device plain_kernels"
    "\<forall>n. alloc_ok plain_device n"
    by (simp_all add: sample_demo_def plain_device_def)
  have g: "gives (memory_allocated (runtime_of sample_demo)) (\<lambda>n. n = 11173888)"
    "gives (max_memory_allocated (runtime_of sample_demo)) (\<lambda>_. True)"
    by (simp_all add: gives_def memory_allocated_def max_memory_allocated_def native_call_def attr_call_def sample_demo_def sample_runtime_def
        catchS_def bindS_def)
  have "11173888 - 5586944 = (5586944 :: int)" "real_of_int (100 * 5586944) / real_of_int 11173888 = 50" "(11173888 :: int) \<noteq> 0" by simp_all
  from snapshot_overhead [OF a g, of "\<lparr>generator = 0, clock_reads = 0, printed = []\<rparr>", unfolded this(1,2) if_not_P [OF this(3)]]
  show ?thesis .
qed

end
