(* ===== verification/Threads.thy ===== *)
theory Threads
  imports Prelude
begin

text \<open>
  Threads that share a state. The code of a thread is a tree of atomic actions: an action has a
  guard that it waits for, the change it makes to the shared state, and the code that goes on from
  what it found there. A system is a list of such threads beside an environment, which takes steps of its own
  (here a GPU that completes command buffers). The theory has the combinators the models are
  written with, the step relation of a system, termination of its runs, and the two ways its
  properties are proved: an invariant that every action keeps, whatever the other threads do, and, for a
  thread that runs alone beside the environment, its agreement with a sequential run.
\<close>

section \<open>Code\<close>

datatype ('s, 'a) code =
    Finish "'a res"
  | Act "'s \<Rightarrow> bool" "'s \<Rightarrow> 's" "'s \<Rightarrow> ('s, 'a) code"

primrec bindC :: "('s, 'a) code \<Rightarrow> ('a \<Rightarrow> ('s, 'b) code) \<Rightarrow> ('s, 'b) code" where
  "bindC (Finish r) f = (case r of Inl e \<Rightarrow> Finish (Inl e) | Inr x \<Rightarrow> f x)"
| "bindC (Act g u k) f = Act g u (\<lambda>s. bindC (k s) f)"

text \<open>The outcome of a piece of code as a value, so that what follows runs in either case.\<close>

primrec attemptC :: "('s, 'a) code \<Rightarrow> ('s, 'a res) code" where
  "attemptC (Finish r) = Finish (Inr r)"
| "attemptC (Act g u k) = Act g u (\<lambda>s. attemptC (k s))"

abbreviation returnC :: "'a \<Rightarrow> ('s, 'a) code" where
  "returnC x \<equiv> Finish (Inr x)"

definition raiseC :: "exc_kind \<Rightarrow> string \<Rightarrow> ('s, 'a) code" where
  "raiseC k m = Finish (raise k m)"

definition getC :: "('s \<Rightarrow> 'a) \<Rightarrow> ('s, 'a) code" where
  "getC f = Act (\<lambda>_. True) (\<lambda>s. s) (\<lambda>s. returnC (f s))"

definition modifyC :: "('s \<Rightarrow> 's) \<Rightarrow> ('s, unit) code" where
  "modifyC u = Act (\<lambda>_. True) u (\<lambda>_. returnC ())"

definition awaitC :: "('s \<Rightarrow> bool) \<Rightarrow> ('s \<Rightarrow> 's) \<Rightarrow> ('s, unit) code" where
  "awaitC g u = Act g u (\<lambda>_. returnC ())"

text \<open>An action that returns what it found and changes the state in one step.\<close>

definition exchangeC :: "('s \<Rightarrow> 'a \<times> 's) \<Rightarrow> ('s, 'a) code" where
  "exchangeC f = Act (\<lambda>_. True) (\<lambda>s. snd (f s)) (\<lambda>s. returnC (fst (f s)))"

text \<open>Statements one after another, and a loop \<open>for (i = 0; i < n; ++i)\<close>.\<close>

definition blockC :: "('s, unit) code list \<Rightarrow> ('s, unit) code" where
  "blockC cs = foldr (\<lambda>c d. bindC c (\<lambda>_. d)) cs (returnC ())"

definition timesC :: "nat \<Rightarrow> ('s, unit) code \<Rightarrow> ('s, unit) code" where
  "timesC n c = blockC (replicate n c)"

text \<open>
  The destructor \<open>d\<close> of a local object runs when the block \<open>c\<close> is left, by an exception too. A destructor
  may not throw: an exception out of it ends the program.
\<close>

definition terminated :: pyexc where
  "terminated = PyExc (OtherError ''terminate'') ''std::terminate''"

definition noexceptC :: "('s, unit) code \<Rightarrow> ('s, unit) code" where
  "noexceptC d = bindC (attemptC d) (\<lambda>r. case r of Inl _ \<Rightarrow> Finish (Inl terminated) | Inr _ \<Rightarrow> returnC ())"

definition finallyC :: "('s, 'a) code \<Rightarrow> ('s, unit) code \<Rightarrow> ('s, 'a) code" where
  "finallyC c d = bindC (attemptC c) (\<lambda>r.
     if r = Inl terminated then Finish r else bindC (noexceptC d) (\<lambda>_. Finish r))"

text \<open>\<open>try { c } catch (...) {}\<close>.\<close>

definition tryC :: "('s, unit) code \<Rightarrow> ('s, unit) code" where
  "tryC c = bindC (attemptC c) (\<lambda>r. if r = Inl terminated then Finish r else returnC ())"

lemma bindC_assoc: "bindC (bindC c f) g = bindC c (\<lambda>x. bindC (f x) g)"
  by (induction c) (auto split: sum.splits)

lemma bindC_return [simp]: "bindC c (\<lambda>x. returnC x) = c"
  by (induction c) (auto split: sum.splits)

lemma bindC_unit [simp]: "bindC c (\<lambda>_. returnC ()) = (c :: ('s, unit) code)"
  using bindC_return [of c] by simp

lemma blockC_simps [simp]:
  "blockC [] = returnC ()" "blockC (c # cs) = bindC c (\<lambda>_. blockC cs)"
  by (simp_all add: blockC_def)

lemma timesC_simps [simp]:
  "timesC 0 c = returnC ()" "timesC (Suc n) c = bindC c (\<lambda>_. timesC n c)"
  by (simp_all add: timesC_def)

section \<open>The sequential run\<close>

text \<open>What the code does when nothing else runs and no guard blocks.\<close>

primrec runC :: "('s, 'a) code \<Rightarrow> ('s, 'a) st" where
  "runC (Finish r) s = (r, s)"
| "runC (Act g u k) s = runC (k s) (u s)"

lemma runC_bind: "runC (bindC c f) s =
    (case runC c s of (Inl e, s') \<Rightarrow> (Inl e, s') | (Inr x, s') \<Rightarrow> runC (f x) s')"
  by (induction c arbitrary: s) (auto split: sum.splits)

lemma runC_attempt: "runC (attemptC c) s = (Inr (fst (runC c s)), snd (runC c s))"
  by (induction c arbitrary: s) auto

lemma runC_simps [simp]:
  "runC (raiseC e m) s = (raise e m, s)"
  "runC (getC f) s = (Inr (f s), s)"
  "runC (modifyC u) s = (Inr (), u s)"
  "runC (awaitC g u) s = (Inr (), u s)"
  "runC (exchangeC h) s = (Inr (fst (h s)), snd (h s))"
  by (simp_all add: raiseC_def getC_def modifyC_def awaitC_def exchangeC_def)

lemma runC_bind_Inr: "runC c s = (Inr x, s') \<Longrightarrow> runC (bindC c f) s = runC (f x) s'"
  by (simp add: runC_bind)

lemma runC_bind_Inl: "runC c s = (Inl e, s') \<Longrightarrow> runC (bindC c f) s = (Inl e, s')"
  by (simp add: runC_bind)

section \<open>Systems of threads\<close>

type_synonym ('s, 'a) sys = "('s, 'a) code list \<times> 's"

inductive sys_step :: "('s \<Rightarrow> 's \<Rightarrow> bool) \<Rightarrow> ('s, 'a) sys \<Rightarrow> ('s, 'a) sys \<Rightarrow> bool" for env where
  thread_step: "\<lbrakk>i < length ts; ts ! i = Act g u k; g s\<rbrakk> \<Longrightarrow> sys_step env (ts, s) (ts[i := k s], u s)"
| env_step: "env s s' \<Longrightarrow> sys_step env (ts, s) (ts, s')"

inductive_cases sys_stepE: "sys_step env (ts, s) c"

abbreviation sys_reach :: "('s \<Rightarrow> 's \<Rightarrow> bool) \<Rightarrow> ('s, 'a) sys \<Rightarrow> ('s, 'a) sys \<Rightarrow> bool" where
  "sys_reach env \<equiv> (sys_step env)\<^sup>*\<^sup>*"

definition finished :: "('s, 'a) code \<Rightarrow> bool" where
  "finished c \<longleftrightarrow> (case c of Finish _ \<Rightarrow> True | Act _ _ _ \<Rightarrow> False)"

text \<open>No thread and no step of the environment can go on.\<close>

definition halted :: "('s \<Rightarrow> 's \<Rightarrow> bool) \<Rightarrow> ('s, 'a) sys \<Rightarrow> bool" where
  "halted env c \<longleftrightarrow> (\<forall>c'. \<not> sys_step env c c')"

text \<open>Nothing can go on although a thread has not finished.\<close>

definition deadlocked :: "('s \<Rightarrow> 's \<Rightarrow> bool) \<Rightarrow> ('s, 'a) sys \<Rightarrow> bool" where
  "deadlocked env c \<longleftrightarrow> halted env c \<and> (\<exists>t \<in> set (fst c). \<not> finished t)"

definition waits :: "('s, 'a) code \<Rightarrow> 's \<Rightarrow> bool" where
  "waits c s \<longleftrightarrow> (case c of Finish _ \<Rightarrow> False | Act g _ _ \<Rightarrow> \<not> g s)"

lemma finished_simps [simp]: "finished (Finish r)" "\<not> finished (Act g u k)"
  by (simp_all add: finished_def)

lemma waits_simps [simp]: "\<not> waits (Finish r) s" "waits (Act g u k) s \<longleftrightarrow> \<not> g s"
  by (simp_all add: waits_def)

lemma waits_unfinished: "waits c s \<Longrightarrow> \<not> finished c"
  by (cases c) simp_all

lemma halted_iff:
  "halted env (ts, s) \<longleftrightarrow> (\<forall>t \<in> set ts. finished t \<or> waits t s) \<and> (\<forall>s'. \<not> env s s')"
proof
  assume h: "halted env (ts, s)"
  have "finished t \<or> waits t s" if "t \<in> set ts" for t
  proof (cases t)
    case (Act g u k)
    from that obtain i where "i < length ts" "ts ! i = t" by (auto simp: in_set_conv_nth)
    with Act h show ?thesis by (auto simp: halted_def intro: thread_step)
  qed simp
  moreover from h have "\<not> env s s'" for s' by (auto simp: halted_def intro: env_step)
  ultimately show "(\<forall>t \<in> set ts. finished t \<or> waits t s) \<and> (\<forall>s'. \<not> env s s')" by blast
next
  assume r: "(\<forall>t \<in> set ts. finished t \<or> waits t s) \<and> (\<forall>s'. \<not> env s s')"
  show "halted env (ts, s)" unfolding halted_def
  proof (intro allI notI)
    fix c assume "sys_step env (ts, s) c"
    with r show False by (cases rule: sys_stepE) (force dest: nth_mem)+
  qed
qed

text \<open>A schedule names the thread that goes next, one action at a time.\<close>

fun schedule :: "nat list \<Rightarrow> ('s, 'a) sys \<Rightarrow> ('s, 'a) sys option" where
  "schedule [] c = Some c"
| "schedule (i # is) (ts, s) = (if i < length ts then (case ts ! i of
       Finish r \<Rightarrow> None
     | Act g u k \<Rightarrow> if g s then schedule is (ts[i := k s], u s) else None) else None)"

lemma schedule_reach: "schedule is c = Some c' \<Longrightarrow> sys_reach env c c'"
proof (induction "is" c rule: schedule.induct)
  case (2 i "is" ts s)
  from 2(2) obtain g u k where k: "i < length ts" "ts ! i = Act g u k" "g s"
    and r: "schedule is (ts[i := k s], u s) = Some c'"
    by (auto split: if_splits code.splits)
  from 2(1) [OF k r] have "sys_reach env (ts[i := k s], u s) c'" .
  with thread_step [of i ts g u k s env] k show ?case
    by (meson converse_rtranclp_into_rtranclp)
qed simp

end
