(* ===== verification/Pipeline.thy ===== *)
theory Pipeline
  imports Threads
begin

text \<open>
  The command pipeline (\<^verbatim>\<open>src/dispatch/command_pipeline.mm\<close>, \<^verbatim>\<open>backpressure.cpp\<close>): the active command buffer, the
  slots that bound how many committed buffers the GPU has not completed, lazy commits, and the scopes
  that keep one encoder open. The state joins the fields of \<open>CommandPipeline::Impl\<close> and of
  \<open>BackpressureController\<close> with a log of what the program has asked of Metal. Each method is code of
  a thread: one action per access to a shared field, the mutex as an action that waits.

  Metal itself is not modelled. The log has the buffers and encoders the program was given, what it encoded and what it
  committed; a call whose documented precondition the log violates is noted as a fault and does nothing else. What Metal
  decides, whether a buffer is granted and which committed buffer completes next, is the parameter \<open>metal_host\<close>, and the
  completion of a buffer with its handler is the step of the environment.
\<close>

section \<open>Metal\<close>

datatype metal_fault =
    CommittedTwice nat | CommittedWhileEncoding nat | EncoderOnCommitted nat | SecondEncoder nat
  | EndedTwice nat | EncodedAfterEnd nat | HandlerThrew

record 'w metal =
  m_buffers :: nat
  m_encoders :: nat
  m_target :: "nat \<Rightarrow> nat"
  m_open :: "nat \<Rightarrow> nat option"
  m_work :: "nat \<Rightarrow> 'w list"
  m_committed :: "nat list"
  m_queue :: "(nat \<times> bool) list"
  m_finished :: "nat list"
  m_ticks :: nat
  m_faults :: "metal_fault list"

text \<open>
  Command buffers and encoders are numbered in the order they are made; \<open>m_open\<close> gives the encoder that is open on
  a buffer and \<open>m_work\<close> the commands encoded in it. \<open>m_queue\<close> holds the committed buffers that have not
  completed, each with whether it carries the completion handler that gives back a slot.

  The record of what the machine decides: whether the n-th request for a buffer gets one, the n-th
  reading of \<open>mach_absolute_time\<close>, the timebase, and which position of the queue may complete next.
\<close>

record metal_host =
  H_creates :: "nat \<Rightarrow> bool"
  H_clock :: "nat \<Rightarrow> nat"
  H_numer :: nat
  H_denom :: nat
  H_finishes :: "(nat \<times> bool) list \<Rightarrow> nat \<Rightarrow> bool"

text \<open>The state of \<open>Impl\<close>, with the slots of its \<open>BackpressureController\<close>; \<open>mu\<close> says whether the mutex is held.\<close>

record 'w pipe = "'w metal" +
  buffer_count :: nat
  max_in_flight :: nat
  in_flight :: nat
  mu :: bool
  active_buffer :: "nat option"
  has_active :: bool
  lazy_commit :: bool
  op_count :: nat
  auto_flush_threshold :: nat
  active_encoder :: "nat option"
  encoder_scope_active :: bool
  encoder_op_count :: nat
  encoder_max_ops :: nat
  encoder_start_time :: nat
  encoder_duration_ema :: real
  adaptive_encoder_max_ops :: nat

definition size_mod :: nat where
  "size_mod = 2 ^ 64"

definition fault :: "metal_fault \<Rightarrow> 'w pipe \<Rightarrow> 'w pipe" where
  "fault f s = s\<lparr>m_faults := f # m_faults s\<rparr>"

text \<open>\<open>[buf computeCommandEncoder]\<close>; a message to nil gives nil.\<close>

definition open_encoder :: "nat option \<Rightarrow> 'w pipe \<Rightarrow> nat option \<times> 'w pipe" where
  "open_encoder buf s = (case buf of None \<Rightarrow> (None, s) | Some b \<Rightarrow>
     if b \<in> set (m_committed s) then (None, fault (EncoderOnCommitted b) s)
     else if m_open s b \<noteq> None then (None, fault (SecondEncoder b) s)
     else (Some (m_encoders s), s\<lparr>m_encoders := Suc (m_encoders s),
       m_target := (m_target s)(m_encoders s := b), m_open := (m_open s)(b \<mapsto> m_encoders s)\<rparr>))"

text \<open>The commands of one dispatch into an encoder, and \<open>[encoder endEncoding]\<close>.\<close>

definition encode :: "'w \<Rightarrow> nat option \<Rightarrow> 'w pipe \<Rightarrow> 'w pipe" where
  "encode w enc s = (case enc of None \<Rightarrow> s | Some e \<Rightarrow>
     let b = m_target s e in
     if m_open s b = Some e then s\<lparr>m_work := (m_work s)(b := m_work s b @ [w])\<rparr>
     else fault (EncodedAfterEnd e) s)"

definition end_encoding :: "nat option \<Rightarrow> 'w pipe \<Rightarrow> 'w pipe" where
  "end_encoding enc s = (case enc of None \<Rightarrow> s | Some e \<Rightarrow>
     let b = m_target s e in
     if m_open s b = Some e then s\<lparr>m_open := (m_open s)(b := None)\<rparr> else fault (EndedTwice e) s)"

text \<open>\<open>[buf commit]\<close>, after \<open>[buf addCompletedHandler: ...]\<close> where the flag is set.\<close>

definition metal_commit :: "bool \<Rightarrow> nat option \<Rightarrow> 'w pipe \<Rightarrow> 'w pipe" where
  "metal_commit hnd buf s = (case buf of None \<Rightarrow> s | Some b \<Rightarrow>
     if b \<in> set (m_committed s) then fault (CommittedTwice b) s
     else if m_open s b \<noteq> None then fault (CommittedWhileEncoding b) s
     else s\<lparr>m_committed := m_committed s @ [b], m_queue := m_queue s @ [(b, hnd)]\<rparr>)"

section \<open>BackpressureController\<close>

definition acquire_slot :: "('w pipe, unit) code" where
  "acquire_slot = awaitC (\<lambda>s. in_flight s < max_in_flight s) (\<lambda>s. s\<lparr>in_flight := in_flight s + 1\<rparr>)"

text \<open>\<open>release\<close>: the result says whether the check \<open>in_flight_ > 0\<close> passed.\<close>

definition give_back :: "'w pipe \<Rightarrow> bool \<times> 'w pipe" where
  "give_back s = (if in_flight s > 0 then (True, s\<lparr>in_flight := in_flight s - 1\<rparr>) else (False, s))"

definition release_slot :: "('w pipe, unit) code" where
  "release_slot = bindC (exchangeC give_back) (\<lambda>ok. if ok then returnC ()
     else raiseC NativeError ''BackpressureController::release: no in-flight slots to release'')"

definition current_depth :: "('w pipe, nat) code" where
  "current_depth = getC in_flight"

text \<open>
  The GPU completes the buffer at a position of the queue; its handler, where there is one, runs then. An
  exception out of the handler would be one on a thread of Metal.
\<close>

definition complete :: "nat \<Rightarrow> 'w pipe \<Rightarrow> 'w pipe" where
  "complete i s = (let (b, hnd) = m_queue s ! i;
       s1 = s\<lparr>m_queue := take i (m_queue s) @ drop (Suc i) (m_queue s), m_finished := m_finished s @ [b]\<rparr>
     in if hnd then (case give_back s1 of (ok, s2) \<Rightarrow> if ok then s2 else fault HandlerThrew s2) else s1)"

inductive gpu_step :: "metal_host \<Rightarrow> 'w pipe \<Rightarrow> 'w pipe \<Rightarrow> bool" for h where
  completes: "\<lbrakk>i < length (m_queue s); H_finishes h (m_queue s) i\<rbrakk> \<Longrightarrow> gpu_step h s (complete i s)"

inductive_cases gpu_stepE: "gpu_step h s s'"

section \<open>CommandPipeline::Impl\<close>

definition new_command_buffer :: "metal_host \<Rightarrow> 'w pipe \<Rightarrow> nat option \<times> 'w pipe" where
  "new_command_buffer h s =
     (if H_creates h (m_buffers s) then Some (m_buffers s) else None, s\<lparr>m_buffers := Suc (m_buffers s)\<rparr>)"

definition create_buffer :: "metal_host \<Rightarrow> ('w pipe, nat) code" where
  "create_buffer h = bindC (exchangeC (new_command_buffer h)) (\<lambda>cb. case cb of
     None \<Rightarrow> raiseC NativeError ''CommandPipeline: failed to create MTLCommandBuffer''
   | Some b \<Rightarrow> returnC b)"

definition mach_absolute_time :: "metal_host \<Rightarrow> ('w pipe, nat) code" where
  "mach_absolute_time h = exchangeC (\<lambda>s. (H_clock h (m_ticks s), s\<lparr>m_ticks := Suc (m_ticks s)\<rparr>))"

text \<open>The duration in milliseconds; the difference of the two readings is one of \<open>uint64_t\<close>.\<close>

definition encoder_duration :: "metal_host \<Rightarrow> nat \<Rightarrow> nat \<Rightarrow> real" where
  "encoder_duration h start end_time =
     real (nat ((int end_time - int start) mod 2 ^ 64)) * real (H_numer h) / real (H_denom h) / 10 ^ 6"

definition next_ema :: "real \<Rightarrow> real \<Rightarrow> real" where
  "next_ema duration ema = 3 / 10 * duration + (1 - 3 / 10) * ema"

definition tune_max_ops :: "real \<Rightarrow> nat \<Rightarrow> nat" where
  "tune_max_ops ema n =
     (if ema > 2 then max 8 ((n * 3 mod size_mod) div 4)
      else if ema < 1 / 2 then min 128 ((n * 5 mod size_mod) div 4)
      else n)"

definition update_encoder_timing :: "metal_host \<Rightarrow> ('w pipe, unit) code" where
  "update_encoder_timing h = bindC (getC encoder_start_time) (\<lambda>start. if start > 0 then
     bindC (mach_absolute_time h) (\<lambda>end_time. blockC [
       modifyC (\<lambda>s. s\<lparr>encoder_duration_ema := next_ema (encoder_duration h start end_time) (encoder_duration_ema s)\<rparr>),
       modifyC (\<lambda>s. s\<lparr>adaptive_encoder_max_ops :=
         tune_max_ops (encoder_duration_ema s) (adaptive_encoder_max_ops s)\<rparr>),
       modifyC (\<lambda>s. s\<lparr>encoder_start_time := 0\<rparr>)])
     else returnC ())"

text \<open>\<open>std::lock_guard<std::mutex> lock(impl_->mu)\<close> around a block.\<close>

definition locked :: "('w pipe, 'a) code \<Rightarrow> ('w pipe, 'a) code" where
  "locked c = bindC (awaitC (\<lambda>s. \<not> mu s) (\<lambda>s. s\<lparr>mu := True\<rparr>)) (\<lambda>_.
     bindC (attemptC c) (\<lambda>r. bindC (modifyC (\<lambda>s. s\<lparr>mu := False\<rparr>)) (\<lambda>_. Finish r)))"

section \<open>CommandPipeline\<close>

text \<open>
  The constructor: the member \<open>backpressure\<close> is built first and checks the count. A new pipeline on
  a device of which nothing has been asked.
\<close>

definition new_metal :: "'w metal" where
  "new_metal = \<lparr>m_buffers = 0, m_encoders = 0, m_target = (\<lambda>_. 0), m_open = (\<lambda>_. None), m_work = (\<lambda>_. []),
     m_committed = [], m_queue = [], m_finished = [], m_ticks = 0, m_faults = []\<rparr>"

definition new_pipe :: "nat \<Rightarrow> 'w pipe" where
  "new_pipe count = metal.extend new_metal \<lparr>buffer_count = count, max_in_flight = count, in_flight = 0, mu = False,
     active_buffer = None, has_active = False, lazy_commit = False, op_count = 0, auto_flush_threshold = 64,
     active_encoder = None, encoder_scope_active = False, encoder_op_count = 0, encoder_max_ops = 32,
     encoder_start_time = 0, encoder_duration_ema = 1, adaptive_encoder_max_ops = 32\<rparr>"

definition make_pipeline :: "nat \<Rightarrow> 'w pipe res" where
  "make_pipeline count = (if count > 0 then Inr (new_pipe count)
     else raise NativeError ''BackpressureController: max_in_flight must be > 0'')"

text \<open>\<open>[buf addCompletedHandler: ^{ bp->release(); }]\<close> and \<open>[buf commit]\<close> on the active buffer.\<close>

definition submit_active :: "('w pipe, unit) code" where
  "submit_active = modifyC (\<lambda>s. metal_commit True (active_buffer s) s)"

definition rotate_buffer :: "metal_host \<Rightarrow> ('w pipe, unit) code" where
  "rotate_buffer h = bindC (create_buffer h) (\<lambda>b. modifyC (\<lambda>s. s\<lparr>active_buffer := Some b\<rparr>))"

definition retire_buffer :: "('w pipe, unit) code" where
  "retire_buffer = modifyC (\<lambda>s. s\<lparr>active_buffer := None, has_active := False\<rparr>)"

definition reset_op_count :: "('w pipe, unit) code" where
  "reset_op_count = modifyC (\<lambda>s. s\<lparr>op_count := 0\<rparr>)"

text \<open>\<open>++impl_->op_count\<close> and \<open>op_count.compare_exchange_strong(expected, 0)\<close> on the atomic counter.\<close>

definition count_op :: "('w pipe, nat) code" where
  "count_op = exchangeC (\<lambda>s. let c = (op_count s + 1) mod size_mod in (c, s\<lparr>op_count := c\<rparr>))"

definition reset_if_unchanged :: "nat \<Rightarrow> ('w pipe, bool) code" where
  "reset_if_unchanged expected = exchangeC (\<lambda>s.
     if op_count s = expected then (True, s\<lparr>op_count := 0\<rparr>) else (False, s))"

definition ensure_buffer :: "metal_host \<Rightarrow> ('w pipe, unit) code" where
  "ensure_buffer h = bindC (getC has_active) (\<lambda>active. if active then returnC () else
     bindC (create_buffer h) (\<lambda>b. modifyC (\<lambda>s. s\<lparr>active_buffer := Some b, has_active := True\<rparr>)))"

definition current_buffer :: "metal_host \<Rightarrow> ('w pipe, nat option) code" where
  "current_buffer h = locked (bindC (ensure_buffer h) (\<lambda>_. getC active_buffer))"

definition flush :: "metal_host \<Rightarrow> ('w pipe, unit) code" where
  "flush h = locked (bindC (getC has_active) (\<lambda>active. if \<not> active then returnC () else
     blockC [acquire_slot, submit_active, rotate_buffer h, reset_op_count]))"

definition commit_and_continue :: "metal_host \<Rightarrow> ('w pipe, unit) code" where
  "commit_and_continue h = bindC count_op (\<lambda>count. bindC (getC lazy_commit) (\<lambda>lazy.
     if lazy then bindC (getC encoder_scope_active) (\<lambda>scope.
       if scope then returnC ()
       else bindC (getC auto_flush_threshold) (\<lambda>threshold.
         if count \<ge> threshold then blockC [flush h, reset_op_count] else returnC ()))
     else blockC [acquire_slot, locked (bindC (getC has_active) (\<lambda>active.
       if \<not> active then raiseC NativeError ''CommandPipeline::commit_and_continue: no active buffer to commit''
       else blockC [submit_active, rotate_buffer h, reset_op_count]))]))"

definition commit :: "('w pipe, unit) code" where
  "commit = blockC [acquire_slot, locked (bindC (getC has_active) (\<lambda>active.
     if \<not> active then raiseC NativeError ''CommandPipeline::commit: no active buffer to commit''
     else blockC [submit_active, retire_buffer, reset_op_count]))]"

definition synchronize_pipeline :: "('w pipe, unit) code" where
  "synchronize_pipeline = blockC [
     locked (bindC (getC has_active) (\<lambda>active. if active
       then blockC [acquire_slot, submit_active, retire_buffer] else returnC ())),
     bindC (getC buffer_count) (\<lambda>n. blockC [timesC n acquire_slot, timesC n release_slot])]"

definition set_lazy_commit :: "bool \<Rightarrow> ('w pipe, unit) code" where
  "set_lazy_commit enable = modifyC (\<lambda>s. s\<lparr>lazy_commit := enable\<rparr>)"

definition record_op :: "metal_host \<Rightarrow> ('w pipe, unit) code" where
  "record_op h = bindC count_op (\<lambda>count. bindC (getC lazy_commit) (\<lambda>lazy. if \<not> lazy then returnC () else
     bindC (getC encoder_scope_active) (\<lambda>scope. if scope then returnC () else
     bindC (getC auto_flush_threshold) (\<lambda>threshold. if count < threshold then returnC () else
     bindC (reset_if_unchanged count) (\<lambda>won. if won then flush h else returnC ())))))"

definition set_auto_flush_threshold :: "nat \<Rightarrow> ('w pipe, unit) code" where
  "set_auto_flush_threshold threshold = modifyC (\<lambda>s. s\<lparr>auto_flush_threshold := threshold\<rparr>)"

definition set_encoder_max_ops :: "nat \<Rightarrow> ('w pipe, unit) code" where
  "set_encoder_max_ops max_ops = locked (blockC [
     modifyC (\<lambda>s. s\<lparr>encoder_max_ops := max 1 (min 512 max_ops)\<rparr>),
     modifyC (\<lambda>s. s\<lparr>adaptive_encoder_max_ops := encoder_max_ops s\<rparr>)])"

section \<open>Scopes\<close>

text \<open>\<open>BatchScope\<close>: the constructor keeps the lazy state it found, the destructor flushes and restores it.\<close>

definition batch_enter :: "('w pipe, bool) code" where
  "batch_enter = bindC (getC lazy_commit) (\<lambda>previous. bindC (set_lazy_commit True) (\<lambda>_. returnC previous))"

definition batch_exit :: "metal_host \<Rightarrow> bool \<Rightarrow> ('w pipe, unit) code" where
  "batch_exit h previous = blockC [flush h, set_lazy_commit previous]"

definition with_batch :: "metal_host \<Rightarrow> ('w pipe, unit) code \<Rightarrow> ('w pipe, unit) code" where
  "with_batch h body = bindC batch_enter (\<lambda>previous. finallyC body (batch_exit h previous))"

text \<open>
  A new encoder on the active buffer, its operation count and its start time; the source repeats these
  three statements in \<open>current_encoder\<close>, in the constructor and in the destructor of \<open>EncoderScope\<close>.
\<close>

definition start_encoder :: "metal_host \<Rightarrow> ('w pipe, unit) code" where
  "start_encoder h = bindC (exchangeC (\<lambda>s. open_encoder (active_buffer s) s)) (\<lambda>e. blockC [
     modifyC (\<lambda>s. s\<lparr>active_encoder := e\<rparr>),
     modifyC (\<lambda>s. s\<lparr>encoder_op_count := 0\<rparr>),
     bindC (mach_absolute_time h) (\<lambda>t. modifyC (\<lambda>s. s\<lparr>encoder_start_time := t\<rparr>))])"

definition current_encoder :: "metal_host \<Rightarrow> ('w pipe, nat option) code" where
  "current_encoder h = locked (bindC (getC (\<lambda>s. encoder_scope_active s \<and> active_encoder s \<noteq> None)) (\<lambda>active.
     if \<not> active then returnC None else
     bindC (getC (\<lambda>s. encoder_op_count s \<ge> adaptive_encoder_max_ops s)) (\<lambda>full.
     bindC (if full then blockC [
         modifyC (\<lambda>s. end_encoding (active_encoder s) s),
         update_encoder_timing h,
         acquire_slot, submit_active,
         bindC (create_buffer h) (\<lambda>b. modifyC (\<lambda>s. s\<lparr>active_buffer := Some b, has_active := True\<rparr>)),
         start_encoder h] else returnC ()) (\<lambda>_.
     bindC (modifyC (\<lambda>s. s\<lparr>encoder_op_count := (encoder_op_count s + 1) mod size_mod\<rparr>)) (\<lambda>_.
     getC active_encoder)))))"

definition has_active_encoder :: "('w pipe, bool) code" where
  "has_active_encoder = bindC (getC encoder_scope_active) (\<lambda>scope.
     if \<not> scope then returnC False else getC (\<lambda>s. active_encoder s \<noteq> None))"

definition encoder_enter :: "metal_host \<Rightarrow> ('w pipe, bool \<times> bool) code" where
  "encoder_enter h = bindC (getC encoder_scope_active) (\<lambda>previous_scope. bindC (getC lazy_commit) (\<lambda>previous_lazy.
     bindC (locked (blockC [
       set_lazy_commit True,
       modifyC (\<lambda>s. s\<lparr>encoder_scope_active := True\<rparr>),
       bindC (getC active_encoder) (\<lambda>e. if e = None then blockC [ensure_buffer h, start_encoder h] else returnC ())]))
     (\<lambda>_. returnC (previous_scope, previous_lazy))))"

definition encoder_exit :: "metal_host \<Rightarrow> bool \<times> bool \<Rightarrow> ('w pipe, unit) code" where
  "encoder_exit h previous = (case previous of (previous_scope, previous_lazy) \<Rightarrow> blockC [
     locked (blockC [
       bindC (getC active_encoder) (\<lambda>e. if e = None then returnC () else blockC [
         modifyC (end_encoding e),
         update_encoder_timing h,
         modifyC (\<lambda>s. s\<lparr>active_encoder := None\<rparr>),
         modifyC (\<lambda>s. s\<lparr>encoder_op_count := 0\<rparr>)]),
       modifyC (\<lambda>s. s\<lparr>encoder_scope_active := previous_scope\<rparr>),
       bindC (getC has_active) (\<lambda>active. if previous_scope \<and> active then start_encoder h else returnC ())]),
     (if \<not> previous_scope then flush h else returnC ()),
     set_lazy_commit previous_lazy])"

definition with_encoder :: "metal_host \<Rightarrow> ('w pipe, unit) code \<Rightarrow> ('w pipe, unit) code" where
  "with_encoder h body = bindC (encoder_enter h) (\<lambda>previous. finallyC body (encoder_exit h previous))"

section \<open>The clients\<close>

text \<open>
  An operation of the package (\<open>dispatch_binary_op\<close> and its like): it takes the current buffer, opens an encoder of
  its own on it, encodes, and continues. The check of the size comes after the encoder was opened.
\<close>

definition dispatch_op :: "metal_host \<Rightarrow> bool \<Rightarrow> 'w \<Rightarrow> ('w pipe, unit) code" where
  "dispatch_op h in_range w = bindC (current_buffer h) (\<lambda>buf. bindC (exchangeC (open_encoder buf)) (\<lambda>e.
     if \<not> in_range then raiseC NativeError ''elementwise: dimension exceeds uint32_t range''
     else blockC [modifyC (encode w e), modifyC (end_encoding e), commit_and_continue h]))"

text \<open>The copy of a key-value cache into larger buffers (\<open>KVCache::resize\<close>): a blit encoder, then \<open>commit\<close>.\<close>

definition blit_op :: "metal_host \<Rightarrow> 'w \<Rightarrow> ('w pipe, unit) code" where
  "blit_op h w = bindC (current_buffer h) (\<lambda>buf. bindC (exchangeC (open_encoder buf)) (\<lambda>e.
     blockC [modifyC (encode w e), modifyC (end_encoding e), commit]))"

text \<open>An operation that asks for the encoder of the scope, as the header of \<open>encoder_scope\<close> describes it.\<close>

definition scoped_op :: "metal_host \<Rightarrow> 'w \<Rightarrow> ('w pipe, unit) code" where
  "scoped_op h w = bindC (current_encoder h) (\<lambda>e. modifyC (encode w e))"

text \<open>\<open>MNDevice::synchronize\<close>: a buffer of its own on the queue, waited for.\<close>

definition device_synchronize :: "metal_host \<Rightarrow> ('w pipe, unit) code" where
  "device_synchronize h = bindC (exchangeC (new_command_buffer h)) (\<lambda>barrier. blockC [
     modifyC (metal_commit False barrier),
     awaitC (\<lambda>s. case barrier of None \<Rightarrow> True | Some b \<Rightarrow> b \<in> set (m_finished s)) (\<lambda>s. s)])"

text \<open>What the GPU has executed, which is what a copy to the host then sees.\<close>

definition executed :: "'w pipe \<Rightarrow> 'w list" where
  "executed s = concat (map (m_work s) (m_finished s))"

text \<open>The calls a thread makes, with the blocks of its scopes.\<close>

datatype 'w call =
    CurrentBuffer | CommitAndContinue | Commit | Synchronize | Flush | SetLazy bool | RecordOp
  | SetThreshold nat | SetMaxOps nat | CurrentEncoder | DeviceSync
  | DispatchOp bool 'w | BlitOp 'w | ScopedOp 'w
  | BatchBlock "'w call list" | EncoderBlock "'w call list" | TryBlock "'w call list"

primrec perform :: "metal_host \<Rightarrow> 'w call \<Rightarrow> ('w pipe, unit) code" where
  "perform h CurrentBuffer = bindC (current_buffer h) (\<lambda>_. returnC ())"
| "perform h CommitAndContinue = commit_and_continue h"
| "perform h Commit = commit"
| "perform h Synchronize = synchronize_pipeline"
| "perform h Flush = flush h"
| "perform h (SetLazy b) = set_lazy_commit b"
| "perform h RecordOp = record_op h"
| "perform h (SetThreshold n) = set_auto_flush_threshold n"
| "perform h (SetMaxOps n) = set_encoder_max_ops n"
| "perform h CurrentEncoder = bindC (current_encoder h) (\<lambda>_. returnC ())"
| "perform h DeviceSync = device_synchronize h"
| "perform h (DispatchOp ok w) = dispatch_op h ok w"
| "perform h (BlitOp w) = blit_op h w"
| "perform h (ScopedOp w) = scoped_op h w"
| "perform h (BatchBlock cs) = with_batch h (blockC (map (perform h) cs))"
| "perform h (EncoderBlock cs) = with_encoder h (blockC (map (perform h) cs))"
| "perform h (TryBlock cs) = tryC (blockC (map (perform h) cs))"

definition performs :: "metal_host \<Rightarrow> 'w call list \<Rightarrow> ('w pipe, unit) code" where
  "performs h cs = blockC (map (perform h) cs)"

end
