(* ===== verification/ThreadLaws.thy ===== *)
theory ThreadLaws
  imports Threads
begin

text \<open>
  How systems of threads are reasoned about: the contract of an environment whose steps end (locale
  \<open>ending_env\<close>), under which every run of a system ends; invariants of all threads (\<open>keeps\<close>, locale
  \<open>kept\<close>); slots that threads acquire and give back (\<open>balanced\<close>, locale \<open>ledger\<close>); and the agreement of one
  thread with its sequential run whatever the environment does in between (\<open>tracks\<close>, locale \<open>lockstep\<close>).
\<close>

section \<open>Every run ends\<close>

definition next_code :: "(('s, 'a) code \<times> ('s, 'a) code) set" where
  "next_code = {(c, d). \<exists>g u k s. d = Act g u k \<and> c = k s}"

lemma wf_next_code: "wf (next_code :: (('s, 'a) code \<times> ('s, 'a) code) set)"
proof (rule wfUNIVI)
  fix P :: "('s, 'a) code \<Rightarrow> bool" and c
  assume h: "\<forall>d. (\<forall>c. (c, d) \<in> next_code \<longrightarrow> P c) \<longrightarrow> P d"
  show "P c"
  proof (induction c)
    case (Finish r)
    show ?case using h by (auto simp: next_code_def)
  next
    case (Act g u k)
    then have "P (k s)" for s by blast
    then have "P c" if "(c, Act g u k) \<in> next_code" for c using that by (auto simp: next_code_def)
    with h show ?case by blast
  qed
qed

locale ending_env =
  fixes env :: "'s \<Rightarrow> 's \<Rightarrow> bool" and work :: "'s \<Rightarrow> nat"
  assumes env_ends: "env s s' \<Longrightarrow> work s' < work s"
begin

lemma step_decreases:
  assumes "sys_step env (ts, s) (ts', s')"
  shows "(ts', ts) \<in> listrel1 next_code \<or> ts' = ts \<and> work s' < work s"
  using assms
proof (cases rule: sys_step.cases)
  case (thread_step i g u k)
  then have "ts = take i ts @ Act g u k # drop (Suc i) ts"
    by (metis id_take_nth_drop)
  moreover from thread_step have "ts' = take i ts @ k s # drop (Suc i) ts"
    by (simp add: upd_conv_take_nth_drop)
  moreover have "(k s, Act g u k) \<in> next_code" by (auto simp: next_code_def)
  ultimately show ?thesis unfolding listrel1_def by blast
qed (simp add: env_ends)

lemma runs_end: "wfp (\<lambda>c' c :: ('s, 'a) sys. sys_step env c c')"
proof -
  have "{(c', c :: ('s, 'a) sys). sys_step env c c'}
      \<subseteq> inv_image (listrel1 next_code <*lex*> less_than) (\<lambda>(ts, s). (ts, work s))"
    by (auto simp: in_inv_image dest: step_decreases)
  then show ?thesis unfolding wfp_def
    by (rule wf_subset [rotated]) (simp add: wf_inv_image wf_lex_prod wf_next_code)
qed

lemma reaches_halt: "\<exists>c'. sys_reach env c c' \<and> halted env c'"
  using runs_end
proof (induction c rule: wfp_induct_rule)
  case (less c)
  show ?case
  proof (cases "halted env c")
    case False
    then obtain c1 where "sys_step env c c1" by (auto simp: halted_def)
    with less [of c1] show ?thesis by (meson converse_rtranclp_into_rtranclp)
  qed blast
qed

end

section \<open>Invariants of all threads\<close>

text \<open>Every action of the code keeps the invariant, wherever the code has got to.\<close>

primrec keeps :: "('s \<Rightarrow> bool) \<Rightarrow> ('s, 'a) code \<Rightarrow> bool" where
  "keeps I (Finish r) \<longleftrightarrow> True"
| "keeps I (Act g u k) \<longleftrightarrow> (\<forall>s. I s \<longrightarrow> g s \<longrightarrow> I (u s) \<and> keeps I (k s))"

named_theorems keeps_intros \<open>code that keeps an invariant\<close>

lemma keeps_bind [keeps_intros]: "keeps I c \<Longrightarrow> (\<And>x. keeps I (f x)) \<Longrightarrow> keeps I (bindC c f)"
  by (induction c) (auto split: sum.splits)

lemma keeps_attempt [keeps_intros]: "keeps I c \<Longrightarrow> keeps I (attemptC c)"
  by (induction c) auto

lemma keeps_raise [keeps_intros]: "keeps I (raiseC e m)"
  by (simp add: raiseC_def)

lemma keeps_finish [keeps_intros]: "keeps I (Finish r)"
  by simp

lemma keeps_get [keeps_intros]: "keeps I (getC f)"
  by (simp add: getC_def)

lemma keeps_modify: "(\<And>s. I s \<Longrightarrow> I (u s)) \<Longrightarrow> keeps I (modifyC u)"
  by (simp add: modifyC_def)

lemma keeps_await: "(\<And>s. I s \<Longrightarrow> g s \<Longrightarrow> I (u s)) \<Longrightarrow> keeps I (awaitC g u)"
  by (simp add: awaitC_def)

lemma keeps_exchange: "(\<And>s. I s \<Longrightarrow> I (snd (f s))) \<Longrightarrow> keeps I (exchangeC f)"
  by (simp add: exchangeC_def)

lemma keeps_block [keeps_intros]: "(\<And>c. c \<in> set cs \<Longrightarrow> keeps I c) \<Longrightarrow> keeps I (blockC cs)"
  by (induction cs) (auto intro: keeps_bind)

lemma keeps_times [keeps_intros]: "keeps I c \<Longrightarrow> keeps I (timesC n c)"
  by (auto simp: timesC_def intro: keeps_block)

lemma keeps_noexcept [keeps_intros]: "keeps I c \<Longrightarrow> keeps I (noexceptC c)"
  by (auto simp: noexceptC_def intro!: keeps_bind keeps_attempt split: sum.splits)

lemma keeps_finally [keeps_intros]: "keeps I c \<Longrightarrow> keeps I d \<Longrightarrow> keeps I (finallyC c d)"
  by (auto simp: finallyC_def intro!: keeps_bind keeps_attempt keeps_noexcept)

lemma keeps_try [keeps_intros]: "keeps I c \<Longrightarrow> keeps I (tryC c)"
  by (auto simp: tryC_def intro!: keeps_bind keeps_attempt)

lemma keeps_if [keeps_intros]: "keeps I c \<Longrightarrow> keeps I d \<Longrightarrow> keeps I (if b then c else d)"
  by simp

locale kept =
  fixes env :: "'s \<Rightarrow> 's \<Rightarrow> bool" and I :: "'s \<Rightarrow> bool"
  assumes env_keeps: "I s \<Longrightarrow> env s s' \<Longrightarrow> I s'"
begin

lemma step_keeps:
  "sys_step env (ts, s) (ts', s') \<Longrightarrow> I s \<Longrightarrow> \<forall>t \<in> set ts. keeps I t \<Longrightarrow> I s' \<and> (\<forall>t \<in> set ts'. keeps I t)"
  by (erule sys_stepE) (auto simp: env_keeps dest!: set_update_subset_insert [THEN subsetD] nth_mem)

lemma reach_keeps:
  assumes "sys_reach env (ts, s) (ts', s')" and "I s" and "\<forall>t \<in> set ts. keeps I t"
  shows "I s'"
proof -
  have "I s' \<and> (\<forall>t \<in> set ts'. keeps I t)"
    using assms by (induction rule: rtranclp_induct2) (blast dest: step_keeps)+
  then show ?thesis by blast
qed

end

section \<open>Slots held by threads\<close>

text \<open>
  \<open>balanced bal I n c\<close>: the code, entered while it holds \<open>n\<close> units of the resource that \<open>bal\<close> counts, always
  holds a number of units that is not negative, and changes \<open>bal\<close> by exactly what it takes and gives back.
\<close>

inductive balanced :: "('s \<Rightarrow> int) \<Rightarrow> nat \<Rightarrow> ('s, 'a) code \<Rightarrow> ('a res \<Rightarrow> nat \<Rightarrow> bool) \<Rightarrow> bool" for bal where
  balanced_finish: "F r n \<Longrightarrow> balanced bal n (Finish r) F"
| balanced_act: "(\<And>s. g s \<Longrightarrow> int n \<le> bal s \<Longrightarrow>
      \<exists>m. bal (u s) - bal s = int m - int n \<and> balanced bal m (k s) F) \<Longrightarrow> balanced bal n (Act g u k) F"

inductive_cases balanced_finishE: "balanced bal n (Finish r) F"
inductive_cases balanced_actE: "balanced bal n (Act g u k) F"

lemma balanced_bind:
  assumes "balanced bal n c F"
    and "\<And>x m. F (Inr x) m \<Longrightarrow> balanced bal m (f x) G"
    and "\<And>e m. F (Inl e) m \<Longrightarrow> G (Inl e) m"
  shows "balanced bal n (bindC c f) G"
  using assms
proof (induction rule: balanced.induct)
  case (balanced_finish F r n)
  then show ?case by (cases r) (auto intro: balanced.balanced_finish)
next
  case (balanced_act g n u k F)
  show ?case unfolding bindC.simps
  proof (rule balanced.balanced_act)
    fix s assume "g s" "int n \<le> bal s"
    from balanced_act.IH [OF this] balanced_act.prems
    show "\<exists>m. bal (u s) - bal s = int m - int n \<and> balanced bal m (bindC (k s) f) G" by blast
  qed
qed

lemma balanced_weaken: "balanced bal n c F \<Longrightarrow> (\<And>r m. F r m \<Longrightarrow> G r m) \<Longrightarrow> balanced bal n c G"
proof (induction rule: balanced.induct)
  case (balanced_finish F r n)
  then show ?case by (auto intro: balanced.balanced_finish)
next
  case (balanced_act g n u k F)
  then show ?case by (intro balanced.balanced_act) blast
qed

lemma balanced_attempt:
  "balanced bal n c F \<Longrightarrow> balanced bal n (attemptC c) (\<lambda>r m. \<exists>x. r = Inr x \<and> F x m)"
proof (induction rule: balanced.induct)
  case (balanced_finish F r n)
  then show ?case by (auto intro: balanced.balanced_finish)
next
  case (balanced_act g n u k F)
  show ?case unfolding attemptC.simps
    by (rule balanced.balanced_act) (use balanced_act.IH in blast)
qed

text \<open>
  Two shapes of accounts are enough: code that does not change what its thread holds (\<open>neutral\<close>), and code that
  needs its thread to hold at least \<open>n\<close> when it starts (\<open>needs\<close>).
\<close>

definition neutral :: "('s \<Rightarrow> int) \<Rightarrow> ('s, 'a) code \<Rightarrow> bool" where
  "neutral bal c \<longleftrightarrow> (\<forall>n. balanced bal n c (\<lambda>_ m. m = n))"

definition needs :: "('s \<Rightarrow> int) \<Rightarrow> nat \<Rightarrow> ('s, 'a) code \<Rightarrow> bool" where
  "needs bal n c \<longleftrightarrow> (\<forall>m. n \<le> m \<longrightarrow> balanced bal m c (\<lambda>_ _. True))"

named_theorems neutral_intros \<open>code that takes and gives nothing\<close>
named_theorems needs_intros \<open>code with the slots it needs\<close>

lemma neutral_finish [neutral_intros]: "neutral bal (Finish r)"
  by (simp add: neutral_def balanced_finish)

lemma neutral_raise [neutral_intros]: "neutral bal (raiseC e m)"
  by (simp add: raiseC_def neutral_finish)

lemma neutral_act:
  assumes "\<And>s. g s \<Longrightarrow> bal (u s) = bal s" and "\<And>s. neutral bal (k s)"
  shows "neutral bal (Act g u k)"
  unfolding neutral_def
proof
  fix n
  show "balanced bal n (Act g u k) (\<lambda>_ m. m = n)"
    by (rule balanced_act) (use assms in \<open>auto simp: neutral_def intro!: exI [of _ n]\<close>)
qed

lemma neutral_bind [neutral_intros]:
  "neutral bal c \<Longrightarrow> (\<And>x. neutral bal (f x)) \<Longrightarrow> neutral bal (bindC c f)"
  by (auto simp: neutral_def intro!: balanced_bind [where F = "\<lambda>_ m. m = n" for n])

lemma neutral_attempt [neutral_intros]: "neutral bal c \<Longrightarrow> neutral bal (attemptC c)"
  by (auto simp: neutral_def intro: balanced_weaken [OF balanced_attempt])

lemma neutral_get [neutral_intros]: "neutral bal (getC f)"
  by (auto simp: getC_def intro!: neutral_act neutral_intros)

lemma neutral_modify: "(\<And>s. bal (u s) = bal s) \<Longrightarrow> neutral bal (modifyC u)"
  by (auto simp: modifyC_def intro!: neutral_act neutral_intros)

lemma neutral_await: "(\<And>s. g s \<Longrightarrow> bal (u s) = bal s) \<Longrightarrow> neutral bal (awaitC g u)"
  by (auto simp: awaitC_def intro!: neutral_act neutral_intros)

lemma neutral_exchange: "(\<And>s. bal (snd (f s)) = bal s) \<Longrightarrow> neutral bal (exchangeC f)"
  by (auto simp: exchangeC_def intro!: neutral_act neutral_intros)

lemma neutral_if [neutral_intros]: "neutral bal c \<Longrightarrow> neutral bal d \<Longrightarrow> neutral bal (if b then c else d)"
  by simp

lemma neutral_needs: "neutral bal c \<Longrightarrow> needs bal n c"
  by (auto simp: neutral_def needs_def intro: balanced_weaken)

lemma needs_bind [needs_intros]: "needs bal n c \<Longrightarrow> (\<And>x. needs bal 0 (f x)) \<Longrightarrow> needs bal n (bindC c f)"
  by (auto simp: needs_def intro!: balanced_bind [where F = "\<lambda>_ _. True"])

lemma neutral_needs_bind: "neutral bal c \<Longrightarrow> (\<And>x. needs bal n (f x)) \<Longrightarrow> needs bal n (bindC c f)"
  unfolding needs_def neutral_def by (blast intro: balanced_bind [where F = "\<lambda>_ m. m = k" for k])

lemma needs_finish [needs_intros]: "needs bal n (Finish r)"
  by (simp add: needs_def balanced_finish)

lemma needs_attempt [needs_intros]: "needs bal n c \<Longrightarrow> needs bal n (attemptC c)"
  by (auto simp: needs_def intro: balanced_weaken [OF balanced_attempt])

lemma needs_if [needs_intros]: "needs bal n c \<Longrightarrow> needs bal n d \<Longrightarrow> needs bal n (if b then c else d)"
  by simp

lemma needs_noexcept [needs_intros]: "needs bal 0 c \<Longrightarrow> needs bal 0 (noexceptC c)"
  by (auto simp: noexceptC_def intro!: needs_intros split: sum.split)

lemma needs_finally [needs_intros]: "needs bal 0 c \<Longrightarrow> needs bal 0 d \<Longrightarrow> needs bal 0 (finallyC c d)"
  by (auto simp: finallyC_def intro!: needs_intros)

lemma needs_try [needs_intros]: "needs bal 0 c \<Longrightarrow> needs bal 0 (tryC c)"
  by (auto simp: tryC_def intro!: needs_intros)

lemma needs_block: "(\<And>c. c \<in> set cs \<Longrightarrow> needs bal 0 c) \<Longrightarrow> needs bal 0 (blockC cs)"
  by (induction cs) (auto intro!: needs_intros)

locale ledger =
  fixes env :: "'s \<Rightarrow> 's \<Rightarrow> bool" and bal :: "'s \<Rightarrow> int"
  assumes env_bal: "0 \<le> bal s \<Longrightarrow> env s s' \<Longrightarrow> bal s' = bal s"
begin

text \<open>Each thread holds its share, and the shares add up to what is counted.\<close>

definition shares :: "('s, 'a) code list \<Rightarrow> 's \<Rightarrow> nat list \<Rightarrow> bool" where
  "shares ts s ns \<longleftrightarrow> length ns = length ts \<and> bal s = int (sum_list ns)
     \<and> (\<forall>i < length ts. balanced bal (ns ! i) (ts ! i) (\<lambda>_ _. True))"

lemma step_shares:
  assumes "sys_step env (ts, s) (ts', s')" and "shares ts s ns"
  shows "\<exists>ns'. shares ts' s' ns'"
  using assms(1)
proof (cases rule: sys_step.cases)
  case (thread_step i g u k)
  from assms(2) have len: "length ns = length ts" and b: "bal s = int (sum_list ns)"
    and all: "\<And>j. j < length ts \<Longrightarrow> balanced bal (ns ! j) (ts ! j) (\<lambda>_ _. True)"
    by (auto simp: shares_def)
  have le: "ns ! i \<le> sum_list ns" using thread_step len by (intro elem_le_sum_list) auto
  have "balanced bal (ns ! i) (Act g u k) (\<lambda>_ _. True)" using all [of i] thread_step by simp
  then obtain m where m: "bal (u s) - bal s = int m - int (ns ! i)" "balanced bal m (k s) (\<lambda>_ _. True)"
    using \<open>g s\<close> le b by (auto elim!: balanced_actE)
  have "shares ts' s' (ns[i := m])"
    using thread_step len all m b le by (auto simp: shares_def nth_list_update sum_list_update)
  then show ?thesis by blast
next
  case env_step
  with assms(2) show ?thesis using env_bal [of s s'] by (auto simp: shares_def)
qed

lemma reach_shares:
  assumes "sys_reach env (ts, s) (ts', s')" and "shares ts s ns"
  shows "\<exists>ns'. shares ts' s' ns'"
  using assms(1)
proof (induction rule: rtranclp_induct2)
  case refl
  then show ?case using assms(2) by blast
next
  case (step ts1 s1 ts2 s2)
  then show ?case using step_shares by blast
qed

lemma reach_bal:
  assumes "sys_reach env (ts, s) (ts', s')" and "bal s = 0"
    and "\<And>t. t \<in> set ts \<Longrightarrow> balanced bal 0 t (\<lambda>_ _. True)"
  shows "0 \<le> bal s'"
proof -
  have "shares ts s (replicate (length ts) 0)"
    using assms(2,3) by (auto simp: shares_def)
  from reach_shares [OF assms(1) this] show ?thesis by (auto simp: shares_def)
qed

end

section \<open>Runs of one thread among others\<close>

text \<open>A piece of code whose guards all hold along its sequential run can be run to its end in one go.\<close>

primrec unblocked :: "('s, 'a) code \<Rightarrow> 's \<Rightarrow> bool" where
  "unblocked (Finish r) s \<longleftrightarrow> True"
| "unblocked (Act g u k) s \<longleftrightarrow> g s \<and> unblocked (k s) (u s)"

lemma unblocked_bind: "unblocked (bindC c f) s \<longleftrightarrow>
    unblocked c s \<and> (case runC c s of (Inl e, s') \<Rightarrow> True | (Inr x, s') \<Rightarrow> unblocked (f x) s')"
  by (induction c arbitrary: s) (auto split: sum.splits)

lemma unblocked_attempt [simp]: "unblocked (attemptC c) s = unblocked c s"
  by (induction c arbitrary: s) auto

lemma unblocked_simps [simp]:
  "unblocked (raiseC e m) s" "unblocked (getC f) s" "unblocked (modifyC u) s" "unblocked (awaitC g u) s = g s"
  "unblocked (exchangeC h) s"
  by (simp_all add: raiseC_def getC_def modifyC_def awaitC_def exchangeC_def)

lemma thread_run:
  assumes "i < length ts" and "ts ! i = bindC c f" and "unblocked c s" and "runC c s = (Inr x, s')"
  shows "sys_reach env (ts, s) (ts[i := f x], s')"
  using assms
proof (induction c arbitrary: ts s)
  case (Finish r)
  then have "ts ! i = f x" "s' = s" by auto
  then have "ts[i := f x] = ts" by (metis list_update_id)
  with \<open>s' = s\<close> show ?case by simp
next
  case (Act g u k)
  let ?ts = "ts[i := bindC (k s) f]"
  have "sys_step env (ts, s) (?ts, u s)"
    using Act.prems by (auto intro: thread_step)
  moreover have "sys_reach env (?ts, u s) (?ts[i := f x], s')"
    by (rule Act.IH) (use Act.prems in auto)
  ultimately show ?case by (simp add: converse_rtranclp_into_rtranclp)
qed

lemma thread_goes:
  assumes "ts ! i = bindC c f" and "i < length ts" and "unblocked c s" and "runC c s = (Inr x, s')"
    and "ts' = ts[i := f x]"
  shows "sys_reach env (ts, s) (ts', s')"
  using thread_run [OF assms(2,1,3,4)] assms(5) by simp

section \<open>One thread beside its environment\<close>

text \<open>
  The weakest precondition of code under interference: before each action the environment may have taken any
  number of steps; the action is enabled unless the environment can still move, and it leads to a state
  from which the rest is safe; the postcondition holds after the last action whatever the environment then does.
\<close>

primrec wp :: "('s \<Rightarrow> 's \<Rightarrow> bool) \<Rightarrow> ('s, 'a) code \<Rightarrow> ('a res \<Rightarrow> 's \<Rightarrow> bool) \<Rightarrow> 's \<Rightarrow> bool" where
  "wp env (Finish r) Q s \<longleftrightarrow> (\<forall>s'. env\<^sup>*\<^sup>* s s' \<longrightarrow> Q r s')"
| "wp env (Act g u k) Q s \<longleftrightarrow> (\<forall>s'. env\<^sup>*\<^sup>* s s' \<longrightarrow>
     (g s' \<or> (\<exists>s''. env s' s'')) \<and> (g s' \<longrightarrow> wp env (k s') Q (u s')))"

lemma wp_env: "wp env c Q s \<Longrightarrow> env\<^sup>*\<^sup>* s s' \<Longrightarrow> wp env c Q s'"
  by (cases c) (auto dest: rtranclp_trans)

lemma wp_mono: "wp env c Q s \<Longrightarrow> (\<And>r s'. Q r s' \<Longrightarrow> Q' r s') \<Longrightarrow> wp env c Q' s"
  by (induction c arbitrary: s) auto

lemma wp_bind:
  "wp env c (\<lambda>r s'. case r of Inl e \<Rightarrow> wp env (Finish (Inl e)) Q s' | Inr x \<Rightarrow> wp env (f x) Q s') s
    \<Longrightarrow> wp env (bindC c f) Q s"
proof (induction c arbitrary: s)
  case (Finish r)
  then have "case r of Inl e \<Rightarrow> wp env (Finish (Inl e)) Q s | Inr x \<Rightarrow> wp env (f x) Q s" by simp
  then show ?case by (cases r) simp_all
qed simp

lemma wp_attempt: "wp env c (\<lambda>r. Q (Inr r)) s \<Longrightarrow> wp env (attemptC c) Q s"
  by (induction c arbitrary: s) simp_all

text \<open>A thread that is safe in this sense never gets stuck, and what it ends with is what was promised.\<close>

lemma wp_step:
  assumes "sys_step env ([c], s) (ts, s')" and "wp env c Q s"
  shows "\<exists>c'. ts = [c'] \<and> wp env c' Q s'"
  using assms(1)
proof (cases rule: sys_step.cases)
  case (thread_step i g u k)
  then have "c = Act g u k" "ts = [k s]" by simp_all
  moreover from this thread_step assms(2) have "wp env (k s) Q (u s)" by simp
  ultimately show ?thesis using thread_step by simp
next
  case env_step
  then show ?thesis using wp_env [OF assms(2)] by blast
qed

lemma wp_reach:
  assumes "sys_reach env ([c], s) (ts, s')" and "wp env c Q s"
  shows "\<exists>c'. ts = [c'] \<and> wp env c' Q s'"
  using assms(1)
proof (induction rule: rtranclp_induct2)
  case refl
  then show ?case using assms(2) by blast
next
  case (step ts1 s1 ts2 s2)
  then obtain c' where "ts1 = [c']" and c': "wp env c' Q s1" by auto
  with step(2) have "sys_step env ([c'], s1) (ts2, s2)" by simp
  from wp_step [OF this c'] show ?case .
qed

lemma wp_halted:
  assumes "sys_reach env ([c], s) (ts, s')" and "wp env c Q s" and "halted env (ts, s')"
  shows "\<exists>r. ts = [Finish r] \<and> Q r s'"
proof -
  from wp_reach [OF assms(1,2)] obtain c' where c': "ts = [c']" "wp env c' Q s'" by auto
  with assms(3) show ?thesis by (cases c') (auto simp: halted_iff)
qed

text \<open>
  \<open>rel h s t\<close>: the state \<open>s\<close> beside the environment agrees with the state \<open>t\<close> of the sequential run, while
  the thread holds \<open>h\<close>. The code \<open>c\<close>, started so, finishes as its sequential run from \<open>t\<close> does, and then holds \<open>h'\<close>.
\<close>

definition tracks :: "('s \<Rightarrow> 's \<Rightarrow> bool) \<Rightarrow> ('h \<Rightarrow> 's \<Rightarrow> 's \<Rightarrow> bool) \<Rightarrow> 'h \<Rightarrow> ('s, 'a) code \<Rightarrow> 's \<Rightarrow> 'h \<Rightarrow> bool" where
  "tracks env rel h c t h' \<longleftrightarrow>
     (\<forall>s. rel h s t \<longrightarrow> wp env c (\<lambda>r s'. r = fst (runC c t) \<and> rel h' s' (snd (runC c t))) s)"

named_theorems tracks_intros \<open>code that agrees with its sequential run\<close>

lemma tracks_bind:
  assumes "tracks env rel h c t h1"
    and "\<And>x t1. runC c t = (Inr x, t1) \<Longrightarrow> tracks env rel h1 (f x) t1 h2"
    and "\<And>e t1. runC c t = (Inl e, t1) \<Longrightarrow> tracks env rel h1 (Finish (Inl e) :: ('s, 'b) code) t1 h2"
  shows "tracks env rel h (bindC c f :: ('s, 'b) code) t h2"
  unfolding tracks_def
proof (intro allI impI, rule wp_bind)
  fix s assume "rel h s t"
  with assms(1) have w: "wp env c (\<lambda>r s'. r = fst (runC c t) \<and> rel h1 s' (snd (runC c t))) s"
    by (simp add: tracks_def)
  show "wp env c (\<lambda>r s'. case r of
      Inl e \<Rightarrow> wp env (Finish (Inl e)) (\<lambda>r s'. r = fst (runC (bindC c f) t) \<and> rel h2 s' (snd (runC (bindC c f) t))) s'
    | Inr x \<Rightarrow> wp env (f x) (\<lambda>r s'. r = fst (runC (bindC c f) t) \<and> rel h2 s' (snd (runC (bindC c f) t))) s') s"
  proof (rule wp_mono [OF w])
    fix r s1
    assume a: "r = fst (runC c t) \<and> rel h1 s1 (snd (runC c t))"
    obtain t1 where t1: "runC c t = (r, t1)" using a by (metis prod.collapse)
    show "case r of
        Inl e \<Rightarrow> wp env (Finish (Inl e)) (\<lambda>r s'. r = fst (runC (bindC c f) t) \<and> rel h2 s' (snd (runC (bindC c f) t))) s1
      | Inr x \<Rightarrow> wp env (f x) (\<lambda>r s'. r = fst (runC (bindC c f) t) \<and> rel h2 s' (snd (runC (bindC c f) t))) s1"
    proof (cases r)
      case (Inl e)
      with t1 have c: "runC c t = (Inl e, t1)" by simp
      from assms(3) [OF this] a t1 have "wp env (Finish (Inl e) :: ('s, 'b) code) (\<lambda>r s'. r = Inl e \<and> rel h2 s' t1) s1"
        by (simp add: tracks_def)
      with Inl c show ?thesis by (simp add: runC_bind_Inl)
    next
      case (Inr x)
      with t1 have c: "runC c t = (Inr x, t1)" by simp
      from assms(2) [OF this] a t1 have "wp env (f x) (\<lambda>r s'. r = fst (runC (f x) t1) \<and> rel h2 s' (snd (runC (f x) t1))) s1"
        by (simp add: tracks_def)
      with Inr c show ?thesis by (simp add: runC_bind_Inr)
    qed
  qed
qed

lemma tracks_attempt:
  assumes "tracks env rel h c t h'"
  shows "tracks env rel h (attemptC c) t h'"
  using assms by (auto simp: tracks_def runC_attempt intro!: wp_attempt elim!: wp_mono)

locale lockstep =
  fixes env :: "'s \<Rightarrow> 's \<Rightarrow> bool" and rel :: "'h \<Rightarrow> 's \<Rightarrow> 's \<Rightarrow> bool"
  assumes rel_env: "rel h s t \<Longrightarrow> env s s' \<Longrightarrow> rel h s' t"
begin

lemma rel_envs: "env\<^sup>*\<^sup>* s s' \<Longrightarrow> rel h s t \<Longrightarrow> rel h s' t"
  by (induction rule: rtranclp_induct) (auto intro: rel_env)

lemma tracks_finish: "tracks env rel h (Finish r) t h"
  by (auto simp: tracks_def intro: rel_envs)

lemma tracks_get: "(\<And>s. rel h s t \<Longrightarrow> f s = f t) \<Longrightarrow> tracks env rel h (getC f) t h"
  by (auto simp: tracks_def getC_def intro: rel_envs)

lemma tracks_modify: "(\<And>s. rel h s t \<Longrightarrow> rel h' (u s) (u t)) \<Longrightarrow> tracks env rel h (modifyC u) t h'"
  by (auto simp: tracks_def modifyC_def intro: rel_envs)

lemma tracks_exchange:
  "(\<And>s. rel h s t \<Longrightarrow> fst (f s) = fst (f t) \<and> rel h' (snd (f s)) (snd (f t))) \<Longrightarrow> tracks env rel h (exchangeC f) t h'"
  by (simp add: tracks_def exchangeC_def) (metis rel_envs)

lemma tracks_await:
  assumes "\<And>s. rel h s t \<Longrightarrow> g s \<Longrightarrow> rel h' (u s) (u t)"
    and "\<And>s. rel h s t \<Longrightarrow> \<forall>s'. \<not> env s s' \<Longrightarrow> g s"
  shows "tracks env rel h (awaitC g u) t h'"
  unfolding tracks_def awaitC_def wp.simps runC.simps fst_conv snd_conv
  using assms rel_envs by metis

text \<open>What is known of a thread that tracks its sequential run: it always ends, and as that run does.\<close>

lemma tracks_halted:
  assumes "tracks env rel h c t h'" and "rel h s t"
    and "sys_reach env ([c], s) (ts, s')" and "halted env (ts, s')"
  shows "ts = [Finish (fst (runC c t))] \<and> rel h' s' (snd (runC c t))"
proof -
  from assms(1,2) have "wp env c (\<lambda>r s'. r = fst (runC c t) \<and> rel h' s' (snd (runC c t))) s"
    by (simp add: tracks_def)
  from wp_halted [OF assms(3) this assms(4)] show ?thesis by blast
qed

lemma tracks_finished:
  assumes "tracks env rel h c t h'" and "rel h s t" and "sys_reach env ([c], s) ([Finish r], s')"
  shows "r = fst (runC c t) \<and> rel h' s' (snd (runC c t))"
proof -
  from assms(1,2) have "wp env c (\<lambda>r s'. r = fst (runC c t) \<and> rel h' s' (snd (runC c t))) s"
    by (simp add: tracks_def)
  from wp_reach [OF assms(3) this] show ?thesis by auto
qed

lemma tracks_no_deadlock:
  assumes "tracks env rel h c t h'" and "rel h s t" and "sys_reach env ([c], s) (ts, s')"
  shows "\<not> deadlocked env (ts, s')"
  using tracks_halted [OF assms] by (auto simp: deadlocked_def)

end

end
