(* ===== verification/PipelineInv.thy ===== *)
theory PipelineInv
  imports Pipeline ThreadLaws
begin

text \<open>
  Invariants of the command pipeline under any number of threads and any behaviour of the GPU. What a
  property has to be closed under is one locale (\<open>pipe_code\<close>), one assumption per kind of action, with an extension
  (\<open>pipe_kept\<close>) for the properties that the GPU keeps too; they are interpreted on each invariant. The slots are accounted for by the ledger of theory ThreadLaws.
\<close>

primrec call_ok :: "(nat \<Rightarrow> bool) \<Rightarrow> 'w call \<Rightarrow> bool" where
  "call_ok p CurrentBuffer \<longleftrightarrow> True"
| "call_ok p CommitAndContinue \<longleftrightarrow> True"
| "call_ok p Commit \<longleftrightarrow> True"
| "call_ok p Synchronize \<longleftrightarrow> True"
| "call_ok p Flush \<longleftrightarrow> True"
| "call_ok p (SetLazy b) \<longleftrightarrow> True"
| "call_ok p RecordOp \<longleftrightarrow> True"
| "call_ok p (SetThreshold n) \<longleftrightarrow> True"
| "call_ok p (SetMaxOps n) \<longleftrightarrow> p n"
| "call_ok p CurrentEncoder \<longleftrightarrow> True"
| "call_ok p DeviceSync \<longleftrightarrow> True"
| "call_ok p (DispatchOp ok w) \<longleftrightarrow> True"
| "call_ok p (BlitOp w) \<longleftrightarrow> True"
| "call_ok p (ScopedOp w) \<longleftrightarrow> True"
| "call_ok p (BatchBlock cs) \<longleftrightarrow> list_all (call_ok p) cs"
| "call_ok p (EncoderBlock cs) \<longleftrightarrow> list_all (call_ok p) cs"
| "call_ok p (TryBlock cs) \<longleftrightarrow> list_all (call_ok p) cs"

lemma call_ok_True: "call_ok (\<lambda>_. True) c"
  by (induction c) (auto simp: list_all_iff)

locale pipe_code =
  fixes I :: "'w pipe \<Rightarrow> bool" and sets :: "nat \<Rightarrow> bool"
  assumes k_acquire: "I s \<Longrightarrow> in_flight s < max_in_flight s \<Longrightarrow> I (s\<lparr>in_flight := Suc (in_flight s)\<rparr>)"
    and k_release: "I s \<Longrightarrow> 0 < in_flight s \<Longrightarrow> I (s\<lparr>in_flight := in_flight s - Suc 0\<rparr>)"
    and k_buffers: "I s \<Longrightarrow> I (s\<lparr>m_buffers := Suc (m_buffers s)\<rparr>)"
    and k_ticks: "I s \<Longrightarrow> I (s\<lparr>m_ticks := n\<rparr>)"
    and k_ema: "I s \<Longrightarrow> I (s\<lparr>encoder_duration_ema := x\<rparr>)"
    and k_tune: "I s \<Longrightarrow> I (s\<lparr>adaptive_encoder_max_ops := tune_max_ops (encoder_duration_ema s) (adaptive_encoder_max_ops s)\<rparr>)"
    and k_start: "I s \<Longrightarrow> I (s\<lparr>encoder_start_time := n\<rparr>)"
    and k_mu: "I s \<Longrightarrow> I (s\<lparr>mu := b\<rparr>)"
    and k_commit: "I s \<Longrightarrow> I (metal_commit b buf s)"
    and k_rotate: "I s \<Longrightarrow> I (s\<lparr>active_buffer := Some n\<rparr>)"
    and k_retire: "I s \<Longrightarrow> I (s\<lparr>active_buffer := None, has_active := False\<rparr>)"
    and k_ensure: "I s \<Longrightarrow> I (s\<lparr>active_buffer := Some n, has_active := True\<rparr>)"
    and k_count: "I s \<Longrightarrow> I (s\<lparr>op_count := n\<rparr>)"
    and k_lazy: "I s \<Longrightarrow> I (s\<lparr>lazy_commit := b\<rparr>)"
    and k_threshold: "I s \<Longrightarrow> I (s\<lparr>auto_flush_threshold := n\<rparr>)"
    and k_max: "sets n \<Longrightarrow> I s \<Longrightarrow> I (s\<lparr>encoder_max_ops := max (Suc 0) (min 512 n)\<rparr>)"
    and k_adaptive: "I s \<Longrightarrow> I (s\<lparr>adaptive_encoder_max_ops := encoder_max_ops s\<rparr>)"
    and k_open: "I s \<Longrightarrow> I (snd (open_encoder buf s))"
    and k_encoder: "I s \<Longrightarrow> I (s\<lparr>active_encoder := e\<rparr>)"
    and k_encops: "I s \<Longrightarrow> I (s\<lparr>encoder_op_count := n\<rparr>)"
    and k_end: "I s \<Longrightarrow> I (end_encoding e s)"
    and k_scope: "I s \<Longrightarrow> I (s\<lparr>encoder_scope_active := b\<rparr>)"
    and k_encode: "I s \<Longrightarrow> I (encode w e s)"
begin

lemmas actions = k_acquire k_release k_buffers k_ticks k_ema k_tune k_start k_mu k_commit k_rotate k_retire
  k_ensure k_count k_lazy k_threshold k_adaptive k_open k_encoder k_encops k_end k_scope k_encode

lemmas kept_code = keeps_bind keeps_attempt keeps_raise keeps_finish keeps_get keeps_times keeps_noexcept keeps_finally
  keeps_try keeps_modify keeps_await keeps_exchange

lemma kept_acquire: "keeps I acquire_slot"
  by (auto simp: acquire_slot_def intro!: keeps_await actions)

lemma kept_release: "keeps I release_slot"
  by (auto simp: release_slot_def give_back_def intro!: kept_code actions)

lemma kept_create: "keeps I (create_buffer h)"
  by (auto simp: create_buffer_def new_command_buffer_def intro!: kept_code actions split: option.split)

lemma kept_time: "keeps I (mach_absolute_time h)"
  by (auto simp: mach_absolute_time_def intro!: kept_code actions)

lemma kept_timing: "keeps I (update_encoder_timing h)"
  by (auto simp: update_encoder_timing_def intro!: kept_code kept_time actions)

lemma kept_locked: "keeps I c \<Longrightarrow> keeps I (locked c)"
  by (auto simp: locked_def intro!: kept_code actions)

lemma kept_submit: "keeps I submit_active"
  by (auto simp: submit_active_def intro!: kept_code actions)

lemma kept_rotate: "keeps I (rotate_buffer h)"
  by (auto simp: rotate_buffer_def intro!: kept_code kept_create actions)

lemma kept_retire: "keeps I retire_buffer"
  by (auto simp: retire_buffer_def intro!: kept_code actions)

lemma kept_reset: "keeps I reset_op_count"
  by (auto simp: reset_op_count_def intro!: kept_code actions)

lemma kept_count: "keeps I count_op"
  by (auto simp: count_op_def Let_def intro!: kept_code actions)

lemma kept_reset_if: "keeps I (reset_if_unchanged n)"
  by (auto simp: reset_if_unchanged_def intro!: kept_code actions)

lemma kept_ensure: "keeps I (ensure_buffer h)"
  by (auto simp: ensure_buffer_def intro!: kept_code kept_create actions)

lemma kept_set_lazy: "keeps I (set_lazy_commit b)"
  by (auto simp: set_lazy_commit_def intro!: kept_code actions)

lemmas kept_parts = kept_acquire kept_release kept_create kept_time kept_timing kept_locked kept_submit kept_rotate
  kept_retire kept_reset kept_count kept_reset_if kept_ensure kept_set_lazy

lemma kept_current_buffer: "keeps I (current_buffer h)"
  by (auto simp: current_buffer_def intro!: kept_code kept_parts)

lemma kept_flush: "keeps I (flush h)"
  by (auto simp: flush_def intro!: kept_code kept_parts)

lemma kept_commit_and_continue: "keeps I (commit_and_continue h)"
  by (auto simp: commit_and_continue_def intro!: kept_code kept_parts kept_flush)

lemma kept_commit: "keeps I commit"
  by (auto simp: commit_def intro!: kept_code kept_parts)

lemma kept_synchronize: "keeps I synchronize_pipeline"
  by (auto simp: synchronize_pipeline_def intro!: kept_code kept_parts)

lemma kept_record: "keeps I (record_op h)"
  by (auto simp: record_op_def intro!: kept_code kept_parts kept_flush)

lemma kept_threshold: "keeps I (set_auto_flush_threshold n)"
  by (auto simp: set_auto_flush_threshold_def intro!: kept_code actions)

lemma kept_max_ops: "sets n \<Longrightarrow> keeps I (set_encoder_max_ops n)"
  by (auto simp: set_encoder_max_ops_def intro!: kept_locked kept_code actions k_max)

lemma kept_batch: "keeps I c \<Longrightarrow> keeps I (with_batch h c)"
  by (auto simp: with_batch_def batch_enter_def batch_exit_def intro!: kept_code kept_parts kept_flush)

lemma kept_start: "keeps I (start_encoder h)"
  by (auto simp: start_encoder_def intro!: kept_code kept_time actions)

lemma kept_current_encoder: "keeps I (current_encoder h)"
  by (auto simp: current_encoder_def intro!: kept_code kept_parts kept_start actions)

lemma kept_enter: "keeps I (encoder_enter h)"
  by (auto simp: encoder_enter_def intro!: kept_code kept_parts kept_start actions)

lemma kept_exit: "keeps I (encoder_exit h p)"
  by (auto simp: encoder_exit_def intro!: kept_code kept_parts kept_start kept_flush actions split: prod.split)

lemma kept_encoder: "keeps I c \<Longrightarrow> keeps I (with_encoder h c)"
  by (auto simp: with_encoder_def intro!: kept_code kept_enter kept_exit)

lemma kept_dispatch: "keeps I (dispatch_op h ok w)"
  by (auto simp: dispatch_op_def intro!: kept_code kept_current_buffer kept_commit_and_continue actions)

lemma kept_blit: "keeps I (blit_op h w)"
  by (auto simp: blit_op_def intro!: kept_code kept_current_buffer kept_commit actions)

lemma kept_scoped: "keeps I (scoped_op h w)"
  by (auto simp: scoped_op_def intro!: kept_code kept_current_encoder actions)

lemma kept_device_sync: "keeps I (device_synchronize h)"
  by (auto simp: device_synchronize_def new_command_buffer_def intro!: kept_code actions)

lemma kept_block: "(\<And>c. c \<in> set cs \<Longrightarrow> keeps I (perform h c)) \<Longrightarrow> keeps I (blockC (map (perform h) cs))"
  by (auto intro!: keeps_block)

lemma kept_perform: "call_ok sets c \<Longrightarrow> keeps I (perform h c)"
  by (induction c) (auto simp: list_all_iff intro!: kept_current_buffer kept_flush kept_commit_and_continue kept_commit
    kept_synchronize kept_record kept_threshold kept_max_ops kept_set_lazy kept_batch kept_current_encoder
    kept_encoder kept_dispatch kept_blit kept_scoped kept_device_sync keeps_try kept_block keeps_bind)

lemma kept_performs: "list_all (call_ok sets) cs \<Longrightarrow> keeps I (performs h cs)"
  by (auto simp: performs_def list_all_iff intro!: kept_block kept_perform)

end

text \<open>The same for a property that the GPU keeps as well.\<close>

locale pipe_kept = pipe_code I sets for h :: metal_host and I :: "'w pipe \<Rightarrow> bool" and sets :: "nat \<Rightarrow> bool" +
  assumes k_complete: "I s \<Longrightarrow> i < length (m_queue s) \<Longrightarrow> H_finishes h (m_queue s) i \<Longrightarrow> I (complete i s)"
begin

lemma kept_gpu: "I s \<Longrightarrow> gpu_step h s s' \<Longrightarrow> I s'"
  by (auto elim!: gpu_stepE intro: k_complete)

end

sublocale pipe_kept \<subseteq> kept "gpu_step h" I
  by unfold_locales (rule kept_gpu)

context pipe_kept
begin

lemma kept_reach:
  assumes "sys_reach (gpu_step h) (map (performs h) css, s) (ts, s')" and "I s"
    and "\<forall>cs \<in> set css. list_all (call_ok sets) cs"
  shows "I s'"
  using reach_keeps [OF assms(1,2)] assms(3) by (auto intro: kept_performs)

end

section \<open>The slots\<close>

text \<open>The committed buffers whose handler has yet to give back a slot, and the slots that threads hold.\<close>

definition pending :: "'w pipe \<Rightarrow> nat" where
  "pending s = length (filter snd (m_queue s))"

definition slots_held :: "'w pipe \<Rightarrow> int" where
  "slots_held s = int (in_flight s) - int (pending s)"

lemma pending_split:
  assumes "i < length (m_queue s)"
  shows "pending s = length (filter snd (take i (m_queue s) @ drop (Suc i) (m_queue s))) + of_bool (snd (m_queue s ! i))"
proof -
  have "m_queue s = take i (m_queue s) @ m_queue s ! i # drop (Suc i) (m_queue s)"
    using assms by (rule id_take_nth_drop)
  then have "filter snd (m_queue s) = filter snd (take i (m_queue s) @ m_queue s ! i # drop (Suc i) (m_queue s))"
    by (rule arg_cong)
  then show ?thesis unfolding pending_def by simp
qed

lemma complete_simps [simp]:
  "max_in_flight (complete i s) = max_in_flight s"
  "in_flight (complete i s) = in_flight s - of_bool (snd (m_queue s ! i))"
  "m_queue (complete i s) = take i (m_queue s) @ drop (Suc i) (m_queue s)"
  "m_finished (complete i s) = m_finished s @ [fst (m_queue s ! i)]"
  "m_committed (complete i s) = m_committed s"
  "adaptive_encoder_max_ops (complete i s) = adaptive_encoder_max_ops s"
  "encoder_max_ops (complete i s) = encoder_max_ops s"
  by (auto simp: complete_def give_back_def fault_def Let_def split: prod.split)

lemma pending_complete:
  "i < length (m_queue s) \<Longrightarrow> pending (complete i s) = pending s - of_bool (snd (m_queue s ! i))"
  using pending_split [of i s] by (simp add: pending_def)

lemma slots_held_complete:
  assumes "0 \<le> slots_held s" and "i < length (m_queue s)"
  shows "slots_held (complete i s) = slots_held s"
proof -
  from pending_split [OF assms(2)] have "of_bool (snd (m_queue s ! i)) \<le> pending s" by simp
  with assms pending_complete [of i s] show ?thesis by (simp add: slots_held_def)
qed

interpretation slot_ledger: ledger "gpu_step h" slots_held
  by unfold_locales (auto elim!: gpu_stepE simp: slots_held_complete)

lemma held_simps [simp]:
  "slots_held (s\<lparr>mu := b\<rparr>) = slots_held s" "slots_held (s\<lparr>m_buffers := n\<rparr>) = slots_held s"
  "slots_held (s\<lparr>m_ticks := n\<rparr>) = slots_held s" "slots_held (s\<lparr>encoder_duration_ema := x\<rparr>) = slots_held s"
  "slots_held (s\<lparr>adaptive_encoder_max_ops := n\<rparr>) = slots_held s" "slots_held (s\<lparr>encoder_max_ops := n\<rparr>) = slots_held s"
  "slots_held (s\<lparr>encoder_start_time := n\<rparr>) = slots_held s" "slots_held (s\<lparr>active_buffer := buf\<rparr>) = slots_held s"
  "slots_held (s\<lparr>active_buffer := buf, has_active := b\<rparr>) = slots_held s"
  "slots_held (s\<lparr>op_count := n\<rparr>) = slots_held s" "slots_held (s\<lparr>lazy_commit := b\<rparr>) = slots_held s"
  "slots_held (s\<lparr>auto_flush_threshold := n\<rparr>) = slots_held s" "slots_held (s\<lparr>active_encoder := e\<rparr>) = slots_held s"
  "slots_held (s\<lparr>encoder_op_count := n\<rparr>) = slots_held s" "slots_held (s\<lparr>encoder_scope_active := b\<rparr>) = slots_held s"
  "slots_held (fault f s) = slots_held s"
  by (simp_all add: slots_held_def pending_def fault_def)

lemma held_metal [simp]:
  "slots_held (snd (open_encoder buf s)) = slots_held s" "slots_held (encode w e s) = slots_held s"
  "slots_held (end_encoding e s) = slots_held s" "slots_held (metal_commit False buf s) = slots_held s"
  by (auto simp: open_encoder_def encode_def end_encoding_def metal_commit_def slots_held_def pending_def fault_def
      Let_def split: option.split)

lemma held_commit:
  "slots_held (metal_commit True buf s) = slots_held s \<or> slots_held (metal_commit True buf s) = slots_held s - 1"
  by (auto simp: metal_commit_def slots_held_def pending_def fault_def split: option.split)

lemma held_new [simp]: "slots_held (new_pipe n) = 0"
  by (simp add: slots_held_def pending_def new_pipe_def new_metal_def metal.defs)

lemma balanced_acquire: "balanced slots_held n acquire_slot (\<lambda>r m. r = Inr () \<and> m = Suc n)"
  unfolding acquire_slot_def awaitC_def
  by (rule balanced_act) (auto simp: slots_held_def pending_def intro!: exI [of _ "Suc n"] balanced_finish)

lemma balanced_release: "balanced slots_held (Suc n) release_slot (\<lambda>_ m. m = n)"
  unfolding release_slot_def exchangeC_def bindC.simps
  by (rule balanced_act)
    (auto simp: slots_held_def pending_def give_back_def intro!: exI [of _ n] balanced_finish)

lemma needs_acquire: "(\<And>x. needs slots_held (Suc n) (f x)) \<Longrightarrow> needs slots_held n (bindC acquire_slot f)"
  unfolding needs_def by (auto intro!: balanced_bind [OF balanced_acquire])

lemma needs_acquire_only: "needs slots_held n acquire_slot"
  unfolding needs_def by (auto intro: balanced_weaken [OF balanced_acquire])

lemma needs_submit: "needs slots_held (Suc 0) submit_active"
  unfolding needs_def submit_active_def modifyC_def
proof (intro allI impI balanced_act)
  fix m :: nat and s :: "'w pipe" assume "Suc 0 \<le> m"
  then show "\<exists>m'. slots_held (metal_commit True (active_buffer s) s) - slots_held s = int m' - int m \<and>
      balanced slots_held m' (returnC ()) (\<lambda>_ _. True)"
    using held_commit [of "active_buffer s" s]
    by (auto intro!: balanced_finish intro: exI [of _ m] exI [of _ "m - 1"])
qed

lemma balanced_acquires: "balanced slots_held n (timesC k acquire_slot) (\<lambda>r m. r = Inr () \<and> m = n + k)"
proof (induction k arbitrary: n)
  case (Suc k)
  show ?case unfolding timesC_simps
    by (rule balanced_bind [OF balanced_acquire]) (use Suc [of "Suc n"] in auto)
qed (simp add: balanced_finish)

lemma needs_release: "needs slots_held k c \<Longrightarrow> needs slots_held (Suc k) (bindC release_slot (\<lambda>_. c))"
  unfolding needs_def
proof (intro allI impI)
  fix m assume c: "\<forall>m. k \<le> m \<longrightarrow> balanced slots_held m c (\<lambda>_ _. True)" and "Suc k \<le> m"
  then obtain n where "m = Suc n" "k \<le> n" by (cases m) auto
  with c show "balanced slots_held m (bindC release_slot (\<lambda>_. c)) (\<lambda>_ _. True)"
    by (auto intro: balanced_bind [OF balanced_release])
qed

lemma needs_releases: "needs slots_held k (timesC k release_slot)"
  by (induction k) (auto intro: needs_release needs_finish)

lemma needs_locked: "needs slots_held n c \<Longrightarrow> needs slots_held n (locked c)"
  unfolding locked_def
  by (rule neutral_needs_bind [OF neutral_await], simp, rule needs_bind [OF needs_attempt], assumption,
      rule neutral_needs, intro neutral_bind neutral_modify neutral_finish, simp)

lemma neutral_locked: "neutral slots_held c \<Longrightarrow> neutral slots_held (locked c)"
  unfolding locked_def by (auto intro!: neutral_intros neutral_await neutral_modify)

lemma neutral_parts:
  "neutral slots_held (create_buffer h)" "neutral slots_held (mach_absolute_time h)" "neutral slots_held retire_buffer"
  "neutral slots_held reset_op_count" "neutral slots_held count_op" "neutral slots_held (reset_if_unchanged n)"
  "neutral slots_held (set_lazy_commit b)" "neutral slots_held (set_auto_flush_threshold n)"
  unfolding create_buffer_def new_command_buffer_def mach_absolute_time_def retire_buffer_def reset_op_count_def
    count_op_def reset_if_unchanged_def set_lazy_commit_def set_auto_flush_threshold_def
  by (auto simp: Let_def intro!: neutral_intros neutral_modify neutral_exchange split: option.split)

lemma neutral_timing: "neutral slots_held (update_encoder_timing h)"
  unfolding update_encoder_timing_def by (auto intro!: neutral_intros neutral_parts neutral_modify)

lemma neutral_rotate: "neutral slots_held (rotate_buffer h)"
  unfolding rotate_buffer_def by (auto intro!: neutral_intros neutral_parts neutral_modify)

lemma neutral_ensure: "neutral slots_held (ensure_buffer h)"
  unfolding ensure_buffer_def by (auto intro!: neutral_intros neutral_parts neutral_modify)

lemma neutral_start: "neutral slots_held (start_encoder h)"
  unfolding start_encoder_def by (auto intro!: neutral_intros neutral_parts neutral_modify neutral_exchange)

lemma neutral_current_buffer: "neutral slots_held (current_buffer h)"
  unfolding current_buffer_def by (auto intro!: neutral_locked neutral_intros neutral_ensure)

lemma neutral_max_ops: "neutral slots_held (set_encoder_max_ops n)"
  unfolding set_encoder_max_ops_def by (auto intro!: neutral_locked neutral_intros neutral_modify)

lemma neutral_enter: "neutral slots_held (encoder_enter h)"
  unfolding encoder_enter_def
  by (auto intro!: neutral_locked neutral_intros neutral_modify neutral_parts neutral_ensure neutral_start)

lemma neutral_device_sync: "neutral slots_held (device_synchronize h)"
  unfolding device_synchronize_def new_command_buffer_def
  by (auto intro!: neutral_intros neutral_modify neutral_await neutral_exchange)

lemmas neutral_all = neutral_parts neutral_timing neutral_rotate neutral_ensure neutral_start neutral_current_buffer
  neutral_max_ops neutral_enter neutral_device_sync

lemmas needs_parts = neutral_all [THEN neutral_needs]

lemma needs_rotation: "needs slots_held (Suc 0) (blockC [submit_active, rotate_buffer h, reset_op_count])"
  unfolding blockC_simps by (intro needs_bind needs_submit needs_parts needs_finish)

lemma needs_retirement: "needs slots_held (Suc 0) (blockC [submit_active, retire_buffer, reset_op_count])"
  unfolding blockC_simps by (intro needs_bind needs_submit needs_parts needs_finish)

text \<open>A commit under the mutex, with the slot taken before it.\<close>

lemma needs_checked_commit:
  assumes "needs slots_held (Suc 0) c"
  shows "needs slots_held 0 (blockC [acquire_slot, locked (bindC (getC has_active) (\<lambda>active.
     if \<not> active then raiseC e m else c))])"
  unfolding blockC_simps raiseC_def
  by (intro needs_acquire needs_bind needs_locked neutral_needs_bind neutral_get needs_if needs_finish assms)

lemma needs_flush: "needs slots_held 0 (flush h)"
  unfolding flush_def blockC_simps(2) [of acquire_slot]
  by (intro needs_locked neutral_needs_bind [OF neutral_get] needs_if needs_finish needs_acquire needs_rotation)

lemma needs_commit: "needs slots_held 0 commit"
  unfolding commit_def by (rule needs_checked_commit [OF needs_retirement])

lemma needs_commit_and_continue: "needs slots_held 0 (commit_and_continue h)"
  unfolding commit_and_continue_def blockC_simps(2) [of "flush h"] blockC_simps(2) [of reset_op_count] blockC_simps(1)
  by (intro neutral_needs_bind [OF neutral_parts(5)] neutral_needs_bind [OF neutral_get] needs_if needs_finish
      needs_bind [OF needs_flush] needs_bind [OF needs_parts(4)] needs_checked_commit [OF needs_rotation, unfolded blockC_simps]
      needs_checked_commit [OF needs_rotation])

lemma needs_all_slots:
  "needs slots_held 0 (bindC (timesC n acquire_slot) (\<lambda>_. timesC n release_slot))"
  unfolding needs_def
proof (intro allI impI)
  fix m :: nat
  show "balanced slots_held m (bindC (timesC n acquire_slot) (\<lambda>_. timesC n release_slot)) (\<lambda>_ _. True)"
    by (rule balanced_bind [OF balanced_acquires]) (auto intro!: needs_releases [unfolded needs_def, rule_format])
qed

lemma needs_retired: "needs slots_held (Suc 0) (bindC submit_active (\<lambda>_. retire_buffer))"
  by (intro needs_bind needs_submit needs_parts needs_finish)

lemma needs_synchronize: "needs slots_held 0 synchronize_pipeline"
  unfolding synchronize_pipeline_def blockC_simps bindC_unit
  by (intro needs_bind [OF needs_locked] neutral_needs_bind [OF neutral_get] needs_if needs_finish needs_acquire
      needs_retired needs_all_slots)

lemma needs_record: "needs slots_held 0 (record_op h)"
  unfolding record_op_def
  by (intro neutral_needs_bind [OF neutral_parts(5)] neutral_needs_bind [OF neutral_parts(6)]
      neutral_needs_bind [OF neutral_get] needs_if needs_finish needs_flush)

lemma needs_batch: "needs slots_held 0 c \<Longrightarrow> needs slots_held 0 (with_batch h c)"
  unfolding with_batch_def batch_enter_def batch_exit_def blockC_simps
  by (intro needs_bind needs_parts needs_finally needs_flush needs_finish neutral_needs [OF neutral_get])

lemma needs_exit: "needs slots_held 0 (encoder_exit h p)"
  unfolding encoder_exit_def blockC_simps
  by (cases p) (auto simp del: bindC_unit intro!: needs_locked needs_bind needs_parts needs_finish needs_if needs_flush
      neutral_needs [OF neutral_get] neutral_needs [OF neutral_modify])

lemma needs_encoder: "needs slots_held 0 c \<Longrightarrow> needs slots_held 0 (with_encoder h c)"
  unfolding with_encoder_def by (intro needs_bind needs_parts needs_finally needs_exit)

lemma neutral_modify_metal:
  "neutral slots_held (exchangeC (open_encoder buf))" "neutral slots_held (modifyC (encode w e))"
  "neutral slots_held (modifyC (end_encoding e))" "neutral slots_held (modifyC (\<lambda>s. end_encoding (active_encoder s) s))"
  by (simp_all add: neutral_exchange neutral_modify)

lemma needs_dispatch: "needs slots_held 0 (dispatch_op h ok w)"
  unfolding dispatch_op_def raiseC_def blockC_simps bindC_unit
  by (intro needs_bind needs_parts needs_if needs_finish neutral_modify_metal [THEN neutral_needs] needs_commit_and_continue)

lemma needs_blit: "needs slots_held 0 (blit_op h w)"
  unfolding blit_op_def blockC_simps bindC_unit
  by (intro needs_bind needs_parts neutral_modify_metal [THEN neutral_needs] needs_commit)

text \<open>The change of buffers inside an encoder scope, from the old encoder's end to the new one's start.\<close>

lemma needs_encoder_change:
  "needs slots_held 0 (blockC [modifyC (\<lambda>s. end_encoding (active_encoder s) s), update_encoder_timing h, acquire_slot,
     submit_active, bindC (create_buffer h) (\<lambda>b. modifyC (\<lambda>s. s\<lparr>active_buffer := Some b, has_active := True\<rparr>)), start_encoder h])"
  unfolding blockC_simps bindC_unit
proof (intro neutral_needs_bind [OF neutral_modify_metal(4)] neutral_needs_bind [OF neutral_timing] needs_acquire)
  show "needs slots_held (Suc 0) (bindC submit_active (\<lambda>_. bindC (bindC (create_buffer h)
      (\<lambda>b. modifyC (\<lambda>s. s\<lparr>active_buffer := Some b, has_active := True\<rparr>))) (\<lambda>_. start_encoder h)))"
    by (intro needs_bind needs_submit needs_parts neutral_needs [OF neutral_modify]) simp
qed

lemma needs_current_encoder: "needs slots_held 0 (current_encoder h)"
  unfolding current_encoder_def
  by (intro needs_locked neutral_needs_bind [OF neutral_get] needs_if needs_finish needs_bind needs_encoder_change
      neutral_needs [OF neutral_get] neutral_needs [OF neutral_modify]) simp

lemma needs_scoped: "needs slots_held 0 (scoped_op h w)"
  unfolding scoped_op_def by (intro needs_bind needs_current_encoder neutral_modify_metal [THEN neutral_needs])

lemma needs_perform: "needs slots_held 0 (perform h c)"
  by (induction c) (auto intro!: needs_parts needs_commit_and_continue needs_commit needs_synchronize needs_flush
    needs_record needs_current_encoder needs_dispatch needs_blit needs_scoped needs_batch needs_encoder needs_try
    needs_block needs_bind needs_finish simp del: bindC_unit)

lemma needs_performs: "needs slots_held 0 (performs h cs)"
  unfolding performs_def by (rule needs_block) (auto intro: needs_perform)

end
