(* ===== verification/PipelineRuns.thy ===== *)
theory PipelineRuns
  imports PipelineInv
begin

text \<open>
  One thread beside the GPU. Its state agrees with that of its sequential run in everything but what the GPU
  changes: the slots in use, the queue and the completed buffers. The rules \<open>does\<close> state at once what the sequential run of a
  piece of code does and that the thread beside the GPU does the same without getting stuck; they are the
  library for the properties of programs of a single thread.
\<close>

section \<open>Agreement\<close>

definition gpu_part :: "nat \<Rightarrow> (nat \<times> bool) list \<Rightarrow> nat list \<Rightarrow> 'w pipe \<Rightarrow> 'w pipe" where
  "gpu_part f q m t = t\<lparr>in_flight := f, m_queue := q, m_finished := m\<rparr>"

text \<open>
  The index: how many slots the thread holds, and what it knows the GPU to have done: nothing in particular,
  all buffers of the pipeline, or a certain buffer.
\<close>

datatype knowledge = Nothing | Drained | Completed nat

primrec knows :: "knowledge \<Rightarrow> (nat \<times> bool) list \<Rightarrow> nat list \<Rightarrow> bool" where
  "knows Nothing q m \<longleftrightarrow> True"
| "knows Drained q m \<longleftrightarrow> filter snd q = []"
| "knows (Completed b) q m \<longleftrightarrow> b \<in> set m"

definition agrees :: "nat \<times> knowledge \<Rightarrow> 'w pipe \<Rightarrow> 'w pipe \<Rightarrow> bool" where
  "agrees k s t \<longleftrightarrow> (\<exists>f q m. s = gpu_part f q m t \<and> f = fst k + length (filter snd q) \<and> f \<le> max_in_flight t
     \<and> in_flight t = fst k + pending t \<and> set (m_committed t) = set m \<union> fst ` set q
     \<and> set q \<subseteq> set (m_queue t) \<and> knows (snd k) q m)"

lemma gpu_part_simps [simp]:
  "in_flight (gpu_part f q m t) = f" "m_queue (gpu_part f q m t) = q" "m_finished (gpu_part f q m t) = m"
  "pending (gpu_part f q m t) = length (filter snd q)"
  "m_committed (gpu_part f q m t) = m_committed t" "m_open (gpu_part f q m t) = m_open t"
  "m_target (gpu_part f q m t) = m_target t" "m_work (gpu_part f q m t) = m_work t"
  "m_buffers (gpu_part f q m t) = m_buffers t" "m_encoders (gpu_part f q m t) = m_encoders t"
  "m_ticks (gpu_part f q m t) = m_ticks t" "m_faults (gpu_part f q m t) = m_faults t"
  "buffer_count (gpu_part f q m t) = buffer_count t" "max_in_flight (gpu_part f q m t) = max_in_flight t"
  "mu (gpu_part f q m t) = mu t" "active_buffer (gpu_part f q m t) = active_buffer t"
  "has_active (gpu_part f q m t) = has_active t" "lazy_commit (gpu_part f q m t) = lazy_commit t"
  "op_count (gpu_part f q m t) = op_count t" "auto_flush_threshold (gpu_part f q m t) = auto_flush_threshold t"
  "active_encoder (gpu_part f q m t) = active_encoder t" "encoder_scope_active (gpu_part f q m t) = encoder_scope_active t"
  "encoder_op_count (gpu_part f q m t) = encoder_op_count t" "encoder_max_ops (gpu_part f q m t) = encoder_max_ops t"
  "encoder_start_time (gpu_part f q m t) = encoder_start_time t"
  "encoder_duration_ema (gpu_part f q m t) = encoder_duration_ema t"
  "adaptive_encoder_max_ops (gpu_part f q m t) = adaptive_encoder_max_ops t"
  by (simp_all add: gpu_part_def pending_def)

lemma filter_without:
  assumes "i < length q"
  shows "length (filter P q) = length (filter P (take i q @ drop (Suc i) q)) + of_bool (P (q ! i))"
    and "set q = insert (q ! i) (set (take i q @ drop (Suc i) q))"
proof -
  have q: "q = take i q @ q ! i # drop (Suc i) q"
    using assms by (rule id_take_nth_drop)
  have "filter P q = filter P (take i q @ q ! i # drop (Suc i) q)" using q by (rule arg_cong)
  then show "length (filter P q) = length (filter P (take i q @ drop (Suc i) q)) + of_bool (P (q ! i))" by simp
  have "set q = set (take i q @ q ! i # drop (Suc i) q)" using q by (rule arg_cong)
  then show "set q = insert (q ! i) (set (take i q @ drop (Suc i) q))" by simp
qed

lemma complete_gpu_part:
  assumes "length (filter snd q) \<le> f" and "i < length q"
  shows "complete i (gpu_part f q m t) =
    gpu_part (f - of_bool (snd (q ! i))) (take i q @ drop (Suc i) q) (m @ [fst (q ! i)]) t"
proof -
  from filter_without(1) [OF assms(2), of snd] assms(1) have "snd (q ! i) \<Longrightarrow> 0 < f" by simp
  then show ?thesis
    by (cases "q ! i") (auto simp: complete_def give_back_def gpu_part_def Let_def)
qed

lemma agrees_gpu:
  assumes "agrees k s t" and "gpu_step h s s'"
  shows "agrees k s' t"
proof -
  from assms(1) obtain f q m where s: "s = gpu_part f q m t" "f = fst k + length (filter snd q)" "f \<le> max_in_flight t"
    and t: "in_flight t = fst k + pending t" "set (m_committed t) = set m \<union> fst ` set q"
    "set q \<subseteq> set (m_queue t)" "knows (snd k) q m"
    by (auto simp: agrees_def)
  from assms(2) obtain i where i: "i < length q" "s' = complete i s"
    using s by (auto elim!: gpu_stepE)
  let ?q = "take i q @ drop (Suc i) q"
  have len: "length (filter snd q) = length (filter snd ?q) + of_bool (snd (q ! i))"
    using i by (intro filter_without)
  have "s' = gpu_part (f - of_bool (snd (q ! i))) ?q (m @ [fst (q ! i)]) t"
    using s i by (simp add: complete_gpu_part)
  moreover have "f - of_bool (snd (q ! i)) = fst k + length (filter snd ?q)"
    using s len by simp
  moreover have "f - of_bool (snd (q ! i)) \<le> max_in_flight t" using s by simp
  moreover have "set (m_committed t) = set (m @ [fst (q ! i)]) \<union> fst ` set ?q"
    using t filter_without(2) [OF i(1)] by auto
  moreover have "set ?q \<subseteq> set (m_queue t)" using t filter_without(2) [OF i(1)] by auto
  moreover have "knows (snd k) ?q (m @ [fst (q ! i)])" using t len by (cases "snd k") auto
  ultimately show ?thesis unfolding agrees_def using t(1) by blast
qed

interpretation pipe_runs: lockstep "gpu_step h" agrees
  by unfold_locales (rule agrees_gpu)

lemma agreesE:
  assumes "agrees k s t"
  obtains f q m where "s = gpu_part f q m t" "f = fst k + length (filter snd q)" "f \<le> max_in_flight t"
    "in_flight t = fst k + pending t" "set (m_committed t) = set m \<union> fst ` set q"
    "set q \<subseteq> set (m_queue t)" "knows (snd k) q m"
  using assms by (auto simp: agrees_def)

lemma agreesI:
  assumes "s = gpu_part f q m t" and "f = fst k + length (filter snd q)" and "f \<le> max_in_flight t"
    and "in_flight t = fst k + pending t" and "set (m_committed t) = set m \<union> fst ` set q"
    and "set q \<subseteq> set (m_queue t)" and "knows (snd k) q m"
  shows "agrees k s t"
  using assms unfolding agrees_def by blast

text \<open>A GPU that completes something as long as there is something in its queue.\<close>

definition gpu_works :: "metal_host \<Rightarrow> bool" where
  "gpu_works h \<longleftrightarrow> (\<forall>q. q \<noteq> [] \<longrightarrow> (\<exists>i < length q. H_finishes h q i))"

lemma gpu_stuck: "gpu_works h \<Longrightarrow> (\<forall>s'. \<not> gpu_step h s s') \<longleftrightarrow> m_queue s = []"
  by (auto simp: gpu_works_def elim!: gpu_stepE) (metis completes)

section \<open>What a piece of code does\<close>

definition does :: "metal_host \<Rightarrow> nat \<times> knowledge \<Rightarrow> ('w pipe, 'a) code \<Rightarrow> 'w pipe \<Rightarrow> nat \<times> knowledge
    \<Rightarrow> ('a \<Rightarrow> 'w pipe \<Rightarrow> bool) \<Rightarrow> bool" where
  "does h k c t k' P \<longleftrightarrow>
     tracks (gpu_step h) agrees k c t k' \<and> (\<exists>x t'. runC c t = (Inr x, t') \<and> P x t')"

definition quiet :: "('w pipe \<Rightarrow> 'w pipe) \<Rightarrow> 'w pipe \<Rightarrow> bool" where
  "quiet u t \<longleftrightarrow> (\<forall>f q m. u (gpu_part f q m t) = gpu_part f q m (u t)) \<and> in_flight (u t) = in_flight t
     \<and> m_queue (u t) = m_queue t \<and> m_committed (u t) = m_committed t \<and> max_in_flight (u t) = max_in_flight t"

named_theorems quiet_simps \<open>actions that leave slots and queue alone\<close>

lemma quiet_set [quiet_simps]:
  "quiet (\<lambda>s. s\<lparr>mu := b\<rparr>) t" "quiet (\<lambda>s. s\<lparr>m_buffers := n\<rparr>) t" "quiet (\<lambda>s. s\<lparr>m_buffers := Suc (m_buffers s)\<rparr>) t"
  "quiet (\<lambda>s. s\<lparr>m_ticks := Suc (m_ticks s)\<rparr>) t"
  "quiet (\<lambda>s. s\<lparr>encoder_duration_ema := next_ema x (encoder_duration_ema s)\<rparr>) t"
  "quiet (\<lambda>s. s\<lparr>adaptive_encoder_max_ops := tune_max_ops (encoder_duration_ema s) (adaptive_encoder_max_ops s)\<rparr>) t"
  "quiet (\<lambda>s. s\<lparr>adaptive_encoder_max_ops := encoder_max_ops s\<rparr>) t" "quiet (\<lambda>s. s\<lparr>encoder_max_ops := n\<rparr>) t"
  "quiet (\<lambda>s. s\<lparr>encoder_start_time := n\<rparr>) t" "quiet (\<lambda>s. s\<lparr>active_buffer := buf\<rparr>) t"
  "quiet (\<lambda>s. s\<lparr>active_buffer := buf, has_active := b\<rparr>) t"
  "quiet (\<lambda>s. s\<lparr>op_count := n\<rparr>) t" "quiet (\<lambda>s. s\<lparr>lazy_commit := b\<rparr>) t"
  "quiet (\<lambda>s. s\<lparr>auto_flush_threshold := n\<rparr>) t" "quiet (\<lambda>s. s\<lparr>active_encoder := e\<rparr>) t"
  "quiet (\<lambda>s. s\<lparr>encoder_op_count := n\<rparr>) t" "quiet (\<lambda>s. s\<lparr>encoder_scope_active := b\<rparr>) t"
  "quiet (\<lambda>s. s\<lparr>encoder_op_count := (encoder_op_count s + 1) mod size_mod\<rparr>) t"
  by (simp_all add: quiet_def gpu_part_def)

lemma quiet_metal [quiet_simps]:
  "quiet (\<lambda>s. snd (open_encoder buf s)) t" "quiet (encode w e) t" "quiet (end_encoding e) t"
  "quiet (\<lambda>s. end_encoding (active_encoder s) s) t" "quiet (\<lambda>s. s) t"
  by (auto simp: quiet_def open_encoder_def encode_def end_encoding_def fault_def gpu_part_def Let_def split: option.splits)

lemma agrees_quiet: "agrees k s t \<Longrightarrow> quiet u t \<Longrightarrow> agrees k (u s) (u t)"
  by (erule agreesE, rule agreesI) (auto simp: quiet_def pending_def)

lemma does_weaken: "does h k c t k' P \<Longrightarrow> (\<And>x t'. P x t' \<Longrightarrow> Q x t') \<Longrightarrow> does h k c t k' Q"
  by (auto simp: does_def)

lemma does_exact: "does h k c t k' P \<Longrightarrow> \<exists>x t1. P x t1 \<and> does h k c t k' (\<lambda>y t'. y = x \<and> t' = t1)"
  by (auto simp: does_def)

lemma does_bind:
  assumes "does h k c t k1 P" and "\<And>x t1. P x t1 \<Longrightarrow> does h k1 (f x) t1 k2 Q"
  shows "does h k (bindC c f) t k2 Q"
proof -
  from assms(1) obtain x t1 where c: "tracks (gpu_step h) agrees k c t k1" "runC c t = (Inr x, t1)" "P x t1"
    by (auto simp: does_def)
  with assms(2) have f: "tracks (gpu_step h) agrees k1 (f x) t1 k2" "\<exists>y t2. runC (f x) t1 = (Inr y, t2) \<and> Q y t2"
    by (auto simp: does_def)
  have "tracks (gpu_step h) agrees k (bindC c f) t k2"
    by (rule tracks_bind [OF c(1)]) (use c f in auto)
  with f c show ?thesis by (auto simp: does_def runC_bind)
qed

lemma does_return: "P x t \<Longrightarrow> does h k (returnC x) t k P"
  by (auto simp: does_def intro: pipe_runs.tracks_finish)

lemma does_get: "(\<And>f q m. F (gpu_part f q m t) = F t) \<Longrightarrow> P (F t) t \<Longrightarrow> does h k (getC F) t k P"
proof -
  assume F: "\<And>f q m. F (gpu_part f q m t) = F t" and P: "P (F t) t"
  have "F s = F t" if "agrees k s t" for s
  proof -
    from that obtain f q m where s: "s = gpu_part f q m t" by (rule agreesE)
    show ?thesis unfolding s by (rule F)
  qed
  then have "tracks (gpu_step h) agrees k (getC F) t k" by (rule pipe_runs.tracks_get)
  with P show ?thesis by (simp add: does_def)
qed

lemma does_modify: "quiet u t \<Longrightarrow> P () (u t) \<Longrightarrow> does h k (modifyC u) t k P"
  unfolding does_def by (rule conjI, rule pipe_runs.tracks_modify, erule (1) agrees_quiet) simp

lemma does_exchange:
  assumes "quiet (\<lambda>s. snd (g s)) t" and "\<And>f q m. fst (g (gpu_part f q m t)) = fst (g t)" and "P (fst (g t)) (snd (g t))"
  shows "does h k (exchangeC g) t k P"
proof -
  have "fst (g s) = fst (g t) \<and> agrees k (snd (g s)) (snd (g t))" if "agrees k s t" for s
  proof
    from that obtain f q m where s: "s = gpu_part f q m t" by (rule agreesE)
    show "fst (g s) = fst (g t)" unfolding s by (rule assms(2))
  qed (rule agrees_quiet [OF that assms(1)])
  then have "tracks (gpu_step h) agrees k (exchangeC g) t k"
    by (rule pipe_runs.tracks_exchange)
  with assms(3) show ?thesis by (simp add: does_def)
qed

lemma does_attempt: "does h k c t k' P \<Longrightarrow> does h k (attemptC c) t k' (\<lambda>r t'. \<exists>x. r = Inr x \<and> P x t')"
  by (auto simp: does_def runC_attempt intro: tracks_attempt)

lemma does_locked:
  assumes "\<not> mu t" and "does h k c (t\<lparr>mu := True\<rparr>) k' (\<lambda>x t'. P x (t'\<lparr>mu := False\<rparr>))"
  shows "does h k (locked c) t k' P"
proof -
  have "tracks (gpu_step h) agrees k (awaitC (\<lambda>s. \<not> mu s) (\<lambda>s. s\<lparr>mu := True\<rparr>)) t k"
    by (rule pipe_runs.tracks_await) (use assms(1) in \<open>auto intro: agrees_quiet quiet_simps elim: agreesE\<close>)
  then have "does h k (awaitC (\<lambda>s. \<not> mu s) (\<lambda>s. s\<lparr>mu := True\<rparr>)) t k (\<lambda>_ t'. t' = t\<lparr>mu := True\<rparr>)"
    by (simp add: does_def)
  then show ?thesis unfolding locked_def
  proof (rule does_bind, clarify)
    show "does h k (bindC (attemptC c) (\<lambda>r. bindC (modifyC (\<lambda>s. s\<lparr>mu := False\<rparr>)) (\<lambda>_. Finish r))) (t\<lparr>mu := True\<rparr>) k' P"
      by (rule does_bind [OF does_attempt [OF assms(2)]])
        (auto intro!: does_bind [OF does_modify, of _ _ "\<lambda>_ t'. P _ t'"] does_return quiet_simps)
  qed
qed

lemma does_noexcept: "does h k c t k' P \<Longrightarrow> does h k (noexceptC c) t k' P"
  unfolding noexceptC_def by (rule does_bind, erule does_attempt) (auto intro: does_return)

lemma does_finally:
  assumes "does h k c t k1 P" and "\<And>x t1. P x t1 \<Longrightarrow> does h k1 d t1 k2 (\<lambda>_. Q x)"
  shows "does h k (finallyC c d) t k2 Q"
  unfolding finallyC_def
  by (rule does_bind [OF does_attempt [OF assms(1)]])
    (auto intro!: does_bind [OF does_noexcept [OF assms(2)]] does_return)

lemma does_try: "does h k c t k' P \<Longrightarrow> does h k (tryC c) t k' (\<lambda>_ t'. P () t')"
  unfolding tryC_def by (rule does_bind, erule does_attempt) (auto intro: does_return)

lemma does_acquire:
  assumes "gpu_works h" and "n < max_in_flight t" and "P () (t\<lparr>in_flight := Suc (in_flight t)\<rparr>)"
  shows "does h (n, d) acquire_slot t (Suc n, d) P"
proof -
  have "tracks (gpu_step h) agrees (n, d) acquire_slot t (Suc n, d)" unfolding acquire_slot_def
  proof (rule pipe_runs.tracks_await)
    fix s assume "agrees (n, d) s t"
    {
      assume "in_flight s < max_in_flight s"
      with \<open>agrees (n, d) s t\<close>
      show "agrees (Suc n, d) (s\<lparr>in_flight := in_flight s + 1\<rparr>) (t\<lparr>in_flight := in_flight t + 1\<rparr>)"
        by (elim agreesE, intro agreesI) (auto simp: gpu_part_def pending_def)
    }
    assume "\<forall>s'. \<not> gpu_step h s s'"
    with \<open>agrees (n, d) s t\<close> show "in_flight s < max_in_flight s"
      using assms(1,2) by (auto simp: gpu_stuck elim!: agreesE)
  qed
  with assms(3) show ?thesis by (simp add: does_def acquire_slot_def)
qed

lemma does_release:
  assumes "P () (t\<lparr>in_flight := in_flight t - 1\<rparr>)" and "0 < in_flight t"
  shows "does h (Suc n, d) release_slot t (n, d) P"
proof -
  have "tracks (gpu_step h) agrees (Suc n, d) (exchangeC give_back) t (n, d)"
  proof (rule pipe_runs.tracks_exchange)
    fix s assume "agrees (Suc n, d) s t"
    then show "fst (give_back s) = fst (give_back t) \<and> agrees (n, d) (snd (give_back s)) (snd (give_back t))"
    proof (rule agreesE)
      fix f q m
      assume s: "s = gpu_part f q m t" and f: "f = fst (Suc n, d) + length (filter snd q)"
        and rest: "f \<le> max_in_flight t" "in_flight t = fst (Suc n, d) + pending t"
          "set (m_committed t) = set m \<union> fst ` set q" "set q \<subseteq> set (m_queue t)" "knows (snd (Suc n, d)) q m"
      from f have "agrees (n, d) (gpu_part (f - 1) q m (t\<lparr>in_flight := in_flight t - 1\<rparr>)) (t\<lparr>in_flight := in_flight t - 1\<rparr>)"
        by (intro agreesI [OF refl]) (use rest in \<open>auto simp: pending_def\<close>)
      moreover have "give_back s = (True, gpu_part (f - 1) q m (t\<lparr>in_flight := in_flight t - 1\<rparr>))"
        using f s by (simp add: give_back_def gpu_part_def)
      ultimately show ?thesis using assms(2) by (simp add: give_back_def)
    qed
  qed
  then have "does h (Suc n, d) (exchangeC give_back) t (n, d) (\<lambda>x t'. x = True \<and> t' = t\<lparr>in_flight := in_flight t - 1\<rparr>)"
    using assms(2) by (auto simp: does_def give_back_def)
  then show ?thesis unfolding release_slot_def
    by (rule does_bind) (use assms(1) in \<open>auto intro!: does_return\<close>)
qed

lemma does_submit:
  assumes "active_buffer t = Some b" and "b \<notin> set (m_committed t)" and "m_open t b = None"
    and "P () (t\<lparr>m_committed := m_committed t @ [b], m_queue := m_queue t @ [(b, True)]\<rparr>)"
  shows "does h (Suc n, d) submit_active t (n, Nothing) P"
proof -
  have "tracks (gpu_step h) agrees (Suc n, d) submit_active t (n, Nothing)" unfolding submit_active_def
  proof (rule pipe_runs.tracks_modify)
    fix s assume "agrees (Suc n, d) s t"
    then show "agrees (n, Nothing) (metal_commit True (active_buffer s) s) (metal_commit True (active_buffer t) t)"
    proof (rule agreesE)
      fix f q m
      assume s: "s = gpu_part f q m t" and rest: "f = fst (Suc n, d) + length (filter snd q)" "f \<le> max_in_flight t"
        "in_flight t = fst (Suc n, d) + pending t" "set (m_committed t) = set m \<union> fst ` set q" "set q \<subseteq> set (m_queue t)"
      let ?t = "t\<lparr>m_committed := m_committed t @ [b], m_queue := m_queue t @ [(b, True)]\<rparr>"
      from rest have "agrees (n, Nothing) (gpu_part f (q @ [(b, True)]) m ?t) ?t"
        by (intro agreesI [OF refl]) (auto simp: pending_def)
      moreover have "metal_commit True (active_buffer s) s = gpu_part f (q @ [(b, True)]) m ?t"
        "metal_commit True (active_buffer t) t = ?t"
        using s assms(1-3) by (simp_all add: metal_commit_def gpu_part_def)
      ultimately show ?thesis by simp
    qed
  qed
  with assms show ?thesis by (simp add: does_def submit_active_def metal_commit_def)
qed

text \<open>The same rules for an action at the front of a chain.\<close>

lemma step_get:
  "(\<And>f q m. F (gpu_part f q m t) = F t) \<Longrightarrow> does h k (c (F t)) t k' Q \<Longrightarrow> does h k (bindC (getC F) c) t k' Q"
  by (rule does_bind [OF does_get [of F t "\<lambda>x t'. x = F t \<and> t' = t"]]) auto

lemma step_modify: "quiet u t \<Longrightarrow> does h k (c ()) (u t) k' Q \<Longrightarrow> does h k (bindC (modifyC u) c) t k' Q"
  by (rule does_bind [OF does_modify [of u t "\<lambda>x t'. t' = u t"]]) auto

lemma step_exchange:
  assumes "quiet (\<lambda>s. snd (g s)) t" and "\<And>f q m. fst (g (gpu_part f q m t)) = fst (g t)"
    and "does h k (c (fst (g t))) (snd (g t)) k' Q"
  shows "does h k (bindC (exchangeC g) c) t k' Q"
  by (rule does_bind [OF does_exchange [where P = "\<lambda>x t'. x = fst (g t) \<and> t' = snd (g t)"]]) (use assms in auto)

lemma step_acquire:
  assumes "gpu_works h" and "n < max_in_flight t"
    and "does h (Suc n, d) (c ()) (t\<lparr>in_flight := Suc (in_flight t)\<rparr>) k' Q"
  shows "does h (n, d) (bindC acquire_slot c) t k' Q"
  by (rule does_bind [OF does_acquire [where P = "\<lambda>x t'. t' = t\<lparr>in_flight := Suc (in_flight t)\<rparr>"]])
    (use assms in auto)

lemma step_submit:
  assumes "active_buffer t = Some b" and "b \<notin> set (m_committed t)" and "m_open t b = None"
    and "does h (n, Nothing) (c ()) (t\<lparr>m_committed := m_committed t @ [b], m_queue := m_queue t @ [(b, True)]\<rparr>) k' Q"
  shows "does h (Suc n, d) (bindC submit_active c) t k' Q"
  by (rule does_bind [OF does_submit [where P = "\<lambda>x t'. t' = t\<lparr>m_committed := m_committed t @ [b], m_queue := m_queue t @ [(b, True)]\<rparr>"]])
    (use assms in auto)

lemma step_create:
  assumes "H_creates h (m_buffers t)" and "does h k (c (m_buffers t)) (t\<lparr>m_buffers := Suc (m_buffers t)\<rparr>) k' Q"
  shows "does h k (bindC (create_buffer h) c) t k' Q"
  unfolding create_buffer_def bindC_assoc
  by (rule step_exchange) (use assms in \<open>auto simp: new_command_buffer_def quiet_simps\<close>)

lemma step_time:
  assumes "does h k (c (H_clock h (m_ticks t))) (t\<lparr>m_ticks := Suc (m_ticks t)\<rparr>) k' Q"
  shows "does h k (bindC (mach_absolute_time h) c) t k' Q"
  unfolding mach_absolute_time_def
  by (rule step_exchange) (use assms in \<open>auto simp: quiet_simps\<close>)

lemma step_count:
  assumes "does h k (c ((op_count t + 1) mod size_mod)) (t\<lparr>op_count := (op_count t + 1) mod size_mod\<rparr>) k' Q"
  shows "does h k (bindC count_op c) t k' Q"
  unfolding count_op_def
  by (rule step_exchange) (use assms in \<open>auto simp: Let_def quiet_def gpu_part_def\<close>)

lemma bindC_if: "bindC (if b then c else d) f = (if b then bindC c f else bindC d f)"
  by simp

lemma does_if:
  "(b \<Longrightarrow> does h k c t k' P) \<Longrightarrow> (\<not> b \<Longrightarrow> does h k d t k' P) \<Longrightarrow> does h k (if b then c else d) t k' P"
  by simp

lemmas step_rules = step_get step_modify step_acquire step_submit step_create step_time step_count does_return

lemmas chain_simps = bindC_assoc bindC_if blockC_simps

end
