(* ===== verification/PipelineOps.thy ===== *)
theory PipelineOps
  imports PipelineRuns
begin

text \<open>
  What each method of the pipeline does for a single thread beside the GPU, outside and inside an encoder
  scope: it returns, gives back every slot it took, provokes no fault of Metal and keeps the order of the work.
\<close>

section \<open>States of a thread that uses the pipeline as intended\<close>

text \<open>The work in committed buffers, and all work issued so far: that of the active buffer comes last.\<close>

definition submitted :: "'w pipe \<Rightarrow> 'w list" where
  "submitted s = concat (map (m_work s) (m_committed s))"

definition issued :: "'w pipe \<Rightarrow> 'w list" where
  "issued s = concat (map (m_work s) (m_committed s @ (case active_buffer s of None \<Rightarrow> [] | Some b \<Rightarrow> [b])))"

text \<open>What is queued was committed, and a barrier has no work.\<close>

definition queued_ok :: "(nat \<times> bool) list \<Rightarrow> nat list \<Rightarrow> (nat \<Rightarrow> 'w list) \<Rightarrow> bool" where
  "queued_ok q cs w \<longleftrightarrow> (\<forall>e \<in> set q. fst e \<in> set cs \<and> (\<not> snd e \<longrightarrow> w (fst e) = []))"

lemma queued_ok_simps [simp]:
  "queued_ok [] [] w"
  "queued_ok q cs w \<Longrightarrow> queued_ok (q @ [(b, True)]) (cs @ [b]) w"
  "queued_ok q cs w \<Longrightarrow> w b = [] \<Longrightarrow> queued_ok (q @ [(b, False)]) (cs @ [b]) w"
  "queued_ok q cs w \<Longrightarrow> b \<notin> set cs \<Longrightarrow> queued_ok q cs (w(b := x))"
  by (auto simp: queued_ok_def)

text \<open>Buffers that do not exist yet are blank; what is active is not committed.\<close>

definition sound :: "nat \<Rightarrow> 'w pipe \<Rightarrow> bool" where
  "sound n t \<longleftrightarrow> buffer_count t = n \<and> max_in_flight t = n \<and> 0 < n \<and> m_faults t = []
     \<and> (\<forall>b \<ge> m_buffers t. b \<notin> set (m_committed t) \<and> m_open t b = None \<and> m_work t b = [])
     \<and> queued_ok (m_queue t) (m_committed t) (m_work t)
     \<and> (has_active t \<longleftrightarrow> active_buffer t \<noteq> None)
     \<and> (\<forall>b. active_buffer t = Some b \<longrightarrow> b < m_buffers t \<and> b \<notin> set (m_committed t))"

text \<open>Outside the encoder scopes, and inside one with its open encoder.\<close>

definition ready :: "nat \<Rightarrow> 'w pipe \<Rightarrow> bool" where
  "ready n t \<longleftrightarrow> sound n t \<and> \<not> encoder_scope_active t \<and> active_encoder t = None
     \<and> (\<forall>b. active_buffer t = Some b \<longrightarrow> m_open t b = None)"

definition encoding :: "nat \<Rightarrow> 'w pipe \<Rightarrow> bool" where
  "encoding n t \<longleftrightarrow> sound n t \<and> encoder_scope_active t
     \<and> (\<exists>b e. active_buffer t = Some b \<and> active_encoder t = Some e \<and> m_target t e = b \<and> m_open t b = Some e)"

lemmas state_defs = sound_def ready_def encoding_def issued_def submitted_def

text \<open>What a method leaves as it was.\<close>

definition same_modes :: "'w pipe \<Rightarrow> 'w pipe \<Rightarrow> bool" where
  "same_modes t t' \<longleftrightarrow> mu t' = mu t \<and> lazy_commit t' = lazy_commit t"

text \<open>A machine whose GPU makes progress and which always grants a command buffer.\<close>

definition healthy :: "metal_host \<Rightarrow> bool" where
  "healthy h \<longleftrightarrow> gpu_works h \<and> (\<forall>i. H_creates h i)"

lemma state_set [simp]:
  "sound n (t\<lparr>mu := b\<rparr>) = sound n t" "sound n (t\<lparr>op_count := c\<rparr>) = sound n t" "sound n (t\<lparr>lazy_commit := b\<rparr>) = sound n t"
  "sound n (t\<lparr>auto_flush_threshold := c\<rparr>) = sound n t" "sound n (t\<lparr>encoder_max_ops := c\<rparr>) = sound n t"
  "sound n (t\<lparr>adaptive_encoder_max_ops := c\<rparr>) = sound n t" "sound n (t\<lparr>m_ticks := c\<rparr>) = sound n t"
  "sound n (t\<lparr>encoder_duration_ema := x\<rparr>) = sound n t" "sound n (t\<lparr>encoder_start_time := c\<rparr>) = sound n t"
  "sound n (t\<lparr>encoder_op_count := c\<rparr>) = sound n t" "sound n (t\<lparr>active_encoder := e\<rparr>) = sound n t"
  "sound n (t\<lparr>encoder_scope_active := b\<rparr>) = sound n t" "sound n (t\<lparr>in_flight := c\<rparr>) = sound n t"
  by (simp_all add: sound_def)

lemma issued_set [simp]:
  "issued (t\<lparr>mu := b\<rparr>) = issued t" "issued (t\<lparr>op_count := c\<rparr>) = issued t" "issued (t\<lparr>lazy_commit := b\<rparr>) = issued t"
  "issued (t\<lparr>auto_flush_threshold := c\<rparr>) = issued t" "issued (t\<lparr>encoder_max_ops := c\<rparr>) = issued t"
  "issued (t\<lparr>adaptive_encoder_max_ops := c\<rparr>) = issued t" "issued (t\<lparr>m_ticks := c\<rparr>) = issued t"
  "issued (t\<lparr>encoder_duration_ema := x\<rparr>) = issued t" "issued (t\<lparr>encoder_start_time := c\<rparr>) = issued t"
  "issued (t\<lparr>encoder_op_count := c\<rparr>) = issued t" "issued (t\<lparr>active_encoder := e\<rparr>) = issued t"
  "issued (t\<lparr>encoder_scope_active := b\<rparr>) = issued t" "issued (t\<lparr>in_flight := c\<rparr>) = issued t"
  by (simp_all add: issued_def submitted_def)

lemma ready_set [simp]:
  "ready n (t\<lparr>mu := b\<rparr>) = ready n t" "ready n (t\<lparr>op_count := c\<rparr>) = ready n t" "ready n (t\<lparr>lazy_commit := b\<rparr>) = ready n t"
  "ready n (t\<lparr>auto_flush_threshold := c\<rparr>) = ready n t" "ready n (t\<lparr>encoder_max_ops := c\<rparr>) = ready n t"
  "ready n (t\<lparr>adaptive_encoder_max_ops := c\<rparr>) = ready n t" "ready n (t\<lparr>in_flight := c\<rparr>) = ready n t"
  by (simp_all add: ready_def)

lemma submitted_set [simp]:
  "submitted (t\<lparr>mu := b\<rparr>) = submitted t" "submitted (t\<lparr>op_count := c\<rparr>) = submitted t"
  "submitted (t\<lparr>lazy_commit := b\<rparr>) = submitted t" "submitted (t\<lparr>in_flight := c\<rparr>) = submitted t"
  by (simp_all add: submitted_def)

lemma ready_slots: "ready n t \<Longrightarrow> max_in_flight t = n \<and> 0 < n \<and> buffer_count t = n"
  by (simp add: state_defs)

lemma ready_inactive: "ready n t \<Longrightarrow> \<not> has_active t \<Longrightarrow> issued t = submitted t"
  by (auto simp: state_defs)

lemma does_ensure:
  assumes "healthy h" and "sound n t"
    and "has_active t \<Longrightarrow> P () t"
    and "\<not> has_active t \<Longrightarrow> P () (t\<lparr>m_buffers := Suc (m_buffers t), active_buffer := Some (m_buffers t), has_active := True\<rparr>)"
  shows "does h k (ensure_buffer h) t k P"
  unfolding ensure_buffer_def
  by (rule step_get, simp, cases "has_active t")
    (use assms in \<open>auto simp: healthy_def intro!: does_return step_create does_modify quiet_simps\<close>)

lemma does_current_buffer:
  assumes "healthy h" and "ready n t" and "\<not> mu t"
  shows "does h k (current_buffer h) t k (\<lambda>buf t'. ready n t' \<and> issued t' = issued t \<and> same_modes t t'
     \<and> has_active t' \<and> buf = active_buffer t' \<and> op_count t' = op_count t \<and> submitted t' = submitted t
     \<and> auto_flush_threshold t' = auto_flush_threshold t)"
  unfolding current_buffer_def
  by (rule does_locked [OF assms(3)], rule does_bind, rule does_ensure [OF assms(1), of n])
    (use assms in \<open>auto simp: state_defs same_modes_def intro!: does_get\<close>)

text \<open>The commit of an active buffer, with its slot, and the change to a new one.\<close>

lemma does_rotation:
  assumes "healthy h" and "ready n t" and "has_active t"
  shows "does h (1, d) (blockC [submit_active, rotate_buffer h, reset_op_count]) t (0, Nothing)
    (\<lambda>_ t'. ready n t' \<and> issued t' = issued t \<and> same_modes t t' \<and> has_active t' \<and> submitted t' = issued t)"
proof -
  from assms obtain b where b: "active_buffer t = Some b" by (auto simp: state_defs)
  with assms show ?thesis
    unfolding rotate_buffer_def reset_op_count_def chain_simps One_nat_def
    by (auto simp: state_defs healthy_def same_modes_def intro!: step_submit step_create step_modify does_modify quiet_simps)
qed

lemma does_retirement:
  assumes "ready n t" and "has_active t"
  shows "does h (1, d) (blockC [submit_active, retire_buffer]) t (0, Nothing)
    (\<lambda>_ t'. ready n t' \<and> issued t' = issued t \<and> same_modes t t' \<and> \<not> has_active t')"
proof -
  from assms obtain b where b: "active_buffer t = Some b" by (auto simp: state_defs)
  with assms show ?thesis
    unfolding retire_buffer_def chain_simps One_nat_def
    by (auto simp: state_defs same_modes_def intro!: step_submit does_modify quiet_simps)
qed

section \<open>Outside the encoder scopes\<close>

text \<open>A call that issues the work \<open>ws\<close> and leaves the modes as they were.\<close>

definition issues :: "nat \<Rightarrow> 'w list \<Rightarrow> 'w pipe \<Rightarrow> 'w pipe \<Rightarrow> bool" where
  "issues n ws t t' \<longleftrightarrow> ready n t' \<and> issued t' = issued t @ ws \<and> same_modes t t'"

lemma does_flush:
  assumes "healthy h" and "ready n t" and "\<not> mu t"
  shows "does h (0, Nothing) (flush h) t (0, Nothing) (\<lambda>_ t'. issues n [] t t' \<and> submitted t' = issued t)"
  unfolding flush_def
proof (rule does_locked [OF assms(3)], rule step_get, simp, cases "has_active t")
  case True
  have "does h (0, Nothing) (bindC acquire_slot (\<lambda>_. blockC [submit_active, rotate_buffer h, reset_op_count])) (t\<lparr>mu := True\<rparr>)
      (0, Nothing) (\<lambda>x t'. issues n [] t (t'\<lparr>mu := False\<rparr>) \<and> submitted (t'\<lparr>mu := False\<rparr>) = issued t)"
  proof (rule step_acquire)
    show "gpu_works h" "0 < max_in_flight (t\<lparr>mu := True\<rparr>)"
      using assms ready_slots by (auto simp: healthy_def)
    show "does h (Suc 0, Nothing) (blockC [submit_active, rotate_buffer h, reset_op_count])
        (t\<lparr>mu := True, in_flight := Suc (in_flight (t\<lparr>mu := True\<rparr>))\<rparr>) (0, Nothing)
        (\<lambda>x t'. issues n [] t (t'\<lparr>mu := False\<rparr>) \<and> submitted (t'\<lparr>mu := False\<rparr>) = issued t)"
      by (rule does_weaken [OF does_rotation [unfolded One_nat_def]])
        (use assms True in \<open>auto simp: issues_def same_modes_def\<close>)
  qed
  with True show "does h (0, Nothing) (if \<not> has_active (t\<lparr>mu := True\<rparr>) then returnC () else
      blockC [acquire_slot, submit_active, rotate_buffer h, reset_op_count]) (t\<lparr>mu := True\<rparr>) (0, Nothing)
      (\<lambda>x t'. issues n [] t (t'\<lparr>mu := False\<rparr>) \<and> submitted (t'\<lparr>mu := False\<rparr>) = issued t)"
    by simp
next
  case False
  then show "does h (0, Nothing) (if \<not> has_active (t\<lparr>mu := True\<rparr>) then returnC () else
      blockC [acquire_slot, submit_active, rotate_buffer h, reset_op_count]) (t\<lparr>mu := True\<rparr>) (0, Nothing)
      (\<lambda>x t'. issues n [] t (t'\<lparr>mu := False\<rparr>) \<and> submitted (t'\<lparr>mu := False\<rparr>) = issued t)"
    using assms ready_inactive [of n t]
    by (auto simp: issues_def same_modes_def intro!: does_return)
qed

text \<open>A commit under the mutex after the slot was taken, as in \<open>commit\<close> and \<open>commit_and_continue\<close>.\<close>

lemma does_checked_commit:
  assumes "healthy h" and "ready n t" and "\<not> mu t" and "has_active t"
    and "\<And>t1. \<lbrakk>ready n t1; has_active t1; mu t1; lazy_commit t1 = lazy_commit t; issued t1 = issued t\<rbrakk> \<Longrightarrow>
      does h (1, Nothing) c t1 (0, Nothing) (\<lambda>_ t'. P (t'\<lparr>mu := False\<rparr>))"
  shows "does h (0, Nothing) (blockC [acquire_slot, locked (bindC (getC has_active) (\<lambda>active.
     if \<not> active then raiseC e m else c))]) t (0, Nothing) (\<lambda>_. P)"
  unfolding blockC_simps bindC_unit
proof (rule step_acquire)
  show "gpu_works h" "0 < max_in_flight t" using assms ready_slots by (auto simp: healthy_def)
  show "does h (Suc 0, Nothing) (locked (bindC (getC has_active) (\<lambda>active. if \<not> active then raiseC e m else c)))
      (t\<lparr>in_flight := Suc (in_flight t)\<rparr>) (0, Nothing) (\<lambda>_. P)"
  proof (rule does_locked)
    show "does h (Suc 0, Nothing) (bindC (getC has_active) (\<lambda>active. if \<not> active then raiseC e m else c))
        (t\<lparr>in_flight := Suc (in_flight t), mu := True\<rparr>) (0, Nothing) (\<lambda>_ t'. P (t'\<lparr>mu := False\<rparr>))"
      by (rule step_get) (use assms(5) [of "t\<lparr>in_flight := Suc (in_flight t), mu := True\<rparr>"] assms(2,4) in simp_all)
  qed (simp add: assms(3))
qed

lemma does_commit:
  assumes "healthy h" and "ready n t" and "\<not> mu t" and "has_active t"
  shows "does h (0, Nothing) commit t (0, Nothing) (\<lambda>_. issues n [] t)"
  unfolding commit_def
proof (rule does_checked_commit [OF assms])
  fix t1 :: "'a pipe"
  assume t1: "ready n t1" "has_active t1" "mu t1" "lazy_commit t1 = lazy_commit t" "issued t1 = issued t"
  have "does h (1, Nothing) (bindC (blockC [submit_active, retire_buffer]) (\<lambda>_. reset_op_count)) t1 (0, Nothing)
      (\<lambda>_ t'. issues n [] t (t'\<lparr>mu := False\<rparr>))"
    by (rule does_bind, rule does_retirement [OF t1(1,2)], unfold reset_op_count_def)
      (use t1 assms in \<open>auto simp: issues_def same_modes_def intro!: does_modify quiet_simps\<close>)
  then show "does h (1, Nothing) (blockC [submit_active, retire_buffer, reset_op_count]) t1 (0, Nothing)
      (\<lambda>_ t'. issues n [] t (t'\<lparr>mu := False\<rparr>))"
    by (simp add: bindC_assoc)
qed

lemma does_commit_and_continue:
  assumes "healthy h" and "ready n t" and "\<not> mu t" and "has_active t"
  shows "does h (0, Nothing) (commit_and_continue h) t (0, Nothing)
    (\<lambda>_ t'. issues n [] t t' \<and> (\<not> lazy_commit t \<longrightarrow> submitted t' = issued t))"
proof -
  let ?c = "(op_count t + 1) mod size_mod" and ?P = "\<lambda>_ t'. issues n [] t t' \<and> (\<not> lazy_commit t \<longrightarrow> submitted t' = issued t)"
  let ?t = "t\<lparr>op_count := ?c\<rparr>"
  have eager: "does h (0, Nothing) (blockC [acquire_slot, locked (bindC (getC has_active) (\<lambda>active.
      if \<not> active then raiseC NativeError ''CommandPipeline::commit_and_continue: no active buffer to commit''
      else blockC [submit_active, rotate_buffer h, reset_op_count]))]) ?t (0, Nothing) ?P"
  proof (rule does_checked_commit)
    fix t1 :: "'a pipe"
    assume t1: "ready n t1" "has_active t1" "mu t1" "lazy_commit t1 = lazy_commit ?t" "issued t1 = issued ?t"
    show "does h (1, Nothing) (blockC [submit_active, rotate_buffer h, reset_op_count]) t1 (0, Nothing)
        (\<lambda>_ t'. ?P () (t'\<lparr>mu := False\<rparr>))"
      by (rule does_weaken [OF does_rotation [OF assms(1) t1(1,2)]])
        (use t1 assms in \<open>auto simp: issues_def same_modes_def\<close>)
  qed (use assms in simp_all)
  have lazy: "does h (0, Nothing) (bindC (getC encoder_scope_active) (\<lambda>scope. if scope then returnC ()
      else bindC (getC auto_flush_threshold) (\<lambda>threshold.
        if threshold \<le> ?c then blockC [flush h, reset_op_count] else returnC ()))) ?t (0, Nothing) ?P"
    if "lazy_commit t"
  proof -
    have "does h (0, Nothing) (blockC [flush h, reset_op_count]) ?t (0, Nothing) ?P"
      unfolding blockC_simps bindC_unit
      by (rule does_bind, rule does_flush [OF assms(1)], unfold reset_op_count_def)
        (use assms that in \<open>auto simp: issues_def same_modes_def intro!: does_modify quiet_simps\<close>)
    moreover have "does h (0, Nothing) (returnC ()) ?t (0, Nothing) ?P"
      using assms that by (auto simp: issues_def same_modes_def intro!: does_return)
    ultimately show ?thesis
      by (intro step_get does_if) simp_all
  qed
  show ?thesis unfolding commit_and_continue_def
    by (rule step_count, rule step_get, simp, rule does_if, rule lazy, simp, rule eager)
qed

text \<open>An encoder of one's own on the active buffer: opened, filled and ended.\<close>

lemma does_own_encoder:
  assumes "ready n t" and "has_active t"
    and "\<And>t1. \<lbrakk>ready n t1; has_active t1; issued t1 = issued t @ [w]; same_modes t t1; submitted t1 = submitted t;
        op_count t1 = op_count t; auto_flush_threshold t1 = auto_flush_threshold t\<rbrakk> \<Longrightarrow> does h k c t1 k' P"
  shows "does h k (bindC (exchangeC (open_encoder (active_buffer t))) (\<lambda>e.
     blockC [modifyC (encode w e), modifyC (end_encoding e), c])) t k' P"
proof -
  from assms obtain b where b: "active_buffer t = Some b" "b \<notin> set (m_committed t)" "m_open t b = None"
    by (auto simp: state_defs)
  let ?e = "m_encoders t"
  define t0 where "t0 = t\<lparr>m_encoders := Suc ?e, m_target := (m_target t)(?e := b), m_open := (m_open t)(b \<mapsto> ?e)\<rparr>"
  define t1 where "t1 = t0\<lparr>m_work := (m_work t)(b := m_work t b @ [w]), m_open := m_open t\<rparr>"
  have o: "open_encoder (active_buffer t) t = (Some ?e, t0)"
    using b by (simp add: open_encoder_def t0_def)
  have e: "end_encoding (Some ?e) (encode w (Some ?e) t0) = t1"
    using b by (simp add: end_encoding_def encode_def t0_def t1_def fun_upd_idem)
  have t1: "ready n t1" "has_active t1" "same_modes t t1"
    using assms b by (auto simp: t1_def t0_def state_defs same_modes_def)
  have m: "map (m_work t1) (m_committed t) = map (m_work t) (m_committed t)"
    using b by (auto simp: t1_def)
  then have "issued t1 = issued t @ [w]"
    using b by (simp add: issued_def) (simp add: t1_def t0_def)
  moreover have "submitted t1 = submitted t" using b by (simp add: submitted_def t1_def t0_def)
  moreover have "op_count t1 = op_count t" "auto_flush_threshold t1 = auto_flush_threshold t"
    by (simp_all add: t1_def t0_def)
  ultimately have c: "does h k c t1 k' P" using assms(3) t1 by blast
  show ?thesis unfolding blockC_simps bindC_unit
    by (rule step_exchange, simp add: quiet_simps, simp add: open_encoder_def fault_def split: option.split,
        rule step_modify, rule quiet_simps, rule step_modify, rule quiet_simps) (simp add: o e c)
qed

lemma does_dispatch:
  assumes "healthy h" and "ready n t" and "\<not> mu t"
  shows "does h (0, Nothing) (dispatch_op h True w) t (0, Nothing)
    (\<lambda>_ t'. issues n [w] t t' \<and> (\<not> lazy_commit t \<longrightarrow> submitted t' = issued t @ [w]))"
  unfolding dispatch_op_def
proof (rule does_bind, rule does_current_buffer [OF assms])
  fix buf t1
  assume t1: "ready n t1 \<and> issued t1 = issued t \<and> same_modes t t1 \<and> has_active t1 \<and> buf = active_buffer t1
    \<and> op_count t1 = op_count t \<and> submitted t1 = submitted t \<and> auto_flush_threshold t1 = auto_flush_threshold t"
  have "does h (0, Nothing) (bindC (exchangeC (open_encoder (active_buffer t1))) (\<lambda>e.
      blockC [modifyC (encode w e), modifyC (end_encoding e), commit_and_continue h])) t1 (0, Nothing)
      (\<lambda>_ t'. issues n [w] t t' \<and> (\<not> lazy_commit t \<longrightarrow> submitted t' = issued t @ [w]))"
  proof (rule does_own_encoder [of n])
    fix t2 assume t2: "ready n t2" "has_active t2" "issued t2 = issued t1 @ [w]" "same_modes t1 t2"
      "submitted t2 = submitted t1" "op_count t2 = op_count t1" "auto_flush_threshold t2 = auto_flush_threshold t1"
    then have "\<not> mu t2" using t1 assms(3) by (simp add: same_modes_def)
    then show "does h (0, Nothing) (commit_and_continue h) t2 (0, Nothing)
        (\<lambda>_ t'. issues n [w] t t' \<and> (\<not> lazy_commit t \<longrightarrow> submitted t' = issued t @ [w]))"
      by (rule does_weaken [OF does_commit_and_continue [OF assms(1) t2(1) _ t2(2)]])
        (use t1 t2 in \<open>auto simp: issues_def same_modes_def\<close>)
  qed (use t1 in auto)
  with t1 show "does h (0, Nothing) (bindC (exchangeC (open_encoder buf)) (\<lambda>e. if \<not> True
      then raiseC NativeError ''elementwise: dimension exceeds uint32_t range''
      else blockC [modifyC (encode w e), modifyC (end_encoding e), commit_and_continue h])) t1 (0, Nothing)
      (\<lambda>_ t'. issues n [w] t t' \<and> (\<not> lazy_commit t \<longrightarrow> submitted t' = issued t @ [w]))"
    by (simp del: blockC_simps)
qed

text \<open>In lazy mode below the threshold a dispatch commits nothing.\<close>

lemma does_lazy_dispatch:
  assumes "healthy h" and "ready n t" and "\<not> mu t" and "lazy_commit t"
    and "op_count t + 1 < auto_flush_threshold t" and "op_count t + 1 < size_mod"
  shows "does h (0, Nothing) (dispatch_op h True w) t (0, Nothing)
    (\<lambda>_ t'. issues n [w] t t' \<and> submitted t' = submitted t \<and> op_count t' = op_count t + 1
      \<and> auto_flush_threshold t' = auto_flush_threshold t)"
  unfolding dispatch_op_def
proof (rule does_bind, rule does_current_buffer [OF assms(1-3)])
  let ?P = "\<lambda>_ t'. issues n [w] t t' \<and> submitted t' = submitted t \<and> op_count t' = op_count t + 1
      \<and> auto_flush_threshold t' = auto_flush_threshold t"
  fix buf t1
  assume t1: "ready n t1 \<and> issued t1 = issued t \<and> same_modes t t1 \<and> has_active t1 \<and> buf = active_buffer t1
    \<and> op_count t1 = op_count t \<and> submitted t1 = submitted t \<and> auto_flush_threshold t1 = auto_flush_threshold t"
  have "does h (0, Nothing) (bindC (exchangeC (open_encoder (active_buffer t1))) (\<lambda>e.
      blockC [modifyC (encode w e), modifyC (end_encoding e), commit_and_continue h])) t1 (0, Nothing) ?P"
  proof (rule does_own_encoder [of n])
    fix t2 assume t2: "ready n t2" "has_active t2" "issued t2 = issued t1 @ [w]" "same_modes t1 t2"
      "submitted t2 = submitted t1" "op_count t2 = op_count t1" "auto_flush_threshold t2 = auto_flush_threshold t1"
    show "does h (0, Nothing) (commit_and_continue h) t2 (0, Nothing) ?P"
      unfolding commit_and_continue_def
      by (intro step_count step_get does_if)
        (use t1 t2 assms(4-6) in \<open>auto simp: issues_def same_modes_def intro!: does_return\<close>)
  qed (use t1 in auto)
  with t1 show "does h (0, Nothing) (bindC (exchangeC (open_encoder buf)) (\<lambda>e. if \<not> True
      then raiseC NativeError ''elementwise: dimension exceeds uint32_t range''
      else blockC [modifyC (encode w e), modifyC (end_encoding e), commit_and_continue h])) t1 (0, Nothing) ?P"
    by (simp del: blockC_simps)
qed

lemma does_blit:
  assumes "healthy h" and "ready n t" and "\<not> mu t"
  shows "does h (0, Nothing) (blit_op h w) t (0, Nothing) (\<lambda>_. issues n [w] t)"
  unfolding blit_op_def
proof (rule does_bind, rule does_current_buffer [OF assms])
  fix buf t1
  assume t1: "ready n t1 \<and> issued t1 = issued t \<and> same_modes t t1 \<and> has_active t1 \<and> buf = active_buffer t1
    \<and> op_count t1 = op_count t \<and> submitted t1 = submitted t \<and> auto_flush_threshold t1 = auto_flush_threshold t"
  have "does h (0, Nothing) (bindC (exchangeC (open_encoder (active_buffer t1))) (\<lambda>e.
      blockC [modifyC (encode w e), modifyC (end_encoding e), commit])) t1 (0, Nothing) (\<lambda>_. issues n [w] t)"
  proof (rule does_own_encoder [of n])
    fix t2 assume t2: "ready n t2" "has_active t2" "issued t2 = issued t1 @ [w]" "same_modes t1 t2"
      "submitted t2 = submitted t1" "op_count t2 = op_count t1" "auto_flush_threshold t2 = auto_flush_threshold t1"
    then have "\<not> mu t2" using t1 assms(3) by (simp add: same_modes_def)
    then show "does h (0, Nothing) commit t2 (0, Nothing) (\<lambda>_. issues n [w] t)"
      by (rule does_weaken [OF does_commit [OF assms(1) t2(1) _ t2(2)]])
        (use t1 t2 in \<open>auto simp: issues_def same_modes_def\<close>)
  qed (use t1 in auto)
  with t1 show "does h (0, Nothing) (bindC (exchangeC (open_encoder buf)) (\<lambda>e.
      blockC [modifyC (encode w e), modifyC (end_encoding e), commit])) t1 (0, Nothing) (\<lambda>_. issues n [w] t)"
    by simp
qed

lemma does_record:
  assumes "healthy h" and "ready n t" and "\<not> mu t"
  shows "does h (0, Nothing) (record_op h) t (0, Nothing) (\<lambda>_. issues n [] t)"
proof -
  let ?t = "t\<lparr>op_count := (op_count t + 1) mod size_mod\<rparr>" and ?c = "(op_count t + 1) mod size_mod"
  have stop: "does h (0, Nothing) (returnC ()) ?t (0, Nothing) (\<lambda>_. issues n [] t)"
    using assms by (auto simp: issues_def same_modes_def intro!: does_return)
  have "does h (0, Nothing) (bindC (reset_if_unchanged ?c) (\<lambda>won. if won then flush h else returnC ())) ?t (0, Nothing)
      (\<lambda>_. issues n [] t)"
    unfolding reset_if_unchanged_def
  proof (rule step_exchange)
    show "does h (0, Nothing) (if fst (if op_count ?t = ?c then (True, ?t\<lparr>op_count := 0\<rparr>) else (False, ?t)) then flush h else returnC ())
        (snd (if op_count ?t = ?c then (True, ?t\<lparr>op_count := 0\<rparr>) else (False, ?t))) (0, Nothing) (\<lambda>_. issues n [] t)"
      using does_flush [OF assms(1), of n "t\<lparr>op_count := 0\<rparr>"] assms
      by (auto simp: issues_def same_modes_def elim: does_weaken)
  qed (auto simp: quiet_def gpu_part_def)
  with stop show ?thesis unfolding record_op_def
    by (intro step_count step_get does_if) simp_all
qed

text \<open>A thread that holds every slot knows that the GPU has completed the pipeline's buffers.\<close>

lemma does_drained:
  assumes "max_in_flight t = n" and "does h (n, Drained) c t k' P"
  shows "does h (n, Nothing) c t k' P"
proof -
  have "agrees (n, Drained) s t" if "agrees (n, Nothing) s t" for s
  proof (rule agreesE [OF that])
    fix f q m
    assume s: "s = gpu_part f q m t" "f = fst (n, Nothing) + length (filter snd q)" "f \<le> max_in_flight t"
      "in_flight t = fst (n, Nothing) + pending t" "set (m_committed t) = set m \<union> fst ` set q" "set q \<subseteq> set (m_queue t)"
    with assms(1) have "length (filter snd q) = 0" by simp
    with s show ?thesis by (intro agreesI) auto
  qed
  with assms(2) show ?thesis by (auto simp: does_def tracks_def)
qed

lemma does_forget:
  assumes "does h (n, Nothing) c t k' P"
  shows "does h (n, b) c t k' P"
proof -
  have "agrees (n, Nothing) s t" if "agrees (n, b) s t" for s
    using that by (elim agreesE, intro agreesI) auto
  with assms show ?thesis by (auto simp: does_def tracks_def)
qed

lemma does_acquires:
  "\<lbrakk>gpu_works h; i + j \<le> max_in_flight t; P () (t\<lparr>in_flight := in_flight t + j\<rparr>)\<rbrakk>
    \<Longrightarrow> does h (i, d) (timesC j acquire_slot) t (i + j, d) P"
proof (induction j arbitrary: i t)
  case 0
  then show ?case by (auto intro: does_return)
next
  case (Suc j)
  from Suc.prems have "does h (Suc i, d) (timesC j acquire_slot) (t\<lparr>in_flight := Suc (in_flight t)\<rparr>) (Suc i + j, d) P"
    by (intro Suc.IH) auto
  with Suc.prems show ?case by (auto intro: step_acquire)
qed

lemma does_releases:
  "\<lbrakk>j \<le> in_flight t; P () (t\<lparr>in_flight := in_flight t - j\<rparr>)\<rbrakk> \<Longrightarrow> does h (j, d) (timesC j release_slot) t (0, d) P"
proof (induction j arbitrary: t)
  case 0
  then show ?case by (auto intro: does_return)
next
  case (Suc j)
  have "does h (Suc j, d) release_slot t (j, d) (\<lambda>_ t'. t' = t\<lparr>in_flight := in_flight t - 1\<rparr>)"
    using Suc.prems by (intro does_release) auto
  moreover have "does h (j, d) (timesC j release_slot) (t\<lparr>in_flight := in_flight t - 1\<rparr>) (0, d) P"
    using Suc.prems by (intro Suc.IH) auto
  ultimately show ?case unfolding timesC_simps by (auto intro: does_bind)
qed

lemma does_synchronize:
  assumes "healthy h" and "ready n t" and "\<not> mu t"
  shows "does h (0, Nothing) synchronize_pipeline t (0, Drained)
    (\<lambda>_ t'. issues n [] t t' \<and> submitted t' = issued t \<and> \<not> has_active t')"
  unfolding synchronize_pipeline_def blockC_simps(2) [of "locked c" for c] blockC_simps(2) [of "bindC (getC f) c" for f c]
    blockC_simps(1) bindC_unit
proof (rule does_bind)
  let ?P = "\<lambda>t'. issues n [] t t' \<and> \<not> has_active t'"
  show "does h (0, Nothing) (locked (bindC (getC has_active) (\<lambda>active. if active
      then blockC [acquire_slot, submit_active, retire_buffer] else returnC ()))) t (0, Nothing) (\<lambda>_. ?P)"
  proof (rule does_locked [OF assms(3)], rule step_get, simp, rule does_if)
    assume a: "has_active (t\<lparr>mu := True\<rparr>)"
    have "does h (0, Nothing) (bindC acquire_slot (\<lambda>_. blockC [submit_active, retire_buffer])) (t\<lparr>mu := True\<rparr>) (0, Nothing)
        (\<lambda>_ t'. ?P (t'\<lparr>mu := False\<rparr>))"
    proof (rule step_acquire)
      show "does h (Suc 0, Nothing) (blockC [submit_active, retire_buffer])
          (t\<lparr>mu := True, in_flight := Suc (in_flight (t\<lparr>mu := True\<rparr>))\<rparr>) (0, Nothing) (\<lambda>_ t'. ?P (t'\<lparr>mu := False\<rparr>))"
        by (rule does_weaken [OF does_retirement [unfolded One_nat_def]])
          (use assms a in \<open>auto simp: issues_def same_modes_def\<close>)
    qed (use assms ready_slots in \<open>auto simp: healthy_def\<close>)
    then show "does h (0, Nothing) (blockC [acquire_slot, submit_active, retire_buffer]) (t\<lparr>mu := True\<rparr>) (0, Nothing)
        (\<lambda>_ t'. ?P (t'\<lparr>mu := False\<rparr>))" by simp
  qed (use assms in \<open>auto simp: issues_def same_modes_def intro!: does_return\<close>)
  fix t1 assume t1: "?P t1"
  then have r: "ready n t1" "issued t1 = submitted t1" "max_in_flight t1 = n" "buffer_count t1 = n"
    using ready_inactive [of n t1] ready_slots [of n t1] by (auto simp: issues_def)
  let ?t = "t1\<lparr>in_flight := in_flight t1 + n\<rparr>"
  have "does h (0, Nothing) (bindC (timesC n acquire_slot) (\<lambda>_. timesC n release_slot)) t1 (0, Drained)
      (\<lambda>_ t'. issues n [] t t' \<and> submitted t' = issued t \<and> \<not> has_active t')"
  proof (rule does_bind)
    show "does h (0, Nothing) (timesC n acquire_slot) t1 (n, Nothing) (\<lambda>_ t'. t' = ?t)"
      using does_acquires [of h 0 n t1 "\<lambda>_ t'. t' = ?t"] assms(1) r by (simp add: healthy_def)
    fix t2 assume "t2 = ?t"
    moreover have "does h (n, Drained) (timesC n release_slot) ?t (0, Drained)
        (\<lambda>_ t'. issues n [] t t' \<and> submitted t' = issued t \<and> \<not> has_active t')"
      by (rule does_releases) (use t1 r in \<open>auto simp: issues_def same_modes_def\<close>)
    ultimately show "does h (n, Nothing) (timesC n release_slot) t2 (0, Drained)
        (\<lambda>_ t'. issues n [] t t' \<and> submitted t' = issued t \<and> \<not> has_active t')"
      using r by (auto intro: does_drained)
  qed
  then show "does h (0, Nothing) (bindC (getC buffer_count) (\<lambda>n. blockC [timesC n acquire_slot, timesC n release_slot])) t1
      (0, Drained) (\<lambda>_ t'. issues n [] t t' \<and> submitted t' = issued t \<and> \<not> has_active t')"
    using r by (auto intro!: step_get)
qed

text \<open>The barrier of \<open>MNDevice::synchronize\<close>: it goes in front of the active buffer, which stays uncommitted.\<close>

lemma does_barrier:
  assumes "b \<notin> set (m_committed t)" and "m_open t b = None"
    and "P () (t\<lparr>m_committed := m_committed t @ [b], m_queue := m_queue t @ [(b, False)]\<rparr>)"
  shows "does h (n, d) (modifyC (metal_commit False (Some b))) t (n, Nothing) P"
proof -
  let ?t = "t\<lparr>m_committed := m_committed t @ [b], m_queue := m_queue t @ [(b, False)]\<rparr>"
  have c: "metal_commit False (Some b) t = ?t" using assms by (simp add: metal_commit_def)
  have "tracks (gpu_step h) agrees (n, d) (modifyC (metal_commit False (Some b))) t (n, Nothing)"
  proof (rule pipe_runs.tracks_modify)
    fix s assume "agrees (n, d) s t"
    then show "agrees (n, Nothing) (metal_commit False (Some b) s) (metal_commit False (Some b) t)"
    proof (rule agreesE)
      fix f q m
      assume s: "s = gpu_part f q m t" and rest: "f = fst (n, d) + length (filter snd q)" "f \<le> max_in_flight t"
        "in_flight t = fst (n, d) + pending t" "set (m_committed t) = set m \<union> fst ` set q" "set q \<subseteq> set (m_queue t)"
      from rest have "agrees (n, Nothing) (gpu_part f (q @ [(b, False)]) m ?t) ?t"
        by (intro agreesI [OF refl]) (auto simp: pending_def)
      moreover have "metal_commit False (Some b) s = gpu_part f (q @ [(b, False)]) m ?t"
        using s assms by (simp add: metal_commit_def gpu_part_def)
      ultimately show ?thesis using c by simp
    qed
  qed
  with assms c show ?thesis by (simp add: does_def)
qed

lemma does_await_buffer:
  assumes "gpu_works h" and "b \<in> set (m_committed t)" and "P () t"
  shows "does h (n, Nothing) (awaitC (\<lambda>s. b \<in> set (m_finished s)) (\<lambda>s. s)) t (n, Completed b) P"
proof -
  have "tracks (gpu_step h) agrees (n, Nothing) (awaitC (\<lambda>s. b \<in> set (m_finished s)) (\<lambda>s. s)) t (n, Completed b)"
  proof (rule pipe_runs.tracks_await)
    fix s assume a: "agrees (n, Nothing) s t"
    show "agrees (n, Completed b) s t" if "b \<in> set (m_finished s)"
      using a that by (elim agreesE, intro agreesI) auto
    show "b \<in> set (m_finished s)" if "\<forall>s'. \<not> gpu_step h s s'"
      using a that assms by (auto simp: gpu_stuck elim!: agreesE)
  qed
  with assms show ?thesis by (simp add: does_def)
qed

lemma does_device_sync:
  assumes "healthy h" and "ready n t \<or> encoding n t"
  shows "does h (0, Nothing) (device_synchronize h) t (0, Completed (m_buffers t))
    (\<lambda>_ t'. (ready n t \<longrightarrow> ready n t') \<and> (encoding n t \<longrightarrow> encoding n t') \<and> issued t' = issued t \<and> same_modes t t'
      \<and> submitted t' = submitted t \<and> m_committed t' = m_committed t @ [m_buffers t]
      \<and> op_count t' = op_count t \<and> auto_flush_threshold t' = auto_flush_threshold t)"
proof -
  let ?b = "m_buffers t"
  let ?t = "t\<lparr>m_buffers := Suc ?b\<rparr>"
  let ?t' = "?t\<lparr>m_committed := m_committed t @ [?b], m_queue := m_queue t @ [(?b, False)]\<rparr>"
  from assms have s: "sound n t" by (auto simp: ready_def encoding_def)
  then have blank: "?b \<notin> set (m_committed t)" "m_open t ?b = None" "m_work t ?b = []" by (auto simp: sound_def)
  have q: "(ready n t \<longrightarrow> ready n ?t') \<and> (encoding n t \<longrightarrow> encoding n ?t') \<and> issued ?t' = issued t \<and> same_modes t ?t'
      \<and> submitted ?t' = submitted t \<and> m_committed ?t' = m_committed t @ [?b]
      \<and> op_count ?t' = op_count t \<and> auto_flush_threshold ?t' = auto_flush_threshold t"
    using blank s by (auto simp: state_defs same_modes_def split: option.split)
  have "does h (0, Nothing) (bindC (modifyC (metal_commit False (Some ?b)))
      (\<lambda>_. awaitC (\<lambda>s. ?b \<in> set (m_finished s)) (\<lambda>s. s))) ?t (0, Completed ?b) (\<lambda>_ t'. t' = ?t')"
  proof (rule does_bind)
    show "does h (0, Nothing) (modifyC (metal_commit False (Some ?b))) ?t (0, Nothing) (\<lambda>_ t'. t' = ?t')"
      by (rule does_barrier) (use blank in auto)
    fix t1 assume "t1 = ?t'"
    then show "does h (0, Nothing) (awaitC (\<lambda>s. ?b \<in> set (m_finished s)) (\<lambda>s. s)) t1 (0, Completed ?b) (\<lambda>_ t'. t' = ?t')"
      using assms by (auto simp: healthy_def intro!: does_await_buffer)
  qed
  then show ?thesis unfolding device_synchronize_def blockC_simps bindC_unit
    by (intro step_exchange) (use assms(1) q in \<open>auto simp: new_command_buffer_def healthy_def quiet_simps elim: does_weaken\<close>)
qed

lemma unlocked: "\<not> mu t \<Longrightarrow> t\<lparr>mu := False\<rparr> = t"
  by (cases t) simp

lemma does_set:
  "quiet u t \<Longrightarrow> P (u t) \<Longrightarrow> does h k (modifyC u) t k (\<lambda>_. P)"
  by (rule does_modify)

lemma does_max_ops:
  assumes "\<not> mu t" and "P (t\<lparr>encoder_max_ops := max 1 (min 512 m), adaptive_encoder_max_ops := max 1 (min 512 m)\<rparr>)"
  shows "does h k (set_encoder_max_ops m) t k (\<lambda>_. P)"
  unfolding set_encoder_max_ops_def
  by (rule does_locked [OF assms(1)], unfold blockC_simps bindC_unit, rule step_modify, rule quiet_simps,
      rule does_modify, rule quiet_simps) (use assms in \<open>cases t, simp\<close>)

lemma does_no_encoder:
  assumes "\<not> mu t" and "\<not> encoder_scope_active t" and "P None t"
  shows "does h k (current_encoder h) t k P"
  unfolding current_encoder_def
  by (rule does_locked [OF assms(1)], rule step_get, simp) (use assms in \<open>auto simp: unlocked intro!: does_return\<close>)

text \<open>A batch restores the lazy mode it found.\<close>

lemma does_batch:
  assumes "healthy h" and "\<not> mu t" and "ready n t"
    and "does h (0, Nothing) c (t\<lparr>lazy_commit := True\<rparr>) (0, Nothing) (\<lambda>_ t'. ready n t' \<and> issued t' = issued t @ ws \<and> \<not> mu t')"
  shows "does h (0, Nothing) (with_batch h c) t (0, Nothing)
    (\<lambda>_ t'. issues n ws t t' \<and> submitted t' = issued t @ ws)"
  unfolding with_batch_def batch_enter_def batch_exit_def set_lazy_commit_def bindC_assoc
proof (rule step_get, simp, rule step_modify, rule quiet_simps, simp, rule does_finally [OF assms(4)])
  fix t1 assume t1: "ready n t1 \<and> issued t1 = issued t @ ws \<and> \<not> mu t1"
  show "does h (0, Nothing) (bindC (flush h) (\<lambda>_. modifyC (\<lambda>s. s\<lparr>lazy_commit := lazy_commit t\<rparr>))) t1 (0, Nothing)
      (\<lambda>_ t'. issues n ws t t' \<and> submitted t' = issued t @ ws)"
    by (rule does_bind, rule does_flush [OF assms(1)])
      (use t1 assms in \<open>auto simp: issues_def same_modes_def intro!: does_modify quiet_simps\<close>)
qed

section \<open>Inside an encoder scope\<close>

definition encodes :: "nat \<Rightarrow> 'w list \<Rightarrow> 'w pipe \<Rightarrow> 'w pipe \<Rightarrow> bool" where
  "encodes n ws t t' \<longleftrightarrow> encoding n t' \<and> issued t' = issued t @ ws \<and> same_modes t t'"

lemma encoding_set [simp]:
  "encoding n (t\<lparr>mu := b\<rparr>) = encoding n t" "encoding n (t\<lparr>op_count := c\<rparr>) = encoding n t"
  "encoding n (t\<lparr>lazy_commit := b\<rparr>) = encoding n t" "encoding n (t\<lparr>auto_flush_threshold := c\<rparr>) = encoding n t"
  "encoding n (t\<lparr>encoder_max_ops := c\<rparr>) = encoding n t" "encoding n (t\<lparr>in_flight := c\<rparr>) = encoding n t"
  "encoding n (t\<lparr>adaptive_encoder_max_ops := c\<rparr>) = encoding n t" "encoding n (t\<lparr>encoder_op_count := c\<rparr>) = encoding n t"
  by (simp_all add: encoding_def)

lemma encoding_scope [simp]: "encoding n t \<Longrightarrow> encoding n (t\<lparr>encoder_scope_active := True\<rparr>)"
  by (simp add: encoding_def)

lemma encodingE:
  assumes "encoding n t"
  obtains b e where "active_buffer t = Some b" "active_encoder t = Some e" "m_target t e = b" "m_open t b = Some e"
    "encoder_scope_active t" "sound n t" "has_active t" "b < m_buffers t" "b \<notin> set (m_committed t)"
  using assms by (auto simp: encoding_def sound_def)

lemma does_timing:
  assumes "\<And>tk em ad st. P () (t\<lparr>m_ticks := tk, encoder_duration_ema := em, adaptive_encoder_max_ops := ad,
    encoder_start_time := st\<rparr>)"
  shows "does h k (update_encoder_timing h) t k P"
proof -
  have same: "P () t"
    using assms [where tk = "m_ticks t" and em = "encoder_duration_ema t" and ad = "adaptive_encoder_max_ops t"
      and st = "encoder_start_time t"] by simp
  show ?thesis unfolding update_encoder_timing_def blockC_simps bindC_unit
    by (rule step_get, simp, rule does_if, rule step_time, (rule step_modify, rule quiet_simps)+, rule does_modify,
        rule quiet_simps) (auto intro: assms does_return same)
qed

text \<open>A new encoder on an active buffer that has none open.\<close>

lemma does_start:
  assumes "active_buffer t = Some b" and "b \<notin> set (m_committed t)" and "m_open t b = None"
    and "\<And>st tk. P () (t\<lparr>m_encoders := Suc (m_encoders t), m_target := (m_target t)(m_encoders t := b),
      m_open := (m_open t)(b \<mapsto> m_encoders t), active_encoder := Some (m_encoders t), encoder_op_count := 0,
      m_ticks := tk, encoder_start_time := st\<rparr>)"
  shows "does h k (start_encoder h) t k P"
proof -
  have q: "quiet (\<lambda>s. snd (open_encoder (active_buffer s) s)) t"
    by (auto simp: quiet_def open_encoder_def fault_def gpu_part_def split: option.splits)
  have o: "open_encoder (active_buffer t) t = (Some (m_encoders t), t\<lparr>m_encoders := Suc (m_encoders t),
      m_target := (m_target t)(m_encoders t := b), m_open := (m_open t)(b \<mapsto> m_encoders t)\<rparr>)"
    using assms by (simp add: open_encoder_def)
  show ?thesis unfolding start_encoder_def blockC_simps bindC_unit
    by (rule step_exchange, rule q, simp add: open_encoder_def fault_def split: option.split, unfold o fst_conv snd_conv,
        (rule step_modify, rule quiet_simps)+, rule step_time, rule does_modify, rule quiet_simps)
      (use assms(4) in simp)
qed

text \<open>The end of the open encoder leaves its buffer with none.\<close>

lemma end_active:
  assumes "encoding n t" and "active_buffer t = Some b"
  shows "end_encoding (active_encoder t) t = t\<lparr>m_open := (m_open t)(b := None)\<rparr>"
  using assms by (auto simp: encoding_def end_encoding_def)

lemma does_encode:
  assumes "encoding n t"
  shows "does h k (modifyC (encode w (active_encoder t))) t k (\<lambda>_. encodes n [w] t)"
proof (rule does_modify, rule quiet_simps)
  from assms obtain b e where b: "active_buffer t = Some b" "active_encoder t = Some e" "m_target t e = b"
    "m_open t b = Some e" "b < m_buffers t" "b \<notin> set (m_committed t)" by (rule encodingE)
  have e: "encode w (active_encoder t) t = t\<lparr>m_work := (m_work t)(b := m_work t b @ [w])\<rparr>"
    using b by (simp add: encode_def)
  show "encodes n [w] t (encode w (active_encoder t) t)"
    unfolding e using assms b
    by (auto simp: encodes_def state_defs same_modes_def)
qed

text \<open>In a scope, between the end of one encoder and the start of the next.\<close>

definition between :: "nat \<Rightarrow> 'w pipe \<Rightarrow> 'w pipe \<Rightarrow> bool" where
  "between n t t' \<longleftrightarrow> sound n t' \<and> encoder_scope_active t' \<and> issued t' = issued t \<and> same_modes t t'
     \<and> (\<exists>b. active_buffer t' = Some b \<and> m_open t' b = None)"

lemma between_set [simp]:
  "between n t (t'\<lparr>active_encoder := e\<rparr>) = between n t t'" "between n t (t'\<lparr>encoder_op_count := c\<rparr>) = between n t t'"
  "between n t (t'\<lparr>in_flight := c\<rparr>) = between n t t'" "between n t (t'\<lparr>m_ticks := c, encoder_duration_ema := x,
     adaptive_encoder_max_ops := c', encoder_start_time := c''\<rparr>) = between n t t'"
  by (simp_all add: between_def same_modes_def)

lemma end_between: "encoding n t \<Longrightarrow> between n t (end_encoding (active_encoder t) t)"
  by (erule encodingE) (auto simp: end_encoding_def between_def sound_def issued_def same_modes_def)

lemma does_between_timing: "between n t0 t \<Longrightarrow> does h k (update_encoder_timing h) t k (\<lambda>_. between n t0)"
  by (rule does_timing) simp

lemma does_between_start:
  assumes "between n t0 t"
  shows "does h k (start_encoder h) t k (\<lambda>_. encodes n [] t0)"
proof -
  from assms obtain b where b: "active_buffer t = Some b" "m_open t b = None" "b < m_buffers t" "b \<notin> set (m_committed t)"
    by (auto simp: between_def sound_def)
  show ?thesis
    by (rule does_start [OF b(1,4,2)])
      (use assms b in \<open>auto simp: between_def encodes_def encoding_def sound_def issued_def same_modes_def\<close>)
qed

lemma does_between_rotation:
  assumes "healthy h" and "between n t0 t"
  shows "does h (Suc 0, d) (bindC submit_active (\<lambda>_. bindC (create_buffer h)
      (\<lambda>b. modifyC (\<lambda>s. s\<lparr>active_buffer := Some b, has_active := True\<rparr>)))) t (0, Nothing) (\<lambda>_. between n t0)"
proof -
  from assms obtain b where b: "active_buffer t = Some b" "m_open t b = None" "b < m_buffers t" "b \<notin> set (m_committed t)"
    by (auto simp: between_def sound_def)
  show ?thesis
  proof (rule step_submit [OF b(1,4,2)], rule step_create)
    let ?t = "t\<lparr>m_committed := m_committed t @ [b], m_queue := m_queue t @ [(b, True)]\<rparr>"
    show "H_creates h (m_buffers ?t)" using assms by (simp add: healthy_def)
    show "does h (0, Nothing) (modifyC (\<lambda>s. s\<lparr>active_buffer := Some (m_buffers ?t), has_active := True\<rparr>))
        (?t\<lparr>m_buffers := Suc (m_buffers ?t)\<rparr>) (0, Nothing) (\<lambda>_. between n t0)"
      by (rule does_modify, rule quiet_simps)
        (use assms b in \<open>auto simp: between_def sound_def issued_def same_modes_def\<close>)
  qed
qed

text \<open>The change to a new buffer and encoder when the current encoder is full.\<close>

lemma does_change_encoder:
  assumes "healthy h" and "encoding n t"
  shows "does h (0, Nothing) (blockC [modifyC (\<lambda>s. end_encoding (active_encoder s) s), update_encoder_timing h,
     acquire_slot, submit_active,
     bindC (create_buffer h) (\<lambda>b. modifyC (\<lambda>s. s\<lparr>active_buffer := Some b, has_active := True\<rparr>)), start_encoder h])
     t (0, Nothing) (\<lambda>_. encodes n [] t)"
proof -
  have rest: "does h (0, Nothing) (bindC acquire_slot (\<lambda>_. bindC (bindC submit_active (\<lambda>_. bindC (create_buffer h)
      (\<lambda>b. modifyC (\<lambda>s. s\<lparr>active_buffer := Some b, has_active := True\<rparr>)))) (\<lambda>_. start_encoder h))) t1
      (0, Nothing) (\<lambda>_. encodes n [] t)"
    if "between n t t1" for t1
  proof (rule step_acquire)
    show "gpu_works h" "0 < max_in_flight t1"
      using assms(1) that by (auto simp: healthy_def between_def sound_def)
    let ?t = "t1\<lparr>in_flight := Suc (in_flight t1)\<rparr>"
    show "does h (Suc 0, Nothing) (bindC (bindC submit_active (\<lambda>_. bindC (create_buffer h)
        (\<lambda>b. modifyC (\<lambda>s. s\<lparr>active_buffer := Some b, has_active := True\<rparr>)))) (\<lambda>_. start_encoder h)) ?t
        (0, Nothing) (\<lambda>_. encodes n [] t)"
      by (rule does_bind, rule does_between_rotation [OF assms(1), of n t], simp add: that, rule does_between_start)
  qed
  show ?thesis unfolding blockC_simps bindC_unit
    by (rule step_modify, rule quiet_simps, rule does_bind, rule does_between_timing, rule end_between [OF assms(2)])
      (use rest in \<open>simp add: bindC_assoc\<close>)
qed

lemma does_scope_encoder:
  assumes "healthy h" and "encoding n t" and "\<not> mu t"
  shows "does h (0, Nothing) (current_encoder h) t (0, Nothing) (\<lambda>e t'. encodes n [] t t' \<and> e = active_encoder t')"
proof -
  let ?t = "t\<lparr>mu := True\<rparr>"
  have last: "does h (0, Nothing) (bindC (modifyC (\<lambda>s. s\<lparr>encoder_op_count := (encoder_op_count s + 1) mod size_mod\<rparr>))
      (\<lambda>_. getC active_encoder)) t1 (0, Nothing) (\<lambda>e t'. encodes n [] t (t'\<lparr>mu := False\<rparr>) \<and> e = active_encoder (t'\<lparr>mu := False\<rparr>))"
    if "encodes n [] ?t t1" for t1
    by (rule step_modify, rule quiet_simps, rule does_get) (use that assms(3) in \<open>auto simp: encodes_def same_modes_def\<close>)
  have "does h (0, Nothing) (bindC (if b then blockC [modifyC (\<lambda>s. end_encoding (active_encoder s) s), update_encoder_timing h,
     acquire_slot, submit_active,
     bindC (create_buffer h) (\<lambda>b. modifyC (\<lambda>s. s\<lparr>active_buffer := Some b, has_active := True\<rparr>)), start_encoder h]
     else returnC ()) (\<lambda>_. bindC (modifyC (\<lambda>s. s\<lparr>encoder_op_count := (encoder_op_count s + 1) mod size_mod\<rparr>))
      (\<lambda>_. getC active_encoder))) ?t (0, Nothing)
      (\<lambda>e t'. encodes n [] t (t'\<lparr>mu := False\<rparr>) \<and> e = active_encoder (t'\<lparr>mu := False\<rparr>))" for b
  proof (rule does_bind, rule does_if)
    show "does h (0, Nothing) (blockC [modifyC (\<lambda>s. end_encoding (active_encoder s) s), update_encoder_timing h,
      acquire_slot, submit_active,
      bindC (create_buffer h) (\<lambda>b. modifyC (\<lambda>s. s\<lparr>active_buffer := Some b, has_active := True\<rparr>)), start_encoder h])
      ?t (0, Nothing) (\<lambda>_. encodes n [] ?t)"
      by (rule does_change_encoder) (use assms in simp_all)
    show "does h (0, Nothing) (returnC ()) ?t (0, Nothing) (\<lambda>_. encodes n [] ?t)"
      by (rule does_return) (use assms in \<open>simp add: encodes_def same_modes_def\<close>)
  qed (rule last)
  moreover have "encoder_scope_active t" "active_encoder t \<noteq> None"
    using assms(2) by (auto elim: encodingE)
  ultimately show ?thesis unfolding current_encoder_def
    by (intro does_locked [OF assms(3)] step_get does_if) (simp_all del: blockC_simps)
qed

lemma does_scoped:
  assumes "healthy h" and "encoding n t" and "\<not> mu t"
  shows "does h (0, Nothing) (scoped_op h w) t (0, Nothing) (\<lambda>_. encodes n [w] t)"
  unfolding scoped_op_def
proof (rule does_bind, rule does_scope_encoder [OF assms])
  fix e t1 assume "encodes n [] t t1 \<and> e = active_encoder t1"
  then show "does h (0, Nothing) (modifyC (encode w e)) t1 (0, Nothing) (\<lambda>_. encodes n [w] t)"
    by (auto simp: encodes_def same_modes_def intro: does_weaken [OF does_encode])
qed

lemma does_scope_record:
  assumes "encoding n t" and "\<not> mu t"
  shows "does h (0, Nothing) (record_op h) t (0, Nothing) (\<lambda>_. encodes n [] t)"
  unfolding record_op_def
  by (intro step_count step_get does_if) (use assms in \<open>auto simp: encodes_def same_modes_def intro!: does_return elim: encodingE\<close>)

lemma does_scope_commit_and_continue:
  assumes "encoding n t" and "\<not> mu t" and "lazy_commit t"
  shows "does h (0, Nothing) (commit_and_continue h) t (0, Nothing) (\<lambda>_. encodes n [] t)"
  unfolding commit_and_continue_def
  by (intro step_count step_get does_if) (use assms in \<open>auto simp: encodes_def same_modes_def intro!: does_return elim: encodingE\<close>)

section \<open>Entering and leaving an encoder scope\<close>

lemma does_enter:
  assumes "healthy h" and "ready n t" and "\<not> mu t"
  shows "does h (0, Nothing) (encoder_enter h) t (0, Nothing) (\<lambda>p t'. p = (False, lazy_commit t)
     \<and> encoding n t' \<and> issued t' = issued t \<and> \<not> mu t' \<and> lazy_commit t')"
proof -
  let ?t0 = "t\<lparr>mu := True, lazy_commit := True\<rparr>" and ?t1 = "t\<lparr>mu := True, lazy_commit := True, encoder_scope_active := True\<rparr>"
  have r: "sound n t" "active_encoder t = None" "\<not> encoder_scope_active t" using assms by (auto simp: ready_def)
  have "does h (0, Nothing) (bindC (ensure_buffer h) (\<lambda>_. start_encoder h)) ?t1 (0, Nothing) (\<lambda>_. encodes n [] ?t0)"
  proof (rule does_bind)
    show "does h (0, Nothing) (ensure_buffer h) ?t1 (0, Nothing) (\<lambda>_. between n ?t0)"
      by (rule does_ensure [OF assms(1), of n])
        (use assms r in \<open>auto simp: between_def state_defs same_modes_def\<close>)
  qed (rule does_between_start)
  then have "does h (0, Nothing) (locked (blockC [set_lazy_commit True, modifyC (\<lambda>s. s\<lparr>encoder_scope_active := True\<rparr>),
      bindC (getC active_encoder) (\<lambda>e. if e = None then blockC [ensure_buffer h, start_encoder h] else returnC ())]))
      t (0, Nothing) (\<lambda>_ t'. encoding n t' \<and> issued t' = issued t \<and> \<not> mu t' \<and> lazy_commit t')"
    unfolding set_lazy_commit_def blockC_simps bindC_unit
    by (intro does_locked [OF assms(3)] step_modify quiet_simps step_get does_if)
      (use r in \<open>auto simp: encodes_def same_modes_def elim!: does_weaken\<close>)
  then show ?thesis unfolding encoder_enter_def
    by (intro step_get) (use r in \<open>auto intro!: does_return elim!: does_bind\<close>)
qed

lemma does_reenter:
  assumes "encoding n t" and "\<not> mu t"
  shows "does h (0, Nothing) (encoder_enter h) t (0, Nothing) (\<lambda>p t'. p = (True, lazy_commit t)
     \<and> encoding n t' \<and> issued t' = issued t \<and> \<not> mu t' \<and> lazy_commit t')"
proof -
  have r: "active_encoder t \<noteq> None" "encoder_scope_active t" using assms by (auto elim: encodingE)
  have "does h (0, Nothing) (locked (blockC [set_lazy_commit True, modifyC (\<lambda>s. s\<lparr>encoder_scope_active := True\<rparr>),
      bindC (getC active_encoder) (\<lambda>e. if e = None then blockC [ensure_buffer h, start_encoder h] else returnC ())]))
      t (0, Nothing) (\<lambda>_ t'. encoding n t' \<and> issued t' = issued t \<and> \<not> mu t' \<and> lazy_commit t')"
    unfolding set_lazy_commit_def blockC_simps bindC_unit
    by (intro does_locked [OF assms(2)] step_modify quiet_simps step_get does_if)
      (use r assms in \<open>auto intro!: does_return\<close>)
  then show ?thesis unfolding encoder_enter_def
    by (intro step_get) (use r in \<open>auto intro!: does_return elim!: does_bind\<close>)
qed

text \<open>The end of the encoder, common to the two ways out of a scope; the operations of its block come first.\<close>

lemma does_end_scope:
  assumes "encoding n t"
    and "\<And>t1. between n t t1 \<Longrightarrow> active_encoder t1 = None \<Longrightarrow> does h (0, Nothing) c t1 (0, Nothing) (\<lambda>_. P)"
  shows "does h (0, Nothing) (blockC [bindC (getC active_encoder) (\<lambda>e. if e = None then returnC () else blockC [
      modifyC (end_encoding e), update_encoder_timing h, modifyC (\<lambda>s. s\<lparr>active_encoder := None\<rparr>),
      modifyC (\<lambda>s. s\<lparr>encoder_op_count := 0\<rparr>)]), c]) t (0, Nothing) (\<lambda>_. P)"
proof -
  have r: "active_encoder t \<noteq> None" using assms by (auto elim: encodingE)
  have "does h (0, Nothing) (bindC (modifyC (end_encoding (active_encoder t))) (\<lambda>_. bindC (update_encoder_timing h)
      (\<lambda>_. bindC (modifyC (\<lambda>s. s\<lparr>active_encoder := None\<rparr>)) (\<lambda>_. bindC (modifyC (\<lambda>s. s\<lparr>encoder_op_count := 0\<rparr>)) (\<lambda>_. c)))))
      t (0, Nothing) (\<lambda>_. P)"
    by (rule step_modify, rule quiet_simps, rule does_bind, rule does_between_timing, rule end_between [OF assms(1)],
        rule step_modify, rule quiet_simps, rule step_modify, rule quiet_simps, rule assms(2)) simp_all
  then show ?thesis unfolding blockC_simps bindC_unit bindC_assoc
    by (intro step_get) (use r in \<open>auto simp: bindC_assoc\<close>)
qed

lemma does_exit:
  assumes "healthy h" and "encoding n t" and "\<not> mu t"
  shows "does h (0, Nothing) (encoder_exit h (False, l)) t (0, Nothing)
    (\<lambda>_ t'. ready n t' \<and> issued t' = issued t \<and> submitted t' = issued t \<and> \<not> mu t' \<and> lazy_commit t' = l)"
proof -
  have "does h (0, Nothing) (locked (blockC [
       bindC (getC active_encoder) (\<lambda>e. if e = None then returnC () else blockC [
         modifyC (end_encoding e), update_encoder_timing h, modifyC (\<lambda>s. s\<lparr>active_encoder := None\<rparr>),
         modifyC (\<lambda>s. s\<lparr>encoder_op_count := 0\<rparr>)]),
       bindC (modifyC (\<lambda>s. s\<lparr>encoder_scope_active := False\<rparr>)) (\<lambda>_.
       bindC (getC has_active) (\<lambda>active. if False \<and> active then start_encoder h else returnC ()))])) t (0, Nothing)
       (\<lambda>_ t'. ready n t' \<and> issued t' = issued t \<and> \<not> mu t')"
  proof (rule does_locked [OF assms(3)], rule does_end_scope)
    fix t1 :: "'a pipe" assume t1: "between n (t\<lparr>mu := True\<rparr>) t1" "active_encoder t1 = None"
    show "does h (0, Nothing) (bindC (modifyC (\<lambda>s. s\<lparr>encoder_scope_active := False\<rparr>)) (\<lambda>_.
       bindC (getC has_active) (\<lambda>active. if False \<and> active then start_encoder h else returnC ()))) t1 (0, Nothing)
       (\<lambda>_ t'. ready n (t'\<lparr>mu := False\<rparr>) \<and> issued (t'\<lparr>mu := False\<rparr>) = issued t \<and> \<not> mu (t'\<lparr>mu := False\<rparr>))"
      by (rule step_modify, rule quiet_simps, rule step_get, simp)
        (use t1 in \<open>auto simp: between_def ready_def intro!: does_return\<close>)
  qed (use assms in simp)
  moreover have "does h (0, Nothing) (bindC (flush h) (\<lambda>_. set_lazy_commit l)) t1 (0, Nothing)
    (\<lambda>_ t'. ready n t' \<and> issued t' = issued t \<and> submitted t' = issued t \<and> \<not> mu t' \<and> lazy_commit t' = l)"
    if "ready n t1 \<and> issued t1 = issued t \<and> \<not> mu t1" for t1
    unfolding set_lazy_commit_def
    by (rule does_bind, rule does_flush [OF assms(1), of n])
      (use that in \<open>auto simp: issues_def same_modes_def intro!: does_modify quiet_simps\<close>)
  ultimately show ?thesis unfolding encoder_exit_def by (auto intro: does_bind)
qed

lemma does_inner_exit:
  assumes "encoding n t" and "\<not> mu t"
  shows "does h (0, Nothing) (encoder_exit h (True, l)) t (0, Nothing)
    (\<lambda>_ t'. encoding n t' \<and> issued t' = issued t \<and> \<not> mu t' \<and> lazy_commit t' = l)"
proof -
  have "does h (0, Nothing) (locked (blockC [
       bindC (getC active_encoder) (\<lambda>e. if e = None then returnC () else blockC [
         modifyC (end_encoding e), update_encoder_timing h, modifyC (\<lambda>s. s\<lparr>active_encoder := None\<rparr>),
         modifyC (\<lambda>s. s\<lparr>encoder_op_count := 0\<rparr>)]),
       bindC (modifyC (\<lambda>s. s\<lparr>encoder_scope_active := True\<rparr>)) (\<lambda>_.
       bindC (getC has_active) (\<lambda>active. if True \<and> active then start_encoder h else returnC ()))])) t (0, Nothing)
       (\<lambda>_ t'. encoding n t' \<and> issued t' = issued t \<and> \<not> mu t')"
  proof (rule does_locked [OF assms(2)], rule does_end_scope)
    fix t1 :: "'a pipe" assume t1: "between n (t\<lparr>mu := True\<rparr>) t1" "active_encoder t1 = None"
    then have same: "t1\<lparr>encoder_scope_active := True\<rparr> = t1" and act: "has_active t1"
      by (cases t1, auto simp: between_def sound_def)
    have "does h (0, Nothing) (start_encoder h) t1 (0, Nothing)
       (\<lambda>_ t'. encoding n (t'\<lparr>mu := False\<rparr>) \<and> issued (t'\<lparr>mu := False\<rparr>) = issued t \<and> \<not> mu (t'\<lparr>mu := False\<rparr>))"
      by (rule does_weaken [OF does_between_start [OF t1(1)]]) (auto simp: encodes_def)
    then show "does h (0, Nothing) (bindC (modifyC (\<lambda>s. s\<lparr>encoder_scope_active := True\<rparr>)) (\<lambda>_.
       bindC (getC has_active) (\<lambda>active. if True \<and> active then start_encoder h else returnC ()))) t1 (0, Nothing)
       (\<lambda>_ t'. encoding n (t'\<lparr>mu := False\<rparr>) \<and> issued (t'\<lparr>mu := False\<rparr>) = issued t \<and> \<not> mu (t'\<lparr>mu := False\<rparr>))"
      by (intro step_modify step_get quiet_simps) (use same act in simp_all)
  qed (use assms in simp)
  then show ?thesis unfolding encoder_exit_def set_lazy_commit_def
    by (auto elim!: does_bind intro!: does_modify quiet_simps)
qed

text \<open>An encoder scope restores the modes it found and submits its work; an inner one keeps the outer one open.\<close>

lemma does_encoder_scope:
  assumes "healthy h" and "ready n t" and "\<not> mu t"
    and "\<And>t1. \<lbrakk>encoding n t1; \<not> mu t1; lazy_commit t1; issued t1 = issued t\<rbrakk> \<Longrightarrow>
      does h (0, Nothing) c t1 (0, Nothing) (\<lambda>_ t'. encoding n t' \<and> issued t' = issued t @ ws \<and> \<not> mu t')"
  shows "does h (0, Nothing) (with_encoder h c) t (0, Nothing) (\<lambda>_ t'. issues n ws t t' \<and> submitted t' = issued t @ ws)"
  unfolding with_encoder_def
proof (rule does_bind, rule does_enter [OF assms(1-3)])
  fix p t1
  assume p: "p = (False, lazy_commit t) \<and> encoding n t1 \<and> issued t1 = issued t \<and> \<not> mu t1 \<and> lazy_commit t1"
  show "does h (0, Nothing) (finallyC c (encoder_exit h p)) t1 (0, Nothing)
      (\<lambda>_ t'. issues n ws t t' \<and> submitted t' = issued t @ ws)"
  proof (rule does_finally, rule assms(4))
    fix x t2 assume t2: "encoding n t2 \<and> issued t2 = issued t @ ws \<and> \<not> mu t2"
    then have e: "encoding n t2" "\<not> mu t2" by auto
    show "does h (0, Nothing) (encoder_exit h p) t2 (0, Nothing) (\<lambda>_ t'. issues n ws t t' \<and> submitted t' = issued t @ ws)"
      using p does_weaken [OF does_exit [OF assms(1) e, of "lazy_commit t"], of "\<lambda>_ t'. issues n ws t t' \<and> submitted t' = issued t @ ws"]
        assms(3) t2 by (auto simp: issues_def same_modes_def)
  qed (use p in auto)
qed

lemma does_inner_scope:
  assumes "encoding n t" and "\<not> mu t"
    and "\<And>t1. \<lbrakk>encoding n t1; \<not> mu t1; lazy_commit t1; issued t1 = issued t\<rbrakk> \<Longrightarrow>
      does h (0, Nothing) c t1 (0, Nothing) (\<lambda>_ t'. encoding n t' \<and> issued t' = issued t @ ws \<and> \<not> mu t')"
  shows "does h (0, Nothing) (with_encoder h c) t (0, Nothing) (\<lambda>_. encodes n ws t)"
  unfolding with_encoder_def
proof (rule does_bind, rule does_reenter [OF assms(1,2)])
  fix p t1
  assume p: "p = (True, lazy_commit t) \<and> encoding n t1 \<and> issued t1 = issued t \<and> \<not> mu t1 \<and> lazy_commit t1"
  show "does h (0, Nothing) (finallyC c (encoder_exit h p)) t1 (0, Nothing) (\<lambda>_. encodes n ws t)"
  proof (rule does_finally, rule assms(3))
    fix x t2 assume t2: "encoding n t2 \<and> issued t2 = issued t @ ws \<and> \<not> mu t2"
    then have e: "encoding n t2" "\<not> mu t2" by auto
    show "does h (0, Nothing) (encoder_exit h p) t2 (0, Nothing) (\<lambda>_. encodes n ws t)"
      using p does_weaken [OF does_inner_exit [OF e, of h "lazy_commit t"], of "\<lambda>_. encodes n ws t"]
        assms(2) t2 by (auto simp: encodes_def same_modes_def)
  qed (use p in auto)
qed

end
