(* ===== verification/PipelineThread.thy ===== *)
theory PipelineThread
  imports PipelineOps
begin

text \<open>
  Whole programs of one thread: the placement of calls that the header of the pipeline describes (encoders of
  one's own outside the encoder scopes, the scope's encoder inside), the work a program issues, and the
  induction over programs and their nested scopes.
\<close>

primrec placed :: "'w call \<Rightarrow> bool \<Rightarrow> bool" where
  "placed CurrentBuffer = (\<lambda>inside. \<not> inside)"
| "placed CommitAndContinue = (\<lambda>inside. inside)"
| "placed Commit = (\<lambda>_. False)"
| "placed Synchronize = (\<lambda>inside. \<not> inside)"
| "placed Flush = (\<lambda>inside. \<not> inside)"
| "placed (SetLazy b) = (\<lambda>inside. \<not> inside)"
| "placed RecordOp = (\<lambda>_. True)"
| "placed (SetThreshold n) = (\<lambda>_. True)"
| "placed (SetMaxOps n) = (\<lambda>_. True)"
| "placed CurrentEncoder = (\<lambda>_. True)"
| "placed DeviceSync = (\<lambda>_. True)"
| "placed (DispatchOp ok w) = (\<lambda>inside. ok \<and> \<not> inside)"
| "placed (BlitOp w) = (\<lambda>inside. \<not> inside)"
| "placed (ScopedOp w) = (\<lambda>inside. inside)"
| "placed (BatchBlock cs) = (\<lambda>inside. \<not> inside \<and> list_all (\<lambda>p. p False) (map placed cs))"
| "placed (EncoderBlock cs) = (\<lambda>_. list_all (\<lambda>p. p True) (map placed cs))"
| "placed (TryBlock cs) = (\<lambda>inside. list_all (\<lambda>p. p inside) (map placed cs))"

primrec work_of :: "'w call \<Rightarrow> 'w list" where
  "work_of CurrentBuffer = []"
| "work_of CommitAndContinue = []"
| "work_of Commit = []"
| "work_of Synchronize = []"
| "work_of Flush = []"
| "work_of (SetLazy b) = []"
| "work_of RecordOp = []"
| "work_of (SetThreshold n) = []"
| "work_of (SetMaxOps n) = []"
| "work_of CurrentEncoder = []"
| "work_of DeviceSync = []"
| "work_of (DispatchOp ok w) = [w]"
| "work_of (BlitOp w) = [w]"
| "work_of (ScopedOp w) = [w]"
| "work_of (BatchBlock cs) = concat (map work_of cs)"
| "work_of (EncoderBlock cs) = concat (map work_of cs)"
| "work_of (TryBlock cs) = concat (map work_of cs)"

text \<open>The lazy mode after a call: only \<open>set_lazy_commit\<close> outside the scopes changes it for good.\<close>

primrec lazy_after :: "'w call \<Rightarrow> bool \<Rightarrow> bool" where
  "lazy_after CurrentBuffer = id"
| "lazy_after CommitAndContinue = id"
| "lazy_after Commit = id"
| "lazy_after Synchronize = id"
| "lazy_after Flush = id"
| "lazy_after (SetLazy b) = (\<lambda>_. b)"
| "lazy_after RecordOp = id"
| "lazy_after (SetThreshold n) = id"
| "lazy_after (SetMaxOps n) = id"
| "lazy_after CurrentEncoder = id"
| "lazy_after DeviceSync = id"
| "lazy_after (DispatchOp ok w) = id"
| "lazy_after (BlitOp w) = id"
| "lazy_after (ScopedOp w) = id"
| "lazy_after (BatchBlock cs) = id"
| "lazy_after (EncoderBlock cs) = id"
| "lazy_after (TryBlock cs) = fold id (map lazy_after cs)"

definition work_of_all :: "'w call list \<Rightarrow> 'w list" where
  "work_of_all cs = concat (map work_of cs)"

definition lazy_after_all :: "'w call list \<Rightarrow> bool \<Rightarrow> bool" where
  "lazy_after_all cs = fold id (map lazy_after cs)"

text \<open>The states between two calls, outside the scopes and inside.\<close>

definition outside :: "nat \<Rightarrow> 'w list \<Rightarrow> bool \<Rightarrow> 'w pipe \<Rightarrow> bool" where
  "outside n ws l t \<longleftrightarrow> ready n t \<and> issued t = ws \<and> \<not> mu t \<and> lazy_commit t = l"

definition inside :: "nat \<Rightarrow> 'w list \<Rightarrow> 'w pipe \<Rightarrow> bool" where
  "inside n ws t \<longleftrightarrow> encoding n t \<and> issued t = ws \<and> \<not> mu t \<and> lazy_commit t"

lemma does_forget_post: "does h k c t (n, x) P \<Longrightarrow> does h k c t (n, Nothing) P"
proof -
  assume d: "does h k c t (n, x) P"
  have "agrees (n, Nothing) s t'" if "agrees (n, x) s t'" for s t' :: "'a pipe"
    using that by (elim agreesE, intro agreesI) auto
  with d show ?thesis by (auto simp: does_def tracks_def elim!: wp_mono)
qed

lemma does_outside_list:
  assumes "\<And>c ws l t. \<lbrakk>c \<in> set cs; outside n ws l t\<rbrakk> \<Longrightarrow>
      does h (0, Nothing) (perform h c) t (0, Nothing) (\<lambda>_. outside n (ws @ work_of c) (lazy_after c l))"
    and "outside n ws l t"
  shows "does h (0, Nothing) (blockC (map (perform h) cs)) t (0, Nothing)
    (\<lambda>_. outside n (ws @ work_of_all cs) (lazy_after_all cs l))"
  using assms
proof (induction cs arbitrary: ws l t)
  case Nil
  then show ?case by (auto simp: work_of_all_def lazy_after_all_def intro: does_return)
next
  case (Cons c cs)
  have "does h (0, Nothing) (perform h c) t (0, Nothing) (\<lambda>_. outside n (ws @ work_of c) (lazy_after c l))"
    by (rule Cons.prems) (use Cons.prems in auto)
  then show ?case unfolding list.map blockC_simps
  proof (rule does_bind)
    fix x t1 assume t1: "outside n (ws @ work_of c) (lazy_after c l) t1"
    have "does h (0, Nothing) (blockC (map (perform h) cs)) t1 (0, Nothing)
        (\<lambda>_. outside n ((ws @ work_of c) @ work_of_all cs) (lazy_after_all cs (lazy_after c l)))"
      by (rule Cons.IH) (use Cons.prems t1 in auto)
    then show "does h (0, Nothing) (blockC (map (perform h) cs)) t1 (0, Nothing)
        (\<lambda>_. outside n (ws @ work_of_all (c # cs)) (lazy_after_all (c # cs) l))"
      by (simp add: work_of_all_def lazy_after_all_def)
  qed
qed

lemma does_inside_list:
  assumes "\<And>c ws t. \<lbrakk>c \<in> set cs; inside n ws t\<rbrakk> \<Longrightarrow>
      does h (0, Nothing) (perform h c) t (0, Nothing) (\<lambda>_. inside n (ws @ work_of c))"
    and "inside n ws t"
  shows "does h (0, Nothing) (blockC (map (perform h) cs)) t (0, Nothing) (\<lambda>_. inside n (ws @ work_of_all cs))"
  using assms
proof (induction cs arbitrary: ws t)
  case Nil
  then show ?case by (auto simp: work_of_all_def intro: does_return)
next
  case (Cons c cs)
  have "does h (0, Nothing) (perform h c) t (0, Nothing) (\<lambda>_. inside n (ws @ work_of c))"
    by (rule Cons.prems) (use Cons.prems in auto)
  then show ?case unfolding list.map blockC_simps
  proof (rule does_bind)
    fix x t1 assume t1: "inside n (ws @ work_of c) t1"
    have "does h (0, Nothing) (blockC (map (perform h) cs)) t1 (0, Nothing)
        (\<lambda>_. inside n ((ws @ work_of c) @ work_of_all cs))"
      by (rule Cons.IH) (use Cons.prems t1 in auto)
    then show "does h (0, Nothing) (blockC (map (perform h) cs)) t1 (0, Nothing) (\<lambda>_. inside n (ws @ work_of_all (c # cs)))"
      by (simp add: work_of_all_def)
  qed
qed

lemma issues_outside: "outside n ws l t \<Longrightarrow> issues n ws' t t' \<Longrightarrow> outside n (ws @ ws') l t'"
  by (auto simp: outside_def issues_def same_modes_def)

lemma encodes_inside: "inside n ws t \<Longrightarrow> encodes n ws' t t' \<Longrightarrow> inside n (ws @ ws') t'"
  by (auto simp: inside_def encodes_def same_modes_def)

lemma does_device_outside:
  assumes "healthy h" and "outside n ws l t"
  shows "does h (0, Nothing) (device_synchronize h) t (0, Nothing) (\<lambda>_. outside n ws l)"
  by (rule does_forget_post, rule does_weaken [OF does_device_sync [OF assms(1), of n]])
    (use assms in \<open>auto simp: outside_def same_modes_def\<close>)

lemma does_device_inside:
  assumes "healthy h" and "inside n ws t"
  shows "does h (0, Nothing) (device_synchronize h) t (0, Nothing) (\<lambda>_. inside n ws)"
  by (rule does_forget_post, rule does_weaken [OF does_device_sync [OF assms(1), of n]])
    (use assms in \<open>auto simp: inside_def same_modes_def\<close>)

text \<open>The calls outside the scopes.\<close>

named_theorems outside_calls \<open>calls of a thread outside the encoder scopes\<close>

lemma outsideE:
  assumes "outside n ws l t"
  obtains "ready n t" "\<not> mu t" "issued t = ws" "lazy_commit t = l"
  using assms by (auto simp: outside_def)

lemma outside_of_issues:
  assumes "outside n ws l t" and "does h k c t (0, x) (\<lambda>_ t'. issues n ws' t t' \<and> Q t')"
  shows "does h k c t (0, Nothing) (\<lambda>_. outside n (ws @ ws') l)"
  by (rule does_forget_post, rule does_weaken [OF assms(2)]) (use assms(1) issues_outside in auto)

lemma outside_current_buffer [outside_calls]:
  assumes "healthy h" and "outside n ws l t"
  shows "does h (0, Nothing) (bindC (current_buffer h) (\<lambda>_. returnC ())) t (0, Nothing) (\<lambda>_. outside n ws l)"
  using assms(2)
  by (elim outsideE, intro does_bind [OF does_current_buffer [OF assms(1)]] does_return)
    (auto simp: outside_def same_modes_def)

lemma outside_methods [outside_calls]:
  assumes "healthy h" and "outside n ws l t"
  shows "does h (0, Nothing) synchronize_pipeline t (0, Nothing) (\<lambda>_. outside n ws l)"
    and "does h (0, Nothing) (flush h) t (0, Nothing) (\<lambda>_. outside n ws l)"
    and "does h (0, Nothing) (record_op h) t (0, Nothing) (\<lambda>_. outside n ws l)"
    and "does h (0, Nothing) (dispatch_op h True w) t (0, Nothing) (\<lambda>_. outside n (ws @ [w]) l)"
    and "does h (0, Nothing) (blit_op h w) t (0, Nothing) (\<lambda>_. outside n (ws @ [w]) l)"
proof -
  from assms(2) have r: "ready n t" "\<not> mu t" by (auto elim: outsideE)
  note out = outside_of_issues [OF assms(2)]
  show "does h (0, Nothing) synchronize_pipeline t (0, Nothing) (\<lambda>_. outside n ws l)"
    using out [OF does_synchronize [OF assms(1) r]] by simp
  show "does h (0, Nothing) (flush h) t (0, Nothing) (\<lambda>_. outside n ws l)"
    using out [OF does_flush [OF assms(1) r]] by simp
  show "does h (0, Nothing) (record_op h) t (0, Nothing) (\<lambda>_. outside n ws l)"
    by (rule out [where Q = "\<lambda>_. True" and ws' = "[]", simplified]) (rule does_record [OF assms(1) r])
  show "does h (0, Nothing) (dispatch_op h True w) t (0, Nothing) (\<lambda>_. outside n (ws @ [w]) l)"
    by (rule out [OF does_dispatch [OF assms(1) r]])
  show "does h (0, Nothing) (blit_op h w) t (0, Nothing) (\<lambda>_. outside n (ws @ [w]) l)"
    by (rule out [where Q = "\<lambda>_. True", simplified]) (rule does_blit [OF assms(1) r])
qed

lemma outside_settings [outside_calls]:
  assumes "outside n ws l t"
  shows "does h k (set_lazy_commit b) t k (\<lambda>_. outside n ws b)"
    and "does h k (set_auto_flush_threshold m) t k (\<lambda>_. outside n ws l)"
    and "does h k (set_encoder_max_ops m) t k (\<lambda>_. outside n ws l)"
    and "does h k (bindC (current_encoder h) (\<lambda>_. returnC ())) t k (\<lambda>_. outside n ws l)"
  using assms unfolding set_lazy_commit_def set_auto_flush_threshold_def
  by (auto simp: outside_def ready_def intro!: does_modify quiet_simps does_max_ops does_return
      does_bind [OF does_no_encoder, where P = "\<lambda>_. outside n ws l"])

lemma outside_batch:
  assumes "healthy h" and "outside n ws l t"
    and "\<And>ws l t. outside n ws l t \<Longrightarrow> does h (0, Nothing) c t (0, Nothing) (\<lambda>_. outside n (ws @ ws') (f l))"
  shows "does h (0, Nothing) (with_batch h c) t (0, Nothing) (\<lambda>_. outside n (ws @ ws') l)"
proof -
  from assms(2) have t: "outside n ws True (t\<lparr>lazy_commit := True\<rparr>)" by (auto simp: outside_def)
  have "does h (0, Nothing) c (t\<lparr>lazy_commit := True\<rparr>) (0, Nothing)
      (\<lambda>_ t'. ready n t' \<and> issued t' = issued t @ ws' \<and> \<not> mu t')"
    by (rule does_weaken [OF assms(3) [OF t]]) (use assms(2) in \<open>auto simp: outside_def\<close>)
  with assms show ?thesis by (intro outside_of_issues [OF assms(2) does_batch]) (auto elim: outsideE)
qed

lemma outside_encoder:
  assumes "healthy h" and "outside n ws l t"
    and "\<And>ws t. inside n ws t \<Longrightarrow> does h (0, Nothing) c t (0, Nothing) (\<lambda>_. inside n (ws @ ws'))"
  shows "does h (0, Nothing) (with_encoder h c) t (0, Nothing) (\<lambda>_. outside n (ws @ ws') l)"
proof (rule outside_of_issues [OF assms(2) does_encoder_scope [OF assms(1)]])
  fix t1 assume "encoding n t1" "\<not> mu t1" "lazy_commit t1" "issued t1 = issued t"
  then show "does h (0, Nothing) c t1 (0, Nothing) (\<lambda>_ t'. encoding n t' \<and> issued t' = issued t @ ws' \<and> \<not> mu t')"
    by (intro does_weaken [OF assms(3) [of "issued t"]]) (auto simp: inside_def)
qed (use assms(2) in \<open>auto elim: outsideE\<close>)

text \<open>The calls inside a scope.\<close>

named_theorems inside_calls \<open>calls of a thread inside an encoder scope\<close>

lemma inside_of_encodes:
  "inside n ws t \<Longrightarrow> does h k c t k' (\<lambda>_. encodes n ws' t) \<Longrightarrow> does h k c t k' (\<lambda>_. inside n (ws @ ws'))"
  by (erule does_weaken) (rule encodes_inside)

lemma inside_methods [inside_calls]:
  assumes "healthy h" and "inside n ws t"
  shows "does h (0, Nothing) (commit_and_continue h) t (0, Nothing) (\<lambda>_. inside n ws)"
    and "does h (0, Nothing) (record_op h) t (0, Nothing) (\<lambda>_. inside n ws)"
    and "does h (0, Nothing) (bindC (current_encoder h) (\<lambda>_. returnC ())) t (0, Nothing) (\<lambda>_. inside n ws)"
    and "does h (0, Nothing) (scoped_op h w) t (0, Nothing) (\<lambda>_. inside n (ws @ [w]))"
proof -
  from assms(2) have r: "encoding n t" "\<not> mu t" "lazy_commit t" by (auto simp: inside_def)
  note ins = inside_of_encodes [OF assms(2), where ws' = "[]", simplified]
  show "does h (0, Nothing) (commit_and_continue h) t (0, Nothing) (\<lambda>_. inside n ws)"
    by (rule ins [OF does_scope_commit_and_continue [OF r]])
  show "does h (0, Nothing) (record_op h) t (0, Nothing) (\<lambda>_. inside n ws)"
    by (rule ins [OF does_scope_record [OF r(1,2)]])
  show "does h (0, Nothing) (bindC (current_encoder h) (\<lambda>_. returnC ())) t (0, Nothing) (\<lambda>_. inside n ws)"
    by (rule ins, rule does_bind [OF does_scope_encoder [OF assms(1) r(1,2)]]) (auto intro: does_return)
  show "does h (0, Nothing) (scoped_op h w) t (0, Nothing) (\<lambda>_. inside n (ws @ [w]))"
    by (rule inside_of_encodes [OF assms(2) does_scoped [OF assms(1) r(1,2)]])
qed

lemma inside_settings [inside_calls]:
  assumes "inside n ws t"
  shows "does h k (set_auto_flush_threshold m) t k (\<lambda>_. inside n ws)"
    and "does h k (set_encoder_max_ops m) t k (\<lambda>_. inside n ws)"
  using assms unfolding set_auto_flush_threshold_def
  by (auto simp: inside_def intro!: does_modify quiet_simps does_max_ops)

lemma inside_encoder:
  assumes "inside n ws t"
    and "\<And>ws t. inside n ws t \<Longrightarrow> does h (0, Nothing) c t (0, Nothing) (\<lambda>_. inside n (ws @ ws'))"
  shows "does h (0, Nothing) (with_encoder h c) t (0, Nothing) (\<lambda>_. inside n (ws @ ws'))"
proof (rule inside_of_encodes [OF assms(1)], rule does_inner_scope)
  fix t1 assume "encoding n t1" "\<not> mu t1" "lazy_commit t1" "issued t1 = issued t"
  then show "does h (0, Nothing) c t1 (0, Nothing) (\<lambda>_ t'. encoding n t' \<and> issued t' = issued t @ ws' \<and> \<not> mu t')"
    by (intro does_weaken [OF assms(2) [of "issued t"]]) (auto simp: inside_def)
qed (use assms(1) in \<open>auto simp: inside_def\<close>)

lemma does_perform:
  assumes "healthy h"
  shows "placed c False \<Longrightarrow> outside n ws l t \<Longrightarrow>
      does h (0, Nothing) (perform h c) t (0, Nothing) (\<lambda>_. outside n (ws @ work_of c) (lazy_after c l))"
    and "placed c True \<Longrightarrow> inside n ws' t' \<Longrightarrow>
      does h (0, Nothing) (perform h c) t' (0, Nothing) (\<lambda>_. inside n (ws' @ work_of c))"
proof (induction c arbitrary: ws l t ws' t')
  case (BatchBlock cs)
  {
    case 1
    then have "\<And>ws l t. outside n ws l t \<Longrightarrow> does h (0, Nothing) (blockC (map (perform h) cs)) t (0, Nothing)
        (\<lambda>_. outside n (ws @ work_of_all cs) (lazy_after_all cs l))"
      by (intro does_outside_list BatchBlock.IH(1)) (auto simp: list_all_iff)
    from outside_batch [OF assms 1(2) this] show ?case by (simp add: work_of_all_def)
  next
    case 2
    then show ?case by simp
  }
next
  case (EncoderBlock cs)
  have body: "\<And>ws t. inside n ws t \<Longrightarrow> does h (0, Nothing) (blockC (map (perform h) cs)) t (0, Nothing)
      (\<lambda>_. inside n (ws @ work_of_all cs))" if "list_all (\<lambda>p. p True) (map placed cs)"
    using that by (intro does_inside_list EncoderBlock.IH(2)) (auto simp: list_all_iff)
  {
    case 1
    then show ?case using outside_encoder [OF assms 1(2) body] by (simp add: work_of_all_def)
  next
    case 2
    then show ?case using inside_encoder [OF 2(2) body] by (simp add: work_of_all_def)
  }
next
  case (TryBlock cs)
  {
    case 1
    then show ?case using does_try [OF does_outside_list [OF TryBlock.IH(1) 1(2)]]
      by (auto simp: list_all_iff work_of_all_def lazy_after_all_def)
  next
    case 2
    then show ?case using does_try [OF does_inside_list [OF TryBlock.IH(2) 2(2)]]
      by (auto simp: list_all_iff work_of_all_def)
  }
qed (use assms in \<open>auto intro: outside_calls inside_calls does_device_outside does_device_inside\<close>)

lemma does_performs:
  assumes "healthy h" and "\<forall>c \<in> set cs. placed c False" and "outside n ws l t"
  shows "does h (0, Nothing) (performs h cs) t (0, Nothing) (\<lambda>_. outside n (ws @ work_of_all cs) (lazy_after_all cs l))"
  unfolding performs_def
  by (rule does_outside_list) (use assms(2,3) in \<open>auto intro: does_perform(1) [OF assms(1)]\<close>)

lemma outside_new: "0 < n \<Longrightarrow> outside n [] False (new_pipe n)"
  by (auto simp: outside_def state_defs new_pipe_def new_metal_def metal.defs)

lemma agrees_new: "agrees (0, Nothing) (new_pipe n) (new_pipe n)"
  by (rule agreesI [of _ 0 "[]" "[]"])
    (auto simp: gpu_part_def new_pipe_def new_metal_def metal.defs pending_def)

lemma issued_gpu_part [simp]:
  "issued (gpu_part f q m t) = issued t" "submitted (gpu_part f q m t) = submitted t"
  by (simp_all add: issued_def submitted_def)

text \<open>What is known when the thread has finished, and when nothing can go on any more.\<close>

lemma does_finished:
  assumes "does h k c t k' P" and "agrees k s t" and "sys_reach (gpu_step h) ([c], s) ([Finish r], s')"
  shows "\<exists>x t'. r = Inr x \<and> P x t' \<and> agrees k' s' t'"
proof -
  from assms(1) obtain x t' where c: "tracks (gpu_step h) agrees k c t k'" "runC c t = (Inr x, t')" "P x t'"
    by (auto simp: does_def)
  with pipe_runs.tracks_finished [OF c(1) assms(2,3)] show ?thesis by auto
qed

lemma does_halted:
  assumes "does h k c t k' P" and "agrees k s t" and "sys_reach (gpu_step h) ([c], s) (ts, s')"
    and "halted (gpu_step h) (ts, s')"
  shows "\<exists>x t'. ts = [Finish (Inr x)] \<and> P x t' \<and> agrees k' s' t'"
proof -
  from assms(1) obtain x t' where c: "tracks (gpu_step h) agrees k c t k'" "runC c t = (Inr x, t')" "P x t'"
    by (auto simp: does_def)
  with pipe_runs.tracks_halted [OF c(1) assms(2-4)] show ?thesis by auto
qed

lemma performs_append: "performs h (cs @ ds) = bindC (performs h cs) (\<lambda>_. performs h ds)"
  unfolding performs_def by (induction cs) (simp_all add: bindC_assoc)

lemma performs_one [simp]: "performs h [c] = perform h c"
  by (simp add: performs_def)

lemma halted_queue: "gpu_works h \<Longrightarrow> halted (gpu_step h) (ts, s) \<Longrightarrow> m_queue s = []"
  by (auto simp: halted_iff gpu_stuck)

end
