(* ===== verification/PipelineProps.thy ===== *)
theory PipelineProps
  imports PipelineThread
begin

text \<open>
  What holds of the command pipeline under any number of threads, any order of their actions and any behaviour
  of the GPU: the bound on the slots, the limits of the adaptive encoder, the order of completion.
\<close>

section \<open>Runs end\<close>

interpretation gpu_ends: ending_env "gpu_step h" "\<lambda>s. length (m_queue s)"
  by unfold_locales (auto elim!: gpu_stepE)

text \<open>A program so placed has a run to its end, and every run that can go no further is one.\<close>

lemma program_returns:
  assumes "healthy h" and "0 < n" and "\<forall>c \<in> set cs. placed c False"
  shows "\<exists>s. sys_reach (gpu_step h) ([performs h cs], new_pipe n) ([returnC ()], s) \<and> halted (gpu_step h) ([returnC ()], s)"
proof -
  obtain ts s where r: "sys_reach (gpu_step h) ([performs h cs], new_pipe n) (ts, s)" "halted (gpu_step h) (ts, s)"
    using gpu_ends.reaches_halt [of h "([performs h cs], new_pipe n)"] by auto
  from does_halted [OF does_performs [OF assms(1,3) outside_new [OF assms(2)]] agrees_new r]
  have "ts = [returnC ()]" by auto
  with r show ?thesis by blast
qed

section \<open>A machine\<close>

text \<open>A machine that grants every buffer and whose GPU completes them in order; the programs below run on it.\<close>

definition plain_host :: metal_host where
  "plain_host = \<lparr>H_creates = (\<lambda>_. True), H_clock = Suc, H_numer = 1, H_denom = 1, H_finishes = (\<lambda>q i. i = 0)\<rparr>"

lemma plain_host_simps [simp]:
  "H_creates plain_host i" "H_finishes plain_host q i \<longleftrightarrow> i = 0" "healthy plain_host"
  by (auto simp: plain_host_def healthy_def gpu_works_def)

lemmas dispatch_run = dispatch_op_def current_buffer_def locked_def ensure_buffer_def create_buffer_def
  new_command_buffer_def open_encoder_def encode_def end_encoding_def commit_and_continue_def count_op_def
  acquire_slot_def submit_active_def rotate_buffer_def reset_op_count_def metal_commit_def Let_def
  new_pipe_def new_metal_def metal.defs size_mod_def runC_bind unblocked_bind runC_attempt

section \<open>Slots\<close>

definition slots_bounded :: "nat \<Rightarrow> 'w pipe \<Rightarrow> bool" where
  "slots_bounded n s \<longleftrightarrow> in_flight s \<le> n \<and> max_in_flight s = n"

interpretation bounded_slots: pipe_kept h "slots_bounded n" "\<lambda>_. True"
  by unfold_locales
    (auto simp: slots_bounded_def metal_commit_def open_encoder_def end_encoding_def encode_def fault_def Let_def
      split: option.split)

lemma slots_cover:
  assumes "sys_reach (gpu_step h) (map (performs h) css, new_pipe n) (ts, s)"
  shows "pending s \<le> in_flight s"
proof -
  have "0 \<le> slots_held s"
    by (rule slot_ledger.reach_bal [OF assms])
      (auto intro: needs_performs [unfolded needs_def, rule_format])
  then show ?thesis by (simp add: slots_held_def)
qed

definition unthrown :: "'w pipe \<Rightarrow> bool" where
  "unthrown s \<longleftrightarrow> HandlerThrew \<notin> set (m_faults s)"

interpretation throwing: pipe_code unthrown "\<lambda>_. True"
  by unfold_locales
    (auto simp: unthrown_def metal_commit_def open_encoder_def end_encoding_def encode_def fault_def Let_def split: option.split)

text \<open>The handler throws only where no slot is taken, and its buffer holds one.\<close>

lemma complete_unthrown:
  assumes "i < length (m_queue s)" and "pending s \<le> in_flight s" and "unthrown s"
  shows "unthrown (complete i s)"
proof (cases "m_queue s ! i")
  case (Pair b hnd)
  have "0 < pending s" if hnd
  proof -
    have "(b, True) \<in> set (filter snd (m_queue s))" using that Pair nth_mem [OF assms(1)] by simp
    then show ?thesis unfolding pending_def by (metis length_pos_if_in_set)
  qed
  with assms(2,3) Pair show ?thesis by (auto simp: unthrown_def complete_def Let_def give_back_def)
qed

lemma never_thrown:
  assumes "sys_reach (gpu_step h) (map (performs h) css, new_pipe n) (ts, s)"
  shows "unthrown s \<and> (\<forall>t \<in> set ts. keeps unthrown t)"
  using assms
proof (induction rule: rtranclp_induct2)
  case refl
  show ?case
    by (auto simp: call_ok_True list_all_iff intro: throwing.kept_performs)
      (simp add: unthrown_def new_pipe_def new_metal_def metal.defs)
next
  case (step ts s ts' s')
  from step(2) show ?case
  proof (cases rule: sys_step.cases)
    case (thread_step i g u k)
    with step(3) show ?thesis by (auto dest!: set_update_subset_insert [THEN subsetD] nth_mem)
  next
    case env_step
    with step(3) show ?thesis by (auto elim!: gpu_stepE intro: complete_unthrown [OF _ slots_cover [OF step(1)]])
  qed
qed

text \<open>
  C6. Whatever the threads call and however the GPU behaves, the buffers of the pipeline that are committed and not
  complete are covered by slots, no more slots than the configured number are ever taken, and the check in
  \<open>release\<close> never fails in a completion handler, where the exception would end the process.
\<close>

theorem pipeline_depth:
  assumes "sys_reach (gpu_step h) (map (performs h) css, new_pipe n) (ts, s)"
  shows "pending s \<le> in_flight s \<and> in_flight s \<le> n \<and> HandlerThrew \<notin> set (m_faults s)"
proof -
  have "slots_bounded n s"
    by (rule bounded_slots.kept_reach [OF assms])
      (auto simp: slots_bounded_def new_pipe_def new_metal_def metal.defs call_ok_True list_all_iff)
  with slots_cover [OF assms] never_thrown [OF assms] show ?thesis
    by (simp add: slots_bounded_def unthrown_def)
qed

lemma pipeline_depth_witness:
  "\<exists>s :: nat pipe. sys_reach (gpu_step plain_host) (map (performs plain_host) [[DispatchOp True 7], [Flush]], new_pipe 3)
      ([returnC (), performs plain_host [Flush]], s) \<and> m_queue s = [(0, True)] \<and> pending s \<le> in_flight s \<and> in_flight s \<le> 3"
proof -
  let ?c = "performs plain_host [DispatchOp True (7::nat)]" and ?f = "performs plain_host [Flush :: nat call]"
  have "unblocked ?c (new_pipe 3) \<and> (\<exists>s. runC ?c (new_pipe 3) = (Inr (), s) \<and> m_queue s = [(0, True)])"
    by (simp add: performs_def dispatch_run)
  then obtain s where s: "unblocked ?c (new_pipe 3)" "runC ?c (new_pipe 3) = (Inr (), s)" "m_queue s = [(0, True)]" by blast
  have r: "sys_reach (gpu_step plain_host) (map (performs plain_host) [[DispatchOp True 7], [Flush]], new_pipe 3)
      ([returnC (), ?f], s)"
    by (rule thread_goes [of _ 0 ?c returnC, OF _ _ s(1,2)]) simp_all
  from pipeline_depth [OF r] r s(3) show ?thesis by blast
qed

section \<open>The adaptive limit of operations per encoder\<close>

definition limits :: "nat \<Rightarrow> nat \<Rightarrow> 'w pipe \<Rightarrow> bool" where
  "limits lo hi s \<longleftrightarrow> lo \<le> 8 \<and> 128 \<le> hi \<and> hi \<le> 512 \<and> 0 < lo \<and> lo \<le> encoder_max_ops s \<and> encoder_max_ops s \<le> hi
     \<and> lo \<le> adaptive_encoder_max_ops s \<and> adaptive_encoder_max_ops s \<le> hi"

lemma tune_limits:
  assumes "0 < lo" and "lo \<le> 8" and "128 \<le> hi" and "hi \<le> 512" and "lo \<le> m" and "m \<le> hi"
  shows "lo \<le> tune_max_ops ema m \<and> tune_max_ops ema m \<le> hi"
proof -
  have "m * 3 mod size_mod = m * 3" "m * 5 mod size_mod = m * 5"
    using assms by (simp_all add: size_mod_def)
  moreover have "m \<le> m * 5 div 4" "m * 3 div 4 \<le> m" by auto
  ultimately show ?thesis using assms unfolding tune_max_ops_def by (auto simp: min_def max_def)
qed

lemma limits_metal [simp]:
  "limits lo hi (metal_commit b buf s) = limits lo hi s" "limits lo hi (snd (open_encoder buf s)) = limits lo hi s"
  "limits lo hi (end_encoding e s) = limits lo hi s" "limits lo hi (encode w e s) = limits lo hi s"
  "limits lo hi (complete i s) = limits lo hi s"
  by (auto simp: limits_def metal_commit_def open_encoder_def end_encoding_def encode_def fault_def Let_def
      split: option.split)

interpretation encoder_range: pipe_kept h "limits lo hi" "\<lambda>n. lo \<le> max 1 (min 512 n) \<and> max 1 (min 512 n) \<le> hi"
  by unfold_locales (auto simp: limits_metal, auto simp: limits_def tune_limits)

text \<open>
  The limit that the pipeline tunes stays between 1 and 512, and between 8 and 128 as long as no thread
  sets it to a value outside; more generally in every range around 8 and 128 that holds the values set.
\<close>

theorem encoder_limit_range:
  assumes "sys_reach (gpu_step h) (map (performs h) css, new_pipe n) (ts, s)"
    and "0 < lo" and "lo \<le> 8" and "128 \<le> hi" and "hi \<le> 512"
    and "\<forall>cs \<in> set css. list_all (call_ok (\<lambda>m. lo \<le> max 1 (min 512 m) \<and> max 1 (min 512 m) \<le> hi)) cs"
  shows "lo \<le> adaptive_encoder_max_ops s \<and> adaptive_encoder_max_ops s \<le> hi"
proof -
  have "limits lo hi s"
    by (rule encoder_range.kept_reach [OF assms(1)])
      (use assms in \<open>auto simp: limits_def new_pipe_def new_metal_def metal.defs\<close>)
  then show ?thesis by (simp add: limits_def)
qed

lemma encoder_limit_range_witness:
  "\<exists>s :: nat pipe. sys_reach (gpu_step plain_host) (map (performs plain_host) [[SetMaxOps 200]], new_pipe 3) ([returnC ()], s)
    \<and> 8 \<le> adaptive_encoder_max_ops s \<and> adaptive_encoder_max_ops s \<le> 200"
proof -
  have c: "\<forall>cs \<in> set [[SetMaxOps 200 :: nat call]]. list_all (call_ok (\<lambda>m. 8 \<le> max 1 (min 512 m) \<and> max 1 (min 512 m) \<le> 200)) cs"
    by simp
  obtain s :: "nat pipe" where r: "sys_reach (gpu_step plain_host) (map (performs plain_host) [[SetMaxOps 200]], new_pipe 3) ([returnC ()], s)"
    using program_returns [of plain_host 3 "[SetMaxOps 200]"] by auto
  from encoder_limit_range [OF r _ _ _ _ c] r show ?thesis by auto
qed

section \<open>A thread alone\<close>

lemma thread_halts:
  assumes "healthy h" and "0 < n" and "\<forall>c \<in> set cs. placed c False"
    and "sys_reach (gpu_step h) ([performs h cs], new_pipe n) (ts, s)" and "halted (gpu_step h) (ts, s)"
  shows "ts = [returnC ()] \<and> m_faults s = [] \<and> issued s = work_of_all cs \<and> in_flight s = 0"
proof -
  from does_performs [OF assms(1,3) outside_new [OF assms(2)]]
  have d: "does h (0, Nothing) (performs h cs) (new_pipe n) (0, Nothing)
      (\<lambda>_. outside n (work_of_all cs) (lazy_after_all cs False))" by simp
  from does_halted [OF d agrees_new assms(4,5)] obtain t
    where ts: "ts = [returnC ()]" and t: "outside n (work_of_all cs) (lazy_after_all cs False) t" and a: "agrees (0, Nothing) s t"
    by auto
  have "m_queue s = []" using assms(1,5) by (auto simp: healthy_def intro: halted_queue)
  with a t ts show ?thesis by (auto simp: outside_def state_defs elim!: agreesE)
qed

text \<open>
  C3. A thread that places its calls as intended always comes to an end, on a machine that grants buffers and
  whose GPU makes progress: no run goes on for ever, some run can go no further, and wherever that is, the thread
  has finished. So it never gets stuck on a slot or on the mutex; it raises nothing, provokes no fault of
  Metal, all its work is issued in the order of the program, and in the end no slot is taken.
\<close>

theorem thread_completes:
  assumes "healthy h" and "0 < n" and "\<forall>c \<in> set cs. placed c False"
  shows "wfp (\<lambda>c' c :: ('w pipe, unit) sys. sys_step (gpu_step h) c c')
    \<and> (\<exists>ts s. sys_reach (gpu_step h) ([performs h cs], new_pipe n :: 'w pipe) (ts, s) \<and> halted (gpu_step h) (ts, s))
    \<and> (\<forall>ts s. sys_reach (gpu_step h) ([performs h cs], new_pipe n) (ts, s) \<and> halted (gpu_step h) (ts, s) \<longrightarrow>
      ts = [returnC ()] \<and> m_faults s = [] \<and> issued s = work_of_all cs \<and> in_flight s = 0)"
  using gpu_ends.runs_end program_returns [OF assms] thread_halts [OF assms] by blast

lemma thread_completes_witness:
  "\<exists>s :: nat pipe. sys_reach (gpu_step plain_host) ([performs plain_host
       [BatchBlock [DispatchOp True 1, EncoderBlock [ScopedOp 2]], BlitOp 3, Synchronize]], new_pipe 2) ([returnC ()], s)
     \<and> m_faults s = [] \<and> issued s = [1, 2, 3] \<and> in_flight s = 0"
proof -
  let ?cs = "[BatchBlock [DispatchOp True 1, EncoderBlock [ScopedOp 2]], BlitOp 3, Synchronize] :: nat call list"
  have p: "\<forall>c \<in> set ?cs. placed c False" by simp
  from thread_completes [OF _ _ p, of plain_host 2] show ?thesis by (auto simp: work_of_all_def)
qed

text \<open>
  Whatever any number of threads call, there is no infinite run: every run of the threads and the GPU reaches a
  state in which nothing can go on.
\<close>

theorem pipeline_runs_end:
  "wfp (\<lambda>c' c. sys_step (gpu_step h) c c') \<and>
   (\<exists>ts s. sys_reach (gpu_step h) (map (performs h) css, new_pipe n) (ts, s) \<and> halted (gpu_step h) (ts, s))"
  using gpu_ends.runs_end gpu_ends.reaches_halt [of h "(map (performs h) css, new_pipe n)"] by auto

section \<open>Completion in order\<close>

text \<open>A GPU that completes the buffers of the queue in the order in which they were committed.\<close>

definition in_order :: "metal_host \<Rightarrow> metal_host" where
  "in_order h = h\<lparr>H_finishes := (\<lambda>q i. i = 0)\<rparr>"

definition sequenced :: "nat list \<Rightarrow> nat list \<Rightarrow> (nat \<times> bool) list \<Rightarrow> bool" where
  "sequenced c f q \<longleftrightarrow> c = f @ map fst q \<and> distinct c"

lemma sequenced_commit [simp]: "sequenced c f q \<Longrightarrow> b \<notin> set c \<Longrightarrow> sequenced (c @ [b]) f (q @ [(b, hnd)])"
  unfolding sequenced_def by (elim conjE, rule conjI, simp, rule distinct_append [THEN iffD2], simp)

lemma sequenced_Nil [simp]: "sequenced [] [] []"
  by (simp add: sequenced_def)

lemma sequenced_complete [simp]: "sequenced c f (e # q) \<Longrightarrow> sequenced c (f @ [fst e]) q"
  unfolding sequenced_def by (elim conjE, rule conjI, simp, assumption)

definition in_sequence :: "'w pipe \<Rightarrow> bool" where
  "in_sequence s \<longleftrightarrow> sequenced (m_committed s) (m_finished s) (m_queue s)"

lemma in_sequence_complete:
  assumes "in_sequence s" and "0 < length (m_queue s)"
  shows "in_sequence (complete 0 s)"
  using assms by (cases "m_queue s") (simp_all add: in_sequence_def)

interpretation ordered: pipe_kept "in_order h" in_sequence "\<lambda>_. True"
  by unfold_locales
    (auto simp: in_order_def intro: in_sequence_complete,
      auto simp: in_sequence_def metal_commit_def open_encoder_def end_encoding_def encode_def fault_def Let_def
        split: option.split)

lemma healthy_in_order: "(\<And>i. H_creates h i) \<Longrightarrow> healthy (in_order h)"
  by (auto simp: healthy_def gpu_works_def in_order_def)

lemma sequence_reach:
  assumes "sys_reach (gpu_step (in_order h)) ([performs (in_order h) cs], new_pipe n) (ts, s)"
  shows "in_sequence s"
proof (rule ordered.kept_reach)
  show "sys_reach (gpu_step (in_order h)) (map (performs (in_order h)) [cs], new_pipe n) (ts, s)" using assms by simp
  show "in_sequence (new_pipe n)" by (simp add: in_sequence_def new_pipe_def new_metal_def metal.defs)
qed (simp add: call_ok_True list_all_iff)

text \<open>Completed and queued work together are what was submitted.\<close>

lemma submitted_split:
  "in_sequence s \<Longrightarrow> submitted s = executed s @ concat (map (m_work s) (map fst (m_queue s)))"
  by (simp add: in_sequence_def sequenced_def submitted_def executed_def)

text \<open>
  C8. A single thread runs a program on a new pipeline, with its calls placed as the header of the pipeline describes:
  inside an encoder scope only what the scope takes (so no \<open>synchronize\<close>, \<open>flush\<close> or dispatch there), no \<open>commit\<close> of its
  own, and no dispatch that fails. The machine grants every buffer, and the GPU completes buffers in the order in which
  they were committed. When a final \<open>synchronize\<close> of the pipeline then returns, it has raised nothing, everything the
  program issued before it has been executed, in the order of the program, and no slot is taken.
\<close>

theorem synchronize_executes:
  assumes "\<And>i. H_creates h i" and "0 < n" and "\<forall>c \<in> set cs. placed c False"
    and "sys_reach (gpu_step (in_order h)) ([performs (in_order h) (cs @ [Synchronize])], new_pipe n) ([Finish r], s)"
  shows "r = Inr () \<and> executed s = work_of_all cs \<and> in_flight s = 0"
proof -
  let ?h = "in_order h" and ?ws = "work_of_all cs"
  have h: "healthy ?h" using assms(1) by (rule healthy_in_order)
  have "does ?h (0, Nothing) (performs ?h cs) (new_pipe n) (0, Nothing) (\<lambda>_. outside n ?ws (lazy_after_all cs False))"
    using does_performs [OF h assms(3) outside_new [OF assms(2)]] by simp
  then have "does ?h (0, Nothing) (performs ?h (cs @ [Synchronize])) (new_pipe n) (0, Drained)
      (\<lambda>_ t'. ready n t' \<and> submitted t' = ?ws)"
    unfolding performs_append
    by (rule does_bind) (auto simp: issues_def elim!: outsideE intro!: does_weaken [OF does_synchronize [OF h]])
  from does_finished [OF this agrees_new assms(4)] obtain t
    where r: "r = Inr ()" and t: "ready n t" "submitted t = ?ws" and a: "agrees (0, Drained) s t"
    by auto
  from a obtain f q m where s: "s = gpu_part f q m t" "f = length (filter snd q)" "set q \<subseteq> set (m_queue t)" "filter snd q = []"
    by (auto elim!: agreesE)
  have "concat (map (m_work t) (map fst q)) = []"
    using s t by (auto simp: state_defs queued_ok_def filter_empty_conv)
  with submitted_split [OF sequence_reach [OF assms(4)]] s t r show ?thesis by simp
qed

lemma synchronize_executes_witness:
  "\<exists>s :: nat pipe. sys_reach (gpu_step (in_order plain_host)) ([performs (in_order plain_host)
       ([SetLazy True, DispatchOp True 4, DispatchOp True 5] @ [Synchronize])], new_pipe 2) ([returnC ()], s)
     \<and> executed s = [4, 5] \<and> in_flight s = 0"
proof -
  let ?cs = "[SetLazy True, DispatchOp True 4, DispatchOp True 5] :: nat call list"
  have p: "\<forall>c \<in> set ?cs. placed c False" "\<forall>c \<in> set (?cs @ [Synchronize]). placed c False" by simp_all
  obtain s where r: "sys_reach (gpu_step (in_order plain_host)) ([performs (in_order plain_host) (?cs @ [Synchronize])], new_pipe 2)
      ([returnC ()], s)"
    using program_returns [OF healthy_in_order _ p(2), of plain_host 2] by auto
  from synchronize_executes [OF _ _ p(1) r] r show ?thesis by (auto simp: work_of_all_def)
qed

section \<open>Reading back\<close>

text \<open>What a row of dispatches has done so far: in lazy mode it only counts, otherwise everything is submitted.\<close>

definition dispatched :: "nat \<Rightarrow> bool \<Rightarrow> 'w list \<Rightarrow> 'w pipe \<Rightarrow> bool" where
  "dispatched n l ws t \<longleftrightarrow> outside n ws l t \<and>
     (if l then submitted t = [] \<and> op_count t = length ws \<and> auto_flush_threshold t = 64 else submitted t = ws)"

lemma does_dispatched:
  assumes "healthy h" and "dispatched n l ws t" and "length ws < 63"
  shows "does h (0, Nothing) (dispatch_op h True w) t (0, Nothing) (\<lambda>_. dispatched n l (ws @ [w]))"
proof (cases l)
  case True
  with assms have r: "ready n t" "\<not> mu t" "lazy_commit t" "op_count t + 1 < auto_flush_threshold t" "op_count t + 1 < size_mod"
    by (auto simp: dispatched_def outside_def size_mod_def)
  show ?thesis
    by (rule does_weaken [OF does_lazy_dispatch [OF assms(1) r]])
      (use assms True in \<open>auto simp: dispatched_def outside_def issues_def same_modes_def\<close>)
next
  case False
  with assms have r: "ready n t" "\<not> mu t" "\<not> lazy_commit t" "issued t = ws" by (auto simp: dispatched_def outside_def)
  show ?thesis
    by (rule does_weaken [OF does_dispatch [OF assms(1) r(1,2)]])
      (use assms False r in \<open>auto simp: dispatched_def outside_def issues_def same_modes_def\<close>)
qed

lemma does_dispatches:
  assumes "healthy h"
  shows "dispatched n l ws t \<Longrightarrow> length (ws @ ws') < 64 \<Longrightarrow>
    does h (0, Nothing) (performs h (map (DispatchOp True) ws')) t (0, Nothing) (\<lambda>_. dispatched n l (ws @ ws'))"
proof (induction ws' arbitrary: ws t)
  case Nil
  then show ?case by (auto simp: performs_def intro: does_return)
next
  case (Cons w ws')
  then have "does h (0, Nothing) (perform h (DispatchOp True w)) t (0, Nothing) (\<lambda>_. dispatched n l (ws @ [w]))"
    by (auto intro: does_dispatched [OF assms])
  then show ?case unfolding performs_def list.map blockC_simps
    by (rule does_bind) (use Cons in \<open>force simp: performs_def\<close>)
qed

lemma dispatched_new: "0 < n \<Longrightarrow> dispatched n l [] ((new_pipe n :: 'w pipe)\<lparr>lazy_commit := l\<rparr>)"
  using outside_new [of n]
  by (auto simp: dispatched_def outside_def) (auto simp: submitted_def new_pipe_def new_metal_def metal.defs)

text \<open>The whole program: the mode is set, the work is dispatched, and the device is synchronised.\<close>

lemma does_reading:
  assumes "healthy h" and "0 < n" and "length ws < 64"
  shows "\<exists>b. does h (0, Nothing) (performs h (SetLazy l # map (DispatchOp True) ws @ [DeviceSync])) (new_pipe n) (0, Completed b)
    (\<lambda>_ t. submitted t = (if l then [] else ws) \<and> m_committed t \<noteq> [] \<and> last (m_committed t) = b)"
proof -
  have "does h (0, Nothing) (performs h (map (DispatchOp True) ws)) (new_pipe n\<lparr>lazy_commit := l\<rparr>) (0, Nothing)
      (\<lambda>_. dispatched n l ws)"
    using does_dispatches [OF assms(1) dispatched_new [OF assms(2)], of ws] assms(3) by simp
  then obtain t1 where t1: "dispatched n l ws t1"
    and d1: "does h (0, Nothing) (performs h (map (DispatchOp True) ws)) (new_pipe n\<lparr>lazy_commit := l\<rparr>) (0, Nothing) (\<lambda>_ t'. t' = t1)"
    using does_exact by fastforce
  have "does h (0, Nothing) (performs h (map (DispatchOp True) ws @ [DeviceSync])) (new_pipe n\<lparr>lazy_commit := l\<rparr>)
      (0, Completed (m_buffers t1))
      (\<lambda>_ t. submitted t = (if l then [] else ws) \<and> m_committed t \<noteq> [] \<and> last (m_committed t) = m_buffers t1)"
    unfolding performs_append performs_one perform.simps
    by (rule does_bind [OF d1], hypsubst, rule does_weaken [OF does_device_sync [OF assms(1), of n]])
      (use t1 in \<open>auto simp: dispatched_def outside_def\<close>)
  then have "does h (0, Nothing) (bindC (set_lazy_commit l) (\<lambda>_. performs h (map (DispatchOp True) ws @ [DeviceSync]))) (new_pipe n)
      (0, Completed (m_buffers t1))
      (\<lambda>_ t. submitted t = (if l then [] else ws) \<and> m_committed t \<noteq> [] \<and> last (m_committed t) = m_buffers t1)"
    unfolding set_lazy_commit_def by (rule step_modify [OF quiet_set(13)])
  then show ?thesis by (auto simp: performs_def)
qed

text \<open>
  C12. What a read back sees. A thread alone, on a new pipeline, a machine that grants every buffer and a GPU that
  completes buffers in order, dispatches fewer operations than the threshold and synchronises the device, as every
  conversion to NumPy does. Outside the lazy mode everything has then been executed. In lazy mode nothing has:
  the work is still in the active buffer, which \<open>MNDevice::synchronize\<close> does not know of.
\<close>

theorem device_sync_reads:
  assumes "\<And>i. H_creates h i" and "0 < n" and "length ws < 64"
    and "sys_reach (gpu_step (in_order h))
      ([performs (in_order h) (SetLazy l # map (DispatchOp True) ws @ [DeviceSync])], new_pipe n) ([Finish r], s)"
  shows "r = Inr () \<and> executed s = (if l then [] else ws)"
proof -
  have h: "healthy (in_order h)" using assms(1) by (rule healthy_in_order)
  obtain b where d: "does (in_order h) (0, Nothing) (performs (in_order h) (SetLazy l # map (DispatchOp True) ws @ [DeviceSync]))
      (new_pipe n) (0, Completed b)
      (\<lambda>_ t. submitted t = (if l then [] else ws) \<and> m_committed t \<noteq> [] \<and> last (m_committed t) = b)"
    using does_reading [OF h assms(2,3), of l] by blast
  from does_finished [OF d agrees_new assms(4)] obtain t where r: "r = Inr ()"
    and t: "submitted t = (if l then [] else ws)" "m_committed t \<noteq> []" "last (m_committed t) = b"
    and a: "agrees (0, Completed b) s t" by auto
  from a t have s: "submitted s = (if l then [] else ws)" "m_committed s \<noteq> []" "last (m_committed s) \<in> set (m_finished s)"
    by (auto elim!: agreesE)
  have seq: "m_committed s = m_finished s @ map fst (m_queue s)" "distinct (m_committed s)"
    using sequence_reach [OF assms(4), unfolded in_sequence_def sequenced_def] by blast+
  have "m_queue s = []"
  proof (rule ccontr)
    assume q: "m_queue s \<noteq> []"
    then have "last (m_committed s) \<in> set (map fst (m_queue s))"
      using seq(1) last_in_set [of "map fst (m_queue s)"] by simp
    with s(3) seq show False by (metis disjoint_iff distinct_append)
  qed
  with s submitted_split [OF sequence_reach [OF assms(4)]] r show ?thesis by simp
qed

lemma device_sync_reads_witness:
  "\<exists>s :: nat pipe. sys_reach (gpu_step (in_order plain_host)) ([performs (in_order plain_host)
       (SetLazy True # map (DispatchOp True) [4, 5] @ [DeviceSync])], new_pipe 2) ([returnC ()], s) \<and> executed s = []"
proof -
  let ?cs = "SetLazy True # map (DispatchOp True) [4, 5] @ [DeviceSync] :: nat call list"
  have p: "\<forall>c \<in> set ?cs. placed c False" by simp
  obtain s where r: "sys_reach (gpu_step (in_order plain_host)) ([performs (in_order plain_host) ?cs], new_pipe 2) ([returnC ()], s)"
    using program_returns [OF healthy_in_order _ p, of plain_host 2] by auto
  from device_sync_reads [OF _ _ _ r] r show ?thesis by auto
qed

end
