(* ===== verification/PipelineFaults.thy ===== *)
theory PipelineFaults
  imports PipelineProps
begin

text \<open>
  Where the pipeline fails: threads that block each other for good, slots that are lost, and calls that Metal forbids.
  Each is a run that is given step by step.
\<close>

lemma timesC_add: "timesC (j + k) c = bindC (timesC j c) (\<lambda>_. timesC k c)"
  by (induction j) (simp_all add: bindC_assoc)

lemma runs_acquires:
  "runC (timesC j acquire_slot) s = (Inr (), s\<lparr>in_flight := in_flight s + j\<rparr>)"
  "in_flight s + j \<le> max_in_flight s \<Longrightarrow> unblocked (timesC j acquire_slot) s"
  by (induction j arbitrary: s) (simp_all add: acquire_slot_def runC_bind unblocked_bind)

lemma waits_slot: "0 < j \<Longrightarrow> max_in_flight s \<le> in_flight s \<Longrightarrow> waits (bindC (timesC j acquire_slot) f) s"
  by (cases j) (simp_all add: acquire_slot_def awaitC_def)

text \<open>A pipeline with no active buffer, of which so many slots are taken.\<close>

definition taken :: "nat \<Rightarrow> nat \<Rightarrow> 'w pipe" where
  "taken n f = (new_pipe n)\<lparr>in_flight := f\<rparr>"

lemma taken_simps [simp]:
  "in_flight (taken n f) = f" "max_in_flight (taken n f) = n" "buffer_count (taken n f) = n" "\<not> mu (taken n f)"
  "\<not> has_active (taken n f)" "m_queue (taken n f) = []" "m_committed (taken n f) = []" "(taken n f)\<lparr>in_flight := f'\<rparr> = taken n f'"
  "(taken n f)\<lparr>mu := False\<rparr> = taken n f"
  by (simp_all add: taken_def new_pipe_def new_metal_def metal.defs)

lemma taken_new: "new_pipe n = taken n 0"
  by (simp add: taken_def new_pipe_def new_metal_def metal.defs)

lemma idle_gpu: "m_queue s = [] \<Longrightarrow> \<not> gpu_step h s s'"
  by (auto elim: gpu_stepE)

text \<open>\<open>synchronize\<close> up to the loop that takes all slots.\<close>

definition sync_loop :: "nat \<Rightarrow> ('w pipe, unit) code" where
  "sync_loop n = bindC (timesC n acquire_slot) (\<lambda>_. timesC n release_slot)"

definition sync_start :: "('w pipe, nat) code" where
  "sync_start = bindC (locked (bindC (getC has_active) (\<lambda>active. if active
       then blockC [acquire_slot, submit_active, retire_buffer] else returnC ()))) (\<lambda>_. getC buffer_count)"

lemma sync_split: "synchronize_pipeline = bindC sync_start sync_loop"
  by (simp add: synchronize_pipeline_def sync_start_def sync_loop_def [abs_def] bindC_assoc)

lemma runs_sync_start:
  "unblocked sync_start (taken n f)" "runC sync_start (taken n f) = (Inr n, taken n f)"
  by (simp_all add: sync_start_def locked_def unblocked_bind runC_bind runC_attempt)

lemma sync_loop_split: "sync_loop (j + k) =
    bindC (timesC j acquire_slot) (\<lambda>_. bindC (timesC k acquire_slot) (\<lambda>_. timesC (j + k) release_slot))"
  by (simp only: sync_loop_def timesC_add [of j k acquire_slot] bindC_assoc)

lemma deadlockedI:
  assumes "m_queue s = []" and "\<And>t. t \<in> set ts \<Longrightarrow> waits t s" and "ts \<noteq> []"
  shows "deadlocked (gpu_step h) (ts, s)"
  unfolding deadlocked_def halted_iff
  using assms idle_gpu [OF assms(1)] waits_unfinished by (metis fst_conv last_in_set)

text \<open>
  C22. Two threads that synchronise at the same time can block each other for good: each takes the slots one by one
  and none can get the rest. Nothing but the two calls is needed.
\<close>

theorem two_synchronize_deadlock:
  assumes "2 \<le> n"
  shows "\<exists>ts s. sys_reach (gpu_step h) ([performs h [Synchronize], performs h [Synchronize]], new_pipe n) (ts, s)
    \<and> deadlocked (gpu_step h) (ts, s)"
proof -
  let ?S = "bindC sync_start sync_loop" and ?r = "\<lambda>_. timesC n release_slot"
  let ?w = "\<lambda>k. bindC (timesC k acquire_slot) ?r"
  from assms obtain m where n: "n = Suc m" "0 < m" by (cases n) auto
  have w: "sync_loop n = bindC (timesC 1 acquire_slot) (\<lambda>_. ?w m)" "sync_loop n = bindC (timesC m acquire_slot) (\<lambda>_. ?w 1)"
    using sync_loop_split [of 1 m] sync_loop_split [of m 1] n by simp_all
  have "sys_reach (gpu_step h) ([?S, ?S], taken n 0) ([sync_loop n, ?S], taken n 0)"
    by (rule thread_goes [of _ 0 sync_start sync_loop, OF _ _ runs_sync_start]) simp_all
  also have "sys_reach (gpu_step h) ([sync_loop n, ?S], taken n 0) ([sync_loop n, sync_loop n], taken n 0)"
    by (rule thread_goes [of _ 1 sync_start sync_loop, OF _ _ runs_sync_start]) simp_all
  also have "sys_reach (gpu_step h) ([sync_loop n, sync_loop n], taken n 0) ([?w m, sync_loop n], taken n 1)"
    by (rule thread_goes [of _ 0 "timesC 1 acquire_slot" "\<lambda>_. ?w m" "taken n 0" "()"])
      (use n w(1) runs_acquires(2) [of "taken n 0" 1] in \<open>simp_all add: runs_acquires(1) del: timesC_simps\<close>)
  also have "sys_reach (gpu_step h) ([?w m, sync_loop n], taken n 1) ([?w m, ?w 1], taken n n)"
  proof (rule thread_goes [of _ 1 "timesC m acquire_slot" "\<lambda>_. ?w 1" "taken n 1" "()"])
    show "[?w m, sync_loop n] ! 1 = bindC (timesC m acquire_slot) (\<lambda>_. ?w 1)"
      unfolding nth_Cons_Suc One_nat_def nth_Cons_0 by (rule w(2) [unfolded One_nat_def])
    show "unblocked (timesC m acquire_slot) (taken n 1)"
      by (rule runs_acquires(2)) (simp add: n)
    show "runC (timesC m acquire_slot) (taken n 1) = (Inr (), taken n n)"
      by (simp only: runs_acquires(1)) (simp add: n)
  qed simp_all
  finally have "sys_reach (gpu_step h) ([?S, ?S], taken n 0) ([?w m, ?w 1], taken n n)" .
  moreover have "deadlocked (gpu_step h) ([?w m, ?w 1], taken n n)"
    using n by (intro deadlockedI) (auto simp del: timesC_simps intro: waits_slot)
  ultimately show ?thesis by (auto simp: sync_split taken_new)
qed

lemma two_synchronize_deadlock_witness:
  "\<exists>ts (s :: nat pipe). sys_reach (gpu_step plain_host) ([performs plain_host [Synchronize], performs plain_host [Synchronize]],
    new_pipe 3) (ts, s) \<and> deadlocked (gpu_step plain_host) (ts, s)"
  by (rule two_synchronize_deadlock) simp

text \<open>A failing \<open>commit\<close> has taken its slot before it looks for a buffer, and keeps it.\<close>

lemma runs_failing_commit:
  "runC (perform h (TryBlock [Commit])) (taken n f) = (Inr (), taken n (Suc f))"
  "f < n \<Longrightarrow> unblocked (perform h (TryBlock [Commit])) (taken n f)"
  by (simp_all add: tryC_def commit_def acquire_slot_def locked_def runC_bind unblocked_bind runC_attempt raise_def terminated_def)

lemma runs_failing_commits:
  "f + j \<le> n \<Longrightarrow> runC (performs h (replicate j (TryBlock [Commit]))) (taken n f) = (Inr (), taken n (f + j))
    \<and> unblocked (performs h (replicate j (TryBlock [Commit]))) (taken n f)"
  unfolding performs_def
  by (induction j arbitrary: f) (auto simp: runC_bind unblocked_bind runs_failing_commit simp del: perform.simps)

text \<open>
  C24. After as many failing commits as there are slots, each of them reported to the caller as an error, nothing is on the
  GPU and yet the pipeline is stuck for good: \<open>synchronize\<close>, and with it the destructor, never returns.
\<close>

theorem failed_commits_block:
  assumes "0 < n"
  shows "\<exists>ts s. sys_reach (gpu_step h) ([performs h (replicate n (TryBlock [Commit]) @ [Synchronize])], new_pipe n) (ts, s)
    \<and> deadlocked (gpu_step h) (ts, s) \<and> m_committed s = []"
proof -
  let ?c = "performs h (replicate n (TryBlock [Commit]))"
  have "sys_reach (gpu_step h) ([bindC ?c (\<lambda>_. synchronize_pipeline)], taken n 0) ([synchronize_pipeline], taken n n)"
    by (rule thread_goes [of _ 0 ?c]) (simp_all add: runs_failing_commits)
  also have "sys_reach (gpu_step h) ([synchronize_pipeline], taken n n) ([sync_loop n], taken n n)"
    by (rule thread_goes [of _ 0 sync_start sync_loop, OF _ _ runs_sync_start]) (simp_all add: sync_split)
  finally have "sys_reach (gpu_step h) ([performs h (replicate n (TryBlock [Commit]) @ [Synchronize])], new_pipe n)
      ([sync_loop n], taken n n)"
    by (simp add: performs_append taken_new)
  moreover have "deadlocked (gpu_step h) ([sync_loop n], taken n n)"
    using assms by (intro deadlockedI) (auto simp: sync_loop_def intro: waits_slot)
  ultimately show ?thesis using taken_simps(7) by blast
qed

lemma failed_commits_block_witness:
  "\<exists>ts (s :: nat pipe). sys_reach (gpu_step plain_host)
      ([performs plain_host (replicate 3 (TryBlock [Commit]) @ [Synchronize])], new_pipe 3) (ts, s)
    \<and> deadlocked (gpu_step plain_host) (ts, s) \<and> m_committed s = []"
  by (rule failed_commits_block) simp

section \<open>A flush among commits\<close>

text \<open>\<open>commit_and_continue\<close> from the mutex on, and \<open>flush\<close> from the slot on.\<close>

definition committer :: "metal_host \<Rightarrow> ('w pipe, unit) code" where
  "committer h = locked (bindC (getC has_active) (\<lambda>active.
     if \<not> active then raiseC NativeError ''CommandPipeline::commit_and_continue: no active buffer to commit''
     else blockC [submit_active, rotate_buffer h, reset_op_count]))"

definition flusher :: "metal_host \<Rightarrow> ('w pipe, unit) code" where
  "flusher h = bindC (attemptC (blockC [acquire_slot, submit_active, rotate_buffer h, reset_op_count]))
     (\<lambda>r. bindC (modifyC (\<lambda>s. s\<lparr>mu := False\<rparr>)) (\<lambda>_. Finish r))"

definition lock_active :: "('w pipe, bool) code" where
  "lock_active = bindC (awaitC (\<lambda>s. \<not> mu s) (\<lambda>s. s\<lparr>mu := True\<rparr>)) (\<lambda>_. getC has_active)"

lemma flush_split: "flush h = bindC lock_active (\<lambda>active. if active then flusher h else
    bindC (modifyC (\<lambda>s. s\<lparr>mu := False\<rparr>)) (\<lambda>_. returnC ()))"
  by (simp add: flush_def locked_def lock_active_def flusher_def bindC_assoc getC_def awaitC_def fun_eq_iff)

lemma waits_lock: "mu s \<Longrightarrow> waits (committer h) s"
  by (simp add: committer_def locked_def awaitC_def)

lemma waits_flusher: "max_in_flight s \<le> in_flight s \<Longrightarrow> waits (flusher h) s"
  by (simp add: flusher_def acquire_slot_def awaitC_def)

lemma committer_takes:
  assumes "ts ! j = commit_and_continue h" and "j < length ts" and "\<not> lazy_commit s" and "in_flight s < max_in_flight s"
  shows "sys_reach env (ts, s) (ts[j := committer h],
    s\<lparr>op_count := (op_count s + 1) mod size_mod, in_flight := Suc (in_flight s)\<rparr>)"
proof -
  let ?s = "s\<lparr>op_count := (op_count s + 1) mod size_mod\<rparr>"
  define k :: "nat \<Rightarrow> bool \<Rightarrow> ('a pipe, unit) code" where "k count lazy = (if lazy then bindC (getC encoder_scope_active) (\<lambda>scope.
       if scope then returnC ()
       else bindC (getC auto_flush_threshold) (\<lambda>threshold.
         if count \<ge> threshold then blockC [flush h, reset_op_count] else returnC ()))
     else bindC acquire_slot (\<lambda>_. committer h))" for count lazy
  have c: "commit_and_continue h = bindC count_op (\<lambda>count. bindC (getC lazy_commit) (k count))"
    unfolding commit_and_continue_def
    by (intro arg_cong [of _ _ "bindC count_op"] arg_cong [of _ _ "bindC (getC lazy_commit)"] ext)
      (simp add: k_def committer_def)
  let ?n = "(op_count s + 1) mod size_mod"
  have "sys_reach env (ts, s) (ts[j := bindC (getC lazy_commit) (k ?n)], ?s)"
    by (rule thread_goes [of _ j count_op "\<lambda>count. bindC (getC lazy_commit) (k count)"])
      (use assms c in \<open>simp_all add: count_op_def Let_def\<close>)
  also have "sys_reach env (ts[j := bindC (getC lazy_commit) (k ?n)], ?s) (ts[j := k ?n False], ?s)"
    by (rule thread_goes [of _ j "getC lazy_commit" "k ?n"]) (use assms in simp_all)
  also have "sys_reach env (ts[j := k ?n False], ?s) (ts[j := committer h], ?s\<lparr>in_flight := Suc (in_flight s)\<rparr>)"
    by (rule thread_goes [of _ j acquire_slot "\<lambda>_. committer h"]) (use assms in \<open>simp_all add: k_def acquire_slot_def\<close>)
  finally show ?thesis .
qed

text \<open>
  C23. The three slots of the pipeline of the device: three threads in \<open>commit_and_continue\<close> have taken them and wait
  for the mutex, which a thread in \<open>flush\<close> holds while it waits for a slot. Nothing has been committed.
\<close>

theorem flush_commit_deadlock:
  assumes "H_creates h 0"
  shows "\<exists>ts s. sys_reach (gpu_step h) (map (performs h)
      [[CurrentBuffer, Flush], [CommitAndContinue], [CommitAndContinue], [CommitAndContinue]], new_pipe 3) (ts, s)
    \<and> deadlocked (gpu_step h) (ts, s) \<and> m_committed s = []"
proof -
  define s1 :: "'a pipe" where "s1 = (new_pipe 3)\<lparr>m_buffers := 1, active_buffer := Some 0, has_active := True\<rparr>"
  define st where "st k = s1\<lparr>op_count := k, in_flight := k\<rparr>" for k
  let ?P = "commit_and_continue h" and ?W = "committer h" and ?s = "st 3\<lparr>mu := True\<rparr>"
  let ?F = "bindC (bindC (current_buffer h) (\<lambda>_. returnC ())) (\<lambda>_. flush h)"
  note new = s1_def st_def new_pipe_def new_metal_def metal.defs size_mod_def
  have takes: "sys_reach (gpu_step h) (ts, st k) (ts[j := ?W], st (Suc k))" if "ts ! j = ?P" "j < length ts" "k < 3" for ts j k
    using committer_takes [OF that(1,2), of "st k" "gpu_step h"] that(3) by (simp add: new)
  have "sys_reach (gpu_step h) ([?F, ?P, ?P, ?P], new_pipe 3) ([flush h, ?P, ?P, ?P], st 0)"
    by (rule thread_goes [of _ 0 "bindC (current_buffer h) (\<lambda>_. returnC ())"])
      (use assms in \<open>simp_all add: current_buffer_def locked_def ensure_buffer_def create_buffer_def new_command_buffer_def
        runC_bind unblocked_bind runC_attempt new\<close>)
  also have "sys_reach (gpu_step h) ([flush h, ?P, ?P, ?P], st 0) ([flush h, ?W, ?P, ?P], st 1)"
    using takes [of "[flush h, ?P, ?P, ?P]" 1 0] by simp
  also have "sys_reach (gpu_step h) ([flush h, ?W, ?P, ?P], st 1) ([flush h, ?W, ?W, ?P], st 2)"
    using takes [of "[flush h, ?W, ?P, ?P]" 2 1] by (simp add: numeral_2_eq_2)
  also have "sys_reach (gpu_step h) ([flush h, ?W, ?W, ?P], st 2) ([flush h, ?W, ?W, ?W], st 3)"
    using takes [of "[flush h, ?W, ?W, ?P]" 3 2] by (simp add: numeral_2_eq_2 numeral_3_eq_3)
  also have "sys_reach (gpu_step h) ([flush h, ?W, ?W, ?W], st 3) ([flusher h, ?W, ?W, ?W], ?s)"
    by (rule thread_goes [of _ 0 lock_active "\<lambda>active. if active then flusher h else bindC (modifyC (\<lambda>s. s\<lparr>mu := False\<rparr>)) (\<lambda>_. returnC ())" "st 3" True])
      (simp_all add: flush_split, simp_all add: lock_active_def unblocked_bind runC_bind new)
  finally have "sys_reach (gpu_step h) (map (performs h)
      [[CurrentBuffer, Flush], [CommitAndContinue], [CommitAndContinue], [CommitAndContinue]], new_pipe 3)
      ([flusher h, ?W, ?W, ?W], ?s)"
    by (simp add: performs_def)
  moreover have "deadlocked (gpu_step h) ([flusher h, ?W, ?W, ?W], ?s)"
    by (rule deadlockedI) (auto intro: waits_lock waits_flusher simp: new)
  moreover have "m_committed ?s = []" by (simp add: new)
  ultimately show ?thesis by blast
qed

lemma flush_commit_deadlock_witness:
  "\<exists>ts (s :: nat pipe). sys_reach (gpu_step plain_host) (map (performs plain_host)
      [[CurrentBuffer, Flush], [CommitAndContinue], [CommitAndContinue], [CommitAndContinue]], new_pipe 3) (ts, s)
    \<and> deadlocked (gpu_step plain_host) (ts, s) \<and> m_committed s = []"
  by (rule flush_commit_deadlock) simp

section \<open>Calls that Metal forbids\<close>

text \<open>
  C25. An operation of the package inside an encoder scope, the usage the header of \<open>encoder_scope\<close> shows: it opens an encoder
  of its own on the buffer whose encoder the scope holds open, which Metal forbids, since no operation asks for the
  scope's encoder.
\<close>

theorem scoped_dispatch_faults:
  assumes "\<And>i. H_creates h i" and "0 < n"
  shows "\<exists>ts s. sys_reach (gpu_step h) ([performs h [EncoderBlock [DispatchOp True w]]], new_pipe n) (ts, s)
    \<and> SecondEncoder 0 \<in> set (m_faults s)"
proof -
  let ?P = "perform h (EncoderBlock [DispatchOp True w])" and ?n = "new_pipe n :: 'a pipe"
  note defs = with_encoder_def encoder_enter_def encoder_exit_def locked_def ensure_buffer_def create_buffer_def
    new_command_buffer_def start_encoder_def set_lazy_commit_def mach_absolute_time_def open_encoder_def current_buffer_def
    fault_def dispatch_op_def commit_and_continue_def count_op_def finallyC_def noexceptC_def
    update_encoder_timing_def flush_def acquire_slot_def submit_active_def rotate_buffer_def reset_op_count_def
    end_encoding_def encode_def metal_commit_def Let_def raise_def terminated_def
    runC_bind unblocked_bind runC_attempt new_pipe_def new_metal_def metal.defs size_mod_def
  have "unblocked ?P ?n \<and> (\<exists>s. runC ?P ?n = (Inr (), s) \<and> SecondEncoder 0 \<in> set (m_faults s))"
    using assms by (auto simp: defs)
  then obtain s where "unblocked ?P ?n" "runC ?P ?n = (Inr (), s)" "SecondEncoder 0 \<in> set (m_faults s)" by blast
  moreover from this have "sys_reach (gpu_step h) ([?P], ?n) ([returnC ()], s)"
    using thread_goes [of "[?P]" 0 ?P returnC ?n "()" s] by simp
  ultimately show ?thesis by (auto simp: performs_def)
qed

lemma scoped_dispatch_faults_witness:
  "\<exists>ts (s :: nat pipe). sys_reach (gpu_step plain_host)
      ([performs plain_host [EncoderBlock [DispatchOp True 1]]], new_pipe 3) (ts, s) \<and> SecondEncoder 0 \<in> set (m_faults s)"
  by (rule scoped_dispatch_faults) simp_all

text \<open>
  The mutex guards each call but not the encoding between two of them: while one thread encodes an operation, a flush of
  another thread commits the buffer under its open encoder, which Metal forbids.
\<close>

theorem concurrent_flush_faults:
  assumes "\<And>i. H_creates h i" and "0 < n"
  shows "\<exists>ts s. sys_reach (gpu_step h) ([performs h [DispatchOp True w], performs h [Flush]], new_pipe n) (ts, s)
    \<and> CommittedWhileEncoding 0 \<in> set (m_faults s)"
proof -
  let ?c = "bindC (current_buffer h) (\<lambda>buf. exchangeC (open_encoder buf))" and ?n = "new_pipe n :: 'a pipe"
  define k where "k e = blockC [modifyC (encode w e), modifyC (end_encoding e), commit_and_continue h]" for e
  have d: "performs h [DispatchOp True w] = bindC ?c k"
    by (simp add: performs_def dispatch_op_def bindC_assoc k_def [abs_def])
  note defs = locked_def ensure_buffer_def create_buffer_def new_command_buffer_def open_encoder_def current_buffer_def
    flush_def acquire_slot_def submit_active_def rotate_buffer_def reset_op_count_def metal_commit_def fault_def
    runC_bind unblocked_bind runC_attempt new_pipe_def new_metal_def metal.defs
  obtain s1 where c: "unblocked ?c ?n" "runC ?c ?n = (Inr (Some 0), s1)"
    and s1: "unblocked (flush h) s1 \<and> (\<exists>s2. runC (flush h) s1 = (Inr (), s2) \<and> CommittedWhileEncoding 0 \<in> set (m_faults s2))"
    using assms by (simp add: defs)
  from s1 obtain s2 where f: "unblocked (flush h) s1" "runC (flush h) s1 = (Inr (), s2)"
    and m: "CommittedWhileEncoding 0 \<in> set (m_faults s2)" by blast
  have "sys_reach (gpu_step h) ([bindC ?c k, flush h], ?n) ([k (Some 0), flush h], s1)"
    by (rule thread_goes [of _ 0 ?c k, OF _ _ c]) simp_all
  also have "sys_reach (gpu_step h) ([k (Some 0), flush h], s1) ([k (Some 0), returnC ()], s2)"
    by (rule thread_goes [of _ 1 "flush h" returnC, OF _ _ f]) simp_all
  finally have "sys_reach (gpu_step h) ([performs h [DispatchOp True w], performs h [Flush]], ?n) ([k (Some 0), returnC ()], s2)"
    by (simp only: d) (simp add: performs_def)
  with m show ?thesis by blast
qed

lemma concurrent_flush_faults_witness:
  "\<exists>ts (s :: nat pipe). sys_reach (gpu_step plain_host) ([performs plain_host [DispatchOp True 1], performs plain_host [Flush]],
      new_pipe 3) (ts, s) \<and> CommittedWhileEncoding 0 \<in> set (m_faults s)"
  by (rule concurrent_flush_faults) simp_all

section \<open>Reading without waiting\<close>

text \<open>
  An operation can return before the GPU has executed any of it: what reads the memory of its result then, as the multiplication
  on the CPU does with its operands, sees the memory as it was before.
\<close>

theorem dispatch_not_awaited:
  assumes "\<And>i. H_creates h i" and "0 < n"
  shows "\<exists>s. sys_reach (gpu_step h) ([performs h [DispatchOp True w]], new_pipe n) ([returnC ()], s)
    \<and> issued s = [w] \<and> executed s = []"
proof -
  let ?P = "performs h [DispatchOp True w]" and ?n = "new_pipe n :: 'a pipe"
  have "unblocked ?P ?n \<and> (\<exists>s. runC ?P ?n = (Inr (), s) \<and> issued s = [w] \<and> executed s = [])"
    using assms by (simp add: performs_def dispatch_run issued_def executed_def)
  then obtain s where "unblocked ?P ?n" "runC ?P ?n = (Inr (), s)" "issued s = [w]" "executed s = []" by blast
  moreover from this have "sys_reach (gpu_step h) ([?P], ?n) ([returnC ()], s)"
    using thread_goes [of "[?P]" 0 ?P returnC ?n "()" s] by simp
  ultimately show ?thesis by blast
qed

lemma dispatch_not_awaited_witness:
  "\<exists>s :: nat pipe. sys_reach (gpu_step plain_host) ([performs plain_host [DispatchOp True 1]], new_pipe 3) ([returnC ()], s)
    \<and> issued s = [1] \<and> executed s = []"
  by (rule dispatch_not_awaited) simp_all

end
