(* ===== verification/LazyBenchmark.thy ===== *)
theory LazyBenchmark
  imports PipelineProps
begin

text \<open>
  The timing of the per-operation benchmark (\<^verbatim>\<open>benchmark_model_ops.py\<close>), which switches the lazy mode on: its loops as
  code of a thread on the command pipeline, with \<open>_C.synchronize\<close> as the device's. \<open>time.perf_counter\<close> reads the
  clock of the machine, in seconds; the median of NumPy is a parameter.
\<close>

definition perf_counter :: "metal_host \<Rightarrow> ('w pipe, real) code" where
  "perf_counter h = bindC (mach_absolute_time h) (\<lambda>t.
     returnC (real t * real (H_numer h) / real (H_denom h) / 10 ^ 9))"

primrec timed_iterations :: "metal_host \<Rightarrow> ('w pipe, unit) code \<Rightarrow> nat \<Rightarrow> ('w pipe, real list) code" where
  "timed_iterations h fn 0 = returnC []"
| "timed_iterations h fn (Suc n) = bindC (device_synchronize h) (\<lambda>_. bindC (perf_counter h) (\<lambda>t0.
     bindC fn (\<lambda>_. bindC (device_synchronize h) (\<lambda>_. bindC (perf_counter h) (\<lambda>t1.
     bindC (timed_iterations h fn n) (\<lambda>times. returnC ((t1 - t0) * 1000 # times)))))))"

definition bench_mn :: "metal_host \<Rightarrow> (real list \<Rightarrow> real) \<Rightarrow> ('w pipe, unit) code \<Rightarrow> nat \<Rightarrow> nat \<Rightarrow> ('w pipe, real) code" where
  "bench_mn h np_median fn warmup iters = bindC (set_lazy_commit True) (\<lambda>_.
     bindC (timesC warmup (blockC [fn, device_synchronize h])) (\<lambda>_.
     bindC (timed_iterations h fn iters) (\<lambda>times.
     bindC (set_lazy_commit False) (\<lambda>_. returnC (np_median times)))))"

section \<open>What it measures\<close>

lemma does_barrier_dispatched:
  assumes "healthy h" and "dispatched n True ws t"
  shows "does h (0, Nothing) (device_synchronize h) t (0, Nothing) (\<lambda>_. dispatched n True ws)"
  by (rule does_forget_post [OF does_weaken [OF does_device_sync [OF assms(1), of n]]])
    (use assms(2) in \<open>auto simp: dispatched_def outside_def same_modes_def\<close>)

lemma does_clock_dispatched:
  "dispatched n True ws t \<Longrightarrow> does h (0, Nothing) (perf_counter h) t (0, Nothing) (\<lambda>_. dispatched n True ws)"
  unfolding perf_counter_def
  by (rule step_time, rule does_return)
    (auto simp: dispatched_def outside_def state_defs)

text \<open>Code that dispatches this work and comes back, as long as the counter stays below the threshold.\<close>

definition dispatches :: "metal_host \<Rightarrow> nat \<Rightarrow> 'w list \<Rightarrow> ('w pipe, unit) code \<Rightarrow> bool" where
  "dispatches h n ws fn \<longleftrightarrow> (\<forall>vs t. dispatched n True vs t \<longrightarrow> length (vs @ ws) < 64 \<longrightarrow>
     does h (0, Nothing) fn t (0, Nothing) (\<lambda>_. dispatched n True (vs @ ws)))"

lemma dispatchesD:
  "dispatches h n ws fn \<Longrightarrow> dispatched n True vs t \<Longrightarrow> length (vs @ ws) < 64 \<Longrightarrow>
    does h (0, Nothing) fn t (0, Nothing) (\<lambda>_. dispatched n True (vs @ ws))"
  by (simp add: dispatches_def)

lemma dispatches_performs: "healthy h \<Longrightarrow> dispatches h n ws (performs h (map (DispatchOp True) ws))"
  unfolding dispatches_def by (blast intro: does_dispatches)

lemma does_warmup:
  assumes "healthy h" and "dispatches h n ws fn"
  shows "dispatched n True vs t \<Longrightarrow> length vs + k * length ws < 64 \<Longrightarrow>
    does h (0, Nothing) (timesC k (blockC [fn, device_synchronize h])) t (0, Nothing)
      (\<lambda>_. dispatched n True (vs @ concat (replicate k ws)))"
proof (induction k arbitrary: vs t)
  case 0
  then show ?case by (auto intro: does_return)
next
  case (Suc k)
  have "does h (0, Nothing) (blockC [fn, device_synchronize h]) t (0, Nothing) (\<lambda>_. dispatched n True (vs @ ws))"
    unfolding blockC_simps bindC_unit
    by (rule does_bind [OF dispatchesD [OF assms(2)]])
      (use Suc.prems in \<open>auto intro: does_barrier_dispatched [OF assms(1)]\<close>)
  then show ?case unfolding timesC_simps
    by (rule does_bind) (use Suc in \<open>force simp: algebra_simps\<close>)
qed

lemma does_timed:
  assumes "healthy h" and "dispatches h n ws fn"
  shows "dispatched n True vs t \<Longrightarrow> length vs + k * length ws < 64 \<Longrightarrow>
    does h (0, Nothing) (timed_iterations h fn k) t (0, Nothing)
      (\<lambda>times t'. length times = k \<and> dispatched n True (vs @ concat (replicate k ws)) t')"
proof (induction k arbitrary: vs t)
  case 0
  then show ?case by (auto intro: does_return)
next
  case (Suc k)
  have rest: "does h (0, Nothing) (bindC (timed_iterations h fn k) (\<lambda>times. returnC ((t1 - t0) * 1000 # times))) t' (0, Nothing)
      (\<lambda>times t''. length times = Suc k \<and> dispatched n True (vs @ concat (replicate (Suc k) ws)) t'')"
    if "dispatched n True (vs @ ws) t'" for t0 t1 :: real and t'
    by (rule does_bind [OF Suc.IH [OF that]]) (use Suc.prems in \<open>auto intro: does_return\<close>)
  show ?case unfolding timed_iterations.simps
    by (rule does_bind [OF does_barrier_dispatched [OF assms(1) Suc.prems(1)]],
        rule does_bind [OF does_clock_dispatched], assumption,
        rule does_bind [OF dispatchesD [OF assms(2)]], assumption, use Suc.prems in simp,
        rule does_bind [OF does_barrier_dispatched [OF assms(1)]], assumption,
        rule does_bind [OF does_clock_dispatched], assumption, erule rest)
qed

text \<open>
  The whole benchmark, on a pipeline on which work \<open>vs\<close> has been dispatched in lazy mode before; the mode is off
  between benchmarks, but the counter keeps its value.
\<close>

definition between :: "nat \<Rightarrow> 'w list \<Rightarrow> 'w pipe \<Rightarrow> bool" where
  "between n vs t \<longleftrightarrow> dispatched n True vs (t\<lparr>lazy_commit := True\<rparr>)"

lemma between_new: "0 < n \<Longrightarrow> between n [] (new_pipe n)"
  unfolding between_def by (rule dispatched_new)

lemma does_bench:
  assumes "healthy h" and "dispatches h n ws fn" and "between n vs t" and "length vs + (warmup + iters) * length ws < 64"
  shows "does h (0, Nothing) (bench_mn h np_median fn warmup iters) t (0, Nothing)
    (\<lambda>x t'. (\<exists>times. length times = iters \<and> x = np_median times)
      \<and> between n (vs @ concat (replicate (warmup + iters) ws)) t')"
proof -
  let ?Q = "\<lambda>x t'. (\<exists>times. length times = iters \<and> x = np_median times)
      \<and> between n (vs @ concat (replicate (warmup + iters) ws)) t'"
  have start: "dispatched n True vs (t\<lparr>lazy_commit := True\<rparr>)" using assms(3) by (simp add: between_def)
  have last: "does h (0, Nothing) (bindC (set_lazy_commit False) (\<lambda>_. returnC (np_median times))) t1 (0, Nothing) ?Q"
    if l: "length times = iters \<and> dispatched n True ((vs @ concat (replicate warmup ws)) @ concat (replicate iters ws)) t1"
    for times t1
  proof -
    have "lazy_commit t1" using l by (auto simp: dispatched_def outside_def)
    then have "t1\<lparr>lazy_commit := False, lazy_commit := True\<rparr> = t1" by simp
    with l have "between n (vs @ concat (replicate (warmup + iters) ws)) (t1\<lparr>lazy_commit := False\<rparr>)"
      by (simp add: between_def replicate_add)
    with l show ?thesis unfolding set_lazy_commit_def
      by (intro step_modify [OF quiet_set(13)] does_return) auto
  qed
  have "does h (0, Nothing) (timesC warmup (blockC [fn, device_synchronize h])) (t\<lparr>lazy_commit := True\<rparr>) (0, Nothing)
      (\<lambda>_. dispatched n True (vs @ concat (replicate warmup ws)))"
    using does_warmup [OF assms(1,2) start, of warmup] assms(4) by (simp add: algebra_simps)
  then have "does h (0, Nothing) (bindC (timesC warmup (blockC [fn, device_synchronize h])) (\<lambda>_.
      bindC (timed_iterations h fn iters) (\<lambda>times. bindC (set_lazy_commit False) (\<lambda>_. returnC (np_median times)))))
      (t\<lparr>lazy_commit := True\<rparr>) (0, Nothing) ?Q"
  proof (rule does_bind)
    fix t1 :: "'a pipe" assume d: "dispatched n True (vs @ concat (replicate warmup ws)) t1"
    show "does h (0, Nothing) (bindC (timed_iterations h fn iters) (\<lambda>times.
        bindC (set_lazy_commit False) (\<lambda>_. returnC (np_median times)))) t1 (0, Nothing) ?Q"
      by (rule does_bind [OF does_timed [OF assms(1,2) d] last])
        (use assms(4) in \<open>simp_all add: algebra_simps length_concat sum_list_replicate\<close>)
  qed
  then show ?thesis unfolding bench_mn_def set_lazy_commit_def [of True] by (rule step_modify [OF quiet_set(13)])
qed

lemma unsubmitted_unexecuted:
  assumes "agrees k s t" and "submitted t = []"
  shows "executed s = []"
proof -
  from assms(1) obtain f q m where s: "s = gpu_part f q m t" and m: "set (m_committed t) = set m \<union> fst ` set q"
    by (rule agreesE)
  with assms(2) show ?thesis by (auto simp: executed_def submitted_def gpu_part_def)
qed

text \<open>
  The benchmark of a function that dispatches this work, and the benchmarks of the script one after the other: the
  work of one call, the warm-up calls and the timed ones.
\<close>

definition op_bench :: "metal_host \<Rightarrow> (real list \<Rightarrow> real) \<Rightarrow> 'w list \<times> nat \<times> nat \<Rightarrow> ('w pipe, real) code" where
  "op_bench h np_median b = (case b of (ws, warmup, iters) \<Rightarrow>
     bench_mn h np_median (performs h (map (DispatchOp True) ws)) warmup iters)"

primrec op_benches :: "metal_host \<Rightarrow> (real list \<Rightarrow> real) \<Rightarrow> ('w list \<times> nat \<times> nat) list \<Rightarrow> ('w pipe, real list) code" where
  "op_benches h np_median [] = returnC []"
| "op_benches h np_median (b # bs) = bindC (op_bench h np_median b) (\<lambda>x.
     bindC (op_benches h np_median bs) (\<lambda>xs. returnC (x # xs)))"

definition bench_work :: "'w list \<times> nat \<times> nat \<Rightarrow> 'w list" where
  "bench_work b = (case b of (ws, warmup, iters) \<Rightarrow> concat (replicate (warmup + iters) ws))"

definition median_of_as_many :: "(real list \<Rightarrow> real) \<Rightarrow> 'w list \<times> nat \<times> nat \<Rightarrow> real \<Rightarrow> bool" where
  "median_of_as_many np_median b x \<longleftrightarrow> (\<exists>times. length times = snd (snd b) \<and> x = np_median times)"

lemma does_benches:
  assumes "healthy h"
  shows "between n vs t \<Longrightarrow> length (vs @ concat (map bench_work bs)) < 64 \<Longrightarrow>
    does h (0, Nothing) (op_benches h np_median bs) t (0, Nothing)
      (\<lambda>xs t'. list_all2 (median_of_as_many np_median) bs xs \<and> between n (vs @ concat (map bench_work bs)) t')"
proof (induction bs arbitrary: vs t)
  case Nil
  then show ?case by (auto intro: does_return)
next
  case (Cons b bs)
  obtain ws warmup iters where b: "b = (ws, warmup, iters)" by (cases b)
  have "length vs + (warmup + iters) * length ws < 64"
    using Cons.prems(2) by (simp add: b bench_work_def length_concat sum_list_replicate)
  from does_bench [OF assms dispatches_performs [OF assms] Cons.prems(1) this, of np_median]
  have first: "does h (0, Nothing) (op_bench h np_median b) t (0, Nothing)
      (\<lambda>x t'. median_of_as_many np_median b x \<and> between n (vs @ bench_work b) t')"
    by (simp add: b op_bench_def median_of_as_many_def bench_work_def)
  show ?case unfolding op_benches.simps
  proof (rule does_bind [OF first])
    fix x t1 assume x: "median_of_as_many np_median b x \<and> between n (vs @ bench_work b) t1"
    show "does h (0, Nothing) (bindC (op_benches h np_median bs) (\<lambda>xs. returnC (x # xs))) t1 (0, Nothing)
      (\<lambda>xs t'. list_all2 (median_of_as_many np_median) (b # bs) xs \<and> between n (vs @ concat (map bench_work (b # bs))) t')"
      by (rule does_bind [OF Cons.IH [of "vs @ bench_work b"]]) (use x Cons.prems in \<open>auto intro: does_return\<close>)
  qed
qed

text \<open>
  C7. The benchmarks of a script, run one after the other by its only thread on a new pipeline, on a device that grants
  every buffer: they return, and each time is the median of as many times as asked for. But as long as the
  benchmarks so far have dispatched fewer operations in all, warm-up calls included, than the threshold of the lazy
  mode, the GPU has executed none of them: \<open>_C.synchronize\<close> waits for a buffer of its own, and the times are those of
  recording the commands. The threshold is 64 and the counter runs on from one benchmark to the next, so this covers
  the first two benchmarks of one operation with the default 25 calls each.
\<close>

theorem lazy_benchmark_times_nothing:
  assumes "healthy h" and "0 < n" and "length (concat (map bench_work bs)) < 64"
  shows "(\<exists>ts s. sys_reach (gpu_step h) ([op_benches h np_median bs], new_pipe n) (ts, s) \<and> halted (gpu_step h) (ts, s))
    \<and> (\<forall>ts s. sys_reach (gpu_step h) ([op_benches h np_median bs], new_pipe n) (ts, s) \<and> halted (gpu_step h) (ts, s) \<longrightarrow>
      (\<exists>xs. ts = [returnC xs] \<and> list_all2 (median_of_as_many np_median) bs xs) \<and> executed s = []
      \<and> issued s = concat (map bench_work bs))"
proof (intro conjI allI impI; (elim conjE)?)
  show "\<exists>ts s. sys_reach (gpu_step h) ([op_benches h np_median bs], new_pipe n) (ts, s) \<and> halted (gpu_step h) (ts, s)"
    using gpu_ends.reaches_halt [of h "([op_benches h np_median bs], new_pipe n)"] by auto
  fix ts s assume r: "sys_reach (gpu_step h) ([op_benches h np_median bs], new_pipe n) (ts, s)" "halted (gpu_step h) (ts, s)"
  have small: "length ([] @ concat (map bench_work bs)) < 64" using assms(3) by simp
  from does_halted [OF does_benches [OF assms(1) between_new [OF assms(2)] small, of np_median] agrees_new r]
  obtain t xs where t: "ts = [returnC xs]" "list_all2 (median_of_as_many np_median) bs xs" "agrees (0, Nothing) s t"
    "between n (concat (map bench_work bs)) t" by auto
  then have sub: "submitted t = []" "issued t = concat (map bench_work bs)"
    by (auto simp: between_def dispatched_def outside_def issues_def submitted_def)
  from t show "\<exists>xs. ts = [returnC xs] \<and> list_all2 (median_of_as_many np_median) bs xs" by blast
  from t(3) sub(1) show "executed s = []" by (rule unsubmitted_unexecuted)
  from t(3) sub(2) show "issued s = concat (map bench_work bs)" by (auto elim!: agreesE)
qed

theorem lazy_benchmark_times_nothing_witness:
  "\<exists>s x y. sys_reach (gpu_step plain_host) ([op_benches plain_host (\<lambda>times. times ! 10) [([7 :: nat], 5, 20), ([8], 5, 20)]], new_pipe 3)
      ([returnC [x, y]], s)
    \<and> executed s = [] \<and> issued s = replicate 25 7 @ replicate 25 8"
proof -
  let ?bs = "[([7 :: nat], 5 :: nat, 20 :: nat), ([8], 5, 20)]" and ?m = "\<lambda>times :: real list. times ! 10"
  have cr: "concat (replicate k [x]) = replicate k x" for k and x :: nat by (induction k) simp_all
  then have w: "concat (map bench_work ?bs) = replicate 25 7 @ replicate 25 8" by (simp add: bench_work_def)
  have "healthy plain_host" by simp
  then have b: "(\<exists>ts s. sys_reach (gpu_step plain_host) ([op_benches plain_host ?m ?bs], new_pipe 3) (ts, s) \<and> halted (gpu_step plain_host) (ts, s))
    \<and> (\<forall>ts s. sys_reach (gpu_step plain_host) ([op_benches plain_host ?m ?bs], new_pipe 3) (ts, s) \<and> halted (gpu_step plain_host) (ts, s) \<longrightarrow>
      (\<exists>xs. ts = [returnC xs] \<and> list_all2 (median_of_as_many ?m) ?bs xs) \<and> executed s = []
      \<and> issued s = concat (map bench_work ?bs))"
    by (rule lazy_benchmark_times_nothing) (simp_all add: bench_work_def length_concat)
  then obtain ts s where r: "sys_reach (gpu_step plain_host) ([op_benches plain_host ?m ?bs], new_pipe 3) (ts, s)"
      "halted (gpu_step plain_host) (ts, s)"
    by blast
  with b obtain xs where xs: "ts = [returnC xs]" "list_all2 (median_of_as_many ?m) ?bs xs" and s: "executed s = []"
    "issued s = concat (map bench_work ?bs)"
    by blast
  from xs(2) obtain x y where "xs = [x, y]" by (auto simp: list_all2_Cons1)
  with r(1) xs(1) s w show ?thesis by auto
qed

end
