(* ===== verification/Matmul.thy ===== *)
theory Matmul
  imports Native
begin

text \<open>
  Matrix multiplication (\<^verbatim>\<open>src/ops/matmul.mm\<close>): the checks, the choice between the CPU and the GPU kernels, and the path
  on the CPU. \<open>cblas_sgemm\<close> of the Accelerate framework is a parameter: it reads its matrices through
  pointers with leading dimensions and gives the elements it writes. The GPU kernels are a parameter too.
\<close>

datatype matmul_kernel = VecMat | SIMD32 | Tiled64 | MPSGraph | CPU

type_synonym gemm = "bool \<Rightarrow> bool \<Rightarrow> int \<Rightarrow> int \<Rightarrow> int \<Rightarrow> (nat \<Rightarrow> real) \<Rightarrow> int \<Rightarrow> (nat \<Rightarrow> real) \<Rightarrow> int \<Rightarrow> real list"

type_synonym gpu_matmul = "matmul_kernel \<Rightarrow> mntensor \<Rightarrow> mntensor \<Rightarrow> bool \<Rightarrow> bool \<Rightarrow> mntensor res"

text \<open>The size of a dimension counted from the last, which is number 1.\<close>

definition back_dim :: "mntensor \<Rightarrow> nat \<Rightarrow> int" where
  "back_dim t i = mt_shape t ! (length (mt_shape t) - i)"

definition batch_dims :: "mntensor \<Rightarrow> int list" where
  "batch_dims t = take (length (mt_shape t) - 2) (mt_shape t)"

definition should_use_cpu_path :: "mntensor \<Rightarrow> mntensor \<Rightarrow> int \<Rightarrow> int \<Rightarrow> int \<Rightarrow> bool" where
  "should_use_cpu_path a b M N K =
     (if mt_dtype a \<noteq> Float32 then False
      else if \<not> mt_is_contiguous a \<or> \<not> mt_is_contiguous b then False
      else max M (max N K) \<le> 512)"

definition select_kernel :: "int \<Rightarrow> int \<Rightarrow> int \<Rightarrow> mndtype \<Rightarrow> bool \<Rightarrow> matmul_kernel" where
  "select_kernel M N K dt is_contiguous =
     (if \<not> is_contiguous then MPSGraph
      else if dt \<notin> {Float16, Float32, BFloat16} then MPSGraph
      else if M \<le> 8 \<and> N \<ge> 256 \<and> K \<ge> 256 then VecMat
      else if M \<le> 128 \<and> N \<le> 128 \<and> K \<le> 128 then SIMD32
      else if M \<le> 512 \<and> N \<le> 512 \<and> K \<le> 512 then Tiled64
      else MPSGraph)"

text \<open>A pointer into a buffer; a read past the end sees whatever memory holds there.\<close>

definition from_pointer :: "device \<Rightarrow> real list \<Rightarrow> int \<Rightarrow> nat \<Rightarrow> real" where
  "from_pointer dev xs p i = read_buffer dev xs (nat p + i)"

definition matmul_cpu :: "device \<Rightarrow> gemm \<Rightarrow> mntensor \<Rightarrow> mntensor \<Rightarrow> bool \<Rightarrow> bool \<Rightarrow> mntensor res" where
  "matmul_cpu dev sgemm a b transpose_a transpose_b =
     (if mt_dtype a \<noteq> Float32 then raise NativeError ''CPU matmul fast-path only supports Float32''
      else let M = (if transpose_a then back_dim a 1 else back_dim a 2);
               K = (if transpose_a then back_dim a 2 else back_dim a 1);
               N = (if transpose_b then back_dim b 2 else back_dim b 1);
               batch_size = mn_numel (batch_dims a);
               a_batch_stride = s64 (if transpose_a then K * back_dim a 1 else back_dim a 2 * back_dim a 1);
               b_batch_stride = s64 (back_dim b 2 * back_dim b 1)
           in bindR (mn_empty dev (batch_dims a @ [M, N]) Float32) (\<lambda>result.
             Inr (result\<lparr>mt_data := concat (map (\<lambda>batch. sgemm transpose_a transpose_b M N K
               (from_pointer dev (mt_data a) (s64 (int batch * a_batch_stride))) (back_dim a 1)
               (from_pointer dev (mt_data b) (s64 (int batch * b_batch_stride))) (back_dim b 1))
               [0..<nat batch_size])\<rparr>)))"

definition mn_matmul :: "device \<Rightarrow> gemm \<Rightarrow> gpu_matmul \<Rightarrow> mntensor \<Rightarrow> mntensor \<Rightarrow> bool \<Rightarrow> bool \<Rightarrow> mntensor res" where
  "mn_matmul dev sgemm gpu a b transpose_a transpose_b =
     (if length (mt_shape a) < 2 then raise NativeError ''matmul: input 'a' must have at least 2 dimensions''
      else if length (mt_shape b) < 2 then raise NativeError ''matmul: input 'b' must have at least 2 dimensions''
      else if mt_dtype a \<noteq> mt_dtype b then raise NativeError ''matmul: input dtypes must match''
      else let M = (if transpose_a then back_dim a 1 else back_dim a 2);
               K_a = (if transpose_a then back_dim a 2 else back_dim a 1);
               K_b = (if transpose_b then back_dim b 1 else back_dim b 2);
               N = (if transpose_b then back_dim b 2 else back_dim b 1)
           in if K_a \<noteq> K_b then raise NativeError ''matmul: incompatible dimensions for matrix multiplication''
              else if should_use_cpu_path a b M N K_a then matmul_cpu dev sgemm a b transpose_a transpose_b
              else case select_kernel M N K_a (mt_dtype a) (mt_is_contiguous a \<and> mt_is_contiguous b) of
                  VecMat \<Rightarrow> if mt_dtype a = Float16 \<or> mt_dtype a = Float32
                    then gpu VecMat a b transpose_a transpose_b else gpu SIMD32 a b transpose_a transpose_b
                | SIMD32 \<Rightarrow> gpu SIMD32 a b transpose_a transpose_b
                | Tiled64 \<Rightarrow> gpu Tiled64 a b transpose_a transpose_b
                | _ \<Rightarrow> gpu MPSGraph a b transpose_a transpose_b)"

section \<open>The contract of BLAS\<close>

text \<open>
  \<open>cblas_sgemm\<close> in row-major order with \<open>alpha = 1\<close>, \<open>beta = 0\<close> and \<open>ldc = n\<close>, for arguments that it accepts: the
  leading dimensions are at least the row lengths of the matrices as they are stored.
\<close>

definition gemm_args :: "bool \<Rightarrow> bool \<Rightarrow> int \<Rightarrow> int \<Rightarrow> int \<Rightarrow> int \<Rightarrow> int \<Rightarrow> bool" where
  "gemm_args ta tb m n k lda ldb \<longleftrightarrow> 0 \<le> m \<and> 1 \<le> n \<and> 0 \<le> k
     \<and> max 1 (if ta then m else k) \<le> lda \<and> max 1 (if tb then k else n) \<le> ldb"

locale blas_laws =
  fixes sgemm :: gemm
  assumes gemm_length: "gemm_args ta tb m n k lda ldb \<Longrightarrow> length (sgemm ta tb m n k A lda B ldb) = nat m * nat n"
    and gemm_value: "gemm_args ta tb m n k lda ldb \<Longrightarrow> i < nat m \<Longrightarrow> j < nat n \<Longrightarrow>
      sgemm ta tb m n k A lda B ldb ! (i * nat n + j) =
        (\<Sum>p<nat k. A (if ta then p * nat lda + i else i * nat lda + p) * B (if tb then j * nat ldb + p else p * nat ldb + j))"

lemma cell_index:
  assumes "i < m" and "j < (n :: nat)"
  shows "i * n + j < m * n" "(i * n + j) div n = i" "(i * n + j) mod n = j"
proof -
  have "i * n + j < Suc i * n" using assms(2) by simp
  also have "\<dots> \<le> m * n" using assms(1) by (intro mult_right_mono) simp_all
  finally show "i * n + j < m * n" .
qed (use assms(2) in simp_all)

lemma nth_concat_cells:
  assumes "\<And>x. x < n \<Longrightarrow> length (f x) = l" and "b < n" and "r < l"
  shows "concat (map f [0..<n]) ! (b * l + r) = f b ! r"
  using assms
proof (induction n arbitrary: b)
  case (Suc n)
  have len: "length (concat (map f [0..<n])) = n * l"
    using Suc.prems(1) by (simp add: length_concat comp_def interv_sum_list_conv_sum_set_nat)
  show ?case
  proof (cases "b < n")
    case True
    with Suc show ?thesis using cell_index(1) [of b n r l] by (simp add: nth_append len)
  next
    case False
    with Suc.prems have "b = n" by simp
    with Suc.prems show ?thesis by (simp add: nth_append len)
  qed
qed simp

end
