(* ===== verification/MatmulProps.thy ===== *)
theory MatmulProps
  imports Matmul LayerProps
begin

text \<open>
  What matrix multiplication computes on the CPU, for single-precision matrices of up to 512 rows and columns, with
  and without batch dimensions, and what that means for \<open>@\<close> and for \<open>Linear\<close>.
\<close>

section \<open>A reference BLAS\<close>

definition sgemm_ref :: gemm where
  "sgemm_ref ta tb m n k A lda B ldb = map (\<lambda>q. let i = q div nat n; j = q mod nat n in
     \<Sum>p<nat k. A (if ta then p * nat lda + i else i * nat lda + p) * B (if tb then j * nat ldb + p else p * nat ldb + j))
     [0..<nat m * nat n]"

interpretation reference_blas: blas_laws sgemm_ref
  by unfold_locales (simp_all add: sgemm_ref_def cell_index)

section \<open>Elements of the product\<close>

text \<open>A matrix of a batch as it is stored, and where its element in a row and a column is.\<close>

definition stored :: "bool \<Rightarrow> nat \<Rightarrow> nat \<Rightarrow> int list" where
  "stored tr rows cols = (if tr then [int cols, int rows] else [int rows, int cols])"

definition mat_at :: "bool \<Rightarrow> nat \<Rightarrow> nat \<Rightarrow> nat \<Rightarrow> nat \<Rightarrow> nat \<Rightarrow> nat" where
  "mat_at tr rows cols batch r c = batch * (rows * cols) + (if tr then c * rows + r else r * cols + c)"

lemma mat_at_less:
  assumes "batch < n" and "r < rows" and "c < cols"
  shows "mat_at tr rows cols batch r c < n * (rows * cols)"
proof -
  have "(if tr then c * rows + r else r * cols + c) < rows * cols"
    using cell_index(1) [OF assms(2,3)] cell_index(1) [OF assms(3,2)] by (simp add: mult.commute)
  from cell_index(1) [OF assms(1) this] show ?thesis by (simp add: mat_at_def)
qed

lemma back_dims:
  assumes "mt_shape t = bs @ stored tr rows cols"
  shows "back_dim t 1 = (if tr then int rows else int cols)" "back_dim t 2 = (if tr then int cols else int rows)"
    "batch_dims t = bs" "\<not> length (mt_shape t) < 2"
  using assms by (simp_all add: back_dim_def batch_dims_def stored_def nth_append)

text \<open>The sizes of a product that the CPU computes.\<close>

definition small :: "nat \<Rightarrow> bool" where
  "small d \<longleftrightarrow> 0 < d \<and> d \<le> 512"

lemma small_product: "small r \<Longrightarrow> small c \<Longrightarrow> s64 (int r * int c) = int (r * c) \<and> r * c \<le> 2 ^ 18"
proof -
  assume "small r" "small c"
  then have "r * c \<le> 512 * 512" unfolding small_def by (intro mult_mono) auto
  then show ?thesis by (simp add: s64_id flip: of_nat_mult)
qed

lemma batch_offset:
  assumes "int batch < 2 ^ 32" and "r * c \<le> 2 ^ 18"
  shows "nat (s64 (int batch * (int r * int c))) = batch * (r * c)"
proof -
  have "int (r * c) \<le> int (2 ^ 18)" using assms(2) by (subst of_nat_le_iff)
  then have "int batch * int (r * c) \<le> 2 ^ 32 * 2 ^ 18" using assms(1) by (intro mult_mono) auto
  then have "int batch * (int r * int c) < 2 ^ 63" by simp
  then show ?thesis by (subst s64_id) (simp_all flip: of_nat_mult)
qed

text \<open>
  The product as \<open>matmul\<close> computes it: the left operand gives the batches, and each takes the matrix of the
  right operand at the same place of memory, whether or not that operand has so many.
\<close>

context blas_laws
begin

lemma cpu_batch:
  assumes "small m" and "small k" and "small n" and "int batch < 2 ^ 32" and "i < m" and "j < n"
  shows "sgemm ta tb (int m) (int n) (int k)
      (from_pointer dev xs (s64 (int batch * (int m * int k)))) (if ta then int m else int k)
      (from_pointer dev ys (s64 (int batch * (int k * int n)))) (if tb then int k else int n) ! (i * n + j)
    = (\<Sum>p<k. read_buffer dev xs (mat_at ta m k batch i p) * read_buffer dev ys (mat_at tb k n batch p j))"
proof -
  have args: "gemm_args ta tb (int m) (int n) (int k) (if ta then int m else int k) (if tb then int k else int n)"
    using assms(1-3) by (auto simp: gemm_args_def small_def)
  have "m * k \<le> 2 ^ 18" "k * n \<le> 2 ^ 18" using assms(1-3) small_product by blast+
  note off = this [THEN batch_offset [OF assms(4)]]
  show ?thesis unfolding from_pointer_def off mat_at_def
    using gemm_value [OF args, of i j] assms(5,6) by (auto intro!: sum.cong simp: ac_simps)
qed

lemma matmul_on_cpu:
  assumes a: "computable dev a" "mt_dtype a = Float32" "mt_shape a = bs @ stored ta m k"
    and b: "mt_wf b" "mt_dtype b = Float32" "mt_shape b = cs @ stored tb k n"
    and small: "small m" "small k" "small n"
    and out: "fits (bs @ [int m, int n])" "prod_list (bs @ [int m, int n]) \<le> u32_max"
  shows "\<exists>y. mn_matmul dev sgemm gpu a b ta tb = Inr y \<and> mt_shape y = bs @ [int m, int n] \<and> mt_dtype y = Float32
    \<and> computable dev y \<and> (\<forall>batch < nat (prod_list bs). \<forall>i < m. \<forall>j < n. mt_data y ! ((batch * m + i) * n + j) =
      (\<Sum>p<k. read_buffer dev (mt_data a) (mat_at ta m k batch i p) * read_buffer dev (mt_data b) (mat_at tb k n batch p j)))"
proof -
  let ?ys = "concat (map (\<lambda>batch. sgemm ta tb (int m) (int n) (int k)
      (from_pointer dev (mt_data a) (s64 (int batch * (int m * int k)))) (if ta then int m else int k)
      (from_pointer dev (mt_data b) (s64 (int batch * (int k * int n)))) (if tb then int k else int n)) [0..<nat (prod_list bs)])"
  let ?y = "\<lparr>mt_shape = bs @ [int m, int n], mt_strides = contiguous_strides (bs @ [int m, int n]), mt_dtype = Float32, mt_data = ?ys\<rparr>"
  note da = back_dims [OF a(3)] and db = back_dims [OF b(3)]
  have wf: "mt_wf a" and mem: "\<forall>n. alloc_ok dev n" using a(1) by (simp_all add: computable_def)
  have cpu: "should_use_cpu_path a b (int m) (int n) (int k)"
    using small mt_wf_contiguous [OF wf] mt_wf_contiguous [OF b(1)] a(2) by (simp add: should_use_cpu_path_def small_def)
  have fits: "fits bs" using out(1) by (rule fits_append(1))
  have nonneg: "0 \<le> prod_list bs" using fits_bounds [OF fits] by simp
  have bound: "prod_list bs \<le> u32_max"
  proof -
    have "1 \<le> int m * int n" using small unfolding small_def by (simp flip: of_nat_mult)
    then have "prod_list bs * 1 \<le> prod_list bs * (int m * int n)" using nonneg by (intro mult_left_mono) auto
    with out(2) show ?thesis by simp
  qed
  have len: "length (sgemm ta tb (int m) (int n) (int k) A (if ta then int m else int k) B (if tb then int k else int n)) = m * n" for A B
    by (subst gemm_length) (use small in \<open>auto simp: gemm_args_def small_def\<close>)
  have stride: "s64 (int m * int k) = int m * int k" "s64 (int k * int n) = int k * int n"
    using small small_product by fastforce+
  have "matmul_cpu dev sgemm a b ta tb = Inr ?y"
    unfolding matmul_cpu_def Let_def da db
    by (simp add: a(2) mn_empty_total [OF out mem] fits_numel [OF fits])
      (auto simp: stride mult.commute)
  then have "mn_matmul dev sgemm gpu a b ta tb = Inr ?y"
    unfolding mn_matmul_def Let_def da db using a(2) b(2) da(4) db(4) cpu by auto
  moreover have "computable dev ?y"
    using out mem by (auto simp: computable_def mt_wf_def length_concat len comp_def interv_sum_list_conv_sum_set_nat nat_mult_distrib nonneg)
  moreover have "mt_data ?y ! ((batch * m + i) * n + j) =
      (\<Sum>p<k. read_buffer dev (mt_data a) (mat_at ta m k batch i p) * read_buffer dev (mt_data b) (mat_at tb k n batch p j))"
    if "batch < nat (prod_list bs)" "i < m" "j < n" for batch i j
  proof -
    have e: "(batch * m + i) * n + j = batch * (m * n) + (i * n + j)" by (simp add: algebra_simps)
    have c: "?ys ! (batch * (m * n) + (i * n + j)) = sgemm ta tb (int m) (int n) (int k)
      (from_pointer dev (mt_data a) (s64 (int batch * (int m * int k)))) (if ta then int m else int k)
      (from_pointer dev (mt_data b) (s64 (int batch * (int k * int n)))) (if tb then int k else int n) ! (i * n + j)"
      by (rule nth_concat_cells [OF len that(1) cell_index(1) [OF that(2,3)]])
    have "int batch < 2 ^ 32" using that(1) bound by (simp add: u32_max_def)
    from cpu_batch [OF small this that(2,3)] show ?thesis unfolding mntensor.select_convs e c .
  qed
  ultimately show ?thesis by auto
qed

end

text \<open>Whether an operand has the matrix of a batch.\<close>

lemma read_matrix:
  assumes "mt_wf t" and "mt_shape t = bs @ stored tr rows cols" and "r < rows" and "c < cols"
  shows "read_buffer dev (mt_data t) (mat_at tr rows cols batch r c) =
    (if batch < nat (prod_list bs) then mt_data t ! mat_at tr rows cols batch r c
     else past_end dev (mt_data t) (mat_at tr rows cols batch r c))"
proof -
  have "0 \<le> prod_list bs"
    using assms(1,2) fits_append(1) fits_bounds unfolding mt_wf_def by metis
  then have len: "length (mt_data t) = nat (prod_list bs) * (rows * cols)"
    using assms(1,2) by (auto simp: mt_wf_def stored_def nat_mult_distrib)
  have "mat_at tr rows cols batch r c \<ge> nat (prod_list bs) * (rows * cols)" if "\<not> batch < nat (prod_list bs)"
    using that unfolding mat_at_def by (intro trans_le_add1 mult_right_mono) auto
  with mat_at_less [OF _ assms(3,4)] show ?thesis by (auto simp: read_buffer_def len not_less)
qed

text \<open>
  C17. The product of two single-precision tensors with the same batch dimensions (or none), whose matrices have at most 512 rows and
  columns, is a tensor of the documented shape that holds, for every batch, row and column, the sum of the
  products of the row with the column, for each of the four transpositions.
\<close>

theorem matmul_correct:
  assumes "blas_laws sgemm"
    and "computable dev a" and "mt_dtype a = Float32" and "mt_shape a = bs @ stored ta m k"
    and "mt_wf b" and "mt_dtype b = Float32" and "mt_shape b = bs @ stored tb k n"
    and "small m" and "small k" and "small n" and "fits (bs @ [int m, int n])" and "prod_list (bs @ [int m, int n]) \<le> u32_max"
  shows "\<exists>y. mn_matmul dev sgemm gpu a b ta tb = Inr y \<and> mt_shape y = bs @ [int m, int n] \<and> mt_dtype y = Float32 \<and> mt_wf y
    \<and> (\<forall>batch < nat (prod_list bs). \<forall>i < m. \<forall>j < n. mt_data y ! ((batch * m + i) * n + j) =
      (\<Sum>p<k. mt_data a ! mat_at ta m k batch i p * mt_data b ! mat_at tb k n batch p j))"
proof -
  have wf: "mt_wf a" using assms(2) by (simp add: computable_def)
  from blas_laws.matmul_on_cpu [OF assms, of gpu] obtain y where y: "mn_matmul dev sgemm gpu a b ta tb = Inr y"
    "mt_shape y = bs @ [int m, int n]" "mt_dtype y = Float32" "computable dev y"
    and v: "\<And>batch i j. batch < nat (prod_list bs) \<Longrightarrow> i < m \<Longrightarrow> j < n \<Longrightarrow> mt_data y ! ((batch * m + i) * n + j) =
      (\<Sum>p<k. read_buffer dev (mt_data a) (mat_at ta m k batch i p) * read_buffer dev (mt_data b) (mat_at tb k n batch p j))"
    by blast
  show ?thesis
    using y v read_matrix [OF wf assms(4)] read_matrix [OF assms(5,7)] by (auto simp: computable_def)
qed

definition sample_matrix :: "int list \<Rightarrow> real list \<Rightarrow> mntensor" where
  "sample_matrix s xs = \<lparr>mt_shape = s, mt_strides = contiguous_strides s, mt_dtype = Float32, mt_data = xs\<rparr>"

lemma sample_matrix_ok:
  "fits s \<Longrightarrow> prod_list s \<le> u32_max \<Longrightarrow> int (length xs) = prod_list s \<Longrightarrow> computable plain_device (sample_matrix s xs)"
  by (auto simp: computable_def sample_matrix_def mt_wf_def)

lemma sample_matrix_simps [simp]:
  "mt_shape (sample_matrix s xs) = s" "mt_dtype (sample_matrix s xs) = Float32" "mt_data (sample_matrix s xs) = xs"
  by (simp_all add: sample_matrix_def)

theorem matmul_correct_witness:
  "\<exists>y. mn_matmul plain_device sgemm_ref (\<lambda>_ a _ _ _. Inr a) (sample_matrix [2, 3] [1, 2, 3, 4, 5, 6]) (sample_matrix [2, 3] [1, 0, 1, 0, 1, 0])
      False True = Inr y \<and> mt_data y ! 0 = 4 \<and> mt_data y ! 1 = 2 \<and> mt_data y ! 2 = 10 \<and> mt_data y ! 3 = 5"
proof -
  let ?a = "sample_matrix [2, 3] [1, 2, 3, 4, 5, 6]" and ?b = "sample_matrix [2, 3] [1, 0, 1, 0, 1, 0]"
  have ok: "computable plain_device ?a" "computable plain_device ?b"
    by (rule sample_matrix_ok; simp add: fits_def u32_max_def)+
  from matmul_correct [OF reference_blas.blas_laws_axioms ok(1), of "[]" False 2 3 ?b True 2 "\<lambda>_ a _ _ _. Inr a"] ok(2)
  obtain y where y: "mn_matmul plain_device sgemm_ref (\<lambda>_ a _ _ _. Inr a) ?a ?b False True = Inr y"
    and v: "\<And>i j. i < 2 \<Longrightarrow> j < 2 \<Longrightarrow> mt_data y ! (i * 2 + j) =
      (\<Sum>p<3. mt_data ?a ! mat_at False 2 3 0 i p * mt_data ?b ! mat_at True 3 2 0 p j)"
    by (auto simp: stored_def small_def fits_def u32_max_def computable_def)
  from v [of 0 0] v [of 0 1] v [of 1 0] v [of 1 1] y show ?thesis
    by (simp add: mat_at_def numeral_3_eq_3 numeral_2_eq_2)
qed

section \<open>Linear on the core\<close>

text \<open>The kernels of the extension with the matrix multiplication of the core.\<close>

definition core_kernels :: "device \<Rightarrow> gemm \<Rightarrow> gpu_matmul \<Rightarrow> kernels \<Rightarrow> kernels" where
  "core_kernels dev sgemm gpu k = k\<lparr>k_matmul := mn_matmul dev sgemm gpu\<rparr>"

lemma broadcast_suffix: "broadcast_with (bs @ [s, d]) [d] = Inr (bs @ [s, d])"
proof -
  have "broadcast_rev es [] = Some es" for es by (induction es) simp_all
  then show ?thesis by (simp add: broadcast_with_def)
qed

text \<open>The bias, added by the element-wise kernel to a product that ends with its dimension.\<close>

lemma add_bias:
  assumes "computable dev y" and "mt_shape y = bs @ [int s, int d]"
    and "mt_wf b" and "mt_shape b = [int d]" and "mt_dtype b = mt_dtype y"
  defines "ys \<equiv> binary_kernel dev (+) (length (mt_data y)) (mt_data y) (mt_data b)"
  shows "dispatch_binary_op dev (+) y b = Inr (y\<lparr>mt_data := ys\<rparr>)"
    and "q < length (mt_data y) \<Longrightarrow> ys ! q = mt_data y ! q + (if q < d then mt_data b ! q else past_end dev (mt_data b) q)"
proof -
  have "length (mt_data b) = d" using assms(3,4) by (simp add: mt_wf_def)
  then show "q < length (mt_data y) \<Longrightarrow> ys ! q = mt_data y ! q + (if q < d then mt_data b ! q else past_end dev (mt_data b) q)"
    by (simp add: ys_def binary_kernel_def read_buffer_def)
  show "dispatch_binary_op dev (+) y b = Inr (y\<lparr>mt_data := ys\<rparr>)" unfolding ys_def
    by (rule dispatch_binary_shape [OF assms(1,5) mt_wf_contiguous [OF assms(3)]]) (simp add: assms(2,4) broadcast_suffix)
qed

text \<open>
  C18. \<open>Linear\<close> on the core, on the CPU path: for a well-formed single-precision input of two or more dimensions
  (one of a single dimension raises an exception), with between 1 and 512 rows per batch, input features and output
  features, sizes of the result within the kernels', and the memory granted. (Larger matrices go to the GPU kernels,
  which are a parameter of the model.) The rows of the first batch are multiplied with the rows of the weight. For every later batch the CPU path advances the pointer to the
  weight as well, which has no batches, so these rows are multiplied with what lies past the end of the weight. The
  bias reaches the first row only, for the same reason: every other row gets what lies past the end of the bias.
\<close>

theorem linear_on_core:
  assumes "blas_laws sgemm"
    and "computable dev (handle x)" and "mt_dtype (handle x) = Float32" and "mt_shape (handle x) = bs @ [int s, int i]"
    and "mt_wf (handle (l_weight l))" and "mt_dtype (handle (l_weight l)) = Float32" and "mt_shape (handle (l_weight l)) = [int d, int i]"
    and "small s" and "small i" and "small d" and "fits (bs @ [int s, int d])" and "prod_list (bs @ [int s, int d]) \<le> u32_max"
    and "\<And>b. l_bias l = Some b \<Longrightarrow> mt_wf (handle b) \<and> mt_shape (handle b) = [int d] \<and> mt_dtype (handle b) = Float32"
  shows "\<exists>u. Linear_call (CMod (cpp_api dev (core_kernels dev sgemm gpu k))) l x = Inr u \<and> mt_shape (handle u) = bs @ [int s, int d]
    \<and> (\<forall>batch < nat (prod_list bs). \<forall>r < s. \<forall>c < d. mt_data (handle u) ! ((batch * s + r) * d + c) =
      (\<Sum>q<i. mt_data (handle x) ! ((batch * s + r) * i + q) * (if batch = 0 then mt_data (handle (l_weight l)) ! (c * i + q)
        else past_end dev (mt_data (handle (l_weight l))) (batch * (i * d) + (c * i + q))))
      + (case l_bias l of None \<Rightarrow> 0 | Some b \<Rightarrow> if batch = 0 \<and> r = 0 then mt_data (handle b) ! c
        else past_end dev (mt_data (handle b)) ((batch * s + r) * d + c)))"
proof -
  let ?x = "handle x" and ?w = "handle (l_weight l)" and ?p = "\<lambda>batch r c. (batch * s + r) * d + c"
  have wf: "mt_wf ?x" using assms(2) by (simp add: computable_def)
  have sx: "mt_shape ?x = bs @ stored False s i" and sw: "mt_shape ?w = [] @ stored True i d"
    using assms(4,7) by (simp_all add: stored_def)
  obtain y where y: "mn_matmul dev sgemm gpu ?x ?w False True = Inr y" "mt_shape y = bs @ [int s, int d]" "mt_dtype y = Float32"
    "computable dev y" and v: "\<And>batch r c. batch < nat (prod_list bs) \<Longrightarrow> r < s \<Longrightarrow> c < d \<Longrightarrow> mt_data y ! ?p batch r c =
      (\<Sum>q<i. read_buffer dev (mt_data ?x) (mat_at False s i batch r q) * read_buffer dev (mt_data ?w) (mat_at True i d batch q c))"
    using blas_laws.matmul_on_cpu [OF assms(1-3) sx assms(5,6) sw assms(8-12), of gpu] by blast
  define e where "e batch r c = (\<Sum>q<i. mt_data ?x ! ((batch * s + r) * i + q) * (if batch = 0 then mt_data ?w ! (c * i + q)
        else past_end dev (mt_data ?w) (batch * (i * d) + (c * i + q))))" for batch r c
  have ye: "mt_data y ! ?p batch r c = e batch r c" if "batch < nat (prod_list bs)" "r < s" "c < d" for batch r c
  proof -
    have rx: "read_buffer dev (mt_data ?x) (mat_at False s i batch r q) = mt_data ?x ! ((batch * s + r) * i + q)" if "q < i" for q
    proof -
      have "mat_at False s i batch r q = (batch * s + r) * i + q" by (simp add: mat_at_def algebra_simps)
      with read_matrix [OF wf sx \<open>r < s\<close> that, of dev batch] \<open>batch < _\<close> show ?thesis by simp
    qed
    have rw: "read_buffer dev (mt_data ?w) (mat_at True i d batch q c) = (if batch = 0 then mt_data ?w ! (c * i + q)
        else past_end dev (mt_data ?w) (batch * (i * d) + (c * i + q)))" if "q < i" for q
      using read_matrix [OF assms(5) sw that \<open>c < d\<close>, of dev batch] by (simp add: mat_at_def)
    show ?thesis unfolding v [OF that] e_def by (rule sum.cong) (simp_all add: rx rw)
  qed
  have len: "?p batch r c < length (mt_data y)" if "batch < nat (prod_list bs)" "r < s" "c < d" for batch r c
  proof -
    have "length (mt_data y) = nat (prod_list bs) * s * d"
      using y(2,4) that(1) by (simp add: computable_def mt_wf_def nat_mult_distrib)
    with cell_index(1) [OF cell_index(1) [OF that(1,2)] that(3)] show ?thesis by simp
  qed
  have first: "?p batch r c < d \<longleftrightarrow> batch = 0 \<and> r = 0" if "c < d" for batch r c
  proof -
    have "batch * s + r = 0 \<longleftrightarrow> batch = 0 \<and> r = 0" using assms(8) by (auto simp: small_def)
    with that show ?thesis by (cases "batch * s + r") auto
  qed
  show ?thesis
  proof (cases "l_bias l")
    case None
    with y ye show ?thesis by (simp add: Linear_call_def core_kernels_def e_def) (simp add: cpp_api_def)
  next
    case (Some b)
    note bb = assms(13) [OF Some]
    let ?ys = "binary_kernel dev (+) (length (mt_data y)) (mt_data y) (mt_data (handle b))"
    have bias: "computable dev y" "mt_shape y = bs @ [int s, int d]" "mt_wf (handle b)" "mt_shape (handle b) = [int d]"
      "mt_dtype (handle b) = mt_dtype y" using y bb by simp_all
    have add: "?ys ! ?p batch r c = e batch r c
        + (if batch = 0 \<and> r = 0 then mt_data (handle b) ! c else past_end dev (mt_data (handle b)) (?p batch r c))"
      if "batch < nat (prod_list bs)" "r < s" "c < d" for batch r c
      using add_bias(2) [OF bias len [OF that]] ye [OF that] first [OF that(3), of batch r] by auto
    have "C_tensor_add (cpp_api dev (core_kernels dev sgemm gpu k)) y (handle b) = Inr (y\<lparr>mt_data := ?ys\<rparr>)"
      using add_bias(1) [OF bias] by (simp add: cpp_api_def)
    then have "Linear_call (CMod (cpp_api dev (core_kernels dev sgemm gpu k))) l x = Inr (from_handle (y\<lparr>mt_data := ?ys\<rparr>) False)"
      using y(1) by (simp add: Linear_call_def Some Tensor_add_def wrap_def) (simp add: cpp_api_def core_kernels_def)
    with add y(2) show ?thesis by (simp add: Some e_def)
  qed
qed

definition batched_linear :: "mntensor linear" where
  "batched_linear = \<lparr>l_in = 2, l_out = 1, l_weight = from_handle (sample_matrix [1, 2] [1, 1]) False,
     l_bias = Some (from_handle (sample_matrix [1] [10]) False)\<rparr>"

theorem linear_on_core_witness:
  "\<exists>u. Linear_call (CMod (cpp_api plain_device (core_kernels plain_device sgemm_ref (\<lambda>_ a _ _ _. Inr a) plain_kernels)))
      batched_linear (from_handle (sample_matrix [2, 1, 2] [1, 2, 3, 4]) False) = Inr u
    \<and> mt_shape (handle u) = [2, 1, 1] \<and> mt_data (handle u) ! 0 = 13 \<and> mt_data (handle u) ! 1 = 0"
proof -
  let ?x = "from_handle (sample_matrix [2, 1, 2] [1, 2, 3, 4]) False :: mntensor tensor" and ?l = batched_linear
  have x: "computable plain_device (handle ?x)" "mt_dtype (handle ?x) = Float32" "mt_shape (handle ?x) = [2] @ [int 1, int 2]"
    using sample_matrix_ok [of "[2, 1, 2]" "[1, 2, 3, 4]"] by (simp_all add: fits_def u32_max_def)
  have w: "mt_wf (handle (l_weight ?l))" "mt_dtype (handle (l_weight ?l)) = Float32" "mt_shape (handle (l_weight ?l)) = [int 1, int 2]"
    using sample_matrix_ok [of "[1, 2]" "[1, 1]"] by (simp_all add: batched_linear_def fits_def u32_max_def computable_def)
  have b: "l_bias ?l = Some b \<Longrightarrow> mt_wf (handle b) \<and> mt_shape (handle b) = [int 1] \<and> mt_dtype (handle b) = Float32" for b
    using sample_matrix_ok [of "[1]" "[10]"] by (auto simp: batched_linear_def fits_def u32_max_def computable_def)
  have "\<exists>u. Linear_call (CMod (cpp_api plain_device (core_kernels plain_device sgemm_ref (\<lambda>_ a _ _ _. Inr a) plain_kernels))) ?l ?x = Inr u
      \<and> mt_shape (handle u) = [2] @ [int 1, int 1]
    \<and> (\<forall>batch < nat (prod_list [2]). \<forall>r < 1. \<forall>c < 1. mt_data (handle u) ! ((batch * 1 + r) * 1 + c) =
      (\<Sum>q<2. mt_data (handle ?x) ! ((batch * 1 + r) * 2 + q) * (if batch = 0 then mt_data (handle (l_weight ?l)) ! (c * 2 + q)
        else past_end plain_device (mt_data (handle (l_weight ?l))) (batch * (2 * 1) + (c * 2 + q))))
      + (case l_bias ?l of None \<Rightarrow> 0 | Some b \<Rightarrow> if batch = 0 \<and> r = 0 then mt_data (handle b) ! c
        else past_end plain_device (mt_data (handle b)) ((batch * 1 + r) * 1 + c)))"
    by (rule linear_on_core [OF reference_blas.blas_laws_axioms x w _ _ _ _ _ b])
      (simp_all add: small_def fits_def u32_max_def)
  then show ?thesis
    by (auto simp: batched_linear_def numeral_2_eq_2 less_Suc_eq all_conj_distrib)
qed

end
