(* ===== verification/Spec2Isabelle.thy ===== *)
theory Spec2Isabelle
  imports BridgeProps AdamProps Sgd Config Regression BenchProps ProfilingProps PackageProps InteropProps LayerProps RuntimeProps
    HeapRefinement RunnerProps MnistProps ResnetProps ModernProps HuggingfaceProps ProfilingDemoProps
    PipelineFaults LazyBenchmark MatmulProps
begin

text \<open>
  Verification of the Python package metal-native (\<^verbatim>\<open>python/metal_native\<close>), of the C++ core that its
  tensors and memory functions rest on, of the command pipeline through which all work reaches the GPU, of its regression
  benchmark and of the example programs.

  \<^bold>\<open>The program.\<close> The package offers tensors on Apple GPUs with a PyTorch-like interface. A Python
  object holds a handle of the extension module \<open>_C\<close> (\<^verbatim>\<open>bindings/bind_core.cpp\<close>), whose functions work
  on C++ tensors (\<^verbatim>\<open>src/core\<close>, \<^verbatim>\<open>src/ops\<close>); buffers come from a caching allocator over a pool of Metal
  heaps (\<^verbatim>\<open>src/memory\<close>), and every operation encodes its commands in a buffer of the command pipeline
  (\<^verbatim>\<open>src/dispatch\<close>), which several threads share with the completion handlers of the GPU. On the tensors rest optimizers, layers, the exchange with PyTorch and the
  Accelerate plugin; device queries, profiling, configuration and the lazy namespace of the
  package stand beside them. The benchmark runner times the package, compares its results with stored
  baselines and reports; the examples train, generate and infer with models written on top of NumPy and
  the package, and one more benchmark measures pretrained language models.

  \<^bold>\<open>Conventions.\<close> A Python exception is a value: a result is \<open>pyexc + 'a\<close>, and an operation that changes
  state is a function from the state to a result and the new state, which is also given when it
  raises (theory Prelude). A Python float is a real number, so rounding is not modelled; Python
  integers are unbounded; \<open>int64_t\<close> and \<open>size_t\<close> arithmetic of the C++ code is written with its wrap-around
  (\<open>s64\<close>, \<open>mod 2 ^ 64\<close>). A dictionary is an association list in insertion order. The text of a message is
  the code's where it is a literal; interpolated floats are left as the name in braces. Code
  outside the repository (NumPy, PyTorch, Metal, git, clocks, the file system) is a parameter of the
  definitions, and what is relied on of it is a locale with a reference instance. Where threads meet, code is a tree of
  atomic actions, a system is a list of such threads beside an environment, and a step is an action of one of them.

  \<^bold>\<open>The theories.\<close>
  \<^item> Prelude, PyData: exceptions, state computations, the extension module present or absent,
    dictionaries (locale \<open>key_store\<close>), Python strings, number formats and JSON values.
  \<^item> Dtypes (\<^verbatim>\<open>dtypes.py\<close>): the descriptors and the three tables, the conversions from and to NumPy names.
  \<^item> Native (\<^verbatim>\<open>bind_core.cpp\<close>, \<^verbatim>\<open>shape.cpp\<close>, \<^verbatim>\<open>tensor.cpp\<close>, \<^verbatim>\<open>buffer.mm\<close>, \<^verbatim>\<open>dtype.cpp\<close>, \<^verbatim>\<open>reduction.mm\<close>, \<^verbatim>\<open>elementwise.mm\<close>): shapes,
    strides, broadcasting, allocation with the checks of a buffer's size, reshape, the element-wise and reduction dispatch with their
    kernels as functions of the buffers (a read past the end of a buffer gives an unknown value),
    conversion from and to arrays, which have a memory and strides besides their elements. Reductions: whole-tensor reductions as repeated reductions of
    the last dimension (locale \<open>last_axis_reduction\<close>, interpreted for sum, mean and maximum).
    Matmul, MatmulProps (\<^verbatim>\<open>matmul.mm\<close>): the checks of the matrix multiplication, the choice of its kernel and the path on
    the CPU, over the contract of BLAS (\<open>blas_laws\<close>).
  \<^item> Tensors (\<^verbatim>\<open>tensor.py\<close>): the class with its shape and dtype caches, every method and factory, over
    the records \<open>native_api\<close>, \<open>numpy_api\<close> and \<open>torch_api\<close>; \<open>cpp_api\<close> is the C++ core as such an extension.
    NumpyRef: the contract of NumPy (\<open>numpy_laws\<close>) and a reference NumPy. TensorLaws: the contract of the
    extension (\<open>native_laws\<close>), proved of the C++ core, and the methods that rest on both. TensorProps,
    ArithProps, BridgeProps: the properties.
  \<^item> OptimBase, Adam, AdamProps (\<^verbatim>\<open>optim/adam.py\<close>) and Sgd (\<^verbatim>\<open>optim/sgd.py\<close>): parameters as a heap of objects
    with gradients, optimizer state as dictionaries, the step as the loop over groups and
    parameters; the locale \<open>param_loop\<close> lifts what one parameter's update does to the loop and is
    interpreted on both optimizers, \<open>array_laws\<close> is the array arithmetic relied on.
  \<^item> HeapManager (\<^verbatim>\<open>heap_manager.mm\<close>), HeapRefinement, SmartAllocator (\<^verbatim>\<open>allocator.mm\<close>), AllocatorProps: the heaps
    with their free lists, and the size-class cache above them. A run is an explicit sequence of
    operations, because each holds its mutex. What Metal grants is a parameter of each request. The counters are integers, of which the program
    keeps the value modulo \<open>2 ^ 64\<close>.
  \<^item> Runtime (\<^verbatim>\<open>device.py\<close>, \<^verbatim>\<open>utils.py\<close>), RuntimeProps: the queries on an extension that may be absent, and
    the functions of the binding they call, on a state with the device and the allocator.
  \<^item> Nn (\<^verbatim>\<open>nn\<close>), LayerProps; Interop (\<^verbatim>\<open>interop.py\<close>, \<^verbatim>\<open>dlpack_bridge.py\<close>), Accelerate (\<^verbatim>\<open>accelerate_plugin.py\<close>),
    InteropProps: layers, activations, the exchange with PyTorch (\<open>torch_laws\<close>) and the preparation
    of models (\<open>register_laws\<close>).
  \<^item> Config (\<^verbatim>\<open>config.py\<close>): the sections, dictionaries, files and the environment as sources.
  \<^item> Profiling (\<^verbatim>\<open>profiling.py\<close>), ProfilingProps: traces, counters, the memory report.
  \<^item> Package (\<^verbatim>\<open>__init__.py\<close>, \<^verbatim>\<open>_metallib.py\<close>), PackageProps: lazy names, installation check, shader search.
  \<^item> Baselines (\<^verbatim>\<open>baseline_manager.py\<close>), Regression and Runner (\<^verbatim>\<open>regression_runner.py\<close>), Report
    (\<^verbatim>\<open>report_generator.py\<close>), BenchProps, RunnerProps: a directory of files, links and folders, timed benchmarks as
    traces of events, statistics and comparison, the three reports, whose file may not be writable, and the program from its arguments to its exit status.
  \<^item> ExampleBase: the session of a program (random generator or device, clock, text printed), its host, and
    computations that always give a value. LlmGeneration, LlmProps (\<^verbatim>\<open>llm_generation.py\<close>): a transformer and
    sampling, over NumPy's random numbers (\<open>np_sampling\<close>). MnistTraining, MnistProps (\<^verbatim>\<open>mnist_training.py\<close>): a classifier on
    the package's tensors, epochs and evaluation. Resnet, ResnetProps (\<^verbatim>\<open>resnet_inference.py\<close>). ModernModels,
    ModernProps (\<^verbatim>\<open>benchmark_modern_models.py\<close>): the benchmark over PyTorch and transformers, whose contract is \<open>lab_laws\<close>.
    Huggingface, HuggingfaceProps (\<^verbatim>\<open>huggingface_integration.py\<close>, contract \<open>hf_laws\<close>) and ProfilingDemo,
    ProfilingDemoProps (\<^verbatim>\<open>profiling_demo.py\<close>): the demonstrations.
  \<^item> Threads, ThreadLaws: code of threads, their interleaving and the laws that the pipeline is proved with (locales
    \<open>ending_env\<close>, \<open>kept\<close>, \<open>ledger\<close>, \<open>lockstep\<close>). Pipeline (\<^verbatim>\<open>command_pipeline.mm\<close>, \<^verbatim>\<open>backpressure.cpp\<close>, the synchronisation of
    \<^verbatim>\<open>device.mm\<close> and the pipeline's use in \<^verbatim>\<open>elementwise.mm\<close> and \<^verbatim>\<open>kv_cache.mm\<close>): one definition per method. PipelineInv:
    invariants under all interleavings (locales \<open>pipe_code\<close>, \<open>pipe_kept\<close>) and the account of the slots. PipelineRuns, PipelineOps, PipelineThread: what each method
    and each program does for one thread beside the GPU, and the placement of calls that the header describes.
    PipelineProps, PipelineFaults: the properties and the runs that block or provoke a fault. LazyBenchmark
    (\<^verbatim>\<open>benchmark_model_ops.py\<close>): the timing loops of a benchmark on top of it, one benchmark after the other on the same counter.

  \<^bold>\<open>What the theorems show.\<close> A step of Adam, AdamW or SGD advances every element by the published recurrence
  and touches nothing else, and on a constant gradient has its closed form. The allocator's statistics are
  exact and its live blocks disjoint, as long as the cache is emptied only when the empty heaps are the last
  ones; otherwise two live tensors can share memory, and a run that shows it is given. The heap manager
  refines a set of free bytes under the same condition, loses the bytes of a buffer that Metal refuses, and no others.
  Arrays with elements round-trip through tensors for all contents exactly when their strides are C-contiguous, those without elements
  raise, and PyTorch tensors round-trip when their memory is C-contiguous; transposition, reshape, reductions and same-shape
  arithmetic compute what they document, while arithmetic with numbers and with broadcasting (the bias
  of \<open>Linear\<close>) reads past the smaller operand. Configuration and baselines round-trip, with the exceptions
  stated (a label that names a missing folder is refused). Matrices are multiplied correctly on the CPU with equal batch dimensions, but \<open>Linear\<close> on batches reads past its weight. The profiler ends every trace it begins, and is unavailable with the shipped
  extension. The benchmark statistics are consistent and the verdicts monotone; a run of the runner that ends well
  under \<open>--fail-on-regression\<close> has no result slower than the baseline it loaded beyond the threshold, but a run that also
  saves under the default settings loads what it has just saved. Generation ends with a text of known tokens, sampling
  keeps to the largest logits and masked attention to the past; the evaluation of the classifier is the mean of
  its batches, not of its samples, and its training changes nothing; the ResNet example cannot succeed; the
  benchmark of language models reports every model whatever fails, and failures of the libraries stay inside
  their demonstrations. In the command pipeline no more buffers are ever in flight than there are slots, whatever the threads do; a
  thread alone that places its calls as documented always finishes, without a fault and with its work in order, and
  \<open>synchronize\<close> of the pipeline waits for all of it. The synchronisation that Python calls does not: in lazy mode it waits for nothing,
  and a benchmark that relies on it times nothing until the operations of all benchmarks together reach the threshold. Two threads can block each other for good, and so can failed commits.

  \<^bold>\<open>Bounds and termination.\<close> Shapes of tensors are assumed to have fewer than \<open>2 ^ 63\<close> elements (\<open>fits\<close>), and
  kernels take at most \<open>2 ^ 32 - 1\<close>; allocations are followed up to \<open>2 ^ 63\<close> bytes, beyond which the loop
  of the size classes does not end: it is a \<open>partial_function\<close> whose value is then \<open>None\<close>. All
  other loops are structural recursion, over lists or over the counts that the programs give, and no fuel is used. A wait of a
  thread is an action with a guard, and that a thread finishes is proved of its interleavings with the GPU.

  \<^bold>\<open>Not modelled.\<close> GPU kernels other than the element-wise and reduction ones, the C++ operations that launch them (of matmul the GPU paths), graph
  compilation and inference engine (no interface of the Python
  package reaches their logic except as single calls, which are parameters); Metal beyond the log of what is asked of it; the worker
  thread, the recorder of indirect command buffers and the events of \<^verbatim>\<open>src/dispatch\<close> (nothing uses them); floating-point rounding;
  the allocator's read-only heap statistics; command lines
  (programs start from their parsed arguments); the chart generators and the other benchmark scripts (printing and plotting, except \<open>bench_mn\<close>);
  \<^verbatim>\<open>scripts/generate_stubs.py\<close>, which does not parse.
\<close>

end
